(* ===== verification/Prelude.thy ===== *)
theory Prelude
  imports Complex_Main "HOL-Library.AList" "HOL-Library.Multiset"
begin

text \<open>
  Shared vocabulary of the development: the theorem collections the components add their
  facts to, the error monad used wherever the Python code raises, Python's rounding and
  truncation of numbers, and generic lemmas on lists, maps and consecutive ranges.
\<close>

named_theorems py_eval \<open>evaluation of Python operations on known arguments\<close>
named_theorems acct \<open>accounting facts of the counters\<close>
named_theorems step_simps \<open>how one atomic step changes the observed quantities\<close>

section \<open>Errors as values\<close>

text \<open>
  A computation that may raise returns a sum: the exception on the left, the result on the
  right. \<open>ebind\<close> runs the continuation only when nothing was raised; \<open>emap\<close> is the
  list comprehension whose body may raise: the first exception wins, left to right.
\<close>

definition ebind :: "'e + 'a \<Rightarrow> ('a \<Rightarrow> 'e + 'b) \<Rightarrow> 'e + 'b" where
  "ebind m f = (case m of Inl e \<Rightarrow> Inl e | Inr x \<Rightarrow> f x)"

lemma ebind_simps [simp, py_eval]:
  "ebind (Inl e) f = Inl e"
  "ebind (Inr x) f = f x"
  by (simp_all add: ebind_def)

lemma ebind_eq_Inr [simp]:
  "ebind m f = Inr y \<longleftrightarrow> (\<exists>x. m = Inr x \<and> f x = Inr y)"
  by (cases m) simp_all

fun emap :: "('a \<Rightarrow> 'e + 'b) \<Rightarrow> 'a list \<Rightarrow> 'e + 'b list" where
  "emap f [] = Inr []"
| "emap f (x # xs) = ebind (f x) (\<lambda>y. ebind (emap f xs) (\<lambda>ys. Inr (y # ys)))"

lemma emap_length: "emap f xs = Inr ys \<Longrightarrow> length ys = length xs"
  by (induction xs arbitrary: ys) auto

lemma emap_nth: "emap f xs = Inr ys \<Longrightarrow> i < length xs \<Longrightarrow> f (xs ! i) = Inr (ys ! i)"
  by (induction xs arbitrary: ys i) (auto simp: nth_Cons split: nat.splits)

lemma emap_set: "emap f xs = Inr ys \<Longrightarrow> y \<in> set ys \<Longrightarrow> \<exists>x \<in> set xs. f x = Inr y"
  by (induction xs arbitrary: ys) auto

definition guard_or :: "bool \<Rightarrow> 'e \<Rightarrow> 'e + unit" where
  \<comment> \<open>\<open>if not ok: raise e\<close>\<close>
  "guard_or ok e = (if ok then Inr () else Inl e)"

lemma guard_or_simps [simp, py_eval]:
  "guard_or True e = Inr ()"
  "guard_or False e = Inl e"
  "guard_or ok e = Inr u \<longleftrightarrow> ok"
  by (auto simp: guard_or_def)

section \<open>Python's numeric conversions on exact numbers\<close>

definition py_trunc :: "rat \<Rightarrow> int" where
  \<comment> \<open>\<open>int(x)\<close> of a finite float: toward zero.\<close>
  "py_trunc x = (if x < 0 then - \<lfloor>- x\<rfloor> else \<lfloor>x\<rfloor>)"

definition py_round :: "rat \<Rightarrow> int" where
  \<comment> \<open>\<open>round(x)\<close>: to the nearest integer, ties to the even one.\<close>
  "py_round x =
     (let f = \<lfloor>x\<rfloor>; d = x - of_int f
      in if d < 1/2 then f else if 1/2 < d then f + 1 else if even f then f else f + 1)"

lemma py_trunc_nonneg: "0 \<le> x \<Longrightarrow> py_trunc x = \<lfloor>x\<rfloor>"
  by (simp add: py_trunc_def)

lemma py_trunc_pos: "0 < py_trunc x \<longleftrightarrow> 1 \<le> x"
proof (cases "x < 0")
  case True
  then have "0 \<le> \<lfloor>- x\<rfloor>" by simp
  with True show ?thesis by (simp add: py_trunc_def)
next
  case False
  then show ?thesis by (simp add: py_trunc_def)
qed

lemma py_trunc_of_int [simp, py_eval]: "py_trunc (of_int i) = i"
proof -
  have "\<lfloor>- (of_int i :: rat)\<rfloor> = - i" by (metis floor_of_int of_int_minus)
  then show ?thesis by (simp add: py_trunc_def)
qed

lemma py_round_bounds: "x - 1/2 \<le> of_int (py_round x)" "of_int (py_round x) \<le> x + 1/2"
proof -
  have "of_int \<lfloor>x\<rfloor> \<le> x" "x < of_int \<lfloor>x\<rfloor> + 1" by linarith+
  then show "x - 1/2 \<le> of_int (py_round x)" "of_int (py_round x) \<le> x + 1/2"
    unfolding py_round_def Let_def by (simp_all split: if_split) linarith+
qed

lemma py_round_of_int [simp, py_eval]: "py_round (of_int i) = i"
  by (simp add: py_round_def)

lemma py_round_mono: "x \<le> y \<Longrightarrow> py_round x \<le> py_round y"
proof -
  assume xy: "x \<le> y"
  then have fl: "\<lfloor>x\<rfloor> \<le> \<lfloor>y\<rfloor>" by (rule floor_mono)
  have up: "py_round z \<le> \<lfloor>z\<rfloor> + 1" and lo: "\<lfloor>z\<rfloor> \<le> py_round z" for z
    by (simp_all add: py_round_def Let_def)
  show ?thesis
  proof (cases "\<lfloor>x\<rfloor> = \<lfloor>y\<rfloor>")
    case True
    with xy show ?thesis by (auto simp: py_round_def Let_def)
  next
    case False
    with fl have "\<lfloor>x\<rfloor> + 1 \<le> \<lfloor>y\<rfloor>" by simp
    with up [of x] lo [of y] show ?thesis by linarith
  qed
qed

section \<open>Lists and maps\<close>

lemma sum_list_map_mono:
  fixes f g :: "'a \<Rightarrow> int"
  shows "(\<And>x. x \<in> set xs \<Longrightarrow> f x \<le> g x) \<Longrightarrow> sum_list (map f xs) \<le> sum_list (map g xs)"
  by (induction xs) fastforce+

lemma sum_list_update:
  fixes xs :: "'a::ab_group_add list"
  shows "i < length xs \<Longrightarrow> sum_list (xs[i := v]) = sum_list xs - xs ! i + v"
proof (induction xs arbitrary: i)
  case (Cons x xs)
  then show ?case by (cases i) (simp_all add: algebra_simps)
qed simp

lemma mset_list_update:
  "i < length xs \<Longrightarrow> mset (xs[i := v]) = add_mset v (mset xs - {# xs ! i #})"
  by (simp add: mset_update)

lemma map_of_update [simp]: "map_of (AList.update k v d) k' = (if k' = k then Some v else map_of d k')"
  by (simp add: update_conv')

section \<open>Consecutive ranges\<close>

text \<open>
  \<open>tiles a rs b\<close>: the ranges \<open>(start, count)\<close> follow each other without gap or overlap
  from \<open>a\<close> up to, not including, \<open>b\<close>. The ranges of record sequence numbers handed out
  by the generator tile the numbers used so far.
\<close>

fun tiles :: "int \<Rightarrow> (int \<times> int) list \<Rightarrow> int \<Rightarrow> bool" where
  "tiles a [] b \<longleftrightarrow> a = b"
| "tiles a ((s, n) # rs) b \<longleftrightarrow> s = a \<and> 0 \<le> n \<and> tiles (a + n) rs b"

definition covered_by :: "(int \<times> int) list \<Rightarrow> int list" where
  \<comment> \<open>All the numbers of the ranges, in order.\<close>
  "covered_by rs = concat (map (\<lambda>(s, n). [s .. s + n - 1]) rs)"

lemma tiles_le: "tiles a rs b \<Longrightarrow> a \<le> b"
  by (induction rs arbitrary: a) force+

lemma tiles_snoc: "tiles a (rs @ [(s, n)]) b \<longleftrightarrow> tiles a rs s \<and> 0 \<le> n \<and> b = s + n"
  by (induction rs arbitrary: a) auto

lemma tiles_append: "tiles a (rs @ qs) b \<longleftrightarrow> (\<exists>m. tiles a rs m \<and> tiles m qs b)"
  by (induction rs arbitrary: a) auto

lemma tiles_count: "tiles a rs b \<Longrightarrow> sum_list (map snd rs) = b - a"
  by (induction rs arbitrary: a) force+

lemma upto_append: "a \<le> m \<Longrightarrow> m \<le> b \<Longrightarrow> [a .. m - 1] @ [m .. b - 1] = [a .. b - (1::int)]"
  by (metis add.commute diff_add_cancel diff_mono order_refl upto_split1 upto_split2 zle_diff1_eq
      zless_add1_eq upto_empty append_Nil append_Nil2 le_less)

lemma tiles_covered: "tiles a rs b \<Longrightarrow> covered_by rs = [a .. b - 1]"
proof (induction rs arbitrary: a)
  case (Cons r rs)
  obtain s n where r: "r = (s, n)" by (cases r)
  with Cons.prems have t: "s = a" "0 \<le> n" "tiles (a + n) rs b" by auto
  then have "covered_by rs = [a + n .. b - 1]" by (intro Cons.IH)
  moreover have "[a .. a + n - 1] @ [a + n .. b - 1] = [a .. b - 1]"
    using t tiles_le [OF t(3)] by (intro upto_append) auto
  ultimately show ?case using r t by (simp add: covered_by_def)
qed (simp add: covered_by_def)

end
