(* ===== verification/PyVal.thy ===== *)
theory PyVal
  imports Prelude
begin

text \<open>
  The dynamic values the Python code passes around: what \<open>yaml.safe_load\<close> and
  \<open>json.loads\<close> return, with the conversions \<open>float()\<close>, \<open>int()\<close>, \<open>str()\<close>,
  truthiness and dictionary access the code applies to them. A finite float is an exact
  rational (rounding to 53 bits is not modelled); infinities and NaN are values of their own,
  because they pass comparisons in ways the code depends on. Dictionaries keep insertion
  order, as Python's do, so they are association lists; keys are strings or integers.
\<close>

section \<open>Floats\<close>

datatype pyfloat = Fin rat | PosInf | NegInf | NaN

fun fneg :: "pyfloat \<Rightarrow> pyfloat" where
  "fneg (Fin a) = Fin (- a)"
| "fneg PosInf = NegInf"
| "fneg NegInf = PosInf"
| "fneg NaN = NaN"

fun fadd :: "pyfloat \<Rightarrow> pyfloat \<Rightarrow> pyfloat" where
  "fadd (Fin a) (Fin b) = Fin (a + b)"
| "fadd NaN _ = NaN"
| "fadd _ NaN = NaN"
| "fadd PosInf NegInf = NaN"
| "fadd NegInf PosInf = NaN"
| "fadd PosInf _ = PosInf"
| "fadd _ PosInf = PosInf"
| "fadd NegInf _ = NegInf"
| "fadd _ NegInf = NegInf"

definition fsub :: "pyfloat \<Rightarrow> pyfloat \<Rightarrow> pyfloat" where
  "fsub a b = fadd a (fneg b)"

definition inf_of_sign :: "rat \<Rightarrow> pyfloat" where
  "inf_of_sign s = (if s = 0 then NaN else if 0 < s then PosInf else NegInf)"

fun fmul :: "pyfloat \<Rightarrow> pyfloat \<Rightarrow> pyfloat" where
  "fmul (Fin a) (Fin b) = Fin (a * b)"
| "fmul NaN _ = NaN"
| "fmul _ NaN = NaN"
| "fmul (Fin a) PosInf = inf_of_sign a"
| "fmul (Fin a) NegInf = inf_of_sign (- a)"
| "fmul PosInf (Fin a) = inf_of_sign a"
| "fmul NegInf (Fin a) = inf_of_sign (- a)"
| "fmul PosInf PosInf = PosInf"
| "fmul NegInf NegInf = PosInf"
| "fmul PosInf NegInf = NegInf"
| "fmul NegInf PosInf = NegInf"

text \<open>Comparisons: every comparison with NaN is false, also equality.\<close>

fun flt :: "pyfloat \<Rightarrow> pyfloat \<Rightarrow> bool" where
  "flt (Fin a) (Fin b) = (a < b)"
| "flt NaN _ = False"
| "flt _ NaN = False"
| "flt NegInf NegInf = False"
| "flt NegInf _ = True"
| "flt _ PosInf = True"
| "flt _ _ = False"

fun feq :: "pyfloat \<Rightarrow> pyfloat \<Rightarrow> bool" where
  "feq NaN _ = False"
| "feq a b = (a = b)"

definition fle :: "pyfloat \<Rightarrow> pyfloat \<Rightarrow> bool" where
  "fle a b = (flt a b \<or> feq a b)"

text \<open>\<open>min(a, b)\<close> and \<open>max(a, b)\<close> keep the first argument unless the second one beats it.\<close>

definition fmin :: "pyfloat \<Rightarrow> pyfloat \<Rightarrow> pyfloat" where
  "fmin a b = (if flt b a then b else a)"

definition fmax :: "pyfloat \<Rightarrow> pyfloat \<Rightarrow> pyfloat" where
  "fmax a b = (if flt a b then b else a)"

lemma flt_Fin_0 [simp]: "PosInf \<noteq> Fin x" "flt PosInf (Fin x) = False" "flt (Fin x) PosInf = True"
  "flt (Fin x) NegInf = False" "flt NegInf (Fin x) = True"
  by simp_all

lemma fle_Fin [simp, py_eval]: "fle (Fin a) (Fin b) = (a \<le> b)"
  by (auto simp: fle_def)

lemma fmin_Fin [simp, py_eval]: "fmin (Fin a) (Fin b) = Fin (min a b)"
  by (auto simp: fmin_def min_def)

lemma fmax_Fin [simp, py_eval]: "fmax (Fin a) (Fin b) = Fin (max a b)"
  by (auto simp: fmax_def max_def)

lemma fsub_Fin [simp, py_eval]: "fsub (Fin a) (Fin b) = Fin (a - b)"
  by (simp add: fsub_def)

lemma nan_compares [simp, py_eval]:
  "flt NaN x = False" "flt x NaN = False" "feq x NaN = False" "fle NaN x = False"
  "fle x NaN = False" "fadd NaN x = NaN" "fadd x NaN = NaN" "fsub NaN x = NaN" "fsub x NaN = NaN"
  by (cases x; simp add: fle_def fsub_def)+

section \<open>Exceptions\<close>

text \<open>
  \<open>ConfigError\<close> carries what its message says; the other exceptions are the built-in ones
  by class. \<open>ConfigError\<close> is a subclass of \<open>ValueError\<close>, not the other way round: a
  handler for \<open>ConfigError\<close> does not catch the plain \<open>ValueError\<close> of \<open>int('abc')\<close>.
\<close>

datatype pykey = KStr string | KInt int

datatype pyval =
    PNone
  | PBool bool
  | PInt int
  | PFloat pyfloat
  | PStr string
  | PList "pyval list"
  | PDict "(pykey \<times> pyval) list"

type_synonym pydict = "(pykey \<times> pyval) list"

datatype cfg_problem =
    MissingGenerator
  | UnknownProfile string
  | RequiredMissing string string
  | NotANumber string pyval
  | NotPositive string pyfloat
  | HostNotExpanded string
  | SecretNotExpanded
  | BadRetryMode string
  | WorkersExceedInflight int int

datatype pyexn =
    ConfigError cfg_problem
  | TypeError
  | ValueError
  | OverflowError
  | ZeroDivisionError
  | KeyError
  | AttributeError
  | IndexError
  | RuntimeError

definition fdiv :: "pyfloat \<Rightarrow> pyfloat \<Rightarrow> pyexn + pyfloat" where
  \<comment> \<open>\<open>a / b\<close>: a zero divisor raises, whatever \<open>a\<close> is.\<close>
  "fdiv a b =
     (case b of
        Fin y \<Rightarrow> (if y = 0 then Inl ZeroDivisionError else Inr (fmul a (Fin (1 / y))))
      | NaN \<Rightarrow> Inr NaN
      | _ \<Rightarrow> Inr (case a of Fin _ \<Rightarrow> Fin 0 | _ \<Rightarrow> NaN))"

lemma fdiv_Fin [simp, py_eval]:
  "fdiv (Fin a) (Fin b) = (if b = 0 then Inl ZeroDivisionError else Inr (Fin (a / b)))"
  by (simp add: fdiv_def)

section \<open>Text\<close>

definition is_digit :: "char \<Rightarrow> bool" where
  "is_digit c = (c \<in> set ''0123456789'')"

definition is_space :: "char \<Rightarrow> bool" where
  "is_space c = (of_char c \<in> {9 :: nat, 10, 11, 12, 13, 28, 29, 30, 31, 32})"

definition digit_val :: "char \<Rightarrow> nat" where
  "digit_val c = of_char c - 48"

definition strip :: "string \<Rightarrow> string" where
  "strip s = rev (dropWhile is_space (rev (dropWhile is_space s)))"

definition to_lower :: "string \<Rightarrow> string" where
  "to_lower s = map (\<lambda>c. if of_char c \<in> {65 :: nat ..< 91} then char_of (of_char c + 32 :: nat) else c) s"

fun infix_of :: "string \<Rightarrow> string \<Rightarrow> bool" where
  \<comment> \<open>\<open>p in s\<close> for strings\<close>
  "infix_of p [] = (p = [])"
| "infix_of p (c # cs) = (take (length p) (c # cs) = p \<or> infix_of p cs)"

text \<open>Digit runs with single underscores between digits, as \<open>int()\<close> and \<open>float()\<close> accept.\<close>

fun more_digits :: "string \<Rightarrow> nat list \<times> string" where
  "more_digits [] = ([], [])"
| "more_digits [c] = (if is_digit c then ([digit_val c], []) else ([], [c]))"
| "more_digits (c # d # cs) =
     (if is_digit c then (let (ds, r) = more_digits (d # cs) in (digit_val c # ds, r))
      else if c = CHR ''_'' \<and> is_digit d
           then (let (ds, r) = more_digits cs in (digit_val d # ds, r))
      else ([], c # d # cs))"

fun scan_digits :: "string \<Rightarrow> nat list \<times> string" where
  "scan_digits [] = ([], [])"
| "scan_digits (c # cs) =
     (if is_digit c then (let (ds, r) = more_digits cs in (digit_val c # ds, r)) else ([], c # cs))"

definition num_of_digits :: "nat list \<Rightarrow> nat" where
  "num_of_digits ds = foldl (\<lambda>a d. 10 * a + d) 0 ds"

fun scan_sign :: "string \<Rightarrow> int \<times> string" where
  "scan_sign [] = (1, [])"
| "scan_sign (c # cs) =
     (if c = CHR ''-'' then (- 1, cs) else if c = CHR ''+'' then (1, cs) else (1, c # cs))"

definition parse_int :: "string \<Rightarrow> int option" where
  "parse_int s =
     (let (sg, u) = scan_sign (strip s); (ds, r) = scan_digits u
      in if ds \<noteq> [] \<and> r = [] then Some (sg * int (num_of_digits ds)) else None)"

definition float_limit :: int where
  \<comment> \<open>Integers of this size and above do not round to a finite double.\<close>
  "float_limit = 2 ^ 1024 - 2 ^ 970"

definition scan_exponent :: "string \<Rightarrow> (int \<times> string) option" where
  \<comment> \<open>An optional exponent; \<open>None\<close> when the letter is there without digits.\<close>
  "scan_exponent s =
     (case s of [] \<Rightarrow> Some (0, [])
      | c # cs \<Rightarrow>
          if c = CHR ''e'' \<or> c = CHR ''E'' then
            (let (sg, u) = scan_sign cs; (ds, r) = scan_digits u
             in if ds = [] then None else Some (sg * int (num_of_digits ds), r))
          else Some (0, s))"

definition pow10 :: "int \<Rightarrow> rat" where
  "pow10 e = (if 0 \<le> e then 10 ^ nat e else 1 / 10 ^ nat (- e))"

definition float_of_rat :: "rat \<Rightarrow> pyfloat" where
  "float_of_rat v =
     (if of_int float_limit \<le> v then PosInf else if v \<le> - of_int float_limit then NegInf else Fin v)"

definition parse_decimal :: "string \<Rightarrow> rat option" where
  "parse_decimal u =
     (let (ip, r1) = scan_digits u;
          (fp, r2) = (case r1 of [] \<Rightarrow> ([], []) | c # cs \<Rightarrow> if c = CHR ''.'' then scan_digits cs else ([], r1))
      in if ip = [] \<and> fp = [] then None
         else case scan_exponent r2 of
             Some (e, []) \<Rightarrow>
               Some (of_nat (num_of_digits (ip @ fp)) * pow10 (e - int (length fp)))
           | _ \<Rightarrow> None)"

definition parse_float :: "string \<Rightarrow> pyfloat option" where
  "parse_float s =
     (let (sg, u) = scan_sign (strip s); w = to_lower u
      in if w = ''inf'' \<or> w = ''infinity'' then Some (if sg < 0 then NegInf else PosInf)
         else if w = ''nan'' then Some NaN
         else map_option (\<lambda>v. float_of_rat (of_int sg * v)) (parse_decimal u))"

section \<open>Decimal rendering of integers\<close>

fun show_nat :: "nat \<Rightarrow> string" where
  "show_nat n =
     (if n < 10 then [char_of (48 + n)] else show_nat (n div 10) @ [char_of (48 + n mod 10)])"

declare show_nat.simps [simp del]

definition show_int :: "int \<Rightarrow> string" where
  "show_int i = (if i < 0 then CHR ''-'' # show_nat (nat (- i)) else show_nat (nat i))"

section \<open>Conversions\<close>

fun truthy :: "pyval \<Rightarrow> bool" where
  "truthy PNone = False"
| "truthy (PBool b) = b"
| "truthy (PInt i) = (i \<noteq> 0)"
| "truthy (PFloat f) = (f \<noteq> Fin 0)"
| "truthy (PStr s) = (s \<noteq> [])"
| "truthy (PList xs) = (xs \<noteq> [])"
| "truthy (PDict d) = (d \<noteq> [])"

definition py_or :: "pyval \<Rightarrow> pyval \<Rightarrow> pyval" where
  "py_or v w = (if truthy v then v else w)"

fun py_float :: "pyval \<Rightarrow> pyexn + pyfloat" where
  "py_float (PBool b) = Inr (Fin (if b then 1 else 0))"
| "py_float (PInt i) = (if float_limit \<le> \<bar>i\<bar> then Inl OverflowError else Inr (Fin (of_int i)))"
| "py_float (PFloat f) = Inr f"
| "py_float (PStr s) = (case parse_float s of None \<Rightarrow> Inl ValueError | Some f \<Rightarrow> Inr f)"
| "py_float _ = Inl TypeError"

fun py_int_of_float :: "pyfloat \<Rightarrow> pyexn + int" where
  "py_int_of_float (Fin x) = Inr (py_trunc x)"
| "py_int_of_float NaN = Inl ValueError"
| "py_int_of_float _ = Inl OverflowError"

fun py_int :: "pyval \<Rightarrow> pyexn + int" where
  "py_int (PBool b) = Inr (if b then 1 else 0)"
| "py_int (PInt i) = Inr i"
| "py_int (PFloat f) = py_int_of_float f"
| "py_int (PStr s) = (case parse_int s of None \<Rightarrow> Inl ValueError | Some i \<Rightarrow> Inr i)"
| "py_int _ = Inl TypeError"

text \<open>
  \<open>str(v)\<close>. How a float or a container prints is the argument \<open>rend\<close>: the code never
  computes with such a text beyond comparing it, and the digits of \<open>repr\<close> are not modelled.
\<close>

fun py_str :: "(pyval \<Rightarrow> string) \<Rightarrow> pyval \<Rightarrow> string" where
  "py_str rend PNone = ''None''"
| "py_str rend (PBool b) = (if b then ''True'' else ''False'')"
| "py_str rend (PInt i) = show_int i"
| "py_str rend (PStr s) = s"
| "py_str rend v = rend v"

section \<open>Dictionaries\<close>

abbreviation dget :: "pydict \<Rightarrow> string \<Rightarrow> pyval option" where
  "dget d k \<equiv> map_of d (KStr k)"

definition dget_or :: "pydict \<Rightarrow> string \<Rightarrow> pyval \<Rightarrow> pyval" where
  \<comment> \<open>\<open>d.get(k, default)\<close>\<close>
  "dget_or d k v = (case dget d k of None \<Rightarrow> v | Some x \<Rightarrow> x)"

fun as_dict :: "pyval \<Rightarrow> pyexn + pydict" where
  \<comment> \<open>The receiver of a \<open>.get\<close> or \<open>.items\<close> call: any other type has no such attribute.\<close>
  "as_dict (PDict d) = Inr d"
| "as_dict _ = Inl AttributeError"

definition wf_dict :: "pydict \<Rightarrow> bool" where
  "wf_dict d = distinct (map fst d)"

lemma dget_or_simps [simp, py_eval]:
  "dget d k = None \<Longrightarrow> dget_or d k v = v"
  "dget d k = Some x \<Longrightarrow> dget_or d k v = x"
  by (simp_all add: dget_or_def)

lemma as_dict_Inr [simp]: "as_dict v = Inr d \<longleftrightarrow> v = PDict d"
  by (cases v) auto

section \<open>Decimal text reads back\<close>

lemma more_digits_all: "\<forall>c \<in> set s. is_digit c \<Longrightarrow> more_digits s = (map digit_val s, [])"
  by (induction s rule: more_digits.induct) auto

lemma scan_digits_all: "\<forall>c \<in> set s. is_digit c \<Longrightarrow> scan_digits s = (map digit_val s, [])"
  by (cases s) (simp_all add: more_digits_all)

lemma num_of_digits_snoc: "num_of_digits (ds @ [d]) = 10 * num_of_digits ds + d"
  by (simp add: num_of_digits_def)

lemma digit_char:
  assumes "d < 10"
  shows "is_digit (char_of (48 + d :: nat))" "digit_val (char_of (48 + d :: nat)) = d"
    "\<not> is_space (char_of (48 + d :: nat))"
proof -
  have "\<forall>d \<in> set [0 ..< 10]. is_digit (char_of (48 + d :: nat))" by code_simp
  with assms show "is_digit (char_of (48 + d :: nat))" by simp
  show "digit_val (char_of (48 + d :: nat)) = d" "\<not> is_space (char_of (48 + d :: nat))"
    using assms by (simp_all add: digit_val_def is_space_def)
qed

lemma show_nat_digits: "\<forall>c \<in> set (show_nat n). is_digit c \<and> \<not> is_space c"
proof (induction n rule: show_nat.induct)
  case (1 n)
  then show ?case
    by (subst show_nat.simps) (auto simp: digit_char)
qed

lemma show_nat_nonempty [simp]: "show_nat n \<noteq> []"
  by (subst show_nat.simps) simp

lemma num_of_show_nat: "num_of_digits (map digit_val (show_nat n)) = n"
proof (induction n rule: show_nat.induct)
  case (1 n)
  show ?case
  proof (cases "n < 10")
    case True
    then show ?thesis by (subst show_nat.simps) (simp add: num_of_digits_def digit_char)
  next
    case False
    with 1 show ?thesis by (subst show_nat.simps) (simp add: num_of_digits_snoc digit_char)
  qed
qed

lemma strip_no_space:
  assumes "\<forall>c \<in> set s. \<not> is_space c"
  shows "strip s = s"
proof -
  have keep: "dropWhile is_space t = t" if "\<forall>c \<in> set t. \<not> is_space c" for t
    using that by (cases t) simp_all
  show ?thesis using assms by (simp add: strip_def keep)
qed

lemma sign_not_digit: "is_digit c \<Longrightarrow> c \<noteq> CHR ''-'' \<and> c \<noteq> CHR ''+''"
  by (auto simp: is_digit_def)

lemma scan_sign_digits: "\<forall>c \<in> set s. is_digit c \<Longrightarrow> scan_sign s = (1, s)"
  by (cases s) (auto dest: sign_not_digit)

lemma parse_show_nat: "parse_int (show_nat n) = Some (int n)"
  using show_nat_digits [of n]
  by (simp add: parse_int_def strip_no_space scan_sign_digits scan_digits_all num_of_show_nat)

lemma parse_int_show_int [simp]: "parse_int (show_int i) = Some i"
proof (cases "i < 0")
  case True
  have "strip (CHR ''-'' # show_nat (nat (- i))) = CHR ''-'' # show_nat (nat (- i))"
    using show_nat_digits [of "nat (- i)"] by (intro strip_no_space) (auto simp: is_space_def)
  with True show ?thesis
    using show_nat_digits [of "nat (- i)"]
    by (simp add: show_int_def parse_int_def scan_digits_all num_of_show_nat)
next
  case False
  then show ?thesis by (simp add: show_int_def parse_show_nat)
qed

lemma show_int_inject [simp]: "show_int i = show_int j \<longleftrightarrow> i = j"
  by (metis option.inject parse_int_show_int)

end
