(* ===== verification/EnvText.thy ===== *)
theory EnvText
  imports PyVal
begin

text \<open>
  Expansion of \<open>${NAME}\<close> in configuration text. \<open>generator/src/config.py\<close> and
  \<open>scripts/lib/cfg.py\<close> each hold the same regular expression and the same substitution;
  the scanner is defined once here and used by both models. The environment is a map from
  names to values; an undefined name leaves its text as it is.
\<close>

type_synonym env = "string \<Rightarrow> string option"

definition is_word :: "char \<Rightarrow> bool" where
  "is_word c = (c \<in> set ''ABCDEFGHIJKLMNOPQRSTUVWXYZabcdefghijklmnopqrstuvwxyz0123456789_'')"

definition is_name :: "string \<Rightarrow> bool" where
  "is_name w = (w \<noteq> [] \<and> (\<forall>c \<in> set w. is_word c) \<and> \<not> is_digit (hd w))"

definition match_var :: "string \<Rightarrow> (string \<times> string) option" where
  \<comment> \<open>After a dollar sign: the name in braces and the text behind it, when the pattern matches.\<close>
  "match_var cs =
     (case cs of [] \<Rightarrow> None
      | b # r \<Rightarrow>
          if b \<noteq> CHR ''{'' then None
          else (let w = takeWhile is_word r; t = dropWhile is_word r
                in if w = [] \<or> is_digit (hd w) then None
                   else case t of [] \<Rightarrow> None
                        | e # t' \<Rightarrow> if e = CHR ''}'' then Some (w, t') else None))"

definition braced :: "string \<Rightarrow> string" where
  "braced w = ''${'' @ w @ ''}''"

lemma match_var_shape:
  "match_var cs = Some (w, t) \<Longrightarrow> cs = CHR ''{'' # w @ CHR ''}'' # t \<and> is_name w"
proof -
  assume m: "match_var cs = Some (w, t)"
  then obtain r where cs: "cs = CHR ''{'' # r"
    by (auto simp: match_var_def split: list.splits if_splits)
  with m have w: "w = takeWhile is_word r" and t: "dropWhile is_word r = CHR ''}'' # t"
    and nz: "w \<noteq> []" "\<not> is_digit (hd w)"
    by (auto simp: match_var_def Let_def split: list.splits if_splits)
  have "r = w @ CHR ''}'' # t" using w t by (metis takeWhile_dropWhile_id)
  moreover have "\<forall>c \<in> set w. is_word c" using w by (auto dest: set_takeWhileD)
  ultimately show ?thesis using cs nz by (simp add: is_name_def)
qed

function env_sub :: "env \<Rightarrow> string \<Rightarrow> string" where
  "env_sub env [] = []"
| "env_sub env (c # cs) =
     (if c = CHR ''$'' then
        (case match_var cs of
           Some (w, t) \<Rightarrow> (case env w of Some v \<Rightarrow> v | None \<Rightarrow> braced w) @ env_sub env t
         | None \<Rightarrow> c # env_sub env cs)
      else c # env_sub env cs)"
  by pat_completeness auto
termination
  by (relation "measure (\<lambda>(_, s). length s)") (auto dest: match_var_shape)

text \<open>With none of its names defined, the text is unchanged.\<close>

lemma env_sub_undefined: "(\<And>w. env w = None) \<Longrightarrow> env_sub env s = s"
proof (induction env s rule: env_sub.induct)
  case (2 env c cs)
  then show ?case
    by (auto simp: braced_def split: option.splits dest: match_var_shape)
qed simp

lemma env_sub_no_dollar: "CHR ''$'' \<notin> set s \<Longrightarrow> env_sub env s = s"
  by (induction s) auto

lemma is_word_facts: "\<not> is_word (CHR ''}'')" "\<not> is_word (CHR ''$'')" "\<not> is_word (CHR ''{'')"
  by (simp_all add: is_word_def)

lemma match_var_braced:
  assumes "is_name w"
  shows "match_var (CHR ''{'' # w @ CHR ''}'' # t) = Some (w, t)"
proof -
  have all: "\<forall>c \<in> set w. is_word c" using assms by (simp add: is_name_def)
  then have "takeWhile is_word (w @ CHR ''}'' # t) = w"
    by (simp add: takeWhile_append2 is_word_facts)
  moreover from all have "dropWhile is_word (w @ CHR ''}'' # t) = CHR ''}'' # t"
    by (simp add: dropWhile_append2 is_word_facts)
  ultimately show ?thesis using assms by (simp add: match_var_def is_name_def)
qed

text \<open>A reference at the front is replaced by its value, and the value is not scanned again.\<close>

lemma env_sub_braced:
  "is_name w \<Longrightarrow> env w = Some v \<Longrightarrow> env_sub env (braced w @ t) = v @ env_sub env t"
  by (simp add: braced_def match_var_braced)

lemma env_sub_prefix:
  "CHR ''$'' \<notin> set p \<Longrightarrow> env_sub env (p @ t) = p @ env_sub env t"
  by (induction p) auto

end
