(* ===== verification/Config.thy ===== *)
theory Config
  imports EnvText
begin

text \<open>
  \<open>generator/src/config.py\<close>: the overlay of command line, profile and defaults, the
  validation of every value, the staircase steps, and the model of the collector that predicts
  whether a rate can be offered. \<open>load\<close> takes what \<open>yaml.safe_load\<close> returned; reading
  the file and parsing YAML are outside. Not modelled: a workload given as a list of pairs,
  which Python's \<open>dict()\<close> would accept (here a \<open>TypeError\<close>).
\<close>

section \<open>Expansion and overlay\<close>

function expand_node :: "env \<Rightarrow> pyval \<Rightarrow> pyval" where
  "expand_node env (PStr s) = PStr (env_sub env s)"
| "expand_node env (PDict d) = PDict (map (\<lambda>p. (fst p, expand_node env (snd p))) d)"
| "expand_node env (PList xs) = PList (map (expand_node env) xs)"
| "expand_node env PNone = PNone"
| "expand_node env (PBool b) = PBool b"
| "expand_node env (PInt i) = PInt i"
| "expand_node env (PFloat f) = PFloat f"
  by pat_completeness auto

lemma size_dict_value: "p \<in> set d \<Longrightarrow> size (snd p) < size (PDict d)"
  by (induction d) (auto simp: size_prod_simp)

termination expand_node
  by (relation "measure (\<lambda>(_, v). size v)")
    (auto dest: size_dict_value simp: less_Suc_eq_le size_list_estimation')

function merge :: "pydict \<Rightarrow> pydict \<Rightarrow> pydict" where
  "merge base [] = base"
| "merge base ((k, v) # rest) =
     merge
       (AList.update k
          (case v of
             PDict over \<Rightarrow>
               (case map_of base k of Some (PDict b) \<Rightarrow> PDict (merge b over) | _ \<Rightarrow> v)
           | _ \<Rightarrow> v)
          base)
       rest"
  by pat_completeness auto
termination
  by (relation "measure (\<lambda>(_, d). size (PDict d))") auto

section \<open>Data\<close>

record step =
  st_index :: int
  st_rps :: pyfloat
  st_duration :: pyfloat

record target =
  tg_host :: string
  tg_port :: int
  tg_tls :: bool
  tg_rpc_timeout :: pyfloat

record auth =
  au_secret_b64 :: string
  au_queue :: string
  au_subject :: string
  au_ttl :: int

datatype retry_mode = RetryNone | RetryPolite

record workload =
  wl_target_rps :: pyfloat
  wl_duration :: pyfloat
  wl_ramp_up :: pyfloat
  wl_ramp_down :: pyfloat
  wl_workers :: int
  wl_channels :: int
  wl_batch :: int
  wl_max_inflight :: int
  wl_retry :: retry_mode
  wl_abort_limit :: int

record pipeline =
  pl_max_delay_ms :: pyfloat
  pl_min_bucket :: int
  pl_record_bytes :: int

record rate_warning =
  rw_step :: int
  rw_ceiling :: pyfloat
  rw_flush :: pyfloat
  rw_need :: int

record generator_config =
  gc_profile :: string
  gc_description :: string
  gc_target :: target
  gc_auth :: auth
  gc_workload :: workload
  gc_steps :: "step list"
  gc_data :: pyval
  gc_output :: pyval
  gc_stop_when :: pyval
  gc_fault :: pyval
  gc_checkpoint :: pyfloat
  gc_pipeline :: pipeline
  gc_warnings :: "rate_warning list"

definition is_staircase :: "generator_config \<Rightarrow> bool" where
  "is_staircase c =
     (1 < length (gc_steps c)
      \<or> (length (gc_steps c) = 1
         \<and> \<not> feq (st_rps (gc_steps c ! 0)) (wl_target_rps (gc_workload c))))"

definition total_duration :: "generator_config \<Rightarrow> pyfloat" where
  "total_duration c = foldl (\<lambda>a s. fadd a (st_duration s)) (Fin 0) (gc_steps c)"

section \<open>The collector's flush model\<close>

definition flush_seconds :: "pipeline \<Rightarrow> pyfloat \<Rightarrow> pyexn + pyfloat" where
  "flush_seconds p offered =
     (if fle offered (Fin 0) then fdiv (pl_max_delay_ms p) (Fin 1000)
      else
        ebind (fdiv (Fin (of_int (pl_min_bucket p)))
                 (fmul offered (Fin (of_int (pl_record_bytes p))))) (\<lambda>fill.
        ebind (fdiv (pl_max_delay_ms p) (Fin 1000)) (\<lambda>delay.
        Inr (fmin delay fill))))"

definition max_reachable_rps :: "pipeline \<Rightarrow> int \<Rightarrow> int \<Rightarrow> pyfloat \<Rightarrow> pyexn + pyfloat" where
  "max_reachable_rps p workers batch offered =
     ebind (flush_seconds p offered) (\<lambda>flush.
     fdiv (Fin (of_int (workers * batch))) (fmax (Fin (1 / 10 ^ 9)) flush))"

fun py_ceil :: "pyfloat \<Rightarrow> pyexn + int" where
  "py_ceil (Fin x) = Inr \<lceil>x\<rceil>"
| "py_ceil NaN = Inl ValueError"
| "py_ceil _ = Inl OverflowError"

section \<open>Validation\<close>

definition require :: "pyval \<Rightarrow> string \<Rightarrow> string \<Rightarrow> pyexn + pyval" where
  \<comment> \<open>The membership test works on strings and lists too; indexing them with a string does not.\<close>
  "require m key loc =
     (case m of
        PDict d \<Rightarrow>
          (case dget d key of
             None \<Rightarrow> Inl (ConfigError (RequiredMissing loc key))
           | Some v \<Rightarrow> if v = PNone \<or> v = PStr [] then Inl (ConfigError (RequiredMissing loc key))
                       else Inr v)
      | PStr s \<Rightarrow> Inl (if infix_of key s then TypeError else ConfigError (RequiredMissing loc key))
      | PList xs \<Rightarrow> Inl (if PStr key \<in> set xs then TypeError else ConfigError (RequiredMissing loc key))
      | _ \<Rightarrow> Inl TypeError)"

definition positive :: "pyval \<Rightarrow> string \<Rightarrow> bool \<Rightarrow> pyexn + pyfloat" where
  "positive v loc allow_zero =
     (case py_float v of
        Inl e \<Rightarrow> Inl (if e = TypeError \<or> e = ValueError then ConfigError (NotANumber loc v) else e)
      | Inr num \<Rightarrow>
          if flt num (Fin 0) \<or> (feq num (Fin 0) \<and> \<not> allow_zero)
          then Inl (ConfigError (NotPositive loc num))
          else Inr num)"

text \<open>\<open>int(_positive(...))\<close>: the check sees the float, the program gets its integer part.\<close>

definition positive_int :: "pyval \<Rightarrow> string \<Rightarrow> pyexn + int" where
  "positive_int v loc = ebind (positive v loc False) py_int_of_float"

abbreviation contains_open :: "string \<Rightarrow> bool" where
  "contains_open \<equiv> infix_of ''${''"

definition parse_target :: "(pyval \<Rightarrow> string) \<Rightarrow> pyval \<Rightarrow> pyexn + target" where
  "parse_target rend tv =
     ebind (require tv ''host'' ''generator.target'') (\<lambda>h.
     ebind (require tv ''port'' ''generator.target'') (\<lambda>pv.
     ebind (py_int pv) (\<lambda>port.
     ebind (as_dict tv) (\<lambda>tgt.
     ebind (positive (dget_or tgt ''rpc_timeout_seconds'' (PInt 60))
              ''generator.target.rpc_timeout_seconds'' False) (\<lambda>tmo.
     ebind (guard_or (\<not> contains_open (py_str rend h)) (ConfigError (HostNotExpanded (py_str rend h)))) (\<lambda>_.
     Inr \<lparr>tg_host = py_str rend h, tg_port = port,
          tg_tls = truthy (dget_or tgt ''tls'' (PBool False)), tg_rpc_timeout = tmo\<rparr>))))))"

definition parse_auth :: "(pyval \<Rightarrow> string) \<Rightarrow> pyval \<Rightarrow> pyexn + auth" where
  "parse_auth rend av =
     ebind (require av ''secret_b64'' ''generator.auth'') (\<lambda>sv.
     ebind (guard_or (\<not> contains_open (py_str rend sv)) (ConfigError SecretNotExpanded)) (\<lambda>_.
     ebind (require av ''ingestion_queue'' ''generator.auth'') (\<lambda>q.
     ebind (as_dict av) (\<lambda>au.
     ebind (py_int (dget_or au ''token_ttl_seconds'' (PInt 3600))) (\<lambda>ttl.
     Inr \<lparr>au_secret_b64 = py_str rend sv, au_queue = py_str rend q,
          au_subject = py_str rend (dget_or au ''subject'' (PStr ''bench-generator'')),
          au_ttl = ttl\<rparr>)))))"

definition parse_retry :: "string \<Rightarrow> pyexn + retry_mode" where
  "parse_retry s =
     (if s = ''none'' then Inr RetryNone
      else if s = ''polite'' then Inr RetryPolite
      else Inl (ConfigError (BadRetryMode s)))"

definition parse_workload :: "(pyval \<Rightarrow> string) \<Rightarrow> pydict \<Rightarrow> pyexn + workload" where
  "parse_workload rend w =
     ebind (parse_retry (to_lower (py_str rend (dget_or w ''retry_mode'' (PStr ''none''))))) (\<lambda>retry.
     ebind (positive (dget_or w ''target_rps'' (PInt 0)) ''workload.target_rps'' False) (\<lambda>rps.
     ebind (positive (dget_or w ''duration_seconds'' (PInt 60)) ''workload.duration_seconds'' False) (\<lambda>dur.
     ebind (positive (dget_or w ''ramp_up_seconds'' (PInt 0)) ''workload.ramp_up_seconds'' True) (\<lambda>up.
     ebind (positive (dget_or w ''ramp_down_seconds'' (PInt 0)) ''workload.ramp_down_seconds'' True) (\<lambda>down.
     ebind (positive_int (dget_or w ''workers'' (PInt 8)) ''workload.workers'') (\<lambda>workers.
     ebind (positive_int (dget_or w ''channels'' (PInt 1)) ''workload.channels'') (\<lambda>channels.
     ebind (positive_int (dget_or w ''batch_size'' (PInt 100)) ''workload.batch_size'') (\<lambda>batch.
     ebind (positive_int (dget_or w ''max_inflight'' (PInt 64)) ''workload.max_inflight'') (\<lambda>inflight.
     ebind (py_int (py_or (dget_or w ''abort_on_consecutive_failures'' (PInt 0)) (PInt 0))) (\<lambda>abort_n.
     ebind (guard_or (workers \<le> inflight) (ConfigError (WorkersExceedInflight workers inflight))) (\<lambda>_.
     Inr \<lparr>wl_target_rps = rps, wl_duration = dur, wl_ramp_up = up, wl_ramp_down = down,
          wl_workers = workers, wl_channels = channels, wl_batch = batch,
          wl_max_inflight = inflight, wl_retry = retry, wl_abort_limit = abort_n\<rparr>)))))))))))"

section \<open>Steps and warnings\<close>

definition build_step :: "nat \<times> pyval \<Rightarrow> pyexn + step" where
  "build_step iv =
     ebind (as_dict (snd iv)) (\<lambda>s.
     ebind (positive (dget_or s ''rps'' PNone)
              (''profiles.steps['' @ show_nat (fst iv) @ ''].rps'') False) (\<lambda>rps.
     ebind (positive (dget_or s ''duration_seconds'' PNone)
              (''profiles.steps['' @ show_nat (fst iv) @ ''].duration_seconds'') False) (\<lambda>dur.
     Inr \<lparr>st_index = int (fst iv), st_rps = rps, st_duration = dur\<rparr>)))"

definition build_steps :: "pyval \<Rightarrow> workload \<Rightarrow> pyexn + step list" where
  "build_steps raw wl =
     (if \<not> truthy raw
      then Inr [\<lparr>st_index = 0, st_rps = wl_target_rps wl, st_duration = wl_duration wl\<rparr>]
      else case raw of
          PList xs \<Rightarrow> emap build_step (enumerate 0 xs)
        | PDict _ \<Rightarrow> Inl AttributeError
        | PStr _ \<Rightarrow> Inl AttributeError
        | _ \<Rightarrow> Inl TypeError)"

definition py_add_int :: "pyval \<Rightarrow> int \<Rightarrow> pyexn + pyval" where
  \<comment> \<open>\<open>v + n\<close> for an integer literal \<open>n\<close>\<close>
  "py_add_int v n =
     (case v of
        PInt i \<Rightarrow> Inr (PInt (i + n))
      | PBool b \<Rightarrow> Inr (PInt ((if b then 1 else 0) + n))
      | PFloat f \<Rightarrow> Inr (PFloat (fadd f (Fin (of_int n))))
      | _ \<Rightarrow> Inl TypeError)"

definition parse_pipeline :: "pydict \<Rightarrow> pydict \<Rightarrow> pyexn + pipeline" where
  "parse_pipeline pl data =
     ebind (py_float (dget_or pl ''max_delay_ms'' (PInt 5000))) (\<lambda>delay.
     ebind (py_int (dget_or pl ''min_bucket_size'' (PInt 16777216))) (\<lambda>bucket.
     ebind (py_add_int (dget_or data ''body_bytes'' (PInt 256)) 250) (\<lambda>dflt.
     ebind (py_int (dget_or pl ''approx_record_bytes'' dflt)) (\<lambda>bytes.
     Inr \<lparr>pl_max_delay_ms = delay, pl_min_bucket = bucket, pl_record_bytes = bytes\<rparr>))))"

definition step_warning :: "pipeline \<Rightarrow> workload \<Rightarrow> step \<Rightarrow> pyexn + rate_warning option" where
  "step_warning p wl s =
     ebind (max_reachable_rps p (wl_workers wl) (wl_batch wl) (st_rps s)) (\<lambda>ceiling.
     if flt (fmul ceiling (Fin (102 / 100))) (st_rps s) then
       ebind (flush_seconds p (st_rps s)) (\<lambda>flush.
       ebind (fdiv (fmul (st_rps s) flush) (Fin (of_int (wl_batch wl)))) (\<lambda>q.
       ebind (py_ceil q) (\<lambda>need.
       Inr (Some \<lparr>rw_step = st_index s, rw_ceiling = ceiling, rw_flush = flush, rw_need = need\<rparr>))))
     else Inr None)"

fun build_warnings :: "pipeline \<Rightarrow> workload \<Rightarrow> step list \<Rightarrow> pyexn + rate_warning list" where
  "build_warnings p wl [] = Inr []"
| "build_warnings p wl (s # ss) =
     ebind (step_warning p wl s) (\<lambda>w.
     ebind (if wl_max_inflight wl < wl_workers wl then Inr [] else build_warnings p wl ss) (\<lambda>ws.
     Inr ((case w of None \<Rightarrow> [] | Some x \<Rightarrow> [x]) @ ws)))"

section \<open>Loading\<close>

definition drop_none :: "pydict \<Rightarrow> pydict" where
  "drop_none d = filter (\<lambda>p. snd p \<noteq> PNone) d"

definition sub_dict :: "pydict \<Rightarrow> string \<Rightarrow> pyval" where
  \<comment> \<open>\<open>d.get(k) or {}\<close>\<close>
  "sub_dict d k = py_or (dget_or d k PNone) (PDict [])"

definition merged_workload :: "pydict \<Rightarrow> pydict \<Rightarrow> pydict \<Rightarrow> pydict" where
  "merged_workload defaults profile overrides = merge (merge defaults profile) (drop_none overrides)"

definition is_str_key :: "pykey \<Rightarrow> bool" where
  "is_str_key k = (case k of KStr _ \<Rightarrow> True | KInt _ \<Rightarrow> False)"

definition is_str :: "pyval \<Rightarrow> bool" where
  "is_str v = (case v of PStr _ \<Rightarrow> True | _ \<Rightarrow> False)"

definition unknown_profile :: "bool \<Rightarrow> string \<Rightarrow> pyexn" where
  \<comment> \<open>The message joins the sorted names, which raises when one of them is not text.\<close>
  "unknown_profile names_ok profile = (if names_ok then ConfigError (UnknownProfile profile) else TypeError)"

definition select_profile :: "pydict \<Rightarrow> string \<Rightarrow> pyexn + pydict" where
  "select_profile raw profile =
     (case sub_dict raw ''profiles'' of
        PDict ps \<Rightarrow>
          (case dget ps profile of
             None \<Rightarrow> Inl (unknown_profile (list_all (\<lambda>p. is_str_key (fst p)) ps) profile)
           | Some v \<Rightarrow> as_dict (py_or v (PDict [])))
      | PList xs \<Rightarrow>
          Inl (if PStr profile \<in> set xs then TypeError else unknown_profile (list_all is_str xs) profile)
      | PStr s \<Rightarrow> Inl (if infix_of profile s then TypeError else unknown_profile True profile)
      | _ \<Rightarrow> Inl TypeError)"

definition to_mapping :: "pyval \<Rightarrow> pyexn + pydict" where
  "to_mapping v = (case v of PDict d \<Rightarrow> Inr d | PStr _ \<Rightarrow> Inl ValueError | _ \<Rightarrow> Inl TypeError)"

definition load :: "env \<Rightarrow> (pyval \<Rightarrow> string) \<Rightarrow> pyval \<Rightarrow> string \<Rightarrow> pydict \<Rightarrow> pyexn + generator_config" where
  "load env rend yaml profile overrides =
     ebind (as_dict (expand_node env (py_or yaml (PDict [])))) (\<lambda>raw.
     ebind (case dget raw ''generator'' of
              Some (PDict g) \<Rightarrow> Inr g
            | _ \<Rightarrow> Inl (ConfigError MissingGenerator)) (\<lambda>gen.
     ebind (select_profile raw profile) (\<lambda>prof.
     ebind (to_mapping (sub_dict gen ''workload'')) (\<lambda>defaults.
     ebind (as_dict (sub_dict prof ''workload'')) (\<lambda>over.
     ebind (parse_target rend (sub_dict gen ''target'')) (\<lambda>target.
     ebind (parse_auth rend (sub_dict gen ''auth'')) (\<lambda>auth.
     ebind (parse_workload rend (merged_workload defaults over overrides)) (\<lambda>wl.
     ebind (build_steps (dget_or prof ''steps'' PNone) wl) (\<lambda>steps.
     ebind (as_dict (sub_dict gen ''pipeline'')) (\<lambda>pl.
     ebind (as_dict (sub_dict gen ''data'')) (\<lambda>data.
     ebind (parse_pipeline pl data) (\<lambda>pipe.
     ebind (build_warnings pipe wl steps) (\<lambda>warns.
     ebind (py_float (py_or (dget_or prof ''checkpoint_interval_seconds'' (PInt 0)) (PInt 0))) (\<lambda>checkpoint.
     Inr \<lparr>gc_profile = profile,
          gc_description = strip (py_str rend (dget_or prof ''description'' (PStr []))),
          gc_target = target, gc_auth = auth, gc_workload = wl, gc_steps = steps,
          gc_data = sub_dict gen ''data'', gc_output = sub_dict gen ''output'',
          gc_stop_when = sub_dict prof ''stop_when'', gc_fault = sub_dict prof ''fault'',
          gc_checkpoint = checkpoint, gc_pipeline = pipe, gc_warnings = warns\<rparr>))))))))))))))"


section \<open>Overlay: what a key resolves to\<close>

definition overlay :: "pyval option \<Rightarrow> pyval \<Rightarrow> pyval" where
  \<comment> \<open>The value a key has after an overlaid value met an old one.\<close>
  "overlay old v =
     (case v of
        PDict over \<Rightarrow> (case old of Some (PDict b) \<Rightarrow> PDict (merge b over) | _ \<Rightarrow> v)
      | _ \<Rightarrow> v)"

declare merge.simps(2) [simp del]

lemma merge_Cons [simp]:
  "merge base ((k, v) # rest) = merge (AList.update k (overlay (map_of base k) v) base) rest"
  by (simp add: merge.simps(2) overlay_def)

lemma overlay_scalar [simp]:
  "(\<And>d. v \<noteq> PDict d) \<Longrightarrow> overlay old v = v"
  by (cases v) (auto simp: overlay_def)

lemma merge_untouched: "k \<notin> fst ` set over \<Longrightarrow> map_of (merge base over) k = map_of base k"
  by (induction over arbitrary: base) auto

lemma map_of_merge:
  "wf_dict over \<Longrightarrow>
   map_of (merge base over) k =
     (case map_of over k of None \<Rightarrow> map_of base k | Some v \<Rightarrow> Some (overlay (map_of base k) v))"
proof (induction over arbitrary: base)
  case (Cons kv rest)
  obtain k0 v where kv: "kv = (k0, v)" by (cases kv)
  with Cons.prems have fresh: "k0 \<notin> fst ` set rest" and wf: "wf_dict rest"
    by (auto simp: wf_dict_def)
  show ?case
  proof (cases "k = k0")
    case True
    with kv fresh show ?thesis by (simp add: merge_untouched)
  next
    case False
    with kv wf show ?thesis by (simp add: Cons.IH split: option.splits)
  qed
qed simp

lemma wf_merge: "wf_dict base \<Longrightarrow> wf_dict (merge base over)"
  by (induction over arbitrary: base) (auto simp: wf_dict_def distinct_update)

lemma drop_none_get:
  "wf_dict d \<Longrightarrow>
   map_of (drop_none d) k = (case map_of d k of None \<Rightarrow> None | Some v \<Rightarrow> if v = PNone then None else Some v)"
proof (induction d)
  case (Cons p d)
  then have "wf_dict d" "map_of d (fst p) = None"
    by (auto simp: wf_dict_def map_of_eq_None_iff)
  with Cons show ?case by (cases p) (auto simp: drop_none_def split: option.splits)
qed (simp add: drop_none_def)

lemma wf_drop_none: "wf_dict d \<Longrightarrow> wf_dict (drop_none d)"
  by (induction d) (auto simp: wf_dict_def drop_none_def)

definition is_scalar_opt :: "pyval option \<Rightarrow> bool" where
  "is_scalar_opt v = (case v of Some (PDict _) \<Rightarrow> False | _ \<Rightarrow> True)"

text \<open>Command line over profile over defaults. For every workload key whose profile and
  command-line values are not themselves mappings, the effective value is the command line's
  when it is given (an option left out is \<open>None\<close> and does not count), else the profile's, else
  the default's.\<close>

theorem cli_over_profile_over_default:
  assumes "wf_dict profile" and "wf_dict overrides"
    and "is_scalar_opt (map_of profile k)" and "is_scalar_opt (map_of overrides k)"
  shows "map_of (merged_workload defaults profile overrides) k =
     (case map_of overrides k of
        Some v \<Rightarrow> if v \<noteq> PNone then Some v
                  else (case map_of profile k of Some w \<Rightarrow> Some w | None \<Rightarrow> map_of defaults k)
      | None \<Rightarrow> (case map_of profile k of Some w \<Rightarrow> Some w | None \<Rightarrow> map_of defaults k))"
  using assms
  by (auto simp: merged_workload_def map_of_merge wf_drop_none drop_none_get is_scalar_opt_def
      split: option.splits pyval.splits)

theorem cli_over_profile_over_default_witness:
  "map_of (merged_workload
             [(KStr ''target_rps'', PInt 100), (KStr ''batch_size'', PInt 10)]
             [(KStr ''target_rps'', PInt 10)]
             [(KStr ''target_rps'', PInt 999), (KStr ''workers'', PNone)]) (KStr ''target_rps'')
   = Some (PInt 999)"
  by (subst cli_over_profile_over_default) (simp_all add: wf_dict_def is_scalar_opt_def)

section \<open>What validation establishes\<close>

definition checked_rate :: "pyfloat \<Rightarrow> bool" where
  \<comment> \<open>What \<open>_positive\<close> leaves: neither below nor equal to zero. NaN and infinity pass.\<close>
  "checked_rate f = (\<not> flt f (Fin 0) \<and> \<not> feq f (Fin 0))"

lemma positive_checked: "positive v loc False = Inr f \<Longrightarrow> checked_rate f"
  by (auto simp: positive_def checked_rate_def split: sum.splits if_splits)

lemma checked_rate_cases: "checked_rate f \<Longrightarrow> f = PosInf \<or> f = NaN \<or> (\<exists>x. f = Fin x \<and> 0 < x)"
  by (cases f) (auto simp: checked_rate_def not_less)

lemma positive_int_nonneg: "positive_int v loc = Inr n \<Longrightarrow> 0 \<le> n"
  unfolding positive_int_def
  by (auto dest!: positive_checked checked_rate_cases simp: py_trunc_nonneg)

lemma build_step_ok:
  "build_step iv = Inr s \<Longrightarrow>
   st_index s = int (fst iv) \<and> checked_rate (st_rps s) \<and> checked_rate (st_duration s)"
  by (auto simp: build_step_def dest: positive_checked)

lemma build_steps_shape:
  assumes "build_steps raw wl = Inr ss" and "checked_rate (wl_target_rps wl)" and "checked_rate (wl_duration wl)"
  shows "ss \<noteq> [] \<and> (\<forall>i < length ss. st_index (ss ! i) = int i
           \<and> checked_rate (st_rps (ss ! i)) \<and> checked_rate (st_duration (ss ! i)))"
proof (cases "truthy raw")
  case False
  with assms show ?thesis by (auto simp: build_steps_def)
next
  case True
  with assms(1) obtain xs where raw: "raw = PList xs" "xs \<noteq> []"
    and m: "emap build_step (enumerate 0 xs) = Inr ss"
    by (auto simp: build_steps_def split: pyval.splits)
  have "length ss = length xs" using emap_length [OF m] by simp
  moreover have "st_index (ss ! i) = int i \<and> checked_rate (st_rps (ss ! i)) \<and> checked_rate (st_duration (ss ! i))"
    if "i < length xs" for i
    using emap_nth [OF m, of i] that by (auto simp: nth_enumerate_eq dest!: build_step_ok)
  ultimately show ?thesis using raw by auto
qed

lemma build_warnings_all:
  "wl_workers wl \<le> wl_max_inflight wl \<Longrightarrow>
   build_warnings p wl ss = ebind (emap (step_warning p wl) ss) (\<lambda>ws. Inr (concat (map (\<lambda>w. case w of None \<Rightarrow> [] | Some x \<Rightarrow> [x]) ws)))"
proof (induction ss)
  case (Cons s ss)
  then show ?case by (cases "step_warning p wl s"; cases "emap (step_warning p wl) ss") auto
qed simp

lemma parse_workload_ok:
  "parse_workload rend w = Inr wl \<Longrightarrow>
   wl_workers wl \<le> wl_max_inflight wl \<and> 0 \<le> wl_workers wl \<and> 0 \<le> wl_batch wl
   \<and> checked_rate (wl_target_rps wl) \<and> checked_rate (wl_duration wl)"
  by (auto simp: parse_workload_def dest: positive_int_nonneg positive_checked)

lemma parse_target_ok: "parse_target rend v = Inr t \<Longrightarrow> \<not> contains_open (tg_host t)"
  by (auto simp: parse_target_def)

lemma parse_auth_ok: "parse_auth rend v = Inr a \<Longrightarrow> \<not> contains_open (au_secret_b64 a)"
  by (auto simp: parse_auth_def)

lemma load_parts:
  assumes "load env rend yaml profile overrides = Inr c"
  obtains tv av w raw where
    "parse_target rend tv = Inr (gc_target c)" "parse_auth rend av = Inr (gc_auth c)"
    "parse_workload rend w = Inr (gc_workload c)"
    "build_steps raw (gc_workload c) = Inr (gc_steps c)"
    "build_warnings (gc_pipeline c) (gc_workload c) (gc_steps c) = Inr (gc_warnings c)"
  using assms by (auto simp: load_def)

text \<open>C6: what a loaded configuration guarantees. No worker count above the in-flight bound;
  host and secret expanded; at least one step, numbered from zero, every rate and duration
  neither negative nor zero; and every step was tested for reachability (the early exit of the
  warning loop is never taken).\<close>

theorem load_validated:
  assumes "load env rend yaml profile overrides = Inr c"
  shows "wl_workers (gc_workload c) \<le> wl_max_inflight (gc_workload c)
    \<and> 0 \<le> wl_workers (gc_workload c) \<and> 0 \<le> wl_batch (gc_workload c)
    \<and> \<not> contains_open (tg_host (gc_target c)) \<and> \<not> contains_open (au_secret_b64 (gc_auth c))
    \<and> gc_steps c \<noteq> []
    \<and> (\<forall>i < length (gc_steps c). st_index (gc_steps c ! i) = int i
         \<and> checked_rate (st_rps (gc_steps c ! i)) \<and> checked_rate (st_duration (gc_steps c ! i)))
    \<and> ebind (emap (step_warning (gc_pipeline c) (gc_workload c)) (gc_steps c))
         (\<lambda>ws. Inr (concat (map (\<lambda>w. case w of None \<Rightarrow> [] | Some x \<Rightarrow> [x]) ws))) = Inr (gc_warnings c)"
proof -
  from load_parts [OF assms] obtain tv av w raw where
    t: "parse_target rend tv = Inr (gc_target c)" and a: "parse_auth rend av = Inr (gc_auth c)"
    and w: "parse_workload rend w = Inr (gc_workload c)"
    and s: "build_steps raw (gc_workload c) = Inr (gc_steps c)"
    and b: "build_warnings (gc_pipeline c) (gc_workload c) (gc_steps c) = Inr (gc_warnings c)" .
  note wl = parse_workload_ok [OF w]
  then have "build_warnings (gc_pipeline c) (gc_workload c) (gc_steps c) =
    ebind (emap (step_warning (gc_pipeline c) (gc_workload c)) (gc_steps c))
      (\<lambda>ws. Inr (concat (map (\<lambda>w. case w of None \<Rightarrow> [] | Some x \<Rightarrow> [x]) ws)))"
    by (intro build_warnings_all) simp
  with wl b show ?thesis
    using build_steps_shape [OF s] parse_target_ok [OF t] parse_auth_ok [OF a] by simp
qed

text \<open>A small configuration, the one of the repository's unit tests, for concrete instances.\<close>

definition demo_generator :: "pyval \<Rightarrow> pydict" where
  "demo_generator workers =
    [(KStr ''target'', PDict [(KStr ''host'', PStr ''10.0.0.1''), (KStr ''port'', PInt 4317),
        (KStr ''tls'', PBool False), (KStr ''rpc_timeout_seconds'', PInt 30)]),
     (KStr ''auth'', PDict [(KStr ''secret_b64'', PStr ''AAAA''), (KStr ''ingestion_queue'', PStr ''logs''),
        (KStr ''subject'', PStr ''test''), (KStr ''token_ttl_seconds'', PInt 600)]),
     (KStr ''workload'', PDict [(KStr ''target_rps'', PInt 100), (KStr ''duration_seconds'', PInt 60),
        (KStr ''workers'', workers), (KStr ''channels'', PInt 1), (KStr ''batch_size'', PInt 10),
        (KStr ''max_inflight'', PInt 8), (KStr ''retry_mode'', PStr ''none'')]),
     (KStr ''data'', PDict [(KStr ''seed'', PInt 42), (KStr ''body_bytes'', PInt 64)])]"

definition demo_yaml :: "pyval \<Rightarrow> pyval" where
  "demo_yaml workers =
    PDict [(KStr ''generator'', PDict (demo_generator workers)),
      (KStr ''profiles'', PDict [
         (KStr ''smoke'', PDict [(KStr ''workload'', PDict [(KStr ''target_rps'', PInt 10), (KStr ''duration_seconds'', PInt 5)])]),
         (KStr ''stairs'', PDict [(KStr ''steps'', PList [
            PDict [(KStr ''rps'', PInt 100), (KStr ''duration_seconds'', PInt 10)],
            PDict [(KStr ''rps'', PInt 200), (KStr ''duration_seconds'', PInt 10)]])])])]"

definition demo_load :: "pyval \<Rightarrow> pyexn + generator_config" where
  "demo_load workers = load (\<lambda>_. None) (\<lambda>_. []) (demo_yaml workers) ''smoke'' []"

theorem load_validated_witness:
  "case demo_load (PInt 2) of Inl e \<Rightarrow> False
   | Inr c \<Rightarrow> wl_workers (gc_workload c) = 2 \<and> gc_steps c \<noteq> []
       \<and> wl_workers (gc_workload c) \<le> wl_max_inflight (gc_workload c)"
proof -
  have two: "map_sum id (\<lambda>c. wl_workers (gc_workload c)) (demo_load (PInt 2)) = Inr 2" by code_simp
  then obtain c where c: "demo_load (PInt 2) = Inr c" "wl_workers (gc_workload c) = 2"
    by (cases "demo_load (PInt 2)") auto
  show ?thesis
    using load_validated [OF c(1) [unfolded demo_load_def]] c by simp
qed

lemma positive_int_fraction: "positive_int (PFloat (Fin x)) loc = Inr 0 \<longleftrightarrow> 0 < x \<and> x < 1"
proof -
  have "0 < x \<Longrightarrow> py_trunc x = 0 \<longleftrightarrow> x < 1"
    by (simp add: py_trunc_nonneg floor_eq_iff)
  then show ?thesis by (auto simp: positive_int_def positive_def not_less)
qed

text \<open>The check comes before the truncation. A count given as a fraction below one is
  accepted as positive and then becomes zero: exactly the fractions strictly between 0 and 1 do
  so, and a complete configuration with half a worker loads, without error, as one that starts
  no worker at all.\<close>

theorem fractional_count_loads_as_zero:
  "(positive_int (PFloat (Fin x)) loc = Inr 0 \<longleftrightarrow> 0 < x \<and> x < 1)
   \<and> map_sum id (\<lambda>c. wl_workers (gc_workload c)) (demo_load (PFloat (Fin (1 / 2)))) = Inr 0"
proof -
  have "map_sum id (\<lambda>c. wl_workers (gc_workload c)) (demo_load (PFloat (Fin (1 / 2)))) = Inr 0"
    by code_simp
  then show ?thesis using positive_int_fraction by blast
qed

section \<open>The reachability warning\<close>

definition finite_pipeline :: "pipeline \<Rightarrow> bool" where
  \<comment> \<open>The settings of a real collector: finite and positive.\<close>
  "finite_pipeline p =
     ((\<exists>d. pl_max_delay_ms p = Fin d \<and> 0 < d) \<and> 0 < pl_min_bucket p \<and> 0 < pl_record_bytes p)"

definition flush_rat :: "pipeline \<Rightarrow> rat \<Rightarrow> rat" where
  "flush_rat p r =
     (case pl_max_delay_ms p of
        Fin d \<Rightarrow> min (d / 1000) (of_int (pl_min_bucket p) / (r * of_int (pl_record_bytes p)))
      | _ \<Rightarrow> 0)"

lemma flush_seconds_finite:
  "finite_pipeline p \<Longrightarrow> 0 < r \<Longrightarrow> flush_seconds p (Fin r) = Inr (Fin (flush_rat p r)) \<and> 0 < flush_rat p r"
  by (auto simp: finite_pipeline_def flush_seconds_def flush_rat_def not_le)

lemma max_reachable_finite:
  "finite_pipeline p \<Longrightarrow> 0 < r \<Longrightarrow>
   max_reachable_rps p n b (Fin r) = Inr (Fin (of_int (n * b) / max (1 / 10 ^ 9) (flush_rat p r)))"
  by (simp add: max_reachable_rps_def flush_seconds_finite)

text \<open>The flush time. For finite positive settings a bucket flushes after a positive time
  that is at most the timer and at most the time to fill it; it equals one of the two; and a
  higher offered rate never flushes later.\<close>

theorem flush_time_bounds:
  assumes "finite_pipeline p" and "pl_max_delay_ms p = Fin d" and "0 < r" and "r \<le> r'"
  shows "\<exists>f f'. flush_seconds p (Fin r) = Inr (Fin f) \<and> flush_seconds p (Fin r') = Inr (Fin f')
     \<and> 0 < f' \<and> f' \<le> f \<and> f \<le> d / 1000 \<and> f * r * of_int (pl_record_bytes p) \<le> of_int (pl_min_bucket p)
     \<and> (f = d / 1000 \<or> f * r * of_int (pl_record_bytes p) = of_int (pl_min_bucket p))"
proof -
  let ?k = "of_int (pl_record_bytes p) :: rat" and ?b = "of_int (pl_min_bucket p) :: rat"
  have pos: "0 < ?k" "0 < ?b" "0 < r'" using assms by (auto simp: finite_pipeline_def)
  have f: "flush_rat p q = min (d / 1000) (?b / (q * ?k))" for q
    using assms(2) by (simp add: flush_rat_def)
  have "r * ?k \<le> r' * ?k" using assms(4) pos by simp
  then have "?b / (r' * ?k) \<le> ?b / (r * ?k)"
    using pos assms(3) by (intro divide_left_mono) auto
  then have mono: "flush_rat p r' \<le> flush_rat p r" unfolding f by (intro min.mono order_refl)
  have fillup: "flush_rat p r * r * ?k \<le> ?b"
  proof -
    have "flush_rat p r * (r * ?k) \<le> ?b / (r * ?k) * (r * ?k)"
      using pos assms(3) unfolding f by (intro mult_right_mono) auto
    then show ?thesis using pos assms(3) by (simp add: mult.assoc)
  qed
  have either: "flush_rat p r = d / 1000 \<or> flush_rat p r * r * ?k = ?b"
    using pos assms(3) unfolding f by (auto simp: min_def)
  have timer: "flush_rat p r \<le> d / 1000" unfolding f by (rule min.cobounded1)
  show ?thesis
    using flush_seconds_finite [OF assms(1,3)] flush_seconds_finite [OF assms(1) pos(3)] mono fillup either timer
    by blast
qed

theorem flush_time_bounds_witness:
  "\<exists>f f'. flush_seconds \<lparr>pl_max_delay_ms = Fin 5000, pl_min_bucket = 16777216, pl_record_bytes = 500\<rparr> (Fin 1000) = Inr (Fin f)
     \<and> flush_seconds \<lparr>pl_max_delay_ms = Fin 5000, pl_min_bucket = 16777216, pl_record_bytes = 500\<rparr> (Fin 40000) = Inr (Fin f')
     \<and> 0 < f' \<and> f' \<le> f \<and> f \<le> 5"
  using flush_time_bounds [of "\<lparr>pl_max_delay_ms = Fin 5000, pl_min_bucket = 16777216, pl_record_bytes = 500\<rparr>"
      5000 1000 40000]
  by (auto simp: finite_pipeline_def)

lemma ceil_div_iff:
  fixes a b :: rat
  assumes "0 < b"
  shows "\<lceil>a / b\<rceil> \<le> n \<longleftrightarrow> a \<le> of_int n * b"
  using assms by (simp add: ceiling_le_iff pos_divide_le_eq)

text \<open>The advice in the warning is exact. When a step is reported as out of reach, its
  target does exceed the predicted ceiling, and the reported number of workers is the least one
  whose ceiling reaches the target: with any number \<open>n\<close> of workers the ceiling is at least the
  target exactly when \<open>n\<close> is at least the reported need.\<close>

theorem warning_need_is_least:
  assumes "finite_pipeline p" and "0 < wl_batch wl" and "st_rps s = Fin r" and "0 < r"
    and "1 / 10 ^ 9 \<le> flush_rat p r"
    and "step_warning p wl s = Inr (Some w)"
  shows "(\<exists>c. rw_ceiling w = Fin c \<and> c * (102 / 100) < r)
    \<and> (\<forall>n. \<exists>c. max_reachable_rps p n (wl_batch wl) (st_rps s) = Inr (Fin c) \<and> (r \<le> c \<longleftrightarrow> rw_need w \<le> n))"
proof -
  let ?f = "flush_rat p r" and ?b = "of_int (wl_batch wl) :: rat"
  have f: "flush_seconds p (Fin r) = Inr (Fin ?f)" "0 < ?f"
    using flush_seconds_finite assms(1,4) by auto
  have c: "max_reachable_rps p n (wl_batch wl) (Fin r) = Inr (Fin (of_int n * ?b / ?f))" for n
    using max_reachable_finite [OF assms(1,4)] assms(5) by (simp add: max_def)
  from assms(6) have w: "rw_need w = \<lceil>r * ?f / ?b\<rceil>"
    and ceil: "rw_ceiling w = Fin (of_int (wl_workers wl) * ?b / ?f)"
    and lt: "of_int (wl_workers wl) * ?b / ?f * (102 / 100) < r"
    using assms(2) by (auto simp: step_warning_def assms(3) c f(1) mult.commute mult.left_commute split: if_splits)
  have "r \<le> of_int n * ?b / ?f \<longleftrightarrow> rw_need w \<le> n" for n
    using ceil_div_iff [of ?b "r * ?f" n] f(2) assms(2) by (simp add: w pos_le_divide_eq)
  moreover have "\<exists>c. rw_ceiling w = Fin c \<and> c * (102 / 100) < r" using ceil lt by blast
  ultimately show ?thesis unfolding assms(3) using c by blast
qed

text \<open>The measurement of the configuration comments: 4 workers of 200 records at 1000 records
  per second. The timer wins, the ceiling is 160, and 25 workers are needed.\<close>

definition demo_pipeline :: pipeline where
  "demo_pipeline = \<lparr>pl_max_delay_ms = Fin 5000, pl_min_bucket = 16777216, pl_record_bytes = 500\<rparr>"

definition demo_workload :: workload where
  "demo_workload = \<lparr>wl_target_rps = Fin 1000, wl_duration = Fin 60, wl_ramp_up = Fin 0, wl_ramp_down = Fin 0,
     wl_workers = 4, wl_channels = 1, wl_batch = 200, wl_max_inflight = 64, wl_retry = RetryNone, wl_abort_limit = 0\<rparr>"

definition demo_step :: step where
  "demo_step = \<lparr>st_index = 0, st_rps = Fin 1000, st_duration = Fin 60\<rparr>"

lemma demo_flush: "finite_pipeline demo_pipeline" "flush_rat demo_pipeline 1000 = 5"
  by (simp_all add: finite_pipeline_def demo_pipeline_def flush_rat_def)

lemma demo_warning:
  "step_warning demo_pipeline demo_workload demo_step =
     Inr (Some \<lparr>rw_step = 0, rw_ceiling = Fin 160, rw_flush = Fin 5, rw_need = 25\<rparr>)"
  by code_simp

theorem warning_need_is_least_witness:
  "\<exists>c. max_reachable_rps demo_pipeline 25 200 (Fin 1000) = Inr (Fin c) \<and> 1000 \<le> c"
  using warning_need_is_least [OF demo_flush(1) _ _ _ _ demo_warning, of 1000]
  by (auto simp: demo_flush demo_workload_def demo_step_def)

end
