(* ===== verification/Metrics.thy ===== *)
theory Metrics
  imports PyVal
begin

text \<open>
  \<open>generator/src/metrics.py\<close>: the percentile, the counters (\<open>Totals\<close>), the thread-safe
  accumulator with its per-second window, the sampler's flush and the final snapshot. The
  operations run under one lock, so each is one step. Clock readings and latencies are exact
  rationals. The files the sampler writes are the list \<open>m_samples\<close>; the Prometheus
  counters, present only when the library and a port are there, are the optional \<open>m_prom\<close>.
\<close>

section \<open>Percentiles\<close>

definition percentile :: "rat list \<Rightarrow> rat \<Rightarrow> rat" where
  "percentile xs q =
     (if xs = [] then 0
      else if length xs = 1 then xs ! 0
      else let rank = max 1 (min (int (length xs)) (py_round (q * of_nat (length xs) + 1 / 2)))
           in xs ! nat (rank - 1))"

definition round_to :: "nat \<Rightarrow> rat \<Rightarrow> rat" where
  \<comment> \<open>\<open>round(x, n)\<close>\<close>
  "round_to n x = of_int (py_round (x * 10 ^ n)) / 10 ^ n"

section \<open>Counters\<close>

record totals =
  requests_sent :: int
  requests_success :: int
  requests_failed :: int
  records_offered :: int
  records_accepted :: int
  records_rejected :: int
  failed_resource_exhausted :: int
  failed_deadline :: int
  failed_unavailable :: int
  failed_unauthenticated :: int
  failed_other :: int
  bytes_sent :: int
  stalled_ms :: rat
  errors_by_code :: "(string \<times> int) list"

definition zero_totals :: totals where
  "zero_totals = \<lparr>requests_sent = 0, requests_success = 0, requests_failed = 0, records_offered = 0,
     records_accepted = 0, records_rejected = 0, failed_resource_exhausted = 0, failed_deadline = 0,
     failed_unavailable = 0, failed_unauthenticated = 0, failed_other = 0, bytes_sent = 0,
     stalled_ms = 0, errors_by_code = []\<rparr>"

record prom =
  pr_offered :: int
  pr_accepted :: int
  pr_success :: int
  pr_failure :: int
  pr_errors :: "(string \<times> int) list"
  pr_bytes :: int
  pr_stalled :: rat
  pr_inflight :: int
  pr_offered_rps :: rat
  pr_accepted_rps :: rat
  pr_rejected_rps :: rat
  pr_latencies :: "rat list"

definition zero_prom :: prom where
  "zero_prom = \<lparr>pr_offered = 0, pr_accepted = 0, pr_success = 0, pr_failure = 0, pr_errors = [],
     pr_bytes = 0, pr_stalled = 0, pr_inflight = 0, pr_offered_rps = 0, pr_accepted_rps = 0,
     pr_rejected_rps = 0, pr_latencies = []\<rparr>"

record metrics =
  m_test_id :: string
  m_interval :: rat
  m_totals :: totals
  m_window :: totals
  m_window_lat :: "rat list"
  m_all_lat :: "rat list"
  m_inflight :: int
  m_step_index :: int
  m_step_rps :: pyfloat
  m_started_at :: rat
  m_samples :: "pydict list"
  m_prom :: "prom option"

definition init_metrics :: "string \<Rightarrow> rat \<Rightarrow> bool \<Rightarrow> rat \<Rightarrow> metrics" where
  "init_metrics test_id interval with_prom now =
     \<lparr>m_test_id = test_id, m_interval = max (1 / 10) interval, m_totals = zero_totals,
      m_window = zero_totals, m_window_lat = [], m_all_lat = [], m_inflight = 0,
      m_step_index = 0, m_step_rps = Fin 0, m_started_at = now, m_samples = [],
      m_prom = (if with_prom then Some zero_prom else None)\<rparr>"

section \<open>Recording\<close>

definition count_up :: "string \<Rightarrow> (string \<times> int) list \<Rightarrow> (string \<times> int) list" where
  \<comment> \<open>\<open>d[k] = d.get(k, 0) + 1\<close>\<close>
  "count_up k d = AList.update k ((case map_of d k of None \<Rightarrow> 0 | Some n \<Rightarrow> n) + 1) d"

definition set_step :: "int \<Rightarrow> pyfloat \<Rightarrow> metrics \<Rightarrow> metrics" where
  "set_step index rps m = m\<lparr>m_step_index := index, m_step_rps := rps\<rparr>"

definition record_offered :: "int \<Rightarrow> int \<Rightarrow> metrics \<Rightarrow> metrics" where
  "record_offered records nbytes m =
     (let add = (\<lambda>t :: totals. t\<lparr>records_offered := records_offered t + records,
                                  bytes_sent := bytes_sent t + nbytes\<rparr>)
      in m\<lparr>m_totals := add (m_totals m), m_window := add (m_window m),
           m_prom := map_option (\<lambda>p. p\<lparr>pr_offered := pr_offered p + records,
                                        pr_bytes := pr_bytes p + nbytes\<rparr>) (m_prom m)\<rparr>)"

definition record_inflight :: "int \<Rightarrow> metrics \<Rightarrow> metrics" where
  "record_inflight delta m =
     m\<lparr>m_inflight := m_inflight m + delta,
       m_prom := map_option (\<lambda>p. p\<lparr>pr_inflight := pr_inflight p + delta\<rparr>) (m_prom m)\<rparr>"

definition record_stall :: "rat \<Rightarrow> metrics \<Rightarrow> metrics" where
  "record_stall seconds m =
     (let ms = seconds * 1000; add = (\<lambda>t :: totals. t\<lparr>stalled_ms := stalled_ms t + ms\<rparr>)
      in m\<lparr>m_totals := add (m_totals m), m_window := add (m_window m),
           m_prom := map_option (\<lambda>p. p\<lparr>pr_stalled := pr_stalled p + ms\<rparr>) (m_prom m)\<rparr>)"

definition record_success :: "int \<Rightarrow> rat \<Rightarrow> metrics \<Rightarrow> metrics" where
  "record_success records latency_s m =
     (let ms = latency_s * 1000;
          add = (\<lambda>t :: totals. t\<lparr>requests_sent := requests_sent t + 1,
                                 requests_success := requests_success t + 1,
                                 records_accepted := records_accepted t + records\<rparr>)
      in m\<lparr>m_totals := add (m_totals m), m_window := add (m_window m),
           m_window_lat := m_window_lat m @ [ms], m_all_lat := m_all_lat m @ [ms],
           m_prom := map_option (\<lambda>p. p\<lparr>pr_success := pr_success p + 1,
                        pr_accepted := pr_accepted p + records,
                        pr_latencies := pr_latencies p @ [latency_s]\<rparr>) (m_prom m)\<rparr>)"

definition fail_totals :: "int \<Rightarrow> string \<Rightarrow> totals \<Rightarrow> totals" where
  "fail_totals records code t =
     (let t1 = t\<lparr>requests_sent := requests_sent t + 1, requests_failed := requests_failed t + 1,
                 errors_by_code := count_up code (errors_by_code t)\<rparr>
      in if code = ''RESOURCE_EXHAUSTED''
           then t1\<lparr>records_rejected := records_rejected t1 + records,
                   failed_resource_exhausted := failed_resource_exhausted t1 + 1\<rparr>
         else if code = ''DEADLINE_EXCEEDED'' then t1\<lparr>failed_deadline := failed_deadline t1 + 1\<rparr>
         else if code = ''UNAVAILABLE'' then t1\<lparr>failed_unavailable := failed_unavailable t1 + 1\<rparr>
         else if code = ''UNAUTHENTICATED''
           then t1\<lparr>failed_unauthenticated := failed_unauthenticated t1 + 1\<rparr>
         else t1\<lparr>failed_other := failed_other t1 + 1\<rparr>)"

definition fail_window :: "int \<Rightarrow> string \<Rightarrow> totals \<Rightarrow> totals" where
  "fail_window records code t =
     (let t1 = t\<lparr>requests_sent := requests_sent t + 1, requests_failed := requests_failed t + 1\<rparr>
      in if code = ''RESOURCE_EXHAUSTED''
           then t1\<lparr>records_rejected := records_rejected t1 + records,
                   failed_resource_exhausted := failed_resource_exhausted t1 + 1\<rparr>
         else t1)"

definition record_failure :: "int \<Rightarrow> rat \<Rightarrow> string \<Rightarrow> metrics \<Rightarrow> metrics" where
  "record_failure records latency_s code m =
     (let ms = latency_s * 1000
      in m\<lparr>m_totals := fail_totals records code (m_totals m),
           m_window := fail_window records code (m_window m),
           m_window_lat := m_window_lat m @ [ms], m_all_lat := m_all_lat m @ [ms],
           m_prom := map_option (\<lambda>p. p\<lparr>pr_failure := pr_failure p + 1,
                        pr_errors := count_up code (pr_errors p),
                        pr_latencies := pr_latencies p @ [latency_s]\<rparr>) (m_prom m)\<rparr>)"

section \<open>Sampling and the final totals\<close>

abbreviation num :: "rat \<Rightarrow> pyval" where
  "num x \<equiv> PFloat (Fin x)"

definition last_or_zero :: "rat list \<Rightarrow> rat" where
  "last_or_zero xs = (if xs = [] then 0 else last xs)"

definition window_sample :: "metrics \<Rightarrow> rat \<Rightarrow> string \<Rightarrow> pydict" where
  "window_sample m ts stamp =
     (let w = m_window m; lat = sort (m_window_lat m); elapsed = m_interval m; t = m_totals m
      in [(KStr ''ts'', num ts), (KStr ''iso'', PStr stamp), (KStr ''test_id'', PStr (m_test_id m)),
          (KStr ''step_index'', PInt (m_step_index m)), (KStr ''step_target_rps'', PFloat (m_step_rps m)),
          (KStr ''offered_rps'', num (of_int (records_offered w) / elapsed)),
          (KStr ''accepted_rps'', num (of_int (records_accepted w) / elapsed)),
          (KStr ''rejected_rps'', num (of_int (records_rejected w) / elapsed)),
          (KStr ''requests_sent'', PInt (requests_sent w)),
          (KStr ''requests_success'', PInt (requests_success w)),
          (KStr ''requests_failed'', PInt (requests_failed w)),
          (KStr ''failed_resource_exhausted'', PInt (failed_resource_exhausted w)),
          (KStr ''bytes_sent'', PInt (bytes_sent w)), (KStr ''inflight'', PInt (m_inflight m)),
          (KStr ''stalled_ms'', num (round_to 3 (stalled_ms w))),
          (KStr ''latency_p50_ms'', num (round_to 3 (percentile lat (50 / 100)))),
          (KStr ''latency_p95_ms'', num (round_to 3 (percentile lat (95 / 100)))),
          (KStr ''latency_p99_ms'', num (round_to 3 (percentile lat (99 / 100)))),
          (KStr ''latency_max_ms'', num (round_to 3 (last_or_zero lat))),
          (KStr ''cum_records_offered'', PInt (records_offered t)),
          (KStr ''cum_records_accepted'', PInt (records_accepted t)),
          (KStr ''cum_records_rejected'', PInt (records_rejected t))])"

definition sample_columns :: "string list" where
  "sample_columns =
     [''ts'', ''iso'', ''test_id'', ''step_index'', ''step_target_rps'',
      ''offered_rps'', ''accepted_rps'', ''rejected_rps'',
      ''requests_sent'', ''requests_success'', ''requests_failed'',
      ''failed_resource_exhausted'', ''bytes_sent'', ''inflight'', ''stalled_ms'',
      ''latency_p50_ms'', ''latency_p95_ms'', ''latency_p99_ms'', ''latency_max_ms'',
      ''cum_records_offered'', ''cum_records_accepted'', ''cum_records_rejected'']"

definition csv_row :: "pydict \<Rightarrow> pyexn + pyval list" where
  \<comment> \<open>\<open>[sample[c] for c in SAMPLE_COLUMNS]\<close>\<close>
  "csv_row sample =
     emap (\<lambda>c. case dget sample c of None \<Rightarrow> Inl KeyError | Some v \<Rightarrow> Inr v) sample_columns"

definition flush_sample :: "rat \<Rightarrow> string \<Rightarrow> metrics \<Rightarrow> metrics" where
  "flush_sample ts stamp m =
     (let w = m_window m; s = window_sample m ts stamp
      in m\<lparr>m_window := zero_totals, m_window_lat := [], m_samples := m_samples m @ [s],
           m_prom := map_option (\<lambda>p. p\<lparr>pr_offered_rps := of_int (records_offered w) / m_interval m,
                        pr_accepted_rps := of_int (records_accepted w) / m_interval m,
                        pr_rejected_rps := of_int (records_rejected w) / m_interval m\<rparr>) (m_prom m)\<rparr>)"

record run_totals =
  rt_totals :: totals
  rt_duration :: rat
  rt_offered_mean :: rat
  rt_accepted_mean :: rat
  rt_rejected_mean :: rat
  rt_p50 :: rat
  rt_p95 :: rat
  rt_p99 :: rat
  rt_min :: rat
  rt_max :: rat
  rt_success_rate :: rat

definition snapshot :: "rat \<Rightarrow> metrics \<Rightarrow> run_totals" where
  "snapshot now m =
     (let t = m_totals m; lat = sort (m_all_lat m); duration = max (1 / 10 ^ 9) (now - m_started_at m)
      in \<lparr>rt_totals = t, rt_duration = round_to 3 duration,
          rt_offered_mean = of_int (records_offered t) / duration,
          rt_accepted_mean = of_int (records_accepted t) / duration,
          rt_rejected_mean = of_int (records_rejected t) / duration,
          rt_p50 = round_to 3 (percentile lat (50 / 100)),
          rt_p95 = round_to 3 (percentile lat (95 / 100)),
          rt_p99 = round_to 3 (percentile lat (99 / 100)),
          rt_min = (if lat = [] then 0 else round_to 3 (lat ! 0)),
          rt_max = round_to 3 (last_or_zero lat),
          rt_success_rate = (if requests_sent t \<noteq> 0
             then of_int (requests_success t) / of_int (requests_sent t) else 0)\<rparr>)"


section \<open>Histories of the accumulator\<close>

text \<open>
  The calls the program makes on the accumulator. Every one takes the lock, so what several
  threads do is some sequence of them.
\<close>

datatype mcall =
    COffered int int
  | CInflight int
  | CStall rat
  | CStep int pyfloat
  | CSuccess int rat
  | CFailure int rat string
  | CFlush rat string

fun mcall_step :: "metrics \<Rightarrow> mcall \<Rightarrow> metrics" where
  "mcall_step m (COffered n b) = record_offered n b m"
| "mcall_step m (CInflight d) = record_inflight d m"
| "mcall_step m (CStall s) = record_stall s m"
| "mcall_step m (CStep i r) = set_step i r m"
| "mcall_step m (CSuccess n l) = record_success n l m"
| "mcall_step m (CFailure n l c) = record_failure n l c m"
| "mcall_step m (CFlush ts stamp) = flush_sample ts stamp m"

definition mrun :: "metrics \<Rightarrow> mcall list \<Rightarrow> metrics" where
  "mrun m cs = foldl mcall_step m cs"

lemma mrun_simps [simp]: "mrun m [] = m" "mrun m (cs @ [c]) = mcall_step (mrun m cs) c"
  by (simp_all add: mrun_def)

lemma mrun_invariant:
  assumes "P m" and "\<And>m c. P m \<Longrightarrow> P (mcall_step m c)"
  shows "P (mrun m cs)"
  using assms by (induction cs rule: rev_induct) simp_all

section \<open>The totals balance\<close>

definition code_count :: "(string \<times> int) list \<Rightarrow> int" where
  "code_count d = sum_list (map snd d)"

lemma code_count_update:
  "distinct (map fst d) \<Longrightarrow>
   code_count (AList.update k v d) = code_count d + v - (case map_of d k of None \<Rightarrow> 0 | Some n \<Rightarrow> n)"
proof (induction d)
  case (Cons p d)
  then show ?case by (cases p) (auto simp: code_count_def dest: map_of_SomeD weak_map_of_SomeI split: option.splits)
qed (simp add: code_count_def)

lemma code_count_up [simp]: "distinct (map fst d) \<Longrightarrow> code_count (count_up k d) = code_count d + 1"
  by (simp add: count_up_def code_count_update split: option.split)

lemma distinct_count_up [simp]: "distinct (map fst d) \<Longrightarrow> distinct (map fst (count_up k d))"
  by (simp add: count_up_def distinct_update)

lemma fail_totals_simps [simp]:
  "requests_sent (fail_totals n c t) = requests_sent t + 1"
  "requests_success (fail_totals n c t) = requests_success t"
  "requests_failed (fail_totals n c t) = requests_failed t + 1"
  "records_offered (fail_totals n c t) = records_offered t"
  "records_accepted (fail_totals n c t) = records_accepted t"
  "records_rejected (fail_totals n c t)
     = records_rejected t + (if c = ''RESOURCE_EXHAUSTED'' then n else 0)"
  "failed_resource_exhausted (fail_totals n c t)
     = failed_resource_exhausted t + (if c = ''RESOURCE_EXHAUSTED'' then 1 else 0)"
  "bytes_sent (fail_totals n c t) = bytes_sent t"
  "stalled_ms (fail_totals n c t) = stalled_ms t"
  "errors_by_code (fail_totals n c t) = count_up c (errors_by_code t)"
  by (simp_all add: fail_totals_def Let_def)

lemma fail_window_simps [simp]:
  "requests_sent (fail_window n c t) = requests_sent t + 1"
  "requests_success (fail_window n c t) = requests_success t"
  "requests_failed (fail_window n c t) = requests_failed t + 1"
  "records_offered (fail_window n c t) = records_offered t"
  "records_accepted (fail_window n c t) = records_accepted t"
  "records_rejected (fail_window n c t)
     = records_rejected t + (if c = ''RESOURCE_EXHAUSTED'' then n else 0)"
  "failed_resource_exhausted (fail_window n c t)
     = failed_resource_exhausted t + (if c = ''RESOURCE_EXHAUSTED'' then 1 else 0)"
  "bytes_sent (fail_window n c t) = bytes_sent t"
  by (simp_all add: fail_window_def Let_def)

definition failures_by_kind :: "totals \<Rightarrow> int" where
  "failures_by_kind t =
     failed_resource_exhausted t + failed_deadline t + failed_unavailable t
     + failed_unauthenticated t + failed_other t"

lemma failures_by_kind_fail [simp]: "failures_by_kind (fail_totals n c t) = failures_by_kind t + 1"
  by (simp add: failures_by_kind_def fail_totals_def Let_def)

lemma zero_totals_simps [simp]:
  "requests_sent zero_totals = 0" "requests_success zero_totals = 0" "requests_failed zero_totals = 0"
  "records_offered zero_totals = 0" "records_accepted zero_totals = 0" "records_rejected zero_totals = 0"
  "failed_resource_exhausted zero_totals = 0" "bytes_sent zero_totals = 0" "stalled_ms zero_totals = 0"
  "errors_by_code zero_totals = []" "failures_by_kind zero_totals = 0"
  by (simp_all add: zero_totals_def failures_by_kind_def)

lemmas recording_defs = record_offered_def record_inflight_def record_stall_def set_step_def
  record_success_def record_failure_def flush_sample_def Let_def

definition totals_balanced :: "totals \<Rightarrow> bool" where
  "totals_balanced t =
     (requests_sent t = requests_success t + requests_failed t
      \<and> requests_failed t = failures_by_kind t
      \<and> requests_failed t = code_count (errors_by_code t)
      \<and> distinct (map fst (errors_by_code t)))"

definition prom_mirrors :: "totals \<Rightarrow> prom \<Rightarrow> bool" where
  "prom_mirrors t p =
     (pr_offered p = records_offered t \<and> pr_accepted p = records_accepted t
      \<and> pr_success p = requests_success t \<and> pr_failure p = requests_failed t
      \<and> pr_errors p = errors_by_code t \<and> pr_bytes p = bytes_sent t \<and> pr_stalled p = stalled_ms t
      \<and> int (length (pr_latencies p)) = requests_sent t)"

definition metrics_ok :: "metrics \<Rightarrow> bool" where
  "metrics_ok m =
     (totals_balanced (m_totals m) \<and> 0 \<le> requests_success (m_totals m)
      \<and> 0 \<le> requests_failed (m_totals m)
      \<and> int (length (m_all_lat m)) = requests_sent (m_totals m)
      \<and> int (length (m_window_lat m)) = requests_sent (m_window m)
      \<and> pred_option (\<lambda>p. prom_mirrors (m_totals m) p \<and> pr_inflight p = m_inflight m) (m_prom m))"

lemma metrics_ok_init: "metrics_ok (init_metrics name itv pr now)"
  by (simp add: metrics_ok_def init_metrics_def totals_balanced_def prom_mirrors_def 
      zero_prom_def code_count_def)

lemma failures_by_kind_update [simp]:
  "failures_by_kind (t\<lparr>records_offered := a, bytes_sent := b\<rparr>) = failures_by_kind t"
  "failures_by_kind (t\<lparr>stalled_ms := r\<rparr>) = failures_by_kind t"
  "failures_by_kind (t\<lparr>requests_sent := a, requests_success := b, records_accepted := c\<rparr>) = failures_by_kind t"
  by (simp_all add: failures_by_kind_def)

lemma metrics_ok_step: "metrics_ok m \<Longrightarrow> metrics_ok (mcall_step m c)"
  by (cases c; cases "m_prom m"; simp add: metrics_ok_def recording_defs totals_balanced_def prom_mirrors_def)

lemma metrics_ok_run: "metrics_ok (mrun (init_metrics name itv pr now) cs)"
  by (rule mrun_invariant [where P = metrics_ok, OF metrics_ok_init metrics_ok_step])

lemma metrics_ok_balance:
  assumes "metrics_ok m"
  shows "requests_sent (m_totals m) = requests_success (m_totals m) + requests_failed (m_totals m)
     \<and> requests_failed (m_totals m) = failed_resource_exhausted (m_totals m)
          + failed_deadline (m_totals m) + failed_unavailable (m_totals m)
          + failed_unauthenticated (m_totals m) + failed_other (m_totals m)
     \<and> requests_failed (m_totals m) = sum_list (map snd (errors_by_code (m_totals m)))
     \<and> int (length (m_all_lat m)) = requests_sent (m_totals m)
     \<and> pred_option (\<lambda>p. pr_offered p = records_offered (m_totals m)
          \<and> pr_accepted p = records_accepted (m_totals m)
          \<and> pr_success p = requests_success (m_totals m) \<and> pr_failure p = requests_failed (m_totals m)
          \<and> pr_errors p = errors_by_code (m_totals m) \<and> pr_inflight p = m_inflight m) (m_prom m)"
  using assms by (cases "m_prom m")
    (simp_all add: metrics_ok_def totals_balanced_def prom_mirrors_def code_count_def failures_by_kind_def)

text \<open>C3: whatever the threads recorded, in whatever order, the totals balance: requests sent
  are successes plus failures, the failures are the sum of the five kinds and the sum of the
  per-code counts, one latency was kept per request, and the Prometheus counters, when enabled,
  show the same numbers.\<close>

theorem totals_always_balance:
  "(let m = mrun (init_metrics name itv pr now) cs; t = m_totals m
    in requests_sent t = requests_success t + requests_failed t
     \<and> requests_failed t = failed_resource_exhausted t + failed_deadline t + failed_unavailable t
          + failed_unauthenticated t + failed_other t
     \<and> requests_failed t = sum_list (map snd (errors_by_code t))
     \<and> int (length (m_all_lat m)) = requests_sent t
     \<and> pred_option (\<lambda>p. pr_offered p = records_offered t \<and> pr_accepted p = records_accepted t
          \<and> pr_success p = requests_success t \<and> pr_failure p = requests_failed t
          \<and> pr_errors p = errors_by_code t \<and> pr_inflight p = m_inflight m) (m_prom m))"
  unfolding Let_def by (rule metrics_ok_balance [OF metrics_ok_run])

section \<open>The samples add up to the totals\<close>

fun sample_int :: "string \<Rightarrow> pydict \<Rightarrow> int" where
  "sample_int col s = (case dget s col of Some (PInt i) \<Rightarrow> i | _ \<Rightarrow> 0)"

fun sample_rate :: "string \<Rightarrow> pydict \<Rightarrow> rat" where
  "sample_rate col s = (case dget s col of Some (PFloat (Fin x)) \<Rightarrow> x | _ \<Rightarrow> 0)"

definition sampled :: "metrics \<Rightarrow> string \<Rightarrow> int" where
  "sampled m col = sum_list (map (sample_int col) (m_samples m))"

definition sampled_records :: "metrics \<Rightarrow> string \<Rightarrow> rat" where
  \<comment> \<open>A rate column times the interval: the records of the file.\<close>
  "sampled_records m col = sum_list (map (\<lambda>s. sample_rate col s * m_interval m) (m_samples m))"

definition samples_complete :: "metrics \<Rightarrow> bool" where
  "samples_complete m =
     (0 < m_interval m
      \<and> sampled m ''requests_sent'' + requests_sent (m_window m) = requests_sent (m_totals m)
      \<and> sampled m ''requests_success'' + requests_success (m_window m) = requests_success (m_totals m)
      \<and> sampled m ''requests_failed'' + requests_failed (m_window m) = requests_failed (m_totals m)
      \<and> sampled m ''failed_resource_exhausted'' + failed_resource_exhausted (m_window m)
          = failed_resource_exhausted (m_totals m)
      \<and> sampled m ''bytes_sent'' + bytes_sent (m_window m) = bytes_sent (m_totals m)
      \<and> sampled_records m ''offered_rps'' + of_int (records_offered (m_window m))
          = of_int (records_offered (m_totals m))
      \<and> sampled_records m ''accepted_rps'' + of_int (records_accepted (m_window m))
          = of_int (records_accepted (m_totals m))
      \<and> sampled_records m ''rejected_rps'' + of_int (records_rejected (m_window m))
          = of_int (records_rejected (m_totals m)))"

lemma samples_complete_init: "samples_complete (init_metrics name itv pr now)"
  by (simp add: samples_complete_def init_metrics_def sampled_def sampled_records_def)

lemma samples_complete_step: "samples_complete m \<Longrightarrow> samples_complete (mcall_step m c)"
proof (cases c)
  case (CFlush ts stamp)
  assume "samples_complete m"
  then show ?thesis
    by (simp add: CFlush samples_complete_def flush_sample_def Let_def sampled_def sampled_records_def
        window_sample_def zero_totals_def)
qed (simp_all add: samples_complete_def recording_defs sampled_def sampled_records_def)

lemma flush_window [simp]:
  "m_window (flush_sample ts stamp m) = zero_totals" "m_totals (flush_sample ts stamp m) = m_totals m"
  by (simp_all add: flush_sample_def Let_def)

lemma samples_complete_flushed:
  assumes "samples_complete m" and "m_window m = zero_totals"
  shows "sampled m ''requests_sent'' = requests_sent (m_totals m)
     \<and> sampled m ''requests_success'' = requests_success (m_totals m)
     \<and> sampled m ''requests_failed'' = requests_failed (m_totals m)
     \<and> sampled m ''failed_resource_exhausted'' = failed_resource_exhausted (m_totals m)
     \<and> sampled m ''bytes_sent'' = bytes_sent (m_totals m)
     \<and> sampled_records m ''offered_rps'' = of_int (records_offered (m_totals m))
     \<and> sampled_records m ''accepted_rps'' = of_int (records_accepted (m_totals m))
     \<and> sampled_records m ''rejected_rps'' = of_int (records_rejected (m_totals m))"
  using assms by (simp add: samples_complete_def)

text \<open>C10: the sample file is complete. After any history that ends with the flush of
  \<open>stop_sampler\<close>, the samples add up to the cumulative totals: requests, failures, bytes, and
  the three record counts once the per-second rates are multiplied by the interval. Nothing is
  counted twice and nothing is lost between two windows.\<close>

theorem samples_add_up_to_totals:
  "(let m = mrun (init_metrics name itv pr now) (cs @ [CFlush ts stamp]); t = m_totals m
    in sampled m ''requests_sent'' = requests_sent t
     \<and> sampled m ''requests_success'' = requests_success t
     \<and> sampled m ''requests_failed'' = requests_failed t
     \<and> sampled m ''failed_resource_exhausted'' = failed_resource_exhausted t
     \<and> sampled m ''bytes_sent'' = bytes_sent t
     \<and> sampled_records m ''offered_rps'' = of_int (records_offered t)
     \<and> sampled_records m ''accepted_rps'' = of_int (records_accepted t)
     \<and> sampled_records m ''rejected_rps'' = of_int (records_rejected t))"
proof -
  let ?m = "mrun (init_metrics name itv pr now) (cs @ [CFlush ts stamp])"
  have "samples_complete ?m"
    by (rule mrun_invariant [where P = samples_complete, OF samples_complete_init samples_complete_step])
  moreover have "m_window ?m = zero_totals" by simp
  ultimately show ?thesis
    unfolding Let_def by (rule samples_complete_flushed)
qed

lemma csv_row_values: "csv_row (window_sample m ts stamp) = Inr (map snd (window_sample m ts stamp))"
  unfolding csv_row_def window_sample_def sample_columns_def Let_def by (simp add: py_eval)

section \<open>Percentiles, exactly\<close>

lemma py_round_half:
  "py_round (x + 1 / 2) = (if x = of_int \<lfloor>x\<rfloor> \<and> odd \<lfloor>x\<rfloor> then \<lfloor>x\<rfloor> + 1 else \<lceil>x\<rceil>)"
proof (cases "x = of_int \<lfloor>x\<rfloor>")
  case True
  then obtain k where x: "x = of_int k" by blast
  have fl: "\<lfloor>of_int k + 1 / 2 :: rat\<rfloor> = k" by (simp add: floor_eq_iff)
  have "py_round (of_int k + 1 / 2) = (if even k then k else k + 1)"
    unfolding py_round_def Let_def fl by simp
  then show ?thesis by (simp add: x)
next
  case False
  define k where "k = \<lfloor>x\<rfloor>"
  have b: "of_int k < x" "x < of_int k + 1"
    using False of_int_floor_le [of x] by (auto simp: k_def less_le) linarith+
  then have c: "\<lceil>x\<rceil> = k + 1" by (simp add: ceiling_eq_iff)
  have "py_round (x + 1 / 2) = k + 1"
  proof (cases "x < of_int k + 1 / 2")
    case True
    then have "\<lfloor>x + 1 / 2\<rfloor> = k" using b by (simp add: floor_eq_iff)
    then show ?thesis using b True by (simp add: py_round_def Let_def)
  next
    case h: False
    then have "\<lfloor>x + 1 / 2\<rfloor> = k + 1" using b by (simp add: floor_eq_iff)
    then show ?thesis using b h by (simp add: py_round_def Let_def)
  qed
  then show ?thesis using False c by simp
qed

definition percentile_rank :: "nat \<Rightarrow> rat \<Rightarrow> int" where
  "percentile_rank n q = max 1 (min (int n) (py_round (q * of_nat n + 1 / 2)))"

lemma percentile_by_rank:
  "xs \<noteq> [] \<Longrightarrow> percentile xs q = xs ! nat (percentile_rank (length xs) q - 1)"
  by (cases "length xs = 1") (auto simp: percentile_def percentile_rank_def Let_def)

lemma percentile_rank_range: "0 < n \<Longrightarrow> 1 \<le> percentile_rank n q \<and> percentile_rank n q \<le> int n"
  by (auto simp: percentile_rank_def)

lemma percentile_rank_mono: "q \<le> q' \<Longrightarrow> percentile_rank n q \<le> percentile_rank n q'"
  unfolding percentile_rank_def
  by (intro max.mono min.mono order_refl py_round_mono add_right_mono mult_right_mono) auto

lemma percentile_in: "xs \<noteq> [] \<Longrightarrow> percentile xs q \<in> set xs"
  using percentile_rank_range [of "length xs" q] by (auto simp: percentile_by_rank intro!: nth_mem)

lemma percentile_mono: "sorted xs \<Longrightarrow> q \<le> q' \<Longrightarrow> percentile xs q \<le> percentile xs q'"
proof (cases "xs = []")
  case False
  assume "sorted xs" "q \<le> q'"
  with False show ?thesis
    using percentile_rank_range [of "length xs" q'] percentile_rank_mono [of q q' "length xs"]
    by (auto simp: percentile_by_rank intro!: sorted_nth_mono)
qed (simp add: percentile_def)

text \<open>Which element the percentile is. For a share \<open>q\<close> of \<open>n\<close> values the nearest rank is
  the ceiling of \<open>q n\<close>, and that element is returned, with one exception: when \<open>q n\<close> is an
  odd integer below \<open>n\<close>, rounding half to even moves the result one element up.\<close>

theorem percentile_exact:
  assumes "xs \<noteq> []" and "0 < q" and "q \<le> 1"
  shows "percentile xs q =
    (let x = q * of_nat (length xs); k = nat \<lceil>x\<rceil>
     in if x = of_nat k \<and> odd k \<and> k < length xs then xs ! k else xs ! (k - 1))"
proof -
  define x where "x = q * of_nat (length xs)"
  define k where "k = nat \<lceil>x\<rceil>"
  have x: "0 < x" "x \<le> of_nat (length xs)"
    using assms mult_right_mono [of q 1 "of_nat (length xs)"] by (simp_all add: x_def)
  then have k: "1 \<le> k" "k \<le> length xs" "int k = \<lceil>x\<rceil>"
    by (auto simp: k_def ceiling_le_iff nat_le_iff) linarith
  have whole: "x = of_nat k \<longleftrightarrow> x = of_int \<lfloor>x\<rfloor>"
    using k(3) by (metis ceiling_of_int floor_of_nat of_int_of_nat_eq)
  have fl: "x = of_nat k \<Longrightarrow> \<lfloor>x\<rfloor> = int k" by simp
  have "percentile_rank (length xs) q = (if x = of_nat k \<and> odd k \<and> k < length xs then int k + 1 else int k)"
    using k x(1) whole fl unfolding percentile_rank_def x_def [symmetric] py_round_half
    by (auto simp: min_def max_def)
  then show ?thesis
    using assms(1) k(1) unfolding Let_def x_def [symmetric] k_def [symmetric] percentile_by_rank [OF assms(1)]
    by (auto simp: nat_diff_distrib nat_add_distrib)
qed

text \<open>Of two values the median reported is the larger one; of four it is the second.\<close>

theorem percentile_exact_witness:
  "percentile [10, 20] (1 / 2) = 20 \<and> percentile [10, 20, 30, 40] (1 / 2) = 20"
  using percentile_exact [of "[10, 20]" "1 / 2"] percentile_exact [of "[10, 20, 30, 40]" "1 / 2"]
  by (simp add: Let_def)

lemma round_to_mono: "x \<le> y \<Longrightarrow> round_to n x \<le> round_to n y"
  by (simp add: round_to_def divide_right_mono py_round_mono mult_right_mono)

lemma round_to_0 [simp]: "round_to n 0 = 0"
  using py_round_of_int [of 0] by (simp add: round_to_def)

lemma percentile_le_last: "sorted xs \<Longrightarrow> percentile xs q \<le> last_or_zero xs"
proof (cases "xs = []")
  case False
  assume s: "sorted xs"
  from percentile_in [OF False, of q] obtain i where "i < length xs" "percentile xs q = xs ! i"
    by (auto simp: in_set_conv_nth)
  with s False show ?thesis by (auto simp: last_or_zero_def last_conv_nth intro!: sorted_nth_mono)
qed (simp add: percentile_def last_or_zero_def)

lemma first_le_percentile: "sorted xs \<Longrightarrow> xs \<noteq> [] \<Longrightarrow> xs ! 0 \<le> percentile xs q"
  using percentile_in [of xs q] sorted_nth_mono [of xs 0] unfolding in_set_conv_nth by fastforce

lemma snapshot_order:
  "(let s = snapshot t m in rt_min s \<le> rt_p50 s \<and> rt_p50 s \<le> rt_p95 s \<and> rt_p95 s \<le> rt_p99 s \<and> rt_p99 s \<le> rt_max s)"
proof -
  let ?l = "sort (m_all_lat m)"
  have s: "sorted ?l" by simp
  have "rt_min (snapshot t m) \<le> rt_p50 (snapshot t m)"
  proof (cases "?l = []")
    case False
    show ?thesis using round_to_mono [OF first_le_percentile [OF s False, of "50 / 100"], of 3] False
      by (simp add: snapshot_def Let_def)
  qed (simp add: snapshot_def Let_def percentile_def)
  then show ?thesis
    using round_to_mono [OF percentile_mono [OF s, of "50 / 100" "95 / 100"], of 3]
      round_to_mono [OF percentile_mono [OF s, of "95 / 100" "99 / 100"], of 3]
      round_to_mono [OF percentile_le_last [OF s, of "99 / 100"], of 3]
    by (simp add: snapshot_def Let_def)
qed

text \<open>The final figures are coherent for every history: minimum, median, 95th and 99th
  percentile and maximum are in that order, the success rate lies between 0 and 1, and accepted
  and rejected are reported from the counters of the same instant.\<close>

theorem snapshot_coherent:
  "(let m = mrun (init_metrics name itv pr now) cs; s = snapshot t m
    in rt_min s \<le> rt_p50 s \<and> rt_p50 s \<le> rt_p95 s \<and> rt_p95 s \<le> rt_p99 s \<and> rt_p99 s \<le> rt_max s
     \<and> 0 \<le> rt_success_rate s \<and> rt_success_rate s \<le> 1 \<and> rt_totals s = m_totals m)"
proof -
  let ?m = "mrun (init_metrics name itv pr now) cs"
  have "0 \<le> rt_success_rate (snapshot t ?m) \<and> rt_success_rate (snapshot t ?m) \<le> 1"
    using metrics_ok_run [of name itv pr now cs]
    by (auto simp: snapshot_def Let_def metrics_ok_def totals_balanced_def)
  moreover have "rt_totals (snapshot t ?m) = m_totals ?m" by (simp add: snapshot_def Let_def)
  ultimately show ?thesis using snapshot_order [of t ?m] by (simp add: Let_def)
qed

section \<open>The ledger its callers see\<close>

text \<open>
  What the load generator relies on: three records-counters and three request-counters, and how
  the three calls it makes change them. Everything the generator proves about its accounting
  uses only these laws.
\<close>

locale rpc_ledger =
  fixes offer :: "int \<Rightarrow> int \<Rightarrow> 's \<Rightarrow> 's"
    and ack :: "int \<Rightarrow> rat \<Rightarrow> 's \<Rightarrow> 's"
    and nack :: "int \<Rightarrow> rat \<Rightarrow> string \<Rightarrow> 's \<Rightarrow> 's"
    and offered accepted rejected :: "'s \<Rightarrow> int"
    and acked nacked :: "'s \<Rightarrow> int"
  assumes offer_laws: "offered (offer n b s) = offered s + n" "accepted (offer n b s) = accepted s"
      "rejected (offer n b s) = rejected s" "acked (offer n b s) = acked s" "nacked (offer n b s) = nacked s"
    and ack_laws: "offered (ack n l s) = offered s" "accepted (ack n l s) = accepted s + n"
      "rejected (ack n l s) = rejected s" "acked (ack n l s) = acked s + 1" "nacked (ack n l s) = nacked s"
    and nack_laws: "offered (nack n l c s) = offered s" "accepted (nack n l c s) = accepted s"
      "rejected (nack n l c s) = rejected s + (if c = ''RESOURCE_EXHAUSTED'' then n else 0)"
      "acked (nack n l c s) = acked s" "nacked (nack n l c s) = nacked s + 1"
begin

lemmas laws = offer_laws ack_laws nack_laws

text \<open>Outcomes of requests: the records in it and, when it failed, the status code.\<close>

definition settle :: "int \<times> string option \<Rightarrow> 's \<Rightarrow> 's" where
  "settle r s = (case snd r of None \<Rightarrow> ack (fst r) 0 s | Some c \<Rightarrow> nack (fst r) 0 c s)"

lemma settle_counts:
  "accepted (settle r s) = accepted s + (if snd r = None then fst r else 0)"
  "offered (settle r s) = offered s"
  "acked (settle r s) + nacked (settle r s) = acked s + nacked s + 1"
  by (simp_all add: settle_def laws split: option.split)

text \<open>A batch offered and then settled keeps what is offered apart from what is accepted: the
  accepted records never exceed the offered ones if each batch is settled at most once.\<close>

lemma offered_covers_accepted:
  assumes "accepted s + open_records \<le> offered s" and "0 \<le> fst r" and "fst r \<le> open_records"
  shows "accepted (settle r s) + (open_records - fst r) \<le> offered (settle r s)"
  using assms by (auto simp: settle_counts)

end

interpretation ledger: rpc_ledger record_offered record_success record_failure
  "\<lambda>m. records_offered (m_totals m)" "\<lambda>m. records_accepted (m_totals m)"
  "\<lambda>m. records_rejected (m_totals m)"
  "\<lambda>m. requests_success (m_totals m)" "\<lambda>m. requests_failed (m_totals m)"
  by unfold_locales (simp_all add: recording_defs)
end
