(* ===== verification/Rng.thy ===== *)
theory Rng
  imports PyVal
begin

text \<open>
  The random draws of the payload builders. \<open>random.Random\<close> is part of Python: its three core
  operations (\<open>random\<close>, \<open>_randbelow\<close>, \<open>getrandbits\<close>) are the argument \<open>rng\<close>, with
  the documented ranges as \<open>rng_ok\<close>; \<open>choice\<close>, \<open>choices\<close>, \<open>randint\<close> and \<open>uniform\<close> are
  defined from them the way the library defines them. A draw takes the generator's state and
  returns the value with the next state, or raises. The draws the two payload modules share
  (\<open>_weighted\<close>, the latency distribution, the padding) are here too.
\<close>

section \<open>Draws\<close>

record 'r rng =
  rg_random :: "'r \<Rightarrow> rat \<times> 'r"
  rg_below :: "nat \<Rightarrow> 'r \<Rightarrow> nat \<times> 'r"
  rg_bits :: "nat \<Rightarrow> 'r \<Rightarrow> nat \<times> 'r"

definition rng_ok :: "'r rng \<Rightarrow> bool" where
  "rng_ok g =
     ((\<forall>r. 0 \<le> fst (rg_random g r) \<and> fst (rg_random g r) < 1)
      \<and> (\<forall>n r. 0 < n \<longrightarrow> fst (rg_below g n r) < n)
      \<and> (\<forall>k r. fst (rg_bits g k r) < 2 ^ k))"

type_synonym ('r, 'a) draw = "'r \<Rightarrow> pyexn + 'a \<times> 'r"

definition dret :: "'a \<Rightarrow> ('r, 'a) draw" where
  "dret x r = Inr (x, r)"

definition dbind :: "('r, 'a) draw \<Rightarrow> ('a \<Rightarrow> ('r, 'b) draw) \<Rightarrow> ('r, 'b) draw" where
  "dbind m f r = ebind (m r) (\<lambda>(x, r'). f x r')"

definition dlift :: "pyexn + 'a \<Rightarrow> ('r, 'a) draw" where
  \<comment> \<open>a computation that draws nothing\<close>
  "dlift m r = ebind m (\<lambda>x. Inr (x, r))"

definition draw_of :: "('r \<Rightarrow> 'a \<times> 'r) \<Rightarrow> ('r, 'a) draw" where
  "draw_of f r = Inr (f r)"

fun drepeat :: "nat \<Rightarrow> ('r, 'a) draw \<Rightarrow> ('r, 'a list) draw" where
  \<comment> \<open>\<open>[m() for _ in range(n)]\<close>\<close>
  "drepeat 0 m = dret []"
| "drepeat (Suc n) m = dbind m (\<lambda>x. dbind (drepeat n m) (\<lambda>xs. dret (x # xs)))"

section \<open>What a draw can return\<close>

definition yields :: "('r, 'a) draw \<Rightarrow> ('a \<Rightarrow> bool) \<Rightarrow> bool" where
  "yields m P = (\<forall>r x r'. m r = Inr (x, r') \<longrightarrow> P x)"

lemma yieldsD: "yields m P \<Longrightarrow> m r = Inr (x, r') \<Longrightarrow> P x"
  by (auto simp: yields_def)

lemma yields_mono: "yields m P \<Longrightarrow> (\<And>x. P x \<Longrightarrow> Q x) \<Longrightarrow> yields m Q"
  by (auto simp: yields_def)

lemma yields_True [simp]: "yields m (\<lambda>_. True)"
  by (simp add: yields_def)

lemma yields_ret [simp]: "yields (dret x) P \<longleftrightarrow> P x"
  by (simp add: yields_def dret_def)

lemma yields_lift [simp]: "yields (dlift m) P \<longleftrightarrow> (\<forall>x. m = Inr x \<longrightarrow> P x)"
  by (auto simp: yields_def dlift_def)

lemma yields_of [simp]: "yields (draw_of f) P \<longleftrightarrow> (\<forall>r. P (fst (f r)))"
  by (simp add: yields_def draw_of_def) (metis fst_conv surj_pair)

lemma yields_bind: "yields m Q \<Longrightarrow> (\<And>x. Q x \<Longrightarrow> yields (f x) P) \<Longrightarrow> yields (dbind m f) P"
  unfolding yields_def dbind_def by (clarsimp split: prod.splits) blast

lemma yields_bind_any: "(\<And>x. yields (f x) P) \<Longrightarrow> yields (dbind m f) P"
  by (rule yields_bind [of m "\<lambda>_. True"]) simp_all

lemma yields_lift_bind: "(\<And>x. m = Inr x \<Longrightarrow> yields (f x) P) \<Longrightarrow> yields (dbind (dlift m) f) P"
  by (rule yields_bind [of "dlift m" "\<lambda>x. m = Inr x"]) simp_all

lemma yields_if: "(b \<Longrightarrow> yields m P) \<Longrightarrow> (\<not> b \<Longrightarrow> yields n P) \<Longrightarrow> yields (if b then m else n) P"
  by simp

lemma yields_repeat: "yields m P \<Longrightarrow> yields (drepeat n m) (\<lambda>xs. length xs = n \<and> (\<forall>x \<in> set xs. P x))"
proof (induction n)
  case (Suc n)
  show ?case unfolding drepeat.simps
    by (rule yields_bind [OF Suc.prems], rule yields_bind [OF Suc.IH [OF Suc.prems]]) simp
qed simp

section \<open>The library's distributions\<close>

definition choice :: "'r rng \<Rightarrow> 'a list \<Rightarrow> ('r, 'a) draw" where
  "choice g xs =
     (if xs = [] then dlift (Inl IndexError)
      else dbind (draw_of (rg_below g (length xs))) (\<lambda>i. dret (xs ! i)))"

definition randint :: "'r rng \<Rightarrow> int \<Rightarrow> int \<Rightarrow> ('r, int) draw" where
  "randint g a b =
     (let width = b + 1 - a
      in if 0 < width then dbind (draw_of (rg_below g (nat width))) (\<lambda>i. dret (a + int i))
         else dlift (Inl ValueError))"

definition uniform :: "'r rng \<Rightarrow> pyfloat \<Rightarrow> pyfloat \<Rightarrow> ('r, pyfloat) draw" where
  "uniform g a b = dbind (draw_of (rg_random g)) (\<lambda>u. dret (fadd a (fmul (fsub b a) (Fin u))))"

function bisect :: "pyfloat list \<Rightarrow> pyfloat \<Rightarrow> nat \<Rightarrow> nat \<Rightarrow> nat" where
  "bisect a x lo hi =
     (if lo < hi
      then let mid = (lo + hi) div 2 in if flt x (a ! mid) then bisect a x lo mid else bisect a x (mid + 1) hi
      else lo)"
  by pat_completeness auto
termination by (relation "measure (\<lambda>(_, _, lo, hi). hi - lo)") auto

declare bisect.simps [simp del]

fun accumulate :: "pyfloat \<Rightarrow> pyfloat list \<Rightarrow> pyfloat list" where
  "accumulate acc [] = []"
| "accumulate acc (w # ws) = fadd acc w # accumulate (fadd acc w) ws"

definition is_finite :: "pyfloat \<Rightarrow> bool" where
  "is_finite f = (case f of Fin _ \<Rightarrow> True | _ \<Rightarrow> False)"

definition choices1 :: "'r rng \<Rightarrow> 'a list \<Rightarrow> pyfloat list \<Rightarrow> ('r, 'a) draw" where
  \<comment> \<open>\<open>rng.choices(keys, weights=ws, k=1)[0]\<close>\<close>
  "choices1 g keys ws =
     (let cum = accumulate (Fin 0) ws
      in if cum = [] then dlift (Inl IndexError)
         else if fle (last cum) (Fin 0) \<or> \<not> is_finite (last cum) then dlift (Inl ValueError)
         else dbind (draw_of (rg_random g)) (\<lambda>u.
              dret (keys ! bisect cum (fmul (Fin u) (last cum)) 0 (length keys - 1))))"

definition weighted :: "'r rng \<Rightarrow> pyval \<Rightarrow> ('r, pykey) draw" where
  "weighted g m =
     dbind (dlift (case m of PDict d \<Rightarrow> Inr d | _ \<Rightarrow> Inl TypeError)) (\<lambda>d.
     dbind (dlift (emap (\<lambda>p. py_float (snd p)) d)) (\<lambda>ws.
     choices1 g (map fst d) ws))"

definition hex_digits :: string where
  "hex_digits = ''0123456789abcdef''"

definition padding :: "'r rng \<Rightarrow> nat \<Rightarrow> ('r, string) draw" where
  \<comment> \<open>\<open>''.join(rng.choice('0123456789abcdef') for _ in range(n))\<close>\<close>
  "padding g n = drepeat n (choice g hex_digits)"

definition padded_text :: "'r rng \<Rightarrow> string \<Rightarrow> int \<Rightarrow> ('r, string) draw" where
  "padded_text g head target =
     (let pad_len = max 0 (target - int (length head) - 1)
      in if pad_len = 0 then dret head
         else dbind (padding g (nat pad_len)) (\<lambda>pad. dret (head @ '' '' @ pad)))"

definition latency_spec :: "pydict \<Rightarrow> int \<times> int \<times> int \<times> int \<Rightarrow> pyexn + pyfloat \<times> pyfloat \<times> pyfloat \<times> pyfloat" where
  \<comment> \<open>the four quantiles of \<open>latency_ms\<close>, each with its default\<close>
  "latency_spec data dflt =
     (case dflt of (d50, d95, d99, dmax) \<Rightarrow>
     ebind (as_dict (py_or (dget_or data ''latency_ms'' PNone) (PDict []))) (\<lambda>spec.
     ebind (py_float (dget_or spec ''p50'' (PInt d50))) (\<lambda>p50.
     ebind (py_float (dget_or spec ''p95'' (PInt d95))) (\<lambda>p95.
     ebind (py_float (dget_or spec ''p99'' (PInt d99))) (\<lambda>p99.
     ebind (py_float (dget_or spec ''max'' (PInt dmax))) (\<lambda>p100.
     Inr (p50, p95, p99, p100)))))))"

definition draw_latency :: "'r rng \<Rightarrow> pyfloat \<times> pyfloat \<times> pyfloat \<times> pyfloat \<Rightarrow> ('r, pyfloat) draw" where
  "draw_latency g q =
     (case q of (p50, p95, p99, p100) \<Rightarrow>
     dbind (draw_of (rg_random g)) (\<lambda>u.
     if u < 50 / 100 then uniform g (Fin 1) p50
     else if u < 95 / 100 then uniform g p50 p95
     else if u < 99 / 100 then uniform g p95 p99
     else uniform g p99 p100))"

section \<open>Ranges of the draws\<close>

lemma rng_okD [simp]:
  "rng_ok g \<Longrightarrow> 0 \<le> fst (rg_random g r)" "rng_ok g \<Longrightarrow> fst (rg_random g r) < 1"
  "rng_ok g \<Longrightarrow> 0 < n \<Longrightarrow> fst (rg_below g n r) < n" "rng_ok g \<Longrightarrow> fst (rg_bits g k r) < 2 ^ k"
  by (auto simp: rng_ok_def)

lemma yields_choice: "rng_ok g \<Longrightarrow> yields (choice g xs) (\<lambda>x. x \<in> set xs)"
  unfolding choice_def
  by (intro yields_if, simp, rule yields_bind [where Q = "\<lambda>i. i < length xs"]) simp_all

lemma yields_randint: "rng_ok g \<Longrightarrow> yields (randint g a b) (\<lambda>x. a \<le> x \<and> x \<le> b)"
  unfolding randint_def Let_def
proof (intro yields_if)
  assume g: "rng_ok g" and w: "0 < b + 1 - a"
  have "int (fst (rg_below g (nat (b + 1 - a)) r)) \<le> b - a" for r
    using rng_okD(3) [OF g, of "nat (b + 1 - a)" r] w by linarith
  then show "yields (dbind (draw_of (rg_below g (nat (b + 1 - a)))) (\<lambda>i. dret (a + int i))) (\<lambda>x. a \<le> x \<and> x \<le> b)"
    by (intro yields_bind [where Q = "\<lambda>i. int i \<le> b - a"]) auto
qed simp

lemma yields_uniform:
  assumes "rng_ok g" and "a \<le> b"
  shows "yields (uniform g (Fin a) (Fin b)) (\<lambda>f. \<exists>x. f = Fin x \<and> a \<le> x \<and> x \<le> b)"
proof -
  have "a \<le> a + (b - a) * u \<and> a + (b - a) * u \<le> b" if "0 \<le> u" "u < 1" for u
    using assms(2) that mult_left_mono [of u 1 "b - a"] by simp
  then show ?thesis unfolding uniform_def
    by (intro yields_bind [where Q = "\<lambda>u. 0 \<le> u \<and> u < 1"]) (simp_all add: assms(1))
qed

lemma yields_latency:
  assumes "rng_ok g" and "1 \<le> a" "a \<le> b" "b \<le> c" "c \<le> d"
  shows "yields (draw_latency g (Fin a, Fin b, Fin c, Fin d)) (\<lambda>f. \<exists>x. f = Fin x \<and> 1 \<le> x \<and> x \<le> d)"
proof -
  have u: "yields (uniform g (Fin p) (Fin q)) (\<lambda>f. \<exists>x. f = Fin x \<and> 1 \<le> x \<and> x \<le> d)"
    if "1 \<le> p" "p \<le> q" "q \<le> d" for p q
    using that by (intro yields_mono [OF yields_uniform [OF assms(1)]]) auto
  show ?thesis unfolding draw_latency_def prod.case
    by (rule yields_bind_any, intro conjI yields_if)
      (rule u, use assms in linarith, use assms in linarith, use assms in linarith)+
qed

lemma yields_padded: "rng_ok g \<Longrightarrow>
  yields (padded_text g head target)
    (\<lambda>s. take (length head) s = head
       \<and> int (length s) = (if int (length head) + 1 < target then target else int (length head)))"
  unfolding padded_text_def padding_def Let_def
  by (intro yields_if, simp, rule yields_bind [OF yields_repeat [OF yields_choice]]) auto

section \<open>The weighted choice\<close>

lemma bisect_range: "lo \<le> hi \<Longrightarrow> lo \<le> bisect a x lo hi \<and> bisect a x lo hi \<le> hi"
proof (induction a x lo hi rule: bisect.induct)
  case (1 a x lo hi)
  show ?case
  proof (cases "lo < hi")
    case True
    define mid where "mid = (lo + hi) div 2"
    have mid: "lo \<le> mid" "mid < hi" using True by (auto simp: mid_def)
    have "bisect a x lo hi = (if flt x (a ! mid) then bisect a x lo mid else bisect a x (mid + 1) hi)"
      using True by (subst bisect.simps) (simp add: mid_def Let_def)
    then show ?thesis using 1(1) [OF True mid_def] 1(2) [OF True mid_def] mid by auto
  next
    case False
    then have "bisect a x lo hi = lo" by (subst bisect.simps) simp
    then show ?thesis using 1(3) by simp
  qed
qed

lemma bisect_splits:
  assumes "lo \<le> hi" and "\<And>i j. i \<le> j \<Longrightarrow> j < hi \<Longrightarrow> flt x (a ! i) \<Longrightarrow> flt x (a ! j)"
  shows "(\<forall>i. lo \<le> i \<and> i < bisect a x lo hi \<longrightarrow> \<not> flt x (a ! i))
    \<and> (bisect a x lo hi < hi \<longrightarrow> flt x (a ! bisect a x lo hi))"
  using assms
proof (induction a x lo hi rule: bisect.induct)
  case (1 a x lo hi)
  show ?case
  proof (cases "lo < hi")
    case False
    then have "bisect a x lo hi = lo" by (subst bisect.simps) simp
    then show ?thesis using False by auto
  next
    case True
    define mid where "mid = (lo + hi) div 2"
    have mid: "lo \<le> mid" "mid < hi" using True by (auto simp: mid_def)
    show ?thesis
    proof (cases "flt x (a ! mid)")
      case t: True
      have e: "bisect a x lo hi = bisect a x lo mid"
        using True t by (subst bisect.simps) (simp add: mid_def Let_def)
      have ih: "(\<forall>i. lo \<le> i \<and> i < bisect a x lo mid \<longrightarrow> \<not> flt x (a ! i))
          \<and> (bisect a x lo mid < mid \<longrightarrow> flt x (a ! bisect a x lo mid))"
        using 1(1) [OF True mid_def t mid(1)] 1(4) mid by simp
      have "bisect a x lo mid \<le> mid" using bisect_range mid(1) by blast
      then have "flt x (a ! bisect a x lo mid)"
        using ih t by (cases "bisect a x lo mid = mid") auto
      then show ?thesis unfolding e using ih by blast
    next
      case f: False
      have e: "bisect a x lo hi = bisect a x (mid + 1) hi"
        using True f by (subst bisect.simps) (simp add: mid_def Let_def)
      have "\<not> flt x (a ! i)" if "i \<le> mid" for i using 1(4) [of i mid] that mid f by blast
      then have low: "\<not> flt x (a ! i)" if "i < mid + 1" for i using that by simp
      have "(\<forall>i. mid + 1 \<le> i \<and> i < bisect a x (mid + 1) hi \<longrightarrow> \<not> flt x (a ! i))
          \<and> (bisect a x (mid + 1) hi < hi \<longrightarrow> flt x (a ! bisect a x (mid + 1) hi))"
        using 1(2) [OF True mid_def f] 1(4) mid by simp
      then show ?thesis unfolding e using low by (meson not_le)
    qed
  qed
qed

lemma accumulate_Fin:
  "accumulate (Fin s) (map Fin ws) = map (\<lambda>i. Fin (s + sum_list (take (Suc i) ws))) [0 ..< length ws]"
proof (induction ws arbitrary: s)
  case (Cons w ws)
  have "[0 ..< length (w # ws)] = 0 # map Suc [0 ..< length ws]"
    by (simp add: map_Suc_upt upt_conv_Cons del: upt_Suc)
  then show ?case by (simp add: Cons.IH add.assoc o_def del: upt_Suc)
qed simp

lemma take_sum_mono:
  fixes ws :: "rat list"
  assumes "\<forall>w \<in> set ws. 0 \<le> w" and "i \<le> j"
  shows "sum_list (take i ws) \<le> sum_list (take j ws)"
proof -
  have "take j ws = take i ws @ take (j - i) (drop i ws)" using assms(2) by (metis le_add_diff_inverse take_add)
  moreover have "0 \<le> sum_list (take (j - i) (drop i ws))"
    using assms(1) by (intro sum_list_nonneg) (meson in_set_dropD in_set_takeD)
  ultimately show ?thesis by simp
qed

lemma choices1_positive:
  fixes ws :: "rat list"
  assumes g: "rng_ok g" and w: "\<forall>w \<in> set ws. 0 \<le> w" and len: "length keys = length ws"
  shows "yields (choices1 g keys (map Fin ws)) (\<lambda>k. \<exists>i < length ws. k = keys ! i \<and> 0 < ws ! i)"
proof (cases "ws = [] \<or> sum_list ws \<le> 0")
  case True
  have "accumulate (Fin 0) (map Fin ws) \<noteq> [] \<Longrightarrow> last (accumulate (Fin 0) (map Fin ws)) = Fin (sum_list ws)"
    by (simp add: accumulate_Fin last_map)
  with True show ?thesis by (auto simp: choices1_def Let_def)
next
  case False
  let ?n = "length ws" and ?S = "\<lambda>i. sum_list (take i ws)"
  let ?cum = "map (\<lambda>i. Fin (?S (Suc i))) [0 ..< ?n]"
  have n: "0 < ?n" and tot: "0 < sum_list ws" using False by auto
  have cum: "accumulate (Fin 0) (map Fin ws) = ?cum" by (simp add: accumulate_Fin del: upt_Suc)
  have lst: "last ?cum = Fin (sum_list ws)" using n by (simp add: last_map)
  have "\<exists>i < ?n. keys ! bisect ?cum (Fin (u * sum_list ws)) 0 (?n - 1) = keys ! i \<and> 0 < ws ! i"
    if u: "0 \<le> u" "u < 1" for u
  proof -
    let ?x = "u * sum_list ws" and ?b = "bisect ?cum (Fin (u * sum_list ws)) 0 (?n - 1)"
    have b: "?b \<le> ?n - 1" using bisect_range [of 0] by blast
    have s: "(\<forall>i. 0 \<le> i \<and> i < ?b \<longrightarrow> \<not> flt (Fin ?x) (?cum ! i)) \<and> (?b < ?n - 1 \<longrightarrow> flt (Fin ?x) (?cum ! ?b))"
      by (rule bisect_splits) (use w in \<open>auto dest: take_sum_mono simp: less_le_trans\<close>)
    have "?x < ?S (Suc ?b)"
    proof (cases "?b < ?n - 1")
      case True with s n show ?thesis by simp
    next
      case False
      then have "Suc ?b = ?n" using b n by simp
      then show ?thesis using u tot by simp
    qed
    moreover have "?S ?b \<le> ?x"
    proof (cases ?b)
      case 0 then show ?thesis using u tot by simp
    next
      case (Suc k)
      then show ?thesis using s b n by (auto simp: not_less dest!: spec [of _ k] conjunct1)
    qed
    moreover have "?S (Suc ?b) = ?S ?b + ws ! ?b"
    proof -
      have "?b < ?n" using b n by linarith
      then show ?thesis by (simp add: take_Suc_conv_app_nth)
    qed
    ultimately have "0 < ws ! ?b" by linarith
    moreover have "?b < ?n" using b n by linarith
    ultimately show ?thesis by blast
  qed
  moreover have "choices1 g keys (map Fin ws) =
      dbind (draw_of (rg_random g)) (\<lambda>u. dret (keys ! bisect ?cum (Fin (u * sum_list ws)) 0 (?n - 1)))"
    using n tot len unfolding choices1_def Let_def cum lst by (simp add: is_finite_def del: upt_Suc)
  ultimately show ?thesis
    by (auto intro!: yields_bind [where Q = "\<lambda>u. 0 \<le> u \<and> u < 1"] simp: g simp del: upt_Suc)
qed

end
