(* ===== verification/Payload.thy ===== *)
theory Payload
  imports Rng "HOL-Library.Product_Lexorder"
begin

text \<open>
  \<open>generator/src/payload.py\<close>: log records with their attributes, the template pool that is
  built once per run and re-stamped for every send, and the overlap test for sequence ranges.
  Protobuf messages are records here; \<open>ByteSize\<close> is the argument \<open>bsize\<close>, the state that
  \<open>random.Random(n)\<close> starts from is \<open>seeded\<close>, and \<open>rend\<close> prints floats and containers.
  A handle on a record's sequence number is the position of that attribute in the record.
  Floats are exact rationals, also in the cost attributes.
\<close>

section \<open>OTLP data\<close>

datatype any_value = AStr string | AInt int | ADouble pyfloat | ABool bool

type_synonym attrs = "(string \<times> any_value) list"

record log_record =
  lr_time :: int
  lr_observed :: int
  lr_sev_number :: int
  lr_sev_text :: string
  lr_body :: string
  lr_trace :: nat
  lr_span :: nat
  lr_flags :: int
  lr_attrs :: attrs

record request =
  rq_resource :: attrs
  rq_scope :: "string \<times> string"
  rq_records :: "log_record list"

definition in_int64 :: "int \<Rightarrow> bool" where
  \<comment> \<open>an \<open>int_value\<close> outside this range is refused by protobuf\<close>
  "in_int64 i = (- (2 ^ 63) \<le> i \<and> i < 2 ^ 63)"

fun kv :: "(pyval \<Rightarrow> string) \<Rightarrow> string \<Rightarrow> pyval \<Rightarrow> pyexn + string \<times> any_value" where
  "kv rend k (PBool b) = Inr (k, ABool b)"
| "kv rend k (PInt i) = (if in_int64 i then Inr (k, AInt i) else Inl ValueError)"
| "kv rend k (PFloat f) = Inr (k, ADouble f)"
| "kv rend k v = Inr (k, AStr (py_str rend v))"

definition severity_number :: "string \<Rightarrow> int" where
  "severity_number name =
     (case map_of [(''TRACE'', 1), (''DEBUG'', 5), (''INFO'', 9), (''WARN'', 13), (''ERROR'', 17), (''FATAL'', 21)] name of
        None \<Rightarrow> 9 | Some n \<Rightarrow> n)"

definition lorem :: "string list" where
  "lorem =
    [''request completed'', ''cache miss on key'', ''upstream latency elevated'',
     ''retrying downstream call'', ''token budget consumed'', ''payload validated'',
     ''connection pool checkout'', ''rate limit bucket refilled'',
     ''model inference finished'', ''streamed response flushed'']"

section \<open>Reading the data section\<close>

definition choice_val :: "'r rng \<Rightarrow> pyval \<Rightarrow> ('r, pyval) draw" where
  \<comment> \<open>\<open>rng.choice(v)\<close>: a length and an item at the drawn position\<close>
  "choice_val g v =
     (case v of
        PList xs \<Rightarrow> choice g xs
      | PStr s \<Rightarrow> choice g (map (\<lambda>c. PStr [c]) s)
      | PDict d \<Rightarrow>
          if d = [] then dlift (Inl IndexError)
          else dbind (draw_of (rg_below g (length d))) (\<lambda>i.
               dlift (case map_of d (KInt (int i)) of None \<Rightarrow> Inl KeyError | Some x \<Rightarrow> Inr x))
      | _ \<Rightarrow> dlift (Inl TypeError))"

definition item_at :: "pyval \<Rightarrow> string \<Rightarrow> pyexn + pyval" where
  \<comment> \<open>\<open>v[key]\<close>\<close>
  "item_at v k =
     (case v of PDict d \<Rightarrow> (case dget d k of None \<Rightarrow> Inl KeyError | Some x \<Rightarrow> Inr x) | _ \<Rightarrow> Inl TypeError)"

definition get_by_value :: "pydict \<Rightarrow> pyval \<Rightarrow> pyexn + pyval" where
  \<comment> \<open>\<open>d.get(v)\<close> for a value that came out of the configuration: numbers equal to an integer
    find the integer key, lists and dictionaries cannot be hashed.\<close>
  "get_by_value d v =
     (let found = (\<lambda>k. Inr (case map_of d k of None \<Rightarrow> PNone | Some x \<Rightarrow> x))
      in case v of
           PStr s \<Rightarrow> found (KStr s)
         | PInt i \<Rightarrow> found (KInt i)
         | PBool b \<Rightarrow> found (KInt (if b then 1 else 0))
         | PFloat (Fin x) \<Rightarrow> if x = of_int \<lfloor>x\<rfloor> then found (KInt \<lfloor>x\<rfloor>) else Inr PNone
         | PFloat _ \<Rightarrow> Inr PNone
         | PNone \<Rightarrow> Inr PNone
         | _ \<Rightarrow> Inl TypeError)"

fun int_of_key :: "pykey \<Rightarrow> pyexn + int" where
  "int_of_key (KInt i) = Inr i"
| "int_of_key (KStr s) = (case parse_int s of None \<Rightarrow> Inl ValueError | Some i \<Rightarrow> Inr i)"

fun text_of_key :: "pykey \<Rightarrow> pyexn + string" where
  \<comment> \<open>a text field of a protobuf message refuses a number\<close>
  "text_of_key (KStr s) = Inr s"
| "text_of_key (KInt i) = Inl TypeError"

definition opt_section :: "pydict \<Rightarrow> string \<Rightarrow> pyval \<Rightarrow> pyval" where
  \<comment> \<open>\<open>data.get(k) or default\<close>\<close>
  "opt_section d k v = py_or (dget_or d k PNone) v"

fun hex_nat :: "nat \<Rightarrow> string" where
  "hex_nat n = (if n < 16 then [hex_digits ! n] else hex_nat (n div 16) @ [hex_digits ! (n mod 16)])"

declare hex_nat.simps [simp del]

definition hex_padded :: "nat \<Rightarrow> nat \<Rightarrow> string" where
  \<comment> \<open>\<open>f'{n:0wx}'\<close>\<close>
  "hex_padded w n = replicate (w - length (hex_nat n)) (CHR ''0'') @ hex_nat n"

definition fround :: "nat \<Rightarrow> pyfloat \<Rightarrow> pyfloat" where
  "fround n f = (case f of Fin x \<Rightarrow> Fin (of_int (py_round (x * 10 ^ n)) / 10 ^ n) | _ \<Rightarrow> f)"

section \<open>Building one record\<close>

definition sample_latency :: "'r rng \<Rightarrow> pydict \<Rightarrow> ('r, int) draw" where
  "sample_latency g data =
     dbind (dlift (latency_spec data (100, 500, 1500, 10000))) (\<lambda>q.
     dbind (draw_latency g q) (\<lambda>ms.
     dlift (py_int_of_float ms)))"

definition token_range :: "pyval \<Rightarrow> pyexn + int \<times> int" where
  "token_range v =
     ebind (ebind (item_at v ''min'') py_int) (\<lambda>lo.
     ebind (ebind (item_at v ''max'') py_int) (\<lambda>hi. Inr (lo, hi)))"

definition default_tokens :: "int \<Rightarrow> int \<Rightarrow> pyval" where
  "default_tokens lo hi = PDict [(KStr ''min'', PInt lo), (KStr ''max'', PInt hi)]"

definition token_rates :: "pydict \<Rightarrow> pyval \<Rightarrow> pyexn + pyfloat \<times> pyfloat" where
  "token_rates cfg model =
     ebind (as_dict (opt_section cfg ''pricing'' (PDict []))) (\<lambda>table.
     ebind (get_by_value table model) (\<lambda>entry.
     ebind (as_dict (py_or entry (PDict []))) (\<lambda>pricing.
     ebind (py_float (dget_or pricing ''input'' (PFloat (Fin 0)))) (\<lambda>in_rate.
     ebind (py_float (dget_or pricing ''output'' (PFloat (Fin 0)))) (\<lambda>out_rate.
     Inr (in_rate, out_rate))))))"

definition model_kvs ::
  "(pyval \<Rightarrow> string) \<Rightarrow> pyval \<Rightarrow> int \<Rightarrow> int \<Rightarrow> pyfloat \<times> pyfloat \<Rightarrow> pyexn + attrs" where
  "model_kvs rend model tin tout rates =
     (let req = fmul (Fin (of_int tin / 1000000)) (fst rates);
          rsp = fmul (Fin (of_int tout / 1000000)) (snd rates)
      in emap (\<lambda>(k, v). kv rend k v)
        [(''gen_ai.request.model'', model),
         (''gen_ai.usage.input_tokens'', PInt tin),
         (''gen_ai.usage.output_tokens'', PInt tout),
         (''gen_ai.usage.total_tokens'', PInt (tin + tout)),
         (''gen_ai.cost.request_usd'', PFloat (fround 8 req)),
         (''gen_ai.cost.response_usd'', PFloat (fround 8 rsp)),
         (''gen_ai.cost.total_usd'', PFloat (fround 8 (fadd req rsp)))])"

definition model_attributes :: "(pyval \<Rightarrow> string) \<Rightarrow> 'r rng \<Rightarrow> pydict \<Rightarrow> ('r, attrs) draw" where
  "model_attributes rend g data =
     dbind (dlift (as_dict (opt_section data ''model_traffic'' (PDict [])))) (\<lambda>cfg.
     if \<not> truthy (dget_or cfg ''enabled'' PNone) then dret []
     else
       dbind (choice_val g (opt_section cfg ''models'' (PList [PStr ''unknown-model'']))) (\<lambda>model.
       dbind (dlift (token_range (opt_section cfg ''input_tokens'' (default_tokens 100 4000)))) (\<lambda>(lo, hi).
       dbind (randint g lo hi) (\<lambda>tin.
       dbind (dlift (token_range (opt_section cfg ''output_tokens'' (default_tokens 20 1000)))) (\<lambda>(lo', hi').
       dbind (randint g lo' hi') (\<lambda>tout.
       dbind (dlift (token_rates cfg model)) (\<lambda>rates.
       dlift (model_kvs rend model tin tout rates))))))))"

definition build_body :: "'r rng \<Rightarrow> pydict \<Rightarrow> ('r, string) draw" where
  "build_body g data =
     dbind (dlift (py_int (dget_or data ''body_bytes'' (PInt 256)))) (\<lambda>target.
     dbind (choice g lorem) (\<lambda>head.
     padded_text g head target))"

definition severity_mix :: "pydict \<Rightarrow> pyval" where
  "severity_mix data = opt_section data ''severity_mix'' (PDict [(KStr ''INFO'', PFloat (Fin 1))])"

definition status_mix :: "pydict \<Rightarrow> pyval" where
  "status_mix data = opt_section data ''http_status_mix'' (PDict [(KInt 200, PFloat (Fin 1))])"

definition build_record ::
  "(pyval \<Rightarrow> string) \<Rightarrow> 'r rng \<Rightarrow> pydict \<Rightarrow> string \<Rightarrow> pyval \<Rightarrow> ('r, log_record) draw" where
  "build_record rend g data gen_id service =
     dbind (weighted g (severity_mix data)) (\<lambda>sev.
     dbind (weighted g (status_mix data)) (\<lambda>st.
     dbind (dlift (int_of_key st)) (\<lambda>status.
     dbind (sample_latency g data) (\<lambda>latency_ms.
     dbind (dlift (kv rend ''http.response.status_code'' (PInt status))) (\<lambda>status_kv.
     dbind (choice g [''GET'', ''POST'', ''PUT'', ''DELETE'']) (\<lambda>meth.
     dbind (choice g [''items'', ''query'', ''batch'']) (\<lambda>leaf.
     dbind (draw_of (rg_bits g 64)) (\<lambda>rid.
     dbind (dlift (kv rend ''duration_ms'' (PInt latency_ms))) (\<lambda>duration_kv.
     dbind (model_attributes rend g data) (\<lambda>model_kvs.
     dbind (build_body g data) (\<lambda>body.
     dbind (draw_of (rg_bits g 128)) (\<lambda>trace.
     dbind (draw_of (rg_bits g 64)) (\<lambda>span.
     dbind (dlift (text_of_key sev)) (\<lambda>sev_name.
     dret \<lparr>lr_time = 0, lr_observed = 0, lr_sev_number = severity_number sev_name,
           lr_sev_text = sev_name, lr_body = body, lr_trace = trace, lr_span = span, lr_flags = 1,
           lr_attrs =
             [(''bench.seq'', AInt 0), (''bench.gen_id'', AStr gen_id), status_kv,
              (''http.request.method'', AStr meth),
              (''http.route'', AStr (''/v1/'' @ py_str rend service @ ''/'' @ leaf)),
              (''request.id'', AStr (hex_padded 16 rid)), duration_kv,
              (''error'', ABool (400 \<le> status))] @ model_kvs\<rparr>))))))))))))))"

section \<open>Templates\<close>

record template =
  tp_request :: request
  tp_seq_values :: "nat list"
  tp_count :: int
  tp_bytes :: int

fun attr_index :: "string \<Rightarrow> attrs \<Rightarrow> nat option" where
  "attr_index k [] = None"
| "attr_index k ((k', v) # as) = (if k' = k then Some 0 else map_option Suc (attr_index k as))"

definition find_seq_value :: "log_record \<Rightarrow> pyexn + nat" where
  "find_seq_value r =
     (case attr_index ''bench.seq'' (lr_attrs r) of None \<Rightarrow> Inl RuntimeError | Some i \<Rightarrow> Inr i)"

definition set_attr :: "nat \<Rightarrow> any_value \<Rightarrow> attrs \<Rightarrow> attrs" where
  "set_attr i v as = as[i := (fst (as ! i), v)]"

fun stamp_records :: "int \<Rightarrow> int \<Rightarrow> nat list \<Rightarrow> log_record list \<Rightarrow> pyexn + log_record list \<times> int" where
  "stamp_records now seq [] rs = Inr (rs, seq)"
| "stamp_records now seq hs [] = Inr ([], seq)"
| "stamp_records now seq (h # hs) (r # rs) =
     (if in_int64 seq then
        ebind (stamp_records now (seq + 1) hs rs) (\<lambda>(rs', seq').
        Inr (r\<lparr>lr_attrs := set_attr h (AInt seq) (lr_attrs r), lr_time := now, lr_observed := now\<rparr> # rs', seq'))
      else Inl ValueError)"

definition stamp :: "int \<Rightarrow> int \<Rightarrow> template \<Rightarrow> pyexn + template \<times> int" where
  "stamp now first_seq t =
     ebind (stamp_records now first_seq (tp_seq_values t) (rq_records (tp_request t))) (\<lambda>(rs, seq).
     Inr (t\<lparr>tp_request := (tp_request t)\<lparr>rq_records := rs\<rparr>\<rparr>, seq))"

definition build_template ::
  "(pyval \<Rightarrow> string) \<Rightarrow> (request \<Rightarrow> int) \<Rightarrow> 'r rng \<Rightarrow> pydict \<Rightarrow> string \<Rightarrow> int \<Rightarrow> ('r, template) draw" where
  "build_template rend bsize g data gen_id batch =
     dbind (choice_val g (opt_section data ''service_names'' (PList [PStr ''service'']))) (\<lambda>service.
     dbind (dlift (kv rend ''service.name'' service)) (\<lambda>service_kv.
     dbind (choice_val g (opt_section data ''environments'' (PList [PStr ''prod'']))) (\<lambda>envv.
     dbind (dlift (kv rend ''deployment.environment'' envv)) (\<lambda>env_kv.
     dbind (choice_val g (opt_section data ''regions'' (PList [PStr ''us-west-2'']))) (\<lambda>region.
     dbind (dlift (emap (\<lambda>(k, v). kv rend k v)
        [(''cloud.region'', region),
         (''tenant.id'', dget_or data ''tenant_id'' (PStr ''testing-tenant'')),
         (''workspace.id'', dget_or data ''workspace_id'' (PStr ''testing-workspace'')),
         (''bench.gen_id'', PStr gen_id)])) (\<lambda>rest.
     dbind (drepeat (nat batch) (build_record rend g data gen_id service)) (\<lambda>prototypes.
     let req = \<lparr>rq_resource = service_kv # env_kv # rest,
                rq_scope = (''analytics-distributed-test'', ''1.0.0''), rq_records = prototypes\<rparr>
     in dbind (dlift (emap find_seq_value prototypes)) (\<lambda>hs.
        dret \<lparr>tp_request = req, tp_seq_values = hs, tp_count = int (length prototypes),
              tp_bytes = bsize req\<rparr>))))))))"

section \<open>The factory\<close>

record factory =
  pf_gen_id :: string
  pf_batch :: int
  pf_data :: pydict
  pf_seed :: int
  pf_workers :: int
  pf_variants :: int
  pf_templates :: "template list"

definition gen_id_or :: "string option \<Rightarrow> string \<Rightarrow> string" where
  \<comment> \<open>\<open>gen_id or str(uuid.uuid4())\<close>\<close>
  "gen_id_or gen_id uuid = (case gen_id of None \<Rightarrow> uuid | Some s \<Rightarrow> if s = [] then uuid else s)"

definition pool_size :: "int \<Rightarrow> int \<Rightarrow> int" where
  "pool_size workers variants = max 1 workers * max 1 variants"

definition build_pool ::
  "(int \<Rightarrow> 'r) \<Rightarrow> int \<Rightarrow> int \<Rightarrow> (int \<Rightarrow> ('r, 'a) draw) \<Rightarrow> pyexn + 'a list" where
  \<comment> \<open>template \<open>i\<close> is built from a generator of its own\<close>
  "build_pool seeded seed pool build =
     emap (\<lambda>i. map_sum id fst (build i (seeded (seed * 1000003 + i)))) [0 .. pool - 1]"

definition new_factory ::
  "(pyval \<Rightarrow> string) \<Rightarrow> (request \<Rightarrow> int) \<Rightarrow> 'r rng \<Rightarrow> (int \<Rightarrow> 'r) \<Rightarrow> string \<Rightarrow> pyval \<Rightarrow> int
   \<Rightarrow> string option \<Rightarrow> int \<Rightarrow> int \<Rightarrow> pyexn + factory" where
  "new_factory rend bsize g seeded uuid data batch gen_id workers variants =
     (let gid = gen_id_or gen_id uuid
      in ebind (as_dict (py_or data (PDict []))) (\<lambda>d.
         ebind (py_int (dget_or d ''seed'' (PInt 42))) (\<lambda>seed.
         ebind (build_pool seeded seed (pool_size workers variants)
                  (\<lambda>i. build_template rend bsize g d gid batch)) (\<lambda>ts.
         Inr \<lparr>pf_gen_id = gid, pf_batch = batch, pf_data = d, pf_seed = seed,
              pf_workers = max 1 workers, pf_variants = max 1 variants, pf_templates = ts\<rparr>))))"

definition build_factory ::
  "(pyval \<Rightarrow> string) \<Rightarrow> (request \<Rightarrow> int) \<Rightarrow> 'r rng \<Rightarrow> (int \<Rightarrow> 'r) \<Rightarrow> string \<Rightarrow> pyval \<Rightarrow> int
   \<Rightarrow> int \<Rightarrow> string option \<Rightarrow> pyexn + factory" where
  "build_factory rend bsize g seeded uuid data batch workers gen_id =
     new_factory rend bsize g seeded uuid data batch gen_id workers 4"

definition template_slot :: "int \<Rightarrow> int \<Rightarrow> int \<Rightarrow> int \<Rightarrow> int" where
  "template_slot workers variants worker_id variant =
     (worker_id mod workers) * variants + variant mod variants"

definition template_for :: "factory \<Rightarrow> int \<Rightarrow> int \<Rightarrow> pyexn + template" where
  "template_for f worker_id variant =
     (let i = nat (template_slot (pf_workers f) (pf_variants f) worker_id variant)
      in if i < length (pf_templates f) then Inr (pf_templates f ! i) else Inl IndexError)"

definition mean_bytes :: "int list \<Rightarrow> pyexn + int" where
  \<comment> \<open>\<open>sum(bytes) // len(templates)\<close>\<close>
  "mean_bytes bs = (if bs = [] then Inl ZeroDivisionError else Inr (sum_list bs div int (length bs)))"

definition approx_batch_bytes :: "factory \<Rightarrow> pyexn + int" where
  "approx_batch_bytes f = mean_bytes (map tp_bytes (pf_templates f))"

definition describe :: "factory \<Rightarrow> pyexn + pydict" where
  "describe f =
     ebind (approx_batch_bytes f) (\<lambda>bytes.
     ebind (as_dict (opt_section (pf_data f) ''model_traffic'' (PDict []))) (\<lambda>mt.
     Inr [(KStr ''gen_id'', PStr (pf_gen_id f)), (KStr ''seed'', PInt (pf_seed f)),
          (KStr ''batch_size'', PInt (pf_batch f)),
          (KStr ''template_pool_size'', PInt (int (length (pf_templates f)))),
          (KStr ''variants_per_worker'', PInt (pf_variants f)),
          (KStr ''approx_batch_bytes'', PInt bytes),
          (KStr ''model_traffic_enabled'', PBool (truthy (dget_or mt ''enabled'' (PBool False))))]))"

section \<open>Sequence ranges\<close>

definition seq_ranges_overlap :: "(int \<times> int) list \<Rightarrow> bool" where
  "seq_ranges_overlap rs =
     (let ordered = sort rs
      in list_ex (\<lambda>i. fst (ordered ! (i + 1)) \<le> snd (ordered ! i)) [0 ..< length ordered - 1])"


section \<open>Stamping\<close>

lemma attr_index_Some:
  "attr_index k as = Some i \<Longrightarrow> i < length as \<and> fst (as ! i) = k \<and> (\<forall>j < i. fst (as ! j) \<noteq> k)"
proof (induction as arbitrary: i)
  case (Cons p as)
  obtain k' v where p: "p = (k', v)" by (cases p)
  show ?case
  proof (cases "k' = k")
    case False
    with Cons.prems p obtain n where n: "i = Suc n" "attr_index k as = Some n" by auto
    with Cons.IH [OF n(2)] False p show ?thesis by (auto simp: nth_Cons split: nat.splits)
  qed (use Cons.prems p in auto)
qed simp

lemma attr_index_None: "attr_index k as = None \<longleftrightarrow> k \<notin> fst ` set as"
  by (induction as) (auto split: if_splits)

lemma map_of_set_attr:
  "attr_index k as = Some i \<Longrightarrow> map_of (set_attr i v as) k' = (if k' = k then Some v else map_of as k')"
  by (induction as arbitrary: i) (auto simp: set_attr_def split: if_splits)

abbreviation attr :: "string \<Rightarrow> log_record \<Rightarrow> any_value option" where
  "attr k r \<equiv> map_of (lr_attrs r) k"

definition handles_ok :: "string \<Rightarrow> nat list \<Rightarrow> log_record list \<Rightarrow> bool" where
  "handles_ok k hs rs = list_all2 (\<lambda>h r. attr_index k (lr_attrs r) = Some h) hs rs"

definition restamped :: "int \<Rightarrow> int \<Rightarrow> log_record \<Rightarrow> log_record \<Rightarrow> bool" where
  \<comment> \<open>\<open>r'\<close> is \<open>r\<close> with sequence number \<open>s\<close> and both timestamps \<open>now\<close>, all else kept\<close>
  "restamped now s r r' =
     (lr_time r' = now \<and> lr_observed r' = now \<and> attr ''bench.seq'' r' = Some (AInt s)
      \<and> (\<forall>k. k \<noteq> ''bench.seq'' \<longrightarrow> attr k r' = attr k r)
      \<and> map fst (lr_attrs r') = map fst (lr_attrs r)
      \<and> lr_body r' = lr_body r \<and> lr_sev_text r' = lr_sev_text r \<and> lr_sev_number r' = lr_sev_number r
      \<and> lr_trace r' = lr_trace r \<and> lr_span r' = lr_span r \<and> lr_flags r' = lr_flags r)"

lemma set_attr_keys: "i < length as \<Longrightarrow> map fst (set_attr i v as) = map fst as"
  by (simp add: set_attr_def map_update) (metis length_map list_update_id nth_map)

lemma restamped_one:
  assumes "attr_index ''bench.seq'' (lr_attrs r) = Some h"
  shows "restamped now s r (r\<lparr>lr_attrs := set_attr h (AInt s) (lr_attrs r), lr_time := now, lr_observed := now\<rparr>)"
  using assms attr_index_Some [OF assms] by (simp add: restamped_def map_of_set_attr set_attr_keys)

lemma stamp_records_ok:
  assumes "handles_ok ''bench.seq'' hs rs" and "in_int64 seq" and "in_int64 (seq + int (length rs))"
  shows "\<exists>rs'. stamp_records now seq hs rs = Inr (rs', seq + int (length rs)) \<and> length rs' = length rs
    \<and> (\<forall>i < length rs. restamped now (seq + int i) (rs ! i) (rs' ! i))"
  using assms
proof (induction rs arbitrary: hs seq)
  case (Cons r rs)
  from Cons.prems(1) obtain h hs' where hs: "hs = h # hs'" "attr_index ''bench.seq'' (lr_attrs r) = Some h"
    and ok: "handles_ok ''bench.seq'' hs' rs" by (auto simp: handles_ok_def list_all2_Cons2)
  have "in_int64 (seq + 1)" "in_int64 (seq + 1 + int (length rs))"
    using Cons.prems(2,3) by (auto simp: in_int64_def)
  from Cons.IH [OF ok this] obtain rs' where
    "stamp_records now (seq + 1) hs' rs = Inr (rs', seq + 1 + int (length rs))" "length rs' = length rs"
    "\<forall>i < length rs. restamped now (seq + 1 + int i) (rs ! i) (rs' ! i)" by blast
  then show ?case
    using Cons.prems(2) restamped_one [OF hs(2)] hs(1)
    by (auto simp: nth_Cons algebra_simps split: nat.splits)
qed (simp add: handles_ok_def)

definition template_ok :: "template \<Rightarrow> bool" where
  "template_ok t =
     (handles_ok ''bench.seq'' (tp_seq_values t) (rq_records (tp_request t))
      \<and> tp_count t = int (length (rq_records (tp_request t))))"

definition seqs_of :: "template \<Rightarrow> any_value option list" where
  "seqs_of t = map (attr ''bench.seq'') (rq_records (tp_request t))"

lemma map_restamped:
  assumes "length rs' = length rs" and "\<forall>i < length rs. restamped now (s + int i) (rs ! i) (rs' ! i)"
  shows "map (attr ''bench.seq'') rs' = map (\<lambda>i. Some (AInt i)) [s .. s + int (length rs) - 1]"
  using assms by (intro nth_equalityI) (auto simp: restamped_def)

lemma stamp_ok:
  assumes "template_ok t" and "in_int64 s" and "in_int64 (s + tp_count t)"
  shows "\<exists>t'. stamp now s t = Inr (t', s + tp_count t) \<and> template_ok t' \<and> tp_count t' = tp_count t
    \<and> seqs_of t' = map (\<lambda>i. Some (AInt i)) [s .. s + tp_count t - 1]
    \<and> rq_resource (tp_request t') = rq_resource (tp_request t)
    \<and> length (rq_records (tp_request t')) = length (rq_records (tp_request t))
    \<and> (\<forall>i < length (rq_records (tp_request t)).
         restamped now (s + int i) (rq_records (tp_request t) ! i) (rq_records (tp_request t') ! i))"
proof -
  let ?rs = "rq_records (tp_request t)"
  have c: "tp_count t = int (length ?rs)" and h: "handles_ok ''bench.seq'' (tp_seq_values t) ?rs"
    using assms(1) by (auto simp: template_ok_def)
  obtain rs' where rs': "stamp_records now s (tp_seq_values t) ?rs = Inr (rs', s + int (length ?rs))"
    "length rs' = length ?rs" "\<forall>i < length ?rs. restamped now (s + int i) (?rs ! i) (rs' ! i)"
    using stamp_records_ok [OF h assms(2)] assms(3) c by auto
  let ?t' = "t\<lparr>tp_request := (tp_request t)\<lparr>rq_records := rs'\<rparr>\<rparr>"
  have "attr_index k as = attr_index k bs" if "map fst as = map fst bs" for k and as bs :: attrs
    using that by (induction as arbitrary: bs) (auto simp: Cons_eq_map_conv)
  then have "handles_ok ''bench.seq'' (tp_seq_values t) rs'"
    using h rs'(2,3) unfolding handles_ok_def list_all2_conv_all_nth restamped_def by metis
  then have "template_ok ?t'" using c rs'(2) by (simp add: template_ok_def)
  moreover have "stamp now s t = Inr (?t', s + tp_count t)" by (simp add: stamp_def rs'(1) c)
  ultimately show ?thesis
    using rs'(2,3) map_restamped [OF rs'(2,3)] by (intro exI [of _ ?t']) (simp add: seqs_of_def c)
qed

section \<open>What the builders guarantee\<close>

definition record_ok :: "string \<Rightarrow> log_record \<Rightarrow> bool" where
  \<comment> \<open>the shape of every record of the generic payload\<close>
  "record_ok gen_id r =
     (attr_index ''bench.seq'' (lr_attrs r) = Some 0
      \<and> attr ''bench.gen_id'' r = Some (AStr gen_id)
      \<and> (\<exists>c. attr ''http.response.status_code'' r = Some (AInt c) \<and> attr ''error'' r = Some (ABool (400 \<le> c)))
      \<and> lr_sev_number r = severity_number (lr_sev_text r)
      \<and> lr_trace r < 2 ^ 128 \<and> lr_span r < 2 ^ 64)"

lemma kv_name: "kv rend k v = Inr p \<Longrightarrow> fst p = k"
  by (cases v) (auto split: if_splits)

lemma kv_int: "kv rend k (PInt i) = Inr p \<Longrightarrow> p = (k, AInt i)"
  by (auto split: if_splits)

lemma yields_bits_bind:
  "rng_ok g \<Longrightarrow> (\<And>n. n < 2 ^ k \<Longrightarrow> yields (f n) P) \<Longrightarrow> yields (dbind (draw_of (rg_bits g k)) f) P"
  by (rule yields_bind [where Q = "\<lambda>n. n < 2 ^ k"]) simp_all

lemma record_build_ok:
  assumes "rng_ok g"
  shows "yields (build_record rend g data gen_id service) (record_ok gen_id)"
  unfolding build_record_def
  apply (rule yields_bind_any, rule yields_bind_any)
  apply (rule yields_lift_bind, rule yields_bind_any, rule yields_lift_bind)
  apply (rule yields_bind_any, rule yields_bind_any, rule yields_bind_any)
  apply (rule yields_lift_bind, rule yields_bind_any, rule yields_bind_any)
  apply (rule yields_bits_bind [OF assms], rule yields_bits_bind [OF assms], rule yields_bind_any)
  apply (drule kv_int, drule kv_name)
  apply (simp add: record_ok_def)
  done

lemma emap_find_ok:
  "emap find_seq_value rs = Inr hs \<Longrightarrow> handles_ok ''bench.seq'' hs rs"
  by (induction rs arbitrary: hs)
    (auto simp: handles_ok_def find_seq_value_def split: option.splits)

definition template_built :: "string \<Rightarrow> int \<Rightarrow> template \<Rightarrow> bool" where
  "template_built gen_id batch t =
     (template_ok t \<and> tp_count t = max 0 batch
      \<and> map_of (rq_resource (tp_request t)) ''bench.gen_id'' = Some (AStr gen_id)
      \<and> (\<forall>r \<in> set (rq_records (tp_request t)). record_ok gen_id r))"

lemma template_build_ok:
  assumes "rng_ok g"
  shows "yields (build_template rend bsize g data gen_id batch) (template_built gen_id batch)"
  unfolding build_template_def
  apply (rule yields_bind_any, rule yields_lift_bind, rule yields_bind_any, rule yields_lift_bind)
  apply (rule yields_bind_any, rule yields_lift_bind)
  apply (rule yields_bind [OF yields_repeat [OF record_build_ok [OF assms]]])
  apply (simp only: Let_def, rule yields_lift_bind)
  apply (drule kv_name, drule kv_name)
  apply (auto simp: template_built_def template_ok_def dest!: kv_name emap_find_ok)
  done

lemma build_pool_ok:
  assumes "build_pool seeded seed n build = Inr ts" and "\<And>i. yields (build i) (P i)"
  shows "length ts = nat n \<and> (\<forall>j < length ts. P (int j) (ts ! j))"
proof -
  from assms(1) have m: "emap (\<lambda>i. map_sum id fst (build i (seeded (seed * 1000003 + i)))) [0 .. n - 1] = Inr ts"
    by (simp add: build_pool_def)
  have len: "length ts = nat n" using emap_length [OF m] by simp
  moreover have "P (int j) (ts ! j)" if "j < length ts" for j
  proof -
    have "map_sum id fst (build (int j) (seeded (seed * 1000003 + int j))) = Inr (ts ! j)"
      using emap_nth [OF m, of j] that len by simp
    then obtain r' where "build (int j) (seeded (seed * 1000003 + int j)) = Inr (ts ! j, r')"
      by (cases "build (int j) (seeded (seed * 1000003 + int j))") auto
    with yieldsD [OF assms(2)] show ?thesis by blast
  qed
  ultimately show ?thesis by blast
qed

definition factory_ok :: "factory \<Rightarrow> bool" where
  "factory_ok f =
     (0 < pf_workers f \<and> 0 < pf_variants f
      \<and> int (length (pf_templates f)) = pf_workers f * pf_variants f
      \<and> (\<forall>t \<in> set (pf_templates f). template_built (pf_gen_id f) (pf_batch f) t))"

lemma new_factory_ok:
  assumes "rng_ok g" and "new_factory rend bsize g seeded uuid data batch gen_id workers variants = Inr f"
  shows "factory_ok f \<and> pf_batch f = batch \<and> pf_gen_id f = gen_id_or gen_id uuid
    \<and> pf_workers f = max 1 workers \<and> pf_variants f = max 1 variants"
proof -
  from assms(2) obtain d seed ts where f:
    "build_pool seeded seed (pool_size workers variants)
       (\<lambda>i. build_template rend bsize g d (gen_id_or gen_id uuid) batch) = Inr ts"
    "f = \<lparr>pf_gen_id = gen_id_or gen_id uuid, pf_batch = batch, pf_data = d, pf_seed = seed,
          pf_workers = max 1 workers, pf_variants = max 1 variants, pf_templates = ts\<rparr>"
    by (auto simp: new_factory_def Let_def)
  have "0 \<le> pool_size workers variants" by (simp add: pool_size_def)
  then show ?thesis
    using build_pool_ok [OF f(1) template_build_ok [OF assms(1)]]
    unfolding factory_ok_def f(2) by (auto simp: pool_size_def in_set_conv_nth)
qed

section \<open>Which worker uses which template\<close>

text \<open>
  The interface the load generator needs: a slot in the pool for every worker and variant, and
  no slot shared by two workers. Both payload modules provide it.
\<close>

locale template_pool =
  fixes slot :: "int \<Rightarrow> int \<Rightarrow> int \<Rightarrow> int \<Rightarrow> int"
  assumes slot_range: "0 < w \<Longrightarrow> 0 < n \<Longrightarrow> 0 \<le> slot w n i v \<and> slot w n i v < w * n"
    and slot_owner: "0 < w \<Longrightarrow> 0 < n \<Longrightarrow> slot w n i v div n = i mod w"
    and slot_variant: "0 < w \<Longrightarrow> 0 < n \<Longrightarrow> slot w n i v mod n = v mod n"
begin

definition owned :: "int \<Rightarrow> int \<Rightarrow> int \<Rightarrow> int set" where
  "owned w n i = {slot w n i v | v. True}"

lemma slots_disjoint:
  assumes "0 < w" "0 < n" "0 \<le> i" "i < w" "0 \<le> j" "j < w" "i \<noteq> j"
  shows "slot w n i u \<noteq> slot w n j v"
  using slot_owner [OF assms(1,2), of i u] slot_owner [OF assms(1,2), of j v] assms by auto

lemma owned_disjoint:
  assumes "0 < w" "0 < n" "0 \<le> i" "i < w" "0 \<le> j" "j < w" "i \<noteq> j"
  shows "owned w n i \<inter> owned w n j = {}"
  using slots_disjoint [OF assms] by (auto simp: owned_def)

lemma owned_block:
  assumes "0 < w" "0 < n" "0 \<le> i" "i < w"
  shows "owned w n i = {i * n ..< (i + 1) * n}"
proof -
  have "slot w n i v = i * n + v mod n" for v
    using slot_owner [OF assms(1,2), of i v] slot_variant [OF assms(1,2), of i v] assms
    by (metis div_mult_mod_eq mod_pos_pos_trivial)
  then have o: "owned w n i = {i * n + v mod n | v. True}" by (simp add: owned_def)
  have "x \<in> owned w n i" if "i * n \<le> x" "x < (i + 1) * n" for x
  proof -
    have "(x - i * n) mod n = x - i * n" using that by (simp add: algebra_simps)
    then show ?thesis unfolding o by (auto intro!: exI [of _ "x - i * n"])
  qed
  moreover have "i * n + v mod n < (i + 1) * n" for v using assms by (simp add: algebra_simps)
  ultimately show ?thesis using assms(2) unfolding o by auto
qed

end

lemma template_slot_div:
  assumes "0 < w" "0 < n"
  shows "template_slot w n i v div n = i mod w" "template_slot w n i v mod n = v mod n"
  using assms by (simp_all add: template_slot_def)

lemma template_slot_range:
  assumes "0 < w" "0 < n"
  shows "0 \<le> template_slot w n i v \<and> template_slot w n i v < w * n"
proof -
  have "(i mod w) * n \<le> (w - 1) * n" using assms by (intro mult_right_mono) auto
  moreover have "0 \<le> v mod n" "v mod n < n" "0 \<le> (i mod w) * n" using assms by simp_all
  ultimately show ?thesis by (auto simp: template_slot_def algebra_simps)
qed

interpretation generic_pool: template_pool template_slot
  by unfold_locales (simp_all add: template_slot_div template_slot_range)

lemma template_for_ok:
  assumes "factory_ok f"
  shows "\<exists>t. template_for f w v = Inr t \<and> t \<in> set (pf_templates f)
    \<and> t = pf_templates f ! nat (template_slot (pf_workers f) (pf_variants f) w v)"
proof -
  have "nat (template_slot (pf_workers f) (pf_variants f) w v) < length (pf_templates f)"
    using assms generic_pool.slot_range [of "pf_workers f" "pf_variants f" w v]
    by (auto simp: factory_ok_def nat_less_iff)
  then show ?thesis by (simp add: template_for_def Let_def)
qed

section \<open>Properties of the payload\<close>

text \<open>A counter as random source, and a data section without padding, for concrete instances.\<close>

definition tick_rng :: "int rng" where
  "tick_rng = \<lparr>rg_random = \<lambda>r. (of_int (r mod 10) / 10, r + 1),
     rg_below = \<lambda>n r. (nat (r mod int n), r + 1), rg_bits = \<lambda>k r. (0, r + 1)\<rparr>"

lemma tick_rng_ok: "rng_ok tick_rng"
  by (auto simp: rng_ok_def tick_rng_def nat_less_iff)

definition demo_data :: pyval where
  "demo_data = PDict [(KStr ''seed'', PInt 7), (KStr ''body_bytes'', PInt 4)]"

definition demo_factory :: "int \<Rightarrow> pyexn + factory" where
  "demo_factory batch =
     new_factory (\<lambda>_. []) (\<lambda>r. 100 * int (length (rq_records r))) tick_rng id ''u-1'' demo_data batch None 2 2"

lemma demo_factory_runs: "map_sum id (\<lambda>f. length (pf_templates f)) (demo_factory 3) = Inr 4"
  by code_simp

lemma template_builtD:
  assumes "template_built i b t"
  shows "template_ok t" "tp_count t = max 0 b" "length (rq_records (tp_request t)) = nat b"
  using assms unfolding template_built_def template_ok_def by auto

lemma factory_ok_pool:
  assumes "factory_ok f"
  shows "int (length (pf_templates f)) = pf_workers f * pf_variants f
    \<and> (\<forall>t \<in> set (pf_templates f).
         length (rq_records (tp_request t)) = nat (pf_batch f)
         \<and> (\<forall>r \<in> set (rq_records (tp_request t)).
              attr_index ''bench.seq'' (lr_attrs r) = Some 0
              \<and> attr ''bench.gen_id'' r = Some (AStr (pf_gen_id f))
              \<and> (\<exists>c. attr ''http.response.status_code'' r = Some (AInt c)
                    \<and> attr ''error'' r = Some (ABool (400 \<le> c)))))
    \<and> (\<forall>w v. \<exists>t \<in> set (pf_templates f). template_for f w v = Inr t)"
proof (intro conjI allI ballI)
  fix t assume "t \<in> set (pf_templates f)"
  with assms have b: "template_built (pf_gen_id f) (pf_batch f) t" by (simp add: factory_ok_def)
  show "length (rq_records (tp_request t)) = nat (pf_batch f)" by (rule template_builtD [OF b])
  fix r assume "r \<in> set (rq_records (tp_request t))"
  with b have r: "record_ok (pf_gen_id f) r" by (simp add: template_built_def)
  from r show "attr_index ''bench.seq'' (lr_attrs r) = Some 0" by (simp add: record_ok_def)
  from r show "attr ''bench.gen_id'' r = Some (AStr (pf_gen_id f))" by (simp add: record_ok_def)
  from r show "\<exists>c. attr ''http.response.status_code'' r = Some (AInt c) \<and> attr ''error'' r = Some (ABool (400 \<le> c))"
    by (simp add: record_ok_def)
next
  show "int (length (pf_templates f)) = pf_workers f * pf_variants f"
    using assms by (simp add: factory_ok_def)
  show "\<exists>t \<in> set (pf_templates f). template_for f w v = Inr t" for w v
    using template_for_ok [OF assms, of w v] by blast
qed

text \<open>The pool a factory builds. It has one template for each worker and variant; every
  template carries the configured number of records, each with its sequence number as first
  attribute, the generator's id, and an error flag that is set exactly for status codes from
  400 on; and \<open>template_for\<close> finds a template of the pool for every worker and variant.\<close>

theorem factory_pool_complete:
  assumes "rng_ok g" and "new_factory rend bsize g seeded uuid data batch gen_id workers variants = Inr f"
  shows "int (length (pf_templates f)) = max 1 workers * max 1 variants
    \<and> (\<forall>t \<in> set (pf_templates f).
         length (rq_records (tp_request t)) = nat batch
         \<and> (\<forall>r \<in> set (rq_records (tp_request t)).
              attr_index ''bench.seq'' (lr_attrs r) = Some 0
              \<and> attr ''bench.gen_id'' r = Some (AStr (gen_id_or gen_id uuid))
              \<and> (\<exists>c. attr ''http.response.status_code'' r = Some (AInt c)
                    \<and> attr ''error'' r = Some (ABool (400 \<le> c)))))
    \<and> (\<forall>w v. \<exists>t \<in> set (pf_templates f). template_for f w v = Inr t)"
  unfolding new_factory_ok [OF assms, THEN conjunct2, THEN conjunct2, THEN conjunct1, symmetric]
  using factory_ok_pool [of f] new_factory_ok [OF assms] by simp

theorem factory_pool_complete_witness:
  "case demo_factory 3 of Inl e \<Rightarrow> False
   | Inr f \<Rightarrow> int (length (pf_templates f)) = 4
       \<and> (\<exists>t \<in> set (pf_templates f). template_for f 5 9 = Inr t)"
proof -
  obtain f where f: "demo_factory 3 = Inr f"
    using demo_factory_runs by (cases "demo_factory 3") auto
  show ?thesis
    using factory_pool_complete [OF tick_rng_ok f [unfolded demo_factory_def]] f by auto
qed

text \<open>C5: stamping. Whatever template a worker draws from the pool, stamping it from \<open>s\<close> gives
  its records exactly the numbers \<open>s\<close> to \<open>s + batch - 1\<close> in order, both timestamps the time of
  the call, changes nothing else in any record, and returns the next free number.\<close>

theorem stamp_contiguous:
  assumes "rng_ok g" and "new_factory rend bsize g seeded uuid data batch gen_id workers variants = Inr f"
    and "0 \<le> batch" and "template_for f w v = Inr t" and "in_int64 s" and "in_int64 (s + batch)"
  shows "\<exists>t'. stamp now s t = Inr (t', s + batch)
    \<and> seqs_of t' = map (\<lambda>i. Some (AInt i)) [s .. s + batch - 1]
    \<and> rq_resource (tp_request t') = rq_resource (tp_request t)
    \<and> (\<forall>i < nat batch. restamped now (s + int i) (rq_records (tp_request t) ! i)
                            (rq_records (tp_request t') ! i))"
proof -
  note f = new_factory_ok [OF assms(1,2)]
  with template_for_ok [of f w v] assms(4) have "template_built (pf_gen_id f) batch t"
    by (auto simp: factory_ok_def)
  from template_builtD [OF this] assms(3)
  have t: "template_ok t" "tp_count t = batch" "length (rq_records (tp_request t)) = nat batch" by auto
  show ?thesis
    using stamp_ok [OF t(1) assms(5), unfolded t(2,3), OF assms(6), of now] by blast
qed

theorem stamp_contiguous_witness:
  "case demo_factory 3 of Inl e \<Rightarrow> False
   | Inr f \<Rightarrow> (case template_for f 1 0 of Inl e \<Rightarrow> False
       | Inr t \<Rightarrow> (\<exists>t'. stamp 99 40 t = Inr (t', 43) \<and> seqs_of t' = map (\<lambda>i. Some (AInt i)) [40, 41, 42]))"
proof -
  obtain f where f: "demo_factory 3 = Inr f"
    using demo_factory_runs by (cases "demo_factory 3") auto
  have ok: "factory_ok f" using new_factory_ok [OF tick_rng_ok f [unfolded demo_factory_def]] by blast
  obtain t where t: "template_for f 1 0 = Inr t" using template_for_ok [OF ok] by blast
  have "[40 .. 40 + 3 - 1 :: int] = [40, 41, 42]" by (simp add: upto.simps)
  with stamp_contiguous [OF tick_rng_ok f [unfolded demo_factory_def] _ t, of 40 99] f t show ?thesis
    by (fastforce simp: in_int64_def)
qed

lemma build_body_size:
  assumes "rng_ok g" and "py_int (dget_or data ''body_bytes'' (PInt 256)) = Inr n" and "40 \<le> n"
  shows "yields (build_body g data) (\<lambda>s. int (length s) = n \<and> (\<exists>h \<in> set lorem. take (length h) s = h))"
proof -
  have "\<forall>h \<in> set lorem. length h < 30" by (simp add: lorem_def)
  then show ?thesis unfolding build_body_def
    using assms(2,3)
    by (intro yields_lift_bind yields_bind [OF yields_choice [OF assms(1)]]
        yields_mono [OF yields_padded [OF assms(1)]]) fastforce
qed

lemma weighted_positive:
  assumes "rng_ok g" and "emap (\<lambda>p. py_float (snd p)) d = Inr (map Fin ws)" and "\<forall>w \<in> set ws. 0 \<le> w"
  shows "yields (weighted g (PDict d)) (\<lambda>k. \<exists>i < length d. fst (d ! i) = k \<and> 0 < ws ! i)"
proof -
  have len: "length ws = length d" using emap_length [OF assms(2)] by simp
  have c: "yields (choices1 g (map fst d) (map Fin ws)) (\<lambda>k. \<exists>i < length d. fst (d ! i) = k \<and> 0 < ws ! i)"
    by (rule yields_mono [OF choices1_positive [OF assms(1,3)]]) (auto simp: len)
  show ?thesis unfolding weighted_def pyval.case
    by (rule yields_lift_bind, simp, rule yields_lift_bind) (use c assms(2) in auto)
qed

lemma sample_latency_range:
  assumes "rng_ok g" and "latency_spec data (100, 500, 1500, 10000) = Inr (Fin a, Fin b, Fin c, Fin d)"
    and "1 \<le> a" "a \<le> b" "b \<le> c" "c \<le> d"
  shows "yields (sample_latency g data) (\<lambda>ms. 1 \<le> ms \<and> of_int ms \<le> d)"
  unfolding sample_latency_def assms(2)
  apply (rule yields_lift_bind)
  apply (rule yields_bind [where Q = "\<lambda>f. \<exists>x. f = Fin x \<and> 1 \<le> x \<and> x \<le> d"])
   apply (use yields_latency [OF assms(1,3-6)] in simp)
  apply (auto simp: py_trunc_nonneg le_floor_iff intro: order_trans [OF of_int_floor_le])
  done

text \<open>The values of a built record. With ordered latency quantiles, a body size above the
  longest phrase and non-negative severity weights: the duration is at least 1 and at most the
  configured maximum, the body has exactly the configured size, and the severity is one that
  the configuration gives a positive weight; a severity of weight zero is never produced.\<close>

theorem record_values:
  assumes "rng_ok g"
    and "latency_spec data (100, 500, 1500, 10000) = Inr (Fin a, Fin b, Fin c, Fin d)"
    and "1 \<le> a" "a \<le> b" "b \<le> c" "c \<le> d"
    and "py_int (dget_or data ''body_bytes'' (PInt 256)) = Inr n" and "40 \<le> n"
    and "severity_mix data = PDict mix" and "emap (\<lambda>p. py_float (snd p)) mix = Inr (map Fin ws)"
    and "\<forall>w \<in> set ws. 0 \<le> w"
    and "build_record rend g data gen_id service r = Inr (rec, r')"
  shows "(\<exists>ms. attr ''duration_ms'' rec = Some (AInt ms) \<and> 1 \<le> ms \<and> of_int ms \<le> d)
    \<and> int (length (lr_body rec)) = n
    \<and> (\<exists>i < length mix. fst (mix ! i) = KStr (lr_sev_text rec) \<and> 0 < ws ! i)"
proof -
  have sev: "text_of_key k = Inr s \<Longrightarrow> k = KStr s" for k s by (cases k) auto
  have "yields (build_record rend g data gen_id service) (\<lambda>rec.
      (\<exists>ms. attr ''duration_ms'' rec = Some (AInt ms) \<and> 1 \<le> ms \<and> of_int ms \<le> d)
      \<and> int (length (lr_body rec)) = n
      \<and> (\<exists>i < length mix. fst (mix ! i) = KStr (lr_sev_text rec) \<and> 0 < ws ! i))"
    unfolding build_record_def assms(9)
    apply (rule yields_bind [OF weighted_positive [OF assms(1,10,11)]], rule yields_bind_any)
    apply (rule yields_lift_bind, rule yields_bind [OF sample_latency_range [OF assms(1-6)]])
    apply (rule yields_lift_bind)
    apply (rule yields_bind_any, rule yields_bind_any, rule yields_bind_any)
    apply (rule yields_lift_bind, rule yields_bind_any)
    apply (rule yields_bind [OF build_body_size [OF assms(1,7,8)]])
    apply (rule yields_bind_any, rule yields_bind_any, rule yields_lift_bind)
    apply (drule sev, drule kv_name, drule kv_int)
    apply auto
    done
  from yieldsD [OF this assms(12)] show ?thesis .
qed

definition demo_record_data :: pydict where
  "demo_record_data =
     [(KStr ''body_bytes'', PInt 40),
      (KStr ''severity_mix'', PDict [(KStr ''INFO'', PInt 3), (KStr ''ERROR'', PInt 0)])]"

definition demo_record :: "pyexn + log_record \<times> int" where
  "demo_record = build_record (\<lambda>_. []) tick_rng demo_record_data ''g-1'' (PStr ''svc'') 0"

lemma demo_record_runs: "(case demo_record of Inl e \<Rightarrow> False | Inr x \<Rightarrow> True)"
  by code_simp

theorem record_values_witness:
  "case demo_record of Inl e \<Rightarrow> False
   | Inr x \<Rightarrow> length (lr_body (fst x)) = 40 \<and> lr_sev_text (fst x) = ''INFO''"
proof -
  obtain rec r' where x: "demo_record = Inr (rec, r')"
    using demo_record_runs by (auto split: sum.splits)
  have "int (length (lr_body rec)) = 40
    \<and> (\<exists>i < length [(KStr ''INFO'', PInt 3), (KStr ''ERROR'', PInt 0)].
         fst ([(KStr ''INFO'', PInt 3), (KStr ''ERROR'', PInt 0)] ! i) = KStr (lr_sev_text rec)
         \<and> 0 < [3, 0 :: rat] ! i)"
    using record_values [OF tick_rng_ok, of demo_record_data 100 500 1500 10000 40
        "[(KStr ''INFO'', PInt 3), (KStr ''ERROR'', PInt 0)]" "[3, 0]", OF _ _ _ _ _ _ _ _ _ _ x [unfolded demo_record_def]]
    by (simp add: demo_record_data_def latency_spec_def py_or_def dget_or_def severity_mix_def
        opt_section_def float_limit_def)
  then show ?thesis unfolding x by (auto simp: less_Suc_eq)
qed

lemma fround_near: "\<bar>of_int (py_round (x * 10 ^ n)) / 10 ^ n - x\<bar> \<le> 1 / 2 / 10 ^ n" for x :: rat
proof -
  have p: "(0 :: rat) < 10 ^ n" by simp
  have "\<bar>of_int (py_round (x * 10 ^ n)) - x * 10 ^ n\<bar> \<le> 1 / 2"
    using py_round_bounds [of "x * 10 ^ n"] by linarith
  then have "\<bar>of_int (py_round (x * 10 ^ n)) - x * 10 ^ n\<bar> / 10 ^ n \<le> 1 / 2 / 10 ^ n"
    using p by (intro divide_right_mono) simp_all
  moreover have "of_int (py_round (x * 10 ^ n)) / 10 ^ n - x = (of_int (py_round (x * 10 ^ n)) - x * 10 ^ n) / 10 ^ n"
    by (simp add: diff_divide_distrib)
  ultimately show ?thesis by (simp add: abs_divide)
qed

text \<open>The token and cost attributes of a record with model traffic. Both token counts lie
  in their configured ranges, the total is their sum, and for finite prices the total cost
  differs from the sum of the two costs only by the rounding to eight decimals.\<close>

theorem model_attributes_consistent:
  assumes "rng_ok g" and "dget data ''model_traffic'' = Some (PDict cfg)" and "truthy (dget_or cfg ''enabled'' PNone)"
    and "token_range (opt_section cfg ''input_tokens'' (default_tokens 100 4000)) = Inr (lo, hi)"
    and "token_range (opt_section cfg ''output_tokens'' (default_tokens 20 1000)) = Inr (lo', hi')"
    and "\<And>m rates. token_rates cfg m = Inr rates \<Longrightarrow> is_finite (fst rates) \<and> is_finite (snd rates)"
    and "model_attributes rend g data r = Inr (as, r')"
  shows "\<exists>i out a b c. map_of as ''gen_ai.usage.input_tokens'' = Some (AInt i) \<and> lo \<le> i \<and> i \<le> hi
    \<and> map_of as ''gen_ai.usage.output_tokens'' = Some (AInt out) \<and> lo' \<le> out \<and> out \<le> hi'
    \<and> map_of as ''gen_ai.usage.total_tokens'' = Some (AInt (i + out))
    \<and> map_of as ''gen_ai.cost.request_usd'' = Some (ADouble (Fin a))
    \<and> map_of as ''gen_ai.cost.response_usd'' = Some (ADouble (Fin b))
    \<and> map_of as ''gen_ai.cost.total_usd'' = Some (ADouble (Fin c)) \<and> \<bar>c - (a + b)\<bar> \<le> 3 / 2 / 10 ^ 8"
proof -
  let ?P = "\<lambda>as. \<exists>i out a b c. map_of as ''gen_ai.usage.input_tokens'' = Some (AInt i) \<and> lo \<le> i \<and> i \<le> hi
    \<and> map_of as ''gen_ai.usage.output_tokens'' = Some (AInt out) \<and> lo' \<le> out \<and> out \<le> hi'
    \<and> map_of as ''gen_ai.usage.total_tokens'' = Some (AInt (i + out))
    \<and> map_of as ''gen_ai.cost.request_usd'' = Some (ADouble (Fin a))
    \<and> map_of as ''gen_ai.cost.response_usd'' = Some (ADouble (Fin b))
    \<and> map_of as ''gen_ai.cost.total_usd'' = Some (ADouble (Fin c)) \<and> \<bar>c - (a + b)\<bar> \<le> 3 / 2 / 10 ^ 8"
  have kvs: "?P as" if k: "model_kvs rend m i out rates = Inr as" and b: "lo \<le> i" "i \<le> hi" "lo' \<le> out" "out \<le> hi'"
    and fin: "is_finite (fst rates) \<and> is_finite (snd rates)" for m i out rates as
  proof -
    obtain x y where r: "fst rates = Fin x" "snd rates = Fin y"
      using fin by (auto simp: is_finite_def split: pyfloat.splits)
    let ?r = "\<lambda>z :: rat. of_int (py_round (z * 10 ^ 8)) / 10 ^ 8 :: rat"
    let ?x = "of_int i / 1000000 * x" and ?y = "of_int out / 1000000 * y"
    have m: "map_of as ''gen_ai.usage.input_tokens'' = Some (AInt i)"
      "map_of as ''gen_ai.usage.output_tokens'' = Some (AInt out)"
      "map_of as ''gen_ai.usage.total_tokens'' = Some (AInt (i + out))"
      "map_of as ''gen_ai.cost.request_usd'' = Some (ADouble (Fin (?r ?x)))"
      "map_of as ''gen_ai.cost.response_usd'' = Some (ADouble (Fin (?r ?y)))"
      "map_of as ''gen_ai.cost.total_usd'' = Some (ADouble (Fin (?r (?x + ?y))))"
      using k by (auto simp: model_kvs_def Let_def r fround_def split: if_splits dest!: kv_name)
    have "\<bar>?r (?x + ?y) - (?r ?x + ?r ?y)\<bar> \<le> 3 / 2 / 10 ^ 8"
      using fround_near [of ?x 8] fround_near [of ?y 8] fround_near [of "?x + ?y" 8] by linarith
    with m b show ?thesis by blast
  qed
  have cfg: "as_dict (opt_section data ''model_traffic'' (PDict [])) = Inr cfg"
    using assms(2,3) by (auto simp: opt_section_def py_or_def dget_or_def)
  have "yields (model_attributes rend g data) ?P"
    unfolding model_attributes_def
    apply (rule yields_lift_bind, rule yields_if)
     apply (use assms(3) cfg in simp)
    apply (simp only: cfg sum.inject)
    apply (erule subst, rule yields_bind_any)
    apply (simp only: assms(4) prod.case, rule yields_lift_bind, simp only: sum.inject prod.case, erule subst)
    apply (simp only: prod.case, rule yields_bind [OF yields_randint [OF assms(1)]])
    apply (simp only: assms(5), rule yields_lift_bind, simp only: sum.inject, erule subst)
    apply (simp only: prod.case, rule yields_bind [OF yields_randint [OF assms(1)]])
    apply (rule yields_lift_bind, drule assms(6))
    apply (simp only: yields_lift, intro allI impI, rule kvs)
         apply (assumption | elim conjE, assumption)+
    done
  from yieldsD [OF this assms(7)] show ?thesis .
qed

definition demo_traffic :: pydict where
  "demo_traffic =
     [(KStr ''model_traffic'', PDict [(KStr ''enabled'', PBool True),
        (KStr ''models'', PList [PStr ''m1'']),
        (KStr ''pricing'', PDict [(KStr ''m1'', PDict [(KStr ''input'', PInt 3), (KStr ''output'', PInt 15)])])])]"

lemma demo_rates: "token_rates
    [(KStr ''enabled'', PBool True), (KStr ''models'', PList [PStr ''m1'']),
     (KStr ''pricing'', PDict [(KStr ''m1'', PDict [(KStr ''input'', PInt 3), (KStr ''output'', PInt 15)])])] m = Inr rates
   \<Longrightarrow> is_finite (fst rates) \<and> is_finite (snd rates)"
  by (auto simp: token_rates_def get_by_value_def opt_section_def py_or_def dget_or_def is_finite_def
      float_limit_def Let_def split: pyval.splits pyfloat.splits if_splits option.splits)

lemma demo_traffic_runs: "(case model_attributes (\<lambda>_. []) tick_rng demo_traffic 5 of Inl e \<Rightarrow> False | Inr x \<Rightarrow> True)"
  by code_simp

theorem model_attributes_consistent_witness:
  "case model_attributes (\<lambda>_. []) tick_rng demo_traffic 5 of Inl e \<Rightarrow> False
   | Inr x \<Rightarrow> (\<exists>i out. map_of (fst x) ''gen_ai.usage.input_tokens'' = Some (AInt i) \<and> 100 \<le> i \<and> i \<le> 4000
       \<and> map_of (fst x) ''gen_ai.usage.total_tokens'' = Some (AInt (i + out)))"
proof -
  obtain as r' where x: "model_attributes (\<lambda>_. []) tick_rng demo_traffic 5 = Inr (as, r')"
    using demo_traffic_runs by (auto split: sum.splits)
  show ?thesis unfolding x
    using model_attributes_consistent [where lo = 100 and hi = 4000 and lo' = 20 and hi' = 1000, OF tick_rng_ok _ _ _ _ demo_rates x]
    by (fastforce simp: demo_traffic_def dget_or_def opt_section_def py_or_def token_range_def
        default_tokens_def item_at_def)
qed

section \<open>Overlapping ranges\<close>

abbreviation disjoint_ranges :: "int \<times> int \<Rightarrow> int \<times> int \<Rightarrow> bool" where
  "disjoint_ranges p q \<equiv> snd p < fst q \<or> snd q < fst p"

lemma sorted_wrt_sym:
  assumes "\<And>x y. R x y \<Longrightarrow> R y x" and "\<And>x. x \<in> set xs \<Longrightarrow> \<not> R x x"
  shows "sorted_wrt R xs \<longleftrightarrow> distinct xs \<and> (\<forall>x \<in> set xs. \<forall>y \<in> set xs. x \<noteq> y \<longrightarrow> R x y)"
  using assms(2) by (induction xs) (auto intro: assms(1))

lemma sorted_adjacent:
  assumes "sorted rs" and "\<And>p. p \<in> set rs \<Longrightarrow> fst p \<le> snd p"
  shows "(\<forall>i < length rs - 1. snd (rs ! i) < fst (rs ! (i + 1))) \<longleftrightarrow> sorted_wrt disjoint_ranges rs"
  using assms
proof (induction rs)
  case (Cons r rs)
  show ?case
  proof (cases rs)
    case (Cons q qs)
    have le: "fst r \<le> fst p" if "p \<in> set rs" for p
      using Cons.prems(1) that by (force simp: less_eq_prod_def)
    have "fst q \<le> fst p" if "p \<in> set rs" for p
      using Cons.prems(1) Cons that by (auto simp: less_eq_prod_def)
    then have chain: "snd r < fst q \<Longrightarrow> \<forall>p \<in> set rs. disjoint_ranges r p"
      by (meson less_le_trans)
    have "fst r \<le> fst q" "fst q \<le> snd q" using le Cons Cons.prems(2) by simp_all
    then have first: "\<forall>p \<in> set rs. disjoint_ranges r p \<Longrightarrow> snd r < fst q" using Cons by force
    have "(\<forall>i < length (r # rs) - 1. snd ((r # rs) ! i) < fst ((r # rs) ! (i + 1)))
        \<longleftrightarrow> snd r < fst q \<and> (\<forall>i < length rs - 1. snd (rs ! i) < fst (rs ! (i + 1)))"
      using Cons by (simp add: All_less_Suc2)
    also have "\<dots> \<longleftrightarrow> snd r < fst q \<and> sorted_wrt disjoint_ranges rs"
      using Cons.IH Cons.prems by simp
    also have "\<dots> \<longleftrightarrow> sorted_wrt disjoint_ranges (r # rs)"
      using chain first unfolding sorted_wrt.simps by blast
    finally show ?thesis .
  qed simp
qed simp

text \<open>The overlap test of the validator. For ranges that are not reversed, comparing
  neighbours after sorting answers exactly whether two of the ranges, at different positions,
  share a number.\<close>

theorem overlap_test_exact:
  assumes "\<forall>p \<in> set rs. fst p \<le> snd p"
  shows "seq_ranges_overlap rs \<longleftrightarrow>
    (\<exists>i j n. i < j \<and> j < length rs \<and> fst (rs ! i) \<le> n \<and> n \<le> snd (rs ! i) \<and> fst (rs ! j) \<le> n \<and> n \<le> snd (rs ! j))"
proof -
  have "seq_ranges_overlap rs \<longleftrightarrow>
      \<not> (\<forall>i < length (sort rs) - 1. snd (sort rs ! i) < fst (sort rs ! (i + 1)))"
    by (auto simp: seq_ranges_overlap_def Let_def list_ex_iff not_less)
  also have "\<dots> \<longleftrightarrow> \<not> sorted_wrt disjoint_ranges (sort rs)"
    using assms by (subst sorted_adjacent) auto
  also have "\<dots> \<longleftrightarrow> \<not> sorted_wrt disjoint_ranges rs"
    using assms by (subst (1 2) sorted_wrt_sym) (auto simp: not_less)
  also have "\<dots> \<longleftrightarrow> (\<exists>i j. i < j \<and> j < length rs \<and> \<not> disjoint_ranges (rs ! i) (rs ! j))"
    by (auto simp: sorted_wrt_iff_nth_less)
  also have "\<dots> \<longleftrightarrow> (\<exists>i j n. i < j \<and> j < length rs \<and> fst (rs ! i) \<le> n \<and> n \<le> snd (rs ! i)
      \<and> fst (rs ! j) \<le> n \<and> n \<le> snd (rs ! j))"
  proof -
    have "\<not> disjoint_ranges (rs ! i) (rs ! j) \<longleftrightarrow>
        (\<exists>n. fst (rs ! i) \<le> n \<and> n \<le> snd (rs ! i) \<and> fst (rs ! j) \<le> n \<and> n \<le> snd (rs ! j))"
      if "i < j" "j < length rs" for i j
    proof -
      have "fst (rs ! i) \<le> snd (rs ! i)" "fst (rs ! j) \<le> snd (rs ! j)" using assms that by simp_all
      then show ?thesis
        by (auto intro!: exI [of _ "max (fst (rs ! i)) (fst (rs ! j))"])
    qed
    then show ?thesis by metis
  qed
  finally show ?thesis .
qed

theorem overlap_test_exact_witness:
  "seq_ranges_overlap [(10, 19), (0, 9), (15, 15)] \<and> \<not> seq_ranges_overlap [(10, 19), (0, 9)]"
proof -
  have "\<not> seq_ranges_overlap [(10, 19), (0, 9)]" by code_simp
  moreover have "seq_ranges_overlap [(10, 19), (0, 9), (15, 15)]"
    by (subst overlap_test_exact, simp, rule exI [of _ 0], rule exI [of _ 2], rule exI [of _ 15]) simp
  ultimately show ?thesis by blast
qed
end
