(* ===== verification/AiTxn.thy ===== *)
theory AiTxn
  imports Payload
begin

text \<open>
  \<open>generator/src/payload_ai_txn.py\<close>: the payload for the gateway-transaction table. Every
  attribute is text, every template belongs to one customer, and a send stamps two sequence
  attributes. The messages, the random draws and the pool layout are those of \<open>Payload\<close>.
\<close>

section \<open>Texts\<close>

definition dq :: char where
  \<comment> \<open>a double quote\<close>
  "dq = CHR 0x22"

definition quoted :: "string \<Rightarrow> string" where
  "quoted s = [dq] @ s @ [dq]"

definition stop_reasons :: "string list" where
  "stop_reasons = map (\<lambda>w. ''['' @ quoted w @ '']'') [''end_turn'', ''max_tokens'', ''stop_sequence'', ''tool_use'']"

definition user_agents :: "string list" where
  "user_agents =
    [''anthropic-sdk-python/0.40.0'', ''anthropic-sdk-typescript/0.32.1'',
     ''openai-python/1.54.0'', ''langchain/0.3.7'', ''llamaindex/0.11.20'']"

definition mcp_tools :: "string list" where
  "mcp_tools = [''read_file'', ''search_docs'', ''run_query'', ''fetch_url'', ''list_tables'']"

definition mcp_servers :: "string list" where
  "mcp_servers = [''filesystem'', ''postgres'', ''web-search'', ''github'']"

definition skv :: "string \<Rightarrow> string \<Rightarrow> string \<times> any_value" where
  \<comment> \<open>\<open>_kv\<close> of a text\<close>
  "skv k s = (k, AStr s)"

definition ikv :: "string \<Rightarrow> int \<Rightarrow> string \<times> any_value" where
  \<comment> \<open>\<open>_kv\<close> of an integer\<close>
  "ikv k i = (k, AStr (show_int i))"

definition zero_padded :: "nat \<Rightarrow> nat \<Rightarrow> string" where
  "zero_padded w n = replicate (w - length (show_nat n)) (CHR ''0'') @ show_nat n"

definition fixed3 :: "pyfloat \<Rightarrow> string" where
  \<comment> \<open>\<open>f'{x:.3f}'\<close>\<close>
  "fixed3 f =
     (case f of
        Fin x \<Rightarrow> (let m = py_round (\<bar>x\<bar> * 1000); i = nat (m div 1000); r = nat (m mod 1000)
                  in (if x < 0 then ''-'' else []) @ show_nat i @ ''.'' @ zero_padded 3 r)
      | PosInf \<Rightarrow> ''inf'' | NegInf \<Rightarrow> ''-inf'' | NaN \<Rightarrow> ''nan'')"

definition usage_json :: "int \<Rightarrow> int \<Rightarrow> int \<Rightarrow> int \<Rightarrow> string" where
  \<comment> \<open>\<open>json.dumps(usage)\<close>\<close>
  "usage_json tin tout created reads =
     ''{'' @ quoted ''input_tokens'' @ '': '' @ show_int tin @ '', ''
     @ quoted ''output_tokens'' @ '': '' @ show_int tout @ '', ''
     @ quoted ''cache_creation_input_tokens'' @ '': '' @ show_int created @ '', ''
     @ quoted ''cache_read_input_tokens'' @ '': '' @ show_int reads @ ''}''"

section \<open>One record\<close>

definition sample_latency_seconds :: "'r rng \<Rightarrow> pydict \<Rightarrow> ('r, pyfloat) draw" where
  "sample_latency_seconds g data =
     dbind (dlift (latency_spec data (120, 800, 2500, 15000))) (\<lambda>q.
     dbind (draw_latency g q) (\<lambda>ms.
     dlift (fdiv ms (Fin 1000))))"

definition build_prompt :: "'r rng \<Rightarrow> pydict \<Rightarrow> ('r, string) draw" where
  "build_prompt g data =
     dbind (dlift (py_int (dget_or data ''body_bytes'' (PInt 256)))) (\<lambda>target.
     padded_text g ''Summarize the following document in three bullet points.'' target)"

definition coin :: "'r rng \<Rightarrow> pyfloat \<Rightarrow> ('r, bool) draw" where
  \<comment> \<open>\<open>rng.random() < p\<close>\<close>
  "coin g p = dbind (draw_of (rg_random g)) (\<lambda>u. dret (flt (Fin u) p))"

definition maybe_randint :: "'r rng \<Rightarrow> rat \<Rightarrow> int \<Rightarrow> ('r, int) draw" where
  \<comment> \<open>\<open>rng.randint(0, n) if rng.random() < p else 0\<close>\<close>
  "maybe_randint g p n = dbind (coin g (Fin p)) (\<lambda>b. if b then randint g 0 n else dret 0)"

definition models_of :: "pydict \<Rightarrow> pyexn + pyval" where
  "models_of data =
     ebind (as_dict (opt_section data ''model_traffic'' (PDict []))) (\<lambda>mt.
     Inr (dget_or mt ''models'' (PList [PStr ''claude-opus-5''])))"

definition base_attrs ::
  "(pyval \<Rightarrow> string) \<Rightarrow> 'r rng \<Rightarrow> pydict \<Rightarrow> string \<Rightarrow> int \<Rightarrow> bool \<Rightarrow> int \<Rightarrow> pyfloat \<Rightarrow> pyval \<Rightarrow> ('r, attrs) draw" where
  "base_attrs rend g data gen_id customer is_mcp status latency model =
     dbind (randint g 1 3) (\<lambda>workspace.
     dbind (randint g 1 50) (\<lambda>user.
     dbind (randint g 1 5) (\<lambda>vkey.
     dbind (randint g 1 12) (\<lambda>agent.
     dbind (randint g 0 2) (\<lambda>model_id.
     dbind (choices1 g [''PACT_ALLOW'', ''PACT_CAUTION'', ''PACT_BLOCK''] [Fin (94 / 100), Fin (5 / 100), Fin (1 / 100)]) (\<lambda>action.
     dbind (randint g 0 255) (\<lambda>ip1.
     dbind (randint g 0 255) (\<lambda>ip2.
     dbind (randint g 1 254) (\<lambda>ip3.
     dbind (randint g 20000 65000) (\<lambda>port.
     dbind (choice g user_agents) (\<lambda>ua.
     dbind (randint g 800 8000) (\<lambda>req_bytes.
     dbind (draw_of (rg_bits g 64)) (\<lambda>reqid.
     dbind (build_prompt g data) (\<lambda>prompt.
     dbind (randint g 200 6000) (\<lambda>res_bytes.
     dbind (coin g (Fin (3 / 10))) (\<lambda>sse.
     dbind (choice g [''standard'', ''priority'', ''batch'']) (\<lambda>tier.
     dret
      [ikv ''bench.seq'' 0, skv ''bench.gen_id'' gen_id,
       skv ''log_type'' (if is_mcp then ''mcp_tool_call'' else ''http''),
       ikv ''snx.sequence_id'' 0,
       ikv ''snx.workspace_id'' (customer * 10 + workspace), ikv ''snx.user_id'' (customer * 100 + user),
       ikv ''snx.vkey_id'' (customer * 10 + vkey), ikv ''snx.agent_id'' agent,
       ikv ''snx.provider_id'' 1, ikv ''snx.model_id'' (1 + model_id), ikv ''snx.cfg_ver'' 7,
       skv ''snx.latency'' (fixed3 latency),
       skv ''snx.gateway_latency'' (fixed3 (fmul latency (Fin (2 / 100)))),
       skv ''snx.overall_action'' action,
       skv ''req.method'' ''POST'', skv ''req.domain'' ''api.anthropic.com'', skv ''req.path'' ''/v1/messages'',
       skv ''req.model'' (py_str rend model),
       skv ''req.source_ip'' (''10.'' @ show_int ip1 @ ''.'' @ show_int ip2 @ ''.'' @ show_int ip3),
       ikv ''req.source_port'' port, skv ''req.ua'' ua, ikv ''req.dbytes'' req_bytes,
       skv ''req.an-reqid'' (''msg_'' @ hex_padded 16 reqid), skv ''req.prompt'' prompt,
       ikv ''res.status'' status, ikv ''res.dbytes'' res_bytes, skv ''res.c-type'' ''application/json'',
       skv ''res.sse'' (if sse then ''true'' else ''false''), skv ''res.service_tier'' tier])))))))))))))))))"

definition usage_attrs :: "'r rng \<Rightarrow> pydict \<Rightarrow> pyfloat \<Rightarrow> ('r, attrs) draw" where
  "usage_attrs g data latency =
     dbind (dlift (as_dict (opt_section data ''model_traffic'' (PDict [])))) (\<lambda>mt.
     dbind (dlift (token_range (opt_section mt ''input_tokens'' (default_tokens 100 8000)))) (\<lambda>(lo, hi).
     dbind (randint g lo hi) (\<lambda>tin.
     dbind (dlift (token_range (opt_section mt ''output_tokens'' (default_tokens 20 2000)))) (\<lambda>(lo', hi').
     dbind (randint g lo' hi') (\<lambda>tout.
     dbind (maybe_randint g (25 / 100) 2000) (\<lambda>created.
     dbind (maybe_randint g (35 / 100) 8000) (\<lambda>reads.
     dbind (choice g stop_reasons) (\<lambda>reason.
     dbind (uniform g (Fin (1 / 10)) (Fin (4 / 10))) (\<lambda>share.
     dret [skv ''res.token_usage'' (usage_json tin tout created reads),
           skv ''llm.stop_reason'' reason,
           skv ''llm.ttft'' (fixed3 (fmul latency share))])))))))))"

definition rate_limit_attrs :: "'r rng \<Rightarrow> ('r, attrs) draw" where
  "rate_limit_attrs g =
     dbind (uniform g (Fin (1 / 2)) (Fin 30)) (\<lambda>after.
     dbind (randint g 0 50) (\<lambda>reqs.
     dbind (randint g 0 5000) (\<lambda>toks.
     dret [skv ''llm.retry_after'' (fixed3 after), ikv ''llm.rl.limit_requests'' 4000,
           ikv ''llm.rl.remaining_requests'' reqs, ikv ''res.an-rlit'' 400000,
           ikv ''llm.rl.remaining_tokens'' toks])))"

definition mcp_attrs :: "'r rng \<Rightarrow> int \<Rightarrow> ('r, attrs) draw" where
  "mcp_attrs g status =
     dbind (choice g mcp_tools) (\<lambda>tool.
     dbind (choice g mcp_servers) (\<lambda>server.
     dbind (randint g 1 20) (\<lambda>call.
     dbind (draw_of (rg_bits g 48)) (\<lambda>session.
     dbind (if 400 \<le> status
            then dbind (choice g [''TIMEOUT'', ''NOT_FOUND'', ''DENIED'']) (\<lambda>e. dret [skv ''mcp.tool.error_code'' e])
            else dret []) (\<lambda>err.
     dret ([skv ''mcp.tool.name'' tool, skv ''mcp.server.name'' server, ikv ''mcp.call_seq'' call,
            skv ''mcp.session_id'' (''sess_'' @ hex_padded 12 session)] @ err))))))"

definition build_ai_record ::
  "(pyval \<Rightarrow> string) \<Rightarrow> 'r rng \<Rightarrow> pydict \<Rightarrow> string \<Rightarrow> int \<Rightarrow> ('r, log_record) draw" where
  "build_ai_record rend g data gen_id customer =
     dbind (dlift (py_float (dget_or data ''mcp_tool_call_ratio'' (PFloat (Fin (15 / 100)))))) (\<lambda>ratio.
     dbind (coin g ratio) (\<lambda>is_mcp.
     dbind (weighted g (severity_mix data)) (\<lambda>sev.
     dbind (weighted g (status_mix data)) (\<lambda>st.
     dbind (dlift (int_of_key st)) (\<lambda>status.
     dbind (sample_latency_seconds g data) (\<lambda>latency.
     dbind (dlift (models_of data)) (\<lambda>models.
     dbind (choice_val g models) (\<lambda>model.
     dbind (base_attrs rend g data gen_id customer is_mcp status latency model) (\<lambda>base.
     dbind (if \<not> is_mcp \<and> 200 \<le> status \<and> status < 300 then usage_attrs g data latency else dret []) (\<lambda>usage.
     dbind (if status = 429 then rate_limit_attrs g else dret []) (\<lambda>limits.
     dbind (coin g (Fin (2 / 100))) (\<lambda>fallback.
     dbind (if is_mcp then mcp_attrs g status else dret []) (\<lambda>mcp.
     dbind (draw_of (rg_bits g 128)) (\<lambda>trace.
     dbind (draw_of (rg_bits g 64)) (\<lambda>span.
     dbind (dlift (text_of_key sev)) (\<lambda>sev_name.
     dret \<lparr>lr_time = 0, lr_observed = 0, lr_sev_number = severity_number sev_name,
           lr_sev_text = sev_name, lr_body = [], lr_trace = trace, lr_span = span, lr_flags = 1,
           lr_attrs = base @ usage @ limits
             @ [skv ''llm.user_prompt_suppressed'' ''false'',
                skv ''llm.fallback_triggered'' (if fallback then ''true'' else ''false'')]
             @ mcp\<rparr>))))))))))))))))"

section \<open>Templates\<close>

record ai_template =
  at_request :: request
  at_seq_values :: "(nat \<times> nat) list"
  at_count :: int
  at_bytes :: int
  at_customer :: int

fun last_index :: "string \<Rightarrow> attrs \<Rightarrow> nat option" where
  \<comment> \<open>the loop runs to the end: the last attribute of that name wins\<close>
  "last_index k [] = None"
| "last_index k ((k', v) # as) =
     (case last_index k as of Some i \<Rightarrow> Some (Suc i) | None \<Rightarrow> if k' = k then Some 0 else None)"

definition find_seq_pair :: "log_record \<Rightarrow> pyexn + nat \<times> nat" where
  "find_seq_pair r =
     (case (last_index ''bench.seq'' (lr_attrs r), last_index ''snx.sequence_id'' (lr_attrs r)) of
        (Some i, Some j) \<Rightarrow> Inr (i, j) | _ \<Rightarrow> Inl RuntimeError)"

fun stamp_pairs :: "int \<Rightarrow> int \<Rightarrow> (nat \<times> nat) list \<Rightarrow> log_record list \<Rightarrow> log_record list \<times> int" where
  "stamp_pairs now seq [] rs = (rs, seq)"
| "stamp_pairs now seq hs [] = ([], seq)"
| "stamp_pairs now seq ((i, j) # hs) (r # rs) =
     (let s = AStr (show_int seq); (rs', seq') = stamp_pairs now (seq + 1) hs rs
      in (r\<lparr>lr_attrs := set_attr j s (set_attr i s (lr_attrs r)), lr_time := now, lr_observed := now\<rparr> # rs', seq'))"

definition stamp_ai :: "int \<Rightarrow> int \<Rightarrow> ai_template \<Rightarrow> ai_template \<times> int" where
  "stamp_ai now first_seq t =
     (let (rs, seq) = stamp_pairs now first_seq (at_seq_values t) (rq_records (at_request t))
      in (t\<lparr>at_request := (at_request t)\<lparr>rq_records := rs\<rparr>\<rparr>, seq))"

definition build_ai_template ::
  "(pyval \<Rightarrow> string) \<Rightarrow> (request \<Rightarrow> int) \<Rightarrow> 'r rng \<Rightarrow> pydict \<Rightarrow> string \<Rightarrow> int \<Rightarrow> int \<Rightarrow> ('r, ai_template) draw" where
  "build_ai_template rend bsize g data gen_id batch customer =
     dbind (choice_val g (opt_section data ''regions'' (PList [PStr ''us-west-2'']))) (\<lambda>region.
     dbind (drepeat (nat batch) (build_ai_record rend g data gen_id customer)) (\<lambda>prototypes.
     let req = \<lparr>rq_resource =
                 [ikv ''customer_id'' customer, ikv ''tenant_id'' customer,
                  ikv ''sgwe_id'' (customer mod 8 + 1), skv ''cloud.region'' (py_str rend region),
                  skv ''service.name'' ''sentrinox-gateway-prod'', skv ''bench.gen_id'' gen_id],
                rq_scope = (''sentrinox.llm.usage'', ''0.1.0''), rq_records = prototypes\<rparr>
     in dbind (dlift (emap find_seq_pair prototypes)) (\<lambda>hs.
        dret \<lparr>at_request = req, at_seq_values = hs, at_count = int (length prototypes),
              at_bytes = bsize req, at_customer = customer\<rparr>)))"

section \<open>The factory\<close>

record ai_factory =
  af_gen_id :: string
  af_batch :: int
  af_data :: pydict
  af_seed :: int
  af_workers :: int
  af_variants :: int
  af_customers :: int
  af_templates :: "ai_template list"

definition customer_of :: "int \<Rightarrow> int \<Rightarrow> int" where
  "customer_of customers i = i mod customers + 1"

definition new_ai_factory ::
  "(pyval \<Rightarrow> string) \<Rightarrow> (request \<Rightarrow> int) \<Rightarrow> 'r rng \<Rightarrow> (int \<Rightarrow> 'r) \<Rightarrow> string \<Rightarrow> pyval \<Rightarrow> int
   \<Rightarrow> string option \<Rightarrow> int \<Rightarrow> int \<Rightarrow> int \<Rightarrow> pyexn + ai_factory" where
  "new_ai_factory rend bsize g seeded uuid data batch gen_id workers variants customers =
     (let gid = gen_id_or gen_id uuid; n = max 1 customers
      in ebind (as_dict (py_or data (PDict []))) (\<lambda>d.
         ebind (py_int (dget_or d ''seed'' (PInt 42))) (\<lambda>seed.
         ebind (build_pool seeded seed (pool_size workers variants)
                  (\<lambda>i. build_ai_template rend bsize g d gid batch (customer_of n i))) (\<lambda>ts.
         Inr \<lparr>af_gen_id = gid, af_batch = batch, af_data = d, af_seed = seed, af_workers = max 1 workers,
              af_variants = max 1 variants, af_customers = n, af_templates = ts\<rparr>))))"

definition build_ai_factory ::
  "(pyval \<Rightarrow> string) \<Rightarrow> (request \<Rightarrow> int) \<Rightarrow> 'r rng \<Rightarrow> (int \<Rightarrow> 'r) \<Rightarrow> string \<Rightarrow> pyval \<Rightarrow> int
   \<Rightarrow> int \<Rightarrow> string option \<Rightarrow> int \<Rightarrow> pyexn + ai_factory" where
  "build_ai_factory rend bsize g seeded uuid data batch workers gen_id customers =
     new_ai_factory rend bsize g seeded uuid data batch gen_id workers 4 customers"

definition ai_template_for :: "ai_factory \<Rightarrow> int \<Rightarrow> int \<Rightarrow> pyexn + ai_template" where
  "ai_template_for f worker_id variant =
     (let i = nat (template_slot (af_workers f) (af_variants f) worker_id variant)
      in if i < length (af_templates f) then Inr (af_templates f ! i) else Inl IndexError)"

definition ai_batch_bytes :: "ai_factory \<Rightarrow> pyexn + int" where
  "ai_batch_bytes f = mean_bytes (map at_bytes (af_templates f))"

definition grpc_max_bytes :: int where
  "grpc_max_bytes = 4 * 1024 * 1024"

definition oversize_error :: "ai_factory \<Rightarrow> pyexn + int option" where
  \<comment> \<open>the message is represented by the batch size it recommends\<close>
  "oversize_error f =
     ebind (ai_batch_bytes f) (\<lambda>bytes.
     Inr (if grpc_max_bytes \<le> bytes
          then Some (py_trunc (of_int grpc_max_bytes * (75 / 100)) div max 1 (bytes div max 1 (af_batch f)))
          else None))"

definition coverage_warning :: "ai_factory \<Rightarrow> int option" where
  \<comment> \<open>the message is represented by the pool size it reports\<close>
  "coverage_warning f =
     (let pool = af_workers f * af_variants f in if pool < af_customers f then Some pool else None)"

definition covered_customers :: "ai_factory \<Rightarrow> int list" where
  "covered_customers f = remdups (sort (map at_customer (af_templates f)))"

definition describe_ai :: "ai_factory \<Rightarrow> pyexn + pydict" where
  "describe_ai f =
     ebind (ai_batch_bytes f) (\<lambda>bytes.
     let covered = covered_customers f
     in Inr [(KStr ''gen_id'', PStr (af_gen_id f)), (KStr ''seed'', PInt (af_seed f)),
          (KStr ''batch_size'', PInt (af_batch f)),
          (KStr ''template_pool_size'', PInt (int (length (af_templates f)))),
          (KStr ''variants_per_worker'', PInt (af_variants f)),
          (KStr ''approx_batch_bytes'', PInt bytes), (KStr ''schema'', PStr ''ai_txn''),
          (KStr ''customers_configured'', PInt (af_customers f)),
          (KStr ''customers_covered'', PInt (int (length covered))),
          (KStr ''customer_id_range'',
             PList (if covered = [] then [] else [PInt (hd covered), PInt (last covered)]))])"


section \<open>The shape of a record\<close>

definition all_text :: "attrs \<Rightarrow> bool" where
  "all_text as = (\<forall>p \<in> set as. \<exists>s. snd p = AStr s)"

lemma all_text_simps [simp]:
  "all_text []" "all_text (p # as) \<longleftrightarrow> (\<exists>s. snd p = AStr s) \<and> all_text as"
  "all_text (as @ bs) \<longleftrightarrow> all_text as \<and> all_text bs"
  by (auto simp: all_text_def)

lemma kv_simps [simp]: "skv k s = (k, AStr s)" "ikv k i = (k, AStr (show_int i))"
  by (simp_all add: skv_def ikv_def)

definition base_keys :: "string list" where
  "base_keys =
     [''bench.seq'', ''bench.gen_id'', ''log_type'', ''snx.sequence_id'', ''snx.workspace_id'', ''snx.user_id'',
      ''snx.vkey_id'', ''snx.agent_id'', ''snx.provider_id'', ''snx.model_id'', ''snx.cfg_ver'', ''snx.latency'',
      ''snx.gateway_latency'', ''snx.overall_action'', ''req.method'', ''req.domain'', ''req.path'', ''req.model'',
      ''req.source_ip'', ''req.source_port'', ''req.ua'', ''req.dbytes'', ''req.an-reqid'', ''req.prompt'',
      ''res.status'', ''res.dbytes'', ''res.c-type'', ''res.sse'', ''res.service_tier'']"

definition usage_keys :: "string list" where
  "usage_keys = [''res.token_usage'', ''llm.stop_reason'', ''llm.ttft'']"

definition limit_keys :: "string list" where
  "limit_keys = [''llm.retry_after'', ''llm.rl.limit_requests'', ''llm.rl.remaining_requests'', ''res.an-rlit'',
     ''llm.rl.remaining_tokens'']"

definition mcp_keys :: "string list" where
  "mcp_keys = [''mcp.tool.name'', ''mcp.server.name'', ''mcp.call_seq'', ''mcp.session_id'', ''mcp.tool.error_code'']"

definition log_type_of :: "bool \<Rightarrow> string" where
  "log_type_of is_mcp = (if is_mcp then ''mcp_tool_call'' else ''http'')"

lemma base_attrs_shape:
  "yields (base_attrs rend g data gen_id customer is_mcp status latency model)
     (\<lambda>as. map fst as = base_keys \<and> all_text as \<and> map_of as ''log_type'' = Some (AStr (log_type_of is_mcp))
        \<and> map_of as ''bench.gen_id'' = Some (AStr gen_id)
        \<and> map_of as ''res.status'' = Some (AStr (show_int status))
        \<and> map_of as ''snx.latency'' = Some (AStr (fixed3 latency)))"
  unfolding base_attrs_def by (rule yields_bind_any)+ (simp add: base_keys_def log_type_of_def)

lemma usage_attrs_shape: "yields (usage_attrs g data latency) (\<lambda>as. map fst as = usage_keys \<and> all_text as)"
  unfolding usage_attrs_def split_beta by (rule yields_bind_any)+ (simp add: usage_keys_def)

lemma limit_attrs_shape: "yields (rate_limit_attrs g) (\<lambda>as. map fst as = limit_keys \<and> all_text as)"
  unfolding rate_limit_attrs_def by (rule yields_bind_any)+ (simp add: limit_keys_def)

lemma mcp_attrs_shape:
  "yields (mcp_attrs g status) (\<lambda>as. (\<exists>n. map fst as = take n mcp_keys \<and> 1 \<le> n) \<and> all_text as)"
  unfolding mcp_attrs_def
  apply (rule yields_bind_any, rule yields_bind_any, rule yields_bind_any, rule yields_bind_any)
  apply (rule yields_bind [where Q = "\<lambda>e. (map fst e = [] \<or> map fst e = [''mcp.tool.error_code'']) \<and> all_text e"])
   apply (rule yields_if, rule yields_bind_any, simp, simp)
  apply (simp, elim conjE disjE)
   apply (rule exI [of _ 4], simp add: mcp_keys_def)
  apply (rule exI [of _ 5], simp add: mcp_keys_def)
  done

lemma usage_part: "yields (if c then usage_attrs g data latency else dret [])
    (\<lambda>as. map fst as = (if c then usage_keys else []) \<and> all_text as)"
  by (simp add: usage_attrs_shape)

lemma limit_part: "yields (if c then rate_limit_attrs g else dret [])
    (\<lambda>as. map fst as = (if c then limit_keys else []) \<and> all_text as)"
  by (simp add: limit_attrs_shape)

lemma mcp_part: "yields (if c then mcp_attrs g status else dret [])
    (\<lambda>as. (if c then \<exists>n. map fst as = take n mcp_keys \<and> 1 \<le> n else as = []) \<and> all_text as)"
  by (simp add: mcp_attrs_shape [simplified])

lemma last_index_append:
  "last_index k (as @ bs) = (case last_index k bs of Some i \<Rightarrow> Some (length as + i) | None \<Rightarrow> last_index k as)"
  by (induction as) (auto split: option.splits)

lemma last_index_None: "last_index k as = None \<longleftrightarrow> k \<notin> set (map fst as)"
  by (induction as) (auto split: option.splits)

lemma last_index_keys: "map fst as = map fst bs \<Longrightarrow> last_index k as = last_index k bs"
proof (induction as arbitrary: bs)
  case (Cons p as)
  then obtain q bs' where "bs = q # bs'" "fst p = fst q" "map fst as = map fst bs'"
    by (auto simp: Cons_eq_map_conv)
  with Cons.IH [of bs'] show ?case by (cases p; cases q) (auto split: option.splits)
qed simp

definition ai_record_ok :: "string \<Rightarrow> log_record \<Rightarrow> bool" where
  "ai_record_ok gen_id r =
     (last_index ''bench.seq'' (lr_attrs r) = Some 0 \<and> last_index ''snx.sequence_id'' (lr_attrs r) = Some 3
      \<and> attr_index ''bench.seq'' (lr_attrs r) = Some 0 \<and> attr_index ''snx.sequence_id'' (lr_attrs r) = Some 3
      \<and> all_text (lr_attrs r) \<and> attr ''bench.gen_id'' r = Some (AStr gen_id)
      \<and> (\<exists>is_mcp status. attr ''log_type'' r = Some (AStr (log_type_of is_mcp))
           \<and> attr ''res.status'' r = Some (AStr (show_int status))
           \<and> (attr ''mcp.tool.name'' r \<noteq> None \<longleftrightarrow> is_mcp)
           \<and> (attr ''res.token_usage'' r \<noteq> None \<longleftrightarrow> \<not> is_mcp \<and> 200 \<le> status \<and> status < 300)
           \<and> (attr ''llm.retry_after'' r \<noteq> None \<longleftrightarrow> status = 429)))"

lemma attr_index_keys: "attr_index k as = attr_index k bs" if "map fst as = map fst bs" for k and as bs :: attrs
  using that by (induction as arbitrary: bs) (auto simp: Cons_eq_map_conv)

lemma attr_index_append:
  "attr_index k (as @ bs) = (case attr_index k as of Some i \<Rightarrow> Some i | None \<Rightarrow> map_option ((+) (length as)) (attr_index k bs))"
proof (induction as)
  case Nil
  then show ?case by (cases "attr_index k bs") simp_all
qed (auto simp: option.map_comp o_def split: option.splits)

lemma map_of_keys: "map_of as k \<noteq> None \<longleftrightarrow> k \<in> set (map fst as)"
  by (simp add: map_of_eq_None_iff)

lemma ai_record_build_ok:
  "yields (build_ai_record rend g data gen_id customer) (ai_record_ok gen_id)"
proof -
  have ok: "ai_record_ok gen_id \<lparr>lr_time = 0, lr_observed = 0, lr_sev_number = n, lr_sev_text = s, lr_body = [],
      lr_trace = tr, lr_span = sp, lr_flags = 1, lr_attrs = base @ usage @ limits @ tail2 @ mcp\<rparr>"
    if b: "map fst base = base_keys \<and> all_text base \<and> map_of base ''log_type'' = Some (AStr (log_type_of is_mcp))
        \<and> map_of base ''bench.gen_id'' = Some (AStr gen_id)
        \<and> map_of base ''res.status'' = Some (AStr (show_int status))
        \<and> map_of base ''snx.latency'' = Some (AStr (fixed3 latency))"
      and u: "map fst usage = (if \<not> is_mcp \<and> 200 \<le> status \<and> status < 300 then usage_keys else []) \<and> all_text usage"
      and l: "map fst limits = (if status = 429 then limit_keys else []) \<and> all_text limits"
      and t: "map fst tail2 = [''llm.user_prompt_suppressed'', ''llm.fallback_triggered''] \<and> all_text tail2"
      and m: "(if is_mcp then \<exists>n. map fst mcp = take n mcp_keys \<and> 1 \<le> n else mcp = []) \<and> all_text mcp"
    for base usage limits tail2 mcp :: attrs and is_mcp status latency n s tr sp
  proof -
    let ?rest = "usage @ limits @ tail2 @ mcp"
    let ?rk = "usage_keys @ limit_keys @ [''llm.user_prompt_suppressed'', ''llm.fallback_triggered''] @ mcp_keys"
    have mk: "set (map fst mcp) \<subseteq> set mcp_keys" "is_mcp \<longleftrightarrow> ''mcp.tool.name'' \<in> set (map fst mcp)"
    proof -
      show "set (map fst mcp) \<subseteq> set mcp_keys"
      proof (cases is_mcp)
        case True
        then obtain n where "map fst mcp = take n mcp_keys" using m by auto
        then show ?thesis using set_take_subset by metis
      qed (use m in simp)
      show "is_mcp \<longleftrightarrow> ''mcp.tool.name'' \<in> set (map fst mcp)"
      proof (cases is_mcp)
        case True
        then obtain n where "map fst mcp = take n mcp_keys" "1 \<le> n" using m by auto
        then show ?thesis using True by (cases n) (simp_all add: mcp_keys_def)
      qed (use m in simp)
    qed
    have sets: "set (map fst ?rest) = set (map fst usage) \<union> set (map fst limits) \<union> set (map fst tail2) \<union> set (map fst mcp)"
      by auto
    have "set (map fst usage) \<subseteq> set usage_keys" "set (map fst limits) \<subseteq> set limit_keys"
      "set (map fst tail2) = {''llm.user_prompt_suppressed'', ''llm.fallback_triggered''}"
      using u l t by (simp_all only: split: if_splits) (simp_all add: subset_iff)
    then have rest: "set (map fst ?rest) \<subseteq> set ?rk"
      unfolding sets using mk(1) by (simp only: set_append) (fastforce simp only: set_simps)
    have new: "k \<notin> set ?rk \<Longrightarrow> last_index k ?rest = None" for k
      using rest by (auto simp: last_index_None)
    have nk: "''bench.seq'' \<notin> set ?rk" "''snx.sequence_id'' \<notin> set ?rk"
      by (simp_all add: usage_keys_def limit_keys_def mcp_keys_def)
    have lb: "last_index ''bench.seq'' base = Some 0" "last_index ''snx.sequence_id'' base = Some 3"
      "attr_index ''bench.seq'' base = Some 0" "attr_index ''snx.sequence_id'' base = Some 3"
      using last_index_keys [of base "map (\<lambda>k. (k, AStr [])) base_keys"]
        attr_index_keys [of base "map (\<lambda>k. (k, AStr [])) base_keys"] b
      by (simp_all add: o_def base_keys_def)
    have bk: "set (map fst base) = set base_keys" using b by simp
    have find: "map_of (base @ ?rest) k \<noteq> None \<longleftrightarrow> k \<in> set base_keys \<or> k \<in> set (map fst ?rest)" for k
      unfolding map_of_keys using bk by auto
    have su: "set (map fst usage) = (if \<not> is_mcp \<and> 200 \<le> status \<and> status < 300 then set usage_keys else {})"
      and sl: "set (map fst limits) = (if status = 429 then set limit_keys else {})"
      and st: "set (map fst tail2) = {''llm.user_prompt_suppressed'', ''llm.fallback_triggered''}"
      unfolding conjunct1 [OF u] conjunct1 [OF l] conjunct1 [OF t]
      by (simp_all only: if_distrib [of set] list.set)
    have k1: "''mcp.tool.name'' \<notin> set base_keys" "''mcp.tool.name'' \<notin> set usage_keys" "''mcp.tool.name'' \<notin> set limit_keys"
      by (simp_all add: base_keys_def usage_keys_def limit_keys_def)
    have k2: "''res.token_usage'' \<notin> set base_keys" "''res.token_usage'' \<in> set usage_keys"
      "''res.token_usage'' \<notin> set limit_keys" "''res.token_usage'' \<notin> set mcp_keys"
      by (simp_all add: base_keys_def usage_keys_def limit_keys_def mcp_keys_def)
    have k3: "''llm.retry_after'' \<notin> set base_keys" "''llm.retry_after'' \<notin> set usage_keys"
      "''llm.retry_after'' \<in> set limit_keys" "''llm.retry_after'' \<notin> set mcp_keys"
      by (simp_all add: base_keys_def usage_keys_def limit_keys_def mcp_keys_def)
    have f1: "map_of (base @ ?rest) ''mcp.tool.name'' \<noteq> None \<longleftrightarrow> is_mcp"
      unfolding find sets su sl st using k1 mk(2) by simp
    have f2: "map_of (base @ ?rest) ''res.token_usage'' \<noteq> None \<longleftrightarrow> \<not> is_mcp \<and> 200 \<le> status \<and> status < 300"
      unfolding find sets su sl st using k2 subsetD [OF mk(1), of "''res.token_usage''"] by auto
    have f3: "map_of (base @ ?rest) ''llm.retry_after'' \<noteq> None \<longleftrightarrow> status = 429"
      unfolding find sets su sl st using k3 subsetD [OF mk(1), of "''llm.retry_after''"] by auto
    have "last_index ''bench.seq'' ?rest = None" "last_index ''snx.sequence_id'' ?rest = None"
      using new nk by simp_all
    then have idx: "last_index ''bench.seq'' (base @ ?rest) = Some 0" "last_index ''snx.sequence_id'' (base @ ?rest) = Some 3"
      "attr_index ''bench.seq'' (base @ ?rest) = Some 0" "attr_index ''snx.sequence_id'' (base @ ?rest) = Some 3"
      unfolding last_index_append attr_index_append using lb by simp_all
    have vals: "map_of (base @ ?rest) ''log_type'' = Some (AStr (log_type_of is_mcp))"
      "map_of (base @ ?rest) ''bench.gen_id'' = Some (AStr gen_id)"
      "map_of (base @ ?rest) ''res.status'' = Some (AStr (show_int status))"
      using b by (simp_all add: map_add_Some_iff)
    have tx: "all_text (base @ ?rest)" using b u l t m by simp
    have "ai_record_ok gen_id \<lparr>lr_time = 0, lr_observed = 0, lr_sev_number = n, lr_sev_text = s, lr_body = [],
      lr_trace = tr, lr_span = sp, lr_flags = 1, lr_attrs = base @ ?rest\<rparr>"
      unfolding ai_record_ok_def log_record.simps
      by (intro conjI exI [of _ is_mcp] exI [of _ status] idx tx vals f1 f2 f3)
    then show ?thesis by simp
  qed
  show ?thesis
    unfolding build_ai_record_def
    apply (rule yields_bind_any, rule yields_bind_any, rule yields_bind_any, rule yields_bind_any)
    apply (rule yields_bind_any, rule yields_bind_any, rule yields_bind_any, rule yields_bind_any)
    apply (rule yields_bind [OF base_attrs_shape])
    apply (rule yields_bind [OF usage_part], rule yields_bind [OF limit_part], rule yields_bind_any)
    apply (rule yields_bind [OF mcp_part])
    apply (rule yields_bind_any, rule yields_bind_any, rule yields_bind_any)
    apply (simp only: yields_ret)
    apply (rule ok)
        apply assumption+
     apply (simp, assumption)
    done
qed

section \<open>The pool\<close>

definition pairs_ok :: "(nat \<times> nat) list \<Rightarrow> log_record list \<Rightarrow> bool" where
  "pairs_ok hs rs =
     list_all2 (\<lambda>h r. attr_index ''bench.seq'' (lr_attrs r) = Some (fst h)
                    \<and> attr_index ''snx.sequence_id'' (lr_attrs r) = Some (snd h)) hs rs"

definition ai_template_ok :: "string \<Rightarrow> int \<Rightarrow> int \<Rightarrow> ai_template \<Rightarrow> bool" where
  "ai_template_ok gen_id batch customer t =
     (pairs_ok (at_seq_values t) (rq_records (at_request t))
      \<and> length (rq_records (at_request t)) = nat batch \<and> at_customer t = customer
      \<and> map_of (rq_resource (at_request t)) ''customer_id'' = Some (AStr (show_int customer))
      \<and> (\<forall>r \<in> set (rq_records (at_request t)). ai_record_ok gen_id r))"

lemma emap_pairs_ok:
  "emap find_seq_pair rs = Inr hs \<Longrightarrow> \<forall>r \<in> set rs. ai_record_ok gen_id r \<Longrightarrow> pairs_ok hs rs"
  by (induction rs arbitrary: hs) (auto simp: pairs_ok_def find_seq_pair_def ai_record_ok_def)

lemma ai_template_build_ok:
  "yields (build_ai_template rend bsize g data gen_id batch customer) (ai_template_ok gen_id batch customer)"
  unfolding build_ai_template_def
  apply (rule yields_bind_any, rule yields_bind [OF yields_repeat [OF ai_record_build_ok]])
  apply (simp only: Let_def, rule yields_lift_bind)
  apply (auto simp: ai_template_ok_def intro: emap_pairs_ok)
  done

lemma new_ai_factory_ok:
  assumes "new_ai_factory rend bsize g seeded uuid data batch gen_id workers variants customers = Inr f"
  shows "int (length (af_templates f)) = af_workers f * af_variants f
    \<and> af_workers f = max 1 workers \<and> af_variants f = max 1 variants \<and> af_customers f = max 1 customers
    \<and> (\<forall>i < length (af_templates f).
         ai_template_ok (gen_id_or gen_id uuid) batch (customer_of (af_customers f) (int i)) (af_templates f ! i))"
proof -
  from assms obtain d seed ts where f:
    "build_pool seeded seed (pool_size workers variants)
       (\<lambda>i. build_ai_template rend bsize g d (gen_id_or gen_id uuid) batch (customer_of (max 1 customers) i)) = Inr ts"
    "af_templates f = ts" "af_workers f = max 1 workers" "af_variants f = max 1 variants" "af_customers f = max 1 customers"
    by (auto simp: new_ai_factory_def Let_def)
  have "0 \<le> pool_size workers variants" by (simp add: pool_size_def)
  then show ?thesis
    using build_pool_ok [OF f(1) ai_template_build_ok] f by (auto simp: pool_size_def)
qed

lemma residue_image:
  assumes "0 < c" and "0 \<le> n"
  shows "(\<lambda>i. customer_of c (int i)) ` {..< nat n} = {1 .. min n c}"
proof (intro set_eqI iffI)
  fix k assume "k \<in> {1 .. min n c}"
  then have "k = customer_of c (int (nat (k - 1)))" "nat (k - 1) < nat n" by (auto simp: customer_of_def)
  then show "k \<in> (\<lambda>i. customer_of c (int i)) ` {..< nat n}" by blast
next
  fix k assume "k \<in> (\<lambda>i. customer_of c (int i)) ` {..< nat n}"
  then obtain i where i: "i < nat n" "k = int i mod c + 1" by (auto simp: customer_of_def)
  have "int i mod c < c" "0 \<le> int i mod c" using assms(1) by simp_all
  moreover have "int i mod c \<le> int i" by (simp add: zmod_le_nonneg_dividend)
  ultimately show "k \<in> {1 .. min n c}" using i by auto
qed

text \<open>Which customers a run can reach. The templates of a pool carry exactly the customers
  1 to the smaller of pool size and configured count. So when there is no coverage warning every
  configured customer has a template, and the warning names exactly how many have one.\<close>

theorem customer_coverage:
  assumes "new_ai_factory rend bsize g seeded uuid data batch gen_id workers variants customers = Inr f"
  shows "case coverage_warning f of
      None \<Rightarrow> at_customer ` set (af_templates f) = {1 .. max 1 customers}
    | Some n \<Rightarrow> at_customer ` set (af_templates f) = {1 .. n} \<and> n < max 1 customers"
proof -
  note f = new_ai_factory_ok [OF assms]
  let ?n = "af_workers f * af_variants f"
  have len: "length (af_templates f) = nat ?n" using f by (metis nat_int)
  have "at_customer ` set (af_templates f) = (\<lambda>i. at_customer (af_templates f ! i)) ` {..< length (af_templates f)}"
    by (auto simp: set_conv_nth image_iff)
  also have "\<dots> = (\<lambda>i. customer_of (af_customers f) (int i)) ` {..< length (af_templates f)}"
    using f by (intro image_cong) (auto simp: ai_template_ok_def)
  also have "\<dots> = {1 .. min ?n (af_customers f)}"
    unfolding len using f by (intro residue_image) auto
  finally show ?thesis using f by (auto simp: coverage_warning_def Let_def min_def)
qed

definition demo_ai_factory :: "int \<Rightarrow> int \<Rightarrow> pyexn + ai_factory" where
  "demo_ai_factory workers customers =
     new_ai_factory (\<lambda>_. []) (\<lambda>r. 100) tick_rng id ''u-1'' (PDict [(KStr ''seed'', PInt 0)]) 0 None workers 2 customers"

lemma demo_ai_factory_runs: "map_sum id (\<lambda>f. (length (af_templates f), coverage_warning f)) (demo_ai_factory 1 5) = Inr (2, Some 2)"
  by code_simp

theorem customer_coverage_witness:
  "case demo_ai_factory 1 5 of Inl e \<Rightarrow> False
   | Inr f \<Rightarrow> at_customer ` set (af_templates f) = {1 .. 2}"
proof -
  obtain f where f: "demo_ai_factory 1 5 = Inr f" "coverage_warning f = Some 2"
    using demo_ai_factory_runs by (cases "demo_ai_factory 1 5") auto
  show ?thesis using customer_coverage [OF f(1) [unfolded demo_ai_factory_def]] f by simp
qed

text \<open>No batch can fail the transform's mandatory column. Every record of every template has
  text attributes only, a \<open>log_type\<close> that is one of the two accepted words, tool attributes
  exactly for tool calls, and token usage exactly for successful model calls.\<close>

theorem ai_records_wellformed:
  assumes "new_ai_factory rend bsize g seeded uuid data batch gen_id workers variants customers = Inr f"
    and "t \<in> set (af_templates f)" and "r \<in> set (rq_records (at_request t))"
  shows "(\<forall>p \<in> set (lr_attrs r). \<exists>s. snd p = AStr s)
    \<and> attr ''bench.gen_id'' r = Some (AStr (gen_id_or gen_id uuid))
    \<and> (\<exists>status. attr ''res.status'' r = Some (AStr (show_int status)) \<and>
        (attr ''log_type'' r = Some (AStr ''mcp_tool_call'') \<and> attr ''mcp.tool.name'' r \<noteq> None
           \<and> attr ''res.token_usage'' r = None
         \<or> attr ''log_type'' r = Some (AStr ''http'') \<and> attr ''mcp.tool.name'' r = None
           \<and> (attr ''res.token_usage'' r \<noteq> None \<longleftrightarrow> 200 \<le> status \<and> status < 300)))"
proof -
  obtain i where "i < length (af_templates f)" "t = af_templates f ! i"
    using assms(2) by (auto simp: in_set_conv_nth)
  then have "ai_record_ok (gen_id_or gen_id uuid) r"
    using new_ai_factory_ok [OF assms(1)] assms(3) by (auto simp: ai_template_ok_def)
  then obtain is_mcp status where r: "all_text (lr_attrs r)" "attr ''bench.gen_id'' r = Some (AStr (gen_id_or gen_id uuid))"
    "attr ''log_type'' r = Some (AStr (log_type_of is_mcp))" "attr ''res.status'' r = Some (AStr (show_int status))"
    "attr ''mcp.tool.name'' r \<noteq> None \<longleftrightarrow> is_mcp"
    "attr ''res.token_usage'' r \<noteq> None \<longleftrightarrow> \<not> is_mcp \<and> 200 \<le> status \<and> status < 300"
    by (auto simp: ai_record_ok_def)
  then show ?thesis
    unfolding all_text_def by (intro conjI exI [of _ status]) (cases is_mcp; simp add: log_type_of_def)+
qed

text \<open>A generator that always draws the first possibility, and a pool of one record.\<close>

definition zero_rng :: "int rng" where
  "zero_rng = \<lparr>rg_random = \<lambda>r. (0, r), rg_below = \<lambda>n r. (0, r), rg_bits = \<lambda>k r. (0, r)\<rparr>"

lemma zero_rng_draws:
  "dbind (draw_of (rg_random zero_rng)) f = f 0"
  "dbind (draw_of (rg_bits zero_rng k)) h = h 0"
  "dbind (dret x) f' = f' x"
  "dbind (dlift (Inr y)) f'' = f'' y"
  "xs \<noteq> [] \<Longrightarrow> choice zero_rng xs = dret (hd xs)"
  "a \<le> b \<Longrightarrow> randint zero_rng a b = dret a"
  "uniform zero_rng u v = dret (fadd u (fmul (fsub v u) (Fin 0)))"
  by (auto simp: dbind_def draw_of_def zero_rng_def dret_def dlift_def choice_def randint_def uniform_def
      hd_conv_nth fun_eq_iff)

lemma zero_rng_weighted: "weighted zero_rng (PDict [(k, PFloat (Fin 1))]) = dret k"
  by (simp add: weighted_def choices1_def is_finite_def bisect.simps zero_rng_draws)

definition demo_one :: "pyexn + ai_factory" where
  "demo_one = new_ai_factory (\<lambda>_. []) (\<lambda>_. 0) zero_rng id ''u-1''
     (PDict [(KStr ''seed'', PInt 0), (KStr ''body_bytes'', PInt 4)]) 1 None 1 1 1"

lemma demo_one_record:
  "\<exists>rec. build_ai_record (\<lambda>_. []) zero_rng [(KStr ''seed'', PInt 0), (KStr ''body_bytes'', PInt 4)] ''u-1'' 1 = dret rec"
  by (simp add: build_ai_record_def severity_mix_def status_mix_def opt_section_def py_or_def dget_or_def
      zero_rng_weighted coin_def sample_latency_seconds_def latency_spec_def draw_latency_def float_limit_def
      models_of_def choice_val_def base_attrs_def user_agents_def build_prompt_def padded_text_def choices1_def
      is_finite_def bisect.simps mcp_attrs_def mcp_tools_def mcp_servers_def zero_rng_draws)
    (rule exI, rule refl)

lemma demo_one_runs: "\<exists>f. demo_one = Inr f \<and> length (af_templates f) = 1"
proof -
  obtain rec where rec: "build_ai_record (\<lambda>_. []) zero_rng
      [(KStr ''seed'', PInt 0), (KStr ''body_bytes'', PInt 4)] ''u-1'' 1 = dret rec"
    using demo_one_record by blast
  have "yields (dret rec :: (int, log_record) draw) (ai_record_ok ''u-1'')"
    unfolding rec [symmetric] by (rule ai_record_build_ok)
  then have "find_seq_pair rec = Inr (0, 3)" by (simp add: find_seq_pair_def ai_record_ok_def)
  then show ?thesis
    by (simp add: demo_one_def new_ai_factory_def Let_def py_or_def dget_or_def build_pool_def pool_size_def
        build_ai_template_def opt_section_def choice_val_def zero_rng_draws customer_of_def gen_id_or_def rec)
      (simp add: dret_def)
qed

theorem ai_records_wellformed_witness:
  "case demo_one of Inl e \<Rightarrow> False
   | Inr f \<Rightarrow> attr ''bench.gen_id'' (rq_records (at_request (af_templates f ! 0)) ! 0) = Some (AStr ''u-1'')"
proof -
  obtain f where f: "demo_one = Inr f" "length (af_templates f) = 1" using demo_one_runs by blast
  have t: "af_templates f ! 0 \<in> set (af_templates f)" using f by simp
  have "length (rq_records (at_request (af_templates f ! 0))) = 1"
    using new_ai_factory_ok [OF f(1) [unfolded demo_one_def]] f(2) by (auto simp: ai_template_ok_def)
  then have "rq_records (at_request (af_templates f ! 0)) ! 0 \<in> set (rq_records (at_request (af_templates f ! 0)))" by simp
  from ai_records_wellformed [OF f(1) [unfolded demo_one_def] t this, THEN conjunct2, THEN conjunct1] show ?thesis
    unfolding f(1) by (simp add: gen_id_or_def)
qed

section \<open>Stamping\<close>

definition ai_restamped :: "int \<Rightarrow> int \<Rightarrow> log_record \<Rightarrow> log_record \<Rightarrow> bool" where
  "ai_restamped now s r r' =
     (lr_time r' = now \<and> lr_observed r' = now
      \<and> attr ''bench.seq'' r' = Some (AStr (show_int s)) \<and> attr ''snx.sequence_id'' r' = Some (AStr (show_int s))
      \<and> (\<forall>k. k \<noteq> ''bench.seq'' \<and> k \<noteq> ''snx.sequence_id'' \<longrightarrow> attr k r' = attr k r))"

lemma ai_restamped_one:
  assumes "attr_index ''bench.seq'' (lr_attrs r) = Some i" and "attr_index ''snx.sequence_id'' (lr_attrs r) = Some j"
  shows "ai_restamped now s r
    (r\<lparr>lr_attrs := set_attr j (AStr (show_int s)) (set_attr i (AStr (show_int s)) (lr_attrs r)), lr_time := now, lr_observed := now\<rparr>)"
proof -
  have "map fst (set_attr i (AStr (show_int s)) (lr_attrs r)) = map fst (lr_attrs r)"
    using attr_index_Some [OF assms(1)] by (intro set_attr_keys) simp
  from attr_index_keys [OF this] assms(2)
  have "attr_index ''snx.sequence_id'' (set_attr i (AStr (show_int s)) (lr_attrs r)) = Some j" by simp
  then show ?thesis using assms(1) by (simp add: ai_restamped_def map_of_set_attr)
qed

lemma stamp_pairs_ok:
  assumes "pairs_ok hs rs"
  shows "\<exists>rs'. stamp_pairs now seq hs rs = (rs', seq + int (length rs)) \<and> length rs' = length rs
    \<and> (\<forall>i < length rs. ai_restamped now (seq + int i) (rs ! i) (rs' ! i))"
  using assms
proof (induction rs arbitrary: hs seq)
  case (Cons r rs)
  from Cons.prems obtain i j hs' where hs: "hs = (i, j) # hs'" "attr_index ''bench.seq'' (lr_attrs r) = Some i"
    "attr_index ''snx.sequence_id'' (lr_attrs r) = Some j" and ok: "pairs_ok hs' rs"
    by (auto simp: pairs_ok_def list_all2_Cons2)
  from Cons.IH [OF ok] obtain rs' where rs':
    "stamp_pairs now (seq + 1) hs' rs = (rs', seq + 1 + int (length rs))" "length rs' = length rs"
    "\<forall>i < length rs. ai_restamped now (seq + 1 + int i) (rs ! i) (rs' ! i)" by blast
  then show ?case
    using ai_restamped_one [OF hs(2,3)] unfolding hs(1)
    by (auto simp: nth_Cons algebra_simps Let_def split: nat.splits)
qed (simp add: pairs_ok_def)

text \<open>C31: the number that reaches the warehouse. Stamping any template of the pool from \<open>s\<close>
  writes into both sequence attributes of record \<open>i\<close> a text that reads back as \<open>s + i\<close>, sets
  both timestamps, keeps every other attribute and returns the next free number.\<close>

theorem ai_stamp_reads_back:
  assumes "new_ai_factory rend bsize g seeded uuid data batch gen_id workers variants customers = Inr f"
    and "ai_template_for f w v = Inr t"
  shows "snd (stamp_ai now s t) = s + int (nat batch)
    \<and> (\<forall>i < nat batch. \<exists>lbl.
         attr ''bench.seq'' (rq_records (at_request (fst (stamp_ai now s t))) ! i) = Some (AStr lbl)
         \<and> attr ''snx.sequence_id'' (rq_records (at_request (fst (stamp_ai now s t))) ! i) = Some (AStr lbl)
         \<and> parse_int lbl = Some (s + int i)
         \<and> lr_time (rq_records (at_request (fst (stamp_ai now s t))) ! i) = now
         \<and> lr_observed (rq_records (at_request (fst (stamp_ai now s t))) ! i) = now
         \<and> (\<forall>k. k \<noteq> ''bench.seq'' \<and> k \<noteq> ''snx.sequence_id'' \<longrightarrow>
              attr k (rq_records (at_request (fst (stamp_ai now s t))) ! i) = attr k (rq_records (at_request t) ! i)))"
proof -
  have "t \<in> set (af_templates f)" using assms(2) by (auto simp: ai_template_for_def Let_def split: if_splits)
  then obtain i where "i < length (af_templates f)" "t = af_templates f ! i" by (auto simp: in_set_conv_nth)
  then have t: "pairs_ok (at_seq_values t) (rq_records (at_request t))" "length (rq_records (at_request t)) = nat batch"
    using new_ai_factory_ok [OF assms(1)] by (auto simp: ai_template_ok_def)
  from stamp_pairs_ok [OF t(1), of now s] t(2) obtain rs' where
    "stamp_pairs now s (at_seq_values t) (rq_records (at_request t)) = (rs', s + int (nat batch))"
    "\<forall>i < nat batch. ai_restamped now (s + int i) (rq_records (at_request t) ! i) (rs' ! i)" by auto
  then show ?thesis by (auto simp: stamp_ai_def ai_restamped_def)
qed

lemma ai_template_for_ok:
  assumes "new_ai_factory rend bsize g seeded uuid data batch gen_id workers variants customers = Inr f"
  shows "\<exists>t \<in> set (af_templates f). ai_template_for f w v = Inr t"
proof -
  note f = new_ai_factory_ok [OF assms]
  then have "nat (template_slot (af_workers f) (af_variants f) w v) < length (af_templates f)"
    using generic_pool.slot_range [of "af_workers f" "af_variants f" w v] by (auto simp: nat_less_iff)
  then show ?thesis by (simp add: ai_template_for_def Let_def)
qed

theorem ai_stamp_reads_back_witness:
  "case demo_one of Inl e \<Rightarrow> False
   | Inr f \<Rightarrow> (case ai_template_for f 3 1 of Inl e \<Rightarrow> False
       | Inr t \<Rightarrow> (\<exists>lbl. attr ''snx.sequence_id'' (rq_records (at_request (fst (stamp_ai 9 41 t))) ! 0) = Some (AStr lbl)
            \<and> parse_int lbl = Some 41))"
proof -
  obtain f where f: "demo_one = Inr f" using demo_one_runs by blast
  obtain t where t: "ai_template_for f 3 1 = Inr t" using ai_template_for_ok [OF f [unfolded demo_one_def]] by blast
  have "0 < nat 1" by simp
  then obtain lbl where
    "attr ''snx.sequence_id'' (rq_records (at_request (fst (stamp_ai 9 41 t))) ! 0) = Some (AStr lbl)"
    "parse_int lbl = Some (41 + int 0)"
    using ai_stamp_reads_back [OF f [unfolded demo_one_def] t, where now = 9 and s = 41, THEN conjunct2] by blast
  then show ?thesis unfolding f sum.case t of_nat_0 add_0_right by blast
qed

section \<open>The size check\<close>

definition sized :: "int \<Rightarrow> ai_template" where
  "sized n =
     \<lparr>at_request = \<lparr>rq_resource = [], rq_scope = ([], []), rq_records = []\<rparr>, at_seq_values = [], at_count = 0,
      at_bytes = n, at_customer = 1\<rparr>"

definition sized_factory :: "ai_template list \<Rightarrow> ai_factory" where
  "sized_factory ts =
     \<lparr>af_gen_id = ''u'', af_batch = 2, af_data = [], af_seed = 1, af_workers = 1, af_variants = 2, af_customers = 2,
      af_templates = ts\<rparr>"

text \<open>What the size check looks at. A run is refused exactly when the mean size of the
  templates, rounded down, reaches the limit, and the recommended batch size then is positive
  only if one record of the mean size fits three quarters of the limit. The check is not about
  each message: a pool passes it in which every second message is over the limit.\<close>

theorem oversize_checks_mean:
  assumes "af_templates f \<noteq> []"
  shows "(oversize_error f = Inr None \<longleftrightarrow>
         sum_list (map at_bytes (af_templates f)) < grpc_max_bytes * int (length (af_templates f)))
   \<and> (\<exists>big small. grpc_max_bytes \<le> at_bytes big \<and> oversize_error (f\<lparr>af_templates := [big, small]\<rparr>) = Inr None)"
proof -
  let ?n = "int (length (af_templates f))" and ?a = "sum_list (map at_bytes (af_templates f))"
  have n: "0 < ?n" using assms by simp
  have "grpc_max_bytes \<le> ?a div ?n \<longleftrightarrow> grpc_max_bytes * ?n \<le> ?a"
  proof
    assume "grpc_max_bytes \<le> ?a div ?n"
    then have "grpc_max_bytes * ?n \<le> ?a div ?n * ?n" using n by (intro mult_right_mono) auto
    then show "grpc_max_bytes * ?n \<le> ?a"
      using div_mult_mod_eq [of ?a ?n] pos_mod_sign [OF n, of ?a] by linarith
  next
    assume "grpc_max_bytes * ?n \<le> ?a"
    from zdiv_mono1 [OF this n] n show "grpc_max_bytes \<le> ?a div ?n" by simp
  qed
  then have "oversize_error f = Inr None \<longleftrightarrow> ?a < grpc_max_bytes * ?n"
    using assms by (auto simp: oversize_error_def ai_batch_bytes_def mean_bytes_def not_le)
  moreover have "grpc_max_bytes \<le> at_bytes (sized 5000000)
      \<and> oversize_error (f\<lparr>af_templates := [sized 5000000, sized 3000000]\<rparr>) = Inr None"
    by (simp add: oversize_error_def ai_batch_bytes_def mean_bytes_def grpc_max_bytes_def sized_def)
  ultimately show ?thesis by blast
qed

theorem oversize_checks_mean_witness:
  "oversize_error (sized_factory [sized 5000000, sized 3000000]) = Inr None \<and>
   (\<exists>big small. grpc_max_bytes \<le> at_bytes big
      \<and> oversize_error ((sized_factory [sized 5000000, sized 3000000])\<lparr>af_templates := [big, small]\<rparr>) = Inr None)"
  using oversize_checks_mean [of "sized_factory [sized 5000000, sized 3000000]"]
  by (simp add: sized_factory_def sized_def grpc_max_bytes_def)

end
