(* ===== verification/Otlp.thy ===== *)
theory Otlp
  imports PyVal
begin

text \<open>
  \<open>generator/src/otlp_client.py\<close>: decoding the shared key, minting and refreshing the bearer
  token, and classifying the outcome of one export. \<open>base64\<close> is Python's own and modelled
  as CPython 3.11, the version of the generator's image, decodes in strict mode. Signing
  (\<open>jwt.encode\<close>), the gRPC call and the parser of \<open>RetryInfo\<close> are arguments. A channel
  pool is its size; connecting, TLS and closing are not modelled.
\<close>

section \<open>Strict base64\<close>

definition b64_alphabet :: string where
  "b64_alphabet = ''ABCDEFGHIJKLMNOPQRSTUVWXYZabcdefghijklmnopqrstuvwxyz0123456789+/''"

definition b64_value :: "char \<Rightarrow> nat option" where
  "b64_value c = map_of (zip b64_alphabet [0 ..< 64]) c"

fun b64_scan :: "nat \<Rightarrow> nat \<Rightarrow> nat \<Rightarrow> bool \<Rightarrow> string \<Rightarrow> nat list option" where
  \<comment> \<open>position in the quad, bits left over, padding characters seen, padding begun\<close>
  "b64_scan quad left pads padding [] = (if quad = 0 then Some [] else None)"
| "b64_scan quad left pads padding (c # cs) =
     (if c = CHR ''='' then
        (if 2 \<le> quad
         then (if 4 \<le> quad + (pads + 1) then (if cs = [] then Some [] else None)
               else b64_scan quad left (pads + 1) True cs)
         else b64_scan quad left pads True cs)
      else
        (case b64_value c of
           None \<Rightarrow> None
         | Some v \<Rightarrow>
             if padding then None
             else if quad = 0 then b64_scan 1 v 0 padding cs
             else if quad = 1 then map_option (Cons (left * 4 + v div 16)) (b64_scan 2 (v mod 16) 0 padding cs)
             else if quad = 2 then map_option (Cons (left * 16 + v div 4)) (b64_scan 3 (v mod 4) 0 padding cs)
             else map_option (Cons (left * 64 + v)) (b64_scan 0 0 0 padding cs)))"

definition b64decode :: "string \<Rightarrow> nat list option" where
  "b64decode s = (if s \<noteq> [] \<and> hd s = CHR ''='' then None else b64_scan 0 0 0 False s)"

section \<open>Tokens\<close>

record token_source =
  ts_key :: "nat list"
  ts_alg :: string
  ts_queue :: string
  ts_subject :: string
  ts_ttl :: int
  ts_token :: string
  ts_expires :: rat

definition new_token_source :: "string \<Rightarrow> string \<Rightarrow> string \<Rightarrow> int \<Rightarrow> pyexn + token_source" where
  "new_token_source secret_b64 queue subject ttl =
     (case b64decode secret_b64 of
        None \<Rightarrow> Inl ValueError
      | Some key \<Rightarrow>
          if length key < 32 then Inl ValueError
          else Inr \<lparr>ts_key = key, ts_alg = (if 64 \<le> length key then ''HS512'' else ''HS256''),
                    ts_queue = queue, ts_subject = subject, ts_ttl = max 60 ttl,
                    ts_token = [], ts_expires = 0\<rparr>)"

definition claims :: "token_source \<Rightarrow> int \<Rightarrow> pydict" where
  "claims ts issued =
     [(KStr ''sub'', PStr (ts_subject ts)), (KStr ''iat'', PInt issued),
      (KStr ''exp'', PInt (issued + ts_ttl ts)),
      (KStr ''x-dd-ingestion-queue'', PStr (ts_queue ts))]"

definition bearer ::
  "(pydict \<Rightarrow> nat list \<Rightarrow> string \<Rightarrow> string) \<Rightarrow> rat \<Rightarrow> token_source \<Rightarrow> string \<times> token_source" where
  \<comment> \<open>\<open>enc payload key algorithm\<close> is \<open>jwt.encode\<close>; \<open>now\<close> is \<open>time.time()\<close>\<close>
  "bearer enc now ts =
     (if now < ts_expires ts then (ts_token ts, ts)
      else let issued = py_trunc now;
               tok = ''Bearer '' @ enc (claims ts issued) (ts_key ts) (ts_alg ts)
           in (tok, ts\<lparr>ts_token := tok, ts_expires := now + of_int (ts_ttl ts) * (75 / 100)\<rparr>))"

section \<open>Export\<close>

record export_result =
  er_ok :: bool
  er_latency :: rat
  er_code :: string
  er_detail :: string
  er_retry_after :: rat

text \<open>
  What the gRPC stub does: it answers, fails with a status (whose code, details and trailing
  metadata may each be missing), or raises something else, which \<open>export\<close> does not catch.
\<close>

datatype reply =
    Answered
  | RpcError "string option" "string option" "(string \<times> nat list) list option"
  | OtherRaise

definition ends_with :: "string \<Rightarrow> string \<Rightarrow> bool" where
  "ends_with s suf = (length suf \<le> length s \<and> drop (length s - length suf) s = suf)"

fun retry_delay :: "(nat list \<Rightarrow> (int \<times> int) option) \<Rightarrow> (string \<times> nat list) list \<Rightarrow> rat" where
  \<comment> \<open>The first matching key decides; a parse that raises ends in the handler with 0.\<close>
  "retry_delay parse [] = 0"
| "retry_delay parse ((key, v) # rest) =
     (if ends_with key ''google.rpc.retryinfo-bin''
      then (case parse v of None \<Rightarrow> 0 | Some (secs, nanos) \<Rightarrow> of_int secs + of_int nanos / 10 ^ 9)
      else retry_delay parse rest)"

definition stub_of :: "int \<Rightarrow> int \<Rightarrow> int" where
  \<comment> \<open>one stub per channel, at least one\<close>
  "stub_of channels stub_index = stub_index mod max 1 channels"

definition export_result_of ::
  "(nat list \<Rightarrow> (int \<times> int) option) \<Rightarrow> rat \<Rightarrow> reply \<Rightarrow> pyexn + export_result" where
  "export_result_of parse latency rep =
     (case rep of
        Answered \<Rightarrow> Inr \<lparr>er_ok = True, er_latency = latency, er_code = ''OK'', er_detail = [], er_retry_after = 0\<rparr>
      | RpcError code details meta \<Rightarrow>
          Inr \<lparr>er_ok = False, er_latency = latency,
               er_code = (case code of None \<Rightarrow> ''UNKNOWN'' | Some c \<Rightarrow> c),
               er_detail = take 200 (case details of None \<Rightarrow> [] | Some d \<Rightarrow> d),
               er_retry_after = retry_delay parse (case meta of None \<Rightarrow> [] | Some m \<Rightarrow> m)\<rparr>
      | OtherRaise \<Rightarrow> Inl RuntimeError)"

section \<open>The key survives its encoding\<close>

fun b64encode :: "nat list \<Rightarrow> string" where
  \<comment> \<open>the standard encoding, as \<open>openssl rand -base64\<close> writes it\<close>
  "b64encode [] = []"
| "b64encode [a] = [b64_alphabet ! (a div 4), b64_alphabet ! (a mod 4 * 16), CHR ''='', CHR ''='']"
| "b64encode [a, b] =
     [b64_alphabet ! (a div 4), b64_alphabet ! (a mod 4 * 16 + b div 16), b64_alphabet ! (b mod 16 * 4), CHR ''='']"
| "b64encode (a # b # c # bs) =
     [b64_alphabet ! (a div 4), b64_alphabet ! (a mod 4 * 16 + b div 16),
      b64_alphabet ! (b mod 16 * 4 + c div 64), b64_alphabet ! (c mod 64)] @ b64encode bs"

lemma b64_value_nth: "n < 64 \<Longrightarrow> b64_value (b64_alphabet ! n) = Some n \<and> b64_alphabet ! n \<noteq> CHR ''=''"
proof -
  assume "n < 64"
  moreover have "\<forall>n \<in> set [0 ..< 64]. b64_value (b64_alphabet ! n) = Some n \<and> b64_alphabet ! n \<noteq> CHR ''=''"
    by code_simp
  ultimately show ?thesis by simp
qed

lemma six_bits:
  assumes "a < 256" "b < 256" "c < (256 :: nat)"
  shows "a div 4 < 64" "a mod 4 * 16 + b div 16 < 64" "b mod 16 * 4 + c div 64 < 64" "c mod 64 < 64"
    "a mod 4 * 16 < 64" "b mod 16 * 4 < 64"
proof -
  have "a mod 4 < 4" "b mod 16 < 16" by simp_all
  moreover have "b div 16 < 16" "c div 64 < 4" "a div 4 < 64" using assms by simp_all
  ultimately show "a div 4 < 64" "a mod 4 * 16 + b div 16 < 64" "b mod 16 * 4 + c div 64 < 64" "c mod 64 < 64"
    "a mod 4 * 16 < 64" "b mod 16 * 4 < 64" by (linarith | simp)+
qed

lemma join_bits:
  assumes "a < 256" "b < 256" "c < (256 :: nat)"
  shows "a div 4 * 4 + (a mod 4 * 16 + b div 16) div 16 = a" "a div 4 * 4 + (a mod 4 * 16) div 16 = a"
    "(a mod 4 * 16 + b div 16) mod 16 * 16 + (b mod 16 * 4 + c div 64) div 4 = b"
    "(a mod 4 * 16 + b div 16) mod 16 * 16 + (b mod 16 * 4) div 4 = b"
    "(b mod 16 * 4 + c div 64) mod 4 * 64 + c mod 64 = c"
proof -
  have "b div 16 < 16" "c div 64 < 4" using assms by simp_all
  then have "(a mod 4 * 16 + b div 16) div 16 = a mod 4" "(a mod 4 * 16 + b div 16) mod 16 = b div 16"
    "(b mod 16 * 4 + c div 64) div 4 = b mod 16" "(b mod 16 * 4 + c div 64) mod 4 = c div 64"
    by (simp_all add: div_mult_self3 mod_mult_self3)
  then show "a div 4 * 4 + (a mod 4 * 16 + b div 16) div 16 = a" "a div 4 * 4 + (a mod 4 * 16) div 16 = a"
    "(a mod 4 * 16 + b div 16) mod 16 * 16 + (b mod 16 * 4 + c div 64) div 4 = b"
    "(a mod 4 * 16 + b div 16) mod 16 * 16 + (b mod 16 * 4) div 4 = b"
    "(b mod 16 * 4 + c div 64) mod 4 * 64 + c mod 64 = c"
    by simp_all
qed

lemma scan_encoded:
  "\<forall>b \<in> set bs. b < 256 \<Longrightarrow> b64_scan 0 x 0 False (b64encode bs) = Some bs"
proof (induction bs arbitrary: x rule: b64encode.induct)
  case (2 a)
  then show ?case
    using six_bits [of a 0 0] join_bits [of a 0 0] by (simp add: b64_value_nth)
next
  case (3 a b)
  then show ?case
    using six_bits [of a b 0] join_bits [of a b 0] by (simp add: b64_value_nth)
next
  case (4 a b c bs)
  then show ?case
    using six_bits [of a b c] join_bits [of a b c] by (simp add: b64_value_nth)
qed simp

text \<open>A key of bytes written in standard base64 is read back exactly, and a token source is
  built from it exactly when it has at least 32 bytes; the algorithm is HS512 exactly from 64
  bytes on and a lifetime below a minute is raised to one.\<close>

theorem key_roundtrip:
  assumes "\<forall>b \<in> set key. b < 256"
  shows "b64decode (b64encode key) = Some key
    \<and> (case new_token_source (b64encode key) q sub ttl of
         Inl e \<Rightarrow> length key < 32 \<and> e = ValueError
       | Inr ts \<Rightarrow> 32 \<le> length key \<and> ts_key ts = key
           \<and> (ts_alg ts = ''HS512'' \<longleftrightarrow> 64 \<le> length key) \<and> ts_ttl ts = max 60 ttl)"
proof -
  have "a < 256 \<Longrightarrow> b64_alphabet ! (a div 4) \<noteq> CHR ''=''" for a
    using six_bits(1) [of a 0 0] b64_value_nth by simp
  then have "b64encode key = [] \<or> hd (b64encode key) \<noteq> CHR ''=''"
    using assms by (cases key rule: b64encode.cases) simp_all
  then have "b64decode (b64encode key) = Some key" by (auto simp: b64decode_def scan_encoded [OF assms])
  then show ?thesis by (simp add: new_token_source_def)
qed

theorem key_roundtrip_witness:
  "b64decode (b64encode (replicate 32 7 @ [255, 0])) = Some (replicate 32 7 @ [255, 0])"
  using key_roundtrip [of "replicate 32 7 @ [255, 0]"] by (simp del: b64encode.simps)

section \<open>Tokens stay valid\<close>

definition bearer_seq ::
  "(pydict \<Rightarrow> nat list \<Rightarrow> string \<Rightarrow> string) \<Rightarrow> token_source \<Rightarrow> rat list \<Rightarrow> string list \<times> token_source" where
  \<comment> \<open>the tokens handed out at the given times, in order\<close>
  "bearer_seq enc ts nows =
     foldl (\<lambda>(toks, s) now. let (tok, s') = bearer enc now s in (toks @ [tok], s')) ([], ts) nows"

definition minted :: "(pydict \<Rightarrow> nat list \<Rightarrow> string \<Rightarrow> string) \<Rightarrow> token_source \<Rightarrow> int \<Rightarrow> string" where
  "minted enc ts issued = ''Bearer '' @ enc (claims ts issued) (ts_key ts) (ts_alg ts)"

definition source_ok :: "(pydict \<Rightarrow> nat list \<Rightarrow> string \<Rightarrow> string) \<Rightarrow> token_source \<Rightarrow> rat \<Rightarrow> bool" where
  "source_ok enc ts now =
     (ts_expires ts = 0 \<and> ts_token ts = []
      \<or> (\<exists>m. 0 \<le> m \<and> m \<le> now \<and> ts_token ts = minted enc ts \<lfloor>m\<rfloor>
             \<and> ts_expires ts = m + of_int (ts_ttl ts) * (75 / 100)))"

definition same_source :: "token_source \<Rightarrow> token_source \<Rightarrow> bool" where
  "same_source s t =
     (ts_key s = ts_key t \<and> ts_alg s = ts_alg t \<and> ts_queue s = ts_queue t \<and> ts_subject s = ts_subject t
      \<and> ts_ttl s = ts_ttl t)"

lemma same_source_minted: "same_source s t \<Longrightarrow> minted enc s i = minted enc t i"
  by (simp add: same_source_def minted_def claims_def)

lemma bearer_step:
  assumes "source_ok enc ts t0" and "0 \<le> t0" and "t0 \<le> now" and "60 \<le> ts_ttl ts"
    and "bearer enc now ts = (tok, ts')"
  shows "source_ok enc ts' now \<and> same_source ts' ts
    \<and> (\<exists>i. tok = minted enc ts i \<and> of_int i \<le> now \<and> now + of_int (ts_ttl ts) / 4 < of_int (i + ts_ttl ts) + 1)"
proof (cases "now < ts_expires ts")
  case True
  then have eq: "ts' = ts" "tok = ts_token ts" using assms(5) by (auto simp: bearer_def)
  have "ts_expires ts \<noteq> 0" using True assms(2,3) by auto
  then obtain m where m: "0 \<le> m" "m \<le> t0" "ts_token ts = minted enc ts \<lfloor>m\<rfloor>"
    "ts_expires ts = m + of_int (ts_ttl ts) * (75 / 100)"
    using assms(1) by (auto simp: source_ok_def)
  have "of_int \<lfloor>m\<rfloor> \<le> m" "m < of_int \<lfloor>m\<rfloor> + 1" by linarith+
  moreover from this m assms(3) have "of_int \<lfloor>m\<rfloor> \<le> now" by linarith
  moreover have "now < m + of_int (ts_ttl ts) * (75 / 100)" using True m(4) by simp
  ultimately show ?thesis
    unfolding eq using m assms(3)
    by (intro conjI exI [of _ "\<lfloor>m\<rfloor>"]) (auto simp: source_ok_def same_source_def intro!: exI [of _ m])
next
  case False
  have n: "0 \<le> now" using assms(2,3) by simp
  then have tr: "py_trunc now = \<lfloor>now\<rfloor>" by (rule py_trunc_nonneg)
  have eq: "tok = minted enc ts \<lfloor>now\<rfloor>"
    "ts' = ts\<lparr>ts_token := tok, ts_expires := now + of_int (ts_ttl ts) * (75 / 100)\<rparr>"
    using assms(5) False by (auto simp: bearer_def Let_def minted_def tr)
  have "source_ok enc ts' now"
    unfolding source_ok_def eq(2) using n
    by (intro disjI2 exI [of _ now]) (simp add: eq(1) minted_def claims_def)
  moreover have "of_int \<lfloor>now\<rfloor> \<le> now" "now < of_int \<lfloor>now\<rfloor> + 1" by linarith+
  moreover have "(0 :: rat) \<le> of_int (ts_ttl ts)" using assms(4) by simp
  ultimately show ?thesis
    using eq by (intro conjI exI [of _ "\<lfloor>now\<rfloor>"]) (auto simp: same_source_def)
qed
lemma same_source_trans: "same_source a b \<Longrightarrow> same_source b c \<Longrightarrow> same_source a c"
  by (simp add: same_source_def)

lemma bearer_seq_snoc:
  "bearer_seq enc ts (nows @ [now]) =
     (let (toks, s) = bearer_seq enc ts nows; (tok, s') = bearer enc now s in (toks @ [tok], s'))"
  by (simp add: bearer_seq_def split_beta)

text \<open>C14: no request carries a stale token. Whenever requests are sent, at times that do not go
  back, each one gets a token minted for this source's queue and subject at or before that time
  and with more than a quarter of its lifetime, less the second lost by rounding, still to run:
  at least 14 seconds.\<close>

theorem bearer_never_stale:
  assumes "new_token_source secret q sub ttl = Inr ts" and "sorted nows" and "\<forall>t \<in> set nows. 0 \<le> t"
    and "i < length nows"
  shows "length (fst (bearer_seq enc ts nows)) = length nows
    \<and> (\<exists>issued. fst (bearer_seq enc ts nows) ! i = ''Bearer '' @ enc (claims ts issued) (ts_key ts) (ts_alg ts)
         \<and> of_int issued \<le> nows ! i
         \<and> nows ! i + of_int (ts_ttl ts) / 4 - 1 < of_int (issued + ts_ttl ts)
         \<and> nows ! i + 14 < of_int (issued + ts_ttl ts))"
proof -
  have ttl: "60 \<le> ts_ttl ts" and init: "source_ok enc ts 0"
    using assms(1) by (auto simp: new_token_source_def source_ok_def split: option.splits if_splits)
  let ?good = "\<lambda>tok now. \<exists>k. tok = minted enc ts k \<and> of_int k \<le> now
      \<and> now + of_int (ts_ttl ts) / 4 < of_int (k + ts_ttl ts) + 1"
  have "source_ok enc (snd (bearer_seq enc ts ns)) (if ns = [] then 0 else last ns)
      \<and> same_source (snd (bearer_seq enc ts ns)) ts
      \<and> list_all2 ?good (fst (bearer_seq enc ts ns)) ns"
    if "sorted ns" "\<forall>t \<in> set ns. 0 \<le> t" for ns
    using that
  proof (induction ns rule: rev_induct)
    case Nil
    then show ?case using init by (simp add: bearer_seq_def same_source_def)
  next
    case (snoc now ns)
    obtain toks s where b: "bearer_seq enc ts ns = (toks, s)" by (cases "bearer_seq enc ts ns")
    obtain tok s' where st: "bearer enc now s = (tok, s')" by (cases "bearer enc now s")
    have ih: "source_ok enc s (if ns = [] then 0 else last ns)" "same_source s ts" "list_all2 ?good toks ns"
      using snoc.IH snoc.prems b by (auto simp: sorted_append)
    have le: "0 \<le> (if ns = [] then 0 else last ns)" "(if ns = [] then 0 else last ns) \<le> now"
      using snoc.prems by (auto simp: sorted_append)
    have tt: "ts_ttl s = ts_ttl ts" using ih(2) by (simp add: same_source_def)
    from bearer_step [OF ih(1) le _ st] ttl tt same_source_minted [OF ih(2)]
    have "source_ok enc s' now" "same_source s' s" "?good tok now" by auto
    then show ?case
      using ih b st by (auto simp: bearer_seq_snoc list_all2_appendI intro: same_source_trans)
  qed
  then have all: "list_all2 ?good (fst (bearer_seq enc ts nows)) nows" using assms(2,3) by blast
  then obtain k where k: "fst (bearer_seq enc ts nows) ! i = minted enc ts k" "of_int k \<le> nows ! i"
    "nows ! i + of_int (ts_ttl ts) / 4 < of_int (k + ts_ttl ts) + 1"
    using assms(4) list_all2_nthD2 by blast
  have "(60 :: rat) \<le> of_int (ts_ttl ts)" using ttl by simp
  with k(3) have "nows ! i + 14 < of_int (k + ts_ttl ts)" by linarith
  with k all show ?thesis
    by (auto simp: minted_def list_all2_lengthD intro!: exI [of _ k])
qed

definition demo_source :: token_source where
  "demo_source = \<lparr>ts_key = replicate 64 7, ts_alg = ''HS512'', ts_queue = ''logs'', ts_subject = ''test'',
     ts_ttl = 600, ts_token = [], ts_expires = 0\<rparr>"

lemma demo_source_new: "new_token_source (b64encode (replicate 64 7)) ''logs'' ''test'' 600 = Inr demo_source"
proof -
  have "b64decode (b64encode (replicate 64 7)) = Some (replicate 64 7)" by code_simp
  then show ?thesis by (simp add: new_token_source_def demo_source_def)
qed

theorem bearer_never_stale_witness:
  "\<exists>issued. fst (bearer_seq (\<lambda>_ _ _. ''jwt'') demo_source [1000, 1449, 1451]) ! 2 = ''Bearer jwt''
     \<and> 1451 + 14 < (of_int (issued + 600) :: rat)"
  using bearer_never_stale [OF demo_source_new, of "[1000, 1449, 1451]" 2 "\<lambda>_ _ _. ''jwt''"]
  by (auto simp: demo_source_def)

section \<open>Outcomes and channels\<close>

text \<open>What the engine learns of one call. Only an answered call is ok; a gRPC error always
  has a non-empty code and at most 200 characters of detail; anything else is not turned into a
  result but raised.\<close>

theorem export_classified:
  assumes "export_result_of parse lat rep = Inr r" and "\<And>d m. rep \<noteq> RpcError (Some []) d m"
  shows "(er_ok r \<longleftrightarrow> rep = Answered) \<and> er_latency r = lat \<and> er_code r \<noteq> [] \<and> length (er_detail r) \<le> 200
    \<and> (er_retry_after r \<noteq> 0 \<longrightarrow>
        (\<exists>c d m k v. rep = RpcError c d (Some m) \<and> (k, v) \<in> set m \<and> ends_with k ''google.rpc.retryinfo-bin''
           \<and> parse v \<noteq> None))"
proof -
  have rd: "retry_delay parse m \<noteq> 0 \<Longrightarrow>
      \<exists>k v. (k, v) \<in> set m \<and> ends_with k ''google.rpc.retryinfo-bin'' \<and> parse v \<noteq> None" for m
  proof (induction m)
    case (Cons p m)
    obtain k v where p: "p = (k, v)" by (cases p)
    show ?case
    proof (cases "ends_with k ''google.rpc.retryinfo-bin''")
      case True
      then have "parse v \<noteq> None" using Cons.prems by (auto simp: p split: option.splits)
      with True show ?thesis by (intro exI [of _ k] exI [of _ v]) (simp add: p)
    next
      case False
      then have "retry_delay parse m \<noteq> 0" using Cons.prems by (simp add: p)
      from Cons.IH [OF this] show ?thesis by auto
    qed
  qed simp
  show ?thesis
  proof (cases rep)
    case (RpcError c d m)
    have "c \<noteq> Some []" using assms(2) [of d m] RpcError by auto
    with RpcError show ?thesis
      using assms(1) rd by (cases c; cases m) (auto simp: export_result_of_def)
  qed (use assms in \<open>auto simp: export_result_of_def\<close>)
qed

theorem export_classified_witness:
  "case export_result_of (\<lambda>_. Some (2, 500000000)) 3
      (RpcError (Some ''RESOURCE_EXHAUSTED'') None (Some [(''x-google.rpc.retryinfo-bin'', [1])])) of
     Inl e \<Rightarrow> False
   | Inr r \<Rightarrow> \<not> er_ok r \<and> er_code r \<noteq> [] \<and> er_retry_after r = 5 / 2"
proof -
  obtain r where r: "export_result_of (\<lambda>_. Some (2, 500000000)) 3
      (RpcError (Some ''RESOURCE_EXHAUSTED'') None (Some [(''x-google.rpc.retryinfo-bin'', [1])])) = Inr r"
    by (simp add: export_result_of_def)
  have "er_retry_after r = 5 / 2" using r by (auto simp: export_result_of_def ends_with_def)
  with export_classified [OF r] show ?thesis unfolding r by auto
qed

end
