(* ===== verification/LoadGen.thy ===== *)
theory LoadGen
  imports Config Metrics Otlp AiTxn
begin

text \<open>
  \<open>generator/src/loadgen.py\<close>: the open-loop engine as a transition system. The main thread (the
  pacer inside \<open>run_step\<close>, then \<open>stop\<close>) and every worker have a program counter; one
  transition is one access to what the threads share: the bounded queue, the sequence counter,
  the counters of \<open>Metrics\<close>, the current step's result, the failure counter, the stop event, the
  templates. The clock, the signal handler, the sampler and the replies of the collector are
  actions of the environment. Times and rates are rationals, so a step whose rate or duration
  is infinite or not a number, which the configuration lets through, is outside the model.
  The last three fields of the state are history: what was put, what was sent, what came back.
\<close>

section \<open>State\<close>

record item =
  it_seq :: int
  it_count :: int
  it_bytes :: int
  it_variant :: int

record step_result =
  sr_index :: int
  sr_target :: rat
  sr_duration :: rat
  sr_started :: rat
  sr_ended :: rat
  sr_offered :: int
  sr_accepted :: int
  sr_rejected :: int
  sr_requests :: int
  sr_failures :: int
  sr_stalled :: rat
  sr_seq_start :: int
  sr_seq_end :: int
  sr_errors :: "(string \<times> int) list"

definition accepted_ratio :: "step_result \<Rightarrow> rat" where
  "accepted_ratio r = (if sr_offered r \<noteq> 0 then of_int (sr_accepted r) / of_int (sr_offered r) else 0)"

record engine =
  en_batch :: int
  en_workers :: int
  en_inflight :: int
  en_limit :: int
  en_retry :: retry_mode
  en_timeout :: rat
  en_pool_workers :: int
  en_variants :: int
  en_count :: int
  en_bytes :: int

text \<open>How one call of the exporter ends, as \<open>Otlp.export_result_of\<close> classifies it.\<close>

datatype outcome =
    Acked rat
  | Failed string rat string rat
  | Raised

text \<open>The pacer's local variables: the result it fills, the step's rate, the first
  sequence number, the deadline and the schedule.\<close>

record pacing =
  pv_res :: nat
  pv_rate :: rat
  pv_seq0 :: int
  pv_started :: rat
  pv_deadline :: rat
  pv_next :: rat
  pv_interval :: rat
  pv_variant :: int

datatype pacer =
    PIdle
  | PLoop pacing
  | PWait pacing rat
  | PTake pacing rat
  | POffer pacing rat item rat
  | PPutting pacing rat item rat
  | PStalled pacing rat item rat bool
  | PRecord pacing rat item
  | PCredit pacing rat item
  | PNext pacing rat
  | PUnput pacing item
  | PDrain pacing rat
  | PDrainInflight pacing rat
  | PClose pacing
  | PStopping nat
  | PJoin

datatype worker =
    WIdle
  | WGot item
  | WStamped item
  | WReady item
  | WSending item
  | WBack item outcome
  | WJudge item outcome
  | WReset item
  | WCredit item
  | WDebit item string string rat
  | WBump string string
  | WStore string string int
  | WLimit string string
  | WAbort string string
  | WStop
  | WPolite rat
  | WExited

record gen =
  g_clock :: rat
  g_stop :: bool
  g_queue :: "item option list"
  g_next :: int
  g_fails :: int
  g_abort :: "(int \<times> string \<times> string) option"
  g_results :: "step_result list"
  g_active :: "nat option"
  g_workers :: "worker list"
  g_pacer :: pacer
  g_metrics :: metrics
  g_templates :: "int list"
  g_put :: "item list"
  g_sent :: "(nat \<times> item \<times> int) list"
  g_done :: "(item \<times> outcome) list"

section \<open>Setting up\<close>

definition new_engine :: "generator_config \<Rightarrow> factory \<Rightarrow> rat \<Rightarrow> pyexn + engine" where
  \<comment> \<open>\<open>LoadGenerator.__init__\<close>, with the sizes \<open>run_step\<close> later probes from the pool\<close>
  "new_engine cfg f timeout =
     (let w = gc_workload cfg
      in if int (length (pf_templates f)) < wl_workers w * pf_variants f then Inl ValueError
         else ebind (template_for f 0 0) (\<lambda>probe.
              Inr \<lparr>en_batch = wl_batch w, en_workers = wl_workers w, en_inflight = wl_max_inflight w,
                   en_limit = wl_abort_limit w, en_retry = wl_retry w, en_timeout = timeout,
                   en_pool_workers = pf_workers f, en_variants = pf_variants f,
                   en_count = tp_count probe, en_bytes = tp_bytes probe\<rparr>))"

definition started :: "engine \<Rightarrow> metrics \<Rightarrow> rat \<Rightarrow> gen" where
  \<comment> \<open>after \<open>start\<close>: every worker waits for the queue\<close>
  "started e m now =
     \<lparr>g_clock = now, g_stop = False, g_queue = [], g_next = 0, g_fails = 0, g_abort = None,
      g_results = [], g_active = None, g_workers = replicate (nat (en_workers e)) WIdle,
      g_pacer = PIdle, g_metrics = m,
      g_templates = replicate (nat (en_pool_workers e * en_variants e)) 0,
      g_put = [], g_sent = [], g_done = []\<rparr>"

definition capacity :: "engine \<Rightarrow> nat" where
  "capacity e = nat (max 1 (en_inflight e))"

definition step_interval :: "engine \<Rightarrow> rat \<Rightarrow> pyexn + rat" where
  "step_interval e rps =
     (if en_batch e = 0 then Inl ZeroDivisionError
      else let per_second = rps / of_int (en_batch e)
           in if per_second \<le> 0 then Inl ValueError else Inr (1 / per_second))"

definition result_update :: "nat \<Rightarrow> (step_result \<Rightarrow> step_result) \<Rightarrow> gen \<Rightarrow> gen" where
  "result_update i f s =
     s\<lparr>g_results := (if i < length (g_results s) then (g_results s)[i := f (g_results s ! i)] else g_results s)\<rparr>"

definition active_update :: "(step_result \<Rightarrow> step_result) \<Rightarrow> gen \<Rightarrow> gen" where
  \<comment> \<open>\<open>if self._step: ...\<close>\<close>
  "active_update f s = (case g_active s of None \<Rightarrow> s | Some i \<Rightarrow> result_update i f s)"

definition pc_at :: "pacer \<Rightarrow> gen \<Rightarrow> gen" where
  "pc_at p s = s\<lparr>g_pacer := p\<rparr>"

definition w_at :: "nat \<Rightarrow> worker \<Rightarrow> gen \<Rightarrow> gen" where
  "w_at w pc s = s\<lparr>g_workers := (g_workers s)[w := pc]\<rparr>"

section \<open>The main thread\<close>

definition begin_step :: "engine \<Rightarrow> int \<Rightarrow> rat \<Rightarrow> rat \<Rightarrow> gen \<Rightarrow> gen option" where
  "begin_step e index rps duration s =
     (if g_pacer s \<noteq> PIdle then None
      else case step_interval e rps of
          Inl _ \<Rightarrow> None
        | Inr interval \<Rightarrow>
            let now = g_clock s;
                r = \<lparr>sr_index = index, sr_target = rps, sr_duration = duration, sr_started = now, sr_ended = 0,
                     sr_offered = 0, sr_accepted = 0, sr_rejected = 0, sr_requests = 0, sr_failures = 0,
                     sr_stalled = 0, sr_seq_start = g_next s, sr_seq_end = 0, sr_errors = []\<rparr>;
                p = \<lparr>pv_res = length (g_results s), pv_rate = rps, pv_seq0 = g_next s, pv_started = now, pv_deadline = now + duration,
                     pv_next = now, pv_interval = interval, pv_variant = 0\<rparr>
            in Some (s\<lparr>g_results := g_results s @ [r], g_active := Some (length (g_results s)),
                       g_metrics := set_step index (Fin rps) (g_metrics s), g_pacer := PLoop p\<rparr>))"

definition drain_from :: "engine \<Rightarrow> pacing \<Rightarrow> gen \<Rightarrow> gen" where
  \<comment> \<open>leaving the loop: \<open>_drain_inflight(rpc_timeout + 10)\<close>\<close>
  "drain_from e p s = pc_at (PDrain p (g_clock s + en_timeout e + 10)) s"

fun pacer_step :: "engine \<Rightarrow> gen \<Rightarrow> gen option" where
  "pacer_step e s =
     (case g_pacer s of
        PLoop p \<Rightarrow>
          if g_stop s then Some (drain_from e p s)
          else let now = g_clock s
               in if pv_deadline p \<le> now then Some (drain_from e p s)
                  else if 0 < pv_next p - now then Some (pc_at (PWait p now) s)
                  else Some (pc_at (PTake p now) s)
      | PWait p now \<Rightarrow>
          \<comment> \<open>\<open>_stop.wait(min(sleep_for, 0.25))\<close> returns on the event or after the time\<close>
          if g_stop s then Some (drain_from e p s)
          else if g_clock s < now + min (pv_next p - now) (1 / 4) then None
          else if 1 / 4 < pv_next p - now then Some (pc_at (PLoop p) s)
          else Some (pc_at (PTake p now) s)
      | PTake p now \<Rightarrow>
          let it = \<lparr>it_seq = g_next s, it_count = en_count e, it_bytes = en_bytes e, it_variant = pv_variant p\<rparr>;
              p' = p\<lparr>pv_variant := (pv_variant p + 1) mod en_variants e\<rparr>
          in Some (pc_at (POffer p' now it (g_clock s)) (s\<lparr>g_next := g_next s + en_batch e\<rparr>))
      | POffer p now it t0 \<Rightarrow>
          if \<not> g_stop s \<and> g_clock s < pv_deadline p then Some (pc_at (PPutting p now it t0) s)
          else Some (pc_at (PStalled p now it t0 False) s)
      | PPutting p now it t0 \<Rightarrow>
          if length (g_queue s) < capacity e
          then Some (pc_at (PStalled p now it t0 True) (s\<lparr>g_queue := g_queue s @ [Some it], g_put := g_put s @ [it]\<rparr>))
          else Some (pc_at (POffer p now it t0) s)
      | PStalled p now it t0 enqueued \<Rightarrow>
          let stalled = g_clock s - t0;
              s1 = (if 1 / 1000 < stalled
                    then result_update (pv_res p) (\<lambda>r. r\<lparr>sr_stalled := sr_stalled r + stalled * 1000\<rparr>)
                           (s\<lparr>g_metrics := record_stall stalled (g_metrics s)\<rparr>)
                    else s)
          in Some (pc_at (if enqueued then PRecord p now it else PUnput p it) s1)
      | PUnput p it \<Rightarrow>
          Some (drain_from e p
            (if g_next s = it_seq it + en_batch e then s\<lparr>g_next := it_seq it\<rparr> else s))
      | PRecord p now it \<Rightarrow>
          Some (pc_at (PCredit p now it) (s\<lparr>g_metrics := record_offered (it_count it) (it_bytes it) (g_metrics s)\<rparr>))
      | PCredit p now it \<Rightarrow>
          Some (pc_at (PNext p now) (result_update (pv_res p) (\<lambda>r. r\<lparr>sr_offered := sr_offered r + it_count it\<rparr>) s))
      | PNext p now \<Rightarrow>
          let n = pv_next p + pv_interval p; n' = (if n < now - 1 then now else n); p' = p\<lparr>pv_next := n'\<rparr>
          in Some (if g_abort s \<noteq> None then drain_from e p' s else pc_at (PLoop p') s)
      | PDrain p limit \<Rightarrow>
          if limit \<le> g_clock s then Some (pc_at (PClose p) s)
          else if g_queue s = [] then Some (pc_at (PDrainInflight p limit) s)
          else Some s
      | PDrainInflight p limit \<Rightarrow>
          if m_inflight (g_metrics s) = 0 then Some (pc_at (PClose p) s) else Some (pc_at (PDrain p limit) s)
      | PClose p \<Rightarrow>
          Some (pc_at PIdle
            (result_update (pv_res p)
               (\<lambda>r. r\<lparr>sr_ended := g_clock s, sr_seq_end := max (sr_seq_start r) (g_next s - 1)\<rparr>) s\<lparr>g_active := None\<rparr>))
      | PStopping n \<Rightarrow>
          (case n of
             0 \<Rightarrow> Some (pc_at PJoin s)
           | Suc k \<Rightarrow> Some (pc_at (PStopping k)
               (if length (g_queue s) < capacity e then s\<lparr>g_queue := g_queue s @ [None]\<rparr> else s)))
      | PIdle \<Rightarrow> None
      | PJoin \<Rightarrow> None)"

definition call_stop :: "gen \<Rightarrow> gen option" where
  "call_stop s =
     (if g_pacer s = PIdle then Some (pc_at (PStopping (length (g_workers s))) (s\<lparr>g_stop := True\<rparr>)) else None)"

section \<open>The workers\<close>

definition slot_of :: "engine \<Rightarrow> nat \<Rightarrow> item \<Rightarrow> nat" where
  "slot_of e w it = nat (template_slot (en_pool_workers e) (en_variants e) (int w) (it_variant it))"

fun worker_step :: "engine \<Rightarrow> nat \<Rightarrow> outcome \<Rightarrow> gen \<Rightarrow> gen option" where
  "worker_step e w reply s =
     (case g_workers s ! w of
        WIdle \<Rightarrow>
          (case g_queue s of
             [] \<Rightarrow> None
           | None # q \<Rightarrow> Some (w_at w WExited (s\<lparr>g_queue := q\<rparr>))
           | Some it # q \<Rightarrow> Some (w_at w (WGot it) (s\<lparr>g_queue := q\<rparr>)))
      | WGot it \<Rightarrow>
          Some (w_at w (WStamped it) (s\<lparr>g_templates := (g_templates s)[slot_of e w it := it_seq it]\<rparr>))
      | WStamped it \<Rightarrow> Some (w_at w (WReady it) (s\<lparr>g_metrics := record_inflight 1 (g_metrics s)\<rparr>))
      | WReady it \<Rightarrow>
          Some (w_at w (WSending it) (s\<lparr>g_sent := g_sent s @ [(w, it, g_templates s ! slot_of e w it)]\<rparr>))
      | WSending it \<Rightarrow> Some (w_at w (WBack it reply) s)
      | WBack it r \<Rightarrow> Some (w_at w (WJudge it r) (s\<lparr>g_metrics := record_inflight (- 1) (g_metrics s)\<rparr>))
      | WJudge it r \<Rightarrow>
          let s1 = s\<lparr>g_done := g_done s @ [(it, r)]\<rparr>
          in (case r of
                Acked lat \<Rightarrow> Some (w_at w (WReset it) (s1\<lparr>g_metrics := record_success (it_count it) lat (g_metrics s)\<rparr>))
              | Failed code lat detail retry \<Rightarrow>
                  Some (w_at w (WDebit it code detail retry)
                    (s1\<lparr>g_metrics := record_failure (it_count it) lat code (g_metrics s)\<rparr>))
              | Raised \<Rightarrow> Some (w_at w WIdle s1))
      | WReset it \<Rightarrow> Some (w_at w (WCredit it) (s\<lparr>g_fails := 0\<rparr>))
      | WCredit it \<Rightarrow>
          Some (w_at w WIdle (active_update
            (\<lambda>r. r\<lparr>sr_accepted := sr_accepted r + it_count it, sr_requests := sr_requests r + 1\<rparr>) s))
      | WDebit it code detail retry \<Rightarrow>
          Some (w_at w
            (if code = ''RESOURCE_EXHAUSTED''
             then (if en_retry e = RetryPolite \<and> 0 < retry then WPolite (g_clock s + min retry 5) else WIdle)
             else WBump code detail)
            (active_update
              (\<lambda>r. r\<lparr>sr_requests := sr_requests r + 1, sr_failures := sr_failures r + 1,
                     sr_errors := count_up code (sr_errors r),
                     sr_rejected := sr_rejected r + (if code = ''RESOURCE_EXHAUSTED'' then it_count it else 0)\<rparr>) s))
      | WBump code detail \<Rightarrow> Some (w_at w (WStore code detail (g_fails s)) s)
      | WStore code detail n \<Rightarrow> Some (w_at w (WLimit code detail) (s\<lparr>g_fails := n + 1\<rparr>))
      | WLimit code detail \<Rightarrow>
          if en_limit e \<noteq> 0 \<and> en_limit e \<le> g_fails s \<and> g_abort s = None
          then Some (w_at w (WAbort code detail) s) else Some (w_at w WIdle s)
      | WAbort code detail \<Rightarrow> Some (w_at w WStop (s\<lparr>g_abort := Some (g_fails s, code, detail)\<rparr>))
      | WStop \<Rightarrow> Some (w_at w WIdle (s\<lparr>g_stop := True\<rparr>))
      | WPolite until \<Rightarrow> if g_stop s \<or> until \<le> g_clock s then Some (w_at w WIdle s) else None
      | WExited \<Rightarrow> None)"

section \<open>Runs\<close>

datatype act =
    AClock rat
  | AInterrupt
  | ABegin int rat rat
  | APacer
  | ACallStop
  | AWorker nat outcome
  | AFlush rat string

fun gstep :: "engine \<Rightarrow> act \<Rightarrow> gen \<Rightarrow> gen option" where
  "gstep e (AClock dt) s = (if 0 \<le> dt then Some (s\<lparr>g_clock := g_clock s + dt\<rparr>) else None)"
| "gstep e AInterrupt s = Some (s\<lparr>g_stop := True\<rparr>)"
| "gstep e (ABegin i rps d) s = begin_step e i rps d s"
| "gstep e APacer s = pacer_step e s"
| "gstep e ACallStop s = call_stop s"
| "gstep e (AWorker w r) s = (if w < length (g_workers s) then worker_step e w r s else None)"
| "gstep e (AFlush ts tag) s = Some (s\<lparr>g_metrics := flush_sample ts tag (g_metrics s)\<rparr>)"

inductive greach :: "engine \<Rightarrow> gen \<Rightarrow> gen \<Rightarrow> bool" for e s where
  greach_init: "greach e s s"
| greach_step: "greach e s t \<Longrightarrow> gstep e a t = Some u \<Longrightarrow> greach e s u"

fun grun :: "engine \<Rightarrow> act list \<Rightarrow> gen \<Rightarrow> gen option" where
  "grun e [] s = Some s"
| "grun e (a # as) s = (case gstep e a s of None \<Rightarrow> None | Some s' \<Rightarrow> grun e as s')"


section \<open>Invariants by cases\<close>

lemma greach_invariant:
  assumes "greach e s t" and "P s" and "\<And>t a u. P t \<Longrightarrow> gstep e a t = Some u \<Longrightarrow> P u"
  shows "P t"
  using assms(1)
proof (induction rule: greach.induct)
  case (greach_step t a u)
  from assms(3) [OF greach_step.IH greach_step.hyps(2)] show ?case .
qed (rule assms(2))

lemma greach_trans: "greach e t u \<Longrightarrow> greach e s t \<Longrightarrow> greach e s u"
proof (induction rule: greach.induct)
  case (greach_step v a u)
  from greach.greach_step [OF greach_step.IH [OF greach_step.prems] greach_step.hyps(2)] show ?case .
qed

lemma grun_greach: "grun e as s = Some t \<Longrightarrow> greach e s t"
proof (induction as arbitrary: s)
  case (Cons a as)
  then obtain s' where s': "gstep e a s = Some s'" "grun e as s' = Some t" by (auto split: option.splits)
  show ?case by (rule greach_trans [OF Cons.IH [OF s'(2)] greach_step [OF greach_init s'(1)]])
qed (simp add: greach_init)

lemma pc_at_simps [simp]:
  "g_pacer (pc_at p s) = p" "g_clock (pc_at p s) = g_clock s" "g_stop (pc_at p s) = g_stop s"
  "g_queue (pc_at p s) = g_queue s" "g_next (pc_at p s) = g_next s" "g_fails (pc_at p s) = g_fails s"
  "g_abort (pc_at p s) = g_abort s" "g_results (pc_at p s) = g_results s" "g_active (pc_at p s) = g_active s"
  "g_workers (pc_at p s) = g_workers s" "g_metrics (pc_at p s) = g_metrics s"
  "g_templates (pc_at p s) = g_templates s" "g_put (pc_at p s) = g_put s" "g_sent (pc_at p s) = g_sent s"
  "g_done (pc_at p s) = g_done s"
  by (simp_all add: pc_at_def)

lemma w_at_simps [simp]:
  "g_pacer (w_at w pc s) = g_pacer s" "g_clock (w_at w pc s) = g_clock s" "g_stop (w_at w pc s) = g_stop s"
  "g_queue (w_at w pc s) = g_queue s" "g_next (w_at w pc s) = g_next s" "g_fails (w_at w pc s) = g_fails s"
  "g_abort (w_at w pc s) = g_abort s" "g_results (w_at w pc s) = g_results s" "g_active (w_at w pc s) = g_active s"
  "g_workers (w_at w pc s) = (g_workers s)[w := pc]" "g_metrics (w_at w pc s) = g_metrics s"
  "g_templates (w_at w pc s) = g_templates s" "g_put (w_at w pc s) = g_put s" "g_sent (w_at w pc s) = g_sent s"
  "g_done (w_at w pc s) = g_done s"
  by (simp_all add: w_at_def)

lemma result_update_simps [simp]:
  "g_pacer (result_update i f s) = g_pacer s" "g_clock (result_update i f s) = g_clock s"
  "g_stop (result_update i f s) = g_stop s" "g_queue (result_update i f s) = g_queue s"
  "g_next (result_update i f s) = g_next s" "g_fails (result_update i f s) = g_fails s"
  "g_abort (result_update i f s) = g_abort s" "g_active (result_update i f s) = g_active s"
  "g_workers (result_update i f s) = g_workers s" "g_metrics (result_update i f s) = g_metrics s"
  "g_templates (result_update i f s) = g_templates s" "g_put (result_update i f s) = g_put s"
  "g_sent (result_update i f s) = g_sent s" "g_done (result_update i f s) = g_done s"
  "length (g_results (result_update i f s)) = length (g_results s)"
  by (simp_all add: result_update_def)

lemma active_update_simps [simp]:
  "g_pacer (active_update f s) = g_pacer s" "g_clock (active_update f s) = g_clock s"
  "g_stop (active_update f s) = g_stop s" "g_queue (active_update f s) = g_queue s"
  "g_next (active_update f s) = g_next s" "g_fails (active_update f s) = g_fails s"
  "g_abort (active_update f s) = g_abort s" "g_active (active_update f s) = g_active s"
  "g_workers (active_update f s) = g_workers s" "g_metrics (active_update f s) = g_metrics s"
  "g_templates (active_update f s) = g_templates s" "g_put (active_update f s) = g_put s"
  "g_sent (active_update f s) = g_sent s" "g_done (active_update f s) = g_done s"
  "length (g_results (active_update f s)) = length (g_results s)"
  by (simp_all add: active_update_def split: option.split)

lemmas main_defs = begin_step_def drain_from_def call_stop_def Let_def

declare pacer_step.simps [simp del] worker_step.simps [simp del]

end
