(* ===== verification/TextOps.thy ===== *)
theory TextOps
  imports PyVal
begin

text \<open>
  The string methods of Python that the monitoring scripts parse text with: splitting at white
  space and at a character, lines, partition, prefixes, search and count of a substring, on ASCII.
\<close>

definition starts_with :: "string \<Rightarrow> string \<Rightarrow> bool" where
  \<comment> \<open>\<open>s.startswith(p)\<close>\<close>
  "starts_with p s = (take (length p) s = p)"

definition starts_with_any :: "string list \<Rightarrow> string \<Rightarrow> bool" where
  "starts_with_any ps s = list_ex (\<lambda>p. starts_with p s) ps"

fun split_on :: "char \<Rightarrow> string \<Rightarrow> string list" where
  \<comment> \<open>\<open>s.split(c)\<close>\<close>
  "split_on c [] = [[]]"
| "split_on c (x # xs) =
     (if x = c then [] # split_on c xs else (case split_on c xs of [] \<Rightarrow> [[x]] | y # ys \<Rightarrow> (x # y) # ys))"

definition not_space :: "char \<Rightarrow> bool" where
  "not_space c = (\<not> is_space c)"

function words_of :: "string \<Rightarrow> string list" where
  \<comment> \<open>\<open>s.split()\<close>\<close>
  "words_of s =
     (let t = dropWhile is_space s in if t = [] then [] else takeWhile not_space t # words_of (dropWhile not_space t))"
  by pat_completeness auto
termination
proof (relation "measure length")
  fix s t :: string
  assume t: "t = dropWhile is_space s" "t \<noteq> []"
  then have "not_space (hd t)" using hd_dropWhile [of is_space s] by (auto simp: not_space_def)
  with t(2) have "dropWhile not_space t = dropWhile not_space (tl t)" by (cases t) auto
  then have "length (dropWhile not_space t) \<le> length (tl t)" using length_dropWhile_le by metis
  also have "\<dots> < length t" using t(2) by simp
  also have "\<dots> \<le> length s" using length_dropWhile_le [of is_space s] t(1) by simp
  finally show "(dropWhile not_space t, s) \<in> measure length" by simp
qed simp

declare words_of.simps [simp del]

definition newline :: char where
  "newline = CHR 0x0A"

text \<open>The signs outside ASCII that the reports and dashboards print, in UTF-8.\<close>

definition em_dash :: string where "em_dash = [CHR 0xE2, CHR 0x80, CHR 0x94]"
definition en_dash :: string where "en_dash = [CHR 0xE2, CHR 0x80, CHR 0x93]"
definition at_least :: string where "at_least = [CHR 0xE2, CHR 0x89, CHR 0xA5]"
definition arrow_right :: string where "arrow_right = [CHR 0xE2, CHR 0x86, CHR 0x92]"
definition warning_sign :: string where "warning_sign = [CHR 0xE2, CHR 0x9A, CHR 0xA0]"

definition lines_of :: "string \<Rightarrow> string list" where
  \<comment> \<open>\<open>s.splitlines()\<close>: the kernel and the commands end lines with a newline only\<close>
  "lines_of s =
     (let ls = split_on newline s in if last ls = [] then butlast ls else ls)"

definition partition_at :: "char \<Rightarrow> string \<Rightarrow> string \<times> string" where
  \<comment> \<open>\<open>s.partition(c)\<close> without the separator: the second part is empty when it is missing\<close>
  "partition_at c s = (takeWhile (\<lambda>x. x \<noteq> c) s, drop 1 (dropWhile (\<lambda>x. x \<noteq> c) s))"

fun count_text :: "string \<Rightarrow> nat \<Rightarrow> string \<Rightarrow> nat" where
  \<comment> \<open>\<open>s.count(p)\<close>: occurrences that do not overlap; \<open>skip\<close> characters belong to the last one\<close>
  "count_text p skip [] = 0"
| "count_text p 0 (c # cs) =
     (if p \<noteq> [] \<and> take (length p) (c # cs) = p then Suc (count_text p (length p - 1) cs) else count_text p 0 cs)"
| "count_text p (Suc n) (c # cs) = count_text p n cs"

definition all_digits :: "string \<Rightarrow> bool" where
  \<comment> \<open>\<open>s.isdigit()\<close>\<close>
  "all_digits s = (s \<noteq> [] \<and> list_all is_digit s)"

definition to_int :: "string \<Rightarrow> pyexn + int" where
  \<comment> \<open>\<open>int(s)\<close>\<close>
  "to_int s = (case parse_int s of None \<Rightarrow> Inl ValueError | Some i \<Rightarrow> Inr i)"

definition at_index :: "'a list \<Rightarrow> nat \<Rightarrow> pyexn + 'a" where
  \<comment> \<open>\<open>xs[i]\<close>\<close>
  "at_index xs i = (if i < length xs then Inr (xs ! i) else Inl IndexError)"

definition int_field :: "string list \<Rightarrow> nat \<Rightarrow> pyexn + int" where
  "int_field f i = ebind (at_index f i) to_int"

section \<open>Facts\<close>

lemma split_on_nonempty [simp]: "split_on c s \<noteq> []"
  by (cases s) (auto split: list.split)

lemma split_on_append: "split_on c (p @ c # q) = split_on c p @ split_on c q"
proof (induction p)
  case (Cons x p)
  then show ?case using split_on_nonempty [of c p] by (auto split: list.splits)
qed simp

lemma split_on_none: "c \<notin> set s \<Longrightarrow> split_on c s = [s]"
  by (induction s) auto

end
