(* ===== verification/GenMain.thy ===== *)
theory GenMain
  imports Config Metrics Payload AiTxn Otlp LoadGen TextOps
begin

text \<open>
  \<open>generator/src/main.py\<close>: one run from its arguments to its exit code. What the process does to
  the world is a list of effects, in order; a run that raises has the effects up to there. The
  load engine, the metrics and the signal handler are a driver, a record of functions over a
  state of any type: \<open>EndToEnd\<close> instantiates it with the engine of \<open>LoadGen\<close>. What
  the host answers (clock, names, \<open>git\<close>, \<open>chronyc\<close>, environment, whether the channel becomes
  ready) is the record \<open>host\<close>. Parsing the command line, logging and printing are left out.
\<close>

section \<open>Effects\<close>

datatype effect =
    MakeDir string
  | WriteJson string pydict
  | OpenSeries string
  | OpenChannel
  | CloseChannel
  | StartSampler
  | StopSampler
  | StartEngine
  | StopEngine

type_synonym 'a io = "effect list \<times> (pyexn + 'a)"

definition io_ret :: "'a \<Rightarrow> 'a io" where
  "io_ret x = ([], Inr x)"

definition io_lift :: "pyexn + 'a \<Rightarrow> 'a io" where
  "io_lift r = ([], r)"

definition io_do :: "effect \<Rightarrow> unit io" where
  "io_do e = ([e], Inr ())"

definition io_bind :: "'a io \<Rightarrow> ('a \<Rightarrow> 'b io) \<Rightarrow> 'b io" where
  "io_bind m k =
     (case snd m of Inl e \<Rightarrow> (fst m, Inl e) | Inr x \<Rightarrow> (fst m @ fst (k x), snd (k x)))"

definition io_then :: "'a io \<Rightarrow> effect list \<Rightarrow> 'a io" where
  \<comment> \<open>\<open>try: m finally: es\<close>\<close>
  "io_then m es = (fst m @ es, snd m)"

section \<open>What the program is given\<close>

record args =
  ar_profile :: string
  ar_test_id :: "string option"
  ar_results :: "string option"
  ar_rps :: pyval
  ar_duration :: pyval
  ar_workers :: pyval
  ar_channels :: pyval
  ar_batch :: pyval
  ar_inflight :: pyval
  ar_retry :: pyval
  ar_dry :: bool

definition overrides_of :: "args \<Rightarrow> pydict" where
  "overrides_of a =
     [(KStr ''target_rps'', ar_rps a), (KStr ''duration_seconds'', ar_duration a), (KStr ''workers'', ar_workers a),
      (KStr ''channels'', ar_channels a), (KStr ''batch_size'', ar_batch a), (KStr ''max_inflight'', ar_inflight a),
      (KStr ''retry_mode'', ar_retry a)]"

record host =
  hs_id_stamp :: string
  hs_utc :: string
  hs_argv :: "string list"
  hs_facts :: pydict
  hs_chrony :: "string list option"
  hs_git :: "string option"
  hs_env :: env
  hs_ready :: bool

definition first_word :: "string \<Rightarrow> string option" where
  \<comment> \<open>\<open>s.split()[0]\<close>\<close>
  "first_word s = (let u = dropWhile is_space s in if u = [] then None else Some (takeWhile (\<lambda>c. \<not> is_space c) u))"

definition second_field :: "string \<Rightarrow> string option" where
  \<comment> \<open>\<open>s.split(':')[1]\<close>\<close>
  "second_field s =
     (case dropWhile (\<lambda>c. c \<noteq> CHR '':'') s of [] \<Rightarrow> None | c # r \<Rightarrow> Some (takeWhile (\<lambda>c. c \<noteq> CHR '':'') r))"

fun fabs :: "pyfloat \<Rightarrow> pyfloat" where
  "fabs (Fin x) = Fin \<bar>x\<bar>" | "fabs NegInf = PosInf" | "fabs f = f"

definition offset_of_line :: "string \<Rightarrow> pyfloat option" where
  "offset_of_line line =
     Option.bind (second_field line) (\<lambda>f. Option.bind (first_word f) (\<lambda>w.
       map_option (\<lambda>x. fmul (fabs x) (Fin 1000)) (parse_float w)))"

definition clock_offset_ms :: "string list option \<Rightarrow> pyfloat option" where
  \<comment> \<open>the lines \<open>chronyc tracking\<close> printed, if it ran; anything that raises ends as \<open>None\<close>\<close>
  "clock_offset_ms out =
     (case out of None \<Rightarrow> None
      | Some ls \<Rightarrow> (case filter (starts_with ''Last offset'') ls of [] \<Rightarrow> None | l # _ \<Rightarrow> offset_of_line l))"

definition git_commit :: "string option \<Rightarrow> string" where
  "git_commit out = (case out of None \<Rightarrow> ''unknown'' | Some s \<Rightarrow> strip s)"

section \<open>Metadata\<close>

definition opt_float :: "pyfloat option \<Rightarrow> pyval" where
  "opt_float f = (case f of None \<Rightarrow> PNone | Some x \<Rightarrow> PFloat x)"

definition retry_text :: "retry_mode \<Rightarrow> string" where
  "retry_text r = (case r of RetryNone \<Rightarrow> ''none'' | RetryPolite \<Rightarrow> ''polite'')"

definition workload_dict :: "workload \<Rightarrow> pydict" where
  "workload_dict w =
     [(KStr ''target_rps'', PFloat (wl_target_rps w)), (KStr ''duration_seconds'', PFloat (wl_duration w)),
      (KStr ''ramp_up_seconds'', PFloat (wl_ramp_up w)), (KStr ''ramp_down_seconds'', PFloat (wl_ramp_down w)),
      (KStr ''workers'', PInt (wl_workers w)), (KStr ''channels'', PInt (wl_channels w)),
      (KStr ''batch_size'', PInt (wl_batch w)), (KStr ''max_inflight'', PInt (wl_max_inflight w)),
      (KStr ''retry_mode'', PStr (retry_text (wl_retry w))),
      (KStr ''abort_on_consecutive_failures'', PInt (wl_abort_limit w))]"

definition pipeline_dict :: "pipeline \<Rightarrow> pydict" where
  "pipeline_dict p =
     [(KStr ''max_delay_ms'', PFloat (pl_max_delay_ms p)), (KStr ''min_bucket_size'', PInt (pl_min_bucket p)),
      (KStr ''approx_record_bytes'', PInt (pl_record_bytes p))]"

definition step_dict :: "step \<Rightarrow> pydict" where
  "step_dict s =
     [(KStr ''index'', PInt (st_index s)), (KStr ''rps'', PFloat (st_rps s)),
      (KStr ''duration_seconds'', PFloat (st_duration s))]"

definition target_address :: "target \<Rightarrow> string" where
  "target_address t = tg_host t @ '':'' @ show_int (tg_port t)"

definition env_or :: "env \<Rightarrow> string \<Rightarrow> string \<Rightarrow> string" where
  "env_or env k d = (case env k of None \<Rightarrow> d | Some v \<Rightarrow> v)"

definition collect_metadata ::
  "(rate_warning \<Rightarrow> string) \<Rightarrow> host \<Rightarrow> generator_config \<Rightarrow> string \<Rightarrow> pyexn + pydict" where
  "collect_metadata warn h cfg test_id =
     ebind (as_dict (gc_data cfg)) (\<lambda>data.
     Inr [(KStr ''test_id'', PStr test_id), (KStr ''profile'', PStr (gc_profile cfg)),
          (KStr ''description'', PStr (gc_description cfg)), (KStr ''started_at_utc'', PStr (hs_utc h)),
          (KStr ''argv'', PList (map PStr (hs_argv h))), (KStr ''host'', PDict (hs_facts h)),
          (KStr ''clock'', PDict [(KStr ''max_offset_ms'', opt_float (clock_offset_ms (hs_chrony h))),
                                  (KStr ''source'', PStr ''chrony'')]),
          (KStr ''git_commit'', PStr (git_commit (hs_git h))),
          (KStr ''transport'', PStr (env_or (hs_env h) ''BENCH_TRANSPORT'' ''direct'')),
          (KStr ''transport_note'', PStr (env_or (hs_env h) ''BENCH_TRANSPORT_NOTE'' [])),
          (KStr ''target'', PDict [(KStr ''address'', PStr (target_address (gc_target cfg))),
                                   (KStr ''tls'', PBool (tg_tls (gc_target cfg))),
                                   (KStr ''rpc_timeout_seconds'', PFloat (tg_rpc_timeout (gc_target cfg)))]),
          (KStr ''auth'', PDict [(KStr ''ingestion_queue'', PStr (au_queue (gc_auth cfg))),
                                 (KStr ''subject'', PStr (au_subject (gc_auth cfg)))]),
          (KStr ''workload'', PDict (workload_dict (gc_workload cfg))),
          (KStr ''pipeline_model'', PDict (pipeline_dict (gc_pipeline cfg))),
          (KStr ''reachability_warnings'', PList (map (PStr \<circ> warn) (gc_warnings cfg))),
          (KStr ''steps'', PList (map (PDict \<circ> step_dict) (gc_steps cfg))),
          (KStr ''data'', PDict data)])"

section \<open>Stop rules\<close>

fun has_key :: "string \<Rightarrow> pyval \<Rightarrow> pyexn + bool" where
  \<comment> \<open>\<open>k in v\<close>\<close>
  "has_key k (PDict d) = Inr (dget d k \<noteq> None)"
| "has_key k (PList xs) = Inr (PStr k \<in> set xs)"
| "has_key k (PStr s) = Inr (infix_of k s)"
| "has_key k _ = Inl TypeError"

fun item_of :: "string \<Rightarrow> pyval \<Rightarrow> pyexn + pyval" where
  \<comment> \<open>\<open>v[k]\<close>\<close>
  "item_of k (PDict d) = (case dget d k of None \<Rightarrow> Inl KeyError | Some v \<Rightarrow> Inr v)"
| "item_of k _ = Inl TypeError"

definition stop_rule :: "string \<Rightarrow> bool \<Rightarrow> (pyfloat \<Rightarrow> bool) \<Rightarrow> pyval \<Rightarrow> pyexn + bool" where
  \<comment> \<open>\<open>if k in rules and active: if hit(float(rules[k])): return True\<close>\<close>
  "stop_rule k active hit rules =
     ebind (has_key k rules) (\<lambda>b.
     if b \<and> active then ebind (item_of k rules) (\<lambda>v. ebind (py_float v) (\<lambda>limit. Inr (hit limit))) else Inr False)"

definition or_else :: "pyexn + bool \<Rightarrow> pyexn + bool \<Rightarrow> pyexn + bool" where
  "or_else a b = ebind a (\<lambda>x. if x then Inr True else b)"

definition should_stop :: "pyval \<Rightarrow> step_result \<Rightarrow> rat \<Rightarrow> pyexn + bool" where
  \<comment> \<open>\<open>p99\<close> is the whole run's, from \<open>metrics.snapshot()\<close>\<close>
  "should_stop rules r p99 =
     (if \<not> truthy rules then Inr False
      else or_else (stop_rule ''accepted_ratio_below'' (sr_offered r \<noteq> 0) (\<lambda>f. flt (Fin (accepted_ratio r)) f) rules)
          (or_else (stop_rule ''error_rate_above'' (sr_requests r \<noteq> 0)
                     (\<lambda>f. flt f (Fin (of_int (sr_failures r) / of_int (sr_requests r)))) rules)
                   (stop_rule ''latency_p99_ms_above'' True (\<lambda>f. flt f (Fin p99)) rules)))"

definition int_or_none :: "pyval \<Rightarrow> pyexn + int option" where
  "int_or_none v =
     (case py_int v of Inl TypeError \<Rightarrow> Inr None | Inl ValueError \<Rightarrow> Inr None | Inl e \<Rightarrow> Inl e | Inr i \<Rightarrow> Inr (Some i))"

section \<open>The run\<close>

datatype pool = Generic factory | Customers ai_factory

definition pool_gen_id :: "pool \<Rightarrow> string" where
  "pool_gen_id p = (case p of Generic f \<Rightarrow> pf_gen_id f | Customers f \<Rightarrow> af_gen_id f)"

definition pool_describe :: "pool \<Rightarrow> pyexn + pydict" where
  "pool_describe p = (case p of Generic f \<Rightarrow> describe f | Customers f \<Rightarrow> describe_ai f)"

definition pool_view :: "pool \<Rightarrow> factory" where
  \<comment> \<open>what the engine reads of either factory: they have the same interface\<close>
  "pool_view p =
     (case p of
        Generic f \<Rightarrow> f
      | Customers f \<Rightarrow>
          \<lparr>pf_gen_id = af_gen_id f, pf_batch = af_batch f, pf_data = af_data f, pf_seed = af_seed f,
           pf_workers = af_workers f, pf_variants = af_variants f,
           pf_templates = map (\<lambda>t. \<lparr>tp_request = at_request t, tp_seq_values = [], tp_count = at_count t,
                                    tp_bytes = at_bytes t\<rparr>) (af_templates f)\<rparr>)"

record makers =
  \<comment> \<open>the two factories, with the generator, \<open>ByteSize\<close> and the fresh UUID they use\<close>
  mk_generic :: "pyval \<Rightarrow> int \<Rightarrow> int \<Rightarrow> pyexn + factory"
  mk_customers :: "pyval \<Rightarrow> int \<Rightarrow> int \<Rightarrow> int \<Rightarrow> pyexn + ai_factory"

record 'w driver =
  \<comment> \<open>\<open>Metrics\<close> and \<open>LoadGenerator\<close> of a run, over the state \<open>'w\<close>\<close>
  dv_start :: "generator_config \<Rightarrow> factory \<Rightarrow> pyfloat \<Rightarrow> bool \<Rightarrow> pyexn + 'w"
  dv_interrupted :: "'w \<Rightarrow> bool"
  dv_run_step :: "'w \<Rightarrow> step \<Rightarrow> (pyexn + step_result) \<times> 'w"
  dv_p99 :: "'w \<Rightarrow> rat"
  dv_stop :: "'w \<Rightarrow> 'w"
  dv_totals :: "'w \<Rightarrow> totals"
  dv_totals_json :: "'w \<Rightarrow> pydict"
  dv_step_json :: "step_result \<Rightarrow> pydict"
  dv_abort :: "'w \<Rightarrow> (int \<times> string \<times> string) option"
  dv_window :: "'w \<Rightarrow> rat \<times> rat"
  dv_time :: "rat \<Rightarrow> string"

fun run_plan :: "'w driver \<Rightarrow> pyval \<Rightarrow> step list \<Rightarrow> 'w \<Rightarrow> (pyexn + step_result list) \<times> 'w" where
  "run_plan d rules [] w = (Inr [], w)"
| "run_plan d rules (st # rest) w =
     (if dv_interrupted d w then (Inr [], w)
      else case dv_run_step d w st of
          (Inl e, w1) \<Rightarrow> (Inl e, w1)
        | (Inr r, w1) \<Rightarrow>
            (case should_stop rules r (dv_p99 d w1) of
               Inl e \<Rightarrow> (Inl e, w1)
             | Inr True \<Rightarrow> (Inr [r], w1)
             | Inr False \<Rightarrow> map_prod (map_sum id (Cons r)) id (run_plan d rules rest w1)))"

definition counts_dict :: "(string \<times> int) list \<Rightarrow> pydict" where
  "counts_dict cs = map (\<lambda>(k, n). (KStr k, PInt n)) cs"

definition manifest_of ::
  "'w driver \<Rightarrow> generator_config \<Rightarrow> string \<Rightarrow> string \<Rightarrow> pydict \<Rightarrow> step_result list \<Rightarrow> 'w \<Rightarrow> pydict" where
  "manifest_of d cfg test_id gen_id metadata rs w =
     (let t = dv_totals d w; (t0, t1) = dv_window d w
      in [(KStr ''test_id'', PStr test_id), (KStr ''profile'', PStr (gc_profile cfg)),
          (KStr ''generators'', PList [PDict
             [(KStr ''gen_id'', PStr gen_id),
              (KStr ''seq_min'', PInt (if rs = [] then 0 else sr_seq_start (hd rs))),
              (KStr ''seq_max'', PInt (if rs = [] then - 1 else sr_seq_end (last rs)))]]),
          (KStr ''total_offered'', PInt (records_offered t)), (KStr ''total_accepted'', PInt (records_accepted t)),
          (KStr ''total_rejected'', PInt (records_rejected t)), (KStr ''requests_sent'', PInt (requests_sent t)),
          (KStr ''requests_failed'', PInt (requests_failed t)),
          (KStr ''errors_by_code'', PDict (counts_dict (errors_by_code t))),
          (KStr ''retry_mode'', PStr (retry_text (wl_retry (gc_workload cfg)))),
          (KStr ''started_at_utc'', PStr (dv_time d t0)), (KStr ''ended_at_utc'', PStr (dv_time d t1)),
          (KStr ''started_at_epoch'', num t0), (KStr ''ended_at_epoch'', num t1),
          (KStr ''config_echo'', PDict metadata),
          (KStr ''accounting_note'', PStr (''total_offered is what this process attempted. total_accepted is what ''
             @ ''the collector acked. They are different quantities; only accepted, ''
             @ ''held with a flat backlog, is throughput.''))])"

definition report_of ::
  "'w driver \<Rightarrow> (int \<times> string \<times> string \<Rightarrow> string) \<Rightarrow> generator_config \<Rightarrow> string \<Rightarrow> step_result list \<Rightarrow> 'w \<Rightarrow> pydict" where
  "report_of d reason cfg test_id rs w =
     [(KStr ''test_id'', PStr test_id), (KStr ''profile'', PStr (gc_profile cfg)),
      (KStr ''totals'', PDict (dv_totals_json d w)), (KStr ''steps'', PList (map (PDict \<circ> dv_step_json d) rs)),
      (KStr ''abort_reason'', (case dv_abort d w of None \<Rightarrow> PNone | Some a \<Rightarrow> PStr (reason a))),
      (KStr ''interrupted'', PBool (dv_interrupted d w))]"

definition path_join :: "string \<Rightarrow> string \<Rightarrow> string" where
  "path_join a b =
     (if starts_with ''/'' b then b else if a = [] \<or> last a = CHR ''/'' then a @ b else a @ ''/'' @ b)"

fun as_path :: "pyval \<Rightarrow> pyexn + string" where
  "as_path (PStr s) = Inr s" | "as_path _ = Inl TypeError"

definition base_results :: "args \<Rightarrow> generator_config \<Rightarrow> pyexn + string" where
  "base_results a cfg =
     (case ar_results a of
        Some (c # s) \<Rightarrow> Inr (c # s)
      | _ \<Rightarrow> ebind (as_dict (gc_output cfg)) (\<lambda>out.
               as_path (py_or (dget_or out ''results_dir'' PNone) (PStr ''results''))))"

definition test_id_of :: "args \<Rightarrow> host \<Rightarrow> generator_config \<Rightarrow> string" where
  "test_id_of a h cfg =
     (case ar_test_id a of Some (c # s) \<Rightarrow> c # s | _ \<Rightarrow> hs_id_stamp h @ ''-'' @ gc_profile cfg)"

definition choose_pool ::
  "(pyval \<Rightarrow> string) \<Rightarrow> makers \<Rightarrow> generator_config \<Rightarrow> pyexn + (int + pool)" where
  \<comment> \<open>the payload for the configured schema, or the exit code of a refusal\<close>
  "choose_pool rend mk cfg =
     (let w = gc_workload cfg
      in ebind (as_dict (py_or (gc_data cfg) (PDict []))) (\<lambda>data.
         if to_lower (py_str rend (dget_or data ''schema'' (PStr ''logs''))) = ''ai_txn''
         then ebind (py_int (dget_or data ''customers'' (PInt 100))) (\<lambda>customers.
              ebind (mk_customers mk (gc_data cfg) (wl_batch w) (wl_workers w) customers) (\<lambda>f.
              if coverage_warning f \<noteq> None then Inr (Inl 5)
              else ebind (oversize_error f) (\<lambda>over.
                   if over \<noteq> None then Inr (Inl 6) else Inr (Inr (Customers f)))))
         else ebind (mk_generic mk (gc_data cfg) (wl_batch w) (wl_workers w)) (\<lambda>f. Inr (Inr (Generic f)))))"

definition drive ::
  "'w driver \<Rightarrow> (int \<times> string \<times> string \<Rightarrow> string) \<Rightarrow> generator_config \<Rightarrow> string \<Rightarrow> string \<Rightarrow> string \<Rightarrow> pydict
   \<Rightarrow> 'w \<Rightarrow> int io" where
  \<comment> \<open>from \<open>engine.start()\<close> to the exit code\<close>
  "drive d reason cfg test_id run_dir gen_id metadata w =
     io_bind (io_do StartEngine) (\<lambda>_.
     let (rs, w1) = run_plan d (gc_stop_when cfg) (gc_steps cfg) w; w2 = dv_stop d w1
     in io_bind (io_then (io_lift rs) [StopEngine, StopSampler, CloseChannel]) (\<lambda>rs.
        io_bind (io_do (WriteJson (path_join run_dir ''generator.json'') (report_of d reason cfg test_id rs w2))) (\<lambda>_.
        io_bind (io_do (WriteJson (path_join run_dir ''manifest.json'')
                   (manifest_of d cfg test_id gen_id metadata rs w2))) (\<lambda>_.
        io_ret (if dv_abort d w2 \<noteq> None then 5 else 0)))))"

definition with_channel ::
  "(pyval \<Rightarrow> string) \<Rightarrow> makers \<Rightarrow> 'w driver \<Rightarrow> (int \<times> string \<times> string \<Rightarrow> string) \<Rightarrow> args \<Rightarrow> generator_config
   \<Rightarrow> string \<Rightarrow> string \<Rightarrow> pydict \<Rightarrow> int io" where
  \<comment> \<open>from the channel being ready to the exit code\<close>
  "with_channel rend mk d reason a cfg test_id run_dir metadata =
     io_bind (io_lift (choose_pool rend mk cfg)) (\<lambda>choice.
     case choice of
       Inl code \<Rightarrow> io_bind (io_do CloseChannel) (\<lambda>_. io_ret code)
     | Inr p \<Rightarrow>
         io_bind (io_lift (pool_describe p)) (\<lambda>_.
         if ar_dry a then io_bind (io_do CloseChannel) (\<lambda>_. io_ret 0)
         else io_bind (io_lift (ebind (as_dict (gc_output cfg)) (\<lambda>out.
                ebind (py_float (dget_or out ''sample_interval_seconds'' (PInt 1))) (\<lambda>interval.
                ebind (int_or_none (dget_or out ''metrics_port'' PNone)) (\<lambda>port. Inr (interval, port)))))) (\<lambda>(interval, port).
              io_bind (io_do (OpenSeries run_dir)) (\<lambda>_.
              io_bind (io_do StartSampler) (\<lambda>_.
              io_bind (io_lift (dv_start d cfg (pool_view p) interval (port \<noteq> None \<and> port \<noteq> Some 0))) (\<lambda>w.
              drive d reason cfg test_id run_dir (pool_gen_id p) metadata w))))))"

definition main ::
  "env \<Rightarrow> (pyval \<Rightarrow> string) \<Rightarrow> (rate_warning \<Rightarrow> string) \<Rightarrow> (int \<times> string \<times> string \<Rightarrow> string)
   \<Rightarrow> makers \<Rightarrow> 'w driver \<Rightarrow> host \<Rightarrow> pyval \<Rightarrow> args \<Rightarrow> int io" where
  "main env rend warn reason mk d h yaml a =
     (case load env rend yaml (ar_profile a) (overrides_of a) of
        Inl (ConfigError p) \<Rightarrow> io_ret 2
      | Inl e \<Rightarrow> io_lift (Inl e)
      | Inr cfg \<Rightarrow>
          io_bind (io_lift (base_results a cfg)) (\<lambda>base.
          let test_id = test_id_of a h cfg; run_dir = path_join base test_id
          in io_bind
               (if ar_dry a then io_ret []
                else io_bind (io_do (MakeDir run_dir)) (\<lambda>_.
                     io_bind (io_lift (collect_metadata warn h cfg test_id)) (\<lambda>md.
                     io_bind (io_do (WriteJson (path_join run_dir ''metadata.json'') md)) (\<lambda>_. io_ret md)))) (\<lambda>metadata.
             io_bind (io_lift (new_token_source (au_secret_b64 (gc_auth cfg)) (au_queue (gc_auth cfg))
                                 (au_subject (gc_auth cfg)) (au_ttl (gc_auth cfg)))) (\<lambda>_.
             io_bind (io_do OpenChannel) (\<lambda>_.
             if \<not> hs_ready h then io_bind (io_do CloseChannel) (\<lambda>_. io_ret 4)
             else with_channel rend mk d reason a cfg test_id run_dir metadata)))))"

section \<open>What a run does to the world\<close>

lemma io_simps [simp]:
  "io_bind (io_ret x) k = k x"
  "io_bind (io_lift (Inl e)) k = ([], Inl e)"
  "io_bind (io_lift (Inr x)) k = k x"
  "fst (io_bind (io_do ef) h) = ef # fst (h ())"
  "snd (io_bind (io_do ef) h) = snd (h ())"
  "fst (io_ret x) = []" "snd (io_ret x) = Inr x"
  "fst (io_lift r) = []" "snd (io_lift r) = r"
  "fst (io_then m es) = fst m @ es" "snd (io_then m es) = snd m"
  by (simp_all add: io_bind_def io_ret_def io_lift_def io_do_def io_then_def)

lemma io_bind_fst: "fst (io_bind m k) = fst m @ (case snd m of Inl e \<Rightarrow> [] | Inr x \<Rightarrow> fst (k x))"
  by (simp add: io_bind_def split: sum.split)

lemma io_bind_Inr: "snd (io_bind m k) = Inr y \<longleftrightarrow> (\<exists>x. snd m = Inr x \<and> snd (k x) = Inr y)"
  by (simp add: io_bind_def split: sum.split)

lemma io_bind_lift_Inr: "snd m = Inr x \<Longrightarrow> io_bind m k = (fst m @ fst (k x), snd (k x))"
  by (simp add: io_bind_def)

definition quiet :: "'a io \<Rightarrow> bool" where
  "quiet m = (set (fst m) \<subseteq> {OpenChannel, CloseChannel})"

lemma quiet_simps [simp]:
  "quiet (io_ret x)" "quiet (io_lift r)" "quiet (io_do OpenChannel)" "quiet (io_do CloseChannel)"
  by (simp_all add: quiet_def io_do_def)

lemma quiet_bind: "quiet m \<Longrightarrow> (\<And>x. snd m = Inr x \<Longrightarrow> quiet (k x)) \<Longrightarrow> quiet (io_bind m k)"
  unfolding quiet_def io_bind_def by (cases "snd m") auto

lemma dry_channel_quiet: "ar_dry a \<Longrightarrow> quiet (with_channel rend mk d reason a cfg test_id run_dir md)"
  unfolding with_channel_def by (auto intro!: quiet_bind split: sum.split)

text \<open>C9: a dry run leaves no trace. Whatever the configuration, the host and the engine, a
  run with \<open>--dry-run\<close> only opens and closes the channel: no directory, no file, no sampler, no
  engine.\<close>

theorem dry_run_leaves_no_trace:
  "set (fst (main env rend warn reason mk d h yaml (a\<lparr>ar_dry := True\<rparr>))) \<subseteq> {OpenChannel, CloseChannel}"
proof -
  have "quiet (main env rend warn reason mk d h yaml (a\<lparr>ar_dry := True\<rparr>))"
    unfolding main_def Let_def
    by (auto intro!: quiet_bind dry_channel_quiet split: sum.split pyexn.split)
  then show ?thesis by (simp add: quiet_def)
qed

section \<open>Exit codes\<close>

definition matched :: "effect list \<Rightarrow> bool" where
  "matched es =
     (count_list es OpenChannel = count_list es CloseChannel
      \<and> count_list es StartSampler = count_list es StopSampler
      \<and> count_list es StartEngine = count_list es StopEngine)"

lemma drive_eq:
  "run_plan d (gc_stop_when cfg) (gc_steps cfg) w = (Inr rs, w1) \<Longrightarrow>
   drive d reason cfg test_id run_dir gen_id md w =
     ([StartEngine, StopEngine, StopSampler, CloseChannel,
       WriteJson (path_join run_dir ''generator.json'') (report_of d reason cfg test_id rs (dv_stop d w1)),
       WriteJson (path_join run_dir ''manifest.json'') (manifest_of d cfg test_id gen_id md rs (dv_stop d w1))],
      Inr (if dv_abort d (dv_stop d w1) \<noteq> None then 5 else 0))"
  "run_plan d (gc_stop_when cfg) (gc_steps cfg) w = (Inl e, w1) \<Longrightarrow>
   drive d reason cfg test_id run_dir gen_id md w = ([StartEngine, StopEngine, StopSampler, CloseChannel], Inl e)"
  by (simp_all add: drive_def Let_def io_bind_def io_do_def io_then_def io_lift_def io_ret_def)

lemma drive_Inr:
  assumes "snd (drive d reason cfg test_id run_dir gen_id md w) = Inr c"
  obtains rs w1 where "run_plan d (gc_stop_when cfg) (gc_steps cfg) w = (Inr rs, w1)"
proof (cases "run_plan d (gc_stop_when cfg) (gc_steps cfg) w")
  case (Pair r w1)
  then show ?thesis using assms that by (cases r) (simp_all add: drive_eq)
qed

text \<open>The ways a run can go once the configuration is loaded and the channel is ready.\<close>

lemma with_channel_cases:
  assumes "snd (with_channel rend mk d reason a cfg test_id run_dir md) = Inr c"
  obtains
    (refused) "choose_pool rend mk cfg = Inr (Inl c)"
      "fst (with_channel rend mk d reason a cfg test_id run_dir md) = [CloseChannel]"
  | (dry) "ar_dry a" "c = 0"
      "fst (with_channel rend mk d reason a cfg test_id run_dir md) = [CloseChannel]"
  | (driven) p i port w rs w1 where "\<not> ar_dry a" "choose_pool rend mk cfg = Inr (Inr p)"
      "dv_start d cfg (pool_view p) i port = Inr w"
      "run_plan d (gc_stop_when cfg) (gc_steps cfg) w = (Inr rs, w1)"
      "fst (with_channel rend mk d reason a cfg test_id run_dir md)
         = OpenSeries run_dir # StartSampler # fst (drive d reason cfg test_id run_dir (pool_gen_id p) md w)"
      "c = (if dv_abort d (dv_stop d w1) \<noteq> None then 5 else 0)"
proof -
  from assms obtain choice where choice: "choose_pool rend mk cfg = Inr choice"
    by (cases "choose_pool rend mk cfg") (simp_all add: with_channel_def)
  show ?thesis
  proof (cases choice)
    case (Inl code)
    with assms choice refused show ?thesis by (simp add: with_channel_def)
  next
    case (Inr p)
    show ?thesis
    proof (cases "ar_dry a")
      case True
      with assms choice Inr dry show ?thesis by (cases "pool_describe p") (simp_all add: with_channel_def)
    next
      case False
      let ?settings = "ebind (as_dict (gc_output cfg)) (\<lambda>out.
          ebind (py_float (dget_or out ''sample_interval_seconds'' (PInt 1))) (\<lambda>interval.
          ebind (int_or_none (dget_or out ''metrics_port'' PNone)) (\<lambda>port. Inr (interval, port))))"
      from assms choice Inr False obtain pd where pd: "pool_describe p = Inr pd"
        by (cases "pool_describe p") (simp_all add: with_channel_def)
      from assms choice Inr False pd obtain i port where s: "?settings = Inr (i, port)"
        by (cases ?settings) (auto simp: with_channel_def)
      from assms choice Inr False pd s obtain w where w:
        "dv_start d cfg (pool_view p) i (port \<noteq> None \<and> port \<noteq> Some 0) = Inr w"
        by (cases "dv_start d cfg (pool_view p) i (port \<noteq> None \<and> port \<noteq> Some 0)") (auto simp: with_channel_def)
      have eq: "with_channel rend mk d reason a cfg test_id run_dir md =
          (OpenSeries run_dir # StartSampler # fst (drive d reason cfg test_id run_dir (pool_gen_id p) md w),
           snd (drive d reason cfg test_id run_dir (pool_gen_id p) md w))"
        unfolding with_channel_def choice Inr sum.case pd io_simps(3) s prod.case w
        by (rule prod_eqI) (simp_all add: False w del: not_None_eq ebind_eq_Inr)
      with assms obtain rs w1 where rs: "run_plan d (gc_stop_when cfg) (gc_steps cfg) w = (Inr rs, w1)"
        using drive_Inr by (metis snd_conv)
      show ?thesis
        by (rule driven [OF False _ w rs]) (use assms eq rs choice Inr in \<open>simp_all add: drive_eq(1)\<close>)
    qed
  qed
qed

lemma choose_pool_codes: "choose_pool rend mk cfg = Inr (Inl c) \<Longrightarrow> c = 5 \<or> c = 6"
  by (auto simp: choose_pool_def Let_def split: if_splits)

definition ends_with_manifest :: "effect list \<Rightarrow> bool" where
  "ends_with_manifest es =
     (\<exists>run_dir m. es \<noteq> [] \<and> last es = WriteJson (path_join run_dir ''manifest.json'') m)"

lemma with_channel_exit:
  assumes "snd (with_channel rend mk d reason a cfg test_id run_dir md) = Inr c"
  defines "es \<equiv> fst (with_channel rend mk d reason a cfg test_id run_dir md)"
  shows "c \<in> {0, 5, 6} \<and> OpenChannel \<notin> set es \<and> count_list es CloseChannel = 1
    \<and> count_list es StartSampler = count_list es StopSampler \<and> count_list es StartEngine = count_list es StopEngine
    \<and> (StartEngine \<in> set es \<longrightarrow> c \<noteq> 6 \<and> ends_with_manifest es) \<and> (c = 0 \<longrightarrow> \<not> ar_dry a \<longrightarrow> StartEngine \<in> set es)"
  using assms(1)
proof (cases rule: with_channel_cases)
  case refused
  then show ?thesis using choose_pool_codes [OF refused(1)] by (auto simp: es_def)
next
  case dry
  then show ?thesis by (simp add: es_def)
next
  case (driven p i port w rs w1)
  then show ?thesis by (auto simp: es_def drive_eq(1) [OF driven(4)] ends_with_manifest_def)
qed

text \<open>What an exit code means. A run that returns a code closed the channel it opened and
  stopped the sampler and the engine it started. The code is 2 exactly for a configuration error;
  an engine that was started ends in 0 or 5 with the manifest as the last thing written; and 0
  without \<open>--dry-run\<close> means that the engine ran. The code 5 does not say whether the engine ran:
  it is also the refusal of a pool that does not cover the customers.\<close>

theorem exit_codes:
  assumes "main env rend warn reason mk d h yaml a = (es, Inr c)"
  shows "c \<in> {0, 2, 4, 5, 6} \<and> matched es
    \<and> (c = 2 \<longleftrightarrow> (\<exists>p. load env rend yaml (ar_profile a) (overrides_of a) = Inl (ConfigError p)))
    \<and> (StartEngine \<in> set es \<longrightarrow> c \<in> {0, 5} \<and> ends_with_manifest es)
    \<and> (c = 0 \<longrightarrow> \<not> ar_dry a \<longrightarrow> StartEngine \<in> set es)"
proof (cases "load env rend yaml (ar_profile a) (overrides_of a)")
  case (Inl e)
  with assms show ?thesis by (cases e) (auto simp: main_def io_ret_def io_lift_def matched_def)
next
  case (Inr cfg)
  from assms Inr obtain base where b: "base_results a cfg = Inr base"
    by (cases "base_results a cfg") (simp_all add: main_def)
  let ?tid = "test_id_of a h cfg"
  from assms Inr b obtain md pre where "(if ar_dry a then io_ret []
      else io_bind (io_do (MakeDir (path_join base ?tid))) (\<lambda>_.
           io_bind (io_lift (collect_metadata warn h cfg ?tid)) (\<lambda>md.
           io_bind (io_do (WriteJson (path_join (path_join base ?tid) ''metadata.json'') md)) (\<lambda>_. io_ret md)))) = (pre, Inr md)"
    and pre: "matched pre" "StartEngine \<notin> set pre"
    by (cases "collect_metadata warn h cfg ?tid")
      (auto simp: main_def Let_def io_bind_def io_do_def io_ret_def io_lift_def matched_def split: if_splits)
  note start = this(1)
  from assms Inr b start obtain ts where ts: "new_token_source (au_secret_b64 (gc_auth cfg)) (au_queue (gc_auth cfg))
      (au_subject (gc_auth cfg)) (au_ttl (gc_auth cfg)) = Inr ts"
    by (cases "new_token_source (au_secret_b64 (gc_auth cfg)) (au_queue (gc_auth cfg))
      (au_subject (gc_auth cfg)) (au_ttl (gc_auth cfg))") (simp_all add: main_def Let_def io_bind_def)
  let ?rest = "with_channel rend mk d reason a cfg ?tid (path_join base ?tid) md"
  have main: "main env rend warn reason mk d h yaml a =
      (if hs_ready h then (pre @ OpenChannel # fst ?rest, snd ?rest) else (pre @ [OpenChannel, CloseChannel], Inr 4))"
    unfolding main_def Inr sum.case b io_simps(3) Let_def start
    by (simp add: io_bind_def [of "(pre, Inr md)"] ts prod_eq_iff)
  show ?thesis
  proof (cases "hs_ready h")
    case False
    with main assms pre Inr show ?thesis by (auto simp: matched_def)
  next
    case True
    with main assms have "snd ?rest = Inr c" "es = pre @ OpenChannel # fst ?rest" by auto
    with with_channel_exit [OF this(1)] pre Inr show ?thesis
      by (auto simp: matched_def ends_with_manifest_def count_notin)
  qed
qed

section \<open>A small run\<close>

definition demo_auth_yaml :: "pyval" where
  "demo_auth_yaml =
     PDict [(KStr ''secret_b64'', PStr (b64encode (replicate 64 7))), (KStr ''ingestion_queue'', PStr ''logs''),
        (KStr ''subject'', PStr ''test''), (KStr ''token_ttl_seconds'', PInt 600)]"

definition demo_run_yaml :: pyval where
  "demo_run_yaml =
     PDict [(KStr ''generator'', PDict (AList.update (KStr ''auth'') demo_auth_yaml (demo_generator (PInt 2)))),
      (KStr ''profiles'', PDict [
         (KStr ''stairs'', PDict [
            (KStr ''stop_when'', PDict [(KStr ''accepted_ratio_below'', PFloat (Fin (1 / 2)))]),
            (KStr ''steps'', PList [
            PDict [(KStr ''rps'', PInt 100), (KStr ''duration_seconds'', PInt 10)],
            PDict [(KStr ''rps'', PInt 200), (KStr ''duration_seconds'', PInt 10)],
            PDict [(KStr ''rps'', PInt 300), (KStr ''duration_seconds'', PInt 10)]])])])]"

definition demo_args :: args where
  "demo_args =
     \<lparr>ar_profile = ''stairs'', ar_test_id = Some ''t1'', ar_results = None, ar_rps = PNone, ar_duration = PNone,
      ar_workers = PNone, ar_channels = PNone, ar_batch = PNone, ar_inflight = PNone, ar_retry = PNone, ar_dry = False\<rparr>"

definition demo_host :: host where
  "demo_host =
     \<lparr>hs_id_stamp = ''s'', hs_utc = ''u'', hs_argv = [], hs_facts = [],
      hs_chrony = Some [''Stratum : 3'', ''Last offset     : -0.000012 seconds''], hs_git = None, hs_env = (\<lambda>_. None),
      hs_ready = True\<rparr>"

definition tiny_pool :: factory where
  "tiny_pool =
     \<lparr>pf_gen_id = ''u'', pf_batch = 10, pf_data = [], pf_seed = 0, pf_workers = 1, pf_variants = 1,
      pf_templates = [\<lparr>tp_request = \<lparr>rq_resource = [], rq_scope = ([], []), rq_records = []\<rparr>,
                       tp_seq_values = [], tp_count = 10, tp_bytes = 100\<rparr>]\<rparr>"

definition demo_makers :: makers where
  "demo_makers = \<lparr>mk_generic = (\<lambda>_ _ _. Inr tiny_pool), mk_customers = (\<lambda>_ _ _ _. Inl ValueError)\<rparr>"

definition demo_result :: "int \<Rightarrow> int \<Rightarrow> step_result" where
  \<comment> \<open>step \<open>k\<close> offers 100 records; one acknowledgement in \<open>k + 1\<close> arrives\<close>
  "demo_result k n =
     \<lparr>sr_index = k, sr_target = 100, sr_duration = 10, sr_started = 0, sr_ended = 10, sr_offered = 100,
      sr_accepted = 100 div (k + 1), sr_rejected = 0, sr_requests = 10, sr_failures = 0, sr_stalled = 0,
      sr_seq_start = n, sr_seq_end = n + 99, sr_errors = []\<rparr>"

definition demo_driver :: "int driver" where
  \<comment> \<open>the state is the next sequence number\<close>
  "demo_driver =
     \<lparr>dv_start = (\<lambda>_ _ _ _. Inr 0), dv_interrupted = (\<lambda>_. False),
      dv_run_step = (\<lambda>n st. (Inr (demo_result (st_index st) n), n + 100)), dv_p99 = (\<lambda>_. 0), dv_stop = id,
      dv_totals = (\<lambda>_. zero_totals), dv_totals_json = (\<lambda>_. []), dv_step_json = (\<lambda>_. []), dv_abort = (\<lambda>_. None),
      dv_window = (\<lambda>_. (0, 30)), dv_time = (\<lambda>_. ''u'')\<rparr>"

definition demo_main :: "int io" where
  "demo_main = main (\<lambda>_. None) (\<lambda>_. []) (\<lambda>_. []) (\<lambda>_. []) demo_makers demo_driver demo_host demo_run_yaml demo_args"

definition demo_cfg :: "generator_config" where
  "demo_cfg = (case load (\<lambda>_. None) (\<lambda>_. []) demo_run_yaml ''stairs'' (overrides_of demo_args) of Inr c \<Rightarrow> c | Inl _ \<Rightarrow> undefined)"

lemma demo_cfg_load: "load (\<lambda>_. None) (\<lambda>_. []) demo_run_yaml ''stairs'' (overrides_of demo_args) = Inr demo_cfg"
proof -
  have "isl (load (\<lambda>_. None) (\<lambda>_. []) demo_run_yaml ''stairs'' (overrides_of demo_args)) = False" by code_simp
  then show ?thesis unfolding demo_cfg_def by (auto simp: isl_def split: sum.split)
qed

lemma demo_cfg_auth:
  "gc_auth demo_cfg = \<lparr>au_secret_b64 = b64encode (replicate 64 7), au_queue = ''logs'', au_subject = ''test'', au_ttl = 600\<rparr>"
  by code_simp

lemma demo_base: "base_results demo_args demo_cfg = Inr ''results''"
  by code_simp

lemma demo_with_channel:
  "snd (with_channel (\<lambda>_. []) demo_makers demo_driver (\<lambda>_. []) demo_args demo_cfg ''t1'' run_dir md) = Inr 0"
  by code_simp

lemma demo_metadata: "\<exists>md. collect_metadata (\<lambda>_. []) demo_host demo_cfg ''t1'' = Inr md"
proof -
  have "isl (as_dict (gc_data demo_cfg)) = False" by code_simp
  then show ?thesis unfolding collect_metadata_def by (cases "as_dict (gc_data demo_cfg)") simp_all
qed

lemma main_started:
  assumes "load env rend yaml (ar_profile a) (overrides_of a) = Inr cfg" and "base_results a cfg = Inr base"
    and "collect_metadata warn h cfg (test_id_of a h cfg) = Inr md"
    and "new_token_source (au_secret_b64 (gc_auth cfg)) (au_queue (gc_auth cfg)) (au_subject (gc_auth cfg))
           (au_ttl (gc_auth cfg)) = Inr ts"
    and "hs_ready h" and "\<not> ar_dry a"
  shows "snd (main env rend warn reason mk d h yaml a)
    = snd (with_channel rend mk d reason a cfg (test_id_of a h cfg) (path_join base (test_id_of a h cfg)) md)"
  using assms by (simp add: main_def Let_def io_bind_def io_do_def io_ret_def io_lift_def)

lemma exit_codes_witness:
  "\<exists>es. demo_main = (es, Inr 0) \<and> matched es \<and> ends_with_manifest es"
proof -
  obtain md where md: "collect_metadata (\<lambda>_. []) demo_host demo_cfg ''t1'' = Inr md" using demo_metadata by blast
  have id: "test_id_of demo_args demo_host demo_cfg = ''t1''" "ar_profile demo_args = ''stairs''"
    "hs_ready demo_host" "\<not> ar_dry demo_args"
    by (simp_all add: test_id_of_def demo_args_def demo_host_def)
  have "snd demo_main = snd (with_channel (\<lambda>_. []) demo_makers demo_driver (\<lambda>_. []) demo_args demo_cfg ''t1''
      (path_join ''results'' ''t1'') md)"
    unfolding demo_main_def
    using main_started [of "\<lambda>_. None" "\<lambda>_. []" demo_run_yaml demo_args demo_cfg "''results''" "\<lambda>_. []" demo_host md demo_source]
      demo_cfg_load demo_base md demo_cfg_auth demo_source_new id by simp
  then have main: "main (\<lambda>_. None) (\<lambda>_. []) (\<lambda>_. []) (\<lambda>_. []) demo_makers demo_driver demo_host demo_run_yaml demo_args
      = (fst demo_main, Inr 0)"
    by (simp add: demo_with_channel prod_eq_iff flip: demo_main_def)
  from exit_codes [OF main] id(4) have "matched (fst demo_main) \<and> ends_with_manifest (fst demo_main)" by auto
  with main show ?thesis unfolding demo_main_def by auto
qed

section \<open>Following the plan\<close>

fun world :: "'w driver \<Rightarrow> step list \<Rightarrow> 'w \<Rightarrow> nat \<Rightarrow> 'w" where
  \<comment> \<open>the driver's state after the first \<open>k\<close> steps of the plan\<close>
  "world d steps w 0 = w"
| "world d [] w (Suc k) = w"
| "world d (st # rest) w (Suc k) = world d rest (snd (dv_run_step d w st)) k"

text \<open>C30: the plan is followed until there is a reason to stop. The results are those of a
  prefix of the plan, each step run in the state the one before it left; no step begins after an
  interruption or after a step whose stop rule fired; and a plan that is cut short was
  interrupted, or its last result fired a rule. An abort is not such a reason: after it the
  remaining steps are still entered.\<close>

theorem plan_is_followed:
  assumes "run_plan d rules steps w = (Inr rs, w')"
  shows "length rs \<le> length steps \<and> w' = world d steps w (length rs)
    \<and> (\<forall>k < length rs. \<not> dv_interrupted d (world d steps w k)
         \<and> fst (dv_run_step d (world d steps w k) (steps ! k)) = Inr (rs ! k)
         \<and> (Suc k < length rs \<longrightarrow> should_stop rules (rs ! k) (dv_p99 d (world d steps w (Suc k))) = Inr False))
    \<and> (length rs < length steps \<longrightarrow> dv_interrupted d w'
         \<or> rs \<noteq> [] \<and> should_stop rules (last rs) (dv_p99 d w') = Inr True)"
  using assms
proof (induction steps arbitrary: w rs)
  case (Cons st rest)
  show ?case
  proof (cases "dv_interrupted d w")
    case True
    with Cons.prems show ?thesis by simp
  next
    case False
    with Cons.prems obtain r w1 where step: "dv_run_step d w st = (Inr r, w1)"
      by (cases "dv_run_step d w st"; cases "fst (dv_run_step d w st)") auto
    with Cons.prems False obtain b where b: "should_stop rules r (dv_p99 d w1) = Inr b"
      by (cases "should_stop rules r (dv_p99 d w1)") auto
    show ?thesis
    proof (cases b)
      case True
      with Cons.prems False step b show ?thesis by auto
    next
      case go: False
      with Cons.prems False step b obtain qs where qs: "run_plan d rules rest w1 = (Inr qs, w')" "rs = r # qs"
        by (cases "run_plan d rules rest w1"; cases "fst (run_plan d rules rest w1)") auto
      note ih = Cons.IH [OF qs(1)]
      have "\<not> dv_interrupted d (world d (st # rest) w k)
         \<and> fst (dv_run_step d (world d (st # rest) w k) ((st # rest) ! k)) = Inr (rs ! k)
         \<and> (Suc k < length rs \<longrightarrow> should_stop rules (rs ! k) (dv_p99 d (world d (st # rest) w (Suc k))) = Inr False)"
        if "k < length rs" for k
        using that ih qs(2) False step b go by (cases k) auto
      with ih qs(2) step b go show ?thesis by (auto split: if_splits)
    qed
  qed
qed simp

lemma plan_is_followed_witness:
  "\<exists>rs. run_plan demo_driver (gc_stop_when demo_cfg) (gc_steps demo_cfg) 0 = (Inr rs, 300) \<and> length rs = 3
     \<and> should_stop (gc_stop_when demo_cfg) (rs ! 1) 0 = Inr False"
proof -
  have "map_prod (map_sum id (\<lambda>rs. length rs)) id (run_plan demo_driver (gc_stop_when demo_cfg) (gc_steps demo_cfg) 0)
      = (Inr 3, 300)" by code_simp
  then obtain rs where rs: "run_plan demo_driver (gc_stop_when demo_cfg) (gc_steps demo_cfg) 0 = (Inr rs, 300)"
    "length rs = 3"
    by (cases "run_plan demo_driver (gc_stop_when demo_cfg) (gc_steps demo_cfg) 0"; cases "fst (run_plan demo_driver (gc_stop_when demo_cfg) (gc_steps demo_cfg) 0)") auto
  from plan_is_followed [OF rs(1)] rs show ?thesis by (auto simp: demo_driver_def)
qed

end
