(* ===== verification/LoadGenFacts.thy ===== *)
theory LoadGenFacts
  imports LoadGen
begin

text \<open>
  What holds of the load engine in every state it can reach: no batch is lost or handled twice,
  the sequence numbers are consecutive, the counters agree with what came back, queue and
  in-flight requests are bounded, every request carries its own numbers, the pacer is never
  ahead of its schedule, and an abort has a reason.
\<close>

section \<open>Where the batches are\<close>

text \<open>
  For any weight of batches: what was put on the queue is what is still queued, what a worker
  holds, and what has come back. With the weight 1 for one batch this says that no batch is
  lost or handled twice; with the number of records it is the accounting.
\<close>

fun held :: "(item \<Rightarrow> int) \<Rightarrow> worker \<Rightarrow> int" where
  "held f (WGot it) = f it"
| "held f (WStamped it) = f it"
| "held f (WReady it) = f it"
| "held f (WSending it) = f it"
| "held f (WBack it r) = f it"
| "held f (WJudge it r) = f it"
| "held f _ = 0"

definition queued :: "(item \<Rightarrow> int) \<Rightarrow> item option list \<Rightarrow> int" where
  "queued f q = sum_list (map (\<lambda>x. case x of None \<Rightarrow> 0 | Some it \<Rightarrow> f it) q)"

lemma queued_simps [simp]:
  "queued f [] = 0" "queued f (None # q) = queued f q" "queued f (Some it # q) = f it + queued f q"
  "queued f (q @ [None]) = queued f q" "queued f (q @ [Some it]) = queued f q + f it"
  by (simp_all add: queued_def)

definition worker_sum :: "(worker \<Rightarrow> int) \<Rightarrow> gen \<Rightarrow> int" where
  "worker_sum f s = sum_list (map f (g_workers s))"

lemma worker_sum_simps [simp]:
  "worker_sum f (pc_at p s) = worker_sum f s" "worker_sum f (result_update i h s) = worker_sum f s"
  "worker_sum f (active_update h' s) = worker_sum f s"
  "w < length (g_workers s) \<Longrightarrow> worker_sum f (w_at w pc s) = worker_sum f s - f (g_workers s ! w) + f pc"
  by (simp_all add: worker_sum_def sum_list_update map_update)

lemma worker_sum_other [simp]:
  "worker_sum f (s\<lparr>g_clock := c\<rparr>) = worker_sum f s" "worker_sum f (s\<lparr>g_stop := b\<rparr>) = worker_sum f s"
  "worker_sum f (s\<lparr>g_queue := q\<rparr>) = worker_sum f s" "worker_sum f (s\<lparr>g_next := n\<rparr>) = worker_sum f s"
  "worker_sum f (s\<lparr>g_fails := n\<rparr>) = worker_sum f s" "worker_sum f (s\<lparr>g_abort := a\<rparr>) = worker_sum f s"
  "worker_sum f (s\<lparr>g_metrics := m\<rparr>) = worker_sum f s" "worker_sum f (s\<lparr>g_active := o1\<rparr>) = worker_sum f s"
  "worker_sum f (s\<lparr>g_templates := ts\<rparr>) = worker_sum f s" "worker_sum f (s\<lparr>g_put := ps\<rparr>) = worker_sum f s"
  "worker_sum f (s\<lparr>g_sent := sn\<rparr>) = worker_sum f s" "worker_sum f (s\<lparr>g_done := dn\<rparr>) = worker_sum f s"
  "worker_sum f (s\<lparr>g_results := rs\<rparr>) = worker_sum f s" "worker_sum f (s\<lparr>g_pacer := p\<rparr>) = worker_sum f s"
  by (simp_all add: worker_sum_def)

definition flow :: "(item \<Rightarrow> int) \<Rightarrow> gen \<Rightarrow> bool" where
  "flow f s =
     (sum_list (map f (g_put s))
        = queued f (g_queue s) + worker_sum (held f) s + sum_list (map (f \<circ> fst) (g_done s)))"

lemma flow_pacer: "flow f s \<Longrightarrow> pacer_step e s = Some t \<Longrightarrow> flow f t"
  by (cases "g_pacer s")
    (auto simp: pacer_step.simps flow_def drain_from_def Let_def split: if_splits nat.splits)

lemma flow_worker: "flow f s \<Longrightarrow> w < length (g_workers s) \<Longrightarrow> worker_step e w r s = Some t \<Longrightarrow> flow f t"
  by (cases "g_workers s ! w")
    (auto simp: worker_step.simps flow_def Let_def split: if_splits list.splits option.splits outcome.splits)

lemma flow_step: "flow f s \<Longrightarrow> gstep e a s = Some t \<Longrightarrow> flow f t"
proof (cases a)
  case (ABegin i rps d)
  assume "flow f s" "gstep e a s = Some t"
  then show ?thesis unfolding ABegin by (auto simp: flow_def main_defs split: if_splits sum.splits)
next
  case ACallStop
  assume "flow f s" "gstep e a s = Some t"
  then show ?thesis unfolding ACallStop by (auto simp: flow_def main_defs split: if_splits)
next
  case APacer
  assume "flow f s" "gstep e a s = Some t"
  then show ?thesis unfolding APacer by (auto intro: flow_pacer)
next
  case (AWorker w r)
  assume "flow f s" "gstep e a s = Some t"
  then show ?thesis unfolding AWorker by (auto intro: flow_worker split: if_splits)
qed (auto simp: flow_def split: if_splits)

lemma greach_rule [consumes 1, case_names init clock interrupt flush enter finish pacer worker]:
  assumes "greach e s t" and "P s"
    and "\<And>u dt. greach e s u \<Longrightarrow> P u \<Longrightarrow> 0 \<le> dt \<Longrightarrow> P (u\<lparr>g_clock := g_clock u + dt\<rparr>)"
    and "\<And>u. greach e s u \<Longrightarrow> P u \<Longrightarrow> P (u\<lparr>g_stop := True\<rparr>)"
    and "\<And>u ts tag. greach e s u \<Longrightarrow> P u \<Longrightarrow> P (u\<lparr>g_metrics := flush_sample ts tag (g_metrics u)\<rparr>)"
    and "\<And>u i r d v. greach e s u \<Longrightarrow> P u \<Longrightarrow> begin_step e i r d u = Some v \<Longrightarrow> P v"
    and "\<And>u v. greach e s u \<Longrightarrow> P u \<Longrightarrow> call_stop u = Some v \<Longrightarrow> P v"
    and "\<And>u v. greach e s u \<Longrightarrow> P u \<Longrightarrow> pacer_step e u = Some v \<Longrightarrow> P v"
    and "\<And>u w r v. greach e s u \<Longrightarrow> P u \<Longrightarrow> w < length (g_workers u) \<Longrightarrow> worker_step e w r u = Some v \<Longrightarrow> P v"
  shows "P t"
proof -
  have "P v" if r: "greach e s u" and u: "P u" and g: "gstep e a u = Some v" for u a v
  proof (cases a)
    case (AClock dt)
    then have "0 \<le> dt" "v = u\<lparr>g_clock := g_clock u + dt\<rparr>" using g by (auto split: if_splits)
    then show ?thesis using assms(3) [OF r u] by simp
  next
    case AInterrupt
    then have "v = u\<lparr>g_stop := True\<rparr>" using g by simp
    then show ?thesis using assms(4) [OF r u] by simp
  next
    case (ABegin i r d)
    then show ?thesis using g by (intro assms(6) [OF r u]) simp
  next
    case APacer
    then show ?thesis using g by (intro assms(8) [OF r u]) simp
  next
    case ACallStop
    then show ?thesis using g by (intro assms(7) [OF r u]) simp
  next
    case (AWorker w rep)
    then have "w < length (g_workers u)" "worker_step e w rep u = Some v" using g by (simp_all split: if_splits)
    then show ?thesis by (rule assms(9) [OF r u])
  next
    case (AFlush ts tag)
    then have "v = u\<lparr>g_metrics := flush_sample ts tag (g_metrics u)\<rparr>" using g by simp
    then show ?thesis using assms(5) [OF r u] by simp
  qed
  moreover have "greach e s u \<and> P u \<Longrightarrow> gstep e a u = Some v \<Longrightarrow> greach e s v" for u a v
    by (blast intro: greach_step)
  ultimately have step: "greach e s v \<and> P v" if "greach e s u \<and> P u" "gstep e a u = Some v" for u a v
    using that by blast
  have "greach e s t \<and> P t"
    by (rule greach_invariant [OF assms(1), of "\<lambda>u. greach e s u \<and> P u"])
      (rule conjI [OF greach_init assms(2)], rule step)
  then show ?thesis ..
qed

section \<open>Sequence numbers\<close>

fun pending :: "pacer \<Rightarrow> item list" where
  \<comment> \<open>the batch that has its numbers but is not on the queue\<close>
  "pending (POffer p n it t) = [it]"
| "pending (PPutting p n it t) = [it]"
| "pending (PStalled p n it t b) = (if b then [] else [it])"
| "pending (PUnput p it) = [it]"
| "pending _ = []"

definition seq_ok :: "engine \<Rightarrow> gen \<Rightarrow> bool" where
  "seq_ok e s =
     (tiles 0 (map (\<lambda>it. (it_seq it, en_batch e)) (g_put s @ pending (g_pacer s))) (g_next s)
      \<and> (\<forall>it \<in> set (g_put s @ pending (g_pacer s)). it_count it = en_count e))"

lemma seq_ok_pacer:
  assumes "seq_ok e s" and "0 \<le> en_batch e" and "pacer_step e s = Some t"
  shows "seq_ok e t"
  using assms
  by (cases "g_pacer s")
    (auto simp: pacer_step.simps seq_ok_def drain_from_def Let_def tiles_snoc tiles_append
      split: if_splits nat.splits)

lemma seq_ok_worker: "seq_ok e s \<Longrightarrow> worker_step e w r s = Some t \<Longrightarrow> seq_ok e t"
  by (cases "g_workers s ! w")
    (auto simp: worker_step.simps seq_ok_def Let_def split: if_splits list.splits option.splits outcome.splits)

lemma seq_ok_reach:
  assumes "greach e (started e m now) s" and "0 \<le> en_batch e"
  shows "seq_ok e s"
  using assms(1)
proof (induction rule: greach_rule)
  case (enter u i r d v)
  then show ?case by (auto simp: seq_ok_def main_defs split: if_splits sum.splits)
next
  case (finish u v)
  then show ?case by (auto simp: seq_ok_def main_defs split: if_splits)
next
  case (pacer u v)
  then show ?case using seq_ok_pacer assms(2) by blast
next
  case (worker u w r v)
  then show ?case using seq_ok_worker by blast
qed (simp_all add: seq_ok_def started_def)

section \<open>Accounting\<close>

fun unrecorded :: "pacer \<Rightarrow> int" where
  \<comment> \<open>records on the queue that the pacer has not yet counted as offered\<close>
  "unrecorded (PStalled p n it t b) = (if b then it_count it else 0)"
| "unrecorded (PRecord p n it) = it_count it"
| "unrecorded _ = 0"

fun flying :: "worker \<Rightarrow> int" where
  "flying (WReady it) = 1"
| "flying (WSending it) = 1"
| "flying (WBack it r) = 1"
| "flying _ = 0"

definition acked_records :: "(item \<times> outcome) list \<Rightarrow> int" where
  "acked_records ds = sum_list (map (\<lambda>(it, r). case r of Acked l \<Rightarrow> it_count it | _ \<Rightarrow> 0) ds)"

definition rejected_records :: "(item \<times> outcome) list \<Rightarrow> int" where
  "rejected_records ds =
     sum_list (map (\<lambda>(it, r). case r of Failed c l d t \<Rightarrow> if c = ''RESOURCE_EXHAUSTED'' then it_count it else 0
                    | _ \<Rightarrow> 0) ds)"

definition outcomes :: "(outcome \<Rightarrow> bool) \<Rightarrow> (item \<times> outcome) list \<Rightarrow> int" where
  "outcomes P ds = int (length (filter (\<lambda>d. P (snd d)) ds))"

fun is_acked :: "outcome \<Rightarrow> bool" where
  "is_acked (Acked l) = True" | "is_acked _ = False"

fun is_failed :: "outcome \<Rightarrow> bool" where
  "is_failed (Failed c l d t) = True" | "is_failed _ = False"

lemma done_snoc [simp]:
  "acked_records (ds @ [(it, r)]) = acked_records ds + (case r of Acked l \<Rightarrow> it_count it | _ \<Rightarrow> 0)"
  "rejected_records (ds @ [(it, r)]) = rejected_records ds
     + (case r of Failed c l d t \<Rightarrow> if c = ''RESOURCE_EXHAUSTED'' then it_count it else 0 | _ \<Rightarrow> 0)"
  "outcomes P (ds @ [(it, r)]) = outcomes P ds + (if P r then 1 else 0)"
  by (simp_all add: acked_records_def rejected_records_def outcomes_def)

definition ledger_ok :: "gen \<Rightarrow> bool" where
  "ledger_ok s =
     (let t = m_totals (g_metrics s)
      in records_offered t + unrecorded (g_pacer s) = sum_list (map it_count (g_put s))
       \<and> records_accepted t = acked_records (g_done s)
       \<and> records_rejected t = rejected_records (g_done s)
       \<and> requests_success t = outcomes is_acked (g_done s)
       \<and> requests_failed t = outcomes is_failed (g_done s)
       \<and> m_inflight (g_metrics s) = worker_sum flying s)"

lemma metrics_inflight [simp]:
  "m_inflight (record_offered n b m) = m_inflight m" "m_inflight (record_success n l m) = m_inflight m"
  "m_inflight (record_failure n l c m) = m_inflight m" "m_inflight (record_stall r m) = m_inflight m"
  "m_inflight (set_step i p m) = m_inflight m" "m_inflight (flush_sample ts tag m) = m_inflight m"
  "m_inflight (record_inflight d m) = m_inflight m + d"
  by (simp_all add: recording_defs)

lemma metrics_quiet [simp]:
  "m_totals (record_inflight d m) = m_totals m" "m_totals (set_step i p m) = m_totals m"
  "records_offered (m_totals (record_stall r m)) = records_offered (m_totals m)"
  "records_accepted (m_totals (record_stall r m)) = records_accepted (m_totals m)"
  "records_rejected (m_totals (record_stall r m)) = records_rejected (m_totals m)"
  "requests_success (m_totals (record_stall r m)) = requests_success (m_totals m)"
  "requests_failed (m_totals (record_stall r m)) = requests_failed (m_totals m)"
  by (simp_all add: recording_defs)

lemma ledger_ok_pacer: "ledger_ok s \<Longrightarrow> pacer_step e s = Some t \<Longrightarrow> ledger_ok t"
  by (cases "g_pacer s")
    (auto simp: pacer_step.simps ledger_ok_def drain_from_def Let_def ledger.laws split: if_splits nat.splits)

lemma ledger_ok_worker:
  "ledger_ok s \<Longrightarrow> w < length (g_workers s) \<Longrightarrow> worker_step e w r s = Some t \<Longrightarrow> ledger_ok t"
  by (cases "g_workers s ! w")
    (auto simp: worker_step.simps ledger_ok_def Let_def ledger.laws
      split: if_splits list.splits option.splits outcome.splits)

lemma ledger_ok_reach:
  assumes "greach e (started e (init_metrics name itv pr t0) now) s"
  shows "ledger_ok s"
  using assms
proof (induction rule: greach_rule)
  case init
  then show ?case
    by (simp add: ledger_ok_def started_def init_metrics_def acked_records_def rejected_records_def outcomes_def
        worker_sum_def sum_list_replicate)
next
  case (enter u i r d v)
  then show ?case by (auto simp: ledger_ok_def main_defs split: if_splits sum.splits)
next
  case (finish u v)
  then show ?case by (auto simp: ledger_ok_def main_defs split: if_splits)
next
  case (pacer u v)
  then show ?case using ledger_ok_pacer by blast
next
  case (worker u w r v)
  then show ?case using ledger_ok_worker by blast
qed (simp_all add: ledger_ok_def Let_def)

lemma flow_reach:
  assumes "greach e (started e m now) s"
  shows "flow f s"
  using assms
proof (rule greach_invariant)
  show "flow f (started e m now)" by (simp add: flow_def started_def worker_sum_def sum_list_replicate)
qed (rule flow_step)
section \<open>Bounds\<close>

definition bounded :: "engine \<Rightarrow> gen \<Rightarrow> bool" where
  "bounded e s =
     (length (g_queue s) \<le> capacity e \<and> length (g_workers s) = nat (en_workers e)
      \<and> length (g_templates s) = nat (en_pool_workers e * en_variants e))"

lemma bounded_reach: "greach e (started e m now) s \<Longrightarrow> bounded e s"
proof (induction rule: greach_rule)
  case (enter u i r d v)
  then show ?case by (auto simp: bounded_def main_defs split: if_splits sum.splits)
next
  case (finish u v)
  then show ?case by (auto simp: bounded_def main_defs split: if_splits)
next
  case (pacer u v)
  then show ?case
    by (cases "g_pacer u")
      (auto simp: pacer_step.simps bounded_def drain_from_def Let_def split: if_splits nat.splits)
next
  case (worker u w r v)
  then show ?case
    by (cases "g_workers u ! w")
      (auto simp: worker_step.simps bounded_def Let_def split: if_splits list.splits option.splits outcome.splits)
qed (simp_all add: bounded_def started_def)

lemma flying_bound: "worker_sum flying s \<le> int (length (g_workers s))" "0 \<le> worker_sum flying s"
proof -
  have "flying pc \<le> 1 \<and> 0 \<le> flying pc" for pc by (cases pc) simp_all
  then have "sum_list (map flying ws) \<le> int (length ws) \<and> 0 \<le> sum_list (map flying ws)" for ws
    by (induction ws) (simp_all add: add_mono)
  then show "worker_sum flying s \<le> int (length (g_workers s))" "0 \<le> worker_sum flying s"
    by (simp_all add: worker_sum_def)
qed

section \<open>Every request carries its own numbers\<close>

fun stamped_item :: "worker \<Rightarrow> item option" where
  "stamped_item (WStamped it) = Some it"
| "stamped_item (WReady it) = Some it"
| "stamped_item _ = None"

definition stamps_ok :: "engine \<Rightarrow> gen \<Rightarrow> bool" where
  "stamps_ok e s =
     ((\<forall>w < length (g_workers s). \<forall>it. stamped_item (g_workers s ! w) = Some it \<longrightarrow>
          g_templates s ! slot_of e w it = it_seq it)
      \<and> (\<forall>(w, it, q) \<in> set (g_sent s). q = it_seq it))"

definition pool_fits :: "engine \<Rightarrow> bool" where
  "pool_fits e = (0 < en_pool_workers e \<and> 0 < en_variants e \<and> en_workers e \<le> en_pool_workers e)"

lemma slot_of_range:
  "pool_fits e \<Longrightarrow> slot_of e w it < nat (en_pool_workers e * en_variants e)"
  using generic_pool.slot_range [of "en_pool_workers e" "en_variants e" "int w" "it_variant it"]
  by (auto simp: pool_fits_def slot_of_def nat_less_iff)

lemma slot_of_disjoint:
  assumes "pool_fits e" and "w < nat (en_workers e)" and "v < nat (en_workers e)" and "w \<noteq> v"
  shows "slot_of e w it \<noteq> slot_of e v jt"
proof -
  have p: "0 < en_pool_workers e" "0 < en_variants e" using assms(1) by (auto simp: pool_fits_def)
  have "int w < en_pool_workers e" "int v < en_pool_workers e" using assms by (auto simp: pool_fits_def)
  then have "template_slot (en_pool_workers e) (en_variants e) (int w) (it_variant it)
      \<noteq> template_slot (en_pool_workers e) (en_variants e) (int v) (it_variant jt)"
    using assms(4) p by (intro generic_pool.slots_disjoint) auto
  moreover have "0 \<le> template_slot (en_pool_workers e) (en_variants e) (int w) (it_variant it)"
    "0 \<le> template_slot (en_pool_workers e) (en_variants e) (int v) (it_variant jt)"
    using generic_pool.slot_range [OF p] by blast+
  ultimately show ?thesis by (simp add: slot_of_def eq_nat_nat_iff)
qed

lemma stamps_ok_quiet:
  "stamps_ok e s \<Longrightarrow> g_workers t = g_workers s \<Longrightarrow> g_templates t = g_templates s \<Longrightarrow> g_sent t = g_sent s \<Longrightarrow> stamps_ok e t"
  by (simp add: stamps_ok_def)

lemma stamps_ok_move:
  assumes "stamps_ok e s" and "w < length (g_workers s)" and "g_workers t = (g_workers s)[w := pc]"
    and "g_templates t = g_templates s" and "g_sent t = g_sent s"
    and "\<And>it. stamped_item pc = Some it \<Longrightarrow> stamped_item (g_workers s ! w) = Some it"
  shows "stamps_ok e t"
  using assms unfolding stamps_ok_def by (auto simp: nth_list_update)

lemma stamps_ok_worker:
  assumes ok: "stamps_ok e s" and fits: "pool_fits e" and b: "bounded e s"
    and w: "w < length (g_workers s)" and st: "worker_step e w r s = Some t"
  shows "stamps_ok e t"
proof (cases "g_workers s ! w")
  case (WGot it)
  then have t: "t = w_at w (WStamped it) (s\<lparr>g_templates := (g_templates s)[slot_of e w it := it_seq it]\<rparr>)"
    using st by (simp add: worker_step.simps)
  have len: "slot_of e w it < length (g_templates s)" using slot_of_range [OF fits] b by (simp add: bounded_def)
  have "g_templates t ! slot_of e v jt = it_seq jt"
    if v: "v < length (g_workers t)" and j: "stamped_item (g_workers t ! v) = Some jt" for v jt
  proof (cases "v = w")
    case True
    then show ?thesis using j t w len by simp
  next
    case False
    then have "stamped_item (g_workers s ! v) = Some jt" using j t by simp
    then have "g_templates s ! slot_of e v jt = it_seq jt" using ok v t by (simp add: stamps_ok_def)
    moreover have "slot_of e v jt \<noteq> slot_of e w it"
      using slot_of_disjoint [OF fits] False v w t b by (simp add: bounded_def)
    ultimately show ?thesis using t by simp
  qed
  then show ?thesis using ok t by (simp add: stamps_ok_def)
next
  case (WReady it)
  then have t: "t = w_at w (WSending it) (s\<lparr>g_sent := g_sent s @ [(w, it, g_templates s ! slot_of e w it)]\<rparr>)"
    using st by (simp add: worker_step.simps)
  have "g_templates s ! slot_of e w it = it_seq it" using ok w WReady by (simp add: stamps_ok_def)
  then show ?thesis using ok w t by (auto simp: stamps_ok_def nth_list_update)
qed (use st in \<open>auto simp: worker_step.simps Let_def intro!: stamps_ok_move [OF ok w]
      split: if_splits list.splits option.splits outcome.splits\<close>)

lemma stamps_ok_reach:
  assumes "greach e (started e m now) s" and "pool_fits e"
  shows "stamps_ok e s"
  using assms(1)
proof (induction rule: greach_rule)
  case (enter u i r d v)
  show ?case
    by (rule stamps_ok_quiet [OF enter.IH])
      (use enter.hyps in \<open>auto simp: main_defs split: if_splits sum.splits\<close>)
next
  case (finish u v)
  show ?case
    by (rule stamps_ok_quiet [OF finish.IH]) (use finish.hyps in \<open>auto simp: main_defs split: if_splits\<close>)
next
  case (pacer u v)
  then have "g_workers v = g_workers u \<and> g_templates v = g_templates u \<and> g_sent v = g_sent u"
    by (cases "g_pacer u") (auto simp: pacer_step.simps drain_from_def Let_def split: if_splits nat.splits)
  then show ?case using stamps_ok_quiet [OF pacer.IH] by blast
next
  case (worker u w r v)
  show ?case by (rule stamps_ok_worker [OF worker.IH assms(2) bounded_reach [OF worker.hyps(1)] worker.hyps(2,3)])
qed (auto simp: stamps_ok_def started_def)


section \<open>The steps of a run\<close>

definition sig :: "step_result \<Rightarrow> int \<times> int \<times> int" where
  "sig r = (sr_seq_start r, sr_offered r, sr_seq_end r)"

definition sigs :: "gen \<Rightarrow> (int \<times> int \<times> int) list" where
  "sigs s = map sig (g_results s)"

fun pacing_of :: "pacer \<Rightarrow> pacing option" where
  "pacing_of (PLoop p) = Some p"
| "pacing_of (PWait p n) = Some p"
| "pacing_of (PTake p n) = Some p"
| "pacing_of (POffer p n it t) = Some p"
| "pacing_of (PPutting p n it t) = Some p"
| "pacing_of (PStalled p n it t b) = Some p"
| "pacing_of (PRecord p n it) = Some p"
| "pacing_of (PCredit p n it) = Some p"
| "pacing_of (PNext p n) = Some p"
| "pacing_of (PUnput p it) = Some p"
| "pacing_of (PDrain p l) = Some p"
| "pacing_of (PDrainInflight p l) = Some p"
| "pacing_of (PClose p) = Some p"
| "pacing_of _ = None"

fun uncredited :: "engine \<Rightarrow> pacer \<Rightarrow> int" where
  \<comment> \<open>numbers taken in this step that its result does not show as offered\<close>
  "uncredited e (POffer p n it t) = en_batch e"
| "uncredited e (PPutting p n it t) = en_batch e"
| "uncredited e (PStalled p n it t b) = en_batch e"
| "uncredited e (PRecord p n it) = en_batch e"
| "uncredited e (PCredit p n it) = en_batch e"
| "uncredited e (PUnput p it) = en_batch e"
| "uncredited e _ = 0"

fun item_at_pc :: "pacer \<Rightarrow> item option" where
  "item_at_pc (POffer p n it t) = Some it"
| "item_at_pc (PPutting p n it t) = Some it"
| "item_at_pc (PStalled p n it t b) = Some it"
| "item_at_pc (PRecord p n it) = Some it"
| "item_at_pc (PCredit p n it) = Some it"
| "item_at_pc (PUnput p it) = Some it"
| "item_at_pc _ = None"

definition closed_sig :: "int \<times> int \<times> int \<Rightarrow> bool" where
  "closed_sig x = (case x of (a, n, z) \<Rightarrow> z = max a (a + n - 1))"

definition spans :: "(int \<times> int \<times> int) list \<Rightarrow> (int \<times> int) list" where
  "spans xs = map (\<lambda>(a, n, z). (a, n)) xs"

definition steps_ok :: "engine \<Rightarrow> gen \<Rightarrow> bool" where
  "steps_ok e s =
     (case pacing_of (g_pacer s) of
        None \<Rightarrow> tiles 0 (spans (sigs s)) (g_next s) \<and> (\<forall>x \<in> set (sigs s). closed_sig x)
      | Some p \<Rightarrow>
          (\<exists>xs n z. sigs s = xs @ [(pv_seq0 p, n, z)] \<and> pv_res p = length xs
             \<and> tiles 0 (spans xs) (pv_seq0 p) \<and> (\<forall>x \<in> set xs. closed_sig x)
             \<and> 0 \<le> n \<and> n + uncredited e (g_pacer s) = g_next s - pv_seq0 p
             \<and> (\<forall>it. item_at_pc (g_pacer s) = Some it \<longrightarrow> it_count it = en_batch e)))"

lemma sigs_simps [simp]:
  "sigs (pc_at p s) = sigs s" "sigs (w_at w pc s) = sigs s"
  "sigs (s\<lparr>g_clock := c\<rparr>) = sigs s" "sigs (s\<lparr>g_stop := b\<rparr>) = sigs s"
  "sigs (s\<lparr>g_queue := q\<rparr>) = sigs s" "sigs (s\<lparr>g_next := n\<rparr>) = sigs s"
  "sigs (s\<lparr>g_fails := n\<rparr>) = sigs s" "sigs (s\<lparr>g_abort := a\<rparr>) = sigs s"
  "sigs (s\<lparr>g_metrics := m\<rparr>) = sigs s" "sigs (s\<lparr>g_active := o1\<rparr>) = sigs s"
  "sigs (s\<lparr>g_templates := ts\<rparr>) = sigs s" "sigs (s\<lparr>g_put := ps\<rparr>) = sigs s"
  "sigs (s\<lparr>g_sent := sn\<rparr>) = sigs s" "sigs (s\<lparr>g_done := dn\<rparr>) = sigs s"
  "sigs (s\<lparr>g_queue := q, g_put := ps\<rparr>) = sigs s"
  by (simp_all add: sigs_def pc_at_def w_at_def)

lemma sigs_keep:
  assumes "\<And>r. sig (f r) = sig r"
  shows "sigs (result_update i f s) = sigs s" "sigs (active_update f s) = sigs s"
proof -
  show "sigs (result_update i f s) = sigs s" for i
    using assms by (auto simp: sigs_def result_update_def map_update intro: list_update_same_conv [THEN iffD2])
  then show "sigs (active_update f s) = sigs s" by (auto simp: active_update_def split: option.split)
qed

lemma sigs_change:
  assumes "sigs s = xs @ [x]" and "\<And>r. sig r = x \<Longrightarrow> sig (f r) = y"
  shows "sigs (result_update (length xs) f s) = xs @ [y]"
proof -
  from assms(1) have len: "length (g_results s) = Suc (length xs)"
    by (metis length_append_singleton length_map sigs_def)
  then have "sig (g_results s ! length xs) = x"
    using assms(1) by (metis lessI nth_append_length nth_map sigs_def)
  then have "sig (f (g_results s ! length xs)) = y" by (rule assms(2))
  moreover have "map sig (g_results s) = xs @ [x]" using assms(1) by (simp add: sigs_def)
  ultimately show ?thesis using len by (simp add: sigs_def result_update_def map_update)
qed

lemma spans_simps [simp]:
  "spans [] = []" "spans (xs @ ys) = spans xs @ spans ys" "spans [(a, n, z)] = [(a, n)]"
  by (simp_all add: spans_def)

lemma steps_ok_cong:
  "sigs s = sigs t \<Longrightarrow> g_pacer s = g_pacer t \<Longrightarrow> g_next s = g_next t \<Longrightarrow> steps_ok e s = steps_ok e t"
  by (simp add: steps_ok_def split: option.split)

lemma steps_ok_worker: "steps_ok e s \<Longrightarrow> worker_step e w r s = Some t \<Longrightarrow> steps_ok e t"
proof -
  assume ok: "steps_ok e s" and st: "worker_step e w r s = Some t"
  have "sigs t = sigs s \<and> g_pacer t = g_pacer s \<and> g_next t = g_next s"
    using st by (cases "g_workers s ! w")
      (auto simp: worker_step.simps Let_def sig_def intro!: sigs_keep(2) split: if_splits list.splits option.splits outcome.splits)
  then show ?thesis using ok steps_ok_cong [of s t] by simp
qed

lemma steps_ok_move:
  assumes "steps_ok e s" and "pacing_of (g_pacer s) = Some p" and "pacing_of (g_pacer t) = Some p'"
    and "sigs t = sigs s" and "pv_seq0 p' = pv_seq0 p" and "pv_res p' = pv_res p"
    and "uncredited e (g_pacer t) - uncredited e (g_pacer s) = g_next t - g_next s"
    and "\<And>it. item_at_pc (g_pacer t) = Some it \<Longrightarrow> item_at_pc (g_pacer s) = Some it \<or> it_count it = en_batch e"
  shows "steps_ok e t"
  using assms unfolding steps_ok_def by (fastforce simp: algebra_simps)

lemma steps_ok_credit:
  assumes ok: "steps_ok e s" and pc: "g_pacer s = PCredit p now it" and b: "0 \<le> en_batch e"
  shows "steps_ok e (pc_at (PNext p now) (result_update (pv_res p) (\<lambda>r. r\<lparr>sr_offered := sr_offered r + it_count it\<rparr>) s))"
proof -
  from ok pc obtain xs n z where x: "sigs s = xs @ [(pv_seq0 p, n, z)]" "pv_res p = length xs"
    "tiles 0 (spans xs) (pv_seq0 p)" "\<forall>x \<in> set xs. closed_sig x" "0 \<le> n"
    "n + en_batch e = g_next s - pv_seq0 p" "it_count it = en_batch e"
    by (auto simp: steps_ok_def)
  have "sigs (result_update (length xs) (\<lambda>r. r\<lparr>sr_offered := sr_offered r + it_count it\<rparr>) s)
      = xs @ [(pv_seq0 p, n + en_batch e, z)]"
    by (rule sigs_change [OF x(1)]) (simp add: sig_def x(7))
  then show ?thesis using x b by (simp add: steps_ok_def)
qed

lemma steps_ok_close:
  assumes ok: "steps_ok e s" and pc: "g_pacer s = PClose p"
  shows "steps_ok e (pc_at PIdle (result_update (pv_res p)
      (\<lambda>r. r\<lparr>sr_ended := c, sr_seq_end := max (sr_seq_start r) (g_next s - 1)\<rparr>) s\<lparr>g_active := None\<rparr>))"
proof -
  from ok pc obtain xs n z where x: "sigs s = xs @ [(pv_seq0 p, n, z)]" "pv_res p = length xs"
    "tiles 0 (spans xs) (pv_seq0 p)" "\<forall>x \<in> set xs. closed_sig x" "0 \<le> n" "n = g_next s - pv_seq0 p"
    by (auto simp: steps_ok_def)
  have "sigs (result_update (length xs) (\<lambda>r. r\<lparr>sr_ended := c, sr_seq_end := max (sr_seq_start r) (g_next s - 1)\<rparr>) s)
      = xs @ [(pv_seq0 p, n, max (pv_seq0 p) (g_next s - 1))]"
    by (rule sigs_change [OF x(1)]) (simp add: sig_def)
  then show ?thesis using x by (simp add: steps_ok_def tiles_snoc closed_sig_def)
qed

lemma steps_ok_pacer:
  assumes ok: "steps_ok e s" and seq: "seq_ok e s" and b: "0 \<le> en_batch e" "en_count e = en_batch e" and st: "pacer_step e s = Some t"
  shows "steps_ok e t"
proof (cases "g_pacer s")
  case (PCredit p now it)
  then show ?thesis using st steps_ok_credit [OF ok PCredit b(1)] by (simp add: pacer_step.simps)
next
  case (PClose p)
  then have "t = pc_at PIdle (result_update (pv_res p)
      (\<lambda>r. r\<lparr>sr_ended := g_clock s, sr_seq_end := max (sr_seq_start r) (g_next s - 1)\<rparr>) s\<lparr>g_active := None\<rparr>)"
    using st by (simp add: pacer_step.simps)
  then show ?thesis using steps_ok_close [OF ok PClose] by simp
next
  case (PUnput p it)
  have n: "g_next s = it_seq it + en_batch e" using seq PUnput by (simp add: seq_ok_def tiles_snoc)
  then show ?thesis using st PUnput
    by (auto intro!: steps_ok_move [OF ok] simp: pacer_step.simps drain_from_def)
next
  case (PStalled p now it t0 enq)
  have keep: "sigs (result_update i (\<lambda>r. r\<lparr>sr_stalled := sr_stalled r + x\<rparr>) u) = sigs u" for i x u
    by (intro sigs_keep) (simp add: sig_def)
  show ?thesis using st PStalled
    by (auto intro!: steps_ok_move [OF ok] simp: pacer_step.simps Let_def keep split: if_splits)
next
  case (PStopping n)
  then show ?thesis using st ok by (auto simp: pacer_step.simps steps_ok_def split: nat.splits if_splits)
qed (use st in \<open>auto intro!: steps_ok_move [OF ok] simp: pacer_step.simps drain_from_def Let_def b split: if_splits\<close>)

lemma steps_ok_reach:
  assumes "greach e (started e m now) s" and "0 \<le> en_batch e" and "en_count e = en_batch e"
  shows "steps_ok e s"
  using assms(1)
proof (induction rule: greach_rule)
  case init
  show ?case by (simp add: steps_ok_def started_def sigs_def)
next
  case (enter u i r d v)
  then show ?case
    by (auto simp: steps_ok_def main_defs sigs_def sig_def split: if_splits sum.splits)
next
  case (finish u v)
  then show ?case by (auto simp: steps_ok_def call_stop_def split: if_splits)
next
  case (pacer u v)
  show ?case
    by (rule steps_ok_pacer [OF pacer.IH seq_ok_reach [OF pacer.hyps(1) assms(2)] assms(2,3) pacer.hyps(2)])
next
  case (worker u w r v)
  show ?case by (rule steps_ok_worker [OF worker.IH worker.hyps(3)])
qed (simp_all add: steps_ok_def split: option.splits)

section \<open>The pacer keeps to its schedule\<close>

fun due :: "engine \<Rightarrow> pacer \<Rightarrow> int" where
  \<comment> \<open>numbers taken for a submission the schedule has not been advanced for\<close>
  "due e (PNext p n) = en_batch e"
| "due e (PDrain p l) = en_batch e"
| "due e (PDrainInflight p l) = en_batch e"
| "due e (PClose p) = en_batch e"
| "due e pc = uncredited e pc"

definition on_schedule :: "engine \<Rightarrow> gen \<Rightarrow> bool" where
  "on_schedule e s =
     (case pacing_of (g_pacer s) of
        None \<Rightarrow> True
      | Some p \<Rightarrow>
          0 < pv_interval p \<and> 0 < pv_rate p \<and> pv_rate p * pv_interval p = of_int (en_batch e)
          \<and> of_int (g_next s - pv_seq0 p - en_batch e) \<le> pv_rate p * (g_clock s - pv_started p)
          \<and> ((\<exists>l. g_pacer s = PDrain p l \<or> g_pacer s = PDrainInflight p l \<or> g_pacer s = PClose p)
             \<or> of_int (g_next s - pv_seq0 p - due e (g_pacer s)) \<le> pv_rate p * (pv_next p - pv_started p))
          \<and> (\<forall>n. g_pacer s = PTake p n \<longrightarrow> pv_next p \<le> g_clock s))"

lemma on_schedule_cong:
  "g_pacer s = g_pacer t \<Longrightarrow> g_next s = g_next t \<Longrightarrow> g_clock s = g_clock t \<Longrightarrow> on_schedule e s = on_schedule e t"
  by (simp add: on_schedule_def split: option.split)

lemma on_schedule_pacer:
  assumes ok: "on_schedule e s" and b: "0 < en_batch e" and st: "pacer_step e s = Some t"
  shows "on_schedule e t"
proof (cases "g_pacer s")
  case (PTake p now)
  have "pv_rate p * (pv_next p - pv_started p) \<le> pv_rate p * (g_clock s - pv_started p)"
    using ok PTake by (intro mult_left_mono) (auto simp: on_schedule_def)
  moreover have "of_int (g_next s - pv_seq0 p) \<le> pv_rate p * (pv_next p - pv_started p)"
    using ok PTake by (auto simp: on_schedule_def)
  ultimately have "of_int (g_next s - pv_seq0 p) \<le> pv_rate p * (g_clock s - pv_started p)" by (rule order_trans [rotated])
  then show ?thesis using ok st PTake by (auto simp: on_schedule_def pacer_step.simps Let_def)
next
  case (PNext p now)
  let ?n = "pv_next p + pv_interval p" and ?n' = "if pv_next p + pv_interval p < now - 1 then now else pv_next p + pv_interval p"
  have r: "0 < pv_rate p" "pv_rate p * pv_interval p = of_int (en_batch e)"
    "of_int (g_next s - pv_seq0 p - en_batch e) \<le> pv_rate p * (pv_next p - pv_started p)"
    using ok PNext by (auto simp: on_schedule_def)
  have "pv_rate p * (?n - pv_started p) \<le> pv_rate p * (?n' - pv_started p)"
    using r(1) by (intro mult_left_mono) auto
  moreover have "pv_rate p * (?n - pv_started p) = pv_rate p * (pv_next p - pv_started p) + of_int (en_batch e)"
    using r(2) by (simp add: algebra_simps)
  ultimately have "of_int (g_next s - pv_seq0 p) \<le> pv_rate p * (?n' - pv_started p)"
    using r(3) by simp
  then show ?thesis using ok st PNext
    by (auto simp: on_schedule_def pacer_step.simps drain_from_def Let_def simp del: if_split split: if_split_asm)
next
  case (PUnput p it)
  then show ?thesis using ok st b
    by (auto simp: on_schedule_def pacer_step.simps drain_from_def)
qed (use ok st b in \<open>auto simp: on_schedule_def pacer_step.simps drain_from_def Let_def split: if_splits nat.splits\<close>)

lemma on_schedule_reach:
  assumes "greach e (started e m now) s" and "0 < en_batch e"
  shows "on_schedule e s"
  using assms(1)
proof (induction rule: greach_rule)
  case (clock u dt)
  have "pv_rate p * (g_clock u - pv_started p) \<le> pv_rate p * (g_clock u + dt - pv_started p)"
    if "pacing_of (g_pacer u) = Some p" for p
    using clock that by (intro mult_left_mono) (auto simp: on_schedule_def)
  then show ?case using clock by (auto simp: on_schedule_def split: option.splits intro: order_trans)
next
  case (enter u i r d v)
  then show ?case using assms(2)
    by (auto simp: on_schedule_def begin_step_def step_interval_def Let_def divide_le_0_iff split: if_splits sum.splits)
next
  case (finish u v)
  then show ?case by (auto simp: on_schedule_def call_stop_def split: if_splits)
next
  case (pacer u v)
  show ?case by (rule on_schedule_pacer [OF pacer.IH assms(2) pacer.hyps(2)])
next
  case (worker u w r v)
  then have "g_pacer v = g_pacer u \<and> g_next v = g_next u \<and> g_clock v = g_clock u"
    by (cases "g_workers u ! w")
      (auto simp: worker_step.simps Let_def split: if_splits list.splits option.splits outcome.splits)
  then show ?case using worker.IH on_schedule_cong [of v u] by simp
qed (simp_all add: on_schedule_def started_def split: option.splits)

section \<open>An abort has a reason\<close>

fun hard_failure :: "outcome \<Rightarrow> bool" where
  "hard_failure (Failed c l d r) = (c \<noteq> ''RESOURCE_EXHAUSTED'')"
| "hard_failure _ = False"

fun bumping :: "worker \<Rightarrow> int" where
  \<comment> \<open>a hard failure on record whose increment of the counter is still to come\<close>
  "bumping (WDebit it c d r) = (if c \<noteq> ''RESOURCE_EXHAUSTED'' then 1 else 0)"
| "bumping (WBump c d) = 1"
| "bumping (WStore c d n) = 1"
| "bumping _ = 0"

definition abort_cause :: "engine \<Rightarrow> int \<Rightarrow> string \<Rightarrow> bool" where
  "abort_cause e n c = (en_limit e \<noteq> 0 \<and> en_limit e \<le> n \<and> c \<noteq> ''RESOURCE_EXHAUSTED'')"

fun worker_cause :: "engine \<Rightarrow> int \<Rightarrow> int \<Rightarrow> worker \<Rightarrow> bool" where
  "worker_cause e hard pend (WBump c d) = (c \<noteq> ''RESOURCE_EXHAUSTED'')"
| "worker_cause e hard pend (WStore c d n) = (c \<noteq> ''RESOURCE_EXHAUSTED'' \<and> 0 \<le> n \<and> n + pend \<le> hard)"
| "worker_cause e hard pend (WLimit c d) = (c \<noteq> ''RESOURCE_EXHAUSTED'')"
| "worker_cause e hard pend (WAbort c d) = abort_cause e hard c"
| "worker_cause e hard pend _ = True"

definition abort_ok :: "engine \<Rightarrow> gen \<Rightarrow> bool" where
  "abort_ok e s =
     (0 \<le> g_fails s \<and> g_fails s + worker_sum bumping s \<le> outcomes hard_failure (g_done s)
      \<and> (\<forall>w < length (g_workers s).
           worker_cause e (outcomes hard_failure (g_done s)) (worker_sum bumping s) (g_workers s ! w))
      \<and> (\<forall>n c d. g_abort s = Some (n, c, d) \<longrightarrow>
           abort_cause e (outcomes hard_failure (g_done s)) c \<and> n \<le> outcomes hard_failure (g_done s)))"

lemma bumping_bounds: "0 \<le> bumping pc"
  by (cases pc) simp_all

lemma bumping_sum_nonneg: "0 \<le> worker_sum bumping s"
  unfolding worker_sum_def by (intro sum_list_nonneg) (auto simp: bumping_bounds)

lemma worker_cause_mono:
  "worker_cause e h p pc \<Longrightarrow> h - p \<le> h' - p' \<Longrightarrow> h \<le> h' \<Longrightarrow> worker_cause e h' p' pc"
  by (cases pc) (auto simp: abort_cause_def)

lemma abort_ok_move:
  assumes ok: "abort_ok e s" and w: "w < length (g_workers s)" and t: "g_workers t = (g_workers s)[w := pc]"
    and done_le: "outcomes hard_failure (g_done s) \<le> outcomes hard_failure (g_done t)"
    and slack: "outcomes hard_failure (g_done s) - worker_sum bumping s
        \<le> outcomes hard_failure (g_done t) - worker_sum bumping t"
    and fails: "0 \<le> g_fails t" "g_fails t + worker_sum bumping t \<le> outcomes hard_failure (g_done t)"
    and pc: "worker_cause e (outcomes hard_failure (g_done t)) (worker_sum bumping t) pc"
    and ab: "g_abort t = g_abort s
      \<or> (\<exists>n c d. g_abort t = Some (n, c, d) \<and> abort_cause e (outcomes hard_failure (g_done t)) c
           \<and> n \<le> outcomes hard_failure (g_done t))"
  shows "abort_ok e t"
proof -
  have "worker_cause e (outcomes hard_failure (g_done t)) (worker_sum bumping t) (g_workers t ! v)"
    if "v < length (g_workers t)" for v
  proof (cases "v = w")
    case False
    with ok that t have "worker_cause e (outcomes hard_failure (g_done s)) (worker_sum bumping s) (g_workers t ! v)"
      by (simp add: abort_ok_def)
    then show ?thesis using slack done_le by (rule worker_cause_mono)
  qed (use pc t w in simp)
  moreover have "abort_cause e (outcomes hard_failure (g_done t)) c \<and> n \<le> outcomes hard_failure (g_done t)"
    if "g_abort t = Some (n, c, d)" for n c d
    using ab
  proof
    assume "g_abort t = g_abort s"
    with that have "g_abort s = Some (n, c, d)" by simp
    with ok have "abort_cause e (outcomes hard_failure (g_done s)) c \<and> n \<le> outcomes hard_failure (g_done s)"
      unfolding abort_ok_def by blast
    with done_le show ?thesis unfolding abort_cause_def by linarith
  qed (use that in auto)
  ultimately show ?thesis using fails by (simp add: abort_ok_def)
qed

lemma abort_ok_worker:
  assumes ok: "abort_ok e s" and w: "w < length (g_workers s)" and st: "worker_step e w r s = Some t"
  shows "abort_ok e t"
proof -
  let ?h = "outcomes hard_failure (g_done s)" and ?p = "worker_sum bumping s"
  have f: "0 \<le> g_fails s" "g_fails s + ?p \<le> ?h" and c: "worker_cause e ?h ?p (g_workers s ! w)"
    using ok w by (auto simp: abort_ok_def)
  show ?thesis
    using st f c w bumping_sum_nonneg [of s]
    by (cases "g_workers s ! w")
      (auto simp: worker_step.simps Let_def abort_cause_def intro!: abort_ok_move [OF ok w]
        split: if_splits list.splits option.splits outcome.splits)
qed

lemma abort_ok_quiet:
  "abort_ok e s \<Longrightarrow> g_workers t = g_workers s \<Longrightarrow> g_fails t = g_fails s \<Longrightarrow> g_done t = g_done s \<Longrightarrow>
   g_abort t = g_abort s \<Longrightarrow> abort_ok e t"
  by (simp add: abort_ok_def worker_sum_def)

lemma abort_ok_reach:
  assumes "greach e (started e m now) s"
  shows "abort_ok e s"
  using assms
proof (induction rule: greach_rule)
  case init
  show ?case
    by (auto simp: abort_ok_def started_def worker_sum_def outcomes_def sum_list_replicate)
next
  case (enter u i r d v)
  show ?case
    by (rule abort_ok_quiet [OF enter.IH]) (use enter.hyps in \<open>auto simp: main_defs split: if_splits sum.splits\<close>)
next
  case (finish u v)
  show ?case by (rule abort_ok_quiet [OF finish.IH]) (use finish.hyps in \<open>auto simp: main_defs split: if_splits\<close>)
next
  case (pacer u v)
  then have "g_workers v = g_workers u \<and> g_fails v = g_fails u \<and> g_done v = g_done u \<and> g_abort v = g_abort u"
    by (cases "g_pacer u") (auto simp: pacer_step.simps drain_from_def Let_def split: if_splits nat.splits)
  then show ?case using abort_ok_quiet [OF pacer.IH] by blast
next
  case (worker u w r v)
  show ?case by (rule abort_ok_worker [OF worker.IH worker.hyps(2,3)])
qed (auto intro: abort_ok_quiet)

end
