(* ===== verification/LoadGenProps.thy ===== *)
theory LoadGenProps
  imports LoadGenFacts
begin

text \<open>
  The properties of the load engine, as a reader of \<open>loadgen.py\<close> would state them, each over every
  state reachable from a started engine by any interleaving of the pacer, the workers, the clock,
  the signal handler, the sampler and the collector's replies. They are short consequences of the
  invariants of \<open>LoadGenFacts\<close>. The runs of \<open>demo_engine\<close> at the end of each section are concrete.
\<close>

section \<open>Small engines\<close>

definition demo_engine :: "int \<Rightarrow> engine" where
  "demo_engine workers =
     \<lparr>en_batch = 10, en_workers = workers, en_inflight = 1, en_limit = 1, en_retry = RetryNone, en_timeout = 1,
      en_pool_workers = workers, en_variants = 1, en_count = 10, en_bytes = 100\<rparr>"

definition demo_start :: "int \<Rightarrow> gen" where
  "demo_start workers = started (demo_engine workers) (init_metrics ''t'' 1 False 0) 0"

definition one_batch :: "act list" where
  \<comment> \<open>one step of one second: the pacer puts one batch, worker 0 takes, stamps and sends it\<close>
  "one_batch = ABegin 0 10 1 # replicate 7 APacer @ replicate 4 (AWorker 0 (Acked 1))"

definition after_one_batch :: "act list \<Rightarrow> gen option" where
  "after_one_batch as = grun (demo_engine 1) (one_batch @ as) (demo_start 1)"

lemma after_one_batch_reach:
  "after_one_batch as = Some s
   \<Longrightarrow> greach (demo_engine 1) (started (demo_engine 1) (init_metrics ''t'' 1 False 0) 0) s"
  unfolding after_one_batch_def demo_start_def by (rule grun_greach)

section \<open>Every batch is in one place\<close>

fun in_hand :: "worker \<Rightarrow> item list" where
  "in_hand (WGot it) = [it]"
| "in_hand (WStamped it) = [it]"
| "in_hand (WReady it) = [it]"
| "in_hand (WSending it) = [it]"
| "in_hand (WBack it r) = [it]"
| "in_hand (WJudge it r) = [it]"
| "in_hand _ = []"

definition waiting :: "item option list \<Rightarrow> item list" where
  "waiting q = concat (map (\<lambda>x. case x of None \<Rightarrow> [] | Some it \<Rightarrow> [it]) q)"

definition at_work :: "worker list \<Rightarrow> item list" where
  "at_work ws = concat (map in_hand ws)"

lemma count_weight: "sum_list (map (\<lambda>y. if y = x then 1 else 0 :: int) xs) = int (count (mset xs) x)"
  by (induction xs) auto

lemma sum_one: "sum_list (map (\<lambda>_. 1 :: int) xs) = int (length xs)"
  by (induction xs) auto

lemma queued_waiting: "queued f q = sum_list (map f (waiting q))"
  by (induction q) (auto simp: queued_def waiting_def split: option.split)

lemma held_at_work: "sum_list (map (held f) ws) = sum_list (map f (at_work ws))"
proof (induction ws)
  case (Cons pc ws)
  then show ?case by (cases pc) (simp_all add: at_work_def)
qed (simp add: at_work_def)

lemma sum_zero: "(\<And>x. x \<in> set xs \<Longrightarrow> f x = (0 :: int)) \<Longrightarrow> sum_list (map f xs) = 0"
  by (induction xs) auto

lemma flow_sum:
  fixes f :: "item \<Rightarrow> int"
  assumes "greach e (started e m now) s"
  shows "sum_list (map f (g_put s))
    = sum_list (map f (waiting (g_queue s))) + sum_list (map f (at_work (g_workers s)))
      + sum_list (map f (map fst (g_done s)))"
  using flow_reach [OF assms, of f] by (simp add: flow_def queued_waiting worker_sum_def held_at_work)

lemma tiles_batch:
  "tiles a (map (\<lambda>it. (it_seq it, b)) its) z \<Longrightarrow> k < length its \<Longrightarrow> it_seq (its ! k) = a + int k * b"
proof (induction its arbitrary: a k)
  case (Cons it its)
  then show ?case by (cases k) (auto simp: algebra_simps)
qed simp

lemma no_batch_lost_split:
  assumes "greach e (started e m now) s" and "0 \<le> en_batch e"
  shows "mset (g_put s)
       = mset (waiting (g_queue s)) + mset (at_work (g_workers s)) + mset (map fst (g_done s))"
proof (rule multiset_eqI)
  fix x
  have "int (count (mset (g_put s)) x)
      = int (count (mset (waiting (g_queue s)) + mset (at_work (g_workers s)) + mset (map fst (g_done s))) x)"
    using flow_sum [OF assms(1), of "\<lambda>y. if y = x then 1 else 0"]
    by (simp only: count_weight count_union of_nat_add)
  then show "count (mset (g_put s)) x
      = count (mset (waiting (g_queue s)) + mset (at_work (g_workers s)) + mset (map fst (g_done s))) x"
    by linarith
qed

text \<open>C1: no batch is lost and none is handled twice. At every moment the batches the pacer
  has put are, each exactly once, waiting in the queue, in the hands of a worker, or finished; and
  the k-th of them carries the k-th block of sequence numbers, whatever was given back
  unsubmitted in between.\<close>

theorem no_batch_lost:
  assumes "greach e (started e m now) s" and "0 \<le> en_batch e"
  shows "mset (g_put s)
       = mset (waiting (g_queue s)) + mset (at_work (g_workers s)) + mset (map fst (g_done s))
    \<and> (\<forall>k < length (g_put s). it_seq (g_put s ! k) = int k * en_batch e)"
proof
  have "tiles 0 (map (\<lambda>it. (it_seq it, en_batch e)) (g_put s @ pending (g_pacer s))) (g_next s)"
    using seq_ok_reach [OF assms] by (simp add: seq_ok_def)
  then have "it_seq ((g_put s @ pending (g_pacer s)) ! k) = 0 + int k * en_batch e" if "k < length (g_put s)" for k
    by (rule tiles_batch) (use that in simp)
  then show "\<forall>k < length (g_put s). it_seq (g_put s ! k) = int k * en_batch e"
    by (simp add: nth_append)
qed (rule no_batch_lost_split [OF assms])

lemma no_batch_lost_witness:
  "\<exists>s. after_one_batch [] = Some s \<and> length (g_put s) = 1
     \<and> mset (g_put s)
       = mset (waiting (g_queue s)) + mset (at_work (g_workers s)) + mset (map fst (g_done s))"
proof -
  have "map_option (\<lambda>s. length (g_put s)) (after_one_batch []) = Some 1" by code_simp
  then obtain s where s: "after_one_batch [] = Some s" "length (g_put s) = 1" by auto
  then show ?thesis using no_batch_lost [OF after_one_batch_reach [OF s(1)]] by (simp add: demo_engine_def)
qed

section \<open>The books at rest\<close>

definition failed_records :: "(item \<times> outcome) list \<Rightarrow> int" where
  "failed_records ds = sum_list (map (\<lambda>(it, r). case r of Failed c l d t \<Rightarrow> it_count it | _ \<Rightarrow> 0) ds)"

definition raised_records :: "(item \<times> outcome) list \<Rightarrow> int" where
  "raised_records ds = sum_list (map (\<lambda>(it, r). case r of Raised \<Rightarrow> it_count it | _ \<Rightarrow> 0) ds)"

lemma done_records:
  "sum_list (map it_count (map fst ds)) = acked_records ds + failed_records ds + raised_records ds"
  by (induction ds) (auto simp: acked_records_def failed_records_def raised_records_def split: outcome.split)

lemma done_requests:
  "int (length ds) = outcomes is_acked ds + outcomes is_failed ds + outcomes (\<lambda>r. r = Raised) ds"
proof (induction ds)
  case (Cons d ds)
  then show ?case by (cases "snd d") (simp_all add: outcomes_def)
qed (simp add: outcomes_def)

text \<open>C7: once the queue is empty and no worker has a batch in hand, the run's books
  balance: every record counted as offered was accepted by the collector, failed, or was in a
  call that raised, and no request is in flight. A call that raises is the only way for an offered
  batch to leave the counters without a trace.\<close>

theorem books_balance_at_rest:
  assumes "greach e (started e (init_metrics name itv pr t0) now) s"
    and "waiting (g_queue s) = []" and "at_work (g_workers s) = []" and "unrecorded (g_pacer s) = 0"
  shows "let t = m_totals (g_metrics s)
    in records_offered t = records_accepted t + failed_records (g_done s) + raised_records (g_done s)
     \<and> int (length (g_put s)) = requests_success t + requests_failed t + outcomes (\<lambda>r. r = Raised) (g_done s)
     \<and> m_inflight (g_metrics s) = 0"
proof -
  have l: "ledger_ok s" by (rule ledger_ok_reach [OF assms(1)])
  have "sum_list (map it_count (g_put s)) = sum_list (map it_count (map fst (g_done s)))"
    using flow_sum [OF assms(1), of it_count] assms(2,3) by simp
  moreover have "int (length (g_put s)) = int (length (g_done s))"
    using flow_sum [OF assms(1), of "\<lambda>_. 1"] assms(2,3) by (simp only: sum_one) simp
  moreover have "worker_sum flying s = 0"
  proof -
    have "flying pc = 0" if "pc \<in> set (g_workers s)" for pc
    proof -
      have "in_hand pc = []" using assms(3) that by (simp add: at_work_def)
      then show ?thesis by (cases pc) simp_all
    qed
    then show ?thesis unfolding worker_sum_def by (rule sum_zero)
  qed
  ultimately show ?thesis
    using l assms(4) done_records [of "g_done s"] done_requests [of "g_done s"] by (simp add: ledger_ok_def Let_def)
qed

lemma books_balance_at_rest_witness:
  "\<exists>s. after_one_batch (replicate 5 (AWorker 0 (Acked 1))) = Some s
     \<and> records_offered (m_totals (g_metrics s)) = 10 + failed_records (g_done s) + raised_records (g_done s)"
proof -
  have "map_option (\<lambda>s. (waiting (g_queue s), at_work (g_workers s), unrecorded (g_pacer s),
         records_accepted (m_totals (g_metrics s)))) (after_one_batch (replicate 5 (AWorker 0 (Acked 1))))
      = Some ([], [], 0, 10)" by code_simp
  then obtain s where s: "after_one_batch (replicate 5 (AWorker 0 (Acked 1))) = Some s"
    "waiting (g_queue s) = []" "at_work (g_workers s) = []" "unrecorded (g_pacer s) = 0"
    "records_accepted (m_totals (g_metrics s)) = 10" by auto
  have "records_offered (m_totals (g_metrics s))
      = records_accepted (m_totals (g_metrics s)) + failed_records (g_done s) + raised_records (g_done s)"
    using books_balance_at_rest [OF after_one_batch_reach [OF s(1)] s(2-4)] by (simp add: Let_def)
  with s(1,5) show ?thesis by simp
qed

section \<open>Bounds\<close>

text \<open>C32: whatever the collector does, the queue never exceeds its capacity of
  \<open>max(1, max_inflight)\<close>, and the number of requests in flight is never negative and never above
  the number of workers: it is the number of workers, not \<open>max_inflight\<close>, that bounds the requests
  in flight.\<close>

theorem queue_and_inflight_bounded:
  assumes "greach e (started e (init_metrics name itv pr t0) now) s"
  shows "int (length (g_queue s)) \<le> max 1 (en_inflight e)
    \<and> 0 \<le> m_inflight (g_metrics s) \<and> m_inflight (g_metrics s) \<le> max 0 (en_workers e)"
proof -
  have b: "bounded e s" by (rule bounded_reach [OF assms])
  moreover have "m_inflight (g_metrics s) = worker_sum flying s"
    using ledger_ok_reach [OF assms] by (simp add: ledger_ok_def Let_def)
  ultimately show ?thesis
    using flying_bound [of s] by (auto simp: bounded_def capacity_def max_def split: if_splits)
qed

lemma queue_and_inflight_bounded_witness:
  "\<exists>s. after_one_batch [] = Some s \<and> m_inflight (g_metrics s) = 1 \<and> 1 \<le> max 0 (en_workers (demo_engine 1))"
proof -
  have "map_option (\<lambda>s. m_inflight (g_metrics s)) (after_one_batch []) = Some 1" by code_simp
  then obtain s where s: "after_one_batch [] = Some s" "m_inflight (g_metrics s) = 1" by auto
  then show ?thesis using queue_and_inflight_bounded [OF after_one_batch_reach [OF s(1)]] by simp
qed

section \<open>Requests and their numbers\<close>

text \<open>C4: for an engine that was accepted by \<open>__init__\<close> over a factory with its own share of
  templates per worker, every request handed to the exporter carries exactly the sequence number of
  the batch it was sent for, although the pacer chooses the template, the workers stamp
  concurrently and nothing locks a template.\<close>

theorem requests_carry_their_numbers:
  assumes "new_engine cfg f timeout = Inr e"
    and "0 < pf_workers f" and "0 < pf_variants f"
    and "int (length (pf_templates f)) = pf_workers f * pf_variants f"
    and "greach e (started e m now) s" and "(w, it, q) \<in> set (g_sent s)"
  shows "q = it_seq it"
proof -
  have "\<not> int (length (pf_templates f)) < wl_workers (gc_workload cfg) * pf_variants f"
    and e: "en_workers e = wl_workers (gc_workload cfg)" "en_pool_workers e = pf_workers f" "en_variants e = pf_variants f"
    using assms(1) by (auto simp: new_engine_def Let_def ebind_def split: if_splits sum.splits)
  then have "wl_workers (gc_workload cfg) * pf_variants f \<le> pf_workers f * pf_variants f" using assms(4) by linarith
  then have "pool_fits e" using assms(2,3) e by (simp add: pool_fits_def mult_le_cancel_right)
  from stamps_ok_reach [OF assms(5) this] assms(6) show ?thesis by (auto simp: stamps_ok_def)
qed

definition demo_pool :: factory where
  "demo_pool =
     \<lparr>pf_gen_id = ''u'', pf_batch = 10, pf_data = [], pf_seed = 0, pf_workers = 1, pf_variants = 1,
      pf_templates = [\<lparr>tp_request = \<lparr>rq_resource = [], rq_scope = ([], []), rq_records = []\<rparr>,
                       tp_seq_values = [], tp_count = 10, tp_bytes = 100\<rparr>]\<rparr>"

definition demo_setup :: "generator_config" where
  "demo_setup =
     \<lparr>gc_profile = [], gc_description = [],
      gc_target = \<lparr>tg_host = [], tg_port = 1, tg_tls = False, tg_rpc_timeout = Fin 1\<rparr>,
      gc_auth = \<lparr>au_secret_b64 = [], au_queue = [], au_subject = [], au_ttl = 1\<rparr>,
      gc_workload = demo_workload\<lparr>wl_workers := 1, wl_batch := 10, wl_max_inflight := 1, wl_abort_limit := 1\<rparr>,
      gc_steps = [], gc_data = PNone, gc_output = PNone, gc_stop_when = PNone, gc_fault = PNone,
      gc_checkpoint = Fin 0, gc_pipeline = demo_pipeline, gc_warnings = []\<rparr>"

lemma requests_carry_their_numbers_witness:
  "\<exists>s it q. after_one_batch [] = Some s \<and> g_sent s = [(0, it, q)] \<and> q = it_seq it"
proof -
  have e: "new_engine demo_setup demo_pool 1 = Inr (demo_engine 1)" by code_simp
  have "map_option (\<lambda>s. map (\<lambda>x. fst x) (g_sent s)) (after_one_batch []) = Some [0]" by code_simp
  then obtain s it q where s: "after_one_batch [] = Some s" "g_sent s = [(0, it, q)]" by (auto simp: map_eq_Cons_conv)
  have "q = it_seq it"
    by (rule requests_carry_their_numbers [OF e _ _ _ after_one_batch_reach [OF s(1)]]) (simp_all add: s(2) demo_pool_def)
  with s show ?thesis by blast
qed

section \<open>The schedule\<close>

text \<open>The pacer is never ahead of the offered rate. At every moment of a step the
  sequence numbers it has taken exceed the rate times the time since the step began by at most one
  batch: a late pacer catches up, but never beyond the ideal timeline, re-anchored or not.\<close>

theorem pacer_never_ahead:
  assumes "greach e (started e m now) s" and "0 < en_batch e" and "pacing_of (g_pacer s) = Some p"
  shows "of_int (g_next s - pv_seq0 p) \<le> pv_rate p * (g_clock s - pv_started p) + of_int (en_batch e)"
  using on_schedule_reach [OF assms(1,2)] assms(3) by (simp add: on_schedule_def)

lemma pacer_never_ahead_witness:
  "\<exists>s p. after_one_batch [] = Some s \<and> pacing_of (g_pacer s) = Some p
     \<and> (of_int (g_next s - pv_seq0 p) :: rat) \<le> pv_rate p * (g_clock s - pv_started p) + 10"
proof -
  have "map_option (\<lambda>s. pacing_of (g_pacer s) \<noteq> None) (after_one_batch []) = Some True" by code_simp
  then obtain s p where s: "after_one_batch [] = Some s" "pacing_of (g_pacer s) = Some p" by auto
  then show ?thesis using pacer_never_ahead [OF after_one_batch_reach [OF s(1)] _ s(2)] by (auto simp: demo_engine_def)
qed

section \<open>Aborting\<close>

text \<open>A run is aborted only for a reason. When the abort reason is set, the limit is not
  zero, at least that many calls have failed with a code other than \<open>RESOURCE_EXHAUSTED\<close>, the code
  it names is such a code, and the number it names does not exceed those failures, whatever
  increments of the unlocked counter were lost in races.\<close>

theorem abort_has_a_reason:
  assumes "greach e (started e m now) s" and "g_abort s = Some (n, code, detail)"
  shows "en_limit e \<noteq> 0 \<and> en_limit e \<le> outcomes hard_failure (g_done s)
    \<and> n \<le> outcomes hard_failure (g_done s) \<and> code \<noteq> ''RESOURCE_EXHAUSTED''"
proof -
  have "abort_cause e (outcomes hard_failure (g_done s)) code \<and> n \<le> outcomes hard_failure (g_done s)"
    using abort_ok_reach [OF assms(1)] assms(2) unfolding abort_ok_def by blast
  then show ?thesis by (simp add: abort_cause_def)
qed

definition failing :: "act list" where
  "failing = replicate 8 (AWorker 0 (Failed ''UNAVAILABLE'' 1 ''down'' 0))"

lemma abort_has_a_reason_witness:
  "\<exists>s. after_one_batch failing = Some s \<and> g_abort s = Some (1, ''UNAVAILABLE'', ''down'')
     \<and> 1 \<le> outcomes hard_failure (g_done s)"
proof -
  have "map_option g_abort (after_one_batch failing) = Some (Some (1, ''UNAVAILABLE'', ''down''))" by code_simp
  then obtain s where s: "after_one_batch failing = Some s" "g_abort s = Some (1, ''UNAVAILABLE'', ''down'')" by auto
  then show ?thesis using abort_has_a_reason [OF after_one_batch_reach [OF s(1)] s(2)] by simp
qed

section \<open>The steps of a run\<close>

text \<open>C12: when no step is running, the results of the steps so far tile the sequence numbers:
  each starts where the one before it ended, together they cover the numbers from 0 up to the
  next, and the last number each claims is \<open>max(seq_start, seq_start + offered - 1)\<close>. So a step
  that offered nothing still claims one number, the first of the step after it.\<close>

theorem steps_tile_the_numbers:
  assumes "greach e (started e m now) s" and "0 \<le> en_batch e" and "en_count e = en_batch e"
    and "pacing_of (g_pacer s) = None"
  shows "covered_by (map (\<lambda>r. (sr_seq_start r, sr_offered r)) (g_results s)) = [0 .. g_next s - 1]
    \<and> (\<forall>r \<in> set (g_results s). sr_seq_end r = max (sr_seq_start r) (sr_seq_start r + sr_offered r - 1))"
proof -
  have ok: "tiles 0 (spans (sigs s)) (g_next s)" "\<forall>x \<in> set (sigs s). closed_sig x"
    using steps_ok_reach [OF assms(1-3)] assms(4) by (simp_all add: steps_ok_def)
  have "spans (sigs s) = map (\<lambda>r. (sr_seq_start r, sr_offered r)) (g_results s)"
    by (simp add: spans_def sigs_def sig_def)
  then show ?thesis using tiles_covered [OF ok(1)] ok(2) by (auto simp: sigs_def sig_def closed_sig_def)
qed

definition two_steps :: "act list" where
  \<comment> \<open>a first step that offers one batch, and a second that is stopped before it offers any\<close>
  "two_steps = replicate 2 APacer @ replicate 5 (AWorker 0 (Acked 1)) @ AClock 1 # replicate 5 APacer
     @ ABegin 1 10 1 # AInterrupt # replicate 4 APacer"

lemma steps_tile_the_numbers_witness:
  "\<exists>s. after_one_batch two_steps = Some s
     \<and> map (\<lambda>r. (sr_seq_start r, sr_offered r, sr_seq_end r)) (g_results s) = [(0, 10, 9), (10, 0, 10)]
     \<and> covered_by (map (\<lambda>r. (sr_seq_start r, sr_offered r)) (g_results s)) = [0 .. 9]"
proof -
  have "map_option (\<lambda>s. (map (\<lambda>r. (sr_seq_start r, sr_offered r, sr_seq_end r)) (g_results s),
          pacing_of (g_pacer s) = None, g_next s)) (after_one_batch two_steps)
      = Some ([(0, 10, 9), (10, 0, 10)], True, 10)" by code_simp
  then obtain s where s: "after_one_batch two_steps = Some s" "pacing_of (g_pacer s) = None" "g_next s = 10"
    "map (\<lambda>r. (sr_seq_start r, sr_offered r, sr_seq_end r)) (g_results s) = [(0, 10, 9), (10, 0, 10)]" by auto
  then show ?thesis
    using steps_tile_the_numbers [OF after_one_batch_reach [OF s(1)] _ _ s(2)] by (simp add: demo_engine_def)
qed

section \<open>Every step ends\<close>

fun moves_left :: "pacer \<Rightarrow> nat" where
  \<comment> \<open>turns of the pacer to the drain, once the stop event is set or the deadline has passed\<close>
  "moves_left (PWait p n) = 10"
| "moves_left (PTake p n) = 9"
| "moves_left (PPutting p n it t) = 9"
| "moves_left (POffer p n it t) = 8"
| "moves_left (PStalled p n it t b) = 7"
| "moves_left (PRecord p n it) = 6"
| "moves_left (PCredit p n it) = 5"
| "moves_left (PNext p n) = 4"
| "moves_left (PLoop p) = 3"
| "moves_left (PUnput p it) = 3"
| "moves_left (PDrain p l) = 2"
| "moves_left (PDrainInflight p l) = 2"
| "moves_left (PClose p) = 1"
| "moves_left _ = 0"

definition over :: "gen \<Rightarrow> bool" where
  "over s = (case pacing_of (g_pacer s) of None \<Rightarrow> True | Some p \<Rightarrow> g_stop s \<or> pv_deadline p \<le> g_clock s)"

fun drain_limit :: "pacer \<Rightarrow> rat option" where
  "drain_limit (PDrain p l) = Some l"
| "drain_limit (PDrainInflight p l) = Some l"
| "drain_limit _ = None"

definition drains_within :: "rat \<Rightarrow> gen \<Rightarrow> bool" where
  "drains_within z s = (\<forall>l. drain_limit (g_pacer s) = Some l \<longrightarrow> l \<le> z)"

fun pacer_turns :: "act list \<Rightarrow> nat" where
  "pacer_turns [] = 0"
| "pacer_turns (APacer # as) = Suc (pacer_turns as)"
| "pacer_turns (a # as) = pacer_turns as"

definition same_step :: "act list \<Rightarrow> bool" where
  \<comment> \<open>the main thread does not call \<open>run_step\<close> again meanwhile\<close>
  "same_step as = list_all (\<lambda>a. case a of ABegin i r d \<Rightarrow> False | _ \<Rightarrow> True) as"

lemma same_step_simps [simp]:
  "same_step []" "same_step (a # as) = ((\<forall>i r d. a \<noteq> ABegin i r d) \<and> same_step as)"
  by (auto simp: same_step_def split: act.split)

lemma over_pacer:
  assumes "over s" and "pacer_step e s = Some t"
  shows "over t \<and> moves_left (g_pacer t) \<le> max 2 (moves_left (g_pacer s) - 1)"
  using assms
  by (cases "g_pacer s") (auto simp: pacer_step.simps over_def drain_from_def Let_def split: if_splits nat.splits)

lemma worker_keeps_pacer:
  assumes "worker_step e w r s = Some t"
  shows "g_pacer t = g_pacer s \<and> g_clock t = g_clock s \<and> (g_stop s \<longrightarrow> g_stop t)"
  using assms
  by (cases "g_workers s ! w")
    (auto simp: worker_step.simps Let_def split: if_splits list.splits option.splits outcome.splits)

lemma over_step:
  assumes "over s" and "gstep e a s = Some t" and "\<forall>i r d. a \<noteq> ABegin i r d" and "a \<noteq> APacer"
  shows "over t \<and> moves_left (g_pacer t) \<le> moves_left (g_pacer s) \<and> g_clock s \<le> g_clock t"
proof (cases a)
  case (AWorker w r)
  then have "worker_step e w r s = Some t" using assms(2) by (simp split: if_splits)
  from worker_keeps_pacer [OF this] assms(1) show ?thesis by (auto simp: over_def split: option.splits)
qed (use assms in \<open>auto simp: over_def call_stop_def split: option.splits if_splits\<close>)

lemma pacer_clock: "pacer_step e s = Some t \<Longrightarrow> g_clock t = g_clock s"
  by (cases "g_pacer s") (auto simp: pacer_step.simps drain_from_def Let_def split: if_splits nat.splits)

lemma over_run:
  assumes "over s" and "grun e as s = Some t" and "same_step as"
  shows "over t \<and> moves_left (g_pacer t) \<le> max 2 (moves_left (g_pacer s) - pacer_turns as) \<and> g_clock s \<le> g_clock t"
  using assms
proof (induction as arbitrary: s)
  case (Cons a as)
  then obtain u where u: "gstep e a s = Some u" "grun e as u = Some t" by (auto split: option.splits)
  have one: "over u \<and> moves_left (g_pacer u) \<le> max 2 (moves_left (g_pacer s) - (if a = APacer then 1 else 0))
      \<and> g_clock s \<le> g_clock u"
  proof (cases "a = APacer")
    case True
    then have "pacer_step e s = Some u" using u(1) by simp
    from over_pacer [OF Cons.prems(1) this] pacer_clock [OF this] True show ?thesis by simp
  next
    case False
    from over_step [OF Cons.prems(1) u(1) _ False] Cons.prems(3) False show ?thesis by auto
  qed
  then have "over t \<and> moves_left (g_pacer t) \<le> max 2 (moves_left (g_pacer u) - pacer_turns as) \<and> g_clock u \<le> g_clock t"
    using Cons.IH [OF _ u(2)] Cons.prems(3) by simp
  with one show ?case by (cases a) auto
qed simp

fun drain_moves :: "pacer \<Rightarrow> nat" where
  "drain_moves (PDrainInflight p l) = 3"
| "drain_moves (PDrain p l) = 2"
| "drain_moves (PClose p) = 1"
| "drain_moves _ = 0"

definition draining :: "rat \<Rightarrow> gen \<Rightarrow> bool" where
  "draining z s = (moves_left (g_pacer s) \<le> 2 \<and> drains_within z s)"

lemma draining_step:
  assumes "draining z s" and "gstep e a s = Some t" and "\<forall>i r d. a \<noteq> ABegin i r d"
  shows "draining z t \<and> g_clock s \<le> g_clock t
    \<and> (z \<le> g_clock s \<longrightarrow> drain_moves (g_pacer t) \<le> drain_moves (g_pacer s) - (if a = APacer then 1 else 0))"
proof (cases a)
  case APacer
  then have st: "pacer_step e s = Some t" using assms(2) by simp
  show ?thesis
    using assms(1) st pacer_clock [OF st] APacer
    by (cases "g_pacer s")
      (auto simp: pacer_step.simps draining_def drains_within_def Let_def split: if_splits nat.splits)
next
  case (AWorker w r)
  then have "worker_step e w r s = Some t" using assms(2) by (simp split: if_splits)
  from worker_keeps_pacer [OF this] assms(1) AWorker show ?thesis by (auto simp: draining_def drains_within_def)
qed (use assms in \<open>auto simp: draining_def drains_within_def call_stop_def split: if_splits\<close>)

lemma draining_run:
  assumes "draining z s" and "grun e as s = Some t" and "same_step as"
  shows "draining z t \<and> g_clock s \<le> g_clock t
    \<and> (z \<le> g_clock s \<longrightarrow> drain_moves (g_pacer t) \<le> drain_moves (g_pacer s) - pacer_turns as)"
  using assms
proof (induction as arbitrary: s)
  case (Cons a as)
  then obtain u where u: "gstep e a s = Some u" "grun e as u = Some t" by (auto split: option.splits)
  have a: "\<forall>i r d. a \<noteq> ABegin i r d" "same_step as" using Cons.prems(3) by simp_all
  note one = draining_step [OF Cons.prems(1) u(1) a(1)]
  with Cons.IH [OF _ u(2) a(2)] show ?case by (cases a) auto
qed simp

lemma drain_limit_reach:
  assumes "greach e (started e m now) s"
  shows "drains_within (g_clock s + (en_timeout e + 10)) s"
  using assms
proof (induction rule: greach_rule)
  case (enter u i r d v)
  then show ?case by (auto simp: drains_within_def main_defs split: if_splits sum.splits)
next
  case (finish u v)
  then show ?case by (auto simp: drains_within_def main_defs split: if_splits)
next
  case (pacer u v)
  then show ?case
    by (cases "g_pacer u")
      (auto simp: drains_within_def pacer_step.simps drain_from_def Let_def split: if_splits nat.splits)
next
  case (worker u w r v)
  from worker_keeps_pacer [OF worker.hyps(3)] worker.IH show ?case by (simp add: drains_within_def)
qed (auto simp: drains_within_def started_def)

text \<open>C13: every step ends. Take any state in which the step's deadline has passed or the
  stop event is set, and let anything happen except the next call of \<open>run_step\<close>. After at most
  eight turns of the pacer it is draining or has returned, whatever the queue, the workers and the
  collector do; and once the clock has moved on by the RPC timeout and ten seconds it is never
  blocked and has at most two turns left before the one that returns from \<open>run_step\<close>, even if no
  reply ever comes.\<close>

theorem every_step_ends:
  assumes "greach e (started e m now) s" and "over s"
    and "grun e as s = Some t" and "same_step as" and "8 \<le> pacer_turns as \<or> pacing_of (g_pacer t) = None"
    and "grun e bs t = Some u" and "same_step bs" and "g_clock t + (en_timeout e + 10) \<le> g_clock u"
    and "grun e cs u = Some v" and "same_step cs"
  shows "pacing_of (g_pacer v) = None \<or> pacer_turns cs < 3 \<and> pacer_step e v \<noteq> None"
proof -
  have "moves_left (g_pacer s) \<le> 10" by (cases "g_pacer s") simp_all
  moreover have "moves_left (g_pacer t) \<le> max 2 (moves_left (g_pacer s) - pacer_turns as)"
    using over_run [OF assms(2,3,4)] by blast
  moreover have "pacing_of (g_pacer t) = None \<Longrightarrow> moves_left (g_pacer t) \<le> 2" by (cases "g_pacer t") simp_all
  ultimately have "moves_left (g_pacer t) \<le> 2" using assms(5) by (auto simp: max_def split: if_splits)
  moreover have "greach e (started e m now) t"
    by (rule greach_trans [OF grun_greach [OF assms(3)] assms(1)])
  ultimately have "draining (g_clock t + (en_timeout e + 10)) t"
    using drain_limit_reach by (simp add: draining_def)
  note d = draining_run [OF this assms(6,7)]
  then have "draining (g_clock t + (en_timeout e + 10)) u" ..
  note draining_run [OF this assms(9,10)]
  moreover have "drain_moves (g_pacer u) \<le> 3" by (cases "g_pacer u") simp_all
  ultimately have left: "drain_moves (g_pacer v) \<le> 3 - pacer_turns cs" "moves_left (g_pacer v) \<le> 2"
    using assms(8) by (auto simp: draining_def)
  then have "pacing_of (g_pacer v) = None \<or> drain_moves (g_pacer v) \<noteq> 0" by (cases "g_pacer v") simp_all
  moreover have "pacing_of (g_pacer v) = None \<or> pacer_step e v \<noteq> None"
    using left(2) by (cases "g_pacer v") (simp_all add: pacer_step.simps Let_def)
  ultimately show ?thesis using left(1) by auto
qed

text \<open>The worker is stuck in a call that never returns; the step still ends.\<close>

definition stuck_start :: gen where
  "stuck_start = the (after_one_batch [AClock 1])"

definition stuck_drain :: gen where
  "stuck_drain = the (grun (demo_engine 1) (replicate 9 APacer) stuck_start)"

lemma every_step_ends_witness:
  "\<exists>v. grun (demo_engine 1) (replicate 3 APacer) (stuck_drain\<lparr>g_clock := g_clock stuck_drain + 20\<rparr>) = Some v
     \<and> in_hand (g_workers v ! 0) \<noteq> [] \<and> pacing_of (g_pacer v) = None"
proof -
  have s: "after_one_batch [AClock 1] = Some stuck_start" "over stuck_start" by code_simp+
  have t: "grun (demo_engine 1) (replicate 9 APacer) stuck_start = Some stuck_drain" by code_simp
  have "map_option (\<lambda>v. in_hand (g_workers v ! 0) \<noteq> [])
       (grun (demo_engine 1) (replicate 3 APacer) (stuck_drain\<lparr>g_clock := g_clock stuck_drain + 20\<rparr>)) = Some True"
    by code_simp
  then obtain v where v: "grun (demo_engine 1) (replicate 3 APacer) (stuck_drain\<lparr>g_clock := g_clock stuck_drain + 20\<rparr>) = Some v"
    "in_hand (g_workers v ! 0) \<noteq> []" by auto
  have "pacing_of (g_pacer v) = None \<or> pacer_turns (replicate 3 APacer) < 3 \<and> pacer_step (demo_engine 1) v \<noteq> None"
  proof (rule every_step_ends [OF after_one_batch_reach [OF s(1)] s(2) t])
    show "grun (demo_engine 1) [AClock 20] stuck_drain = Some (stuck_drain\<lparr>g_clock := g_clock stuck_drain + 20\<rparr>)"
      by simp
    show "grun (demo_engine 1) (replicate 3 APacer) (stuck_drain\<lparr>g_clock := g_clock stuck_drain + 20\<rparr>) = Some v"
      by (rule v(1))
  qed (simp_all add: numeral_eq_Suc same_step_def demo_engine_def)
  with v show ?thesis by (simp add: numeral_eq_Suc)
qed

section \<open>Two things that can go wrong\<close>

definition late_ack :: "act list" where
  \<comment> \<open>the worker has taken the batch but not yet counted its request when the drain looks; the
    acknowledgement arrives during the next, interrupted step\<close>
  "late_ack = ABegin 0 10 1 # replicate 8 APacer @ AClock 1 # replicate 2 APacer @ AWorker 0 Raised # replicate 3 APacer
     @ ABegin 1 10 1 # replicate 8 (AWorker 0 (Acked 1)) @ AInterrupt # replicate 4 APacer"

text \<open>The drain can miss a batch. It looks at the queue and at the count of requests in
  flight, and a worker that has taken a batch but not yet counted its request is in neither. So a
  step can close, without its drain timing out, while a batch it offered is still to be sent, and
  that batch's acknowledgement is credited to the step after it: here a step that offered ten
  records and shows none accepted, followed by one that offered none and shows ten.\<close>

theorem drain_can_miss_a_batch:
  "map_option (\<lambda>s. (map (\<lambda>r. (sr_offered r, sr_accepted r)) (g_results s), g_pacer s = PIdle, g_clock s))
     (grun (demo_engine 1) late_ack (demo_start 1)) = Some ([(10, 0), (0, 10)], True, 1)"
  by code_simp

definition lone_sentinel :: "act list" where
  "lone_sentinel = ACallStop # replicate 3 APacer @ [AWorker 0 Raised]"

text \<open>\<open>stop\<close> does not always stop the workers. It offers one end marker per worker
  without waiting and drops the ones that find the queue full; with fewer places than workers this
  happens even on an idle engine, and the worker without a marker waits on the empty queue for
  ever, until its join times out.\<close>

theorem stop_can_strand_a_worker:
  "map_option (\<lambda>s. (g_pacer s, g_stop s, g_queue s, g_workers s, worker_step (demo_engine 2) 1 Raised s = None))
       (grun (demo_engine 2) lone_sentinel (demo_start 2))
     = Some (PJoin, True, [], [WExited, WIdle], True)"
  by code_simp

end
