(* ===== verification/Validate.thy ===== *)
theory Validate
  imports PyVal "HOL-Library.Multiset"
begin

text \<open>
  \<open>bench/validate_correctness.py\<close>: the gate that compares what landed in the lake with the
  manifest of a run. The rows of the table are a list; every query the code sends is the list
  function its SQL text says, with \<open>NULL\<close> as \<open>None\<close>. The engine's \<open>hash\<close> is a parameter, a query that
  raises is \<open>None\<close>. Attaching the catalog, parsing JSON and printing are left out.
\<close>

section \<open>The two views\<close>

record row =
  row_gen :: "string option"
  row_seq :: "int option"
  row_time :: rat
  row_severity :: "string option"
  row_body :: "string option"

definition window_rows :: "int \<Rightarrow> int \<Rightarrow> row list \<Rightarrow> row list" where
  \<comment> \<open>the bounds are whole seconds: \<open>strftime\<close> drops the fraction\<close>
  "window_rows t0 t1 rows = filter (\<lambda>r. of_int t0 \<le> row_time r \<and> row_time r \<le> of_int t1) rows"

definition of_gens :: "string list \<Rightarrow> row \<Rightarrow> bool" where
  \<comment> \<open>\<open>gen_id IN (...)\<close>, which \<open>NULL\<close> does not satisfy; no list, no filter\<close>
  "of_gens gens r = (gens = [] \<or> (case row_gen r of None \<Rightarrow> False | Some g \<Rightarrow> g \<in> set gens))"

definition run_rows :: "string list \<Rightarrow> row list \<Rightarrow> row list" where
  "run_rows gens window = filter (of_gens gens) window"

section \<open>The manifest\<close>

definition generators_of :: "pydict \<Rightarrow> pyexn + pydict list" where
  "generators_of m =
     (case py_or (dget_or m ''generators'' PNone) (PList []) of
        PList xs \<Rightarrow> emap as_dict xs | PDict _ \<Rightarrow> Inl AttributeError | PStr _ \<Rightarrow> Inl AttributeError | _ \<Rightarrow> Inl TypeError)"

fun as_text :: "pyval \<Rightarrow> pyexn + string" where
  \<comment> \<open>the receiver of \<open>.replace\<close>\<close>
  "as_text (PStr s) = Inr s" | "as_text _ = Inl AttributeError"

definition gen_ids :: "pydict \<Rightarrow> pyexn + string list" where
  "gen_ids m =
     ebind (generators_of m) (\<lambda>gs.
     emap (\<lambda>g. as_text (dget_or g ''gen_id'' PNone)) (filter (\<lambda>g. truthy (dget_or g ''gen_id'' PNone)) gs))"

fun py_floor :: "pyfloat \<Rightarrow> pyexn + int" where
  \<comment> \<open>\<open>datetime.fromtimestamp\<close> rounds to microseconds, \<open>strftime\<close> drops them\<close>
  "py_floor (Fin x) = Inr (py_round (x * 10 ^ 6) div 10 ^ 6)" | "py_floor NaN = Inl ValueError" | "py_floor _ = Inl OverflowError"

definition needed :: "pydict \<Rightarrow> string \<Rightarrow> pyexn + pyval" where
  "needed m k = (case dget m k of None \<Rightarrow> Inl KeyError | Some v \<Rightarrow> Inr v)"

definition window_of :: "rat \<Rightarrow> pydict \<Rightarrow> pyexn + int \<times> int" where
  "window_of pad m =
     ebind (needed m ''started_at_epoch'') (\<lambda>a. ebind (py_float a) (\<lambda>a'.
     ebind (needed m ''ended_at_epoch'') (\<lambda>b. ebind (py_float b) (\<lambda>b'.
     ebind (py_floor (fsub a' (Fin pad))) (\<lambda>t0. ebind (py_floor (fadd b' (Fin pad))) (\<lambda>t1. Inr (t0, t1)))))))"

section \<open>The checks\<close>

definition keys_of :: "row list \<Rightarrow> (string \<times> int) list" where
  "keys_of rows =
     List.map_filter (\<lambda>r. case (row_gen r, row_seq r) of (Some g, Some s) \<Rightarrow> Some (g, s) | _ \<Rightarrow> None) rows"

definition duplicated :: "(string \<times> int) list \<Rightarrow> (string \<times> int) list" where
  \<comment> \<open>\<open>GROUP BY 1, 2 HAVING count(*) > 1\<close>\<close>
  "duplicated ks = filter (\<lambda>k. 1 < count_list ks k) (remdups ks)"

definition excess_rows :: "(string \<times> int) list \<Rightarrow> int" where
  "excess_rows ks = sum_list (map (\<lambda>k. int (count_list ks k) - 1) (duplicated ks))"

definition seqs_of :: "string option \<Rightarrow> row list \<Rightarrow> int option list" where
  \<comment> \<open>\<open>WHERE gen_id = ?\<close>\<close>
  "seqs_of gid rows = map row_seq (filter (\<lambda>r. gid \<noteq> None \<and> row_gen r = gid) rows)"

definition some_seqs :: "int option list \<Rightarrow> int list" where
  "some_seqs = List.map_filter id"

record gen_entry =
  ge_id :: "string option"
  ge_min :: int
  ge_max :: int
  ge_span :: int
  ge_rows :: int
  ge_distinct :: int
  ge_seen_min :: "int option"
  ge_seen_max :: "int option"
  ge_unaccounted :: int

definition entry_of :: "int \<Rightarrow> int \<Rightarrow> row list \<Rightarrow> pydict \<Rightarrow> pyexn + gen_entry" where
  "entry_of offered accepted rows g =
     ebind (py_int (dget_or g ''seq_min'' (PInt 0))) (\<lambda>lo.
     ebind (py_int (dget_or g ''seq_max'' (PInt (- 1)))) (\<lambda>hi.
     let gid = (case dget g ''gen_id'' of Some (PStr s) \<Rightarrow> Some s | _ \<Rightarrow> None);
         all = seqs_of gid rows; seen = some_seqs all;
         span = max 0 (hi - lo + 1); distinct = int (length (remdups seen))
     in Inr \<lparr>ge_id = gid, ge_min = lo, ge_max = hi, ge_span = span, ge_rows = int (length all), ge_distinct = distinct,
             ge_seen_min = (if seen = [] then None else Some (Min (set seen))),
             ge_seen_max = (if seen = [] then None else Some (Max (set seen))),
             ge_unaccounted = max 0 (span - distinct - max 0 (offered - accepted))\<rparr>))"

record checksums =
  cs_rows :: int
  cs_gen :: int
  cs_seq :: int
  cs_body :: int
  cs_severity :: int

definition checksums_of :: "(string option \<Rightarrow> int) \<Rightarrow> (int option \<Rightarrow> int) \<Rightarrow> row list \<Rightarrow> checksums" where
  "checksums_of ht hi rows =
     \<lparr>cs_rows = int (length rows), cs_gen = sum_list (map (ht \<circ> row_gen) rows),
      cs_seq = sum_list (map (hi \<circ> row_seq) rows), cs_body = sum_list (map (ht \<circ> row_body) rows),
      cs_severity = sum_list (map (ht \<circ> row_severity) rows)\<rparr>"

record validation =
  va_offered :: int
  va_accepted :: int
  va_rejected :: int
  va_landed :: int
  va_window :: int
  va_foreign :: int
  va_unidentified :: int
  va_delta :: int
  va_dup_keys :: int
  va_excess :: int
  va_entries :: "gen_entry list"
  va_contiguous :: bool
  va_watermark :: "bool option"
  va_checksums :: "checksums option"
  va_failed :: "string list"

definition verdict :: "validation \<Rightarrow> bool" where
  \<comment> \<open>\<open>PASS\<close>\<close>
  "verdict v = (va_failed v = [])"

definition watermark_rows :: "int \<Rightarrow> int \<Rightarrow> (rat \<times> int) list \<Rightarrow> int" where
  "watermark_rows t0 t1 wm = sum_list (map snd (filter (\<lambda>(t, n). of_int t0 \<le> t \<and> t \<le> of_int t1) wm))"

definition failed_checks :: "(string \<times> bool) list \<Rightarrow> string list" where
  "failed_checks cs = map fst (filter (\<lambda>c. \<not> snd c) cs)"

definition validate ::
  "(row list \<Rightarrow> checksums option) \<Rightarrow> (rat \<times> int) list option \<Rightarrow> int \<Rightarrow> int \<Rightarrow> string list \<Rightarrow> row list \<Rightarrow> pydict
   \<Rightarrow> pyexn + validation" where
  "validate cksum wm t0 t1 gens table m =
     ebind (generators_of m) (\<lambda>gs.
     ebind (py_int (dget_or m ''total_accepted'' (PInt 0))) (\<lambda>accepted.
     ebind (py_int (dget_or m ''total_offered'' (PInt 0))) (\<lambda>offered.
     ebind (py_int (dget_or m ''total_rejected'' (PInt 0))) (\<lambda>rejected.
     let window = window_rows t0 t1 table; rows = run_rows gens window; ks = keys_of rows;
         landed = int (length rows); delta = landed - accepted
     in ebind (emap (entry_of offered accepted rows) gs) (\<lambda>entries.
        let contiguous = list_all (\<lambda>g. ge_unaccounted g \<le> 0) entries
        in Inr \<lparr>va_offered = offered, va_accepted = accepted, va_rejected = rejected, va_landed = landed,
                va_window = int (length window), va_foreign = int (length window) - landed,
                va_unidentified = int (length (filter (\<lambda>r. row_seq r = None \<or> row_gen r = None) rows)),
                va_delta = delta, va_dup_keys = int (length (duplicated ks)), va_excess = excess_rows ks,
                va_entries = entries, va_contiguous = contiguous,
                va_watermark = map_option (\<lambda>w. watermark_rows t0 t1 w = int (length window)) wm,
                va_checksums = cksum rows,
                va_failed = failed_checks [(''row_count'', delta = 0), (''duplicates'', duplicated ks = []),
                              (''contiguity'', contiguous)]\<rparr>)))))"

section \<open>Comparing with a baseline, and the exit code\<close>

definition checksum_columns :: "string list" where
  "checksum_columns = [''rows'', ''gen_id'', ''seq'', ''body'', ''severity_text'']"

definition checksum :: "checksums option \<Rightarrow> string \<Rightarrow> int option" where
  \<comment> \<open>\<open>(result.get('checksums') or {}).get(k)\<close>; a failed query left only an \<open>error\<close> entry\<close>
  "checksum c k =
     (case c of None \<Rightarrow> None
      | Some s \<Rightarrow> map_of [(''rows'', cs_rows s), (''gen_id'', cs_gen s), (''seq'', cs_seq s), (''body'', cs_body s),
                         (''severity_text'', cs_severity s)] k)"

definition differing :: "checksums option \<Rightarrow> checksums option \<Rightarrow> string list" where
  "differing before after = filter (\<lambda>k. checksum before k \<noteq> checksum after k) checksum_columns"

definition with_baseline :: "checksums option option \<Rightarrow> validation \<Rightarrow> validation" where
  "with_baseline base v =
     (case base of
        None \<Rightarrow> v
      | Some before \<Rightarrow>
          if differing before (va_checksums v) \<noteq> [] then v\<lparr>va_failed := va_failed v @ [''checksums_stable'']\<rparr> else v)"

definition validate_main ::
  "(row list \<Rightarrow> checksums option) \<Rightarrow> (rat \<times> int) list option \<Rightarrow> rat \<Rightarrow> checksums option option \<Rightarrow> row list \<Rightarrow> pydict
   \<Rightarrow> pyexn + int \<times> validation" where
  "validate_main cksum wm pad base table m =
     ebind (window_of pad m) (\<lambda>(t0, t1).
     ebind (gen_ids m) (\<lambda>gens.
     ebind (validate cksum wm t0 t1 gens table m) (\<lambda>v.
     let v' = with_baseline base v in Inr (if verdict v' then 0 else 1, v'))))"

section \<open>Reordering the table changes nothing\<close>

lemma count_list_mset: "mset xs = mset ys \<Longrightarrow> count_list xs = count_list ys"
  by (rule ext) (simp flip: count_mset)

lemma remdups_mset: "mset xs = mset ys \<Longrightarrow> mset (remdups xs) = mset (remdups ys)"
  by (metis mset_eq_setD set_eq_iff_mset_remdups_eq)

lemma duplicated_mset:
  assumes "mset xs = mset ys"
  shows "mset (duplicated xs) = mset (duplicated ys)"
  using remdups_mset [OF assms] by (simp add: duplicated_def count_list_mset [OF assms])

lemma sum_map_as_mset: "sum_list (map f xs) = (\<Sum>x\<in>#mset xs. f x :: int)"
  by (induction xs) simp_all

lemma sum_map_mset: "mset xs = mset ys \<Longrightarrow> sum_list (map f xs) = (sum_list (map f ys) :: int)"
  by (simp only: sum_map_as_mset)

lemma excess_rows_mset:
  assumes "mset xs = mset ys"
  shows "excess_rows xs = excess_rows ys"
  using sum_map_mset [OF duplicated_mset [OF assms]] by (simp add: excess_rows_def count_list_mset [OF assms])

lemma duplicated_Nil_mset: "mset xs = mset ys \<Longrightarrow> (duplicated xs = []) = (duplicated ys = [])"
  by (metis duplicated_mset mset_zero_iff)

lemma entry_of_mset:
  assumes "mset rows' = mset rows"
  shows "entry_of offered accepted rows' g = entry_of offered accepted rows g"
proof -
  have a: "mset (seqs_of gid rows') = mset (seqs_of gid rows)" for gid
    using assms by (simp add: seqs_of_def)
  then have b: "mset (some_seqs (seqs_of gid rows')) = mset (some_seqs (seqs_of gid rows))" for gid
    by (simp add: some_seqs_def map_filter_def)
  note facts = mset_eq_length [OF a] mset_eq_length [OF remdups_mset [OF b]] mset_eq_setD [OF b]
  have "some_seqs (seqs_of gid rows') = [] \<longleftrightarrow> some_seqs (seqs_of gid rows) = []" for gid
    using b [of gid] by (metis mset_zero_iff)
  then show ?thesis by (simp add: entry_of_def Let_def facts)
qed

lemma checksums_mset:
  assumes "mset rows' = mset rows"
  shows "checksums_of ht hi rows' = checksums_of ht hi rows"
  by (simp add: checksums_of_def mset_eq_length [OF assms] sum_map_mset [OF assms])

text \<open>The order of the rows does not matter. A merge that only moves rows around, whatever
  files it writes them to, leaves the whole result as it was: every count, every entry, the
  checksums, the comparison with a baseline and the exit code.\<close>

theorem reordering_is_invisible:
  assumes "mset table' = mset table"
  shows "validate_main (\<lambda>rs. Some (checksums_of ht hi rs)) wm pad base table' m
       = validate_main (\<lambda>rs. Some (checksums_of ht hi rs)) wm pad base table m"
proof -
  have "validate (\<lambda>rs. Some (checksums_of ht hi rs)) wm t0 t1 gens table' m
      = validate (\<lambda>rs. Some (checksums_of ht hi rs)) wm t0 t1 gens table m" for t0 t1 gens
  proof -
    have w: "mset (window_rows t0 t1 table') = mset (window_rows t0 t1 table)"
      using assms by (simp add: window_rows_def)
    then have r: "mset (run_rows gens (window_rows t0 t1 table')) = mset (run_rows gens (window_rows t0 t1 table))"
      by (simp add: run_rows_def)
    then have k: "mset (keys_of (run_rows gens (window_rows t0 t1 table')))
        = mset (keys_of (run_rows gens (window_rows t0 t1 table)))"
      by (simp add: keys_of_def map_filter_def)
    have u: "length (filter P (run_rows gens (window_rows t0 t1 table')))
        = length (filter P (run_rows gens (window_rows t0 t1 table)))" for P
      using r by (metis mset_eq_length mset_filter)
    have e: "entry_of offered accepted (run_rows gens (window_rows t0 t1 table'))
        = entry_of offered accepted (run_rows gens (window_rows t0 t1 table))" for offered accepted
      by (rule ext) (rule entry_of_mset [OF r])
    show ?thesis
      unfolding validate_def Let_def
      by (simp only: mset_eq_length [OF w] mset_eq_length [OF r] u e checksums_mset [OF r]
        mset_eq_length [OF duplicated_mset [OF k]] excess_rows_mset [OF k] duplicated_Nil_mset [OF k])
  qed
  then show ?thesis by (simp add: validate_main_def)
qed

lemma reordering_is_invisible_witness:
  "validate_main (\<lambda>rs. Some (checksums_of (\<lambda>_. 0) (\<lambda>_. 0) rs)) None 120 None
     [\<lparr>row_gen = Some ''u'', row_seq = Some 1, row_time = 0, row_severity = None, row_body = None\<rparr>,
      \<lparr>row_gen = Some ''u'', row_seq = Some 0, row_time = 0, row_severity = None, row_body = None\<rparr>] [(KStr ''started_at_epoch'', PInt 100), (KStr ''ended_at_epoch'', PInt 200)]
   = validate_main (\<lambda>rs. Some (checksums_of (\<lambda>_. 0) (\<lambda>_. 0) rs)) None 120 None
     [\<lparr>row_gen = Some ''u'', row_seq = Some 0, row_time = 0, row_severity = None, row_body = None\<rparr>,
      \<lparr>row_gen = Some ''u'', row_seq = Some 1, row_time = 0, row_severity = None, row_body = None\<rparr>] [(KStr ''started_at_epoch'', PInt 100), (KStr ''ended_at_epoch'', PInt 200)]"
  by (rule reordering_is_invisible) simp

section \<open>What the verdict says\<close>

definition one_generator :: "pydict \<Rightarrow> string \<Rightarrow> int \<Rightarrow> int \<Rightarrow> int \<Rightarrow> int \<Rightarrow> int \<Rightarrow> bool" where
  \<comment> \<open>the manifest \<open>main.py\<close> writes: one generator and integer totals\<close>
  "one_generator m gid lo hi offered accepted rejected =
     (gid \<noteq> []
      \<and> dget m ''generators'' =
          Some (PList [PDict [(KStr ''gen_id'', PStr gid), (KStr ''seq_min'', PInt lo), (KStr ''seq_max'', PInt hi)]])
      \<and> dget m ''total_offered'' = Some (PInt offered) \<and> dget m ''total_accepted'' = Some (PInt accepted)
      \<and> dget m ''total_rejected'' = Some (PInt rejected))"

lemma duplicated_Nil: "duplicated ks = [] \<longleftrightarrow> distinct ks"
proof -
  have "duplicated ks = [] \<longleftrightarrow> (\<forall>k \<in> set ks. count_list ks k \<le> 1)"
    by (auto simp: duplicated_def filter_empty_conv not_less)
  also have "\<dots> \<longleftrightarrow> (\<forall>k. count (mset ks) k = (if k \<in> set ks then 1 else 0))"
    by (auto simp: count_mset count_list_0_iff le_Suc_eq)
  also have "\<dots> \<longleftrightarrow> distinct ks" by (auto simp: distinct_count_atmost_1)
  finally show ?thesis .
qed

lemma run_rows_gen: "r \<in> set (run_rows [gid] window) \<Longrightarrow> row_gen r = Some gid"
  by (auto simp: run_rows_def of_gens_def split: option.splits)

lemma identified_rows:
  assumes "\<forall>r \<in> set rows. row_gen r = Some gid \<and> row_seq r \<noteq> None"
  shows "keys_of rows = map (\<lambda>r. (gid, the (row_seq r))) rows"
    and "some_seqs (seqs_of (Some gid) rows) = map (\<lambda>r. the (row_seq r)) rows"
    and "seqs_of (Some gid) rows = map row_seq rows"
  using assms by (induction rows) (auto simp: keys_of_def some_seqs_def seqs_of_def map_filter_simps)

lemma distinct_seqs:
  assumes "\<forall>r \<in> set rows. row_seq r \<noteq> None"
  shows "distinct (map (\<lambda>r. (gid, the (row_seq r))) rows) = distinct (map row_seq rows)"
    and "distinct (map (\<lambda>r. the (row_seq r)) rows) = distinct (map row_seq rows)"
  using assms by (induction rows) (auto simp: image_iff)

lemma verdict_iff:
  assumes "one_generator m gid lo hi offered accepted rejected" and "0 \<le> accepted" and "accepted \<le> offered"
    and "validate cksum wm t0 t1 [gid] table m = Inr v"
    and "\<forall>r \<in> set (run_rows [gid] (window_rows t0 t1 table)). row_seq r \<noteq> None"
  shows "verdict v \<longleftrightarrow>
     int (length (run_rows [gid] (window_rows t0 t1 table))) = accepted
     \<and> distinct (map row_seq (run_rows [gid] (window_rows t0 t1 table))) \<and> hi - lo + 1 \<le> offered"
proof -
  let ?rows = "run_rows [gid] (window_rows t0 t1 table)"
  have rows: "\<forall>r \<in> set ?rows. row_gen r = Some gid \<and> row_seq r \<noteq> None"
    using assms(5) run_rows_gen by blast
  have gens: "generators_of m = Inr [[(KStr ''gen_id'', PStr gid), (KStr ''seq_min'', PInt lo), (KStr ''seq_max'', PInt hi)]]"
    using assms(1) by (simp add: generators_of_def one_generator_def py_or_def)
  let ?n = "int (length (remdups (map (\<lambda>r. the (row_seq r)) ?rows)))"
  have un: "emap (entry_of offered accepted ?rows) [[(KStr ''gen_id'', PStr gid), (KStr ''seq_min'', PInt lo), (KStr ''seq_max'', PInt hi)]]
      = Inr es \<Longrightarrow> list_all (\<lambda>g. ge_unaccounted g \<le> 0) es \<longleftrightarrow> max 0 (hi - lo + 1) - ?n \<le> offered - accepted" for es
    using assms(3) by (auto simp: entry_of_def Let_def dget_or_def identified_rows(2) [OF rows])
  have v: "va_failed v = failed_checks [(''row_count'', int (length ?rows) = accepted),
      (''duplicates'', distinct (map row_seq ?rows)), (''contiguity'', max 0 (hi - lo + 1) - ?n \<le> offered - accepted)]"
    using assms(1,4) gens un
    by (auto simp: validate_def Let_def one_generator_def dget_or_def duplicated_Nil identified_rows(1) [OF rows]
      distinct_seqs(1) [OF assms(5)])
  have "?n = int (length ?rows)" if "distinct (map row_seq ?rows)"
    using that distinct_seqs(2) [OF assms(5)] by (simp add: distinct_remdups_id)
  with v assms(2,3) show ?thesis by (auto simp: verdict_def failed_checks_def)
qed

text \<open>C8: what the verdict says. For the manifest of one generator and rows that all have
  their identity, the run passes exactly when as many rows landed as were accepted, no sequence
  number twice, and the range the manifest claims is not longer than the number of records it
  says were offered. The third part is about the manifest alone: once the first two checks pass,
  the contiguity check does not look at which numbers landed.\<close>

theorem verdict_exact:
  assumes "one_generator m gid lo hi offered accepted rejected" and "0 \<le> accepted" and "accepted \<le> offered"
    and "validate cksum wm t0 t1 [gid] table m = Inr v"
    and "\<forall>r \<in> set (run_rows [gid] (window_rows t0 t1 table)). row_seq r \<noteq> None"
  shows "verdict v \<longleftrightarrow>
     int (length (run_rows [gid] (window_rows t0 t1 table))) = accepted
     \<and> distinct (map row_seq (run_rows [gid] (window_rows t0 t1 table))) \<and> hi - lo + 1 \<le> offered"
  by (rule verdict_iff [OF assms])

definition demo_row :: "string \<Rightarrow> int \<Rightarrow> row" where
  "demo_row gid n =
     \<lparr>row_gen = Some gid, row_seq = Some n, row_time = of_int n, row_severity = Some ''INFO'', row_body = Some ''b''\<rparr>"

definition demo_manifest :: "int \<Rightarrow> int \<Rightarrow> int \<Rightarrow> pydict" where
  "demo_manifest hi offered accepted =
     [(KStr ''generators'', PList [PDict [(KStr ''gen_id'', PStr ''u''), (KStr ''seq_min'', PInt 0), (KStr ''seq_max'', PInt hi)]]),
      (KStr ''total_offered'', PInt offered), (KStr ''total_accepted'', PInt accepted), (KStr ''total_rejected'', PInt 0),
      (KStr ''started_at_epoch'', PFloat (Fin 0)), (KStr ''ended_at_epoch'', PFloat (Fin 9))]"

lemma verdict_exact_witness:
  "\<exists>v. validate (\<lambda>_. None) None 0 9 [''u''] (map (demo_row ''u'') [2, 0, 1]) (demo_manifest 3 4 3) = Inr v \<and> verdict v"
proof -
  let ?table = "map (demo_row ''u'') [2, 0, 1]"
  have rows: "run_rows [''u''] (window_rows 0 9 ?table) = ?table"
    by (simp add: run_rows_def window_rows_def of_gens_def demo_row_def)
  have "isl (validate (\<lambda>_. None) None 0 9 [''u''] ?table (demo_manifest 3 4 3)) = False" by code_simp
  then obtain v where v: "validate (\<lambda>_. None) None 0 9 [''u''] ?table (demo_manifest 3 4 3) = Inr v"
    by (auto simp: isl_def) (metis sumE)
  have "one_generator (demo_manifest 3 4 3) ''u'' 0 3 4 3 0" by (simp add: one_generator_def demo_manifest_def)
  from verdict_exact [OF this _ _ v] rows v show ?thesis by (simp add: demo_row_def)
qed

section \<open>Rows of others\<close>

text \<open>Rows of other generators do not count. Two tables that hold the same rows of the
  run's generators, in the same order, give the same landed count, the same entries, the same checksums and the same
  verdict, whatever else is in the window: a probe or an overlapping test cannot fail a run.\<close>

theorem foreign_rows_ignored:
  assumes "gens \<noteq> []" and "filter (of_gens gens) table' = filter (of_gens gens) table"
  shows "map_sum id (\<lambda>v. (va_landed v, va_entries v, va_checksums v, va_dup_keys v, va_failed v))
           (validate cksum wm t0 t1 gens table' m)
       = map_sum id (\<lambda>v. (va_landed v, va_entries v, va_checksums v, va_dup_keys v, va_failed v))
           (validate cksum wm t0 t1 gens table m)"
proof -
  have "run_rows gens (window_rows t0 t1 xs) = window_rows t0 t1 (filter (of_gens gens) xs)" for xs
    by (simp add: run_rows_def window_rows_def conj_commute)
  with assms(2) have rows: "run_rows gens (window_rows t0 t1 table') = run_rows gens (window_rows t0 t1 table)" by simp
  show ?thesis
    unfolding validate_def Let_def rows by (simp add: ebind_def split: sum.split)
qed

lemma foreign_rows_ignored_witness:
  "map_sum id va_failed (validate (\<lambda>_. None) None 0 9 [''u''] (map (demo_row ''u'') [0, 1] @ [demo_row ''w'' 1]) (demo_manifest 1 2 2))
     = Inr []"
proof -
  have "filter (of_gens [''u'']) (map (demo_row ''u'') [0, 1] @ [demo_row ''w'' 1])
      = filter (of_gens [''u'']) (map (demo_row ''u'') [0, 1])"
    by (simp add: of_gens_def demo_row_def)
  note foreign_rows_ignored [OF _ this, of "\<lambda>_. None" None 0 9 "demo_manifest 1 2 2"]
  moreover have "map_sum id va_failed (validate (\<lambda>_. None) None 0 9 [''u''] (map (demo_row ''u'') [0, 1]) (demo_manifest 1 2 2)) = Inr []"
    by code_simp
  ultimately show ?thesis by (auto simp: map_sum_def split: sum.splits)
qed

section \<open>Ways to pass\<close>

lemma one_generator_validates: "one_generator m gid lo hi offered accepted rejected \<Longrightarrow> \<exists>v. validate cksum wm t0 t1 gens table m = Inr v"
  by (auto simp: validate_def Let_def one_generator_def generators_of_def entry_of_def py_or_def dget_or_def)

text \<open>C34: the gate cannot tell an acknowledged record from one that was not. Take any manifest of one generator whose range
  is no longer than what it offered, and any set of numbers of that range, as many as it says were accepted, that the
  collector acknowledged. If one of them never landed and the row of a number that was not acknowledged did, as when its
  call failed after the row had been written, the gate has a result and the run passes: the rows are counted, not compared.\<close>

theorem a_lost_row_can_pass:
  assumes "one_generator m gid lo hi offered accepted rejected" and "hi - lo + 1 \<le> offered"
    and "acked \<subseteq> {lo .. hi}" and "int (card acked) = accepted" and "lost \<in> acked" and "failed \<in> {lo .. hi} - acked"
    and "mset (map row_seq (run_rows [gid] (window_rows t0 t1 table))) = image_mset Some (mset_set (insert failed (acked - {lost})))"
  shows "\<exists>v. validate cksum wm t0 t1 [gid] table m = Inr v \<and> verdict v
    \<and> (\<forall>r \<in> set (run_rows [gid] (window_rows t0 t1 table)). row_seq r \<noteq> Some lost)"
proof -
  let ?rows = "run_rows [gid] (window_rows t0 t1 table)" and ?landed = "insert failed (acked - {lost})"
  have fin: "finite acked" using assms(3) finite_subset by blast
  have "0 < card acked" using fin assms(5) by (auto simp: card_gt_0_iff)
  then have card: "card ?landed = card acked" using fin assms(5,6) by simp
  have set: "set (map row_seq ?rows) = Some ` ?landed" using arg_cong [OF assms(7), of set_mset] fin by simp
  then have seq: "\<forall>r \<in> set ?rows. row_seq r \<noteq> None" "\<forall>r \<in> set ?rows. row_seq r \<noteq> Some lost" using assms(5,6) by force+
  have "length ?rows = card acked" using arg_cong [OF assms(7), of size] card by simp
  moreover have "card (Some ` ?landed) = card acked" unfolding card [symmetric] by (rule card_image) (rule inj_Some)
  then have "distinct (map row_seq ?rows)"
    using set \<open>length ?rows = card acked\<close> by (intro card_distinct) (simp only: length_map)
  moreover have "accepted \<le> offered" using card_mono [OF _ assms(3)] assms(2,4,6) by auto
  moreover obtain v where v: "validate cksum wm t0 t1 [gid] table m = Inr v" using one_generator_validates [OF assms(1)] by blast
  ultimately have "verdict v" using verdict_iff [OF assms(1) _ _ v seq(1)] assms(2,4) by simp
  with v seq(2) show ?thesis by blast
qed

text \<open>The numbers 0 and 1 were acknowledged, the call for 2 failed after its row had been written; 0 was lost.\<close>

lemma a_lost_row_can_pass_witness:
  "\<exists>v. validate (\<lambda>_. None) None 0 9 [''u''] (map (demo_row ''u'') [1, 2]) (demo_manifest 2 3 2) = Inr v \<and> verdict v"
proof -
  have "one_generator (demo_manifest 2 3 2) ''u'' 0 2 3 2 0" by (simp add: one_generator_def demo_manifest_def)
  moreover have "mset (map row_seq (run_rows [''u''] (window_rows 0 9 (map (demo_row ''u'') [1, 2]))))
      = image_mset Some (mset_set (insert 2 ({0, 1} - {0})))"
    by (simp add: run_rows_def window_rows_def of_gens_def demo_row_def insert_Diff_if)
  ultimately show ?thesis using a_lost_row_can_pass [where acked = "{0, 1}" and lost = 0 and failed = 2] by fastforce
qed

lemma failed_checksums_agree: "va_checksums v = None \<Longrightarrow> with_baseline (Some None) v = v"
  \<comment> \<open>a merge whose checksum query failed before and after counts as one that changed nothing\<close>
  by (simp add: with_baseline_def differing_def)

lemma lossy_validation:
  obtains v where "validate (\<lambda>_. None) None 0 9 [''u''] (map (demo_row ''u'') [0, 1]) (demo_manifest 3 4 3) = Inr v"
    and "va_landed v = 2" and "va_accepted v = 3"
proof -
  have "map_sum id (\<lambda>v. (va_landed v, va_accepted v)) (validate (\<lambda>_. None) None 0 9 [''u''] (map (demo_row ''u'') [0, 1]) (demo_manifest 3 4 3))
      = Inr (2, 3)" by code_simp
  then show thesis using that by (auto simp: map_sum_def split: sum.splits)
qed

lemma clean_validation:
  obtains v where "validate (\<lambda>_. None) None 0 9 [''u''] (map (demo_row ''u'') [0, 1]) (demo_manifest 1 2 2) = Inr v" and "verdict v"
proof -
  have "map_sum id va_failed (validate (\<lambda>_. None) None 0 9 [''u''] (map (demo_row ''u'') [0, 1]) (demo_manifest 1 2 2)) = Inr []"
    by code_simp
  then show thesis using that by (auto simp: map_sum_def verdict_def split: sum.splits)
qed

lemma validate_delta: "validate cksum wm t0 t1 gens table m = Inr v \<Longrightarrow> va_delta v = va_landed v - va_accepted v"
  by (auto simp: validate_def Let_def)

lemma validate_shortfall:
  assumes "validate cksum wm t0 t1 gens table m = Inr v" and "va_landed v < va_accepted v"
  shows "va_delta v = va_landed v - va_accepted v" and "\<not> verdict v"
  using assms by (auto simp: validate_def Let_def verdict_def failed_checks_def)

lemma baseline_never_mends: "verdict (with_baseline base v) \<Longrightarrow> verdict v"
  by (auto simp: with_baseline_def verdict_def split: option.splits if_splits)

end
