(* ===== verification/EndToEnd.thy ===== *)
theory EndToEnd
  imports GenMain LoadGenProps Validate
begin

text \<open>
  From the load engine to the verdict. A driver of \<open>main.py\<close> that follows the engine's laws writes
  a manifest whose range and totals agree with what the engine did, and so it is known exactly when
  the gate of \<open>validate_correctness.py\<close> passes the run. The laws are the locale \<open>engine_driver\<close>;
  the driver that plays any given interleaving of the engine of \<open>LoadGen\<close> satisfies them.
\<close>

section \<open>Between steps\<close>

lemma idle_step:
  assumes "pacing_of (g_pacer s) = None" and "gstep e a s = Some t" and "\<forall>i r d. a \<noteq> ABegin i r d"
  shows "pacing_of (g_pacer t) = None \<and> g_next t = g_next s \<and> length (g_results t) = length (g_results s)"
proof (cases a)
  case APacer
  then have "pacer_step e s = Some t" using assms(2) by simp
  with assms(1) show ?thesis
    by (cases "g_pacer s") (auto simp: pacer_step.simps split: if_splits nat.splits)
next
  case (AWorker w r)
  then have "worker_step e w r s = Some t" using assms(2) by (simp split: if_splits)
  with assms(1) show ?thesis
    by (cases "g_workers s ! w")
      (auto simp: worker_step.simps Let_def split: if_splits list.splits option.splits outcome.splits)
qed (use assms in \<open>auto simp: call_stop_def split: if_splits\<close>)

lemma idle_run:
  assumes "pacing_of (g_pacer s) = None" and "grun e as s = Some t" and "same_step as"
  shows "pacing_of (g_pacer t) = None \<and> g_next t = g_next s"
  using assms
proof (induction as arbitrary: s)
  case (Cons a as)
  then obtain u where u: "gstep e a s = Some u" "grun e as u = Some t" by (auto split: option.splits)
  have a: "\<forall>i r d. a \<noteq> ABegin i r d" "same_step as" using Cons.prems(3) by simp_all
  from idle_step [OF Cons.prems(1) u(1) a(1)] Cons.IH [OF _ u(2) a(2)] show ?case by simp
qed simp

lemma step_keeps_results:
  assumes "gstep e a s = Some t" and "\<forall>i r d. a \<noteq> ABegin i r d"
  shows "length (g_results t) = length (g_results s)"
proof (cases a)
  case APacer
  then have "pacer_step e s = Some t" using assms(1) by simp
  then show ?thesis
    by (cases "g_pacer s") (auto simp: pacer_step.simps drain_from_def Let_def split: if_splits nat.splits)
next
  case (AWorker w r)
  then have "worker_step e w r s = Some t" using assms(1) by (simp split: if_splits)
  then show ?thesis
    by (cases "g_workers s ! w")
      (auto simp: worker_step.simps Let_def split: if_splits list.splits option.splits outcome.splits)
qed (use assms in \<open>auto simp: call_stop_def split: if_splits\<close>)

lemma run_keeps_results:
  "grun e as s = Some t \<Longrightarrow> same_step as \<Longrightarrow> length (g_results t) = length (g_results s)"
proof (induction as arbitrary: s)
  case (Cons a as)
  then obtain u where u: "gstep e a s = Some u" "grun e as u = Some t" by (auto split: option.splits)
  from step_keeps_results [OF u(1)] Cons.IH [OF u(2)] Cons.prems(2) show ?case by simp
qed simp

section \<open>The counters between steps\<close>

lemma put_counts:
  assumes "seq_ok e s" and "pending (g_pacer s) = []" and "en_count e = en_batch e"
  shows "sum_list (map it_count (g_put s)) = g_next s"
proof -
  have eq: "map it_count (g_put s) = map snd (map (\<lambda>it. (it_seq it, en_batch e)) (g_put s))"
    using assms by (simp add: seq_ok_def)
  have t: "tiles 0 (map (\<lambda>it. (it_seq it, en_batch e)) (g_put s)) (g_next s)"
    using assms(1,2) by (simp add: seq_ok_def)
  show ?thesis unfolding eq using tiles_count [OF t] by simp
qed

lemma idle_pending: "pacing_of p = None \<Longrightarrow> pending p = [] \<and> unrecorded p = 0"
  by (cases p) simp_all

lemma records_nonneg:
  assumes "\<forall>d \<in> set ds. 0 \<le> it_count (fst d)"
  shows "0 \<le> acked_records ds \<and> 0 \<le> failed_records ds \<and> 0 \<le> raised_records ds"
  unfolding acked_records_def failed_records_def raised_records_def
  using assms by (intro conjI sum_list_nonneg) (auto split: outcome.splits)

lemma idle_totals:
  assumes reach: "greach e (started e (init_metrics name itv pr t0) now) s" and idle: "pacing_of (g_pacer s) = None"
    and batch: "0 \<le> en_batch e" "en_count e = en_batch e"
  shows "records_offered (m_totals (g_metrics s)) = g_next s
    \<and> 0 \<le> records_accepted (m_totals (g_metrics s))
    \<and> records_accepted (m_totals (g_metrics s)) \<le> records_offered (m_totals (g_metrics s))
    \<and> records_offered (m_totals (g_metrics s)) = sum_list (map it_count (g_put s))
    \<and> records_accepted (m_totals (g_metrics s)) = acked_records (g_done s)
    \<and> records_rejected (m_totals (g_metrics s)) = rejected_records (g_done s)"
proof -
  have seq: "seq_ok e s" by (rule seq_ok_reach [OF reach batch(1)])
  have led: "ledger_ok s" by (rule ledger_ok_reach [OF reach])
  have off: "records_offered (m_totals (g_metrics s)) = sum_list (map it_count (g_put s))"
    using led idle_pending [OF idle] by (simp add: ledger_ok_def Let_def)
  have all: "mset (g_put s) = mset (waiting (g_queue s)) + mset (at_work (g_workers s)) + mset (map fst (g_done s))"
    using no_batch_lost_split [OF reach batch(1)] .
  have pos: "\<forall>it \<in> set (g_put s). 0 \<le> it_count it" using seq batch by (auto simp: seq_ok_def)
  have sub: "set (waiting (g_queue s)) \<union> set (at_work (g_workers s)) \<union> set (map fst (g_done s)) = set (g_put s)"
    using arg_cong [OF all, of set_mset] by simp
  then have "\<forall>it \<in> set (waiting (g_queue s)). 0 \<le> it_count it" "\<forall>it \<in> set (at_work (g_workers s)). 0 \<le> it_count it"
    using pos by blast+
  then have "0 \<le> sum_list (map it_count (waiting (g_queue s)))" "0 \<le> sum_list (map it_count (at_work (g_workers s)))"
    by (auto intro!: sum_list_nonneg)
  moreover have "0 \<le> acked_records (g_done s) \<and> 0 \<le> failed_records (g_done s) \<and> 0 \<le> raised_records (g_done s)"
    using pos sub by (intro records_nonneg) auto
  moreover have "sum_list (map it_count (g_put s)) = sum_list (map it_count (waiting (g_queue s)))
      + sum_list (map it_count (at_work (g_workers s))) + sum_list (map it_count (map fst (g_done s)))"
    by (rule flow_sum [OF reach])
  moreover note done_records [of "g_done s"]
  ultimately show ?thesis
    using off put_counts [OF seq _ batch(2)] idle_pending [OF idle] led by (simp add: ledger_ok_def Let_def)
qed

section \<open>The laws of an engine\<close>

locale engine_driver =
  fixes d :: "'w driver" and eng :: "'w \<Rightarrow> engine" and gen_of :: "'w \<Rightarrow> gen"
  assumes start_law: "dv_start d cfg f i p = Inr w
      \<Longrightarrow> \<exists>timeout name itv now. new_engine cfg f timeout = Inr (eng w)
            \<and> gen_of w = started (eng w) (init_metrics name itv p now) now"
    and step_law: "dv_run_step d w st = (Inr r, w') \<Longrightarrow> pacing_of (g_pacer (gen_of w)) = None
      \<Longrightarrow> eng w' = eng w \<and> greach (eng w) (gen_of w) (gen_of w') \<and> pacing_of (g_pacer (gen_of w')) = None
        \<and> (\<exists>old. length old = length (g_results (gen_of w)) \<and> g_results (gen_of w') = old @ [r])"
    and stop_law: "pacing_of (g_pacer (gen_of w)) = None \<Longrightarrow> eng (dv_stop d w) = eng w
      \<and> greach (eng w) (gen_of w) (gen_of (dv_stop d w)) \<and> pacing_of (g_pacer (gen_of (dv_stop d w))) = None
      \<and> g_next (gen_of (dv_stop d w)) = g_next (gen_of w)"
    and totals_law: "dv_totals d w = m_totals (g_metrics (gen_of w))"
begin

lemma plan_reach:
  assumes "run_plan d rules steps w = (Inr rs, w')" and "pacing_of (g_pacer (gen_of w)) = None"
  shows "eng w' = eng w \<and> greach (eng w) (gen_of w) (gen_of w') \<and> pacing_of (g_pacer (gen_of w')) = None
    \<and> (rs \<noteq> [] \<longrightarrow> g_results (gen_of w') \<noteq> [] \<and> last (g_results (gen_of w')) = last rs)
    \<and> (rs = [] \<longrightarrow> w' = w)"
  using assms
proof (induction steps arbitrary: w rs)
  case (Cons st rest)
  show ?case
  proof (cases "dv_interrupted d w")
    case True
    with Cons.prems show ?thesis by (simp add: greach_init)
  next
    case False
    with Cons.prems(1) obtain r w1 where step: "dv_run_step d w st = (Inr r, w1)"
      by (cases "dv_run_step d w st"; cases "fst (dv_run_step d w st)") auto
    note law = step_law [OF step Cons.prems(2)]
    from Cons.prems(1) False step obtain b where b: "should_stop rules r (dv_p99 d w1) = Inr b"
      by (cases "should_stop rules r (dv_p99 d w1)") auto
    show ?thesis
    proof (cases b)
      case True
      with Cons.prems(1) False step b law show ?thesis by auto
    next
      case go: False
      with Cons.prems(1) False step b obtain qs where qs: "run_plan d rules rest w1 = (Inr qs, w')" "rs = r # qs"
        by (cases "run_plan d rules rest w1"; cases "fst (run_plan d rules rest w1)") auto
      from Cons.IH [OF qs(1)] law have ih: "eng w' = eng w1" "greach (eng w1) (gen_of w1) (gen_of w')"
        "pacing_of (g_pacer (gen_of w')) = None"
        "qs \<noteq> [] \<longrightarrow> g_results (gen_of w') \<noteq> [] \<and> last (g_results (gen_of w')) = last qs" "qs = [] \<longrightarrow> w' = w1"
        by auto
      have "greach (eng w) (gen_of w) (gen_of w')"
        using greach_trans ih(2) law by metis
      with ih law qs(2) show ?thesis by auto
    qed
  qed
qed (simp add: greach_init)

lemma first_result:
  assumes "run_plan d rules steps w = (Inr rs, w')" and "rs \<noteq> []"
    and "gen_of w = started (eng w) m now" and "0 \<le> en_batch (eng w)" and "en_count (eng w) = en_batch (eng w)"
  shows "sr_seq_start (hd rs) = 0"
proof -
  obtain st rest where steps: "steps = st # rest" using assms(1,2) by (cases steps) auto
  have idle: "pacing_of (g_pacer (gen_of w)) = None" and none: "g_results (gen_of w) = []"
    using assms(3) by (simp_all add: started_def)
  from assms(1,2) steps obtain r w1 where step: "dv_run_step d w st = (Inr r, w1)"
    by (cases "dv_run_step d w st"; cases "fst (dv_run_step d w st)") (auto split: if_splits)
  note law = step_law [OF step idle]
  from law none have res: "g_results (gen_of w1) = [r]" by auto
  have "steps_ok (eng w) (gen_of w1)"
    by (rule steps_ok_reach) (use law assms(3-5) in auto)
  then have "sr_seq_start r = 0"
    using law res by (auto simp: steps_ok_def sigs_def sig_def spans_def)
  moreover have "hd rs = r"
    using assms(1,2) steps step
    by (cases "should_stop rules r (dv_p99 d w1)"; cases "run_plan d rules rest w1"; cases "fst (run_plan d rules rest w1)")
      (auto split: if_splits bool.splits)
  ultimately show ?thesis by simp
qed

lemma last_result:
  assumes "run_plan d rules steps w = (Inr rs, w')" and "rs \<noteq> []"
    and "gen_of w = started (eng w) m now" and "0 \<le> en_batch (eng w)" and "en_count (eng w) = en_batch (eng w)"
  shows "sr_seq_end (last rs) = g_next (gen_of w') - (if sr_offered (last rs) = 0 then 0 else 1)"
proof -
  have idle: "pacing_of (g_pacer (gen_of w)) = None" using assms(3) by (simp add: started_def)
  note p = plan_reach [OF assms(1) idle]
  let ?l = "last rs" and ?rs = "g_results (gen_of w')"
  have "steps_ok (eng w) (gen_of w')" by (rule steps_ok_reach) (use p assms(3-5) in auto)
  then have ok: "tiles 0 (spans (sigs (gen_of w'))) (g_next (gen_of w'))" "\<forall>x \<in> set (sigs (gen_of w')). closed_sig x"
    using p by (simp_all add: steps_ok_def)
  have "?rs = butlast ?rs @ [?l]" using p assms(2) by (metis append_butlast_last_id)
  then have "sigs (gen_of w') = map sig (butlast ?rs) @ [sig ?l]" by (metis sigs_def map_append list.simps(8,9))
  with ok have "0 \<le> sr_offered ?l" "g_next (gen_of w') = sr_seq_start ?l + sr_offered ?l"
    "sr_seq_end ?l = max (sr_seq_start ?l) (sr_seq_start ?l + sr_offered ?l - 1)"
    by (simp_all add: sig_def tiles_snoc closed_sig_def)
  then show ?thesis by (simp add: max_def)
qed

lemma manifest_agrees:
  assumes start: "dv_start d cfg f i p = Inr w" and run: "run_plan d rules steps w = (Inr rs, w')" and "rs \<noteq> []"
    and batch: "0 \<le> en_batch (eng w)" "en_count (eng w) = en_batch (eng w)" and "gid \<noteq> []"
  shows "let g = gen_of (dv_stop d w'); offered = sum_list (map it_count (g_put g)); accepted = acked_records (g_done g);
           hi = sr_seq_end (last rs)
    in one_generator (manifest_of d cfg test_id gid md rs (dv_stop d w')) gid 0 hi offered accepted (rejected_records (g_done g))
      \<and> 0 \<le> accepted \<and> accepted \<le> offered \<and> offered = g_next g
      \<and> hi + 1 = offered + (if sr_offered (last rs) = 0 then 1 else 0)"
proof -
  from start_law [OF start] obtain name itv now where w: "gen_of w = started (eng w) (init_metrics name itv p now) now"
    by blast
  have idle: "pacing_of (g_pacer (gen_of w)) = None" by (simp add: w started_def)
  note p = plan_reach [OF run idle]
  then have idle': "pacing_of (g_pacer (gen_of w')) = None" by blast
  note q = stop_law [OF idle']
  let ?g = "gen_of (dv_stop d w')"
  have "greach (eng w) (gen_of w') ?g" using p q by simp
  then have "greach (eng w) (started (eng w) (init_metrics name itv p now) now) ?g"
    using greach_trans p w by metis
  from idle_totals [OF this _ batch] q have t: "records_offered (m_totals (g_metrics ?g)) = g_next (gen_of w')"
    "0 \<le> records_accepted (m_totals (g_metrics ?g))"
    "records_accepted (m_totals (g_metrics ?g)) \<le> records_offered (m_totals (g_metrics ?g))"
    "records_offered (m_totals (g_metrics ?g)) = sum_list (map it_count (g_put ?g))"
    "records_accepted (m_totals (g_metrics ?g)) = acked_records (g_done ?g)"
    "records_rejected (m_totals (g_metrics ?g)) = rejected_records (g_done ?g)" by auto
  have one: "one_generator (manifest_of d cfg test_id gid md rs (dv_stop d w')) gid 0 (sr_seq_end (last rs))
      (records_offered (m_totals (g_metrics ?g))) (records_accepted (m_totals (g_metrics ?g)))
      (records_rejected (m_totals (g_metrics ?g)))"
    using first_result [OF run assms(3) w batch] assms(3,6)
    by (cases "dv_window d (dv_stop d w')") (simp add: one_generator_def manifest_of_def Let_def totals_law)
  have "sr_seq_end (last rs) + 1 = records_offered (m_totals (g_metrics ?g)) + (if sr_offered (last rs) = 0 then 1 else 0)"
    using t(1) last_result [OF run assms(3) w batch] by simp
  moreover have "records_offered (m_totals (g_metrics ?g)) = g_next ?g" using t(1) q by simp
  ultimately show ?thesis using one t(2,3) unfolding t(4-6) Let_def by (intro conjI)
qed

end

section \<open>Playing an interleaving\<close>

record play =
  \<comment> \<open>the engine, the interleaving of each step to come and of the shutdown, and the signal flag\<close>
  pl_engine :: engine
  pl_gen :: gen
  pl_steps :: "act list list"
  pl_end :: "act list"
  pl_interrupted :: bool

fun play_step :: "play \<Rightarrow> step \<Rightarrow> (pyexn + step_result) \<times> play" where
  \<comment> \<open>\<open>run_step\<close> under the next interleaving, which must lead to its return\<close>
  "play_step w st =
     (case (st_rps st, st_duration st, pl_steps w) of
        (Fin r, Fin d, as # rest) \<Rightarrow>
          (case grun (pl_engine w) (ABegin (st_index st) r d # as) (pl_gen w) of
             Some t \<Rightarrow>
               if same_step as \<and> g_pacer t = PIdle \<and> g_results t \<noteq> []
               then (Inr (last (g_results t)),
                     w\<lparr>pl_gen := t, pl_steps := rest, pl_interrupted := pl_interrupted w \<or> AInterrupt \<in> set as\<rparr>)
               else (Inl RuntimeError, w)
           | None \<Rightarrow> (Inl RuntimeError, w))
      | _ \<Rightarrow> (Inl RuntimeError, w))"

definition play_stop :: "play \<Rightarrow> play" where
  "play_stop w =
     (if same_step (pl_end w)
      then (case grun (pl_engine w) (ACallStop # pl_end w) (pl_gen w) of None \<Rightarrow> w | Some t \<Rightarrow> w\<lparr>pl_gen := t\<rparr>)
      else w)"

definition played :: "rat \<Rightarrow> string \<Rightarrow> rat \<Rightarrow> rat \<Rightarrow> act list list \<Rightarrow> act list \<Rightarrow> play driver" where
  "played timeout name itv now steps fin =
     \<lparr>dv_start = (\<lambda>cfg f i p. ebind (new_engine cfg f timeout) (\<lambda>e.
        Inr \<lparr>pl_engine = e, pl_gen = started e (init_metrics name itv p now) now, pl_steps = steps, pl_end = fin,
             pl_interrupted = False\<rparr>)),
      dv_interrupted = pl_interrupted, dv_run_step = play_step,
      dv_p99 = (\<lambda>w. rt_p99 (snapshot (g_clock (pl_gen w)) (g_metrics (pl_gen w)))),
      dv_stop = play_stop, dv_totals = (\<lambda>w. m_totals (g_metrics (pl_gen w))), dv_totals_json = (\<lambda>_. []),
      dv_step_json = (\<lambda>_. []), dv_abort = (\<lambda>w. g_abort (pl_gen w)), dv_window = (\<lambda>w. (now, g_clock (pl_gen w))),
      dv_time = (\<lambda>_. [])\<rparr>"

lemma play_step_Inr:
  assumes "play_step w st = (Inr r, w')" and "pacing_of (g_pacer (pl_gen w)) = None"
  shows "pl_engine w' = pl_engine w \<and> greach (pl_engine w) (pl_gen w) (pl_gen w') \<and> pacing_of (g_pacer (pl_gen w')) = None
    \<and> (\<exists>old. length old = length (g_results (pl_gen w)) \<and> g_results (pl_gen w') = old @ [r])"
proof -
  from assms(1) obtain x d as rest t where t: "grun (pl_engine w) (ABegin (st_index st) x d # as) (pl_gen w) = Some t"
    "same_step as" "g_pacer t = PIdle" "g_results t \<noteq> []" "r = last (g_results t)" "pl_gen w' = t" "pl_engine w' = pl_engine w"
    by (auto simp: play_step.simps simp del: grun.simps split: pyfloat.splits list.splits option.splits if_splits)
  from t(1) obtain u where u: "begin_step (pl_engine w) (st_index st) x d (pl_gen w) = Some u" "grun (pl_engine w) as u = Some t"
    by (auto split: option.splits)
  then have "length (g_results t) = Suc (length (g_results (pl_gen w)))"
    using run_keeps_results [OF u(2) t(2)] by (auto simp: begin_step_def Let_def split: if_splits sum.splits)
  then have "length (butlast (g_results t)) = length (g_results (pl_gen w)) \<and> g_results t = butlast (g_results t) @ [r]"
    using t(4,5) by simp
  then have "\<exists>old. length old = length (g_results (pl_gen w)) \<and> g_results (pl_gen w') = old @ [r]"
    unfolding t(6) by blast
  with t grun_greach [OF t(1)] show ?thesis by (simp del: grun.simps)
qed

lemma play_stop_laws:
  assumes "pacing_of (g_pacer (pl_gen w)) = None"
  shows "pl_engine (play_stop w) = pl_engine w \<and> greach (pl_engine w) (pl_gen w) (pl_gen (play_stop w))
    \<and> pacing_of (g_pacer (pl_gen (play_stop w))) = None \<and> g_next (pl_gen (play_stop w)) = g_next (pl_gen w)"
proof (cases "same_step (pl_end w) \<and> grun (pl_engine w) (ACallStop # pl_end w) (pl_gen w) \<noteq> None")
  case True
  then obtain t where t: "grun (pl_engine w) (ACallStop # pl_end w) (pl_gen w) = Some t" by blast
  with True grun_greach [OF t] idle_run [OF assms t] show ?thesis by (simp add: play_stop_def)
next
  case False
  then have "play_stop w = w" by (auto simp: play_stop_def split: option.splits)
  with assms show ?thesis by (simp add: greach_init)
qed

interpretation playing: engine_driver "played timeout name itv now steps fin" pl_engine pl_gen
proof
  show "pl_engine w' = pl_engine w \<and> greach (pl_engine w) (pl_gen w) (pl_gen w') \<and> pacing_of (g_pacer (pl_gen w')) = None
      \<and> (\<exists>old. length old = length (g_results (pl_gen w)) \<and> g_results (pl_gen w') = old @ [r])"
    if "dv_run_step (played timeout name itv now steps fin) w st = (Inr r, w')" "pacing_of (g_pacer (pl_gen w)) = None"
    for w st r w'
    using that by (intro play_step_Inr) (simp_all add: played_def)
  show "pl_engine (dv_stop (played timeout name itv now steps fin) w) = pl_engine w
      \<and> greach (pl_engine w) (pl_gen w) (pl_gen (dv_stop (played timeout name itv now steps fin) w))
      \<and> pacing_of (g_pacer (pl_gen (dv_stop (played timeout name itv now steps fin) w))) = None
      \<and> g_next (pl_gen (dv_stop (played timeout name itv now steps fin) w)) = g_next (pl_gen w)"
    if "pacing_of (g_pacer (pl_gen w)) = None" for w
    using play_stop_laws [OF that] by (simp add: played_def)
qed (auto simp: played_def intro!: exI)

section \<open>The manifest and the verdict\<close>

text \<open>C11: the manifest tells the truth, up to one number. Take any interleaving of any
  plan, interrupted, aborted or complete, in which \<open>main.py\<close> comes to write its manifest. It names
  the one generator and its range starts at 0. The records it says were offered are those of the batches that
  were put into the queue, as many as sequence numbers were used; those it says were accepted are exactly the records of
  the calls that the collector acknowledged, those rejected of the calls it answered with its limit. It never claims
  more accepted than offered, and its range has one number per offered record, except that it has one more when the last
  step offered nothing.\<close>

theorem manifest_agrees_with_run:
  assumes "dv_start (played timeout name itv now steps fin) cfg f i p = Inr w"
    and "run_plan (played timeout name itv now steps fin) rules plan w = (Inr rs, w')" and "rs \<noteq> []"
    and "0 \<le> en_batch (pl_engine w)" and "en_count (pl_engine w) = en_batch (pl_engine w)" and "gid \<noteq> []"
  shows "let stopped = dv_stop (played timeout name itv now steps fin) w'; g = pl_gen stopped; hi = sr_seq_end (last rs);
           offered = sum_list (map it_count (g_put g)); accepted = acked_records (g_done g)
    in one_generator (manifest_of (played timeout name itv now steps fin) cfg test_id gid md rs stopped) gid 0 hi
         offered accepted (rejected_records (g_done g))
      \<and> 0 \<le> accepted \<and> accepted \<le> offered \<and> offered = g_next g
      \<and> hi + 1 = offered + (if sr_offered (last rs) = 0 then 1 else 0)"
  unfolding Let_def by (rule playing.manifest_agrees [OF assms, unfolded Let_def])

text \<open>C2: when a run passes. The manifest of any interleaving of any plan, put to the gate with
  rows that all have their identity, passes exactly when as many rows landed as were accepted,
  none twice, and the last step of the plan that was entered offered something. So a run that lost
  and duplicated nothing still fails if it was aborted with steps left in its plan, or
  stopped before its last step had offered its first batch.\<close>

theorem run_passes_iff:
  assumes "dv_start (played timeout name itv now steps fin) cfg f i p = Inr w"
    and "run_plan (played timeout name itv now steps fin) rules plan w = (Inr rs, w')" and "rs \<noteq> []"
    and "0 \<le> en_batch (pl_engine w)" and "en_count (pl_engine w) = en_batch (pl_engine w)" and "gid \<noteq> []"
    and "validate cksum wm t0 t1 [gid] table (manifest_of (played timeout name itv now steps fin) cfg test_id gid md rs
           (dv_stop (played timeout name itv now steps fin) w')) = Inr v"
    and "\<forall>r \<in> set (run_rows [gid] (window_rows t0 t1 table)). row_seq r \<noteq> None"
  shows "verdict v \<longleftrightarrow> int (length (run_rows [gid] (window_rows t0 t1 table))) = va_accepted v
     \<and> distinct (map row_seq (run_rows [gid] (window_rows t0 t1 table))) \<and> sr_offered (last rs) \<noteq> 0"
proof -
  from playing.manifest_agrees [OF assms(1-6)] obtain hi offered accepted rejected where m:
    "one_generator (manifest_of (played timeout name itv now steps fin) cfg test_id gid md rs
          (dv_stop (played timeout name itv now steps fin) w')) gid 0 hi offered accepted rejected"
    "0 \<le> accepted" "accepted \<le> offered" "hi + 1 = offered + (if sr_offered (last rs) = 0 then 1 else 0)" unfolding Let_def by blast
  have "va_accepted v = accepted"
    using assms(7) m(1) by (auto simp: validate_def Let_def one_generator_def dget_or_def)
  with verdict_iff [OF m(1-3) assms(7,8)] m(4) show ?thesis by auto
qed

text \<open>A run of two steps: the first offers one batch, which is acknowledged; the second is
  interrupted before it offers any. All ten rows land, once.\<close>

definition demo_steps :: "step list" where
  "demo_steps = [\<lparr>st_index = 0, st_rps = Fin 10, st_duration = Fin 1\<rparr>, \<lparr>st_index = 1, st_rps = Fin 10, st_duration = Fin 1\<rparr>]"

definition demo_played :: "play driver" where
  "demo_played = played 1 ''t'' 1 0
     [replicate 7 APacer @ replicate 4 (AWorker 0 (Acked 1)) @ replicate 2 APacer @ replicate 5 (AWorker 0 (Acked 1))
        @ AClock 1 # replicate 5 APacer,
      AInterrupt # replicate 4 APacer] []"

definition demo_world :: play where
  "demo_world = \<lparr>pl_engine = demo_engine 1, pl_gen = demo_start 1, pl_steps =
     [replicate 7 APacer @ replicate 4 (AWorker 0 (Acked 1)) @ replicate 2 APacer @ replicate 5 (AWorker 0 (Acked 1))
        @ AClock 1 # replicate 5 APacer,
      AInterrupt # replicate 4 APacer], pl_end = [], pl_interrupted = False\<rparr>"

definition demo_results :: "step_result list" where
  "demo_results = (case fst (run_plan demo_played PNone demo_steps demo_world) of Inr rs \<Rightarrow> rs | Inl e \<Rightarrow> [])"

definition demo_after :: play where
  "demo_after = snd (run_plan demo_played PNone demo_steps demo_world)"

lemma demo_start: "dv_start demo_played demo_setup demo_pool (Fin 1) False = Inr demo_world"
proof -
  have "new_engine demo_setup demo_pool 1 = Inr (demo_engine 1)" by code_simp
  then show ?thesis by (simp add: demo_played_def played_def demo_world_def demo_start_def)
qed

lemma demo_offered: "map sr_offered demo_results = [10, 0]"
  by code_simp

lemma demo_plan: "run_plan demo_played PNone demo_steps demo_world = (Inr demo_results, demo_after)"
proof -
  have "demo_results \<noteq> []" using demo_offered by auto
  then show ?thesis
    unfolding demo_results_def demo_after_def by (auto simp: prod_eq_iff split: sum.splits)
qed

lemma demo_nonempty: "demo_results \<noteq> []" "sr_offered (last demo_results) = 0"
proof -
  show "demo_results \<noteq> []" using demo_offered by auto
  then show "sr_offered (last demo_results) = 0" using demo_offered last_map [of demo_results sr_offered] by simp
qed

lemma manifest_agrees_with_run_witness:
  "one_generator (manifest_of demo_played demo_setup ''t'' ''u'' [] demo_results (dv_stop demo_played demo_after)) ''u'' 0
     10 10 10 0"
proof -
  have totals: "sr_seq_end (last demo_results) = 10 \<and> sum_list (map it_count (g_put (pl_gen (dv_stop demo_played demo_after)))) = 10
    \<and> acked_records (g_done (pl_gen (dv_stop demo_played demo_after))) = 10
    \<and> rejected_records (g_done (pl_gen (dv_stop demo_played demo_after))) = 0" by code_simp
  note manifest_agrees_with_run [OF demo_start [unfolded demo_played_def] demo_plan [unfolded demo_played_def] demo_nonempty(1),
      where gid = "''u''" and test_id = "''t''" and md = "[]", folded demo_played_def]
  then show ?thesis using totals by (simp add: demo_world_def demo_engine_def Let_def)
qed

lemma run_passes_iff_witness:
  "\<exists>v. validate (\<lambda>_. None) None 0 9 [''u''] (map (demo_row ''u'') [0 .. 9])
         (manifest_of demo_played demo_setup ''t'' ''u'' [] demo_results (dv_stop demo_played demo_after)) = Inr v
     \<and> va_accepted v = 10 \<and> \<not> verdict v"
proof -
  let ?table = "map (demo_row ''u'') [0 .. 9]"
  let ?m = "manifest_of demo_played demo_setup ''t'' ''u'' [] demo_results (dv_stop demo_played demo_after)"
  have rows: "run_rows [''u''] (window_rows 0 9 ?table) = ?table"
    by (simp add: run_rows_def window_rows_def of_gens_def demo_row_def)
  have "map_sum id va_accepted (validate (\<lambda>_. None) None 0 9 [''u''] ?table ?m) = Inr 10" by code_simp
  then obtain v where v: "validate (\<lambda>_. None) None 0 9 [''u''] ?table ?m = Inr v" "va_accepted v = 10"
    by (cases "validate (\<lambda>_. None) None 0 9 [''u''] ?table ?m") auto
  have "\<not> verdict v"
    using run_passes_iff [OF demo_start [unfolded demo_played_def] demo_plan [unfolded demo_played_def] demo_nonempty(1)
        _ _ _ v(1) [unfolded demo_played_def]] rows demo_nonempty(2)
    by (simp add: demo_world_def demo_engine_def demo_row_def)
  with v show ?thesis by blast
qed

end
