(* ===== verification/CfgTool.thy ===== *)
theory CfgTool
  imports Config TextOps
begin

text \<open>
  \<open>scripts/lib/cfg.py\<close>: reading one value out of a configuration file from a shell script. The
  file is missing, not YAML, or a value; what is printed is a list of texts beside the exit code.
  How \<open>json.dumps\<close> and \<open>str\<close> print containers and floats are the arguments \<open>js\<close> and \<open>rend\<close>.
  \<open>expand\<close> is the same function as \<open>_expand\<close> of the generator, \<open>Config.expand_node\<close>.
\<close>

section \<open>Paths\<close>

definition index_of :: "string \<Rightarrow> nat" where
  \<comment> \<open>\<open>int(s)\<close> of digits\<close>
  "index_of s = num_of_digits (map digit_val s)"

definition child :: "pyval \<Rightarrow> string \<Rightarrow> pyval option" where
  "child node part =
     (case node of
        PDict d \<Rightarrow> dget d part
      | PList xs \<Rightarrow> if all_digits part \<and> index_of part < length xs then Some (xs ! index_of part) else None
      | _ \<Rightarrow> None)"

fun walk :: "pyval \<Rightarrow> string list \<Rightarrow> pyval option" where
  "walk node [] = Some node"
| "walk node (p # ps) = (case child node p of None \<Rightarrow> None | Some v \<Rightarrow> walk v ps)"

definition dig :: "pyval \<Rightarrow> string \<Rightarrow> pyval option" where
  \<comment> \<open>\<open>None\<close> is \<open>_MISSING\<close>\<close>
  "dig doc dotted = (if dotted = [] then Some doc else walk doc (split_on (CHR ''.'') dotted))"

section \<open>Printing\<close>

fun render_scalar :: "(pyval \<Rightarrow> string) \<Rightarrow> (pyval \<Rightarrow> string) \<Rightarrow> pyval \<Rightarrow> string" where
  "render_scalar js rend (PBool b) = (if b then ''true'' else ''false'')"
| "render_scalar js rend PNone = []"
| "render_scalar js rend (PDict d) = js (PDict d)"
| "render_scalar js rend (PList xs) = js (PList xs)"
| "render_scalar js rend v = py_str rend v"

definition key_text :: "pykey \<Rightarrow> string" where
  "key_text k = (case k of KStr s \<Rightarrow> s | KInt i \<Rightarrow> show_int i)"

section \<open>The command\<close>

datatype config_file = Missing | NotYaml | Parsed pyval

datatype command =
    Get string "string option"
  | Json string
  | Keys string

definition load_file :: "env \<Rightarrow> config_file \<Rightarrow> int + pyval" where
  \<comment> \<open>or the exit code: \<open>sys.exit(text)\<close> exits with 1\<close>
  "load_file env f =
     (case f of Missing \<Rightarrow> Inl 1 | NotYaml \<Rightarrow> Inl 2 | Parsed v \<Rightarrow> Inr (expand_node env (py_or v (PDict []))))"

definition cfg_main ::
  "(pyval \<Rightarrow> string) \<Rightarrow> (pyval \<Rightarrow> string) \<Rightarrow> env \<Rightarrow> config_file \<Rightarrow> command \<Rightarrow> string list \<times> int" where
  "cfg_main js rend env f cmd =
     (case load_file env f of
        Inl code \<Rightarrow> ([], code)
      | Inr doc \<Rightarrow>
          (case cmd of
             Get path fallback \<Rightarrow>
               (case dig doc path of
                  None \<Rightarrow> (case fallback of Some t \<Rightarrow> ([t], 0) | None \<Rightarrow> ([], 3))
                | Some v \<Rightarrow> ([render_scalar js rend v], 0))
           | Json path \<Rightarrow> (case dig doc path of None \<Rightarrow> ([], 3) | Some v \<Rightarrow> ([js v], 0))
           | Keys path \<Rightarrow>
               (case dig doc path of
                  Some (PDict d) \<Rightarrow> (map (\<lambda>kv. key_text (fst kv)) d, 0)
                | _ \<Rightarrow> ([], 3))))"

section \<open>Paths compose\<close>

lemma walk_append: "walk v (ps @ qs) = (case walk v ps of None \<Rightarrow> None | Some u \<Rightarrow> walk u qs)"
  by (induction ps arbitrary: v) (auto split: option.splits)

lemma dig_join:
  "p \<noteq> [] \<Longrightarrow> q \<noteq> [] \<Longrightarrow> dig doc (p @ ''.'' @ q) = (case dig doc p of None \<Rightarrow> None | Some v \<Rightarrow> dig v q)"
  by (simp add: dig_def split_on_append walk_append split: option.split)

lemma show_int_plain: "show_int i \<noteq> [] \<and> CHR ''.'' \<notin> set (show_int i)"
proof -
  have "\<not> is_digit (CHR ''.'')" by (simp add: is_digit_def)
  then have "CHR ''.'' \<notin> set (show_nat n)" for n
    using show_nat_digits [of n] by blast
  then show ?thesis by (simp add: show_int_def show_nat_nonempty)
qed

text \<open>What \<open>keys\<close> prints, \<open>get\<close> finds, with two exceptions. After \<open>keys\<close> succeeded on
  a path, every printed text key without a dot leads \<open>get\<close> to its value; but an integer key (as the
  status codes of \<open>http_status_mix\<close> are in YAML) is printed and cannot be read back, since a path
  part is always a text. A missing path exits with 3, and so does \<open>keys\<close> on a path that is
  present and not a mapping.\<close>

theorem keys_then_get:
  assumes "load_file env f = Inr doc" and "path \<noteq> []" and "dig doc path = Some (PDict d)" and "wf_dict d"
    and "(k, v) \<in> set d"
  shows "key_text k \<in> set (fst (cfg_main js rend env f (Keys path)))
    \<and> (\<forall>s. k = KStr s \<longrightarrow> s \<noteq> [] \<longrightarrow> CHR ''.'' \<notin> set s
         \<longrightarrow> cfg_main js rend env f (Get (path @ ''.'' @ s) None) = ([render_scalar js rend v], 0))
    \<and> (\<forall>i. k = KInt i \<longrightarrow> KStr (show_int i) \<notin> fst ` set d
         \<longrightarrow> cfg_main js rend env f (Get (path @ ''.'' @ show_int i) None) = ([], 3))"
proof -
  have get: "dig doc (path @ ''.'' @ s) = dget d s" if "s \<noteq> []" "CHR ''.'' \<notin> set s" for s
    using dig_join [OF assms(2) that(1), of doc] assms(3) that by (simp add: dig_def split_on_none child_def split: option.split)
  have found: "dget d s = Some v" if "k = KStr s" for s
    using assms(4,5) that by (simp add: wf_dict_def)
  have lost: "dget d s = None" if "KStr s \<notin> fst ` set d" for s
    using that by (simp add: map_of_eq_None_iff)
  show ?thesis
  proof (intro conjI allI impI)
    have "fst (cfg_main js rend env f (Keys path)) = map (\<lambda>kv. key_text (fst kv)) d"
      using assms(1,3) by (simp add: cfg_main_def)
    then show "key_text k \<in> set (fst (cfg_main js rend env f (Keys path)))" using assms(5) by force
    show "cfg_main js rend env f (Get (path @ ''.'' @ s) None) = ([render_scalar js rend v], 0)"
      if "k = KStr s" "s \<noteq> []" "CHR ''.'' \<notin> set s" for s
      using get [OF that(2,3)] found [OF that(1)] assms(1) by (simp only: cfg_main_def) simp
    show "cfg_main js rend env f (Get (path @ ''.'' @ show_int i) None) = ([], 3)"
      if "KStr (show_int i) \<notin> fst ` set d" for i
      using get show_int_plain lost [OF that] assms(1) by (simp only: cfg_main_def) simp
  qed
qed

lemma keys_then_get_witness:
  "cfg_main (\<lambda>_. []) (\<lambda>_. []) (\<lambda>_. None) (Parsed (PDict [(KStr ''mix'', PDict [(KInt 200, PBool True), (KStr ''x'', PInt 1)])]))
     (Get ''mix.200'' None) = ([], 3)"
proof -
  let ?f = "Parsed (PDict [(KStr ''mix'', PDict [(KInt 200, PBool True), (KStr ''x'', PInt 1)])])"
  let ?doc = "PDict [(KStr ''mix'', PDict [(KInt 200, PBool True), (KStr ''x'', PInt 1)])]"
  have "load_file (\<lambda>_. None) ?f = Inr ?doc" by (simp add: load_file_def py_or_def expand_node.simps)
  moreover have "dig ?doc ''mix'' = Some (PDict [(KInt 200, PBool True), (KStr ''x'', PInt 1)])"
    by (simp add: dig_def child_def)
  moreover have "show_int 200 = ''200''" by code_simp
  ultimately show ?thesis
    using keys_then_get [of "\<lambda>_. None" ?f ?doc "''mix''" "[(KInt 200, PBool True), (KStr ''x'', PInt 1)]" "KInt 200" "PBool True" "\<lambda>_. []" "\<lambda>_. []"]
    by (simp add: wf_dict_def)
qed

end
