(* ===== verification/SqlExec.thy ===== *)
theory SqlExec
  imports TextOps
begin

text \<open>
  \<open>scripts/lib/duckdb_exec.py\<close>: splitting a text into SQL statements, running them one after the
  other until one fails, printing the results, and hiding passwords in what is reported. The
  database is a state and a function on it; JSON and CSV output are arguments.
\<close>

section \<open>Hiding passwords\<close>

definition secret_key :: string where
  "secret_key = ''password=''"

lemma length_dropWhile_drop: "length (dropWhile P (drop n cs)) \<le> length cs"
  using length_dropWhile_le [of P "drop n cs"] by simp

function redact :: "string \<Rightarrow> string" where
  \<comment> \<open>\<open>re.sub(r'(password=)\S+', r'\1***', text)\<close>\<close>
  "redact [] = []"
| "redact (c # cs) =
     (if take 9 (c # cs) = secret_key \<and> drop 9 (c # cs) \<noteq> [] \<and> not_space (hd (drop 9 (c # cs)))
      then secret_key @ ''***'' @ redact (dropWhile not_space (drop 9 (c # cs)))
      else c # redact cs)"
  by pat_completeness auto
termination
  by (relation "measure length") (auto simp: le_imp_less_Suc length_dropWhile_drop)

section \<open>Splitting statements\<close>

definition sq :: char where
  \<comment> \<open>a single quote\<close>
  "sq = CHR 0x27"

definition push :: "string \<Rightarrow> string list \<Rightarrow> string list" where
  \<comment> \<open>\<open>stmt = ''.join(buf).strip(); if stmt: out.append(stmt)\<close>\<close>
  "push buf out = (if strip buf = [] then out else out @ [strip buf])"

fun split_loop :: "string \<Rightarrow> string list \<Rightarrow> string \<Rightarrow> bool \<Rightarrow> string list" where
  \<comment> \<open>the rest of the text, \<open>out\<close>, \<open>buf\<close>, \<open>in_quote\<close>\<close>
  "split_loop [] out buf q = push buf out"
| "split_loop (c # cs) out buf q =
     (if c = sq then
        (case cs of
           d # ds \<Rightarrow> if q \<and> d = sq then split_loop ds out (buf @ [sq, sq]) q else split_loop cs out (buf @ [c]) (\<not> q)
         | [] \<Rightarrow> split_loop cs out (buf @ [c]) (\<not> q))
      else if c = CHR '';'' \<and> \<not> q then split_loop cs (push buf out) [] q
      else split_loop cs out (buf @ [c]) q)"

definition split_statements :: "string \<Rightarrow> string list" where
  "split_statements sql = split_loop sql [] [] False"

section \<open>Printing a table\<close>

definition ljust :: "nat \<Rightarrow> string \<Rightarrow> string" where
  "ljust w s = s @ replicate (w - length s) (CHR '' '')"

definition widths :: "string list \<Rightarrow> string list list \<Rightarrow> nat list" where
  \<comment> \<open>a row shorter than the header raises in Python; the driver returns none such\<close>
  "widths columns rows = map (\<lambda>i. foldl max (length (columns ! i)) (map (\<lambda>r. length (r ! i)) rows)) [0 ..< length columns]"

fun join_with :: "string \<Rightarrow> string list \<Rightarrow> string" where
  "join_with sep [] = []" | "join_with sep [s] = s" | "join_with sep (s # t # ss) = s @ sep @ join_with sep (t # ss)"

definition table_line :: "nat list \<Rightarrow> string list \<Rightarrow> string" where
  "table_line ws cells = join_with ''  '' (map2 ljust ws cells)"

definition table_lines :: "string list \<Rightarrow> string list list \<Rightarrow> string list" where
  "table_lines columns rows =
     (let ws = widths columns rows
      in table_line ws columns # join_with ''  '' (map (\<lambda>w. replicate w (CHR ''-'')) ws) # map (table_line ws) rows)"

datatype out_format = Table | AsJson | AsCsv | NoOutput

definition emit :: "(out_format \<Rightarrow> string list \<Rightarrow> string list list \<Rightarrow> string list) \<Rightarrow> out_format
    \<Rightarrow> string list \<Rightarrow> string list list \<Rightarrow> string list" where
  "emit other fmt columns rows =
     (if fmt = NoOutput \<or> columns = [] then []
      else if fmt = AsJson \<or> fmt = AsCsv then other fmt columns rows
      else table_lines columns rows)"

section \<open>Running\<close>

type_synonym 'c database = "'c \<Rightarrow> string \<Rightarrow> (string + (string list \<times> string list list)) \<times> 'c"

record report =
  rp_out :: "string list"
  rp_err :: "string list"
  rp_code :: int

fun run_statements ::
  "'c database \<Rightarrow> (out_format \<Rightarrow> string list \<Rightarrow> string list list \<Rightarrow> string list) \<Rightarrow> out_format \<Rightarrow> bool \<Rightarrow> nat
   \<Rightarrow> string list \<Rightarrow> 'c \<Rightarrow> report \<times> 'c" where
  \<comment> \<open>the statement number, what is left, the database\<close>
  "run_statements db other fmt last_only idx [] c = (\<lparr>rp_out = [], rp_err = [], rp_code = 0\<rparr>, c)"
| "run_statements db other fmt last_only idx (stmt # rest) c =
     (case db c stmt of
        (Inl exn, c') \<Rightarrow>
          (\<lparr>rp_out = [],
            rp_err = [''statement '' @ show_nat (idx + 1) @ '' failed: '' @ redact exn,
                      ''  sql: '' @ take 300 (redact stmt)],
            rp_code = 1\<rparr>, c')
      | (Inr (columns, rows), c') \<Rightarrow>
          (let (r, c'') = run_statements db other fmt last_only (idx + 1) rest c'
           in (r\<lparr>rp_out := (if last_only \<and> rest \<noteq> [] then [] else emit other fmt columns rows) @ rp_out r\<rparr>, c'')))"

definition sql_main ::
  "'c database \<Rightarrow> (out_format \<Rightarrow> string list \<Rightarrow> string list list \<Rightarrow> string list) \<Rightarrow> out_format \<Rightarrow> bool \<Rightarrow> string \<Rightarrow> 'c
   \<Rightarrow> report \<times> 'c" where
  "sql_main db other fmt last_only sql c = run_statements db other fmt last_only 0 (split_statements sql) c"

section \<open>The secret does not show\<close>

definition match_at :: "string \<Rightarrow> bool" where
  "match_at t = (take 9 t = secret_key \<and> drop 9 t \<noteq> [] \<and> not_space (hd (drop 9 t)))"

lemma redact_match: "match_at t \<Longrightarrow> redact t = secret_key @ ''***'' @ redact (dropWhile not_space (drop 9 t))"
  by (cases t) (auto simp: match_at_def)

lemma redact_skip: "\<not> match_at (c # t) \<Longrightarrow> redact (c # t) = c # redact t"
  by (auto simp: match_at_def)

declare redact.simps(2) [simp del]

lemma secret_key_length [simp]: "length secret_key = 9"
  by (simp add: secret_key_def)

lemma secret_key_chars: "\<forall>c \<in> set secret_key. not_space c"
  by (simp add: secret_key_def not_space_def is_space_def)

lemma equals_last: "i < 9 \<Longrightarrow> secret_key ! i = CHR ''='' \<longleftrightarrow> i = 8"
proof -
  assume "i < 9"
  then have "i \<in> {0, 1, 2, 3, 4, 5, 6, 7, 8}" by auto
  then show ?thesis by (auto simp: secret_key_def)
qed

lemma no_overlap:
  assumes "0 < length p" and "length p < 9"
  shows "take 9 (p @ secret_key @ r) \<noteq> secret_key"
proof
  assume eq: "take 9 (p @ secret_key @ r) = secret_key"
  let ?i = "8 - length p"
  have i: "?i < 9" "\<not> 8 < length p" using assms by linarith+
  have "secret_key ! 8 = take 9 (p @ secret_key @ r) ! 8" by (simp only: eq)
  also have "\<dots> = (p @ secret_key @ r) ! 8" by (rule nth_take) simp
  also have "\<dots> = secret_key ! ?i" using i by (simp only: nth_append secret_key_length if_True if_False)
  finally have "secret_key ! ?i = secret_key ! 8" by (rule sym)
  moreover have "secret_key ! 8 = CHR ''='' \<longleftrightarrow> (8 :: nat) = 8" by (rule equals_last) simp
  ultimately have "?i = 8" using equals_last [OF i(1)] by metis
  with assms show False by linarith
qed

definition secret :: "string \<Rightarrow> bool" where
  "secret s = (s \<noteq> [] \<and> list_all not_space s)"

definition ends_token :: "string \<Rightarrow> bool" where
  "ends_token r = (r = [] \<or> is_space (hd r))"

lemma drop_secret: "secret s \<Longrightarrow> ends_token r \<Longrightarrow> dropWhile not_space (s @ r) = r"
  by (cases r) (auto simp: secret_def ends_token_def not_space_def list_all_iff dropWhile_append3)

lemma drop_to_rest:
  assumes "secret s" and "ends_token r" and "\<forall>c \<in> set q. not_space c"
  shows "dropWhile not_space (q @ secret_key @ s @ r) = r"
  using assms drop_secret [OF assms(1,2)] secret_key_chars by (simp add: dropWhile_append2)

lemma redact_independent:
  assumes "secret s" and "secret s'" and "ends_token r"
  shows "redact (p @ secret_key @ s @ r) = redact (p @ secret_key @ s' @ r)"
proof (induction p rule: length_induct)
  case (1 p)
  have hd9: "hd (s @ r) = hd s" "not_space (hd s)" if "secret s" for s
    using that by (auto simp: secret_def list_all_iff hd_append)
  show ?case
  proof (cases "p = []")
    case True
    have "redact (secret_key @ s @ r) = secret_key @ ''***'' @ redact r" if "secret s" for s
      using redact_match [of "secret_key @ s @ r"] drop_secret [OF that assms(3)] hd9 [OF that] that
      by (simp add: match_at_def secret_def)
    with True assms show ?thesis by simp
  next
    case False
    then obtain c q where p: "p = c # q" by (cases p) auto
    show ?thesis
    proof (cases "length p < 9")
      case True
      have "\<not> match_at (p @ secret_key @ s @ r)" for s
        using no_overlap [of p "s @ r"] False True by (simp add: match_at_def)
      with 1 p show ?thesis by (simp add: redact_skip)
    next
      case long: False
      have at: "match_at (p @ secret_key @ s @ r) \<longleftrightarrow> take 9 p = secret_key \<and> not_space (hd (drop 9 p @ secret_key))" for s
        using long by (simp add: match_at_def hd_append) (simp add: secret_key_def)
      show ?thesis
      proof (cases "take 9 p = secret_key \<and> not_space (hd (drop 9 p @ secret_key))")
        case False
        with at 1 p show ?thesis by (simp add: redact_skip)
      next
        case True
        have rest: "redact (p @ secret_key @ s @ r)
            = secret_key @ ''***'' @ redact (dropWhile not_space (drop 9 p @ secret_key @ s @ r))" for s
          using at True long redact_match [of "p @ secret_key @ s @ r"] by simp
        show ?thesis
        proof (cases "\<forall>c \<in> set (drop 9 p). not_space c")
          case True
          then show ?thesis unfolding rest using drop_to_rest assms by simp
        next
          case False
          then have "dropWhile not_space (drop 9 p @ t) = dropWhile not_space (drop 9 p) @ t" for t
            by (metis dropWhile_append1)
          moreover have "length (dropWhile not_space (drop 9 p)) < length p"
            using length_dropWhile_le [of not_space "drop 9 p"] long by simp
          ultimately show ?thesis unfolding rest using 1 by simp
        qed
      qed
    qed
  qed
qed

section \<open>Where a statement ends\<close>

definition quotes :: "string \<Rightarrow> nat" where
  "quotes s = count_list s sq"

fun split_even :: "string \<Rightarrow> string \<Rightarrow> bool \<Rightarrow> string list" where
  \<comment> \<open>cut at every semicolon that has an even number of quotes before it\<close>
  "split_even [] buf q = [buf]"
| "split_even (c # cs) buf q =
     (if c = CHR '';'' \<and> \<not> q then buf # split_even cs [] q
      else split_even cs (buf @ [c]) (if c = sq then \<not> q else q))"

definition statements :: "string \<Rightarrow> string list" where
  "statements sql = filter (\<lambda>s. s \<noteq> []) (map strip (split_even sql [] False))"

lemma sq_not_semicolon [simp]: "sq \<noteq> CHR '';''" "CHR '';'' \<noteq> sq"
  by (simp_all add: sq_def)

lemma split_loop_even:
  "split_loop cs out buf q = out @ filter (\<lambda>s. s \<noteq> []) (map strip (split_even cs buf q))"
proof (induction cs out buf q rule: split_loop.induct)
  case (2 c cs out buf q)
  show ?case
  proof (cases "c = sq")
    case True
    then show ?thesis
    proof (cases cs)
      case Nil
      with True 2 show ?thesis by (auto simp: push_def)
    next
      case (Cons d ds)
      with True 2 show ?thesis by (cases "q \<and> d = sq") auto
    qed
  next
    case False
    with 2 show ?thesis by (auto simp: push_def)
  qed
qed (auto simp: push_def)

text \<open>C33: where a statement ends. The special case for a doubled quote makes no difference:
  the text is cut at exactly the semicolons with an even number of single quotes before them, and the
  pieces are stripped and the empty ones dropped. A value that is quoted the way
  \<open>validate_correctness.py\<close> quotes its generator ids is inside one statement, whatever semicolons it has.\<close>

theorem split_at_even_quotes:
  "split_statements sql = statements sql
   \<and> split_statements (''SELECT '' @ [sq] @ concat (map (\<lambda>c. if c = sq then [sq, sq] else [c]) v) @ [sq])
     = [''SELECT '' @ [sq] @ concat (map (\<lambda>c. if c = sq then [sq, sq] else [c]) v) @ [sq]]"
proof
  show "split_statements sql = statements sql"
    by (simp add: split_statements_def statements_def split_loop_even)
  let ?q = "\<lambda>v. concat (map (\<lambda>c. if c = sq then [sq, sq] else [c]) v)"
  have "split_even (?q v @ [sq]) buf True = [buf @ ?q v @ [sq]]" for buf
    by (induction v arbitrary: buf) auto
  moreover have "split_even (''SELECT '' @ [sq] @ t) [] False = split_even t (''SELECT '' @ [sq]) True" for t
    by (simp add: sq_def)
  ultimately have e: "split_even (''SELECT '' @ [sq] @ ?q v @ [sq]) [] False = [''SELECT '' @ [sq] @ ?q v @ [sq]]" by simp
  have "strip (''SELECT '' @ [sq] @ t @ [sq]) = ''SELECT '' @ [sq] @ t @ [sq]" for t
    by (simp add: strip_def is_space_def sq_def)
  with e show "split_statements (''SELECT '' @ [sq] @ ?q v @ [sq]) = [''SELECT '' @ [sq] @ ?q v @ [sq]]"
    by (simp add: split_statements_def split_loop_even)
qed

text \<open>The quotes are counted in comments too: after an apostrophe in one, the statements up to
  the next quote are taken for a single one.\<close>

lemma comment_joins_statements:
  "length (split_statements (''-- don'' @ [sq] @ ''t'' @ [CHR 0x0A] @ ''SELECT 1; SELECT 2'')) = 1"
  by code_simp

section \<open>What a run reports\<close>

text \<open>A password does not show. In any text, whatever surrounds it, the characters from
  \<open>password=\<close> up to the next white space can be replaced by any other without changing what
  \<open>redact\<close> returns; so when a statement with such a password fails, both lines of the report are the
  same whatever the password is, provided the database's message is the same but for it. (A
  password that contains a blank shows from the blank on.)\<close>

theorem password_does_not_show:
  assumes "secret s" and "secret s'" and "ends_token r" and "ends_token r'"
    and "db c (p @ secret_key @ s @ r) = (Inl (m @ secret_key @ s @ r'), c')"
    and "db' c (p @ secret_key @ s' @ r) = (Inl (m @ secret_key @ s' @ r'), c')"
  shows "run_statements db other fmt last_only idx ((p @ secret_key @ s @ r) # rest) c
       = run_statements db' other fmt last_only idx ((p @ secret_key @ s' @ r) # rest) c"
  using redact_independent [OF assms(1,2,3), of p] redact_independent [OF assms(1,2,4), of m] assms(5,6)
  by simp

lemma password_does_not_show_witness:
  "fst (run_statements (\<lambda>c s. (Inl (''near '' @ secret_key @ ''hunter2'' @ []), c)) (\<lambda>_ _ _. []) Table False 0
       [''ATTACH '' @ secret_key @ ''hunter2'' @ '' x''] ())
   = fst (run_statements (\<lambda>c s. (Inl (''near '' @ secret_key @ ''other'' @ []), c)) (\<lambda>_ _ _. []) Table False 0
       [''ATTACH '' @ secret_key @ ''other'' @ '' x''] ())"
  by (subst password_does_not_show [where s' = "''other''" and r' = "[]" and m = "''near ''"
        and db' = "\<lambda>c s. (Inl (''near '' @ secret_key @ ''other'' @ []), c)" and c' = "()"])
    (simp_all add: secret_def ends_token_def not_space_def is_space_def)

end
