(* ===== verification/Stats.thy ===== *)
theory Stats
  imports Metrics
begin

text \<open>
  The statistics the reports compute (\<open>stats\<close> and \<open>linear_slope\<close> of \<open>bench/report.py\<close>, \<open>stats_of\<close> of
  \<open>bench/track_a.py\<close>) with the functions of Python's \<open>statistics\<close> they call, on exact numbers. A
  standard deviation is kept as its square, the variance.
\<close>

section \<open>Means, medians and deviations\<close>

definition fmean :: "rat list \<Rightarrow> rat" where
  "fmean xs = sum_list xs / of_nat (length xs)"

definition median_of :: "rat list \<Rightarrow> rat" where
  \<comment> \<open>of a sorted list\<close>
  "median_of s =
     (let n = length s in if odd n then s ! (n div 2) else (s ! (n div 2 - 1) + s ! (n div 2)) / 2)"

definition variance_of :: "rat list \<Rightarrow> rat" where
  \<comment> \<open>\<open>statistics.pstdev\<close>, squared\<close>
  "variance_of xs = sum_list (map (\<lambda>x. (x - fmean xs)\<^sup>2) xs) / of_nat (length xs)"

record summary =
  su_n :: nat
  su_min :: rat
  su_max :: rat
  su_mean :: rat
  su_median :: rat
  su_p95 :: rat
  su_variance :: rat

definition stats :: "rat list \<Rightarrow> summary option" where
  \<comment> \<open>\<open>None\<close> for the empty dictionary\<close>
  "stats xs =
     (if xs = [] then None
      else let s = sort xs; n = length s
           in Some \<lparr>su_n = n, su_min = hd s, su_max = last s, su_mean = fmean s, su_median = median_of s,
                    su_p95 = s ! min (n - 1) (nat (py_trunc (95 / 100 * of_nat n))),
                    su_variance = (if 1 < n then variance_of s else 0)\<rparr>)"

section \<open>A trend\<close>

definition linear_slope :: "rat list \<Rightarrow> rat list \<Rightarrow> rat option" where
  "linear_slope xs ys =
     (if length xs < 3 then None
      else let mx = fmean xs; my = fmean ys; denom = sum_list (map (\<lambda>x. (x - mx)\<^sup>2) xs)
           in if denom = 0 then None
              else Some (sum_list (map (\<lambda>(x, y). (x - mx) * (y - my)) (zip xs ys)) / denom))"

definition squared_error :: "rat \<Rightarrow> rat \<Rightarrow> (rat \<times> rat) list \<Rightarrow> rat" where
  \<comment> \<open>of the line \<open>a + b x\<close> against the points\<close>
  "squared_error a b ps = sum_list (map (\<lambda>(x, y). (y - (a + b * x))\<^sup>2) ps)"

section \<open>Sums over points\<close>

lemma sum_list_deviations:
  assumes "xs \<noteq> []"
  shows "sum_list (map (\<lambda>x. x - fmean xs) xs) = 0"
proof -
  have "sum_list (map (\<lambda>x. x - c) xs) = sum_list xs - of_nat (length xs) * c" for c :: rat
    by (induction xs) (simp_all add: algebra_simps)
  then show ?thesis using assms by (simp add: fmean_def)
qed

lemma square_expand:
  "squared_error a b ps =
     sum_list (map (\<lambda>(x, y). (y - (a0 + b0 * x))\<^sup>2) ps)
     + 2 * (a0 - a) * sum_list (map (\<lambda>(x, y). y - (a0 + b0 * x)) ps)
     + 2 * (b0 - b) * sum_list (map (\<lambda>(x, y). x * (y - (a0 + b0 * x))) ps)
     + sum_list (map (\<lambda>(x, y). ((a0 - a) + (b0 - b) * x)\<^sup>2) ps)"
  unfolding squared_error_def by (induction ps) (auto simp: algebra_simps power2_eq_square)

lemma sum_list_squares: "0 \<le> sum_list (map (\<lambda>(x, y). (f x y)\<^sup>2) ps)" for f :: "rat \<Rightarrow> rat \<Rightarrow> rat"
  by (induction ps) auto

text \<open>A line whose residuals sum to zero, plainly and weighted by \<open>x\<close>, has the least squared error.\<close>

lemma normal_equations_minimise:
  assumes "sum_list (map (\<lambda>(x, y). y - (a0 + b0 * x)) ps) = 0"
    and "sum_list (map (\<lambda>(x, y). x * (y - (a0 + b0 * x))) ps) = 0"
  shows "squared_error a0 b0 ps \<le> squared_error a b ps"
  using square_expand [of a b ps a0 b0] sum_list_squares [of "\<lambda>x y. (a0 - a) + (b0 - b) * x" ps] assms
  by (simp add: squared_error_def)

lemma residuals_sum:
  assumes "length xs = length ys" and "xs \<noteq> []"
  shows "sum_list (map (\<lambda>(x, y). y - (fmean ys - b * fmean xs + b * x)) (zip xs ys)) = 0"
proof -
  have "sum_list (map (\<lambda>(x, y). y - (c + b * x)) (zip xs ys)) = sum_list ys - of_nat (length xs) * c - b * sum_list xs" for c
    using assms(1) by (induction xs ys rule: list_induct2) (simp_all add: algebra_simps)
  from this [of "fmean ys - b * fmean xs"] show ?thesis using assms by (cases "ys = []") (simp_all add: fmean_def field_simps)
qed

lemma centred_products:
  fixes p q :: rat
  assumes "length xs = length ys"
  shows "sum_list (map (\<lambda>(x, y). (x - p) * (y - q)) (zip xs ys))
    = sum_list (map (\<lambda>(x, y). x * y) (zip xs ys)) - q * sum_list xs - p * sum_list ys + of_nat (length xs) * p * q"
  using assms by (induction xs ys rule: list_induct2) (simp_all add: algebra_simps)

lemma centred_squares:
  "sum_list (map (\<lambda>x. (x - p)\<^sup>2) xs) = sum_list (map (\<lambda>x. x * x) xs) - 2 * p * sum_list xs + of_nat (length xs) * p * p" for p :: rat
  by (induction xs) (simp_all add: algebra_simps power2_eq_square)

lemma weighted_residuals:
  fixes b c :: rat
  assumes "length xs = length ys"
  shows "sum_list (map (\<lambda>(x, y). x * (y - (c + b * x))) (zip xs ys))
    = sum_list (map (\<lambda>(x, y). x * y) (zip xs ys)) - c * sum_list xs - b * sum_list (map (\<lambda>x. x * x) xs)"
  using assms by (induction xs ys rule: list_induct2) (simp_all add: algebra_simps)

lemma weighted_residuals_sum:
  assumes len: "length xs = length ys" and slope: "linear_slope xs ys = Some b"
  shows "sum_list (map (\<lambda>(x, y). x * (y - (fmean ys - b * fmean xs + b * x))) (zip xs ys)) = 0"
proof -
  define n where "n = (of_nat (length xs) :: rat)"
  have n: "n \<noteq> 0" using slope by (auto simp: n_def linear_slope_def split: if_splits)
  have sx: "sum_list xs = n * fmean xs" and sy: "sum_list ys = n * fmean ys"
    using n len by (simp_all add: fmean_def n_def)
  let ?P = "sum_list (map (\<lambda>(x, y). x * y) (zip xs ys))" and ?S = "sum_list (map (\<lambda>x. x * x) xs)"
  have "b * sum_list (map (\<lambda>x. (x - fmean xs)\<^sup>2) xs) = sum_list (map (\<lambda>(x, y). (x - fmean xs) * (y - fmean ys)) (zip xs ys))"
    using slope by (auto simp: linear_slope_def Let_def split: if_splits)
  then have "b * (?S - n * fmean xs * fmean xs) = ?P - n * fmean xs * fmean ys"
    unfolding centred_squares centred_products [OF len] sx sy by (simp add: n_def algebra_simps)
  then show ?thesis
    unfolding weighted_residuals [OF len] sx by (simp add: algebra_simps)
qed

lemma slope_nonempty: "linear_slope xs ys = Some b \<Longrightarrow> xs \<noteq> []"
  by (auto simp: linear_slope_def)

text \<open>C26: the slope is the least-squares slope. When \<open>linear_slope\<close> gives a slope for as many values as
  there are times, the line of that slope through the point of the two means has a squared error no
  line has less of.\<close>

theorem slope_is_least_squares:
  assumes "linear_slope xs ys = Some b" and "length xs = length ys"
  shows "squared_error (fmean ys - b * fmean xs) b (zip xs ys) \<le> squared_error a' b' (zip xs ys)"
  by (rule normal_equations_minimise [OF residuals_sum [OF assms(2) slope_nonempty [OF assms(1)]]
      weighted_residuals_sum [OF assms(2,1)]])

lemma slope_is_least_squares_witness:
  "linear_slope [0, 1, 2] [1, 4, 4] = Some (3 / 2) \<and> squared_error (3 / 2) (3 / 2) (zip [0, 1, 2] [1, 4, 4])
     \<le> squared_error 1 2 (zip [0, 1, 2] [1, 4, 4])"
proof -
  have s: "linear_slope [0, 1, 2] [1, 4, 4] = Some (3 / 2)"
    by (simp add: linear_slope_def fmean_def power2_eq_square)
  from slope_is_least_squares [OF s] show ?thesis by (simp add: s fmean_def)
qed

section \<open>What the summary promises\<close>

lemma sorted_nth_bounds:
  assumes "s \<noteq> []" and "sorted s" and "i < length s"
  shows "hd s \<le> s ! i" and "s ! i \<le> last s"
  using assms by (auto simp: hd_conv_nth last_conv_nth intro: sorted_nth_mono)

lemma stats_of_multiset: "mset xs = mset ys \<Longrightarrow> stats xs = stats ys"
proof -
  assume eq: "mset xs = mset ys"
  then have "sort xs = sort ys" by (intro properties_for_sort) simp_all
  with eq show ?thesis by (auto simp: stats_def)
qed

lemma sorted_at_most:
  assumes "sorted s" and "k < length s"
  shows "k < length (filter (\<lambda>x. x \<le> s ! k) s)"
proof -
  have "filter (\<lambda>x. x \<le> s ! k) (take (Suc k) s) = take (Suc k) s"
    using assms by (auto simp: filter_id_conv in_set_conv_nth intro!: sorted_nth_mono)
  then have "Suc k \<le> length (filter (\<lambda>x. x \<le> s ! k) (take (Suc k) s @ drop (Suc k) s))"
    using assms(2) by (simp only: filter_append length_append length_take min_def) simp
  then show ?thesis by (simp only: append_take_drop_id)
qed

lemma mean_between:
  assumes "xs \<noteq> []" and "\<forall>x \<in> set xs. a \<le> x" and "\<forall>x \<in> set xs. x \<le> b"
  shows "a \<le> fmean xs" and "fmean xs \<le> b"
proof -
  have "of_nat (length xs) * a \<le> sum_list xs \<and> sum_list xs \<le> of_nat (length xs) * b"
    using assms(2,3) by (induction xs) (auto simp: algebra_simps intro: add_mono)
  then show "a \<le> fmean xs" "fmean xs \<le> b" using assms(1) by (simp_all add: fmean_def field_simps)
qed

lemma p95_index:
  assumes "0 < n"
  shows "n div 2 \<le> min (n - 1) (nat (py_trunc (95 / 100 * of_nat n)))"
    and "95 / 100 * of_nat n \<le> (of_nat (Suc (min (n - 1) (nat (py_trunc (95 / 100 * of_nat n))))) :: rat)"
proof -
  define k where "k = nat (py_trunc (95 / 100 * of_nat n))"
  have "py_trunc (95 / 100 * of_nat n) = \<lfloor>95 / 100 * of_nat n :: rat\<rfloor>" by (simp add: py_trunc_def)
  then have k: "of_nat k \<le> (95 / 100 * of_nat n :: rat)" "(95 / 100 * of_nat n :: rat) < of_nat k + 1"
    by (simp_all add: k_def) linarith+
  have "19 * n < 20 * k + 20"
  proof -
    have "(of_nat (19 * n) :: rat) < of_nat (20 * k + 20)" using k(2) by simp
    then show ?thesis by (simp only: of_nat_less_iff)
  qed
  then show "n div 2 \<le> min (n - 1) (nat (py_trunc (95 / 100 * of_nat n)))"
    using assms unfolding k_def [symmetric] by linarith
  show "95 / 100 * of_nat n \<le> (of_nat (Suc (min (n - 1) (nat (py_trunc (95 / 100 * of_nat n))))) :: rat)"
    using k(2) assms unfolding k_def [symmetric] by (cases "n - 1 \<le> k") (simp_all add: min_def of_nat_diff)
qed

lemma median_bounds:
  assumes "sorted s" and "s \<noteq> []"
  shows "hd s \<le> median_of s" and "median_of s \<le> s ! (length s div 2)"
proof -
  let ?n = "length s"
  have i: "?n div 2 < ?n" "?n div 2 - 1 < ?n" using assms(2) by (cases s; simp)+
  have "s ! (?n div 2 - 1) \<le> s ! (?n div 2)" using assms(1) i by (intro sorted_nth_mono) simp_all
  then show "hd s \<le> median_of s" "median_of s \<le> s ! (?n div 2)"
    using sorted_nth_bounds(1) [OF assms(2,1) i(1)] sorted_nth_bounds(1) [OF assms(2,1) i(2)]
    by (simp_all add: median_of_def Let_def)
qed

lemma variance_nonneg: "0 \<le> variance_of xs"
proof -
  have "0 \<le> sum_list (map (\<lambda>x. (x - c)\<^sup>2) xs)" for c :: rat by (induction xs) auto
  then show ?thesis by (simp add: variance_of_def)
qed

text \<open>The summary of a series is in order. The median lies between the least value and the 95th
  percentile, which is no more than the greatest; the mean lies between least and greatest; at
  least 95 of 100 values are at most the 95th percentile; and the order of the values, which
  differs between files, does not matter.\<close>

theorem stats_in_order:
  assumes "stats xs = Some s"
  shows "su_min s \<le> su_median s \<and> su_median s \<le> su_p95 s \<and> su_p95 s \<le> su_max s
    \<and> su_min s \<le> su_mean s \<and> su_mean s \<le> su_max s \<and> 0 \<le> su_variance s
    \<and> 95 / 100 * of_nat (su_n s) \<le> (of_nat (length (filter (\<lambda>x. x \<le> su_p95 s) xs)) :: rat)
    \<and> (mset ys = mset xs \<longrightarrow> stats ys = Some s)"
proof -
  let ?s = "sort xs"
  have ne: "xs \<noteq> []" using assms by (auto simp: stats_def)
  have sne: "?s \<noteq> []" using ne by (metis length_0_conv length_sort)
  have n: "0 < length ?s" using sne by blast
  define k where "k = min (length ?s - 1) (nat (py_trunc (95 / 100 * of_nat (length ?s))))"
  have k: "k < length ?s" using n unfolding k_def by linarith
  have s: "su_n s = length xs" "su_min s = hd ?s" "su_max s = last ?s" "su_mean s = fmean ?s" "su_median s = median_of ?s"
    "su_p95 s = ?s ! k" "su_variance s = (if 1 < length ?s then variance_of ?s else 0)"
    using assms ne by (auto simp: stats_def Let_def k_def)
  have mid: "length ?s div 2 \<le> k" unfolding k_def by (rule p95_index(1) [OF n])
  have between: "\<forall>x \<in> set ?s. hd ?s \<le> x" "\<forall>x \<in> set ?s. x \<le> last ?s"
    using sorted_nth_bounds [OF sne sorted_sort] by (metis in_set_conv_nth)+
  have "median_of ?s \<le> ?s ! (length ?s div 2)" by (rule median_bounds(2) [OF sorted_sort sne])
  also have "\<dots> \<le> ?s ! k" using mid k by (intro sorted_nth_mono) simp_all
  finally have med: "median_of ?s \<le> ?s ! k" .
  have "length (filter (\<lambda>x. x \<le> ?s ! k) xs) = length (filter (\<lambda>x. x \<le> ?s ! k) ?s)"
    by (simp only: size_mset [symmetric] mset_filter mset_sort)
  then have "Suc k \<le> length (filter (\<lambda>x. x \<le> ?s ! k) xs)" using sorted_at_most [OF sorted_sort k] by simp
  then have "(of_nat (Suc k) :: rat) \<le> of_nat (length (filter (\<lambda>x. x \<le> ?s ! k) xs))" by (simp only: of_nat_le_iff)
  then have share: "95 / 100 * of_nat (length xs) \<le> (of_nat (length (filter (\<lambda>x. x \<le> ?s ! k) xs)) :: rat)"
    using p95_index(2) [OF n] unfolding k_def length_sort by linarith
  show ?thesis
    using median_bounds(1) [OF sorted_sort sne] med sorted_nth_bounds(2) [OF sne sorted_sort k] share
      mean_between [OF sne between] variance_nonneg [of ?s] stats_of_multiset [of ys xs] assms
    by (simp add: s)
qed

lemma stats_in_order_witness:
  "\<exists>s. stats [3, 1, 2] = Some s \<and> su_min s = 1 \<and> su_median s = 2 \<and> su_p95 s = 3 \<and> su_mean s \<le> su_max s"
proof -
  have t: "py_trunc (57 / 20 :: rat) = 2" by (simp add: py_trunc_def floor_eq_iff)
  let ?s = "\<lparr>su_n = 3, su_min = 1, su_max = 3, su_mean = fmean [1, 2, 3], su_median = 2, su_p95 = 3,
    su_variance = variance_of [1, 2, 3]\<rparr>"
  have s: "stats [3, 1, 2] = Some ?s" by (simp add: stats_def median_of_def t Let_def)
  from stats_in_order [OF s] show ?thesis by (intro exI [of _ ?s]) (simp add: s)
qed

end
