(* ===== verification/Report.thy ===== *)
theory Report
  imports Stats TextOps
begin

text \<open>
  \<open>bench/report.py\<close>: what the report of a run concludes from the files of the run: loading, the
  formats of numbers, the analysis of backlog and lag, the name of the binding constraint and the
  highest sustainable rate; the sentences around them are in \<open>ReportText\<close>, the charts in \<open>ReportCharts\<close>. The
  numbers in the files are finite and exact.
\<close>

section \<open>Loading\<close>

definition load_json :: "pyval option \<Rightarrow> pydict" where
  \<comment> \<open>\<open>load_json(path) or {}\<close>: \<open>None\<close> when the file cannot be read or is not JSON; a document that
    is true but no object is outside the model\<close>
  "load_json doc = (case doc of Some (PDict d) \<Rightarrow> d | _ \<Rightarrow> [])"

definition load_jsonl :: "(string \<Rightarrow> pydict option) \<Rightarrow> string list option \<Rightarrow> pydict list" where
  \<comment> \<open>the object on a line, \<open>None\<close> where it is not JSON; the lines of the file, \<open>None\<close> without one\<close>
  "load_jsonl loads file =
     (case file of None \<Rightarrow> []
      | Some ls \<Rightarrow> concat (map (\<lambda>l. if strip l = [] then [] else case loads (strip l) of None \<Rightarrow> [] | Some r \<Rightarrow> [r]) ls))"

record run =
  ru_metadata :: pydict
  ru_generator :: pydict
  ru_manifest :: pydict
  ru_correctness :: pydict
  ru_environment :: pydict
  ru_before :: pydict
  ru_after :: pydict
  ru_samples :: "pydict list"
  ru_pipeline :: "pydict list"
  ru_compaction :: "pydict list"
  ru_hosts :: "(string \<times> pydict list) list"

definition roles :: "string list" where
  "roles = [''generator'', ''collector'', ''compactor'']"

definition read_run :: "(string \<Rightarrow> pyval option) \<Rightarrow> (string \<Rightarrow> pydict option) \<Rightarrow> (string \<Rightarrow> string list option) \<Rightarrow> run" where
  \<comment> \<open>the JSON documents and the files of lines of the run's directory, by name\<close>
  "read_run json loads file =
     (let doc = (\<lambda>name. load_json (json name)); rows = (\<lambda>name. load_jsonl loads (file name)); late = doc ''state-collected.json''
      in \<lparr>ru_metadata = doc ''metadata.json'', ru_generator = doc ''generator.json'', ru_manifest = doc ''manifest.json'',
          ru_correctness = doc ''correctness.json'', ru_environment = doc ''environment.json'',
          ru_before = doc ''state-before.json'', ru_after = (if late \<noteq> [] then late else doc ''state-after.json''),
          ru_samples = rows ''generator.jsonl'', ru_pipeline = rows ''raw/pipeline.jsonl'',
          ru_compaction = rows ''raw/compaction.jsonl'',
          ru_hosts = map (\<lambda>role. (role, rows (''raw/host-'' @ role @ ''.jsonl''))) roles\<rparr>)"

section \<open>Small helpers\<close>

fun number :: "pyval \<Rightarrow> rat option" where
  \<comment> \<open>\<open>isinstance(v, (int, float))\<close>, and the value; \<open>bool\<close> is an \<open>int\<close>\<close>
  "number (PBool b) = Some (if b then 1 else 0)"
| "number (PInt i) = Some (of_int i)"
| "number (PFloat (Fin x)) = Some x"
| "number _ = None"

definition as_number :: "pyval \<Rightarrow> pyexn + rat" where
  \<comment> \<open>an operand of arithmetic\<close>
  "as_number v = (case number v of None \<Rightarrow> Inl TypeError | Some x \<Rightarrow> Inr x)"

definition is_number :: "pyval \<Rightarrow> bool" where
  "is_number v = (number v \<noteq> None)"

definition series :: "pydict list \<Rightarrow> string \<Rightarrow> rat list" where
  "series rows key = concat (map (\<lambda>r. case number (dget_or r key PNone) of None \<Rightarrow> [] | Some x \<Rightarrow> [x]) rows)"

fun walk_keys :: "pyval \<Rightarrow> string list \<Rightarrow> pyval option" where
  "walk_keys node [] = Some node"
| "walk_keys (PDict d) (k # ks) = (case dget d k of None \<Rightarrow> None | Some v \<Rightarrow> walk_keys v ks)"
| "walk_keys _ (k # ks) = None"

definition dig_or :: "pyval \<Rightarrow> string list \<Rightarrow> pyval \<Rightarrow> pyval" where
  \<comment> \<open>\<open>dig(node, *path, default=...)\<close>\<close>
  "dig_or node path dflt = (case walk_keys node path of None \<Rightarrow> dflt | Some v \<Rightarrow> if v = PNone then dflt else v)"

section \<open>Numbers as text\<close>

definition missing_text :: string where
  "missing_text = ''NOT MEASURED''"

fun commas_rev :: "string \<Rightarrow> string" where
  \<comment> \<open>a comma after every third digit from the right\<close>
  "commas_rev (a # b # c # d # ds) = a # b # c # CHR '','' # commas_rev (d # ds)"
| "commas_rev ds = ds"

definition with_commas :: "string \<Rightarrow> string" where
  "with_commas ds = rev (commas_rev (rev ds))"

definition commas_nat :: "nat \<Rightarrow> string" where
  "commas_nat n = with_commas (show_nat n)"

definition commas_int :: "int \<Rightarrow> string" where
  \<comment> \<open>\<open>f'{i:,}'\<close>\<close>
  "commas_int i = (if i < 0 then CHR ''-'' # commas_nat (nat (- i)) else commas_nat (nat i))"

definition pad_left :: "nat \<Rightarrow> string \<Rightarrow> string" where
  "pad_left n s = replicate (n - length s) CHR ''0'' @ s"

definition fixed :: "nat \<Rightarrow> rat \<Rightarrow> string" where
  \<comment> \<open>\<open>f'{x:,.nf}'\<close>\<close>
  "fixed n x =
     (let u = nat \<bar>py_round (x * 10 ^ n)\<bar>
      in (if x < 0 then ''-'' else []) @ commas_nat (u div 10 ^ n)
         @ (if n = 0 then [] else CHR ''.'' # pad_left n (show_nat (u mod 10 ^ n))))"

definition fmt_int :: "pyval \<Rightarrow> string" where
  "fmt_int v = (case number v of None \<Rightarrow> missing_text | Some x \<Rightarrow> commas_int (py_trunc x))"

definition fmt_num :: "pyval \<Rightarrow> nat \<Rightarrow> string \<Rightarrow> string" where
  "fmt_num v digits suffix = (case number v of None \<Rightarrow> missing_text | Some x \<Rightarrow> fixed digits x @ suffix)"

fun scale_bytes :: "rat \<Rightarrow> string list \<Rightarrow> rat \<times> string" where
  \<comment> \<open>the loop over the units: it ends at the last one\<close>
  "scale_bytes v [] = (v, ''TiB'')"
| "scale_bytes v (u # us) = (if \<bar>v\<bar> < 1024 \<or> u = ''TiB'' then (v, u) else scale_bytes (v / 1024) us)"

definition byte_units :: "string list" where
  "byte_units = [''B'', ''KiB'', ''MiB'', ''GiB'', ''TiB'']"

definition fmt_bytes :: "pyval \<Rightarrow> string" where
  "fmt_bytes v =
     (case number v of None \<Rightarrow> missing_text
      | Some x \<Rightarrow> let (y, u) = scale_bytes x byte_units in fixed 2 y @ '' '' @ u)"

section \<open>Backlog and lag\<close>

definition steady_window :: "'a list \<Rightarrow> 'a list" where
  "steady_window rows = (if length rows < 8 then rows else drop (length rows div 4) rows)"

record backlog =
  bk_samples :: nat
  bk_discarded :: nat
  bk_first :: rat
  bk_last :: rat
  bk_files_per_min :: rat
  bk_mib_per_min :: rat
  bk_max :: rat

definition with_catalog :: "pydict list \<Rightarrow> pydict list" where
  "with_catalog rows =
     filter (\<lambda>r. is_number (dget_or r ''ts'' PNone) \<and> dig_or (PDict r) [''catalog'', ''backlog_files''] PNone \<noteq> PNone) rows"

definition column :: "string list \<Rightarrow> pydict list \<Rightarrow> pyexn + rat list" where
  "column path rows = emap (\<lambda>r. as_number (dig_or (PDict r) path (PInt 0))) rows"

definition slope_or_0 :: "rat list \<Rightarrow> rat list \<Rightarrow> rat" where
  "slope_or_0 xs ys = (case linear_slope xs ys of None \<Rightarrow> 0 | Some b \<Rightarrow> b)"

definition analyse_backlog :: "run \<Rightarrow> pyexn + backlog option" where
  "analyse_backlog r =
     (let pl = with_catalog (ru_pipeline r)
      in if length pl < 4 then Inr None
         else let window = steady_window pl; ts = series window ''ts''; xs = map (\<lambda>t. t - hd ts) ts
              in ebind (column [''catalog'', ''backlog_files''] window) (\<lambda>files.
                 ebind (column [''catalog'', ''backlog_bytes''] window) (\<lambda>nbytes.
                 Inr (Some \<lparr>bk_samples = length window, bk_discarded = length pl - length window,
                            bk_first = hd files, bk_last = last files, bk_files_per_min = slope_or_0 xs files * 60,
                            bk_mib_per_min = slope_or_0 xs nbytes * 60 / 1048576, bk_max = Max (set files)\<rparr>))))"

definition lags :: "run \<Rightarrow> rat list" where
  "lags r = filter (\<lambda>x. 0 \<le> x)
     (concat (map (\<lambda>p. case number (dig_or (PDict p) [''watermark'', ''lag_seconds''] PNone) of None \<Rightarrow> [] | Some x \<Rightarrow> [x]) (ru_pipeline r)))"

definition analyse_lag :: "run \<Rightarrow> summary option" where
  "analyse_lag r = stats (lags r)"

datatype trend = Flat | Growing | Draining

definition trend_of :: "backlog \<Rightarrow> trend" where
  "trend_of b =
     (if \<bar>bk_files_per_min b\<bar> < 1 / 2 then Flat else if 0 < bk_files_per_min b then Growing else Draining)"

section \<open>The binding constraint\<close>

datatype constraint =
    OtherTransport
  | NothingOffered
  | IngestionQueue rat
  | AcceptPath rat
  | Compaction rat
  | GeneratorBound rat rat
  | InflightBound rat
  | Saturated "string list"
  | NotReached

definition totals_dict :: "run \<Rightarrow> pyexn + pydict" where
  \<comment> \<open>\<open>run.generator.get('totals') or {}\<close>\<close>
  "totals_dict r = as_dict (py_or (dget_or (ru_generator r) ''totals'' PNone) (PDict []))"

definition host_cpu :: "run \<Rightarrow> (string \<times> rat) list" where
  "host_cpu r =
     concat (map (\<lambda>(role, rows). let vs = series rows ''cpu_percent'' in if vs = [] then [] else [(role, fmean vs)]) (ru_hosts r))"

fun busiest :: "(string \<times> rat) list \<Rightarrow> (string \<times> rat) option" where
  \<comment> \<open>\<open>max(host_cpu, key=host_cpu.get)\<close>: the first of the greatest\<close>
  "busiest [] = None"
| "busiest (h # hs) = (case busiest hs of None \<Rightarrow> Some h | Some b \<Rightarrow> if snd h < snd b then Some b else Some h)"

definition stalled_constraint :: "(string \<times> rat) list \<Rightarrow> rat \<Rightarrow> constraint" where
  "stalled_constraint cpu share =
     (case busiest cpu of
        Some (role, x) \<Rightarrow> if role = ''generator'' \<and> 80 < x then GeneratorBound share x else InflightBound share
      | None \<Rightarrow> InflightBound share)"

definition falling_behind :: "backlog option \<Rightarrow> bool" where
  "falling_behind bl = (case bl of None \<Rightarrow> False | Some b \<Rightarrow> 1 / 2 < bk_files_per_min b)"

definition hot_hosts :: "(string \<times> rat) list \<Rightarrow> string list" where
  "hot_hosts cpu = map fst (filter (\<lambda>h. 85 < snd h) cpu)"

definition constraint_of :: "rat \<Rightarrow> rat \<Rightarrow> backlog option \<Rightarrow> rat \<Rightarrow> (string \<times> rat) list \<Rightarrow> constraint" where
  \<comment> \<open>rejected records, share accepted, backlog, share of the time the pacer stalled, CPU of the hosts\<close>
  "constraint_of rejected ratio bl stall cpu =
     (if 0 < rejected then IngestionQueue rejected
      else if ratio < 99 / 100 then AcceptPath ratio
      else if falling_behind bl then Compaction (bk_files_per_min (the bl))
      else if 1 / 10 < stall then stalled_constraint cpu stall
      else if hot_hosts cpu \<noteq> [] then Saturated (hot_hosts cpu)
      else NotReached)"

definition bottleneck :: "run \<Rightarrow> pyexn + constraint" where
  "bottleneck r =
     (if dget_or (ru_metadata r) ''transport'' (PStr ''direct'') \<noteq> PStr ''direct'' then Inr OtherTransport
      else ebind (totals_dict r) (\<lambda>t.
        let offered = dget_or t ''records_offered'' (PInt 0)
        in if \<not> truthy offered then Inr NothingOffered
           else ebind (as_number (dget_or t ''records_accepted'' (PInt 0))) (\<lambda>accepted.
                ebind (as_number offered) (\<lambda>n.
                ebind (analyse_backlog r) (\<lambda>bl.
                ebind (as_number (py_or (dget_or t ''duration_seconds'' (num 0)) (num 1))) (\<lambda>duration.
                ebind (as_number (dget_or t ''stalled_ms'' (num 0))) (\<lambda>stalled.
                ebind (as_number (dget_or t ''records_rejected'' (PInt 0))) (\<lambda>rejected.
                Inr (constraint_of rejected (accepted / n) bl (stalled / (duration * 1000)) (host_cpu r))))))))))"

fun join_with :: "string \<Rightarrow> string list \<Rightarrow> string" where
  "join_with sep [] = []"
| "join_with sep [x] = x"
| "join_with sep (x # y # ys) = x @ sep @ join_with sep (y # ys)"

fun constraint_name :: "constraint \<Rightarrow> string" where
  "constraint_name OtherTransport = missing_text"
| "constraint_name NothingOffered = missing_text"
| "constraint_name (IngestionQueue n) = ''collector ingestion queue''"
| "constraint_name (AcceptPath x) = ''collector accept path''"
| "constraint_name (Compaction x) = ''compaction''"
| "constraint_name (GeneratorBound s c) = ''generator (SERVER 1)''"
| "constraint_name (InflightBound s) = ''in-flight bound''"
| "constraint_name (Saturated rs) = ''CPU on '' @ join_with '', '' rs"
| "constraint_name NotReached = ''not reached''"

section \<open>The highest sustainable rate\<close>

definition item :: "pydict \<Rightarrow> string \<Rightarrow> pyexn + rat" where
  \<comment> \<open>\<open>s[k]\<close>, where a number is needed\<close>
  "item s k = (case dget s k of None \<Rightarrow> Inl KeyError | Some v \<Rightarrow> as_number v)"

definition steps_of :: "run \<Rightarrow> pyexn + pydict list" where
  \<comment> \<open>\<open>run.generator.get('steps') or []\<close>\<close>
  "steps_of r =
     (case py_or (dget_or (ru_generator r) ''steps'' PNone) (PList []) of
        PList vs \<Rightarrow> emap as_dict vs
      | _ \<Rightarrow> Inl TypeError)"

definition level_ratio :: "pydict \<Rightarrow> pyexn + rat" where
  "level_ratio s = ebind (item s ''offered'') (\<lambda>n. if n \<noteq> 0 then ebind (item s ''accepted'') (\<lambda>a. Inr (a / n)) else Inr 0)"

definition level_holds :: "pydict \<Rightarrow> pyexn + bool" where
  "level_holds s =
     ebind (level_ratio s) (\<lambda>q. if 99 / 100 \<le> q then ebind (item s ''rejected'') (\<lambda>n. Inr (n = 0)) else Inr False)"

fun sustainable :: "pydict list \<Rightarrow> pydict option \<Rightarrow> pyexn + pydict option" where
  "sustainable [] best = Inr best"
| "sustainable (s # ss) best = ebind (level_holds s) (\<lambda>ok. if ok then sustainable ss (Some s) else Inr best)"

definition level_rate :: "pydict \<Rightarrow> pyexn + rat" where
  "level_rate s = ebind (item s ''accepted'') (\<lambda>a. ebind (item s ''duration_seconds'') (\<lambda>d. Inr (a / max (1 / 10 ^ 9) d)))"

definition peak_rate :: "pydict list \<Rightarrow> pyexn + rat" where
  "peak_rate ss = ebind (emap level_rate ss) (\<lambda>rs. Inr (if rs = [] then 0 else Max (set rs)))"

record ceiling =
  ce_best :: "pydict option"
  ce_provisional :: bool
  ce_peak :: rat

definition ceiling_of :: "run \<Rightarrow> pyexn + ceiling option" where
  \<comment> \<open>the section \<open>Maximum sustainable rate\<close>, written for a staircase\<close>
  "ceiling_of r =
     ebind (steps_of r) (\<lambda>ss.
     if length ss \<le> 1 then Inr None
     else ebind (sustainable ss None) (\<lambda>best.
          ebind (analyse_backlog r) (\<lambda>bl.
          ebind (peak_rate ss) (\<lambda>peak.
          Inr (Some \<lparr>ce_best = best, ce_provisional = (best \<noteq> None \<and> bl = None), ce_peak = peak\<rparr>)))))"

section \<open>What the report says it does not know\<close>

datatype unknown = NoCollectorMetrics | NoBacklog | NoLag | SingleRate | ShortRun | NoCorrectness

definition unknowns :: "run \<Rightarrow> pyexn + unknown list" where
  "unknowns r =
     ebind (analyse_backlog r) (\<lambda>bl. ebind (steps_of r) (\<lambda>ss. ebind (totals_dict r) (\<lambda>t.
     ebind (as_number (py_or (dget_or t ''duration_seconds'' PNone) (PInt 0))) (\<lambda>duration.
     Inr ((if map_of (ru_hosts r) ''collector'' \<in> {None, Some []} then [NoCollectorMetrics] else [])
        @ (if bl = None then [NoBacklog] else []) @ (if analyse_lag r = None then [NoLag] else [])
        @ (if length ss \<le> 1 then [SingleRate] else []) @ (if duration < 600 then [ShortRun] else [])
        @ (if ru_correctness r = [] then [NoCorrectness] else []))))))"

section \<open>Tables\<close>

definition delta_of :: "pyval \<Rightarrow> pyval \<Rightarrow> rat option" where
  "delta_of x y = (case (number x, number y) of (Some a, Some b) \<Rightarrow> Some (b - a) | _ \<Rightarrow> None)"

definition delta_row :: "(pyval \<Rightarrow> string) \<Rightarrow> pydict \<Rightarrow> pydict \<Rightarrow> string \<Rightarrow> string list" where
  \<comment> \<open>before, after and difference\<close>
  "delta_row fmt before after key =
     (let x = dget_or before key PNone; y = dget_or after key PNone
      in [fmt x, fmt y, case delta_of x y of None \<Rightarrow> missing_text | Some d \<Rightarrow> fmt (num d)])"

definition check_state :: "pydict \<Rightarrow> pyexn + string" where
  \<comment> \<open>\<open>{True: ..., False: ..., None: ...}[chk.get('pass')]\<close>; 1 and 0 equal \<open>True\<close> and \<open>False\<close>\<close>
  "check_state chk =
     (case dget_or chk ''pass'' PNone of
        PNone \<Rightarrow> Inr ''skipped''
      | v \<Rightarrow> (case number v of
               None \<Rightarrow> (case v of PList xs \<Rightarrow> Inl TypeError | PDict d \<Rightarrow> Inl TypeError | _ \<Rightarrow> Inl KeyError)
             | Some x \<Rightarrow> if x = 1 then Inr ''PASS'' else if x = 0 then Inr ''**FAIL**'' else Inl KeyError))"

definition by_count :: "(string \<times> int) list \<Rightarrow> (string \<times> int) list" where
  \<comment> \<open>\<open>sorted(errs.items(), key=lambda kv: -kv[1])\<close>\<close>
  "by_count errs = sort_key (\<lambda>kv. - snd kv) errs"

definition is_merge :: "pydict \<Rightarrow> bool" where
  "is_merge r = (dget_or r ''kind'' PNone = PStr ''meter'' \<and> dget_or r ''metric'' PNone = PStr ''ducklake.compaction.duration'')"

definition merge_key :: "(pyval \<Rightarrow> string) \<Rightarrow> pydict \<Rightarrow> string" where
  "merge_key rend r = py_str rend (dget_or r ''type'' PNone) @ ''/'' @ py_str rend (dget_or r ''step'' PNone)"

definition merge_times :: "(pyval \<Rightarrow> string) \<Rightarrow> pydict list \<Rightarrow> string \<Rightarrow> rat list" where
  \<comment> \<open>\<open>by_type[key]\<close>\<close>
  "merge_times rend rows key = series (filter (\<lambda>r. is_merge r \<and> merge_key rend r = key) rows) ''mean_ms''"

definition untimed :: "pydict list \<Rightarrow> nat" where
  "untimed rows = length (filter (\<lambda>r. truthy (dget_or r ''no_timestamp'' PNone)) rows)"

end
