(* ===== verification/ProcFs.thy ===== *)
theory ProcFs
  imports TextOps "HOL-Library.AList" "HOL-Library.Product_Lexorder"
begin

text \<open>
  The parsers of \<open>bench/host_agent.py\<close>: what the agent reads off the text of the kernel's
  \<open>/proc\<close> files and of \<open>pgrep\<close>, \<open>jcmd\<close>, \<open>dmesg\<close> and \<open>systemctl\<close>. A dictionary is an association
  list in insertion order, updated in place when a key comes again. A field that is not a number or
  missing raises, as in Python.
\<close>

type_synonym 'a dict = "(string \<times> 'a) list"

definition dput :: "string \<Rightarrow> 'a \<Rightarrow> 'a dict \<Rightarrow> 'a dict" where
  \<comment> \<open>\<open>d[k] = v\<close>\<close>
  "dput k v d = AList.update k v d"

fun efold :: "('a \<Rightarrow> 'b \<Rightarrow> pyexn + 'b) \<Rightarrow> 'a list \<Rightarrow> 'b \<Rightarrow> pyexn + 'b" where
  "efold f [] b = Inr b"
| "efold f (x # xs) b = ebind (f x b) (efold f xs)"

definition get0 :: "int dict \<Rightarrow> string \<Rightarrow> int" where
  "get0 d k = (case map_of d k of None \<Rightarrow> 0 | Some v \<Rightarrow> v)"

section \<open>/proc/stat\<close>

definition cpu_line :: "string \<Rightarrow> pyexn + string \<times> int \<times> int" where
  "cpu_line line =
     (let parts = words_of line
      in ebind (at_index parts 0) (\<lambda>name.
         ebind (emap to_int (tl parts)) (\<lambda>vals.
         ebind (at_index vals 3) (\<lambda>idle.
         Inr (name, sum_list vals, idle + (if 4 < length vals then vals ! 4 else 0))))))"

definition cpu_times :: "string \<Rightarrow> pyexn + (int \<times> int) dict" where
  \<comment> \<open>the lines up to the first that does not start with \<open>cpu\<close>\<close>
  "cpu_times stat =
     efold (\<lambda>line d. ebind (cpu_line line) (\<lambda>(name, total, idle). Inr (dput name (total, idle) d)))
       (takeWhile (starts_with ''cpu'') (lines_of stat)) []"

definition stat_counters :: "string \<Rightarrow> pyexn + int \<times> int" where
  "stat_counters stat =
     efold (\<lambda>line (ctxt, procs).
        if starts_with ''ctxt '' line then ebind (int_field (words_of line) 1) (\<lambda>n. Inr (n, procs))
        else if starts_with ''processes '' line then ebind (int_field (words_of line) 1) (\<lambda>n. Inr (ctxt, n))
        else Inr (ctxt, procs)) (lines_of stat) (0, 0)"

section \<open>/proc/meminfo\<close>

record memory =
  me_total :: int
  me_available :: int
  me_used :: int
  me_cache :: int
  me_dirty :: int
  me_writeback :: int
  me_swap_total :: int
  me_swap_free :: int

definition meminfo :: "string \<Rightarrow> pyexn + memory" where
  "meminfo text =
     ebind (efold (\<lambda>line d.
        let (key, rest) = partition_at (CHR '':'') line; val = words_of (strip rest)
        in if val = [] then Inr d else ebind (to_int (hd val)) (\<lambda>n. Inr (dput key (n * 1024) d)))
       (lines_of text) []) (\<lambda>out.
     let total = get0 out ''MemTotal''; avail = get0 out ''MemAvailable''
     in Inr \<lparr>me_total = total, me_available = avail, me_used = total - avail, me_cache = get0 out ''Cached'',
             me_dirty = get0 out ''Dirty'', me_writeback = get0 out ''Writeback'',
             me_swap_total = get0 out ''SwapTotal'', me_swap_free = get0 out ''SwapFree''\<rparr>)"

section \<open>/proc/diskstats and /proc/net/dev\<close>

definition ends_with_digit :: "string \<Rightarrow> bool" where
  \<comment> \<open>\<open>re.search(r'p?\d+$', name)\<close>\<close>
  "ends_with_digit name = (name \<noteq> [] \<and> is_digit (last name))"

definition ends_with_part :: "string \<Rightarrow> bool" where
  \<comment> \<open>\<open>re.search(r'p\d+$', name)\<close>\<close>
  "ends_with_part name =
     (let r = dropWhile is_digit (rev name)
      in ends_with_digit name \<and> r \<noteq> [] \<and> hd r = CHR ''p'')"

definition skip_disk :: "string \<Rightarrow> bool" where
  "skip_disk name =
     ((starts_with_any [''loop'', ''ram'', ''dm-''] name \<or> ends_with_digit name)
      \<and> (\<not> starts_with ''nvme'' name \<or> ends_with_part name))"

record disk =
  dk_reads :: int
  dk_read_bytes :: int
  dk_writes :: int
  dk_write_bytes :: int
  dk_io_ms :: int

definition diskstats :: "string \<Rightarrow> pyexn + disk dict" where
  "diskstats text =
     efold (\<lambda>line d.
        let f = words_of line
        in if length f < 14 \<or> skip_disk (f ! 2) then Inr d
           else ebind (int_field f 3) (\<lambda>reads. ebind (int_field f 5) (\<lambda>rsect. ebind (int_field f 7) (\<lambda>writes.
                ebind (int_field f 9) (\<lambda>wsect. ebind (int_field f 12) (\<lambda>io.
                Inr (dput (f ! 2) \<lparr>dk_reads = reads, dk_read_bytes = rsect * 512, dk_writes = writes,
                                   dk_write_bytes = wsect * 512, dk_io_ms = io\<rparr> d)))))))
       (lines_of text) []"

record nic =
  nc_rx_bytes :: int
  nc_rx_packets :: int
  nc_tx_bytes :: int
  nc_tx_packets :: int

definition netdev :: "string \<Rightarrow> pyexn + nic dict" where
  "netdev text =
     efold (\<lambda>line d.
        let (before, rest) = partition_at (CHR '':'') line; name = strip before; f = words_of rest
        in if name = ''lo'' \<or> length f < 16 then Inr d
           else ebind (int_field f 0) (\<lambda>rb. ebind (int_field f 1) (\<lambda>rp. ebind (int_field f 8) (\<lambda>tb.
                ebind (int_field f 9) (\<lambda>tp.
                Inr (dput name \<lparr>nc_rx_bytes = rb, nc_rx_packets = rp, nc_tx_bytes = tb, nc_tx_packets = tp\<rparr> d))))))
       (drop 2 (lines_of text)) []"

section \<open>/proc/pid/stat\<close>

record proc_info =
  pi_ticks :: int
  pi_rss :: int
  pi_threads :: int
  pi_start :: int

definition after_comm :: "string \<Rightarrow> string" where
  \<comment> \<open>\<open>raw[raw.rfind(')') + 2:]\<close>\<close>
  "after_comm raw =
     (if CHR '')'' \<in> set raw then drop 1 (rev (takeWhile (\<lambda>c. c \<noteq> CHR '')'') (rev raw))) else drop 1 raw)"

definition proc_stat :: "int \<Rightarrow> string \<Rightarrow> pyexn + proc_info option" where
  "proc_stat page raw =
     (if raw = [] then Inr None
      else let tail = words_of (after_comm raw)
           in ebind (int_field tail 11) (\<lambda>utime. ebind (int_field tail 12) (\<lambda>stime.
              ebind (int_field tail 21) (\<lambda>rss. ebind (int_field tail 19) (\<lambda>start.
              ebind (int_field tail 17) (\<lambda>threads.
              Inr (Some \<lparr>pi_ticks = utime + stime, pi_rss = rss * page, pi_threads = threads, pi_start = start\<rparr>)))))))"

section \<open>Commands\<close>

fun kilobytes_after :: "string \<Rightarrow> string \<Rightarrow> int option" where
  \<comment> \<open>\<open>re.search(word + r'\s+(\d+)K', text)\<close>\<close>
  "kilobytes_after word [] = None"
| "kilobytes_after word (c # cs) =
     (let rest = drop (length word) (c # cs); num = dropWhile is_space rest; ds = takeWhile is_digit num;
          after = dropWhile is_digit num
      in if starts_with word (c # cs) \<and> rest \<noteq> [] \<and> is_space (hd rest) \<and> ds \<noteq> [] \<and> after \<noteq> [] \<and> hd after = CHR ''K''
         then Some (int (num_of_digits (map digit_val ds))) else kilobytes_after word cs)"

definition jvm_heap :: "string option \<Rightarrow> (int option \<times> int option) option" where
  \<comment> \<open>what \<open>jcmd\<close> printed, if it ran\<close>
  "jvm_heap out =
     map_option (\<lambda>t. (map_option (\<lambda>n. n * 1024) (kilobytes_after ''used'' t),
                      map_option (\<lambda>n. n * 1024) (kilobytes_after ''total'' t))) out"

definition is_java :: "string \<Rightarrow> bool" where
  "is_java cmd =
     (starts_with_any [''java'', ''/usr/bin/java''] (dropWhile is_space cmd) \<or> infix_of ''/bin/java '' cmd)"

definition is_agent :: "string \<Rightarrow> bool" where
  "is_agent cmd = (infix_of ''host_agent'' cmd \<or> infix_of ''--process-pattern'' cmd)"

definition candidates :: "int \<Rightarrow> string \<Rightarrow> (int \<times> int) list" where
  "candidates me out =
     List.map_filter (\<lambda>line.
        let (pid_s, cmd) = partition_at (CHR '' '') line
        in case parse_int pid_s of
             None \<Rightarrow> None
           | Some pid \<Rightarrow> if pid = me \<or> is_agent cmd then None else Some (if is_java cmd then 0 else 1, pid))
       (lines_of out)"

definition pid_of :: "int \<Rightarrow> string option \<Rightarrow> int option" where
  \<comment> \<open>what \<open>pgrep -af\<close> printed, if it found any\<close>
  "pid_of me out =
     (case out of None \<Rightarrow> None
      | Some t \<Rightarrow> (case sort (candidates me t) of [] \<Rightarrow> None | c # _ \<Rightarrow> Some (snd c)))"

definition oom_events :: "string option \<Rightarrow> int option" where
  "oom_events out = map_option (\<lambda>t. int (count_text ''out of memory: killed'' 0 (to_lower t))) out"

record unit_state =
  us_active :: "string option"
  us_sub :: "string option"
  us_restarts :: int
  us_memory :: "int option"

definition systemd_unit :: "string \<Rightarrow> pyexn + unit_state" where
  "systemd_unit out =
     (let kv = foldl (\<lambda>d line. let (k, v) = partition_at (CHR ''='') line in dput k v d) [] (lines_of out);
          mem = (case map_of kv ''MemoryCurrent'' of None \<Rightarrow> None | Some v \<Rightarrow>
                   (case parse_int v of None \<Rightarrow> None
                    | Some n \<Rightarrow> if n = 0 \<or> n = 18446744073709551615 then None else Some n));
          restarts = (case map_of kv ''NRestarts'' of None \<Rightarrow> Inr 0 | Some v \<Rightarrow> if v = [] then Inr 0 else to_int v)
      in ebind restarts (\<lambda>n.
         Inr \<lparr>us_active = map_of kv ''ActiveState'', us_sub = map_of kv ''SubState'', us_restarts = n, us_memory = mem\<rparr>))"

section \<open>The watched process\<close>

definition eligible :: "int \<Rightarrow> string \<Rightarrow> int \<Rightarrow> bool" where
  \<comment> \<open>a line of \<open>pgrep -af\<close> that is about process \<open>pid\<close>, neither this agent nor a command that mentions it\<close>
  "eligible me line pid =
     (parse_int (fst (partition_at (CHR '' '') line)) = Some pid \<and> pid \<noteq> me
      \<and> \<not> is_agent (snd (partition_at (CHR '' '') line)))"

definition java_line :: "string \<Rightarrow> bool" where
  "java_line line = is_java (snd (partition_at (CHR '' '') line))"

lemma map_filter_mem: "y \<in> set (List.map_filter f xs) \<longleftrightarrow> (\<exists>x \<in> set xs. f x = Some y)"
  by (force simp: List.map_filter_def)

lemma candidates_mem:
  "(r, pid) \<in> set (candidates me out) \<longleftrightarrow>
     (\<exists>line \<in> set (lines_of out). eligible me line pid \<and> r = (if java_line line then 0 else 1))"
  unfolding candidates_def map_filter_mem
  by (intro bex_cong refl) (auto simp: eligible_def java_line_def Let_def split: option.splits prod.splits)

text \<open>Which process is watched. The agent never picks itself nor any process whose command
  line mentions it; it picks a Java process whenever one matches, and among equals the smallest
  number; and it finds none only when no line of \<open>pgrep\<close> is of another process.\<close>

theorem watched_process:
  "case pid_of me (Some out) of
      None \<Rightarrow> \<not> (\<exists>line \<in> set (lines_of out). \<exists>pid. eligible me line pid)
    | Some pid \<Rightarrow> \<exists>line \<in> set (lines_of out). eligible me line pid
        \<and> \<not> (\<exists>l \<in> set (lines_of out). \<exists>p. eligible me l p
              \<and> (java_line l \<and> \<not> java_line line \<or> java_line l = java_line line \<and> p < pid))"
proof (cases "sort (candidates me out)")
  case Nil
  then have "candidates me out = []" by (metis length_0_conv length_sort)
  then have "\<not> (\<exists>line \<in> set (lines_of out). \<exists>pid. eligible me line pid)"
    using candidates_mem [of _ _ me out] by auto
  with Nil show ?thesis by (simp add: pid_of_def)
next
  case (Cons c cs)
  obtain r pid where c: "c = (r, pid)" by (cases c)
  have "c \<in> set (candidates me out)" using Cons by (metis list.set_intros(1) set_sort)
  then obtain line where line: "line \<in> set (lines_of out)" "eligible me line pid" "r = (if java_line line then 0 else 1)"
    unfolding c candidates_mem by blast
  have least: "c \<le> c'" if "c' \<in> set (candidates me out)" for c'
  proof -
    have "sorted (c # cs)" using Cons by (metis sorted_sort)
    moreover have "c' \<in> set (c # cs)" using that Cons by (metis set_sort)
    ultimately show ?thesis by auto
  qed
  have "\<not> (java_line l \<and> \<not> java_line line \<or> java_line l = java_line line \<and> p < pid)"
    if l: "l \<in> set (lines_of out)" "eligible me l p" for l p
  proof -
    have "((if java_line l then 0 else 1), p) \<in> set (candidates me out)"
      using l unfolding candidates_mem by blast
    from least [OF this] show ?thesis unfolding c line(3) by (auto simp: less_eq_prod_def split: if_splits)
  qed
  with line Cons show ?thesis by (auto simp: pid_of_def c)
qed

end
