(* ===== verification/HostAgent.thy ===== *)
theory HostAgent
  imports Metrics ProcFs
begin

text \<open>
  \<open>bench/host_agent.py\<close>: the agent that samples the machine it runs on. What it reads in one
  sample is the record \<open>reading\<close>; a sample is a function from the agent's state and a reading to
  the sample and the next state. Times are exact; what the sockets answer is an argument of the
  checks; writing files, signals and the command line are left out.
\<close>

section \<open>Checks of what the host depends on\<close>

datatype reply_of = Status int string | Raised_with string

definition elapsed_ms :: "rat \<Rightarrow> pykey \<times> pyval" where
  "elapsed_ms seconds = (KStr ''latency_ms'', num (round_to 2 (seconds * 1000)))"

definition unconfigured :: pydict where
  "unconfigured = [(KStr ''configured'', PBool False)]"

definition check_health :: "(string \<Rightarrow> pyval option) \<Rightarrow> string \<Rightarrow> rat \<Rightarrow> reply_of \<Rightarrow> pydict" where
  \<comment> \<open>\<open>loads\<close> is \<open>json.loads\<close>, \<open>None\<close> where it raises \<open>ValueError\<close>\<close>
  "check_health loads url seconds r =
     (if url = [] then unconfigured
      else case r of
          Status code body \<Rightarrow>
            [(KStr ''configured'', PBool True), (KStr ''ok'', PBool (200 \<le> code \<and> code < 300)),
             (KStr ''http_status'', PInt code), elapsed_ms seconds,
             (KStr ''body'', (case loads body of Some v \<Rightarrow> v | None \<Rightarrow> PStr (take 500 body)))]
        | Raised_with e \<Rightarrow>
            [(KStr ''configured'', PBool True), (KStr ''ok'', PBool False), elapsed_ms seconds, (KStr ''error'', PStr e)])"

definition check_tcp :: "string \<Rightarrow> int \<Rightarrow> rat \<Rightarrow> string option \<Rightarrow> pydict" where
  \<comment> \<open>the error of connecting, if any\<close>
  "check_tcp host port seconds err =
     (if host = [] then unconfigured
      else [(KStr ''configured'', PBool True), (KStr ''ok'', PBool (err = None)), (KStr ''host'', PStr host),
            (KStr ''port'', PInt port), elapsed_ms seconds]
           @ (case err of None \<Rightarrow> [] | Some e \<Rightarrow> [(KStr ''error'', PStr e)]))"

definition check_s3 :: "string \<Rightarrow> string \<Rightarrow> rat \<Rightarrow> reply_of \<Rightarrow> pydict" where
  "check_s3 bucket region seconds r =
     (if bucket = [] then unconfigured
      else let host = bucket @ ''.s3.'' @ region @ ''.amazonaws.com''
           in case r of
               Status code body \<Rightarrow>
                 let reachable = (code \<in> {200, 301, 307, 403})
                 in [(KStr ''configured'', PBool True), (KStr ''ok'', PBool reachable), (KStr ''bucket'', PStr bucket),
                     (KStr ''endpoint'', PStr host), (KStr ''http_status'', PInt code), elapsed_ms seconds,
                     (KStr ''checks'', PStr ''reachability only, not IAM authorization'')]
                    @ (if reachable then [] else [(KStr ''error'', PStr (''unexpected HTTP '' @ show_int code))])
             | Raised_with e \<Rightarrow>
                 [(KStr ''configured'', PBool True), (KStr ''ok'', PBool False), (KStr ''bucket'', PStr bucket),
                  (KStr ''endpoint'', PStr host), elapsed_ms seconds, (KStr ''error'', PStr e)])"

definition opt_int :: "int option \<Rightarrow> pyval" where
  "opt_int i = (case i of None \<Rightarrow> PNone | Some n \<Rightarrow> PInt n)"

definition opt_str :: "string option \<Rightarrow> pyval" where
  "opt_str s = (case s of None \<Rightarrow> PNone | Some t \<Rightarrow> PStr t)"

definition check_unit :: "string \<Rightarrow> string + string \<Rightarrow> pyexn + pydict" where
  \<comment> \<open>\<open>systemd_unit\<close>: the error of running \<open>systemctl\<close>, or what it printed\<close>
  "check_unit unit r =
     (if unit = [] then Inr unconfigured
      else case r of
          Inl e \<Rightarrow> Inr [(KStr ''configured'', PBool True), (KStr ''ok'', PBool False), (KStr ''error'', PStr e)]
        | Inr out \<Rightarrow> ebind (systemd_unit out) (\<lambda>u.
            Inr [(KStr ''configured'', PBool True), (KStr ''ok'', PBool (us_active u = Some ''active'')),
                 (KStr ''active_state'', opt_str (us_active u)), (KStr ''sub_state'', opt_str (us_sub u)),
                 (KStr ''restarts'', PInt (us_restarts u)), (KStr ''memory_current_bytes'', opt_int (us_memory u))]))"

record deps =
  de_health :: pydict
  de_s3 :: pydict
  de_rds :: pydict
  de_unit :: pydict

section \<open>The agent\<close>

record settings =
  se_pattern :: string
  se_jvm :: bool
  se_check_interval :: rat
  se_page :: int
  se_ticks :: int

record reading =
  rd_mono :: rat
  rd_stat :: string
  rd_meminfo :: string
  rd_diskstats :: string
  rd_netdev :: string
  rd_loadavg :: string
  rd_me :: int
  rd_pgrep :: "string option"
  rd_pstat :: "int \<Rightarrow> string"
  rd_jcmd :: "int \<Rightarrow> string option"
  rd_dmesg :: "string option"
  rd_deps :: "pyexn + deps"

record agent =
  ag_cpu :: "(int \<times> int) dict"
  ag_disk :: "disk dict"
  ag_net :: "nic dict"
  ag_ctxt :: int
  ag_procs :: int
  ag_proc :: "proc_info option"
  ag_t :: rat
  ag_pid :: "int option"
  ag_start :: "int option"
  ag_restarts :: int
  ag_dep_last :: rat
  ag_deps :: deps

definition no_deps :: deps where
  "no_deps = \<lparr>de_health = [], de_s3 = [], de_rds = [], de_unit = []\<rparr>"

definition new_agent :: "reading \<Rightarrow> pyexn + agent" where
  "new_agent rd =
     ebind (cpu_times (rd_stat rd)) (\<lambda>cpu.
     ebind (diskstats (rd_diskstats rd)) (\<lambda>disk.
     ebind (netdev (rd_netdev rd)) (\<lambda>net.
     ebind (stat_counters (rd_stat rd)) (\<lambda>(ctxt, procs).
     Inr \<lparr>ag_cpu = cpu, ag_disk = disk, ag_net = net, ag_ctxt = ctxt, ag_procs = procs, ag_proc = None, ag_t = rd_mono rd,
          ag_pid = None, ag_start = None, ag_restarts = 0, ag_dep_last = 0, ag_deps = no_deps\<rparr>))))"

definition see_process :: "(int \<times> int) option \<Rightarrow> agent \<Rightarrow> agent" where
  \<comment> \<open>the end of \<open>_resolve_pid\<close>: the process found and when it started\<close>
  "see_process found a =
     (case found of
        None \<Rightarrow> a\<lparr>ag_pid := None\<rparr>
      | Some (pid, start) \<Rightarrow>
          a\<lparr>ag_restarts := ag_restarts a
               + (if ag_pid a \<noteq> None \<and> (ag_pid a \<noteq> Some pid \<or> ag_start a \<noteq> Some start) then 1 else 0),
            ag_pid := Some pid, ag_start := Some start\<rparr>)"

definition resolve_pid :: "settings \<Rightarrow> reading \<Rightarrow> agent \<Rightarrow> pyexn + agent" where
  "resolve_pid se rd a =
     (if se_pattern se = [] then Inr a
      else case pid_of (rd_me rd) (rd_pgrep rd) of
          None \<Rightarrow> Inr (see_process None a)
        | Some pid \<Rightarrow>
            ebind (proc_stat (se_page se) (rd_pstat rd pid)) (\<lambda>info.
            Inr (see_process (map_option (\<lambda>i. (pid, pi_start i)) info) a)))"

definition refresh_deps :: "settings \<Rightarrow> reading \<Rightarrow> agent \<Rightarrow> pyexn + bool \<times> agent" where
  "refresh_deps se rd a =
     (if rd_mono rd - ag_dep_last a < se_check_interval se then Inr (False, a)
      else ebind (rd_deps rd) (\<lambda>d. Inr (True, a\<lparr>ag_dep_last := rd_mono rd, ag_deps := d\<rparr>)))"

definition cpu_percent :: "int \<times> int \<Rightarrow> int \<times> int \<Rightarrow> rat" where
  \<comment> \<open>previous and current (total, idle)\<close>
  "cpu_percent prev cur =
     (let dt = fst cur - fst prev; di = snd cur - snd prev
      in if 0 < dt then round_to 2 (100 * of_int (dt - di) / of_int dt) else 0)"

definition prev_or :: "'a dict \<Rightarrow> string \<Rightarrow> 'a \<Rightarrow> 'a" where
  "prev_or d k v = (case map_of d k of None \<Rightarrow> v | Some x \<Rightarrow> x)"

record disk_rates =
  dr_read_bytes :: rat
  dr_write_bytes :: rat
  dr_read_iops :: rat
  dr_write_iops :: rat
  dr_util :: rat

definition disk_rates_of :: "rat \<Rightarrow> disk \<Rightarrow> disk \<Rightarrow> disk_rates" where
  "disk_rates_of elapsed prev cur =
     \<lparr>dr_read_bytes = of_int (dk_read_bytes cur - dk_read_bytes prev) / elapsed,
      dr_write_bytes = of_int (dk_write_bytes cur - dk_write_bytes prev) / elapsed,
      dr_read_iops = of_int (dk_reads cur - dk_reads prev) / elapsed,
      dr_write_iops = of_int (dk_writes cur - dk_writes prev) / elapsed,
      dr_util = min 100 (of_int (dk_io_ms cur - dk_io_ms prev) / (elapsed * 10))\<rparr>"

record nic_rates =
  nr_rx_bytes :: rat
  nr_tx_bytes :: rat
  nr_rx_pps :: rat
  nr_tx_pps :: rat

definition nic_rates_of :: "rat \<Rightarrow> nic \<Rightarrow> nic \<Rightarrow> nic_rates" where
  "nic_rates_of elapsed prev cur =
     \<lparr>nr_rx_bytes = of_int (nc_rx_bytes cur - nc_rx_bytes prev) / elapsed,
      nr_tx_bytes = of_int (nc_tx_bytes cur - nc_tx_bytes prev) / elapsed,
      nr_rx_pps = of_int (nc_rx_packets cur - nc_rx_packets prev) / elapsed,
      nr_tx_pps = of_int (nc_tx_packets cur - nc_tx_packets prev) / elapsed\<rparr>"

record watched =
  wa_pid :: int
  wa_cpu :: rat
  wa_rss :: int
  wa_threads :: int
  wa_jvm :: "(int option \<times> int option) option option"

definition watch :: "settings \<Rightarrow> reading \<Rightarrow> rat \<Rightarrow> agent \<Rightarrow> pyexn + watched option \<times> agent" where
  \<comment> \<open>the process part of a sample; \<open>if self.pid:\<close> and \<open>if cur:\<close> skip it\<close>
  "watch se rd elapsed a =
     (case ag_pid a of
        None \<Rightarrow> Inr (None, a)
      | Some pid \<Rightarrow>
          if pid = 0 then Inr (None, a)
          else ebind (proc_stat (se_page se) (rd_pstat rd pid)) (\<lambda>cur.
               case cur of
                 None \<Rightarrow> Inr (None, a)
               | Some c \<Rightarrow>
                   let cpu = (case ag_proc a of None \<Rightarrow> 0
                              | Some p \<Rightarrow> 100 * of_int (pi_ticks c - pi_ticks p) / of_int (se_ticks se) / elapsed)
                   in Inr (Some \<lparr>wa_pid = pid, wa_cpu = round_to 2 cpu, wa_rss = pi_rss c, wa_threads = pi_threads c,
                                 wa_jvm = (if se_jvm se then Some (jvm_heap (rd_jcmd rd pid)) else None)\<rparr>,
                           a\<lparr>ag_proc := Some c\<rparr>)))"

record sample =
  sm_cpu :: rat
  sm_per_core :: "rat dict"
  sm_load :: "pyfloat list"
  sm_ctxt :: rat
  sm_forks :: rat
  sm_memory :: memory
  sm_disk :: "disk_rates dict"
  sm_net :: "nic_rates dict"
  sm_process :: "watched option"
  sm_restarts :: int
  sm_oom :: "int option"
  sm_checks :: deps
  sm_refreshed :: bool

definition elapsed_since :: "rat \<Rightarrow> rat \<Rightarrow> rat" where
  "elapsed_since prev now = max (1 / 10 ^ 6) (now - prev)"

definition load_floats :: "string \<Rightarrow> pyexn + pyfloat list" where
  "load_floats text =
     emap (\<lambda>w. case parse_float w of None \<Rightarrow> Inl ValueError | Some f \<Rightarrow> Inr f) (take 3 (words_of text @ [''0'', ''0'', ''0'']))"

definition take_sample :: "settings \<Rightarrow> reading \<Rightarrow> agent \<Rightarrow> pyexn + sample \<times> agent" where
  "take_sample se rd a =
     (let elapsed = elapsed_since (ag_t a) (rd_mono rd)
      in ebind (refresh_deps se rd a) (\<lambda>(refreshed, a1).
         ebind (cpu_times (rd_stat rd)) (\<lambda>cpu.
         let pct = map (\<lambda>(n, c). (n, cpu_percent (prev_or (ag_cpu a1) n c) c)) cpu
         in ebind (diskstats (rd_diskstats rd)) (\<lambda>disk.
            ebind (netdev (rd_netdev rd)) (\<lambda>net.
            ebind (stat_counters (rd_stat rd)) (\<lambda>(ctxt, procs).
            ebind (resolve_pid se rd (a1\<lparr>ag_cpu := cpu, ag_disk := disk, ag_net := net\<rparr>)) (\<lambda>a2.
            ebind (watch se rd elapsed a2) (\<lambda>(proc, a3).
            ebind (load_floats (rd_loadavg rd)) (\<lambda>loads.
            ebind (meminfo (rd_meminfo rd)) (\<lambda>mem.
            Inr (\<lparr>sm_cpu = prev_or pct ''cpu'' 0, sm_per_core = filter (\<lambda>p. fst p \<noteq> ''cpu'') pct, sm_load = loads,
                  sm_ctxt = of_int (ctxt - ag_ctxt a) / elapsed, sm_forks = of_int (procs - ag_procs a) / elapsed,
                  sm_memory = mem,
                  sm_disk = map (\<lambda>(n, c). (n, disk_rates_of elapsed (prev_or (ag_disk a1) n c) c)) disk,
                  sm_net = map (\<lambda>(n, c). (n, nic_rates_of elapsed (prev_or (ag_net a1) n c) c)) net,
                  sm_process = proc, sm_restarts = ag_restarts a3, sm_oom = oom_events (rd_dmesg rd),
                  sm_checks = ag_deps a1, sm_refreshed = refreshed\<rparr>,
                 a3\<lparr>ag_ctxt := ctxt, ag_procs := procs, ag_t := rd_mono rd\<rparr>)))))))))))"

fun take_samples :: "settings \<Rightarrow> reading list \<Rightarrow> agent \<Rightarrow> pyexn + sample list \<times> agent" where
  "take_samples se [] a = Inr ([], a)"
| "take_samples se (rd # rds) a =
     ebind (take_sample se rd a) (\<lambda>(s, a'). ebind (take_samples se rds a') (\<lambda>(ss, a''). Inr (s # ss, a'')))"

section \<open>The snapshot for the central exporter\<close>

definition sum_rates :: "('a \<Rightarrow> rat) \<Rightarrow> 'a dict \<Rightarrow> pyval" where
  "sum_rates f d = num (sum_list (map (f \<circ> snd) d))"

definition heap_dict :: "(int option \<times> int option) option \<Rightarrow> pyval" where
  "heap_dict h =
     (case h of None \<Rightarrow> PNone
      | Some (u, t) \<Rightarrow> PDict [(KStr ''heap_used_bytes'', opt_int u), (KStr ''heap_total_bytes'', opt_int t)])"

definition opt_field :: "'a option \<Rightarrow> ('a \<Rightarrow> pyval) \<Rightarrow> pyval" where
  "opt_field x f = (case x of None \<Rightarrow> PNone | Some v \<Rightarrow> f v)"

definition health_snapshot :: "string \<Rightarrow> string \<Rightarrow> rat \<Rightarrow> string \<Rightarrow> int option \<times> int option \<Rightarrow> sample \<Rightarrow> pydict" where
  \<comment> \<open>role, host name, time and its text, and the free and total bytes of \<open>/\<close>\<close>
  "health_snapshot role hostname ts iso_text space s =
     [(KStr ''role'', PStr role), (KStr ''hostname'', PStr hostname), (KStr ''ts'', num ts), (KStr ''iso'', PStr iso_text),
      (KStr ''agent_ok'', PBool True),
      (KStr ''service'', PDict [
         (KStr ''health'', PDict (de_health (sm_checks s))), (KStr ''unit'', PDict (de_unit (sm_checks s))),
         (KStr ''pid'', opt_field (sm_process s) (\<lambda>w. PInt (wa_pid w))),
         (KStr ''rss_bytes'', opt_field (sm_process s) (\<lambda>w. PInt (wa_rss w))),
         (KStr ''cpu_percent'', opt_field (sm_process s) (\<lambda>w. num (wa_cpu w))),
         (KStr ''jvm'', opt_field (sm_process s) (\<lambda>w. opt_field (wa_jvm w) heap_dict)),
         (KStr ''restarts'', PInt (sm_restarts s)), (KStr ''oom_kills'', opt_int (sm_oom s))]),
      (KStr ''dependencies'', PDict [(KStr ''s3'', PDict (de_s3 (sm_checks s))), (KStr ''rds'', PDict (de_rds (sm_checks s)))]),
      (KStr ''system'', PDict [
         (KStr ''cpu_percent'', num (sm_cpu s)),
         (KStr ''load_1m'', (case sm_load s of [] \<Rightarrow> PNone | f # _ \<Rightarrow> PFloat f)),
         (KStr ''mem_used_bytes'', PInt (me_used (sm_memory s))),
         (KStr ''mem_available_bytes'', PInt (me_available (sm_memory s))),
         (KStr ''swap_total_bytes'', PInt (me_swap_total (sm_memory s))),
         (KStr ''root_free_bytes'', opt_int (fst space)), (KStr ''root_total_bytes'', opt_int (snd space)),
         (KStr ''disk_write_bytes_per_s'', sum_rates dr_write_bytes (sm_disk s)),
         (KStr ''disk_read_bytes_per_s'', sum_rates dr_read_bytes (sm_disk s)),
         (KStr ''net_rx_bytes_per_s'', sum_rates nr_rx_bytes (sm_net s)),
         (KStr ''net_tx_bytes_per_s'', sum_rates nr_tx_bytes (sm_net s))])]"

section \<open>The pace of the loop\<close>

fun agent_ticks :: "rat \<Rightarrow> rat \<Rightarrow> rat \<Rightarrow> rat list \<Rightarrow> rat list" where
  \<comment> \<open>when each sample begins: the interval, the clock, \<open>next_tick\<close>, how long each round of work takes\<close>
  "agent_ticks itv now next [] = []"
| "agent_ticks itv now next (work # rest) =
     (let done = now + work; next' = next + itv; sleep = next' - done
      in now # (if sleep < 0 then agent_ticks itv done done rest else agent_ticks itv (done + sleep) next' rest))"

section \<open>Restarts\<close>

definition sightings :: "(int \<times> int) option list \<Rightarrow> agent \<Rightarrow> agent" where
  "sightings fs a = foldl (\<lambda>a f. see_process f a) a fs"

fun changes :: "(int \<times> int) option list \<Rightarrow> int" where
  \<comment> \<open>neighbours that are both a process, and not the same one\<close>
  "changes (Some x # Some y # fs) = (if x \<noteq> y then 1 else 0) + changes (Some y # fs)"
| "changes (f # fs) = changes fs"
| "changes [] = 0"

definition current :: "agent \<Rightarrow> (int \<times> int) option" where
  "current a = (case (ag_pid a, ag_start a) of (Some p, Some s) \<Rightarrow> Some (p, s) | _ \<Rightarrow> None)"

lemma sightings_changes:
  "(ag_pid a = None \<or> ag_start a \<noteq> None) \<Longrightarrow> ag_restarts (sightings fs a) = ag_restarts a + changes (current a # fs)"
proof (induction fs arbitrary: a)
  case Nil
  then show ?case by (cases "current a") (simp_all add: sightings_def)
next
  case (Cons f fs)
  have "ag_restarts (sightings (f # fs) a) = ag_restarts (sightings fs (see_process f a))"
    by (simp add: sightings_def)
  also have "\<dots> = ag_restarts (see_process f a) + changes (current (see_process f a) # fs)"
    by (rule Cons.IH) (auto simp: see_process_def split: option.split)
  also have "\<dots> = ag_restarts a + changes (current a # f # fs)"
  proof (cases f)
    case None
    then show ?thesis by (cases "current a") (simp_all add: see_process_def current_def)
  next
    case (Some x)
    obtain p s where x: "x = (p, s)" by (cases x)
    have "current (see_process f a) = Some x" by (simp add: Some x see_process_def current_def)
    moreover have "ag_restarts (see_process f a) = ag_restarts a + (if current a \<noteq> None \<and> current a \<noteq> Some x then 1 else 0)"
      using Cons.prems by (auto simp: Some x see_process_def current_def split: option.splits)
    ultimately show ?thesis by (cases "current a") (auto simp: Some)
  qed
  finally show ?case .
qed

text \<open>Which restarts are counted. Over any sequence of sightings of the watched process the
  counter is the number of neighbouring sightings of two different processes, by number or by start
  time. A restart that one sample falls into, so that no process is seen in between, is not
  counted.\<close>

theorem restarts_counted:
  assumes "ag_pid a = None"
  shows "ag_restarts (sightings fs a) = ag_restarts a + changes fs
    \<and> ag_restarts (sightings [Some x, None, Some y] a) = ag_restarts a"
proof -
  have "current a = None" using assms by (simp add: current_def)
  then have "changes (current a # gs) = changes gs" for gs by (cases gs) simp_all
  then have "ag_restarts (sightings gs a) = ag_restarts a + changes gs" for gs
    using sightings_changes [of a gs] assms by simp
  then show ?thesis by simp
qed

definition demo_agent :: agent where
  "demo_agent =
     \<lparr>ag_cpu = [], ag_disk = [], ag_net = [], ag_ctxt = 0, ag_procs = 0, ag_proc = None, ag_t = 0, ag_pid = None,
      ag_start = None, ag_restarts = 0, ag_dep_last = 0, ag_deps = no_deps\<rparr>"

lemma restarts_counted_witness:
  "ag_restarts (sightings [Some (7, 1), Some (7, 1), Some (8, 2)] demo_agent) = 1"
  using restarts_counted [of demo_agent "[Some (7, 1), Some (7, 1), Some (8, 2)]"] by (simp add: demo_agent_def)

section \<open>Fresh enough, not too often\<close>

lemma see_process_keeps [simp]:
  "ag_dep_last (see_process f a) = ag_dep_last a" "ag_deps (see_process f a) = ag_deps a"
  "ag_disk (see_process f a) = ag_disk a" "ag_t (see_process f a) = ag_t a"
  by (simp_all add: see_process_def split: option.split)

lemma resolve_keeps:
  "resolve_pid se rd a = Inr a' \<Longrightarrow> ag_dep_last a' = ag_dep_last a \<and> ag_deps a' = ag_deps a \<and> ag_disk a' = ag_disk a"
  by (auto simp: resolve_pid_def split: if_splits option.splits)

lemma watch_keeps:
  assumes "watch se rd el a = Inr (p, a')"
  shows "ag_dep_last a' = ag_dep_last a \<and> ag_deps a' = ag_deps a \<and> ag_disk a' = ag_disk a"
proof -
  have "a' = a \<or> (\<exists>c. a' = a\<lparr>ag_proc := Some c\<rparr>)"
  proof (cases "ag_pid a")
    case (Some pid)
    then show ?thesis
    proof (cases "proc_stat (se_page se) (rd_pstat rd pid)")
      case (Inr cur)
      then show ?thesis using assms Some by (cases cur; cases "pid = 0") (auto simp: watch_def Let_def)
    qed (use assms Some in \<open>auto simp: watch_def split: if_splits\<close>)
  qed (use assms in \<open>simp add: watch_def\<close>)
  then show ?thesis by auto
qed

lemma take_sample_parts:
  assumes "take_sample se rd a = Inr (s, a')"
  obtains a1 disk where "refresh_deps se rd a = Inr (sm_refreshed s, a1)" "diskstats (rd_diskstats rd) = Inr disk"
    "ag_dep_last a' = ag_dep_last a1" "ag_deps a' = ag_deps a1" "ag_disk a' = disk" "ag_t a' = rd_mono rd"
    "sm_disk s = map (\<lambda>(n, c). (n, disk_rates_of (elapsed_since (ag_t a) (rd_mono rd)) (prev_or (ag_disk a1) n c) c)) disk"
    "sm_checks s = ag_deps a1"
proof -
  from assms obtain refreshed a1 cpu disk net ctxt procs a2 proc a3 where *:
    "refresh_deps se rd a = Inr (refreshed, a1)" "diskstats (rd_diskstats rd) = Inr disk"
    "resolve_pid se rd (a1\<lparr>ag_cpu := cpu, ag_disk := disk, ag_net := net\<rparr>) = Inr a2"
    "watch se rd (elapsed_since (ag_t a) (rd_mono rd)) a2 = Inr (proc, a3)"
    "a' = a3\<lparr>ag_ctxt := ctxt, ag_procs := procs, ag_t := rd_mono rd\<rparr>" "sm_refreshed s = refreshed"
    "sm_checks s = ag_deps a1"
    "sm_disk s = map (\<lambda>(n, c). (n, disk_rates_of (elapsed_since (ag_t a) (rd_mono rd)) (prev_or (ag_disk a1) n c) c)) disk"
    by (auto simp: take_sample_def Let_def)
  with resolve_keeps [OF *(3)] watch_keeps [OF *(4)] that show ?thesis by simp
qed

lemma refresh_cases:
  assumes "refresh_deps se rd a = Inr (b, a1)"
  shows "ag_disk a1 = ag_disk a
    \<and> (if b then ag_dep_last a1 = rd_mono rd \<and> ag_dep_last a + se_check_interval se \<le> rd_mono rd
       else ag_dep_last a1 = ag_dep_last a \<and> rd_mono rd < ag_dep_last a + se_check_interval se)"
  using assms by (auto simp: refresh_deps_def split: if_splits)

fun refresh_times :: "reading list \<Rightarrow> sample list \<Rightarrow> rat list" where
  "refresh_times (rd # rds) (s # ss) = (if sm_refreshed s then [rd_mono rd] else []) @ refresh_times rds ss"
| "refresh_times _ _ = []"

text \<open>The checks are run often enough and not too often. Over any sequence of samples the
  times at which the dependency checks are run are at least the check interval apart, also from
  the last time before; and right after every sample the newest result is younger than that interval,
  however long the clock stood between the samples.\<close>

theorem checks_paced:
  assumes "take_samples se rds a = Inr (ss, a')" and "0 < se_check_interval se"
  shows "sorted_wrt (\<lambda>t u. t + se_check_interval se \<le> u) (ag_dep_last a # refresh_times rds ss)
    \<and> (rds \<noteq> [] \<longrightarrow> rd_mono (last rds) < ag_dep_last a' + se_check_interval se)"
  using assms(1)
proof (induction rds arbitrary: a ss)
  case (Cons rd rds)
  from Cons.prems obtain s a1 qs where s: "take_sample se rd a = Inr (s, a1)" "take_samples se rds a1 = Inr (qs, a')" "ss = s # qs"
    by auto
  from take_sample_parts [OF s(1)] obtain b where b: "refresh_deps se rd a = Inr (sm_refreshed s, b)"
    "ag_dep_last a1 = ag_dep_last b" by metis
  note c = refresh_cases [OF b(1)]
  note ih = Cons.IH [OF s(2)]
  have fresh: "rd_mono rd < ag_dep_last a1 + se_check_interval se" using c b(2) assms(2) by (auto split: if_splits)
  have "sorted_wrt (\<lambda>t u. t + se_check_interval se \<le> u) (ag_dep_last a # refresh_times (rd # rds) ss)"
    using ih c b(2) s(3) assms(2) by (auto split: if_splits)
  moreover have "rd_mono (last (rd # rds)) < ag_dep_last a' + se_check_interval se"
    using ih fresh s(2) by (cases rds) auto
  ultimately show ?case by simp
qed simp

definition demo_reading :: "rat \<Rightarrow> string \<Rightarrow> reading" where
  \<comment> \<open>a time and the number of sectors read\<close>
  "demo_reading t sectors =
     \<lparr>rd_mono = t, rd_stat = ''cpu 1 1 1 1'', rd_meminfo = [],
      rd_diskstats = ''8 0 sda 1 0 '' @ sectors @ '' 0 1 0 4 0 0 5 0'', rd_netdev = [], rd_loadavg = [], rd_me = 1,
      rd_pgrep = None, rd_pstat = (\<lambda>_. []), rd_jcmd = (\<lambda>_. None), rd_dmesg = None, rd_deps = Inr no_deps\<rparr>"

definition demo_settings :: settings where
  "demo_settings = \<lparr>se_pattern = [], se_jvm = False, se_check_interval = 15, se_page = 4096, se_ticks = 100\<rparr>"

definition demo_readings :: "reading list" where
  "demo_readings = [demo_reading 20 ''2'', demo_reading 30 ''9'', demo_reading 40 ''9'']"

definition readable :: "reading \<Rightarrow> bool" where
  "readable rd =
     (\<not> isl (cpu_times (rd_stat rd)) \<and> \<not> isl (diskstats (rd_diskstats rd)) \<and> \<not> isl (netdev (rd_netdev rd))
      \<and> \<not> isl (stat_counters (rd_stat rd)) \<and> \<not> isl (load_floats (rd_loadavg rd)) \<and> \<not> isl (meminfo (rd_meminfo rd))
      \<and> \<not> isl (rd_deps rd))"

text \<open>An agent that watches no process samples whatever it can read.\<close>

lemma not_isl: "\<not> isl r \<longleftrightarrow> (\<exists>x. r = Inr x)"
  by (cases r) auto

lemma refresh_runs:
  assumes "readable rd"
  shows "\<exists>b a1. refresh_deps se rd a = Inr (b, a1) \<and> ag_pid a1 = ag_pid a"
  using assms by (auto simp: refresh_deps_def readable_def not_isl)

lemma take_sample_runs:
  assumes "readable rd" and "se_pattern se = []" and "ag_pid a = None"
  shows "\<exists>s a'. take_sample se rd a = Inr (s, a') \<and> ag_pid a' = None"
proof -
  obtain b a1 where a1: "refresh_deps se rd a = Inr (b, a1)" "ag_pid a1 = None"
    using refresh_runs [OF assms(1), of se a] assms(3) by auto
  obtain cpu disk net cnt loads mem where r: "cpu_times (rd_stat rd) = Inr cpu" "diskstats (rd_diskstats rd) = Inr disk"
    "netdev (rd_netdev rd) = Inr net" "stat_counters (rd_stat rd) = Inr cnt" "load_floats (rd_loadavg rd) = Inr loads"
    "meminfo (rd_meminfo rd) = Inr mem"
    using assms(1) by (auto simp: readable_def not_isl)
  have w: "resolve_pid se rd c = Inr c" "ag_pid c = None \<Longrightarrow> watch se rd el c = Inr (None, c)" for c el
    using assms(2) by (simp_all add: resolve_pid_def watch_def)
  show ?thesis using a1 by (cases cnt) (simp add: take_sample_def Let_def r w)
qed

lemma take_samples_run:
  "\<lbrakk>list_all readable rds; se_pattern se = []; ag_pid a = None\<rbrakk> \<Longrightarrow> \<exists>ss a'. take_samples se rds a = Inr (ss, a')"
proof (induction rds arbitrary: a)
  case (Cons rd rds)
  then obtain s a1 where s: "take_sample se rd a = Inr (s, a1)" "ag_pid a1 = None"
    using take_sample_runs [of rd se a] by auto
  with Cons obtain ss a' where "take_samples se rds a1 = Inr (ss, a')" by fastforce
  with s(1) show ?case by simp
qed simp

lemma demo_disk2: "map_sum id (map fst) (diskstats ''8 0 sda 1 0 2 0 1 0 4 0 0 5 0'') = Inr [''sda'']"
  by code_simp

lemma demo_disk9: "map_sum id (map fst) (diskstats ''8 0 sda 1 0 9 0 1 0 4 0 0 5 0'') = Inr [''sda'']"
  by code_simp

lemma demo_text:
  "isl (cpu_times ''cpu 1 1 1 1'') = False" "isl (stat_counters ''cpu 1 1 1 1'') = False"
  "isl (netdev []) = False" "isl (load_floats []) = False" "isl (meminfo []) = False"
  by code_simp+

lemma lists_devices:
  assumes "map_sum id (map fst) r = Inr ks"
  shows "isl r = False" and "k \<in> set ks \<Longrightarrow> (case r of Inl e \<Rightarrow> True | Inr d \<Rightarrow> map_of d k \<noteq> None)"
  using assms by (cases r; auto simp: map_of_eq_None_iff)+

lemmas demo_disks = lists_devices [OF demo_disk2] lists_devices [OF demo_disk9]

lemma demo_readable: "list_all readable demo_readings"
  using demo_text(1-5) demo_disks by (simp add: demo_readings_def demo_reading_def readable_def)

lemma demo_runs: "ag_pid a = None \<Longrightarrow> \<exists>ss a'. take_samples demo_settings demo_readings a = Inr (ss, a')"
  by (rule take_samples_run) (simp_all add: demo_readable demo_settings_def)

lemma checks_paced_witness:
  "\<exists>ss a'. take_samples demo_settings demo_readings demo_agent = Inr (ss, a') \<and> (40 :: rat) < ag_dep_last a' + 15"
proof -
  obtain ss a' where run: "take_samples demo_settings demo_readings demo_agent = Inr (ss, a')"
    using demo_runs [of demo_agent] by (auto simp: demo_agent_def)
  have "se_check_interval demo_settings = 15" "demo_readings \<noteq> []" "rd_mono (last demo_readings) = 40"
    by (simp_all add: demo_settings_def demo_readings_def demo_reading_def)
  with checks_paced [OF run] have "(40 :: rat) < ag_dep_last a' + 15" by simp
  with run show ?thesis by blast
qed

section \<open>Rates add up\<close>

fun moved :: "string \<Rightarrow> rat \<Rightarrow> reading list \<Rightarrow> sample list \<Rightarrow> rat" where
  \<comment> \<open>the bytes read that the samples show: rate times time since the sample before, summed\<close>
  "moved k t (rd # rds) (s # ss) =
     (case map_of (sm_disk s) k of None \<Rightarrow> 0 | Some r \<Rightarrow> dr_read_bytes r * (rd_mono rd - t)) + moved k (rd_mono rd) rds ss"
| "moved k t _ _ = 0"

fun spaced :: "rat \<Rightarrow> reading list \<Rightarrow> bool" where
  "spaced t [] = True" | "spaced t (rd # rds) = (t + 1 / 10 ^ 6 \<le> rd_mono rd \<and> spaced (rd_mono rd) rds)"

definition shows_disk :: "string \<Rightarrow> reading \<Rightarrow> bool" where
  "shows_disk k rd = (case diskstats (rd_diskstats rd) of Inl e \<Rightarrow> True | Inr d \<Rightarrow> map_of d k \<noteq> None)"

definition read_count :: "string \<Rightarrow> agent \<Rightarrow> rat" where
  "read_count k a = (case map_of (ag_disk a) k of None \<Rightarrow> 0 | Some c \<Rightarrow> of_int (dk_read_bytes c))"

lemma map_of_map_key: "map_of (map (\<lambda>(n, c). (n, f n c)) d) k = map_option (f k) (map_of d k)"
  by (induction d) auto

text \<open>No byte is lost between samples. As long as the device is listed in every reading and
  the readings are at least a microsecond apart, the read rates of the samples, each multiplied by
  the time since the sample before it, add up to exactly the difference of the kernel's counter
  between the first state and the last, however irregular the samples are.\<close>

theorem disk_rates_add_up:
  assumes "take_samples se rds a = Inr (ss, a')" and "map_of (ag_disk a) k \<noteq> None"
    and "\<forall>rd \<in> set rds. shows_disk k rd" and "spaced (ag_t a) rds"
  shows "moved k (ag_t a) rds ss = read_count k a' - read_count k a"
  using assms
proof (induction rds arbitrary: a ss)
  case (Cons rd rds)
  from Cons.prems(1) obtain s a1 qs where s: "take_sample se rd a = Inr (s, a1)" "take_samples se rds a1 = Inr (qs, a')" "ss = s # qs"
    by auto
  obtain b disk where p: "refresh_deps se rd a = Inr (sm_refreshed s, b)" "diskstats (rd_diskstats rd) = Inr disk"
    "ag_dep_last a1 = ag_dep_last b" "ag_deps a1 = ag_deps b" "ag_disk a1 = disk" "ag_t a1 = rd_mono rd"
    "sm_disk s = map (\<lambda>(n, c). (n, disk_rates_of (elapsed_since (ag_t a) (rd_mono rd)) (prev_or (ag_disk b) n c) c)) disk"
    "sm_checks s = ag_deps b"
    by (rule take_sample_parts [OF s(1)])
  have b: "ag_disk b = ag_disk a" using refresh_cases [OF p(1)] by simp
  obtain c0 where c0: "map_of (ag_disk a) k = Some c0" using Cons.prems(2) by auto
  obtain c where c: "map_of disk k = Some c" using Cons.prems(3) p(2) by (auto simp: shows_disk_def)
  have e: "elapsed_since (ag_t a) (rd_mono rd) = rd_mono rd - ag_t a" "rd_mono rd - ag_t a \<noteq> 0"
    using Cons.prems(4) by (auto simp: elapsed_since_def max_def)
  have "map_of (sm_disk s) k = Some (disk_rates_of (rd_mono rd - ag_t a) c0 c)"
    unfolding p(7) map_of_map_key by (simp add: c c0 b e(1) prev_or_def)
  then have "moved k (ag_t a) (rd # rds) ss = of_int (dk_read_bytes c - dk_read_bytes c0) + moved k (ag_t a1) rds qs"
    using e(2) by (simp add: s(3) p(6) disk_rates_of_def)
  also have "moved k (ag_t a1) rds qs = read_count k a' - read_count k a1"
    by (rule Cons.IH [OF s(2)]) (use Cons.prems p(5,6) c in auto)
  finally show ?case by (simp add: read_count_def c0 c p(5))
qed simp

definition demo_known :: agent where
  "demo_known = demo_agent\<lparr>ag_disk := [(''sda'', \<lparr>dk_reads = 1, dk_read_bytes = 512, dk_writes = 1, dk_write_bytes = 2048, dk_io_ms = 5\<rparr>)]\<rparr>"

lemma demo_shown: "list_all (shows_disk ''sda'') demo_readings"
  using demo_disks by (simp add: demo_readings_def demo_reading_def shows_disk_def)

lemma disk_rates_add_up_witness:
  "\<exists>ss a'. take_samples demo_settings demo_readings demo_known = Inr (ss, a')
     \<and> moved ''sda'' 0 demo_readings ss = read_count ''sda'' a' - 512"
proof -
  obtain ss a' where run: "take_samples demo_settings demo_readings demo_known = Inr (ss, a')"
    using demo_runs [of demo_known] by (auto simp: demo_known_def demo_agent_def)
  have shown: "\<forall>rd \<in> set demo_readings. shows_disk ''sda'' rd" using demo_shown by (simp add: list_all_iff)
  have "map_of (ag_disk demo_known) ''sda'' \<noteq> None" "spaced (ag_t demo_known) demo_readings" "read_count ''sda'' demo_known = 512"
    "ag_t demo_known = 0"
    by (simp_all add: demo_known_def demo_agent_def demo_readings_def demo_reading_def read_count_def)
  with disk_rates_add_up [OF run _ shown] have "moved ''sda'' 0 demo_readings ss = read_count ''sda'' a' - 512" by simp
  with run show ?thesis by blast
qed

section \<open>Percentages\<close>

text \<open>The machine's CPU share is one: with counters that do not go backwards it is between 0
  and 100.\<close>

lemma share_range:
  assumes "0 < t" and "0 \<le> i" and "i \<le> (t :: int)"
  shows "(0 :: rat) \<le> 100 * of_int (t - i) / of_int t" and "100 * of_int (t - i) / of_int t \<le> (100 :: rat)"
  using assms by (simp_all add: divide_le_eq)

lemma cpu_percent_range:
  assumes "snd prev \<le> snd cur" and "snd cur - snd prev \<le> fst cur - fst prev"
  shows "0 \<le> cpu_percent prev cur \<and> cpu_percent prev cur \<le> 100"
proof (cases "fst prev < fst cur")
  case True
  let ?dt = "fst cur - fst prev" and ?di = "snd cur - snd prev"
  note share = share_range [of ?dt ?di]
  have "cpu_percent prev cur = round_to 2 (100 * of_int (?dt - ?di) / of_int ?dt)"
    using True by (simp only: cpu_percent_def Let_def) simp
  moreover have "round_to 2 0 \<le> round_to 2 (100 * of_int (?dt - ?di) / of_int ?dt)"
    by (rule round_to_mono) (use True assms in \<open>intro share; simp\<close>)
  moreover have "round_to 2 (100 * of_int (?dt - ?di) / of_int ?dt) \<le> round_to 2 100"
    by (rule round_to_mono) (use True assms in \<open>intro share; simp\<close>)
  moreover have "round_to 2 0 = 0" "round_to 2 100 = 100"
    using py_round_of_int [of 0] py_round_of_int [of 10000] by (simp_all add: round_to_def)
  ultimately show ?thesis by (simp only:)
qed (simp add: cpu_percent_def)

definition new_process :: proc_info where
  "new_process = \<lparr>pi_ticks = 5, pi_rss = 40960, pi_threads = 4, pi_start = 900\<rparr>"

definition reading_of_new :: "reading" where
  \<comment> \<open>the process that \<open>/proc\<close> shows has used 5 ticks\<close>
  "reading_of_new = (demo_reading 10 ''2'')\<lparr>rd_pstat :=
     (\<lambda>_. ''8 (java) S 1 1 1 0 0 0 0 0 0 0 3 2 0 0 20 0 4 0 900 0 10 0'')\<rparr>"

lemma reads_new_process: "proc_stat 4096 (rd_pstat reading_of_new 8) = Inr (Some new_process)"
  by code_simp

text \<open>The process's CPU share need not be one. The state of the previous sample is kept across
  a restart, so the first sample of the new process subtracts the ticks of the old one: a process
  that has used 5 ticks after one that had used 205 shows a share of -20 percent.\<close>

theorem restart_shows_negative_share:
  "map_sum id (map_option wa_cpu \<circ> fst)
     (watch demo_settings reading_of_new 10
        (demo_agent\<lparr>ag_pid := Some 8,
                    ag_proc := Some \<lparr>pi_ticks = 205, pi_rss = 0, pi_threads = 1, pi_start = 1\<rparr>\<rparr>)) = Inr (Some (- 20))"
proof -
  have "round_to 2 (- 20) = - 20" using py_round_of_int [of "- 2000"] by (simp add: round_to_def)
  then show ?thesis
    by (simp add: watch_def demo_settings_def reads_new_process) (simp add: new_process_def demo_agent_def)
qed

section \<open>The pace\<close>

lemma agent_ticks_steady:
  assumes "\<forall>w \<in> set works. 0 \<le> w \<and> w \<le> itv"
  shows "agent_ticks itv now now works = map (\<lambda>i. now + of_nat i * itv) [0 ..< length works]"
  using assms
proof (induction works arbitrary: now)
  case (Cons w works)
  have "agent_ticks itv now now (w # works) = now # agent_ticks itv (now + itv) (now + itv) works"
    using Cons.prems by (simp add: algebra_simps Let_def)
  also have "\<dots> = now # map (\<lambda>i. now + itv + of_nat i * itv) [0 ..< length works]"
    using Cons.IH [of "now + itv"] Cons.prems by simp
  also have "\<dots> = map (\<lambda>i. now + of_nat i * itv) [0 ..< Suc (length works)]"
    by (simp add: upt_conv_Cons map_Suc_upt [symmetric] algebra_simps comp_def del: upt_Suc)
  finally show ?case by simp
qed simp

text \<open>The agent does not drift. As long as a round of work takes no longer than the interval,
  the k-th sample begins exactly k intervals after the first, whatever each round took.\<close>

theorem agent_does_not_drift:
  assumes "\<forall>w \<in> set works. 0 \<le> w \<and> w \<le> itv" and "k < length works"
  shows "agent_ticks itv now now works ! k = now + of_nat k * itv"
  using assms by (simp add: agent_ticks_steady)

lemma agent_does_not_drift_witness: "agent_ticks 5 100 100 [1, 4, 5, 2] ! 3 = 115"
  using agent_does_not_drift [of "[1, 4, 5, 2]" 5 3 100] by simp

end
