(* ===== verification/IsoTime.thy ===== *)
theory IsoTime
  imports TextOps
begin

text \<open>
  Times as text: the two readers of \<open>monitoring/exporters/pipeline_exporter.py\<close>, for the durations
  and instants the compactor prints, with the parts of Python's \<open>time.strptime\<close> and
  \<open>calendar.timegm\<close> they use, and the text \<open>time.strftime\<close> makes of a time.
\<close>

section \<open>Durations\<close>

definition unit_seconds :: "char \<Rightarrow> rat" where
  "unit_seconds c = (if c = CHR ''H'' then 3600 else if c = CHR ''M'' then 60 else 1)"

fun duration_loop :: "string \<Rightarrow> pyfloat \<Rightarrow> string \<Rightarrow> pyexn + pyfloat" where
  \<comment> \<open>what is left, \<open>total\<close>, \<open>num\<close>\<close>
  "duration_loop [] acc num = Inr acc"
| "duration_loop (c # cs) acc num =
     (if is_digit c \<or> c = CHR ''.'' then duration_loop cs acc (num @ [c])
      else if c \<in> set ''HMS'' \<and> num \<noteq> []
        then (case parse_float num of
                None \<Rightarrow> Inl ValueError
              | Some f \<Rightarrow> duration_loop cs (fadd acc (fmul f (Fin (unit_seconds c)))) [])
        else duration_loop cs acc num)"

fun parse_iso_duration :: "pyval \<Rightarrow> pyexn + pyfloat" where
  "parse_iso_duration (PStr s) = (if \<not> starts_with ''PT'' s then Inr (Fin 0) else duration_loop (drop 2 s) (Fin 0) [])"
| "parse_iso_duration v = (if truthy v then Inl AttributeError else Inr (Fin 0))"

section \<open>The calendar\<close>

record civil =
  cv_year :: int
  cv_month :: int
  cv_day :: int
  cv_hour :: int
  cv_minute :: int
  cv_second :: int

definition leap :: "int \<Rightarrow> bool" where
  "leap y = (y mod 4 = 0 \<and> (y mod 100 \<noteq> 0 \<or> y mod 400 = 0))"

definition days_in_month :: "int \<Rightarrow> int \<Rightarrow> int" where
  "days_in_month y m = (if m = 2 then (if leap y then 29 else 28) else if m \<in> {4, 6, 9, 11} then 30 else 31)"

definition days_before_month :: "int \<Rightarrow> int \<Rightarrow> int" where
  "days_before_month y m = sum_list (map (days_in_month y) [1 .. m - 1])"

definition days_before_year :: "int \<Rightarrow> int" where
  "days_before_year y = (let p = y - 1 in p * 365 + p div 4 - p div 100 + p div 400)"

definition toordinal :: "int \<Rightarrow> int \<Rightarrow> int \<Rightarrow> int" where
  \<comment> \<open>\<open>datetime.date(y, m, d).toordinal()\<close>\<close>
  "toordinal y m d = days_before_year y + days_before_month y m + d"

definition timegm :: "civil \<Rightarrow> int" where
  \<comment> \<open>\<open>calendar.timegm\<close>; 719163 is the ordinal of 1 January 1970\<close>
  "timegm t =
     (((toordinal (cv_year t) (cv_month t) 1 - 719163 + cv_day t - 1) * 24 + cv_hour t) * 60 + cv_minute t) * 60 + cv_second t"

section \<open>Instants\<close>

definition field_in :: "int \<Rightarrow> int \<Rightarrow> string \<Rightarrow> int option" where
  \<comment> \<open>one or two digits, as \<open>%m\<close>, \<open>%d\<close>, \<open>%H\<close>, \<open>%M\<close>, \<open>%S\<close> accept\<close>
  "field_in lo hi s =
     (let n = int (num_of_digits (map digit_val s))
      in if all_digits s \<and> length s \<le> 2 \<and> lo \<le> n \<and> n \<le> hi then Some n else None)"

definition day_field :: "string \<Rightarrow> int option" where
  \<comment> \<open>\<open>%d\<close> also takes a blank and a digit\<close>
  "day_field s = field_in 1 31 (case s of [c, d] \<Rightarrow> if c = CHR '' '' then [d] else s | _ \<Rightarrow> s)"

definition valid_date :: "int \<Rightarrow> int \<Rightarrow> int \<Rightarrow> bool" where
  "valid_date y m d = (1 \<le> y \<and> 1 \<le> m \<and> m \<le> 12 \<and> 1 \<le> d \<and> d \<le> days_in_month y m)"

definition strptime_iso :: "string \<Rightarrow> civil option" where
  \<comment> \<open>\<open>time.strptime(s, '%Y-%m-%dT%H:%M:%S')\<close>; \<open>None\<close> where it raises \<open>ValueError\<close>\<close>
  "strptime_iso s =
     (let ys = take 4 s; (m_s, r1) = partition_at (CHR ''-'') (drop 5 s);
          d_s = takeWhile (\<lambda>c. c \<noteq> CHR ''T'' \<and> c \<noteq> CHR ''t'') r1; r2 = dropWhile (\<lambda>c. c \<noteq> CHR ''T'' \<and> c \<noteq> CHR ''t'') r1;
          (h_s, r3) = partition_at (CHR '':'') (drop 1 r2); (mi_s, s_s) = partition_at (CHR '':'') r3
      in if length ys = 4 \<and> all_digits ys \<and> take 1 (drop 4 s) = ''-'' then
           (case (field_in 1 12 m_s, day_field d_s, field_in 0 23 h_s, field_in 0 59 mi_s, field_in 0 61 s_s) of
              (Some m, Some d, Some h, Some mi, Some sec) \<Rightarrow>
                let y = int (num_of_digits (map digit_val ys))
                in if valid_date y m d
                   then Some \<lparr>cv_year = y, cv_month = m, cv_day = d, cv_hour = h, cv_minute = mi, cv_second = sec\<rparr>
                   else None
            | _ \<Rightarrow> None)
         else None)"

definition instant_of :: "string \<Rightarrow> pyfloat" where
  "instant_of text =
     (let (base, frac) = partition_at (CHR ''.'') (rev (dropWhile (\<lambda>c. c = CHR ''Z'') (rev text)))
      in case strptime_iso base of
           None \<Rightarrow> Fin 0
         | Some t \<Rightarrow>
             (if frac = [] then Fin (of_int (timegm t))
              else case parse_float (''0.'' @ frac) of None \<Rightarrow> Fin 0 | Some f \<Rightarrow> fadd (Fin (of_int (timegm t))) f))"

fun parse_iso_instant :: "pyval \<Rightarrow> pyexn + pyfloat" where
  "parse_iso_instant (PStr s) = Inr (if s = [] then Fin 0 else instant_of s)"
| "parse_iso_instant v = (if truthy v then Inl AttributeError else Inr (Fin 0))"

section \<open>Writing a time\<close>

definition two :: "int \<Rightarrow> string" where
  \<comment> \<open>\<open>%m\<close>, \<open>%d\<close>, \<open>%H\<close>, \<open>%M\<close>, \<open>%S\<close>\<close>
  "two n = [char_of (48 + nat n div 10), char_of (48 + nat n mod 10)]"

definition utc_text :: "civil \<Rightarrow> string" where
  \<comment> \<open>\<open>time.strftime('%Y-%m-%dT%H:%M:%SZ')\<close> of a year of four digits\<close>
  "utc_text t =
     two (cv_year t div 100) @ two (cv_year t mod 100) @ ''-'' @ two (cv_month t) @ ''-'' @ two (cv_day t) @ ''T''
       @ two (cv_hour t) @ '':'' @ two (cv_minute t) @ '':'' @ two (cv_second t) @ ''Z''"

definition civil_ok :: "civil \<Rightarrow> bool" where
  "civil_ok t =
     (valid_date (cv_year t) (cv_month t) (cv_day t) \<and> cv_year t \<le> 9999 \<and> 0 \<le> cv_hour t \<and> cv_hour t \<le> 23
      \<and> 0 \<le> cv_minute t \<and> cv_minute t \<le> 59 \<and> 0 \<le> cv_second t \<and> cv_second t \<le> 59)"

section \<open>The calendar counts seconds\<close>

definition tick :: "civil \<Rightarrow> civil" where
  \<comment> \<open>the next second of the Gregorian calendar\<close>
  "tick t =
     (if cv_second t < 59 then t\<lparr>cv_second := cv_second t + 1\<rparr>
      else if cv_minute t < 59 then t\<lparr>cv_minute := cv_minute t + 1, cv_second := 0\<rparr>
      else if cv_hour t < 23 then t\<lparr>cv_hour := cv_hour t + 1, cv_minute := 0, cv_second := 0\<rparr>
      else if cv_day t < days_in_month (cv_year t) (cv_month t)
        then t\<lparr>cv_day := cv_day t + 1, cv_hour := 0, cv_minute := 0, cv_second := 0\<rparr>
      else if cv_month t < 12
        then t\<lparr>cv_month := cv_month t + 1, cv_day := 1, cv_hour := 0, cv_minute := 0, cv_second := 0\<rparr>
      else \<lparr>cv_year = cv_year t + 1, cv_month = 1, cv_day = 1, cv_hour = 0, cv_minute = 0, cv_second = 0\<rparr>)"

lemma days_before_month_Suc: "1 \<le> m \<Longrightarrow> days_before_month y (m + 1) = days_before_month y m + days_in_month y m"
  by (simp add: days_before_month_def upto_rec2)

lemma days_before_month_13: "days_before_month y 13 = (if leap y then 366 else 365)"
  by (simp add: days_before_month_def upto_rec1 days_in_month_def)

lemma days_before_month_1: "days_before_month y 1 = 0"
  by (simp add: days_before_month_def)

lemma step_div:
  assumes "0 < k"
  shows "(y :: int) div k = (y - 1) div k + (if y mod k = 0 then 1 else 0)"
proof -
  define q r where "q = (y - 1) div k" and "r = (y - 1) mod k"
  have y: "y = k * q + (r + 1)" by (simp add: q_def r_def)
  have r: "0 \<le> r" "r < k" using assms by (simp_all add: r_def)
  show ?thesis
  proof (cases "r + 1 = k")
    case True
    with y have "y = k * (q + 1)" by (simp add: algebra_simps)
    with assms have "y div k = q + 1" "y mod k = 0" by simp_all
    then show ?thesis unfolding q_def by simp
  next
    case False
    with r have "0 \<le> r + 1" "r + 1 < k" by simp_all
    with y have "y div k = q" "y mod k = r + 1" by (simp_all add: div_mult_self4)
    with r show ?thesis unfolding q_def by simp
  qed
qed
lemma year_length:
  fixes q4 q100 q400 p4 p100 p400 y :: int
  assumes "q4 = p4 + (if A then 1 else 0)" and "q100 = p100 + (if B then 1 else 0)" and "q400 = p400 + (if C then 1 else 0)"
    and "C \<Longrightarrow> B" and "B \<Longrightarrow> A"
  shows "y * 365 + q4 - q100 + q400 = (y - 1) * 365 + p4 - p100 + p400 + (if A \<and> (\<not> B \<or> C) then 366 else 365)"
  using assms by (cases A; cases B; cases C) simp_all

lemma days_before_year_Suc: "days_before_year (y + 1) = days_before_year y + (if leap y then 366 else 365)"
proof -
  have "y mod 400 = 0 \<Longrightarrow> y mod 100 = 0" "y mod 100 = 0 \<Longrightarrow> y mod 4 = 0"
    using dvd_trans [of 100 400 y] dvd_trans [of 4 100 y] by (simp_all add: mod_eq_0_iff_dvd)
  from year_length [OF step_div [of 4 y] step_div [of 100 y] step_div [of 400 y] this, of y]
  show ?thesis by (simp only: days_before_year_def Let_def leap_def add_diff_cancel_right' zero_less_numeral simp_thms)
qed

lemma timegm_tick:
  assumes "civil_ok t"
  shows "timegm (tick t) = timegm t + 1"
proof -
  obtain y m d h mi s where t: "t = \<lparr>cv_year = y, cv_month = m, cv_day = d, cv_hour = h, cv_minute = mi, cv_second = s\<rparr>"
    by (cases t)
  have ok: "1 \<le> m" "m \<le> 12" "d \<le> days_in_month y m" "h \<le> 23" "mi \<le> 59" "s \<le> 59"
    using assms by (simp_all add: t civil_ok_def valid_date_def)
  have dec: "days_before_month y 12 + 31 = (if leap y then 366 else 365)"
    using days_before_month_Suc [of 12 y] days_before_month_13 [of y] by (simp add: days_in_month_def)
  have upto: "s < 59 \<or> s = 59" "mi < 59 \<or> mi = 59" "h < 23 \<or> h = 23" "d < days_in_month y m \<or> d = days_in_month y m" "m < 12 \<or> m = 12"
    using ok by (simp_all add: order.order_iff_strict)
  consider "s < 59" | "s = 59" "mi < 59" | "s = 59" "mi = 59" "h < 23"
    | "s = 59" "mi = 59" "h = 23" "d < days_in_month y m" | "s = 59" "mi = 59" "h = 23" "d = days_in_month y m" "m < 12"
    | "s = 59" "mi = 59" "h = 23" "d = days_in_month y m" "m = 12"
    using upto by blast
  then show ?thesis
  proof cases
    case 5
    then show ?thesis using ok(1) by (simp add: t tick_def timegm_def toordinal_def days_before_month_Suc)
  next
    case 6
    then show ?thesis
      using dec days_before_year_Suc [of y] days_before_month_1 [of "y + 1"]
      by (simp add: t tick_def timegm_def toordinal_def days_in_month_def split: if_splits)
  qed (simp_all add: t tick_def timegm_def toordinal_def)
qed

section \<open>Reading a written time\<close>

lemma two_facts:
  assumes "0 \<le> n" and "n < 100"
  shows "all_digits (two n)" "length (two n) = 2" "map digit_val (two n) = [nat n div 10, nat n mod 10]"
    "int (num_of_digits (map digit_val (two n))) = n"
proof -
  have d: "nat n div 10 < 10" "nat n mod 10 < 10" using assms by linarith+
  show *: "all_digits (two n)" "length (two n) = 2" "map digit_val (two n) = [nat n div 10, nat n mod 10]"
    using digit_char [OF d(1)] digit_char [OF d(2)] by (simp_all add: two_def all_digits_def)
  show "int (num_of_digits (map digit_val (two n))) = n"
    unfolding *(3) using assms by (simp add: num_of_digits_def)
qed

lemma field_two: "0 \<le> n \<Longrightarrow> n < 100 \<Longrightarrow> lo \<le> n \<Longrightarrow> n \<le> hi \<Longrightarrow> field_in lo hi (two n) = Some n"
  using two_facts [of n] by (simp add: field_in_def)

lemma two_no: "0 \<le> n \<Longrightarrow> n < 100 \<Longrightarrow> c \<in> set (two n) \<Longrightarrow> is_digit c"
  using two_facts(1) [of n] by (auto simp: all_digits_def list_all_iff)

lemma takeWhile_two:
  assumes "0 \<le> n" and "n < 100" and "\<And>c. is_digit c \<Longrightarrow> P c" and "\<not> P d"
  shows "takeWhile P (two n @ d # r) = two n" "dropWhile P (two n @ d # r) = d # r"
proof -
  have "\<forall>c \<in> set (two n). P c" using two_no [OF assms(1,2)] assms(3) by blast
  then show "takeWhile P (two n @ d # r) = two n" "dropWhile P (two n @ d # r) = d # r"
    using assms(4) by (simp_all add: takeWhile_append2 dropWhile_append2)
qed

lemma partition_two:
  assumes "0 \<le> n" and "n < 100" and "\<not> is_digit d"
  shows "partition_at d (two n @ d # r) = (two n, r)"
proof -
  have "x \<noteq> d" if "is_digit x" for x using that assms(3) by auto
  from takeWhile_two [OF assms(1,2), of "\<lambda>x. x \<noteq> d" d r, OF this] show ?thesis
    by (simp add: partition_at_def)
qed

lemma partition_none: "c \<notin> set s \<Longrightarrow> partition_at c s = (s, [])"
proof -
  assume "c \<notin> set s"
  then have "\<forall>x \<in> set s. x \<noteq> c" by auto
  then have "takeWhile (\<lambda>x. x \<noteq> c) s = s" and "dropWhile (\<lambda>x. x \<noteq> c) s = []" by simp_all
  from this(1) show ?thesis unfolding partition_at_def \<open>dropWhile (\<lambda>x. x \<noteq> c) s = []\<close> by simp
qed

lemma four_digits:
  assumes "1000 \<le> y" and "y \<le> 9999"
  shows "all_digits (two (y div 100) @ two (y mod 100))" "length (two (y div 100) @ two (y mod 100)) = 4"
    "int (num_of_digits (map digit_val (two (y div 100) @ two (y mod 100)))) = y"
proof -
  have b: "0 \<le> y div 100" "y div 100 < 100" "0 \<le> y mod 100" "y mod 100 < 100" using assms by auto
  note h = two_facts [OF b(1,2)] and l = two_facts [OF b(3,4)]
  show "all_digits (two (y div 100) @ two (y mod 100))" "length (two (y div 100) @ two (y mod 100)) = 4"
    using h(1,2) l(1,2) by (simp_all add: all_digits_def)
  have "int (num_of_digits (map digit_val (two (y div 100) @ two (y mod 100))))
      = int (num_of_digits (map digit_val (two (y div 100)))) * 100 + int (num_of_digits (map digit_val (two (y mod 100))))"
    by (simp add: h(3) l(3) num_of_digits_def)
  then show "int (num_of_digits (map digit_val (two (y div 100) @ two (y mod 100)))) = y"
    by (simp only: h(4) l(4)) simp
qed

lemma strptime_utc:
  assumes "civil_ok t" and "1000 \<le> cv_year t"
  shows "strptime_iso (butlast (utc_text t)) = Some t"
proof -
  obtain y m d h mi s where t: "t = \<lparr>cv_year = y, cv_month = m, cv_day = d, cv_hour = h, cv_minute = mi, cv_second = s\<rparr>"
    by (cases t)
  have dim: "days_in_month y m \<le> 31" by (simp add: days_in_month_def)
  have ok: "1 \<le> m" "m \<le> 12" "1 \<le> d" "d \<le> 31" "0 \<le> h" "h \<le> 23" "0 \<le> mi" "mi \<le> 59" "0 \<le> s" "s \<le> 59" "valid_date y m d"
    "1000 \<le> y" "y \<le> 9999"
    using assms dim by (auto simp: t civil_ok_def valid_date_def)
  note f = four_digits [OF ok(12,13)]
  have seps: "\<not> is_digit (CHR ''-'')" "\<not> is_digit (CHR '':'')" "\<not> is_digit (CHR ''T'')" "\<not> is_digit (CHR ''t'')"
    by (simp_all add: is_digit_def)
  have notT: "is_digit c \<Longrightarrow> c \<noteq> CHR ''T'' \<and> c \<noteq> CHR ''t''" for c using seps by auto
  have shown: "butlast (utc_text t) = (two (y div 100) @ two (y mod 100)) @ CHR ''-'' # two m @ CHR ''-'' # two d @ CHR ''T''
      # two h @ CHR '':'' # two mi @ CHR '':'' # two s"
    by (simp add: utc_text_def t butlast_append)
  have day: "day_field (two d) = Some d"
  proof -
    have "hd (two d) \<noteq> CHR '' ''" using two_no [of d "hd (two d)"] ok(3,4) by (auto simp: two_def is_digit_def)
    then have "(case two d of [c, e] \<Rightarrow> if c = CHR '' '' then [e] else two d | _ \<Rightarrow> two d) = two d"
      by (simp add: two_def)
    then show ?thesis using field_two [of d 1 31] ok(3,4) by (simp add: day_field_def)
  qed
  have parts: "take 4 (butlast (utc_text t)) = two (y div 100) @ two (y mod 100)"
    "take 1 (drop 4 (butlast (utc_text t))) = ''-''"
    "partition_at (CHR ''-'') (drop 5 (butlast (utc_text t)))
     = (two m, two d @ CHR ''T'' # two h @ CHR '':'' # two mi @ CHR '':'' # two s)"
    using f(2) partition_two [of m "CHR ''-''"] ok(1,2) seps(1) unfolding shown by simp_all
  have rest: "takeWhile (\<lambda>c. c \<noteq> CHR ''T'' \<and> c \<noteq> CHR ''t'') (two d @ CHR ''T'' # r) = two d"
    "dropWhile (\<lambda>c. c \<noteq> CHR ''T'' \<and> c \<noteq> CHR ''t'') (two d @ CHR ''T'' # r) = CHR ''T'' # r" for r
    using takeWhile_two [of d "\<lambda>c. c \<noteq> CHR ''T'' \<and> c \<noteq> CHR ''t''" "CHR ''T''" r] ok(3,4) notT by simp_all
  have hm: "partition_at (CHR '':'') (two h @ CHR '':'' # r) = (two h, r)"
    "partition_at (CHR '':'') (two mi @ CHR '':'' # r) = (two mi, r)" for r
    using partition_two [of h "CHR '':''"] partition_two [of mi "CHR '':''"] ok(5-8) seps(2) by simp_all
  show ?thesis
    unfolding strptime_iso_def Let_def parts
    using f ok day field_two [of m 1 12] field_two [of h 0 23] field_two [of mi 0 59] field_two [of s 0 61]
    by (simp add: rest hm t)
qed

text \<open>Instants read as the calendar counts. The text of any time of a year of four digits reads
  as a number of seconds, the text of the next second as one more, across
  months, leap years and centuries.\<close>

theorem instants_read_as_seconds:
  assumes "civil_ok t" and "1000 \<le> cv_year t" and "civil_ok (tick t)"
  shows "\<exists>n. parse_iso_instant (PStr (utc_text t)) = Inr (Fin (of_int n))
      \<and> parse_iso_instant (PStr (utc_text (tick t))) = Inr (Fin (of_int (n + 1)))"
proof (intro exI conjI)
  have read: "parse_iso_instant (PStr (utc_text u)) = Inr (Fin (of_int (timegm u)))"
    if "civil_ok u" "1000 \<le> cv_year u" for u
  proof -
    have u: "utc_text u = butlast (utc_text u) @ ''Z''" by (simp add: utc_text_def butlast_append)
    have last: "last (butlast (utc_text u)) \<noteq> CHR ''Z''" "butlast (utc_text u) \<noteq> []"
      using two_no [of "cv_second u" "last (two (cv_second u))"] that(1)
      by (auto simp: utc_text_def butlast_append two_def civil_ok_def is_digit_def)
    have "dropWhile (\<lambda>c. c = CHR ''Z'') (rev (utc_text u)) = rev (butlast (utc_text u))"
      using last by (subst u) (simp add: dropWhile_eq_self_iff hd_rev)
    moreover have "CHR ''.'' \<notin> set (butlast (utc_text u))"
    proof -
      have dot: "CHR ''.'' \<notin> set (two n)" if "0 \<le> n" "n < 100" for n
        using two_no [OF that, of "CHR ''.''"] by (auto simp: is_digit_def)
      have "cv_day u \<le> 31" "0 \<le> cv_year u div 100" "cv_year u div 100 < 100" "0 \<le> cv_year u mod 100" "cv_year u mod 100 < 100"
        using that by (auto simp: civil_ok_def valid_date_def days_in_month_def split: if_splits)
      moreover have "butlast (two n) = [hd (two n)]" "set [hd (two n)] \<subseteq> set (two n)" for n by (simp_all add: two_def)
      ultimately show ?thesis
        using dot [of "cv_year u div 100"] dot [of "cv_year u mod 100"] dot [of "cv_month u"] dot [of "cv_day u"]
          dot [of "cv_hour u"] dot [of "cv_minute u"] dot [of "cv_second u"] that(1)
        by (simp add: utc_text_def butlast_append civil_ok_def valid_date_def)
    qed
    ultimately have "partition_at (CHR ''.'') (rev (dropWhile (\<lambda>c. c = CHR ''Z'') (rev (utc_text u)))) = (butlast (utc_text u), [])"
      by (simp add: partition_none)
    moreover have "utc_text u \<noteq> []" using last(2) by auto
    ultimately show ?thesis using strptime_utc [OF that] by (simp add: instant_of_def)
  qed
  show "parse_iso_instant (PStr (utc_text t)) = Inr (Fin (of_int (timegm t)))"
    by (rule read) (use assms in simp_all)
  have "1000 \<le> cv_year (tick t)" using assms(2) by (simp add: tick_def)
  from read [OF assms(3) this] timegm_tick [OF assms(1)]
  show "parse_iso_instant (PStr (utc_text (tick t))) = Inr (Fin (of_int (timegm t + 1)))" by simp
qed

lemma instants_read_as_seconds_witness:
  "\<exists>n. parse_iso_instant (PStr (utc_text \<lparr>cv_year = 2028, cv_month = 2, cv_day = 28, cv_hour = 23, cv_minute = 59, cv_second = 59\<rparr>))
      = Inr (Fin (of_int n))
    \<and> parse_iso_instant (PStr (utc_text \<lparr>cv_year = 2028, cv_month = 2, cv_day = 29, cv_hour = 0, cv_minute = 0, cv_second = 0\<rparr>))
      = Inr (Fin (of_int (n + 1)))"
  using instants_read_as_seconds [of "\<lparr>cv_year = 2028, cv_month = 2, cv_day = 28, cv_hour = 23, cv_minute = 59, cv_second = 59\<rparr>"]
  by (simp add: civil_ok_def valid_date_def days_in_month_def leap_def tick_def)

end
