(* ===== verification/Exporter.thy ===== *)
theory Exporter
  imports HostAgent IsoTime
begin

text \<open>
  \<open>monitoring/exporters/pipeline_exporter.py\<close>: the central exporter, which polls the collector, the
  compactor's two services, the catalog, the watermark table and the bucket, and publishes what it
  finds as gauges. A scrape is a function from the gauges to its result and the new gauges; when it
  raises, the gauges it has set stay set. Answers of SSH, HTTP, the database and the bucket are
  arguments. The clock stands still during one scrape, and each statement on the files
  sees what is committed by then.
\<close>

section \<open>Gauges and scrapes\<close>

type_synonym series = "string \<times> (string \<times> string) list"

type_synonym gauges = "series \<Rightarrow> pyfloat option"

datatype failure =
    Raised pyexn
  | StateEmpty
  | HealthEmpty int
  | Stale string pyfloat
  | SshFailed string
  | External string

type_synonym 'a scrape = "gauges \<Rightarrow> (failure + 'a) \<times> gauges"

definition s_ret :: "'a \<Rightarrow> 'a scrape" where
  "s_ret x g = (Inr x, g)"

definition s_fail :: "failure \<Rightarrow> 'a scrape" where
  "s_fail e g = (Inl e, g)"

definition s_bind :: "'a scrape \<Rightarrow> ('a \<Rightarrow> 'b scrape) \<Rightarrow> 'b scrape" where
  "s_bind m f g = (case m g of (Inl e, g') \<Rightarrow> (Inl e, g') | (Inr x, g') \<Rightarrow> f x g')"

definition s_then :: "'a scrape \<Rightarrow> 'b scrape \<Rightarrow> 'b scrape" where
  "s_then m n = s_bind m (\<lambda>_. n)"

definition s_from :: "failure + 'a \<Rightarrow> 'a scrape" where
  "s_from r g = (r, g)"

definition s_lift :: "pyexn + 'a \<Rightarrow> 'a scrape" where
  "s_lift r g = (map_sum Raised id r, g)"

fun s_all :: "unit scrape list \<Rightarrow> unit scrape" where
  "s_all [] = s_ret ()"
| "s_all (m # ms) = s_then m (s_all ms)"

definition s_if :: "bool \<Rightarrow> unit scrape \<Rightarrow> unit scrape" where
  "s_if b m = (if b then m else s_ret ())"

definition g_set :: "series \<Rightarrow> pyval \<Rightarrow> unit scrape" where
  \<comment> \<open>\<open>gauge.set(v)\<close>, which stores \<open>float(v)\<close>\<close>
  "g_set s v g = (case py_float v of Inl e \<Rightarrow> (Inl (Raised e), g) | Inr f \<Rightarrow> (Inr (), g(s \<mapsto> f)))"

definition g_to :: "series \<Rightarrow> pyexn + pyval \<Rightarrow> unit scrape" where
  "g_to s r = s_bind (s_lift r) (g_set s)"

definition one_or_zero :: "bool \<Rightarrow> pyval" where
  "one_or_zero b = PInt (if b then 1 else 0)"

definition pget :: "pyval \<Rightarrow> string \<Rightarrow> pyexn + pyval" where
  \<comment> \<open>\<open>v.get(k)\<close>\<close>
  "pget v k = ebind (as_dict v) (\<lambda>d. Inr (dget_or d k PNone))"

definition pget_or :: "pyval \<Rightarrow> string \<Rightarrow> pyval \<Rightarrow> pyexn + pyval" where
  "pget_or v k w = ebind (as_dict v) (\<lambda>d. Inr (dget_or d k w))"

definition or_empty :: "pyval \<Rightarrow> pyval" where
  \<comment> \<open>\<open>v or {}\<close>\<close>
  "or_empty v = py_or v (PDict [])"

definition float_or_0 :: "pyval \<Rightarrow> string \<Rightarrow> pyexn + pyval" where
  \<comment> \<open>\<open>float(v.get(k) or 0)\<close>\<close>
  "float_or_0 v k = ebind (pget v k) (\<lambda>x. ebind (py_float (py_or x (PInt 0))) (\<lambda>f. Inr (PFloat f)))"

definition is_dict :: "pyval \<Rightarrow> bool" where
  "is_dict v = (case v of PDict _ \<Rightarrow> True | _ \<Rightarrow> False)"

definition label_of :: "pykey \<Rightarrow> string" where
  "label_of k = (case k of KStr s \<Rightarrow> s | KInt i \<Rightarrow> show_int i)"

definition plain :: "string \<Rightarrow> series" where
  "plain name = (name, [])"

definition of_role :: "string \<Rightarrow> string \<Rightarrow> series" where
  "of_role name role = (name, [(''role'', role)])"

definition of_source :: "string \<Rightarrow> string \<Rightarrow> series" where
  "of_source name source = (name, [(''source'', source)])"

definition of_db :: "string \<Rightarrow> string \<Rightarrow> series" where
  "of_db name db = (name, [(''database'', db)])"

definition of_tier :: "string \<Rightarrow> string \<Rightarrow> string \<Rightarrow> series" where
  "of_tier name db tier = (name, [(''database'', db), (''tier'', tier)])"

section \<open>Answers of other machines\<close>

definition ssh_run :: "failure + int \<times> string \<times> string \<Rightarrow> failure + string" where
  \<comment> \<open>the exit code and what \<open>ssh\<close> printed, or why it could not be run\<close>
  "ssh_run r =
     ebind r (\<lambda>(code, out, err).
     if code \<noteq> 0 then Inl (SshFailed (take 160 (if strip err = [] then ''ssh failed'' else strip err)))
     else Inr (strip out))"

definition agent_state :: "(string \<Rightarrow> failure + pyval) \<Rightarrow> failure + int \<times> string \<times> string \<Rightarrow> failure + pyval" where
  "agent_state loads r = ebind (ssh_run r) (\<lambda>text. if text = [] then Inl StateEmpty else loads text)"

section \<open>The compactor's counters\<close>

record db_stats =
  ds_minor :: pyval
  ds_major :: pyval
  ds_compacted :: pyval
  ds_small :: pyval
  ds_medium :: pyval
  ds_total :: pyval

definition has_tiers :: "pyval \<Rightarrow> pyexn + bool" where
  "has_tiers s = ebind (pget s ''tiers'') (\<lambda>t. Inr (is_dict t))"

definition compactor_db_stats :: "pyval \<Rightarrow> pyexn + db_stats" where
  "compactor_db_stats s =
     ebind (as_dict s) (\<lambda>d. let n = (\<lambda>d k. dget_or d k (PInt 0)) in
     case dget d ''tiers'' of
       Some (PDict t) \<Rightarrow>
         ebind (as_dict (or_empty (dget_or t ''minor'' PNone))) (\<lambda>minor.
         ebind (as_dict (or_empty (dget_or t ''major'' PNone))) (\<lambda>major.
         Inr \<lparr>ds_minor = n minor ''totalCompactions'', ds_major = n major ''totalCompactions'',
              ds_compacted = n d ''totalFilesCompacted'', ds_small = n minor ''currentFiles'',
              ds_medium = n major ''currentFiles'', ds_total = n d ''currentTotalFiles''\<rparr>))
     | _ \<Rightarrow>
         Inr \<lparr>ds_minor = n d ''totalMinorCompactions'', ds_major = n d ''totalMajorCompactions'',
              ds_compacted = n d ''totalFilesCompacted'', ds_small = n d ''currentSmallFiles'',
              ds_medium = n d ''currentMediumFiles'', ds_total = n d ''currentTotalFiles''\<rparr>)"

definition databases_of :: "pyval \<Rightarrow> pyexn + pydict" where
  \<comment> \<open>\<open>(data.get('databases') or {}).items()\<close>\<close>
  "databases_of data = ebind (pget data ''databases'') (\<lambda>v. as_dict (or_empty v))"

definition for_databases :: "pyval \<Rightarrow> (string \<Rightarrow> pyval \<Rightarrow> unit scrape) \<Rightarrow> unit scrape" where
  "for_databases data body =
     s_bind (s_lift (databases_of data)) (\<lambda>dbs. s_all (map (\<lambda>(k, s). body (label_of k) s) dbs))"

definition set_tier_db :: "rat \<Rightarrow> string \<Rightarrow> string \<Rightarrow> pyval \<Rightarrow> unit scrape" where
  "set_tier_db now tier db s =
     s_bind (s_lift (ebind (pget s ''tiers'') (\<lambda>t. ebind (pget (or_empty t) tier) (\<lambda>x. Inr (or_empty x))))) (\<lambda>own.
     s_all [g_to (of_tier ''bench_compaction_tier_cycles_total'' db tier) (pget_or own ''totalCompactions'' (PInt 0)),
            g_to (of_tier ''bench_compactor_tier_band_files'' db tier) (pget_or own ''currentFiles'' (PInt 0)),
            g_to (of_tier ''bench_compaction_tier_failed_cycles_total'' db tier) (pget_or s ''totalFailedCycles'' (PInt 0)),
            g_to (of_tier ''bench_compaction_tier_files_compacted_total'' db tier) (pget_or s ''totalFilesCompacted'' (PInt 0)),
            s_bind (s_lift (ebind (pget_or s ''lastSuccessTime'' (PStr [])) parse_iso_instant)) (\<lambda>seen.
            s_if (flt (Fin 0) seen)
              (g_set (of_tier ''bench_compaction_tier_last_success_age_seconds'' db tier)
                 (PFloat (fmax (Fin 0) (fsub (Fin now) seen)))))])"

definition set_tier_metrics :: "rat \<Rightarrow> string \<Rightarrow> pyval \<Rightarrow> unit scrape" where
  "set_tier_metrics now tier data =
     s_all [g_to (''bench_compactor_tier_up'', [(''tier'', tier)])
              (ebind (pget data ''status'') (\<lambda>v. Inr (one_or_zero (v = PStr ''UP'')))),
            g_to (''bench_compactor_tier_uptime_seconds'', [(''tier'', tier)])
              (ebind (pget_or data ''uptime'' (PStr [])) (\<lambda>v. map_sum id PFloat (parse_iso_duration v))),
            for_databases data (set_tier_db now tier)]"

definition set_major_view :: "bool \<Rightarrow> string \<Rightarrow> pyval \<Rightarrow> db_stats \<Rightarrow> unit scrape" where
  \<comment> \<open>only where no service of its own owns the major tier\<close>
  "set_major_view split db s st =
     s_bind (s_lift (has_tiers s)) (\<lambda>tiers.
     s_if (\<not> (split \<and> tiers))
       (s_all [g_set (of_db ''bench_compaction_major_total'' db) (ds_major st),
               g_set (of_db ''bench_compactor_files_medium'' db) (ds_medium st)]))"

definition set_minor_db :: "bool \<Rightarrow> string \<Rightarrow> pyval \<Rightarrow> unit scrape" where
  \<comment> \<open>\<open>split\<close>: the major tier is a service of its own\<close>
  "set_minor_db split db s =
     s_bind (s_lift (compactor_db_stats s)) (\<lambda>st.
     s_all [g_set (of_db ''bench_compaction_minor_total'' db) (ds_minor st),
            g_set (of_db ''bench_compaction_files_compacted_total'' db) (ds_compacted st),
            g_set (of_db ''bench_compactor_files_small'' db) (ds_small st),
            g_set (of_db ''bench_compactor_files_total'' db) (ds_total st),
            set_major_view split db s st])"

fun any_tiers :: "pyval list \<Rightarrow> pyexn + bool" where
  \<comment> \<open>\<open>any(isinstance(s.get('tiers'), dict) for s in ...)\<close>\<close>
  "any_tiers [] = Inr False"
| "any_tiers (s # ss) = ebind (has_tiers s) (\<lambda>b. if b then Inr True else any_tiers ss)"

definition set_minor_service :: "rat \<Rightarrow> bool \<Rightarrow> pyval \<Rightarrow> unit scrape" where
  \<comment> \<open>the loop both ways of scraping the compactor share\<close>
  "set_minor_service now split data =
     s_all [for_databases data (set_minor_db split),
            s_bind (s_lift (ebind (databases_of data) (\<lambda>dbs. any_tiers (map snd dbs)))) (\<lambda>b.
            s_if b (set_tier_metrics now ''minor'' data))]"

section \<open>The collector and the compactor\<close>

record settings_x =
  xs_ssh :: bool
  xs_max_age :: rat
  xs_major_port :: int
  xs_lag_interval :: rat
  xs_s3_interval :: rat
  xs_small :: int
  xs_minor_max :: int
  xs_major_max :: int

definition host_metrics :: "string list" where
  "host_metrics =
     [''cpu_percent'', ''mem_used_bytes'', ''mem_available_bytes'', ''root_free_bytes'', ''disk_write_bytes_per_s'',
      ''disk_read_bytes_per_s'', ''net_rx_bytes_per_s'', ''net_tx_bytes_per_s'']"

definition set_if_given :: "series \<Rightarrow> pyval \<Rightarrow> string \<Rightarrow> unit scrape" where
  \<comment> \<open>\<open>if v.get(k) is not None: gauge.set(float(v[k]))\<close>\<close>
  "set_if_given sr v k = s_bind (s_lift (pget v k)) (\<lambda>x. s_if (x \<noteq> PNone) (g_set sr x))"

definition set_dependency :: "string \<Rightarrow> pyval \<Rightarrow> string \<Rightarrow> unit scrape" where
  "set_dependency role deps dep =
     s_bind (s_lift (ebind (pget deps dep) (\<lambda>d. ebind (pget (or_empty d) ''configured'') (\<lambda>c. Inr (or_empty d, truthy c)))))
       (\<lambda>(d, configured).
     s_if configured
       (s_then (g_to (''bench_dependency_up'', [(''role'', role), (''dependency'', dep)])
                 (ebind (pget d ''ok'') (\<lambda>ok. Inr (one_or_zero (truthy ok)))))
               (set_if_given (''bench_dependency_latency_ms'', [(''role'', role), (''dependency'', dep)]) d ''latency_ms'')))"

definition set_role :: "settings_x \<Rightarrow> rat \<Rightarrow> string \<Rightarrow> series \<Rightarrow> pyval \<Rightarrow> unit scrape" where
  \<comment> \<open>the part of the health body that depends on the role\<close>
  "set_role xs now role uptime body =
     (if role = ''collector'' then
        s_all [g_to uptime (float_or_0 body ''uptimeSeconds''),
               g_to (plain ''bench_collector_batches_processed'') (float_or_0 body ''batchesProcessed''),
               g_to (plain ''bench_collector_known_queues'') (float_or_0 body ''knownQueues'')]
      else
        s_all [g_to uptime (ebind (pget_or body ''uptime'' (PStr [])) (\<lambda>v. map_sum id PFloat (parse_iso_duration v))),
               set_minor_service now (0 < xs_major_port xs) body])"

definition fround2 :: "pyfloat \<Rightarrow> pyfloat" where
  "fround2 f = (case f of Fin x \<Rightarrow> Fin (round_to 2 x) | _ \<Rightarrow> f)"

record parts =
  pa_svc :: pyval
  pa_health :: pyval
  pa_unit :: pyval
  pa_system :: pyval
  pa_deps :: pyval
  pa_body :: pyval
  pa_ok :: bool

definition agent_parts :: "pyval \<Rightarrow> pyexn + parts" where
  "agent_parts state =
     ebind (pget state ''service'') (\<lambda>sv. let svc = or_empty sv in
     ebind (pget svc ''health'') (\<lambda>h. ebind (pget svc ''unit'') (\<lambda>u.
     ebind (pget state ''system'') (\<lambda>sy. ebind (pget state ''dependencies'') (\<lambda>de.
     ebind (pget (or_empty h) ''body'') (\<lambda>b. ebind (pget (or_empty h) ''ok'') (\<lambda>ok.
     Inr \<lparr>pa_svc = svc, pa_health = or_empty h, pa_unit = or_empty u, pa_system = or_empty sy, pa_deps = or_empty de,
          pa_body = (if is_dict b then b else PDict []), pa_ok = truthy ok\<rparr>)))))))"

definition host_series :: "string \<Rightarrow> string \<Rightarrow> series" where
  "host_series role k = (''bench_host_metric'', [(''role'', role), (''metric'', k)])"

definition publish_list :: "settings_x \<Rightarrow> rat \<Rightarrow> string \<Rightarrow> series \<Rightarrow> parts \<Rightarrow> unit scrape list" where
  \<comment> \<open>what is set once the snapshot is known to be fresh, in order\<close>
  "publish_list xs now role uptime p =
     [set_role xs now role uptime (pa_body p),
      g_to (of_role ''bench_health_check_latency_ms'' role) (float_or_0 (pa_health p) ''latency_ms''),
      g_to (of_role ''bench_service_restarts_total'' role) (float_or_0 (pa_unit p) ''restarts''),
      g_to (of_role ''bench_service_unit_active'' role) (ebind (pget (pa_unit p) ''ok'') (\<lambda>v. Inr (one_or_zero (truthy v)))),
      g_to (of_role ''bench_oom_kills_total'' role) (float_or_0 (pa_svc p) ''oom_kills''),
      set_if_given (of_role ''bench_process_rss_bytes'' role) (pa_svc p) ''rss_bytes'',
      set_if_given (of_role ''bench_process_cpu_percent'' role) (pa_svc p) ''cpu_percent'',
      set_dependency role (pa_deps p) ''s3'', set_dependency role (pa_deps p) ''rds'']
     @ map (\<lambda>k. set_if_given (host_series role k) (pa_system p) k) host_metrics"

definition publish_agent :: "settings_x \<Rightarrow> rat \<Rightarrow> string \<Rightarrow> series \<Rightarrow> series \<Rightarrow> pyval \<Rightarrow> pyval scrape" where
  \<comment> \<open>\<open>_scrape_agent\<close> after the snapshot is read\<close>
  "publish_agent xs now role up uptime state =
     s_bind (s_lift (agent_parts state)) (\<lambda>p.
     s_then (g_set up (one_or_zero (pa_ok p)))
    (s_bind (s_lift (ebind (pget state ''ts'') (\<lambda>ts. py_float (py_or ts (PInt 0))))) (\<lambda>ts.
     let age = fmax (Fin 0) (fsub (Fin now) ts)
     in s_then (g_set (of_role ''bench_agent_snapshot_age_seconds'' role) (PFloat age))
       (if flt (Fin (xs_max_age xs)) age then s_fail (Stale role age)
        else s_then (s_all (publish_list xs now role uptime p))
          (s_bind (s_lift (as_dict state)) (\<lambda>d.
           s_ret (PDict (AList.update (KStr ''_snapshot_age_seconds'') (PFloat (fround2 age)) d))))))))"

definition scrape_agent ::
  "settings_x \<Rightarrow> rat \<Rightarrow> string \<Rightarrow> series \<Rightarrow> series \<Rightarrow> failure + pyval \<Rightarrow> pyval scrape" where
  "scrape_agent xs now role up uptime state = s_bind (s_from state) (publish_agent xs now role up uptime)"

definition collector_up :: series where "collector_up = plain ''bench_collector_up''"
definition collector_uptime :: series where "collector_uptime = plain ''bench_collector_uptime_seconds''"
definition compactor_up :: series where "compactor_up = plain ''bench_compactor_up''"
definition compactor_uptime :: series where "compactor_uptime = plain ''bench_compactor_uptime_seconds''"

definition scrape_collector :: "settings_x \<Rightarrow> rat \<Rightarrow> failure + pyval \<Rightarrow> pyval scrape" where
  \<comment> \<open>the answer is the agent's snapshot over SSH or the health document over HTTP\<close>
  "scrape_collector xs now answer =
     (if xs_ssh xs then scrape_agent xs now ''collector'' collector_up collector_uptime answer
      else s_bind (s_from answer) (\<lambda>data.
        s_then (s_all
          [g_to collector_up (ebind (pget data ''status'') (\<lambda>v. Inr (one_or_zero (v = PStr ''HEALTHY'')))),
           g_to collector_uptime (float_or_0 data ''uptimeSeconds''),
           g_to (plain ''bench_collector_batches_processed'') (float_or_0 data ''batchesProcessed''),
           g_to (plain ''bench_collector_known_queues'') (float_or_0 data ''knownQueues'')])
       (s_lift (ebind (as_dict data) (\<lambda>d. Inr (PDict
          [(KStr ''status'', dget_or d ''status'' PNone), (KStr ''uptime_seconds'', dget_or d ''uptimeSeconds'' PNone),
           (KStr ''batches_processed'', dget_or d ''batchesProcessed'' PNone),
           (KStr ''known_queues'', dget_or d ''knownQueues'' PNone),
           (KStr ''pending_batches'', PNone), (KStr ''pending_buckets'', PNone)]))))))"

definition tier_down :: "string \<Rightarrow> 'a scrape \<Rightarrow> 'a scrape" where
  \<comment> \<open>\<open>except Exception: tier_up.set(0); raise\<close>\<close>
  "tier_down tier m g =
     (case m g of
        (Inl e, g') \<Rightarrow> (Inl e, g'((''bench_compactor_tier_up'', [(''tier'', tier)]) \<mapsto> Fin 0))
      | r \<Rightarrow> r)"

definition scrape_compactor :: "settings_x \<Rightarrow> rat \<Rightarrow> failure + pyval \<Rightarrow> pyval scrape" where
  "scrape_compactor xs now answer =
     (if xs_ssh xs then tier_down ''minor'' (scrape_agent xs now ''compactor'' compactor_up compactor_uptime answer)
      else s_bind (s_from answer) (\<lambda>data.
        s_then (s_all
          [g_to compactor_up (ebind (pget data ''status'') (\<lambda>v. Inr (one_or_zero (v = PStr ''UP'')))),
           g_to compactor_uptime (ebind (pget_or data ''uptime'' (PStr [])) (\<lambda>v. map_sum id PFloat (parse_iso_duration v))),
           set_minor_service now (0 < xs_major_port xs) data])
       (s_ret data)))"

definition set_major_db :: "string \<Rightarrow> pyval \<Rightarrow> unit scrape" where
  "set_major_db db s =
     s_bind (s_lift (compactor_db_stats s)) (\<lambda>st.
     s_all [g_set (of_db ''bench_compaction_major_total'' db) (ds_major st),
            g_set (of_db ''bench_compactor_files_medium'' db) (ds_medium st)])"

definition major_answer :: "settings_x \<Rightarrow> (string \<Rightarrow> failure + pyval) \<Rightarrow> failure + int \<times> string \<times> string
    \<Rightarrow> failure + pyval \<Rightarrow> failure + pyval" where
  \<comment> \<open>\<open>curl\<close> over SSH, or HTTP\<close>
  "major_answer xs loads shell http =
     (if xs_ssh xs
      then ebind (ssh_run shell) (\<lambda>text. if text = [] then Inl (HealthEmpty (xs_major_port xs)) else loads text)
      else http)"

definition scrape_compactor_major :: "rat \<Rightarrow> failure + pyval \<Rightarrow> pyval scrape" where
  "scrape_compactor_major now answer =
     s_bind (tier_down ''major'' (s_from answer)) (\<lambda>data.
     s_then (set_tier_metrics now ''major'' data) (s_then (for_databases data set_major_db) (s_ret data)))"

section \<open>The catalog\<close>

record data_file =
  df_ended :: bool
  df_size :: int
  df_rows :: int

definition live :: "data_file list \<Rightarrow> data_file list" where
  \<comment> \<open>\<open>WHERE end_snapshot IS NULL\<close>\<close>
  "live fs = filter (\<lambda>f. \<not> df_ended f) fs"

definition totals_of :: "data_file list \<Rightarrow> int \<times> int \<times> int" where
  "totals_of fs = (int (length fs), sum_list (map df_size fs), sum_list (map df_rows fs))"

definition band_of :: "settings_x \<Rightarrow> int \<Rightarrow> string" where
  "band_of xs n = (if n < xs_minor_max xs then ''small'' else if n < xs_major_max xs then ''medium'' else ''large'')"

definition band_names :: "string list" where
  "band_names = [''small'', ''medium'', ''large'']"

definition in_band :: "settings_x \<Rightarrow> string \<Rightarrow> data_file list \<Rightarrow> data_file list" where
  "in_band xs band fs = filter (\<lambda>f. band_of xs (df_size f) = band) (live fs)"

record pg_stats =
  pg_conns :: int
  pg_active :: int
  pg_longest :: rat
  pg_size :: int
  pg_commit :: int
  pg_rollback :: int
  pg_deadlocks :: int

record catalog =
  \<comment> \<open>the transaction reads what is committed, so each statement on the files sees the table as it is by then\<close>
  ct_connect :: "failure option"
  ct_broken :: "nat \<Rightarrow> failure option"
  ct_files :: "nat \<Rightarrow> data_file list"
  ct_snapshots :: "int list"
  ct_pg :: pg_stats

definition query :: "catalog \<Rightarrow> nat \<Rightarrow> unit scrape" where
  \<comment> \<open>the n-th statement raises or is answered\<close>
  "query c n = (case ct_broken c n of None \<Rightarrow> s_ret () | Some e \<Rightarrow> s_fail e)"

definition ints :: "(string \<times> int) list \<Rightarrow> pydict" where
  "ints kvs = map (\<lambda>(k, n). (KStr k, PInt n)) kvs"

definition bands_dict :: "settings_x \<Rightarrow> data_file list \<Rightarrow> pydict" where
  \<comment> \<open>\<open>GROUP BY\<close> has no row for an empty band\<close>
  "bands_dict xs fs =
     map (\<lambda>b. (KStr b, PDict (ints [(''files'', int (length (in_band xs b fs))), (''bytes'', sum_list (map df_size (in_band xs b fs)))])))
       (filter (\<lambda>b. in_band xs b fs \<noteq> []) band_names)"

definition set_band :: "settings_x \<Rightarrow> data_file list \<Rightarrow> string \<Rightarrow> unit scrape" where
  "set_band xs fs b =
     s_then (g_set (''bench_catalog_files_by_band'', [(''band'', b)]) (PInt (int (length (in_band xs b fs)))))
            (g_set (''bench_catalog_bytes_by_band'', [(''band'', b)]) (PInt (sum_list (map df_size (in_band xs b fs)))))"

definition set_triple :: "string \<Rightarrow> string \<Rightarrow> string \<Rightarrow> int \<times> int \<times> int \<Rightarrow> unit scrape" where
  "set_triple a b c t =
     s_all [g_set (plain a) (PInt (fst t)), g_set (plain b) (PInt (fst (snd t))), g_set (plain c) (PInt (snd (snd t)))]"

definition publish_files :: "settings_x \<Rightarrow> catalog \<Rightarrow> unit scrape" where
  "publish_files xs c =
     s_all [query c 0,
            set_triple ''bench_backlog_files'' ''bench_backlog_bytes'' ''bench_backlog_rows'' (totals_of (live (ct_files c 0))),
            query c 1,
            set_triple ''bench_backlog_small_files'' ''bench_backlog_small_bytes'' ''bench_backlog_small_rows''
              (totals_of (filter (\<lambda>f. df_size f < xs_small xs) (live (ct_files c 1)))),
            query c 2, s_all (map (set_band xs (ct_files c 2)) band_names)]"

definition newest_snapshot :: "catalog \<Rightarrow> int" where
  "newest_snapshot c = (if ct_snapshots c = [] then 0 else Max (set (ct_snapshots c)))"

definition publish_server :: "catalog \<Rightarrow> unit scrape" where
  "publish_server c =
     (let pg = ct_pg c
      in s_all [query c 3, g_set (plain ''bench_catalog_snapshots'') (PInt (int (length (ct_snapshots c)))),
                g_set (plain ''bench_catalog_max_snapshot_id'') (PInt (newest_snapshot c)),
                query c 4, g_set (plain ''bench_pg_connections'') (PInt (pg_conns pg)),
                g_set (plain ''bench_pg_active_queries'') (PInt (pg_active pg)),
                g_set (plain ''bench_pg_longest_query_seconds'') (num (pg_longest pg)),
                g_set (plain ''bench_pg_database_size_bytes'') (PInt (pg_size pg)),
                g_set (plain ''bench_pg_xact_commit_total'') (PInt (pg_commit pg)),
                g_set (plain ''bench_pg_xact_rollback_total'') (PInt (pg_rollback pg)),
                g_set (plain ''bench_pg_deadlocks_total'') (PInt (pg_deadlocks pg))])"

definition scrape_catalog :: "settings_x \<Rightarrow> catalog \<Rightarrow> pyval scrape" where
  "scrape_catalog xs c =
     (let lv = totals_of (live (ct_files c 0)); sm = totals_of (filter (\<lambda>f. df_size f < xs_small xs) (live (ct_files c 1)));
          pg = ct_pg c
      in s_then (case ct_connect c of None \<Rightarrow> s_ret () | Some e \<Rightarrow> s_fail e)
        (s_then (publish_files xs c)
        (s_then (publish_server c)
        (s_ret (PDict (ints
          [(''backlog_files'', fst lv), (''backlog_bytes'', fst (snd lv)), (''backlog_rows'', snd (snd lv)),
           (''small_files'', fst sm), (''small_bytes'', fst (snd sm)), (''small_rows'', snd (snd sm))]
          @ [(KStr ''files_by_band'', PDict (bands_dict xs (ct_files c 2)))]
          @ ints [(''snapshots'', int (length (ct_snapshots c))), (''max_snapshot_id'', newest_snapshot c),
                  (''pg_connections'', pg_conns pg), (''pg_active_queries'', pg_active pg)]
          @ [(KStr ''pg_longest_query_seconds'', num (pg_longest pg))]
          @ ints [(''pg_database_size_bytes'', pg_size pg), (''pg_xact_commit'', pg_commit pg),
                  (''pg_xact_rollback'', pg_rollback pg), (''pg_deadlocks'', pg_deadlocks pg)]))))))"

section \<open>Watermark and bucket\<close>

definition scrape_watermark :: "rat \<Rightarrow> failure + (rat \<times> int) list \<Rightarrow> pyval scrape" where
  \<comment> \<open>the database's clock, and the rows of the table: newest time and row count\<close>
  "scrape_watermark now rows =
     s_bind (s_from rows) (\<lambda>rs.
     let lag = (if rs = [] then - 1 else now - Max (set (map fst rs))); committed = sum_list (map snd rs)
     in s_then (g_set (plain ''bench_watermark_lag_seconds'') (num lag))
       (s_then (g_set (plain ''bench_watermark_committed_rows'') (PInt committed))
       (s_ret (PDict [(KStr ''lag_seconds'', if lag < 0 then PNone else num lag), (KStr ''committed_rows'', PInt committed)]))))"

record s3_page =
  pg_sizes :: "int list"
  pg_truncated :: bool
  pg_next :: "string option"

type_synonym lister = "string option \<Rightarrow> failure + s3_page"

definition given :: "string option \<Rightarrow> string option" where
  \<comment> \<open>\<open>if token:\<close>\<close>
  "given tok = (case tok of Some (c # cs) \<Rightarrow> Some (c # cs) | _ \<Rightarrow> None)"

partial_function (option) list_objects ::
  "lister \<Rightarrow> string option \<Rightarrow> int \<Rightarrow> int \<Rightarrow> (failure + int \<times> int) option" where
  \<comment> \<open>\<open>None\<close> when the listing never ends\<close>
  "list_objects client tok objects total_bytes =
     (case client (given tok) of
        Inl e \<Rightarrow> Some (Inl e)
      | Inr page \<Rightarrow>
          if \<not> pg_truncated page
          then Some (Inr (objects + int (length (pg_sizes page)), total_bytes + sum_list (pg_sizes page)))
          else list_objects client (pg_next page) (objects + int (length (pg_sizes page)))
                 (total_bytes + sum_list (pg_sizes page)))"

definition scrape_s3 :: "failure + int \<times> int \<Rightarrow> pyval scrape" where
  "scrape_s3 listed =
     s_bind (s_from listed) (\<lambda>(objects, total_bytes).
     s_then (g_set (plain ''bench_s3_objects'') (PInt objects))
    (s_then (g_set (plain ''bench_s3_bytes'') (PInt total_bytes))
    (s_ret (PDict [(KStr ''objects'', PInt objects), (KStr ''bytes'', PInt total_bytes)]))))"

section \<open>A poll\<close>

record exporter =
  ex_gauges :: gauges
  ex_errors :: "string \<Rightarrow> nat"
  ex_last_s3 :: rat
  ex_last_lag :: rat
  ex_s3 :: pyval
  ex_lag :: pyval

definition new_exporter :: exporter where
  "new_exporter =
     \<lparr>ex_gauges = Map.empty, ex_errors = (\<lambda>_. 0), ex_last_s3 = 0, ex_last_lag = 0,
      ex_s3 = PDict [(KStr ''objects'', PNone), (KStr ''bytes'', PNone)],
      ex_lag = PDict [(KStr ''lag_seconds'', PNone), (KStr ''committed_rows'', PNone)]\<rparr>"

definition sput :: "string \<Rightarrow> pyval \<Rightarrow> pydict \<Rightarrow> pydict" where
  "sput k v d = AList.update (KStr k) v d"

definition run_source ::
  "(failure \<Rightarrow> string) \<Rightarrow> rat \<Rightarrow> string \<Rightarrow> pyval scrape \<Rightarrow> pydict \<times> exporter \<Rightarrow> pydict \<times> exporter" where
  \<comment> \<open>how a failure reads, and how long the scrape took\<close>
  "run_source text_of took name m se =
     (let (sample, ex) = se; (r, g) = m (ex_gauges ex); seconds = of_source ''bench_scrape_duration_seconds'' name
      in case r of
           Inr v \<Rightarrow>
             (sput (name @ ''_ok'') (PBool True) (sput name v sample),
              ex\<lparr>ex_gauges := g(of_source ''bench_scrape_ok'' name \<mapsto> Fin 1, seconds \<mapsto> Fin took)\<rparr>)
         | Inl e \<Rightarrow>
             (sput (name @ ''_error'') (PStr (take 200 (takeWhile (\<lambda>c. c \<noteq> newline) (text_of e))))
                (sput (name @ ''_ok'') (PBool False) (sput name PNone sample)),
              ex\<lparr>ex_gauges := g(of_source ''bench_scrape_ok'' name \<mapsto> Fin 0, seconds \<mapsto> Fin took),
                 ex_errors := (ex_errors ex)(name := ex_errors ex name + 1)\<rparr>))"

record world =
  \<comment> \<open>what one poll finds\<close>
  wo_now :: rat
  wo_iso :: string
  wo_collector :: "failure + pyval"
  wo_compactor :: "failure + pyval"
  wo_major :: "failure + pyval"
  wo_catalog :: catalog
  wo_watermark :: "failure + (rat \<times> int) list"
  wo_listing :: lister
  wo_took :: "string \<Rightarrow> rat"

definition cached :: "string \<Rightarrow> pyval \<Rightarrow> pydict \<Rightarrow> pydict" where
  "cached name v sample = sput (name @ ''_cached'') (PBool True) (sput name v sample)"

definition poll_watermark :: "(failure \<Rightarrow> string) \<Rightarrow> settings_x \<Rightarrow> world \<Rightarrow> pydict \<times> exporter \<Rightarrow> pydict \<times> exporter" where
  "poll_watermark text_of xs w se =
     (let (sample, ex) = se
      in if xs_lag_interval xs \<le> wo_now w - ex_last_lag ex
         then let (sample', ex') = run_source text_of (wo_took w ''watermark'') ''watermark''
                    (scrape_watermark (wo_now w) (wo_watermark w)) (sample, ex)
              in (sample', ex'\<lparr>ex_lag := py_or (dget_or sample' ''watermark'' PNone) (ex_lag ex'), ex_last_lag := wo_now w\<rparr>)
         else (cached ''watermark'' (ex_lag ex) sample, ex))"

definition poll_s3 :: "(failure \<Rightarrow> string) \<Rightarrow> settings_x \<Rightarrow> world \<Rightarrow> pydict \<times> exporter \<Rightarrow> (pydict \<times> exporter) option" where
  "poll_s3 text_of xs w se =
     (let (sample, ex) = se
      in if xs_s3_interval xs \<le> wo_now w - ex_last_s3 ex
         then (case list_objects (wo_listing w) None 0 0 of
                 None \<Rightarrow> None
               | Some listed \<Rightarrow>
                   let (sample', ex') = run_source text_of (wo_took w ''s3'') ''s3'' (scrape_s3 listed) (sample, ex)
                   in Some (sample', ex'\<lparr>ex_s3 := py_or (dget_or sample' ''s3'' PNone) (ex_s3 ex'), ex_last_s3 := wo_now w\<rparr>))
         else Some (cached ''s3'' (ex_s3 ex) sample, ex))"

definition poll_services :: "(failure \<Rightarrow> string) \<Rightarrow> settings_x \<Rightarrow> world \<Rightarrow> exporter \<Rightarrow> pydict \<times> exporter" where
  "poll_services text_of xs w ex =
     (let run = (\<lambda>name m. run_source text_of (wo_took w name) name m); now = wo_now w;
          p0 = ([(KStr ''ts'', num now), (KStr ''iso'', PStr (wo_iso w))], ex);
          p1 = run ''collector'' (scrape_collector xs now (wo_collector w)) p0;
          p2 = run ''compactor'' (scrape_compactor xs now (wo_compactor w)) p1;
          p3 = (if 0 < xs_major_port xs then run ''compactor_major'' (scrape_compactor_major now (wo_major w)) p2 else p2)
      in run ''catalog'' (scrape_catalog xs (wo_catalog w)) p3)"

definition poll_once :: "(failure \<Rightarrow> string) \<Rightarrow> settings_x \<Rightarrow> world \<Rightarrow> exporter \<Rightarrow> (pydict \<times> exporter) option" where
  "poll_once text_of xs w ex = poll_s3 text_of xs w (poll_watermark text_of xs w (poll_services text_of xs w ex))"

section \<open>The declared series\<close>

definition exporter_registry :: "(string \<times> string list) list" where
  \<comment> \<open>\<open>Prom.__init__\<close>: each metric with the names of its labels\<close>
  "exporter_registry =
     [(''bench_scrape_ok'', [''source'']),
      (''bench_scrape_duration_seconds'', [''source'']),
      (''bench_scrape_errors_total'', [''source'']),
      (''bench_collector_up'', []),
      (''bench_collector_uptime_seconds'', []),
      (''bench_collector_batches_processed'', []),
      (''bench_collector_known_queues'', []),
      (''bench_compactor_up'', []),
      (''bench_compactor_uptime_seconds'', []),
      (''bench_compaction_minor_total'', [''database'']),
      (''bench_compaction_major_total'', [''database'']),
      (''bench_compaction_files_compacted_total'', [''database'']),
      (''bench_compactor_files_small'', [''database'']),
      (''bench_compactor_files_medium'', [''database'']),
      (''bench_compactor_files_total'', [''database'']),
      (''bench_compactor_tier_up'', [''tier'']),
      (''bench_compactor_tier_uptime_seconds'', [''tier'']),
      (''bench_compaction_tier_cycles_total'', [''database'', ''tier'']),
      (''bench_compaction_tier_failed_cycles_total'', [''database'', ''tier'']),
      (''bench_compaction_tier_files_compacted_total'', [''database'', ''tier'']),
      (''bench_compactor_tier_band_files'', [''database'', ''tier'']),
      (''bench_compaction_tier_last_success_age_seconds'', [''database'', ''tier'']),
      (''bench_catalog_files_by_band'', [''band'']),
      (''bench_catalog_bytes_by_band'', [''band'']),
      (''bench_backlog_files'', []),
      (''bench_backlog_bytes'', []),
      (''bench_backlog_rows'', []),
      (''bench_backlog_small_files'', []),
      (''bench_backlog_small_bytes'', []),
      (''bench_backlog_small_rows'', []),
      (''bench_watermark_lag_seconds'', []),
      (''bench_watermark_committed_rows'', []),
      (''bench_catalog_snapshots'', []),
      (''bench_catalog_max_snapshot_id'', []),
      (''bench_pg_connections'', []),
      (''bench_pg_active_queries'', []),
      (''bench_pg_longest_query_seconds'', []),
      (''bench_pg_database_size_bytes'', []),
      (''bench_pg_xact_commit_total'', []),
      (''bench_pg_xact_rollback_total'', []),
      (''bench_pg_deadlocks_total'', []),
      (''bench_s3_objects'', []),
      (''bench_s3_bytes'', []),
      (''bench_agent_snapshot_age_seconds'', [''role'']),
      (''bench_health_check_latency_ms'', [''role'']),
      (''bench_service_restarts_total'', [''role'']),
      (''bench_service_unit_active'', [''role'']),
      (''bench_oom_kills_total'', [''role'']),
      (''bench_process_rss_bytes'', [''role'']),
      (''bench_process_cpu_percent'', [''role'']),
      (''bench_dependency_up'', [''role'', ''dependency'']),
      (''bench_dependency_latency_ms'', [''role'', ''dependency'']),
      (''bench_host_metric'', [''role'', ''metric''])]"

definition labels_of :: "string \<Rightarrow> string list" where
  "labels_of name = (case map_of exporter_registry name of None \<Rightarrow> [] | Some ls \<Rightarrow> ls)"

definition labelled :: "series \<Rightarrow> bool" where
  "labelled s \<longleftrightarrow> map fst (snd s) = labels_of (fst s)"

definition declared :: "series \<Rightarrow> bool" where
  "declared s \<longleftrightarrow> map_of exporter_registry (fst s) = Some (map fst (snd s))"

lemma labels_of_simps [simp]:
  "labels_of ''bench_scrape_ok'' = [''source'']"
  "labels_of ''bench_scrape_duration_seconds'' = [''source'']"
  "labels_of ''bench_scrape_errors_total'' = [''source'']"
  "labels_of ''bench_collector_up'' = []"
  "labels_of ''bench_collector_uptime_seconds'' = []"
  "labels_of ''bench_collector_batches_processed'' = []"
  "labels_of ''bench_collector_known_queues'' = []"
  "labels_of ''bench_compactor_up'' = []"
  "labels_of ''bench_compactor_uptime_seconds'' = []"
  "labels_of ''bench_compaction_minor_total'' = [''database'']"
  "labels_of ''bench_compaction_major_total'' = [''database'']"
  "labels_of ''bench_compaction_files_compacted_total'' = [''database'']"
  "labels_of ''bench_compactor_files_small'' = [''database'']"
  "labels_of ''bench_compactor_files_medium'' = [''database'']"
  "labels_of ''bench_compactor_files_total'' = [''database'']"
  "labels_of ''bench_compactor_tier_up'' = [''tier'']"
  "labels_of ''bench_compactor_tier_uptime_seconds'' = [''tier'']"
  "labels_of ''bench_compaction_tier_cycles_total'' = [''database'', ''tier'']"
  "labels_of ''bench_compaction_tier_failed_cycles_total'' = [''database'', ''tier'']"
  "labels_of ''bench_compaction_tier_files_compacted_total'' = [''database'', ''tier'']"
  "labels_of ''bench_compactor_tier_band_files'' = [''database'', ''tier'']"
  "labels_of ''bench_compaction_tier_last_success_age_seconds'' = [''database'', ''tier'']"
  "labels_of ''bench_catalog_files_by_band'' = [''band'']"
  "labels_of ''bench_catalog_bytes_by_band'' = [''band'']"
  "labels_of ''bench_backlog_files'' = []"
  "labels_of ''bench_backlog_bytes'' = []"
  "labels_of ''bench_backlog_rows'' = []"
  "labels_of ''bench_backlog_small_files'' = []"
  "labels_of ''bench_backlog_small_bytes'' = []"
  "labels_of ''bench_backlog_small_rows'' = []"
  "labels_of ''bench_watermark_lag_seconds'' = []"
  "labels_of ''bench_watermark_committed_rows'' = []"
  "labels_of ''bench_catalog_snapshots'' = []"
  "labels_of ''bench_catalog_max_snapshot_id'' = []"
  "labels_of ''bench_pg_connections'' = []"
  "labels_of ''bench_pg_active_queries'' = []"
  "labels_of ''bench_pg_longest_query_seconds'' = []"
  "labels_of ''bench_pg_database_size_bytes'' = []"
  "labels_of ''bench_pg_xact_commit_total'' = []"
  "labels_of ''bench_pg_xact_rollback_total'' = []"
  "labels_of ''bench_pg_deadlocks_total'' = []"
  "labels_of ''bench_s3_objects'' = []"
  "labels_of ''bench_s3_bytes'' = []"
  "labels_of ''bench_agent_snapshot_age_seconds'' = [''role'']"
  "labels_of ''bench_health_check_latency_ms'' = [''role'']"
  "labels_of ''bench_service_restarts_total'' = [''role'']"
  "labels_of ''bench_service_unit_active'' = [''role'']"
  "labels_of ''bench_oom_kills_total'' = [''role'']"
  "labels_of ''bench_process_rss_bytes'' = [''role'']"
  "labels_of ''bench_process_cpu_percent'' = [''role'']"
  "labels_of ''bench_dependency_up'' = [''role'', ''dependency'']"
  "labels_of ''bench_dependency_latency_ms'' = [''role'', ''dependency'']"
  "labels_of ''bench_host_metric'' = [''role'', ''metric'']"
  by code_simp+

section \<open>What a scrape leaves alone\<close>

definition keeps :: "(series \<Rightarrow> bool) \<Rightarrow> 'a scrape \<Rightarrow> bool" where
  "keeps P m = (\<forall>g s. P s \<longrightarrow> snd (m g) s = g s)"

named_theorems frame \<open>which gauges a scrape leaves alone\<close>

lemma keepsD: "keeps P m \<Longrightarrow> m g = (r, g') \<Longrightarrow> P s \<Longrightarrow> g' s = g s"
  unfolding keeps_def by (metis snd_conv)

lemma keeps_basic [frame]:
  "keeps P (s_ret x)" "keeps P (s_fail e)" "keeps P (s_from r)" "keeps P (s_lift r')"
  by (simp_all add: keeps_def s_ret_def s_fail_def s_from_def s_lift_def)

lemma keeps_bind [frame]: "keeps P m \<Longrightarrow> (\<And>x. keeps P (f x)) \<Longrightarrow> keeps P (s_bind m f)"
  by (auto simp: keeps_def s_bind_def split: prod.split sum.split) (metis snd_conv)+

lemma keeps_lifted: "(\<And>x. r = Inr x \<Longrightarrow> keeps P (f x)) \<Longrightarrow> keeps P (s_bind (s_lift r) f)"
  by (cases r) (auto simp: keeps_def s_bind_def s_lift_def)

lemma keeps_then [frame]: "keeps P m \<Longrightarrow> keeps P n \<Longrightarrow> keeps P (s_then m n)"
  unfolding s_then_def by (rule keeps_bind)

lemma keeps_if [frame]: "(b \<Longrightarrow> keeps P m) \<Longrightarrow> keeps P (s_if b m)"
  by (simp add: s_if_def keeps_basic)

lemma keeps_all [frame]: "(\<And>m. m \<in> set ms \<Longrightarrow> keeps P m) \<Longrightarrow> keeps P (s_all ms)"
  by (induction ms) (auto intro: frame)

lemma keeps_set [frame]: "\<not> P s \<Longrightarrow> keeps P (g_set s v)"
  by (auto simp: keeps_def g_set_def split: sum.split)

lemma keeps_to [frame]: "\<not> P s \<Longrightarrow> keeps P (g_to s r)"
  unfolding g_to_def by (intro frame)

lemma keeps_down [frame]: "keeps P m \<Longrightarrow> \<not> P (''bench_compactor_tier_up'', [(''tier'', tier)]) \<Longrightarrow> keeps P (tier_down tier m)"
  by (auto simp: keeps_def tier_down_def split: prod.split sum.split) (metis snd_conv)+

lemma keeps_databases [frame]:
  assumes "\<And>dbs k s. databases_of data = Inr dbs \<Longrightarrow> (k, s) \<in> set dbs \<Longrightarrow> keeps P (body (label_of k) s)"
  shows "keeps P (for_databases data body)"
proof (cases "databases_of data")
  case (Inr dbs)
  have "keeps P (s_all (map (\<lambda>(k, s). body (label_of k) s) dbs))"
    by (rule keeps_all) (use assms Inr in auto)
  then show ?thesis using Inr by (simp add: for_databases_def s_bind_def s_lift_def keeps_def)
qed (simp add: for_databases_def s_bind_def s_lift_def keeps_def)

lemma keeps_query [frame]: "keeps P (query c n)"
  by (simp add: query_def keeps_basic split: option.split)

lemma keeps_each: "list_all (keeps P) ms \<Longrightarrow> keeps P (s_all ms)"
  by (rule keeps_all) (simp add: list_all_iff)

lemma keeps_given [frame]: "\<not> P s \<Longrightarrow> keeps P (set_if_given s v k)"
  unfolding set_if_given_def by (intro frame)

lemmas series_defs = plain_def of_role_def of_source_def of_db_def of_tier_def collector_up_def collector_uptime_def
  compactor_up_def compactor_uptime_def

definition tier_names :: "string list" where
  "tier_names =
     [''bench_compactor_tier_up'', ''bench_compactor_tier_uptime_seconds'', ''bench_compaction_tier_cycles_total'',
      ''bench_compactor_tier_band_files'', ''bench_compaction_tier_failed_cycles_total'',
      ''bench_compaction_tier_files_compacted_total'', ''bench_compaction_tier_last_success_age_seconds'']"

definition minor_names :: "string list" where
  "minor_names =
     [''bench_compaction_minor_total'', ''bench_compaction_files_compacted_total'', ''bench_compactor_files_small'',
      ''bench_compactor_files_total'']"

definition major_names :: "string list" where
  "major_names = [''bench_compaction_major_total'', ''bench_compactor_files_medium'']"

definition agent_names :: "string list" where
  "agent_names =
     [''bench_agent_snapshot_age_seconds'', ''bench_health_check_latency_ms'', ''bench_service_restarts_total'',
      ''bench_service_unit_active'', ''bench_oom_kills_total'', ''bench_process_rss_bytes'', ''bench_process_cpu_percent'',
      ''bench_dependency_up'', ''bench_dependency_latency_ms'', ''bench_host_metric'', ''bench_collector_batches_processed'',
      ''bench_collector_known_queues'']"

definition apart :: "(series \<Rightarrow> bool) \<Rightarrow> string list \<Rightarrow> bool" where
  \<comment> \<open>no gauge of these names, with the labels it is declared with, is among \<open>P\<close>\<close>
  "apart P names = (\<forall>s. P s \<and> labelled s \<longrightarrow> fst s \<notin> set names)"

lemma apartD: "apart P names \<Longrightarrow> n \<in> set names \<Longrightarrow> map fst l = labels_of n \<Longrightarrow> \<not> P (n, l)"
  by (auto simp: apart_def labelled_def)

lemma apart_append [simp]: "apart P (xs @ ys) = (apart P xs \<and> apart P ys)"
  by (auto simp: apart_def)

lemma keeps_tier:
  assumes "apart P tier_names"
  shows "keeps P (set_tier_metrics now tier data)"
proof -
  note not = apartD [OF assms]
  have "keeps P (set_tier_db now tier db s)" for db s
    unfolding set_tier_db_def by (intro frame; auto simp: series_defs not tier_names_def intro!: frame)
  then show ?thesis
    unfolding set_tier_metrics_def by (intro frame; auto simp: not tier_names_def intro!: frame)
qed

lemma keeps_minor_db:
  assumes "apart P minor_names" and "apart P major_names \<or> split \<and> has_tiers s = Inr True"
  shows "keeps P (set_minor_db split db s)"
proof -
  note not = apartD [OF assms(1)]
  have major: "keeps P (s_if (\<not> (split \<and> t)) (s_all [g_set (of_db ''bench_compaction_major_total'' db) v,
      g_set (of_db ''bench_compactor_files_medium'' db) w]))" if "has_tiers s = Inr t" for t v w
  proof (cases "split \<and> t")
    case False
    then have "apart P major_names" using assms(2) that by auto
    from apartD [OF this] show ?thesis by (intro frame) (auto simp: series_defs major_names_def intro!: frame)
  qed (simp add: s_if_def keeps_basic)
  have "keeps P (set_major_view split db s st)" for st
    unfolding set_major_view_def by (rule keeps_lifted) (rule major)
  then show ?thesis
    unfolding set_minor_db_def by (intro frame; auto simp: series_defs not minor_names_def intro!: frame)
qed

lemma keeps_minor_service:
  assumes "apart P (minor_names @ tier_names)"
    and "apart P major_names \<or> split \<and> (\<forall>dbs. databases_of data = Inr dbs \<longrightarrow> (\<forall>(k, s) \<in> set dbs. has_tiers s = Inr True))"
  shows "keeps P (set_minor_service now split data)"
proof -
  have "keeps P (for_databases data (set_minor_db split))"
    by (rule keeps_databases) (use assms in \<open>auto intro!: keeps_minor_db\<close>)
  moreover have "keeps P (set_tier_metrics now ''minor'' data)" using assms(1) by (simp add: keeps_tier)
  ultimately show ?thesis unfolding set_minor_service_def by (intro frame; auto intro!: frame)
qed

lemma keeps_dependency: "apart P agent_names \<Longrightarrow> keeps P (set_dependency role deps dep)"
  unfolding set_dependency_def
  by (intro frame; auto simp: apartD agent_names_def split: prod.split intro!: frame)

lemma keeps_role:
  assumes "apart P (agent_names @ minor_names @ tier_names @ major_names)" and "\<not> P uptime"
  shows "keeps P (set_role xs now role uptime body)"
proof -
  have "keeps P (set_minor_service now split body)" for split
    by (rule keeps_minor_service) (use assms in simp_all)
  moreover have "apart P agent_names" using assms(1) by simp
  ultimately show ?thesis
    unfolding set_role_def using assms(2)
    by (auto simp: series_defs apartD agent_names_def intro!: frame)
qed

definition all_names :: "string list" where
  "all_names = agent_names @ minor_names @ tier_names @ major_names"

lemma keeps_publish:
  assumes "apart P all_names" and "\<not> P up" and "\<not> P uptime"
  shows "keeps P (publish_agent xs now role up uptime state)"
proof -
  have r: "keeps P (set_role xs now role uptime body)" for body
    by (rule keeps_role) (use assms in \<open>simp_all add: all_names_def\<close>)
  have a: "apart P agent_names" using assms(1) by (simp add: all_names_def)
  note d = keeps_dependency [OF a]
  have l: "keeps P (s_all (publish_list xs now role uptime p))" for p
    by (intro keeps_each)
      (auto simp: publish_list_def list_all_iff series_defs host_series_def apartD [OF a] agent_names_def intro!: frame r d)
  show ?thesis
    unfolding publish_agent_def Let_def using assms(2,3)
    by (intro frame) (auto simp: series_defs apartD [OF a] agent_names_def intro!: frame l)
qed

lemma keeps_collector:
  assumes "apart P all_names" and "\<not> P collector_up" and "\<not> P collector_uptime"
  shows "keeps P (scrape_collector xs now answer)"
proof -
  have a: "apart P agent_names" using assms(1) by (simp add: all_names_def)
  note p = keeps_publish [OF assms]
  show ?thesis
    unfolding scrape_collector_def scrape_agent_def using assms(2,3)
    by (auto simp: plain_def apartD [OF a] agent_names_def intro!: frame p)
qed

lemma keeps_compactor:
  assumes "apart P all_names" and "\<not> P compactor_up" and "\<not> P compactor_uptime"
  shows "keeps P (scrape_compactor xs now answer)"
proof -
  have a: "apart P tier_names" using assms(1) by (simp add: all_names_def)
  have m: "keeps P (set_minor_service now b data)" for b data
    by (rule keeps_minor_service) (use assms(1) in \<open>simp_all add: all_names_def\<close>)
  note p = keeps_publish [OF assms]
  show ?thesis
    unfolding scrape_compactor_def scrape_agent_def using assms(2,3)
    by (auto simp: apartD [OF a] tier_names_def intro!: frame p m)
qed

lemma keeps_major:
  assumes "apart P all_names"
  shows "keeps P (scrape_compactor_major now answer)"
proof -
  have a: "apart P tier_names" "apart P major_names" using assms by (simp_all add: all_names_def)
  have "keeps P (for_databases data set_major_db)" for data
    unfolding set_major_db_def
    by (intro frame) (auto simp: of_db_def apartD [OF a(2)] major_names_def intro!: frame)
  note m = this keeps_tier [OF a(1)]
  show ?thesis
    unfolding scrape_compactor_major_def
    by (auto simp: apartD [OF a(1)] tier_names_def intro!: frame m)
qed

definition file_names :: "string list" where
  "file_names =
     [''bench_backlog_files'', ''bench_backlog_bytes'', ''bench_backlog_rows'', ''bench_backlog_small_files'',
      ''bench_backlog_small_bytes'', ''bench_backlog_small_rows'', ''bench_catalog_files_by_band'', ''bench_catalog_bytes_by_band'']"

definition server_names :: "string list" where
  "server_names =
     [''bench_catalog_snapshots'', ''bench_catalog_max_snapshot_id'', ''bench_pg_connections'', ''bench_pg_active_queries'',
      ''bench_pg_longest_query_seconds'', ''bench_pg_database_size_bytes'', ''bench_pg_xact_commit_total'',
      ''bench_pg_xact_rollback_total'', ''bench_pg_deadlocks_total'']"

lemma keeps_files:
  assumes "apart P file_names"
  shows "keeps P (publish_files xs c)"
proof -
  have t: "keeps P (set_triple a b c t)" if "a \<in> set file_names \<and> labels_of a = []" "b \<in> set file_names \<and> labels_of b = []"
      "c \<in> set file_names \<and> labels_of c = []" for a b c t
    unfolding set_triple_def using that by (intro frame) (auto simp: plain_def apartD [OF assms] intro!: frame)
  have b: "keeps P (set_band xs fs b)" for fs b
    unfolding set_band_def by (intro frame) (simp_all add: apartD [OF assms] file_names_def)
  show ?thesis
    unfolding publish_files_def
    by (intro keeps_each) (simp add: t keeps_query keeps_each b file_names_def list_all_iff)
qed

lemma keeps_server:
  assumes "apart P server_names"
  shows "keeps P (publish_server c)"
proof -
  have p: "keeps P (g_set (plain a) v)" if "a \<in> set server_names \<and> labels_of a = []" for a v
    using that by (intro frame) (simp add: plain_def apartD [OF assms])
  show ?thesis
    unfolding publish_server_def Let_def
    by (intro keeps_each) (simp add: p keeps_query server_names_def)
qed

lemma keeps_catalog:
  assumes "apart P (file_names @ server_names)"
  shows "keeps P (scrape_catalog xs c)"
proof -
  have "keeps P (publish_files xs c)" "keeps P (publish_server c)" using assms by (simp_all add: keeps_files keeps_server)
  then show ?thesis
    unfolding scrape_catalog_def Let_def by (intro keeps_then keeps_basic) (simp_all add: keeps_basic split: option.split)
qed

lemma keeps_watermark:
  "apart P [''bench_watermark_lag_seconds'', ''bench_watermark_committed_rows''] \<Longrightarrow> keeps P (scrape_watermark now rows)"
  unfolding scrape_watermark_def Let_def by (auto simp: plain_def apartD intro!: frame)

lemma keeps_s3: "apart P [''bench_s3_objects'', ''bench_s3_bytes''] \<Longrightarrow> keeps P (scrape_s3 listed)"
  unfolding scrape_s3_def by (auto simp: plain_def apartD split: prod.split intro!: frame)

section \<open>Every source is accounted for\<close>

definition ok_of :: "string \<Rightarrow> series" where
  "ok_of name = of_source ''bench_scrape_ok'' name"

lemma scrapes_keep_ok:
  "keeps (\<lambda>s. s = ok_of n) (scrape_collector xs now answer)"
  "keeps (\<lambda>s. s = ok_of n) (scrape_compactor xs now answer)"
  "keeps (\<lambda>s. s = ok_of n) (scrape_compactor_major now answer)"
  "keeps (\<lambda>s. s = ok_of n) (scrape_catalog xs c)"
  "keeps (\<lambda>s. s = ok_of n) (scrape_watermark now rows)"
  "keeps (\<lambda>s. s = ok_of n) (scrape_s3 listed)"
proof -
  have a: "apart (\<lambda>s. s = ok_of n) all_names" "apart (\<lambda>s. s = ok_of n) (file_names @ server_names)"
    "apart (\<lambda>s. s = ok_of n) [''bench_watermark_lag_seconds'', ''bench_watermark_committed_rows'']"
    "apart (\<lambda>s. s = ok_of n) [''bench_s3_objects'', ''bench_s3_bytes'']"
    by (simp_all add: apart_def ok_of_def of_source_def all_names_def agent_names_def minor_names_def tier_names_def
      major_names_def file_names_def server_names_def)
  show "keeps (\<lambda>s. s = ok_of n) (scrape_collector xs now answer)"
    by (rule keeps_collector [OF a(1)]) (simp_all add: ok_of_def series_defs)
  show "keeps (\<lambda>s. s = ok_of n) (scrape_compactor xs now answer)"
    by (rule keeps_compactor [OF a(1)]) (simp_all add: ok_of_def series_defs)
  show "keeps (\<lambda>s. s = ok_of n) (scrape_compactor_major now answer)" by (rule keeps_major [OF a(1)])
  show "keeps (\<lambda>s. s = ok_of n) (scrape_catalog xs c)" by (rule keeps_catalog [OF a(2)])
  show "keeps (\<lambda>s. s = ok_of n) (scrape_watermark now rows)" by (rule keeps_watermark [OF a(3)])
  show "keeps (\<lambda>s. s = ok_of n) (scrape_s3 listed)" by (rule keeps_s3 [OF a(4)])
qed

definition keys_of_source :: "string \<Rightarrow> string list" where
  "keys_of_source name = [name, name @ ''_ok'', name @ ''_error'', name @ ''_cached'']"

definition apart_sources :: "string \<Rightarrow> string \<Rightarrow> bool" where
  "apart_sources a b = (a \<noteq> b \<and> list_all (\<lambda>k. k \<notin> set (keys_of_source b)) (keys_of_source a))"

definition unchanged :: "string \<Rightarrow> pydict \<times> exporter \<Rightarrow> pydict \<times> exporter \<Rightarrow> bool" where
  "unchanged name se se' =
     (list_all (\<lambda>k. dget (fst se') k = dget (fst se) k) (keys_of_source name)
      \<and> ex_gauges (snd se') (ok_of name) = ex_gauges (snd se) (ok_of name)
      \<and> ex_errors (snd se') name = ex_errors (snd se) name)"

definition recorded :: "string \<Rightarrow> nat \<Rightarrow> pydict \<times> exporter \<Rightarrow> bool" where
  \<comment> \<open>the sample says whether the scrape succeeded, the gauge and the counter agree with it, and a
     failure has its error\<close>
  "recorded name before se =
     (\<exists>ok. dget (fst se) (name @ ''_ok'') = Some (PBool ok) \<and> ex_gauges (snd se) (ok_of name) = Some (Fin (if ok then 1 else 0))
        \<and> ex_errors (snd se) name = before + (if ok then 0 else 1)
        \<and> (if ok then dget (fst se) name \<noteq> None
            else dget (fst se) name = Some PNone \<and> dget (fst se) (name @ ''_error'') \<noteq> None))"

lemma unchanged_refl [simp]: "unchanged name se se"
  by (simp add: unchanged_def list_all_iff)

lemma unchanged_trans: "unchanged name a b \<Longrightarrow> unchanged name b c \<Longrightarrow> unchanged name a c"
  by (simp add: unchanged_def list_all_iff)

lemma recorded_unchanged:
  assumes "recorded name n a" and "unchanged name a b"
  shows "recorded name n b"
proof -
  have eqs: "dget (fst b) name = dget (fst a) name" "dget (fst b) (name @ ''_ok'') = dget (fst a) (name @ ''_ok'')"
    "dget (fst b) (name @ ''_error'') = dget (fst a) (name @ ''_error'')"
    "ex_gauges (snd b) (ok_of name) = ex_gauges (snd a) (ok_of name)" "ex_errors (snd b) name = ex_errors (snd a) name"
    using assms(2) by (simp_all add: unchanged_def keys_of_source_def)
  show ?thesis using assms(1) unfolding recorded_def eqs .
qed

lemma dget_sput: "dget (sput k v d) k' = (if k' = k then Some v else dget d k')"
  by (simp add: sput_def update_conv)

lemma ok_not_took [simp]: "ok_of b \<noteq> of_source ''bench_scrape_duration_seconds'' a" "of_source ''bench_scrape_duration_seconds'' a \<noteq> ok_of b" "ok_of a = ok_of b \<longleftrightarrow> a = b"
  by (auto simp: ok_of_def of_source_def)

lemma run_source_other:
  assumes "apart_sources name name'" and "keeps (\<lambda>s. s = ok_of name) m"
  shows "unchanged name se (run_source text_of took name' m se)"
proof -
  obtain sample ex where se: "se = (sample, ex)" by (cases se)
  obtain r g where m: "m (ex_gauges ex) = (r, g)" by (cases "m (ex_gauges ex)")
  have "g (ok_of name) = ex_gauges ex (ok_of name)" using keepsD [OF assms(2) m] by simp
  then show ?thesis
    using assms(1)
    by (cases r) (auto simp: se m run_source_def unchanged_def apart_sources_def keys_of_source_def dget_sput
      Let_def ok_of_def [symmetric])
qed

lemma run_source_records: "recorded name (ex_errors (snd se) name) (run_source text_of took name m se)"
proof -
  obtain sample ex where se: "se = (sample, ex)" by (cases se)
  obtain r g where m: "m (ex_gauges ex) = (r, g)" by (cases "m (ex_gauges ex)")
  show ?thesis
  proof (cases r)
    case (Inl e)
    then show ?thesis unfolding recorded_def
      by (intro exI [of _ False]) (simp add: se m run_source_def dget_sput Let_def ok_of_def [symmetric])
  next
    case (Inr v)
    then show ?thesis unfolding recorded_def
      by (intro exI [of _ True]) (simp add: se m run_source_def dget_sput Let_def ok_of_def [symmetric])
  qed
qed

definition sources :: "string list" where
  "sources = [''collector'', ''compactor'', ''compactor_major'', ''catalog'', ''watermark'', ''s3'']"

lemma sources_apart: "a \<in> set sources \<Longrightarrow> b \<in> set sources \<Longrightarrow> a \<noteq> b \<Longrightarrow> apart_sources a b"
proof -
  have "list_all (\<lambda>a. list_all (\<lambda>b. a = b \<or> apart_sources a b) sources) sources" by code_simp
  then show "a \<in> set sources \<Longrightarrow> b \<in> set sources \<Longrightarrow> a \<noteq> b \<Longrightarrow> apart_sources a b" by (auto simp: list_all_iff)
qed

lemma cached_other: "apart_sources name name' \<Longrightarrow> unchanged name (sample, ex) (cached name' v sample, ex)"
  by (auto simp: unchanged_def apart_sources_def keys_of_source_def cached_def dget_sput)

lemma memo_irrelevant [simp]:
  "unchanged name se (s, ex\<lparr>ex_lag := v, ex_last_lag := t\<rparr>) = unchanged name se (s, ex)"
  "unchanged name se (s, ex\<lparr>ex_s3 := v, ex_last_s3 := t\<rparr>) = unchanged name se (s, ex)"
  "recorded name n (s, ex\<lparr>ex_lag := v, ex_last_lag := t\<rparr>) = recorded name n (s, ex)"
  "recorded name n (s, ex\<lparr>ex_s3 := v, ex_last_s3 := t\<rparr>) = recorded name n (s, ex)"
  by (simp_all add: unchanged_def recorded_def)

lemma poll_watermark_cases:
  obtains s' ex' v where "run_source text_of (wo_took w ''watermark'') ''watermark''
      (scrape_watermark (wo_now w) (wo_watermark w)) se = (s', ex')"
    "poll_watermark text_of xs w se = (s', ex'\<lparr>ex_lag := v, ex_last_lag := wo_now w\<rparr>)"
  | "poll_watermark text_of xs w se = (cached ''watermark'' (ex_lag (snd se)) (fst se), snd se)"
proof -
  obtain sample ex where se: "se = (sample, ex)" by (cases se)
  obtain s' ex' where r: "run_source text_of (wo_took w ''watermark'') ''watermark''
      (scrape_watermark (wo_now w) (wo_watermark w)) se = (s', ex')" by fastforce
  show thesis
  proof (cases "xs_lag_interval xs \<le> wo_now w - ex_last_lag ex")
    case True
    show thesis by (rule that(1) [OF r]) (use True r in \<open>simp add: se poll_watermark_def\<close>)
  next
    case False
    show thesis by (rule that(2)) (use False in \<open>simp add: se poll_watermark_def\<close>)
  qed
qed

lemma poll_s3_cases:
  assumes "poll_s3 text_of xs w se = Some se'"
  obtains listed s' ex' v where "run_source text_of (wo_took w ''s3'') ''s3'' (scrape_s3 listed) se = (s', ex')"
    "list_objects (wo_listing w) None 0 0 = Some listed" "se' = (s', ex'\<lparr>ex_s3 := v, ex_last_s3 := wo_now w\<rparr>)"
  | "se' = (cached ''s3'' (ex_s3 (snd se)) (fst se), snd se)"
  using assms by (cases se) (auto simp: poll_s3_def Let_def split: prod.splits option.splits if_splits)

lemma poll_watermark_other:
  assumes "apart_sources name ''watermark''"
  shows "unchanged name se (poll_watermark text_of xs w se)"
proof (rule poll_watermark_cases [of text_of w se xs])
  fix s' ex' v
  assume "run_source text_of (wo_took w ''watermark'') ''watermark'' (scrape_watermark (wo_now w) (wo_watermark w)) se = (s', ex')"
    and p: "poll_watermark text_of xs w se = (s', ex'\<lparr>ex_lag := v, ex_last_lag := wo_now w\<rparr>)"
  then have "unchanged name se (s', ex')" using run_source_other [OF assms scrapes_keep_ok(5)] by metis
  then show ?thesis by (simp add: p)
next
  assume "poll_watermark text_of xs w se = (cached ''watermark'' (ex_lag (snd se)) (fst se), snd se)"
  then show ?thesis using cached_other [OF assms, of "fst se" "snd se"] by simp
qed

lemma poll_s3_other:
  assumes "apart_sources name ''s3''" and "poll_s3 text_of xs w se = Some se'"
  shows "unchanged name se se'"
  using assms(2)
proof (rule poll_s3_cases)
  fix listed s' ex' v
  assume "run_source text_of (wo_took w ''s3'') ''s3'' (scrape_s3 listed) se = (s', ex')"
    and p: "se' = (s', ex'\<lparr>ex_s3 := v, ex_last_s3 := wo_now w\<rparr>)"
  then have "unchanged name se (s', ex')" using run_source_other [OF assms(1) scrapes_keep_ok(6)] by metis
  then show ?thesis by (simp add: p)
next
  assume "se' = (cached ''s3'' (ex_s3 (snd se)) (fst se), snd se)"
  then show ?thesis using cached_other [OF assms(1), of "fst se" "snd se"] by simp
qed

definition fresh_or_cached :: "string \<Rightarrow> nat \<Rightarrow> pydict \<times> exporter \<Rightarrow> bool" where
  "fresh_or_cached name before se =
     (recorded name before se \<or> dget (fst se) (name @ ''_cached'') = Some (PBool True) \<and> dget (fst se) name \<noteq> None)"

lemma cached_is_cached: "fresh_or_cached name n (cached name v sample, ex)"
  by (simp add: fresh_or_cached_def cached_def dget_sput)

lemma fresh_unchanged:
  assumes "fresh_or_cached name n a" and "unchanged name a b"
  shows "fresh_or_cached name n b"
proof -
  have "dget (fst b) (name @ ''_cached'') = dget (fst a) (name @ ''_cached'')" "dget (fst b) name = dget (fst a) name"
    using assms(2) by (simp_all add: unchanged_def keys_of_source_def)
  then show ?thesis using assms(1) recorded_unchanged [OF _ assms(2), of n] unfolding fresh_or_cached_def by auto
qed

lemma poll_watermark_records: "fresh_or_cached ''watermark'' (ex_errors (snd se) ''watermark'') (poll_watermark text_of xs w se)"
proof (rule poll_watermark_cases [of text_of w se xs])
  fix s' ex' v
  assume "run_source text_of (wo_took w ''watermark'') ''watermark'' (scrape_watermark (wo_now w) (wo_watermark w)) se = (s', ex')"
    and p: "poll_watermark text_of xs w se = (s', ex'\<lparr>ex_lag := v, ex_last_lag := wo_now w\<rparr>)"
  then have "recorded ''watermark'' (ex_errors (snd se) ''watermark'') (s', ex')" using run_source_records by metis
  then show ?thesis by (simp add: p fresh_or_cached_def)
qed (simp add: cached_is_cached)

lemma poll_s3_records:
  assumes "poll_s3 text_of xs w se = Some se'"
  shows "fresh_or_cached ''s3'' (ex_errors (snd se) ''s3'') se'"
  using assms
proof (rule poll_s3_cases)
  fix listed s' ex' v
  assume "run_source text_of (wo_took w ''s3'') ''s3'' (scrape_s3 listed) se = (s', ex')"
    and p: "se' = (s', ex'\<lparr>ex_s3 := v, ex_last_s3 := wo_now w\<rparr>)"
  then have "recorded ''s3'' (ex_errors (snd se) ''s3'') (s', ex')" using run_source_records by metis
  then show ?thesis by (simp add: p fresh_or_cached_def)
qed (simp add: cached_is_cached)

lemma poll_stages:
  assumes "poll_once text_of xs w ex = Some se"
  obtains p0 p1 p2 p3 p4 p5 where "p0 = ([(KStr ''ts'', num (wo_now w)), (KStr ''iso'', PStr (wo_iso w))], ex)"
    "p1 = run_source text_of (wo_took w ''collector'') ''collector'' (scrape_collector xs (wo_now w) (wo_collector w)) p0"
    "p2 = run_source text_of (wo_took w ''compactor'') ''compactor'' (scrape_compactor xs (wo_now w) (wo_compactor w)) p1"
    "p3 = (if 0 < xs_major_port xs then run_source text_of (wo_took w ''compactor_major'') ''compactor_major''
             (scrape_compactor_major (wo_now w) (wo_major w)) p2 else p2)"
    "p4 = run_source text_of (wo_took w ''catalog'') ''catalog'' (scrape_catalog xs (wo_catalog w)) p3"
    "p5 = poll_watermark text_of xs w p4" "poll_s3 text_of xs w p5 = Some se"
  using assms unfolding poll_once_def poll_services_def Let_def by (rule that [OF refl refl refl refl refl refl])

lemma stages_frame:
  assumes "p1 = run_source text_of t1 ''collector'' (scrape_collector xs n1 c1) p0"
    and "p2 = run_source text_of t2 ''compactor'' (scrape_compactor xs n2 c2) p1"
    and "p3 = (if b then run_source text_of t3 ''compactor_major'' (scrape_compactor_major n3 c3) p2 else p2)"
    and "p4 = run_source text_of t4 ''catalog'' (scrape_catalog xs c4) p3"
    and "p5 = poll_watermark text_of xs w p4" and "poll_s3 text_of xs w p5 = Some se"
    and "\<forall>b \<in> set sources. a \<noteq> b \<longrightarrow> apart_sources a b"
  shows "unchanged a p0 p1 \<or> a = ''collector''" "unchanged a p1 p2 \<or> a = ''compactor''" "unchanged a p2 p3 \<or> a = ''compactor_major''"
    "unchanged a p3 p4 \<or> a = ''catalog''" "unchanged a p4 p5 \<or> a = ''watermark''" "unchanged a p5 se \<or> a = ''s3''"
proof -
  have members: "''collector'' \<in> set sources" "''compactor'' \<in> set sources" "''compactor_major'' \<in> set sources"
    "''catalog'' \<in> set sources" "''watermark'' \<in> set sources" "''s3'' \<in> set sources"
    by (simp_all add: sources_def)
  note ap = assms(7) [rule_format]
  show "unchanged a p0 p1 \<or> a = ''collector''"
    unfolding assms(1) using run_source_other [OF ap scrapes_keep_ok(1)] members by blast
  show "unchanged a p1 p2 \<or> a = ''compactor''"
    unfolding assms(2) using run_source_other [OF ap scrapes_keep_ok(2)] members by blast
  show "unchanged a p2 p3 \<or> a = ''compactor_major''"
  proof (cases b)
    case True
    show ?thesis unfolding assms(3) if_P [OF True] using run_source_other [OF ap scrapes_keep_ok(3)] members by blast
  qed (simp add: assms(3))
  show "unchanged a p3 p4 \<or> a = ''catalog''"
    unfolding assms(4) using run_source_other [OF ap scrapes_keep_ok(4)] members by blast
  show "unchanged a p4 p5 \<or> a = ''watermark''"
    unfolding assms(5) using poll_watermark_other [OF ap] members by blast
  show "unchanged a p5 se \<or> a = ''s3''"
    using poll_s3_other [OF ap assms(6)] members by blast
qed

lemma stages_unchanged:
  assumes "p1 = run_source text_of t1 ''collector'' (scrape_collector xs n1 c1) p0"
    and "p2 = run_source text_of t2 ''compactor'' (scrape_compactor xs n2 c2) p1"
    and "p3 = (if b then run_source text_of t3 ''compactor_major'' (scrape_compactor_major n3 c3) p2 else p2)"
    and "p4 = run_source text_of t4 ''catalog'' (scrape_catalog xs c4) p3"
    and "p5 = poll_watermark text_of xs w p4" and "poll_s3 text_of xs w p5 = Some se" and "a \<in> set sources"
  shows "unchanged a p0 p1 \<or> a = ''collector''" "unchanged a p1 p2 \<or> a = ''compactor''" "unchanged a p2 p3 \<or> a = ''compactor_major''"
    "unchanged a p3 p4 \<or> a = ''catalog''" "unchanged a p4 p5 \<or> a = ''watermark''" "unchanged a p5 se \<or> a = ''s3''"
  by (rule stages_frame [OF assms(1-6)]; use sources_apart assms(7) in blast)+

definition poll_start :: "world \<Rightarrow> exporter \<Rightarrow> pydict \<times> exporter" where
  "poll_start w ex = ([(KStr ''ts'', num (wo_now w)), (KStr ''iso'', PStr (wo_iso w))], ex)"

text \<open>A poll runs each source once, and nothing before or after touches what the sample says of it.\<close>

lemma poll_runs:
  assumes "poll_once text_of xs w ex = Some se"
  shows "\<exists>p. unchanged ''collector'' (poll_start w ex) p \<and> unchanged ''collector''
      (run_source text_of (wo_took w ''collector'') ''collector'' (scrape_collector xs (wo_now w) (wo_collector w)) p) se"
    and "\<exists>p. unchanged ''compactor'' (poll_start w ex) p \<and> unchanged ''compactor''
      (run_source text_of (wo_took w ''compactor'') ''compactor'' (scrape_compactor xs (wo_now w) (wo_compactor w)) p) se"
    and "0 < xs_major_port xs \<Longrightarrow> \<exists>p. unchanged ''compactor_major'' (poll_start w ex) p \<and> unchanged ''compactor_major''
      (run_source text_of (wo_took w ''compactor_major'') ''compactor_major'' (scrape_compactor_major (wo_now w) (wo_major w)) p) se"
    and "\<exists>p. unchanged ''catalog'' (poll_start w ex) p \<and> unchanged ''catalog''
      (run_source text_of (wo_took w ''catalog'') ''catalog'' (scrape_catalog xs (wo_catalog w)) p) se"
    and "\<exists>p. unchanged ''watermark'' (poll_start w ex) p \<and> unchanged ''watermark'' (poll_watermark text_of xs w p) se"
    and "\<exists>p. unchanged ''s3'' (poll_start w ex) p \<and> poll_s3 text_of xs w p = Some se"
    and "\<forall>b \<in> set sources. a \<noteq> b \<and> apart_sources a b \<Longrightarrow> unchanged a (poll_start w ex) se"
proof -
  obtain p0 p1 p2 p3 p4 p5 where p0: "p0 = poll_start w ex"
    and p1: "p1 = run_source text_of (wo_took w ''collector'') ''collector'' (scrape_collector xs (wo_now w) (wo_collector w)) p0"
    and p2: "p2 = run_source text_of (wo_took w ''compactor'') ''compactor'' (scrape_compactor xs (wo_now w) (wo_compactor w)) p1"
    and p3: "p3 = (if 0 < xs_major_port xs then run_source text_of (wo_took w ''compactor_major'') ''compactor_major''
             (scrape_compactor_major (wo_now w) (wo_major w)) p2 else p2)"
    and p4: "p4 = run_source text_of (wo_took w ''catalog'') ''catalog'' (scrape_catalog xs (wo_catalog w)) p3"
    and p5: "p5 = poll_watermark text_of xs w p4" and p6: "poll_s3 text_of xs w p5 = Some se"
    by (rule poll_stages [OF assms]) (simp add: poll_start_def)
  note u = stages_unchanged [OF p1 p2 p3 p4 p5 p6, unfolded sources_def, simplified] and t = unchanged_trans
  have c: "unchanged ''collector'' p1 p2" "unchanged ''collector'' p2 p3" "unchanged ''collector'' p3 p4"
    "unchanged ''collector'' p4 p5" "unchanged ''collector'' p5 se"
    using u [of "''collector''"] by simp_all
  show "\<exists>p. unchanged ''collector'' (poll_start w ex) p \<and> unchanged ''collector''
      (run_source text_of (wo_took w ''collector'') ''collector'' (scrape_collector xs (wo_now w) (wo_collector w)) p) se"
    by (rule exI [of _ p0]) (simp add: p0 [symmetric] p1 [symmetric] t [OF c(1) t [OF c(2) t [OF c(3) t [OF c(4,5)]]]])
  have m: "unchanged ''compactor'' p0 p1" "unchanged ''compactor'' p2 p3" "unchanged ''compactor'' p3 p4"
    "unchanged ''compactor'' p4 p5" "unchanged ''compactor'' p5 se"
    using u [of "''compactor''"] by simp_all
  show "\<exists>p. unchanged ''compactor'' (poll_start w ex) p \<and> unchanged ''compactor''
      (run_source text_of (wo_took w ''compactor'') ''compactor'' (scrape_compactor xs (wo_now w) (wo_compactor w)) p) se"
    by (rule exI [of _ p1]) (simp add: p0 [symmetric] p2 [symmetric] m(1) t [OF m(2) t [OF m(3) t [OF m(4,5)]]])
  have j: "unchanged ''compactor_major'' p0 p1" "unchanged ''compactor_major'' p1 p2" "unchanged ''compactor_major'' p3 p4"
    "unchanged ''compactor_major'' p4 p5" "unchanged ''compactor_major'' p5 se"
    using u [of "''compactor_major''"] by simp_all
  show "\<exists>p. unchanged ''compactor_major'' (poll_start w ex) p \<and> unchanged ''compactor_major''
      (run_source text_of (wo_took w ''compactor_major'') ''compactor_major'' (scrape_compactor_major (wo_now w) (wo_major w)) p) se" if "0 < xs_major_port xs"
    by (rule exI [of _ p2])
      (use that in \<open>simp add: p0 [symmetric] p3 [unfolded if_P [OF that], symmetric] t [OF j(1,2)] t [OF j(3) t [OF j(4,5)]]\<close>)
  have k: "unchanged ''catalog'' p0 p1" "unchanged ''catalog'' p1 p2" "unchanged ''catalog'' p2 p3"
    "unchanged ''catalog'' p4 p5" "unchanged ''catalog'' p5 se"
    using u [of "''catalog''"] by simp_all
  show "\<exists>p. unchanged ''catalog'' (poll_start w ex) p \<and> unchanged ''catalog''
      (run_source text_of (wo_took w ''catalog'') ''catalog'' (scrape_catalog xs (wo_catalog w)) p) se"
    by (rule exI [of _ p3]) (simp add: p0 [symmetric] p4 [symmetric] t [OF k(1) t [OF k(2,3)]] t [OF k(4,5)])
  have n: "unchanged ''watermark'' p0 p1" "unchanged ''watermark'' p1 p2" "unchanged ''watermark'' p2 p3"
    "unchanged ''watermark'' p3 p4" "unchanged ''watermark'' p5 se"
    using u [of "''watermark''"] by simp_all
  show "\<exists>p. unchanged ''watermark'' (poll_start w ex) p \<and> unchanged ''watermark'' (poll_watermark text_of xs w p) se"
    by (rule exI [of _ p4]) (simp add: p0 [symmetric] p5 [symmetric] t [OF n(1) t [OF n(2) t [OF n(3,4)]]] n(5))
  have b: "unchanged ''s3'' p0 p1" "unchanged ''s3'' p1 p2" "unchanged ''s3'' p2 p3" "unchanged ''s3'' p3 p4" "unchanged ''s3'' p4 p5"
    using u [of "''s3''"] by simp_all
  show "\<exists>p. unchanged ''s3'' (poll_start w ex) p \<and> poll_s3 text_of xs w p = Some se"
    by (rule exI [of _ p5]) (simp add: p0 [symmetric] p6 t [OF b(1) t [OF b(2) t [OF b(3) t [OF b(4,5)]]]])
  assume a: "\<forall>b \<in> set sources. a \<noteq> b \<and> apart_sources a b"
  then have "\<forall>b \<in> set sources. a \<noteq> b \<longrightarrow> apart_sources a b" by blast
  note f = stages_frame [OF p1 p2 p3 p4 p5 p6 this]
  have g: "unchanged a p0 p1" "unchanged a p1 p2" "unchanged a p2 p3" "unchanged a p3 p4" "unchanged a p4 p5" "unchanged a p5 se"
    using f a by (auto simp: sources_def)
  show "unchanged a (poll_start w ex) se"
    unfolding p0 [symmetric] by (rule t [OF g(1) t [OF g(2) t [OF g(3) t [OF g(4) t [OF g(5,6)]]]]])
qed

lemma recorded_at:
  assumes "\<exists>p. unchanged name s p \<and> unchanged name (run_source text_of took name m p) se"
  shows "recorded name (ex_errors (snd s) name) se"
proof -
  obtain p where p: "unchanged name s p" "unchanged name (run_source text_of took name m p) se" using assms by blast
  have "ex_errors (snd p) name = ex_errors (snd s) name" using p(1) by (simp add: unchanged_def)
  with recorded_unchanged [OF run_source_records p(2)] show ?thesis by simp
qed

text \<open>C15: no source goes silently missing. In every poll that ends, each source polled every time has
  its entry: the sample says whether the scrape succeeded, the gauge for it agrees, a failure counts as
  one error and leaves its message and a null; and the two expensive sources have either that or the
  value of an earlier poll, marked as cached.\<close>

theorem every_source_recorded:
  assumes "poll_once text_of xs w ex = Some se"
  shows "recorded ''collector'' (ex_errors ex ''collector'') se \<and> recorded ''compactor'' (ex_errors ex ''compactor'') se
    \<and> (0 < xs_major_port xs \<longrightarrow> recorded ''compactor_major'' (ex_errors ex ''compactor_major'') se)
    \<and> recorded ''catalog'' (ex_errors ex ''catalog'') se
    \<and> fresh_or_cached ''watermark'' (ex_errors ex ''watermark'') se \<and> fresh_or_cached ''s3'' (ex_errors ex ''s3'') se"
proof -
  note r = poll_runs [OF assms]
  have e: "ex_errors (snd p) n = ex_errors ex n" if "unchanged n (poll_start w ex) p" for n p
    using that by (simp add: unchanged_def poll_start_def)
  have "fresh_or_cached ''watermark'' (ex_errors ex ''watermark'') se"
    using r(5) e fresh_unchanged [OF poll_watermark_records] by metis
  moreover have "fresh_or_cached ''s3'' (ex_errors ex ''s3'') se"
    using r(6) e poll_s3_records by metis
  ultimately show ?thesis
    using recorded_at [OF r(1)] recorded_at [OF r(2)] recorded_at [OF r(3)] recorded_at [OF r(4)]
    by (simp add: poll_start_def)
qed

definition no_catalog :: catalog where
  "no_catalog =
     \<lparr>ct_connect = Some (External ''refused''), ct_broken = (\<lambda>_. None), ct_files = (\<lambda>_. []), ct_snapshots = [],
      ct_pg = \<lparr>pg_conns = 0, pg_active = 0, pg_longest = 0, pg_size = 0, pg_commit = 0, pg_rollback = 0, pg_deadlocks = 0\<rparr>\<rparr>"

definition all_down :: world where
  \<comment> \<open>only the bucket answers\<close>
  "all_down =
     \<lparr>wo_now = 1000, wo_iso = ''t'', wo_collector = Inl (SshFailed ''timeout''), wo_compactor = Inl (SshFailed ''timeout''),
      wo_major = Inl (HealthEmpty 8090), wo_catalog = no_catalog, wo_watermark = Inl (External ''refused''),
      wo_listing = (\<lambda>_. Inr \<lparr>pg_sizes = [10, 20], pg_truncated = False, pg_next = None\<rparr>), wo_took = (\<lambda>_. 1)\<rparr>"

definition demo_xs :: settings_x where
  "demo_xs =
     \<lparr>xs_ssh = True, xs_max_age = 90, xs_major_port = 8090, xs_lag_interval = 60, xs_s3_interval = 60,
      xs_small = 8388608, xs_minor_max = 12582912, xs_major_max = 67108864\<rparr>"

lemma poll_ends: "list_objects (wo_listing w) None 0 0 = Some r \<Longrightarrow> \<exists>se. poll_once text_of xs w ex = Some se"
  by (auto simp: poll_once_def poll_s3_def Let_def split: prod.split)

lemma all_down_polled: "\<exists>se. poll_once (\<lambda>_. ''down'') demo_xs all_down ex = Some se"
proof -
  have "list_objects (wo_listing all_down) None 0 0 = Some (Inr (2, 30))"
    by (subst list_objects.simps) (simp add: all_down_def)
  then show ?thesis by (rule poll_ends)
qed

lemma every_source_recorded_witness:
  "\<exists>se. poll_once (\<lambda>_. ''down'') demo_xs all_down new_exporter = Some se \<and> recorded ''catalog'' 0 se
     \<and> recorded ''compactor_major'' 0 se"
proof -
  obtain se where se: "poll_once (\<lambda>_. ''down'') demo_xs all_down new_exporter = Some se"
    using all_down_polled [of new_exporter] by blast
  from every_source_recorded [OF se] se show ?thesis by (simp add: new_exporter_def demo_xs_def)
qed

section \<open>Up and down\<close>

text \<open>The collector's gauge is set by the collector's scrape alone.\<close>

lemma run_source_up:
  assumes "keeps (\<lambda>s. s = collector_up) m"
  shows "ex_gauges (snd (run_source text_of took name m se)) collector_up = ex_gauges (snd se) collector_up"
proof -
  obtain sample ex where se: "se = (sample, ex)" by (cases se)
  obtain r g where m: "m (ex_gauges ex) = (r, g)" by (cases "m (ex_gauges ex)")
  have "g collector_up = ex_gauges ex collector_up" using keepsD [OF assms m] by simp
  then show ?thesis
    by (cases r) (simp_all add: se m run_source_def Let_def series_defs)
qed

lemma run_source_pair_up:
  "keeps (\<lambda>s. s = collector_up) m \<Longrightarrow> run_source text_of took name m se = (s', ex')
   \<Longrightarrow> ex_gauges ex' collector_up = ex_gauges (snd se) collector_up"
  using run_source_up [of m text_of took name se] by simp

lemma others_keep_up:
  "keeps (\<lambda>s. s = collector_up) (scrape_compactor xs now answer)"
  "keeps (\<lambda>s. s = collector_up) (scrape_compactor_major now answer)"
  "keeps (\<lambda>s. s = collector_up) (scrape_catalog xs c)"
  "keeps (\<lambda>s. s = collector_up) (scrape_watermark now rows)"
  "keeps (\<lambda>s. s = collector_up) (scrape_s3 listed)"
  "keeps (\<lambda>s. s = collector_up) (scrape_collector xs now (Inl e))"
proof -
  have a: "apart (\<lambda>s. s = collector_up) all_names" "apart (\<lambda>s. s = collector_up) (file_names @ server_names)"
    "apart (\<lambda>s. s = collector_up) [''bench_watermark_lag_seconds'', ''bench_watermark_committed_rows'']"
    "apart (\<lambda>s. s = collector_up) [''bench_s3_objects'', ''bench_s3_bytes'']"
    by (simp_all add: apart_def series_defs all_names_def agent_names_def minor_names_def tier_names_def
      major_names_def file_names_def server_names_def)
  show "keeps (\<lambda>s. s = collector_up) (scrape_compactor xs now answer)"
    by (rule keeps_compactor [OF a(1)]) (simp_all add: series_defs)
  show "keeps (\<lambda>s. s = collector_up) (scrape_compactor_major now answer)" by (rule keeps_major [OF a(1)])
  show "keeps (\<lambda>s. s = collector_up) (scrape_catalog xs c)" by (rule keeps_catalog [OF a(2)])
  show "keeps (\<lambda>s. s = collector_up) (scrape_watermark now rows)" by (rule keeps_watermark [OF a(3)])
  show "keeps (\<lambda>s. s = collector_up) (scrape_s3 listed)" by (rule keeps_s3 [OF a(4)])
  show "keeps (\<lambda>s. s = collector_up) (scrape_collector xs now (Inl e))"
    by (simp add: keeps_def scrape_collector_def scrape_agent_def s_bind_def s_from_def)
qed

text \<open>An unreachable collector reads as up for ever. When the collector cannot be reached the poll
  says so in its sample and in the scrape's own gauge, but the gauge that says the collector is up keeps the
  value of the last scrape that reached it.\<close>

theorem unreachable_keeps_up:
  assumes "wo_collector w = Inl e" and "poll_once text_of xs w ex = Some se"
  shows "ex_gauges (snd se) collector_up = ex_gauges ex collector_up \<and> ex_gauges (snd se) (ok_of ''collector'') = Some (Fin 0)
    \<and> dget (fst se) ''collector_ok'' = Some (PBool False)"
proof (rule poll_stages [OF assms(2)])
  fix p0 p1 p2 p3 p4 p5
  assume p0: "p0 = ([(KStr ''ts'', num (wo_now w)), (KStr ''iso'', PStr (wo_iso w))], ex)"
    and p1: "p1 = run_source text_of (wo_took w ''collector'') ''collector'' (scrape_collector xs (wo_now w) (wo_collector w)) p0"
    and p2: "p2 = run_source text_of (wo_took w ''compactor'') ''compactor'' (scrape_compactor xs (wo_now w) (wo_compactor w)) p1"
    and p3: "p3 = (if 0 < xs_major_port xs then run_source text_of (wo_took w ''compactor_major'') ''compactor_major''
             (scrape_compactor_major (wo_now w) (wo_major w)) p2 else p2)"
    and p4: "p4 = run_source text_of (wo_took w ''catalog'') ''catalog'' (scrape_catalog xs (wo_catalog w)) p3"
    and p5: "p5 = poll_watermark text_of xs w p4" and p6: "poll_s3 text_of xs w p5 = Some se"
  have "ex_gauges (snd p4) collector_up = ex_gauges (snd p0) collector_up"
    unfolding p4 p3 p2 p1 assms(1) by (simp add: run_source_up others_keep_up)
  moreover have "ex_gauges (snd p5) collector_up = ex_gauges (snd p4) collector_up"
    unfolding p5 by (rule poll_watermark_cases [of text_of w p4 xs]) (auto dest: run_source_pair_up [OF others_keep_up(4)])
  moreover have "ex_gauges (snd se) collector_up = ex_gauges (snd p5) collector_up"
    by (rule poll_s3_cases [OF p6]) (auto dest: run_source_pair_up [OF others_keep_up(5)])
  moreover have "ex_gauges (snd p1) (ok_of ''collector'') = Some (Fin 0)" "dget (fst p1) ''collector_ok'' = Some (PBool False)"
    unfolding p1 assms(1)
    by (simp_all add: run_source_def p0 scrape_collector_def scrape_agent_def s_bind_def s_from_def dget_sput Let_def ok_of_def [symmetric])
  moreover have "unchanged ''collector'' p1 p2" "unchanged ''collector'' p2 p3" "unchanged ''collector'' p3 p4"
    "unchanged ''collector'' p4 p5" "unchanged ''collector'' p5 se"
    using stages_unchanged [OF p1 p2 p3 p4 p5 p6, of "''collector''"] by (simp_all add: sources_def)
  ultimately show ?thesis by (simp add: unchanged_def keys_of_source_def p0)
qed

lemma unreachable_keeps_up_witness:
  "\<exists>se. poll_once (\<lambda>_. ''down'') demo_xs all_down (new_exporter\<lparr>ex_gauges := [collector_up \<mapsto> Fin 1]\<rparr>) = Some se
     \<and> ex_gauges (snd se) collector_up = Some (Fin 1)"
proof -
  obtain se where se: "poll_once (\<lambda>_. ''down'') demo_xs all_down (new_exporter\<lparr>ex_gauges := [collector_up \<mapsto> Fin 1]\<rparr>) = Some se"
    using all_down_polled by blast
  have "wo_collector all_down = Inl (SshFailed ''timeout'')" by (simp add: all_down_def)
  from unreachable_keeps_up [OF this se] se show ?thesis by simp
qed

text \<open>A frozen agent reads as up. A snapshot that is too old makes the scrape fail, but only after
  the gauge has been set from it.\<close>

theorem frozen_agent_reads_up:
  assumes "dget state ''service'' = Some (PDict svc)" and "dget svc ''health'' = Some (PDict health)"
    and "dget health ''ok'' = Some (PBool True)" and "dget state ''ts'' = Some (num t)" and "t \<noteq> 0"
    and "xs_max_age xs < now - t" and "0 \<le> xs_max_age xs"
  shows "fst (scrape_agent xs now role up uptime (Inr (PDict state)) g) = Inl (Stale role (Fin (now - t)))
    \<and> (up \<noteq> of_role ''bench_agent_snapshot_age_seconds'' role
        \<longrightarrow> snd (scrape_agent xs now role up uptime (Inr (PDict state)) g) up = Some (Fin 1))"
proof -
  have ne: "svc \<noteq> []" "health \<noteq> []" using assms(2,3) by auto
  have "max 0 (now - t) = now - t" using assms(6,7) by simp
  then show ?thesis
    using assms ne by (simp add: scrape_agent_def s_bind_def s_from_def publish_agent_def agent_parts_def s_lift_def pget_def or_empty_def py_or_def Let_def
      s_then_def g_set_def one_or_zero_def s_fail_def float_limit_def)
qed

definition frozen_state :: pydict where
  "frozen_state =
     [(KStr ''service'', PDict [(KStr ''health'', PDict [(KStr ''ok'', PBool True)])]), (KStr ''ts'', num 100)]"

lemma frozen_agent_reads_up_witness:
  "snd (scrape_agent demo_xs 1000 ''collector'' collector_up collector_uptime (Inr (PDict frozen_state)) Map.empty) collector_up
     = Some (Fin 1)"
proof -
  have "collector_up \<noteq> of_role ''bench_agent_snapshot_age_seconds'' ''collector''" by (simp add: series_defs)
  with frozen_agent_reads_up [of frozen_state "[(KStr ''health'', PDict [(KStr ''ok'', PBool True)])]" "[(KStr ''ok'', PBool True)]"
      100 demo_xs 1000 "''collector''" collector_up collector_uptime Map.empty]
  show ?thesis by (simp add: frozen_state_def demo_xs_def)
qed

section \<open>Who owns the major tier\<close>

text \<open>C29: the gauges of the major tier do not flap. When the major tier is a service of its own and the
  minor service reports tiers for every database, publishing the minor service's document changes
  none of the gauges of major compactions and medium files, whatever the document says of them.\<close>

theorem major_gauges_do_not_flap:
  assumes "databases_of data = Inr dbs" and "\<forall>(k, s) \<in> set dbs. has_tiers s = Inr True" and "name \<in> set major_names"
  shows "snd (set_minor_service now True data g) (of_db name db) = g (of_db name db)"
proof -
  have "keeps (\<lambda>s. s = of_db name db) (set_minor_service now True data)"
    by (rule keeps_minor_service)
      (use assms in \<open>auto simp: apart_def of_db_def minor_names_def tier_names_def major_names_def\<close>)
  then show ?thesis by (simp add: keeps_def)
qed

definition split_body :: pyval where
  "split_body = PDict [(KStr ''databases'', PDict [(KStr ''bench'', PDict [(KStr ''tiers'', PDict
     [(KStr ''minor'', PDict [(KStr ''totalCompactions'', PInt 7)]), (KStr ''major'', PDict [(KStr ''totalCompactions'', PInt 0)])])])])]"

lemma major_gauges_do_not_flap_witness:
  "snd (set_minor_service 1000 True split_body [of_db ''bench_compaction_major_total'' ''bench'' \<mapsto> Fin 3])
     (of_db ''bench_compaction_major_total'' ''bench'') = Some (Fin 3)"
  by (subst major_gauges_do_not_flap [of split_body "[(KStr ''bench'', PDict [(KStr ''tiers'', PDict
     [(KStr ''minor'', PDict [(KStr ''totalCompactions'', PInt 7)]), (KStr ''major'', PDict [(KStr ''totalCompactions'', PInt 0)])])])]"])
    (simp_all add: split_body_def databases_of_def pget_def or_empty_def py_or_def has_tiers_def is_dict_def major_names_def dget_or_def)

section \<open>The bands\<close>

lemma s_then_Inr: "s_then m n g = (Inr v, g') \<longleftrightarrow> (\<exists>u g1. m g = (Inr u, g1) \<and> n g1 = (Inr v, g'))"
  by (auto simp: s_then_def s_bind_def split: prod.split sum.split)

lemma s_bind_Inr: "s_bind m f g = (Inr v, g') \<longleftrightarrow> (\<exists>u g1. m g = (Inr u, g1) \<and> f u g1 = (Inr v, g'))"
  by (auto simp: s_bind_def split: prod.split sum.split)

lemma g_set_Inr: "g_set s (PInt i) g = (Inr u, g') \<longleftrightarrow> \<bar>i\<bar> < float_limit \<and> g' = g(s \<mapsto> Fin (of_int i))"
  by (auto simp: g_set_def split: if_splits)

lemma g_set_num_Inr: "g_set s (num x) g = (Inr u, g') \<longleftrightarrow> g' = g(s \<mapsto> Fin x)"
  by (auto simp: g_set_def)

lemma map_sum_Inr: "map_sum f id r = Inr x \<longleftrightarrow> r = Inr x"
  by (cases r) simp_all

lemma s_ret_Inr: "s_ret x g = (Inr u, g') \<longleftrightarrow> u = x \<and> g' = g"
  by (auto simp: s_ret_def)

lemma query_Inr: "query c n g = (Inr u, g') \<longleftrightarrow> ct_broken c n = None \<and> g' = g"
  by (auto simp: query_def s_ret_def s_fail_def split: option.splits)

lemma bands_add_up:
  "int (length (live fs)) = (\<Sum>b \<leftarrow> band_names. int (length (in_band xs b fs)))"
  "sum_list (map df_size (live fs)) = (\<Sum>b \<leftarrow> band_names. sum_list (map df_size (in_band xs b fs)))"
  by (induction fs) (auto simp: live_def in_band_def band_names_def band_of_def)

lemma small_in_band:
  "xs_small xs \<le> xs_minor_max xs \<Longrightarrow> length (filter (\<lambda>f. df_size f < xs_small xs) (live fs)) \<le> length (in_band xs ''small'' fs)"
  by (induction fs) (auto simp: live_def in_band_def band_of_def)

definition band_files :: "string \<Rightarrow> series" where
  "band_files b = (''bench_catalog_files_by_band'', [(''band'', b)])"

definition band_bytes :: "string \<Rightarrow> series" where
  "band_bytes b = (''bench_catalog_bytes_by_band'', [(''band'', b)])"

text \<open>C28: the bands are a partition of the files that one statement saw. After every scrape of the catalog that
  succeeds the gauges by size band hold, for each band, the number and the bytes of the live files of that size
  in the table as the third statement saw it, and over the three bands they add up to all of its live files. The
  backlog's own gauges are those of the first statement and the small files those of the second: the two agree with
  the bands when nothing was committed in between, and only then are they bound to.\<close>

theorem bands_partition:
  assumes "scrape_catalog xs c g = (Inr v, g')"
  shows "let fs = live (ct_files c 2); size_in = (\<lambda>b. filter (\<lambda>f. band_of xs (df_size f) = b) fs);
      ns = map (\<lambda>b. int (length (size_in b))) band_names; bs = map (\<lambda>b. sum_list (map df_size (size_in b))) band_names
    in map (\<lambda>b. g' (band_files b)) band_names = map (Some \<circ> Fin \<circ> of_int) ns
     \<and> map (\<lambda>b. g' (band_bytes b)) band_names = map (Some \<circ> Fin \<circ> of_int) bs
     \<and> sum_list ns = int (length fs) \<and> sum_list bs = sum_list (map df_size fs)
     \<and> g' (plain ''bench_backlog_files'') = Some (Fin (of_int (int (length (live (ct_files c 0))))))
     \<and> g' (plain ''bench_backlog_bytes'') = Some (Fin (of_int (sum_list (map df_size (live (ct_files c 0))))))
     \<and> (xs_small xs \<le> xs_minor_max xs \<and> ct_files c 1 = ct_files c 2
         \<longrightarrow> (\<exists>k \<le> ns ! 0. g' (plain ''bench_backlog_small_files'') = Some (Fin (of_int k))))"
proof -
  let ?n = "\<lambda>b. int (length (in_band xs b (ct_files c 2)))" and ?b = "\<lambda>b. sum_list (map df_size (in_band xs b (ct_files c 2)))"
  let ?sm = "filter (\<lambda>f. df_size f < xs_small xs) (live (ct_files c 1))"
  from assms obtain g1 where g1: "publish_files xs c g = (Inr (), g1)" and "publish_server c g1 = (Inr (), g')"
    by (auto simp: scrape_catalog_def Let_def s_then_Inr s_ret_Inr s_fail_def split: option.splits)
  have "g' s = g1 s" if "fst s \<in> set file_names" for s
    by (rule keepsD [OF keeps_server [of "\<lambda>x. x = s"] \<open>publish_server c g1 = (Inr (), g')\<close>])
      (use that in \<open>auto simp: apart_def server_names_def file_names_def\<close>)
  then have same: "g' (band_files b) = g1 (band_files b)" "g' (band_bytes b) = g1 (band_bytes b)"
    "g' (plain ''bench_backlog_files'') = g1 (plain ''bench_backlog_files'')"
    "g' (plain ''bench_backlog_bytes'') = g1 (plain ''bench_backlog_bytes'')"
    "g' (plain ''bench_backlog_small_files'') = g1 (plain ''bench_backlog_small_files'')" for b
    by (simp_all add: band_files_def band_bytes_def plain_def file_names_def)
  from g1 obtain ga gb where g1: "set_triple ''bench_backlog_files'' ''bench_backlog_bytes'' ''bench_backlog_rows''
        (totals_of (live (ct_files c 0))) g = (Inr (), ga)"
    "set_triple ''bench_backlog_small_files'' ''bench_backlog_small_bytes'' ''bench_backlog_small_rows'' (totals_of ?sm) ga = (Inr (), gb)"
    "s_all (map (set_band xs (ct_files c 2)) band_names) gb = (Inr (), g1)"
    by (auto simp: publish_files_def s_then_Inr query_Inr s_ret_Inr)
  have g: "g' (band_files b) = Some (Fin (of_int (?n b)))" "g' (band_bytes b) = Some (Fin (of_int (?b b)))"
    if "b \<in> set band_names" for b
    using that g1(3) unfolding same
    by (auto simp: s_then_Inr set_band_def g_set_Inr s_ret_Inr band_names_def band_files_def band_bytes_def)
  have keep: "g1 (plain a) = gb (plain a)" for a
    using g1(3) by (auto simp: s_then_Inr set_band_def g_set_Inr s_ret_Inr band_names_def plain_def)
  have t: "g' (plain ''bench_backlog_files'') = Some (Fin (of_int (int (length (live (ct_files c 0))))))"
    "g' (plain ''bench_backlog_bytes'') = Some (Fin (of_int (sum_list (map df_size (live (ct_files c 0))))))"
    "g' (plain ''bench_backlog_small_files'') = Some (Fin (of_int (int (length ?sm))))"
    using g1(1,2) unfolding same keep
    by (auto simp: s_then_Inr set_triple_def g_set_Inr s_ret_Inr plain_def totals_of_def)
  have small: "\<exists>k \<le> map ?n band_names ! 0. g' (plain ''bench_backlog_small_files'') = Some (Fin (of_int k))"
    if "xs_small xs \<le> xs_minor_max xs" and "ct_files c 1 = ct_files c 2"
    using small_in_band [OF that(1), of "ct_files c 2"] t(3) that(2)
    by (intro exI [of _ "int (length ?sm)"]) (simp add: band_names_def)
  have "map (\<lambda>b. g' (band_files b)) band_names = map (Some \<circ> Fin \<circ> of_int) (map ?n band_names)"
    "map (\<lambda>b. g' (band_bytes b)) band_names = map (Some \<circ> Fin \<circ> of_int) (map ?b band_names)"
    using g by simp_all
  then show ?thesis
    unfolding Let_def in_band_def [symmetric] using t(1,2) small bands_add_up [of "ct_files c 2" xs] by simp
qed

definition demo_catalog :: catalog where
  \<comment> \<open>a file is committed before the third statement\<close>
  "demo_catalog = no_catalog\<lparr>ct_connect := None,
     ct_files := (\<lambda>n. [\<lparr>df_ended = False, df_size = 100, df_rows = 1\<rparr>, \<lparr>df_ended = True, df_size = 100, df_rows = 1\<rparr>,
                  \<lparr>df_ended = False, df_size = 70000000, df_rows = 9\<rparr>]
                  @ (if n = 2 then [\<lparr>df_ended = False, df_size = 200, df_rows = 1\<rparr>] else []))\<rparr>"

lemma demo_catalog_scraped: "\<exists>v g'. scrape_catalog demo_xs demo_catalog Map.empty = (Inr v, g')"
  by (simp add: scrape_catalog_def Let_def s_then_def s_bind_def demo_catalog_def no_catalog_def publish_files_def publish_server_def
    query_def s_ret_def set_triple_def set_band_def g_set_def totals_of_def live_def in_band_def band_of_def band_names_def
    demo_xs_def float_limit_def newest_snapshot_def)

lemma bands_partition_witness:
  "\<exists>v g'. scrape_catalog demo_xs demo_catalog Map.empty = (Inr v, g')
     \<and> map (\<lambda>b. g' (band_files b)) band_names = [Some (Fin 2), Some (Fin 0), Some (Fin 1)]
     \<and> g' (plain ''bench_backlog_files'') = Some (Fin 2)"
proof -
  obtain v g' where s: "scrape_catalog demo_xs demo_catalog Map.empty = (Inr v, g')" using demo_catalog_scraped by blast
  note bands_partition [OF s, unfolded Let_def]
  moreover have "live (ct_files demo_catalog 0) = [\<lparr>df_ended = False, df_size = 100, df_rows = 1\<rparr>, \<lparr>df_ended = False, df_size = 70000000, df_rows = 9\<rparr>]"
    "live (ct_files demo_catalog 2) = [\<lparr>df_ended = False, df_size = 100, df_rows = 1\<rparr>, \<lparr>df_ended = False, df_size = 70000000, df_rows = 9\<rparr>,
      \<lparr>df_ended = False, df_size = 200, df_rows = 1\<rparr>]"
    by (simp_all add: demo_catalog_def live_def)
  ultimately show ?thesis using s by (simp add: band_of_def demo_xs_def band_names_def)
qed

section \<open>From the agent to the gauges\<close>

lemma s_all_append: "s_all (ms @ ns) g = (Inr u, g') \<longleftrightarrow> (\<exists>g1. s_all ms g = (Inr (), g1) \<and> s_all ns g1 = (Inr u, g'))"
  by (induction ms arbitrary: g) (auto simp: s_then_Inr s_ret_Inr)

lemma set_if_given_shows:
  assumes "set_if_given sr v k g = (Inr u, g')" and "pget v k = Inr x" and "x \<noteq> PNone"
  shows "\<exists>f. py_float x = Inr f \<and> g' sr = Some f"
  using assms by (auto simp: set_if_given_def s_bind_Inr s_lift_def s_if_def g_set_def split: sum.splits)

lemma each_given_shown:
  assumes "s_all (map (\<lambda>k. set_if_given (fam k) v k) ks) g = (Inr u, g')" and "distinct (map fam ks)" and "k \<in> set ks"
    and "pget v k = Inr x" and "x \<noteq> PNone"
  shows "\<exists>f. py_float x = Inr f \<and> g' (fam k) = Some f"
proof -
  obtain as bs where ks: "ks = as @ k # bs" using split_list [OF assms(3)] by blast
  let ?m = "\<lambda>k. set_if_given (fam k) v k"
  from assms(1) obtain g1 g2 where g: "?m k g1 = (Inr (), g2)" "s_all (map ?m bs) g2 = (Inr u, g')"
    by (auto simp: ks s_all_append s_then_Inr)
  have "keeps (\<lambda>s. s = fam k) (?m b)" if "b \<in> set bs" for b
  proof -
    have "fam b \<noteq> fam k"
      using assms(2) that by (metis distinct.simps(2) distinct_append image_eqI ks list.map(2) list.set_map map_append)
    then show ?thesis by (intro keeps_given) simp
  qed
  then have kept: "keeps (\<lambda>s. s = fam k) (s_all (map ?m bs))" by (intro keeps_all) auto
  from kept have "snd (s_all (map ?m bs) g2) (fam k) = g2 (fam k)" by (simp only: keeps_def)
  then have "g' (fam k) = g2 (fam k)" by (simp only: g(2) snd_conv)
  then show ?thesis using set_if_given_shows [OF g(1) assms(4,5)] by simp
qed

lemma publish_ends_with_host:
  assumes "s_all (publish_list xs now role uptime p) g = (Inr u, g')"
  obtains g1 where "s_all (map (\<lambda>k. set_if_given (host_series role k) (pa_system p) k) host_metrics) g1 = (Inr (), g')"
proof -
  obtain ms where "publish_list xs now role uptime p = ms @ map (\<lambda>k. set_if_given (host_series role k) (pa_system p) k) host_metrics"
    unfolding publish_list_def by blast
  with assms that show ?thesis by (auto simp: s_all_append)
qed

lemma publish_shows_host:
  assumes "publish_agent xs now role up uptime (PDict state) g = (Inr v, g')" and "dget state ''system'' = Some (PDict sysm)"
    and "sysm \<noteq> []" and "k \<in> set host_metrics" and "dget sysm k = Some x" and "x \<noteq> PNone"
  shows "\<exists>f. py_float x = Inr f \<and> g' (host_series role k) = Some f"
proof -
  from assms(1) obtain p g1 where p: "agent_parts (PDict state) = Inr p"
    and listed: "s_all (publish_list xs now role uptime p) g1 = (Inr (), g')"
    unfolding publish_agent_def Let_def
    by (auto simp: s_bind_Inr s_then_Inr s_lift_def s_ret_Inr s_fail_def map_sum_Inr split: if_splits)
  from listed obtain g2 where g2: "s_all (map (\<lambda>k. set_if_given (host_series role k) (pa_system p) k) host_metrics) g2 = (Inr (), g')"
    by (rule publish_ends_with_host)
  have sys: "pa_system p = PDict sysm"
    using p assms(2,3) by (auto simp: agent_parts_def Let_def pget_def or_empty_def py_or_def dget_or_def)
  show ?thesis
    by (rule each_given_shown [OF g2 _ assms(4) _ assms(6)])
      (use assms(5) in \<open>simp_all add: sys host_series_def host_metrics_def pget_def dget_or_def\<close>)
qed

lemma published_is_fresh:
  assumes "publish_agent xs now role up uptime (PDict state) g = (Inr v, g')" and "dget state ''ts'' = Some (num t)"
  shows "max 0 (now - t) \<le> xs_max_age xs"
  using assms unfolding publish_agent_def Let_def
  by (auto simp: s_bind_Inr s_then_Inr s_lift_def s_fail_def map_sum_Inr pget_def py_or_def dget_or_def float_limit_def
    split: if_splits)

text \<open>C16: what the agent measured is what the gauges show. When the exporter's scrape of a snapshot that the
  host agent wrote ends without an error, the snapshot is no older than the limit, and the host's
  gauges hold the sample the agent took: the share of CPU, the memory used and available, the free
  bytes of the root disk where they are known, and the sums over the disks and over the network
  interfaces of the rates the agent computed for each.\<close>

theorem agent_to_gauges:
  assumes "scrape_agent xs now role up uptime (Inr (PDict (health_snapshot role' host ts iso_text space s))) g = (Inr v, g')"
  shows "max 0 (now - ts) \<le> xs_max_age xs
    \<and> map (\<lambda>k. g' (host_series role k)) [''cpu_percent'', ''mem_used_bytes'', ''mem_available_bytes'', ''disk_write_bytes_per_s'',
        ''disk_read_bytes_per_s'', ''net_rx_bytes_per_s'', ''net_tx_bytes_per_s'']
      = map (Some \<circ> Fin) [sm_cpu s, of_int (me_used (sm_memory s)), of_int (me_available (sm_memory s)),
          sum_list (map (dr_write_bytes \<circ> snd) (sm_disk s)), sum_list (map (dr_read_bytes \<circ> snd) (sm_disk s)),
          sum_list (map (nr_rx_bytes \<circ> snd) (sm_net s)), sum_list (map (nr_tx_bytes \<circ> snd) (sm_net s))]
    \<and> (case fst space of None \<Rightarrow> True | Some n \<Rightarrow> g' (host_series role ''root_free_bytes'') = Some (Fin (of_int n)))"
proof -
  from assms have pub: "publish_agent xs now role up uptime (PDict (health_snapshot role' host ts iso_text space s)) g = (Inr v, g')"
    by (simp add: scrape_agent_def s_bind_def s_from_def)
  define sysm where "sysm = [
         (KStr ''cpu_percent'', num (sm_cpu s)),
         (KStr ''load_1m'', (case sm_load s of [] \<Rightarrow> PNone | f # _ \<Rightarrow> PFloat f)),
         (KStr ''mem_used_bytes'', PInt (me_used (sm_memory s))),
         (KStr ''mem_available_bytes'', PInt (me_available (sm_memory s))),
         (KStr ''swap_total_bytes'', PInt (me_swap_total (sm_memory s))),
         (KStr ''root_free_bytes'', opt_int (fst space)), (KStr ''root_total_bytes'', opt_int (snd space)),
         (KStr ''disk_write_bytes_per_s'', sum_rates dr_write_bytes (sm_disk s)),
         (KStr ''disk_read_bytes_per_s'', sum_rates dr_read_bytes (sm_disk s)),
         (KStr ''net_rx_bytes_per_s'', sum_rates nr_rx_bytes (sm_net s)),
         (KStr ''net_tx_bytes_per_s'', sum_rates nr_tx_bytes (sm_net s))]"
  have sysm: "dget (health_snapshot role' host ts iso_text space s) ''system'' = Some (PDict sysm)" "sysm \<noteq> []"
    by (simp_all add: health_snapshot_def sysm_def)
  note shown = publish_shows_host [OF pub sysm]
  have fresh: "max 0 (now - ts) \<le> xs_max_age xs"
    by (rule published_is_fresh [OF pub]) (simp add: health_snapshot_def)
  show ?thesis
    using fresh shown [of "''cpu_percent''"] shown [of "''mem_used_bytes''"] shown [of "''mem_available_bytes''"]
      shown [of "''disk_write_bytes_per_s''"] shown [of "''disk_read_bytes_per_s''"] shown [of "''net_rx_bytes_per_s''"]
      shown [of "''net_tx_bytes_per_s''"] shown [of "''root_free_bytes''"]
    by (auto simp: host_metrics_def sum_rates_def opt_int_def sysm_def split: option.split if_splits)
qed

definition sampled :: sample where
  "sampled =
     \<lparr>sm_cpu = 25 / 2, sm_per_core = [], sm_load = [], sm_ctxt = 0, sm_forks = 0,
      sm_memory = \<lparr>me_total = 1000, me_available = 400, me_used = 600, me_cache = 0, me_dirty = 0, me_writeback = 0,
        me_swap_total = 0, me_swap_free = 0\<rparr>,
      sm_disk = [], sm_net = [], sm_process = None, sm_restarts = 0, sm_oom = None,
      sm_checks = \<lparr>de_health = [(KStr ''ok'', PBool True)], de_s3 = [], de_rds = [], de_unit = []\<rparr>, sm_refreshed = True\<rparr>"

lemma sampled_scraped:
  "\<exists>v g'. scrape_agent demo_xs 1000 ''collector'' collector_up collector_uptime
     (Inr (PDict (health_snapshot ''collector'' ''h'' 990 ''t'' (None, None) sampled))) Map.empty = (Inr v, g')"
  by (simp add: scrape_agent_def s_bind_def s_from_def publish_agent_def agent_parts_def s_lift_def pget_def or_empty_def py_or_def
    Let_def s_then_def g_set_def one_or_zero_def s_fail_def float_limit_def health_snapshot_def sampled_def sum_rates_def opt_int_def
    opt_field_def demo_xs_def publish_list_def set_role_def g_to_def float_or_0_def pget_or_def is_dict_def s_ret_def set_if_given_def
    s_if_def set_dependency_def host_metrics_def dget_or_def)

lemma agent_to_gauges_witness:
  "\<exists>v g'. scrape_agent demo_xs 1000 ''collector'' collector_up collector_uptime
       (Inr (PDict (health_snapshot ''collector'' ''h'' 990 ''t'' (None, None) sampled))) Map.empty = (Inr v, g')
     \<and> g' (host_series ''collector'' ''cpu_percent'') = Some (Fin (25 / 2))
     \<and> g' (host_series ''collector'' ''mem_used_bytes'') = Some (Fin 600)"
proof -
  obtain v g' where g': "scrape_agent demo_xs 1000 ''collector'' collector_up collector_uptime
     (Inr (PDict (health_snapshot ''collector'' ''h'' 990 ''t'' (None, None) sampled))) Map.empty = (Inr v, g')"
    using sampled_scraped by blast
  with agent_to_gauges [OF g'] show ?thesis by (simp add: sampled_def)
qed

section \<open>Only declared series\<close>

definition undeclared :: "series \<Rightarrow> bool" where
  "undeclared s \<longleftrightarrow> \<not> declared s"

lemma undeclared_apart: "set names \<subseteq> set (map fst exporter_registry) \<Longrightarrow> apart undeclared names"
  unfolding apart_def undeclared_def declared_def labelled_def labels_of_def
  by (auto simp: subset_iff image_iff map_of_eq_None_iff split: option.splits)

lemma declared_names:
  "set all_names \<subseteq> set (map fst exporter_registry)" "set (file_names @ server_names) \<subseteq> set (map fst exporter_registry)"
  "set [''bench_watermark_lag_seconds'', ''bench_watermark_committed_rows''] \<subseteq> set (map fst exporter_registry)"
  "set [''bench_s3_objects'', ''bench_s3_bytes''] \<subseteq> set (map fst exporter_registry)"
  by code_simp+

lemma declared_series: "\<not> undeclared collector_up" "\<not> undeclared collector_uptime" "\<not> undeclared compactor_up"
  "\<not> undeclared compactor_uptime" "\<not> undeclared (ok_of n)" "\<not> undeclared (of_source ''bench_scrape_duration_seconds'' n)"
  by (simp_all add: undeclared_def declared_def exporter_registry_def series_defs ok_of_def)

lemma run_source_keeps:
  assumes "keeps undeclared m" and "undeclared s"
  shows "ex_gauges (snd (run_source text_of took name m se)) s = ex_gauges (snd se) s"
proof -
  obtain sample ex where se: "se = (sample, ex)" by (cases se)
  obtain r g where m: "m (ex_gauges ex) = (r, g)" by (cases "m (ex_gauges ex)")
  have "g s = ex_gauges ex s" using keepsD [OF assms(1) m assms(2)] .
  moreover have "s \<noteq> of_source ''bench_scrape_ok'' name" "s \<noteq> of_source ''bench_scrape_duration_seconds'' name"
    using assms(2) declared_series(5,6) [of name] unfolding ok_of_def by auto
  ultimately show ?thesis by (cases r) (simp_all add: run_source_def se m Let_def)
qed

text \<open>C27: a poll sets only series that were declared. Whatever the other machines answer, a series whose name is
  not among the exporter's metrics, or whose labels are not the ones its metric was declared with, has
  the same value after a poll as before: no call of \<open>labels\<close> can be refused for its label names.\<close>

theorem only_declared_series:
  assumes "poll_once text_of xs w ex = Some se"
  shows "{s. ex_gauges (snd se) s \<noteq> ex_gauges ex s} \<subseteq> {s. declared s}"
proof -
  note n = declared_names [THEN undeclared_apart] and d = declared_series
  note k = keeps_collector [OF n(1) d(1,2)] keeps_compactor [OF n(1) d(3,4)] keeps_major [OF n(1)] keeps_catalog [OF n(2)]
    keeps_watermark [OF n(3)] keeps_s3 [OF n(4)]
  have "ex_gauges (snd se) s = ex_gauges ex s" if s: "undeclared s" for s
  proof -
    note r = run_source_keeps [OF _ s]
    have "ex_gauges (snd (poll_services text_of xs w ex)) s = ex_gauges ex s"
      by (simp add: poll_services_def Let_def r k)
    moreover have "ex_gauges (snd (poll_watermark text_of xs w p)) s = ex_gauges (snd p) s" for p
      using r [OF k(5), of text_of "wo_took w ''watermark''" "''watermark''" "wo_now w" "wo_watermark w" p]
      by (cases p) (auto simp: poll_watermark_def split: prod.split)
    moreover have "ex_gauges (snd se) s = ex_gauges (snd p) s" if "poll_s3 text_of xs w p = Some se" for p
    proof -
      obtain sample e where p: "p = (sample, e)" by (cases p)
      have "ex_gauges e' s = ex_gauges e s"
        if "run_source text_of (wo_took w ''s3'') ''s3'' (scrape_s3 x) (sample, e) = (sample', e')" for x sample' e'
        using r [OF k(6), of text_of "wo_took w ''s3''" "''s3''" x "(sample, e)"] that by simp
      then show ?thesis using that by (auto simp: poll_s3_def p split: if_splits option.splits prod.splits)
    qed
    ultimately show ?thesis using assms by (simp add: poll_once_def)
  qed
  then show ?thesis by (auto simp: undeclared_def)
qed

lemma only_declared_series_witness:
  "\<exists>se. poll_once (\<lambda>_. ''down'') demo_xs all_down new_exporter = Some se
     \<and> ex_gauges (snd se) (''bench_scrape_ok'', [(''role'', ''collector'')]) = None"
proof -
  obtain se where se: "poll_once (\<lambda>_. ''down'') demo_xs all_down new_exporter = Some se"
    using all_down_polled [of new_exporter] by blast
  moreover have "\<not> declared (''bench_scrape_ok'', [(''role'', ''collector'')])" by (simp add: declared_def exporter_registry_def)
  ultimately show ?thesis using only_declared_series [OF se] by (auto simp: new_exporter_def)
qed

end
