(* ===== verification/ReportFacts.thy ===== *)
theory ReportFacts
  imports Report Exporter
begin

text \<open>
  What the report's conclusions mean: the backlog in terms of the catalogs the exporter polled, the
  binding constraint, the sustainable rate, and numbers that read back.
\<close>

section \<open>From polls to the backlog\<close>

lemma steady_window_map: "steady_window (map f xs) = map f (steady_window xs)"
  by (simp add: steady_window_def drop_map)

lemma steady_window_ne: "xs \<noteq> [] \<Longrightarrow> steady_window xs \<noteq> []"
  by (auto simp: steady_window_def)

lemma ts_apart: "\<forall>b \<in> set sources. ''ts'' \<noteq> b \<and> apart_sources ''ts'' b"
proof -
  have "list_all (\<lambda>b. ''ts'' \<noteq> b \<and> apart_sources ''ts'' b) sources" by code_simp
  then show ?thesis by (simp add: list_all_iff)
qed

lemma ts_in_sample: "poll_once text_of xs w ex = Some se \<Longrightarrow> dget (fst se) ''ts'' = Some (num (wo_now w))"
  using poll_runs(7) [OF _ ts_apart] by (fastforce simp: unchanged_def keys_of_source_def poll_start_def)

definition live_files :: "world \<Rightarrow> rat" where
  "live_files w = of_nat (length (live (ct_files (wo_catalog w) 0)))"

definition live_bytes :: "world \<Rightarrow> rat" where
  "live_bytes w = of_int (sum_list (map df_size (live (ct_files (wo_catalog w) 0))))"

definition scraped :: "pydict \<Rightarrow> bool" where
  "scraped sample = (dget sample ''catalog_ok'' = Some (PBool True))"

lemma catalog_answer:
  assumes "scrape_catalog xs c g = (Inr v, g')"
  shows "\<exists>d. v = PDict d \<and> dget d ''backlog_files'' = Some (PInt (int (length (live (ct_files c 0)))))
    \<and> dget d ''backlog_bytes'' = Some (PInt (sum_list (map df_size (live (ct_files c 0)))))"
  using assms by (auto simp: scrape_catalog_def Let_def s_then_Inr s_ret_Inr s_fail_def ints_def totals_of_def split: option.splits)

lemma run_source_answer:
  assumes "m (ex_gauges (snd se)) = (r, g)"
  shows "dget (fst (run_source text_of took name m se)) (name @ ''_ok'') = Some (PBool (case r of Inl _ \<Rightarrow> False | Inr _ \<Rightarrow> True))"
    and "dget (fst (run_source text_of took name m se)) name = Some (case r of Inl _ \<Rightarrow> PNone | Inr v \<Rightarrow> v)"
  using assms by (cases se; cases r; simp add: run_source_def Let_def dget_sput)+

lemma catalog_in_sample:
  assumes "poll_once text_of xs w ex = Some se"
  shows "if scraped (fst se)
    then \<exists>d. dget (fst se) ''catalog'' = Some (PDict d) \<and> dget d ''backlog_files'' = Some (PInt (int (length (live (ct_files (wo_catalog w) 0)))))
      \<and> dget d ''backlog_bytes'' = Some (PInt (sum_list (map df_size (live (ct_files (wo_catalog w) 0)))))
    else dget (fst se) ''catalog'' = Some PNone"
proof -
  obtain p where p: "unchanged ''catalog'' (run_source text_of (wo_took w ''catalog'') ''catalog'' (scrape_catalog xs (wo_catalog w)) p) se"
    using poll_runs(4) [OF assms] by blast
  obtain r g where m: "scrape_catalog xs (wo_catalog w) (ex_gauges (snd p)) = (r, g)" by fastforce
  have ok: "dget (fst se) ''catalog_ok'' = Some (PBool (case r of Inl _ \<Rightarrow> False | Inr _ \<Rightarrow> True))"
    and cat: "dget (fst se) ''catalog'' = Some (case r of Inl _ \<Rightarrow> PNone | Inr v \<Rightarrow> v)"
    using p run_source_answer [where m = "scrape_catalog xs (wo_catalog w)" and se = p, OF m, of text_of "wo_took w ''catalog''" "''catalog''"]
    by (simp_all add: unchanged_def keys_of_source_def)
  show ?thesis
  proof (cases r)
    case (Inl e)
    then show ?thesis using ok cat by (simp add: scraped_def)
  next
    case (Inr v)
    then show ?thesis using ok cat catalog_answer [OF m [unfolded Inr]] by (auto simp: scraped_def)
  qed
qed

definition polled :: "(failure \<Rightarrow> string) \<Rightarrow> settings_x \<Rightarrow> world \<times> pydict \<Rightarrow> bool" where
  "polled text_of xs p = (\<exists>ex ex'. poll_once text_of xs (fst p) ex = Some (snd p, ex'))"

lemma polled_row:
  assumes "polled text_of xs p"
  shows "number (dget_or (snd p) ''ts'' PNone) = Some (wo_now (fst p))"
    and "dig_or (PDict (snd p)) [''catalog'', ''backlog_files''] v
      = (if scraped (snd p) then PInt (int (length (live (ct_files (wo_catalog (fst p)) 0)))) else v)"
    and "scraped (snd p) \<Longrightarrow> dig_or (PDict (snd p)) [''catalog'', ''backlog_bytes''] v
      = PInt (sum_list (map df_size (live (ct_files (wo_catalog (fst p)) 0))))"
proof -
  obtain ex ex' where p: "poll_once text_of xs (fst p) ex = Some (snd p, ex')" using assms by (auto simp: polled_def)
  show "number (dget_or (snd p) ''ts'' PNone) = Some (wo_now (fst p))" using ts_in_sample [OF p] by simp
  show "dig_or (PDict (snd p)) [''catalog'', ''backlog_files''] v
      = (if scraped (snd p) then PInt (int (length (live (ct_files (wo_catalog (fst p)) 0)))) else v)"
    using catalog_in_sample [OF p] by (auto simp: dig_or_def split: if_splits)
  show "scraped (snd p) \<Longrightarrow> dig_or (PDict (snd p)) [''catalog'', ''backlog_bytes''] v
      = PInt (sum_list (map df_size (live (ct_files (wo_catalog (fst p)) 0))))"
    using catalog_in_sample [OF p] by (auto simp: dig_or_def)
qed

lemma with_catalog_polled:
  "list_all (polled text_of xs) ps \<Longrightarrow> with_catalog (map snd ps) = map snd (filter (\<lambda>p. scraped (snd p)) ps)"
proof (induction ps)
  case (Cons p ps)
  then have "polled text_of xs p" by simp
  note row = polled_row [OF this]
  from Cons show ?case by (simp add: with_catalog_def is_number_def row)
qed (simp add: with_catalog_def)

lemma columns_polled:
  assumes "list_all (polled text_of xs) ps" and "list_all (\<lambda>p. scraped (snd p)) ps"
  shows "series (map snd ps) ''ts'' = map (wo_now \<circ> fst) ps
    \<and> column [''catalog'', ''backlog_files''] (map snd ps) = Inr (map (live_files \<circ> fst) ps)
    \<and> column [''catalog'', ''backlog_bytes''] (map snd ps) = Inr (map (live_bytes \<circ> fst) ps)"
  using assms
proof (induction ps)
  case (Cons p ps)
  then have "polled text_of xs p" by simp
  note row = polled_row [OF this]
  from Cons show ?case by (simp add: series_def column_def as_number_def row live_files_def live_bytes_def)
qed (simp add: series_def column_def)

text \<open>What the report shows for a list of polls whose catalog scrape succeeded.\<close>

definition backlog_over :: "(world \<times> pydict) list \<Rightarrow> backlog option" where
  "backlog_over seen =
     (let window = map fst (steady_window seen); ts = map (\<lambda>w. wo_now w - wo_now (hd window)) window;
          files = map live_files window
      in if length seen < 4 then None
         else Some \<lparr>bk_samples = length window, bk_discarded = length seen - length window,
                bk_first = hd files, bk_last = last files, bk_files_per_min = slope_or_0 ts files * 60,
                bk_mib_per_min = slope_or_0 ts (map live_bytes window) * 60 / 1048576, bk_max = Max (set files)\<rparr>)"

definition seen_of :: "(world \<times> pydict) list \<Rightarrow> (world \<times> pydict) list" where
  "seen_of ps = filter (\<lambda>p. scraped (snd p)) ps"

lemma backlog_polled:
  assumes "list_all (polled text_of xs) ps" and "ru_pipeline r = map snd ps"
  shows "analyse_backlog r = Inr (backlog_over (seen_of ps))"
proof (cases "length (seen_of ps) < 4")
  case True
  then show ?thesis using with_catalog_polled [OF assms(1)]
    by (simp add: analyse_backlog_def assms(2) seen_of_def backlog_over_def Let_def)
next
  case False
  let ?w = "steady_window (seen_of ps)"
  have sub: "set ?w \<subseteq> set (seen_of ps)" by (auto simp: steady_window_def dest: in_set_dropD)
  then have "list_all (polled text_of xs) ?w" "list_all (\<lambda>p. scraped (snd p)) ?w"
    using assms(1) by (auto simp: list_all_iff seen_of_def)
  note cols = columns_polled [OF this]
  have "?w \<noteq> []" using False by (intro steady_window_ne) auto
  then show ?thesis
    using False with_catalog_polled [OF assms(1)] cols
    by (simp add: analyse_backlog_def assms(2) seen_of_def [symmetric] steady_window_map backlog_over_def Let_def hd_map
      last_map comp_def image_image)
qed

text \<open>C17: the backlog in the report is the backlog in the catalog. Let the rows of the pipeline's file be
  the samples of the exporter's polls. The report's figures are computed from the polls whose catalog
  scrape succeeded, less the first quarter when there are eight or more: first, last and greatest
  number of live data files, and the least-squares slopes, per minute, of the live files and their
  bytes over the times of those polls; with fewer than four such polls there is no figure.\<close>

theorem backlog_of_polls:
  fixes ps :: "(world \<times> pydict) list"
  defines "window \<equiv> map fst (steady_window (seen_of ps))"
  assumes "list_all (polled text_of xs) ps" and "ru_pipeline r = map snd ps"
  shows "analyse_backlog r = Inr (if length (seen_of ps) < 4 then None
    else let ts = map (\<lambda>w. wo_now w - wo_now (hd window)) window; files = map live_files window
      in Some \<lparr>bk_samples = length window, bk_discarded = length (seen_of ps) - length window,
          bk_first = hd files, bk_last = last files, bk_files_per_min = slope_or_0 ts files * 60,
          bk_mib_per_min = slope_or_0 ts (map live_bytes window) * 60 / 1048576, bk_max = Max (set files)\<rparr>)"
  using backlog_polled [OF assms(2,3)] by (simp add: backlog_over_def Let_def window_def)

subsection \<open>Four polls of a growing lake\<close>

definition lake_world :: "nat \<Rightarrow> world" where
  "lake_world k =
     all_down\<lparr>wo_now := of_nat (60 * k),
       wo_catalog := no_catalog\<lparr>ct_connect := None, ct_files := (\<lambda>_. replicate (k + 1) \<lparr>df_ended = False, df_size = 1000, df_rows = 1\<rparr>)\<rparr>\<rparr>"

lemma lake_scraped:
  assumes "k < 4"
  shows "\<exists>v g'. scrape_catalog demo_xs (wo_catalog (lake_world k)) g = (Inr v, g')"
proof -
  from assms have "k \<in> {0, 1, 2, 3}" by auto
  then show ?thesis
    by (auto simp: scrape_catalog_def Let_def s_then_def s_bind_def lake_world_def no_catalog_def
      publish_files_def publish_server_def query_def s_ret_def set_triple_def set_band_def g_set_def totals_of_def live_def
      in_band_def band_of_def band_names_def demo_xs_def float_limit_def newest_snapshot_def filter_replicate sum_list_replicate)
qed

lemma lake_polled:
  assumes "k < 4"
  shows "\<exists>sample. polled (\<lambda>_. ''down'') demo_xs (lake_world k, sample) \<and> scraped sample"
proof -
  have "list_objects (wo_listing (lake_world k)) None 0 0 = Some (Inr (2, 30))"
    by (subst list_objects.simps) (simp add: lake_world_def all_down_def)
  then obtain se where se: "poll_once (\<lambda>_. ''down'') demo_xs (lake_world k) new_exporter = Some se"
    using poll_ends by blast
  obtain p where p: "unchanged ''catalog'' (run_source (\<lambda>_. ''down'') (wo_took (lake_world k) ''catalog'') ''catalog''
      (scrape_catalog demo_xs (wo_catalog (lake_world k))) p) se"
    using poll_runs(4) [OF se] by blast
  obtain v g where "scrape_catalog demo_xs (wo_catalog (lake_world k)) (ex_gauges (snd p)) = (Inr v, g)"
    using lake_scraped [OF assms] by blast
  from run_source_answer [where m = "scrape_catalog demo_xs (wo_catalog (lake_world k))" and se = p, OF this,
      of "\<lambda>_. ''down''" "wo_took (lake_world k) ''catalog''" "''catalog''"] p
  have "scraped (fst se)" by (simp add: scraped_def unchanged_def keys_of_source_def)
  moreover have "polled (\<lambda>_. ''down'') demo_xs (lake_world k, fst se)"
    unfolding polled_def using se by (metis fst_conv prod.collapse snd_conv)
  ultimately show ?thesis by blast
qed

lemma lake_run:
  obtains ps where "list_all (polled (\<lambda>_. ''down'') demo_xs) ps" and "seen_of ps = ps"
    and "map fst ps = map lake_world [0, 1, 2, 3]"
proof -
  obtain f where f: "\<forall>k < 4. polled (\<lambda>_. ''down'') demo_xs (lake_world k, f k) \<and> scraped (f k)"
    using lake_polled by metis
  have "list_all (polled (\<lambda>_. ''down'') demo_xs) (map (\<lambda>k. (lake_world k, f k)) [0, 1, 2, 3])"
    "seen_of (map (\<lambda>k. (lake_world k, f k)) [0, 1, 2, 3]) = map (\<lambda>k. (lake_world k, f k)) [0, 1, 2, 3]"
    using f by (simp_all add: seen_of_def)
  then show thesis by (rule that) simp
qed

lemma lake_backlog:
  assumes "map fst ps = map lake_world [0, 1, 2, 3]"
  shows "backlog_over ps = Some \<lparr>bk_samples = 4, bk_discarded = 0, bk_first = 1, bk_last = 4, bk_files_per_min = 1,
    bk_mib_per_min = 1000 / 1048576, bk_max = 4\<rparr>"
proof -
  have "length ps = 4" using arg_cong [OF assms, of length] by simp
  then show ?thesis
    using assms by (simp add: backlog_over_def steady_window_def Let_def lake_world_def live_files_def live_bytes_def live_def
      slope_or_0_def linear_slope_def fmean_def power2_eq_square sum_list_replicate)
qed

definition lake_totals :: pydict where
  "lake_totals =
     [(KStr ''records_offered'', PInt 1000), (KStr ''records_accepted'', PInt 1000), (KStr ''records_rejected'', PInt 0),
      (KStr ''duration_seconds'', num 180), (KStr ''stalled_ms'', num 0)]"

definition lake_level :: "int \<Rightarrow> int \<Rightarrow> pydict" where
  "lake_level target accepted =
     [(KStr ''target_rps'', PInt target), (KStr ''offered'', PInt 500), (KStr ''accepted'', PInt accepted),
      (KStr ''rejected'', PInt 0), (KStr ''duration_seconds'', num 90)]"

definition run_with :: "pydict list \<Rightarrow> run" where
  "run_with rows =
     \<lparr>ru_metadata = [], ru_generator = [(KStr ''totals'', PDict lake_totals),
        (KStr ''steps'', PList [PDict (lake_level 5 500), PDict (lake_level 10 500), PDict (lake_level 20 100), PDict (lake_level 40 500)])],
      ru_manifest = [], ru_correctness = [], ru_environment = [], ru_before = [], ru_after = [], ru_samples = [],
      ru_pipeline = rows, ru_compaction = [], ru_hosts = []\<rparr>"

lemma lake_run_backlog:
  obtains ps where "list_all (polled (\<lambda>_. ''down'') demo_xs) ps" and "seen_of ps = ps"
    and "analyse_backlog (run_with (map snd ps)) = Inr (Some \<lparr>bk_samples = 4, bk_discarded = 0, bk_first = 1, bk_last = 4,
      bk_files_per_min = 1, bk_mib_per_min = 1000 / 1048576, bk_max = 4\<rparr>)" and "length ps = 4"
    and "map fst ps = map lake_world [0, 1, 2, 3]"
proof (rule lake_run)
  fix ps
  assume ps: "list_all (polled (\<lambda>_. ''down'') demo_xs) ps" "seen_of ps = ps" "map fst ps = map lake_world [0, 1, 2, 3]"
  have "length ps = 4" using arg_cong [OF ps(3), of length] by simp
  then show thesis
    using that [OF ps(1,2) _ _ ps(3)] backlog_polled [OF ps(1), of "run_with (map snd ps)"] lake_backlog [OF ps(3)] ps(2)
    by (simp add: run_with_def)
qed

lemma backlog_of_polls_witness:
  "\<exists>ps b. list_all (polled (\<lambda>_. ''down'') demo_xs) ps \<and> analyse_backlog (run_with (map snd ps)) = Inr (Some b)
     \<and> bk_first b = live_files (lake_world 0) \<and> bk_files_per_min b = 1"
proof (rule lake_run_backlog)
  fix ps
  assume ps: "list_all (polled (\<lambda>_. ''down'') demo_xs) ps" "seen_of ps = ps" "length ps = 4" "map fst ps = map lake_world [0, 1, 2, 3]"
    and b: "analyse_backlog (run_with (map snd ps)) = Inr (Some \<lparr>bk_samples = 4, bk_discarded = 0, bk_first = 1, bk_last = 4,
      bk_files_per_min = 1, bk_mib_per_min = 1000 / 1048576, bk_max = 4\<rparr>)"
  have w: "map fst (steady_window (seen_of ps)) = map lake_world [0, 1, 2, 3]" using ps(2-4) by (simp add: steady_window_def)
  have "bk_first \<lparr>bk_samples = 4, bk_discarded = 0, bk_first = 1, bk_last = 4,
      bk_files_per_min = 1, bk_mib_per_min = 1000 / 1048576, bk_max = 4\<rparr> = live_files (lake_world 0)"
    using backlog_of_polls [OF ps(1), of "run_with (map snd ps)"] ps(2,3) unfolding b w by (simp add: run_with_def Let_def)
  with ps(1) b show ?thesis by fastforce
qed

section \<open>When compaction is blamed\<close>

lemma bottleneck_Inr:
  assumes "bottleneck r = Inr c" and "c \<noteq> OtherTransport" and "c \<noteq> NothingOffered"
  obtains t a n bl d st rej where "totals_dict r = Inr t" and "as_number (dget_or t ''records_accepted'' (PInt 0)) = Inr a"
    and "as_number (dget_or t ''records_offered'' (PInt 0)) = Inr n" and "analyse_backlog r = Inr bl"
    and "as_number (dget_or t ''records_rejected'' (PInt 0)) = Inr rej"
    and "c = constraint_of rej (a / n) bl (st / (d * 1000)) (host_cpu r)"
  using assms unfolding bottleneck_def Let_def by (auto split: if_splits)

lemma constraint_compaction:
  "constraint_of rej q bl st cpu = Compaction x
     \<longleftrightarrow> rej \<le> 0 \<and> 99 / 100 \<le> q \<and> (\<exists>b. bl = Some b \<and> bk_files_per_min b = x \<and> 1 / 2 < x)"
  by (cases bl) (auto simp: constraint_of_def falling_behind_def stalled_constraint_def split: option.splits)

text \<open>C24: compaction is blamed on the evidence of the catalog, before the generator is looked at. If the report names
  compaction as the binding constraint of a run, then nothing was rejected, at least 99 of 100 offered records were
  accepted, at least four polls read the catalog, and the number of live data files in the catalogs those polls saw,
  the warm-up left out, grew by more than half a file per minute along the least-squares line. But neither the share
  of time the pacer stalled nor the CPU of any host has a say: with the same totals and catalogs compaction is named whatever they
  are, so a run that was held up by the generator is put down to the compactor too.\<close>

theorem compaction_blamed_for_growth:
  assumes "bottleneck r = Inr (Compaction x)" and "list_all (polled text_of xs) ps" and "ru_pipeline r = map snd ps"
  shows "\<exists>t offered accepted rejected. totals_dict r = Inr t
      \<and> map (\<lambda>k. as_number (dget_or t k (PInt 0))) [''records_offered'', ''records_accepted'', ''records_rejected'']
        = map Inr [offered, accepted, rejected]
      \<and> rejected \<le> 0 \<and> 99 / 100 \<le> accepted / offered
    \<and> 4 \<le> length (seen_of ps) \<and> 1 / 2 < x
    \<and> (let window = map fst (steady_window (seen_of ps))
       in x = slope_or_0 (map (\<lambda>w. wo_now w - wo_now (hd window)) window) (map live_files window) * 60)
    \<and> (\<forall>stall cpu. constraint_of rejected (accepted / offered) (backlog_over (seen_of ps)) stall cpu = Compaction x)"
proof (rule bottleneck_Inr [OF assms(1)])
  fix t a n bl d st rej
  assume t: "totals_dict r = Inr t" "as_number (dget_or t ''records_accepted'' (PInt 0)) = Inr a"
    "as_number (dget_or t ''records_offered'' (PInt 0)) = Inr n" "as_number (dget_or t ''records_rejected'' (PInt 0)) = Inr rej"
    and bl: "analyse_backlog r = Inr bl"
    and c: "Compaction x = constraint_of rej (a / n) bl (st / (d * 1000)) (host_cpu r)"
  from c obtain b where b: "rej \<le> 0" "99 / 100 \<le> a / n" "bl = Some b" "bk_files_per_min b = x" "1 / 2 < x"
    using constraint_compaction by metis
  have backlog: "backlog_over (seen_of ps) = Some b" using backlog_polled [OF assms(2,3)] bl b(3) by simp
  then have "4 \<le> length (seen_of ps) \<and> x = slope_or_0 (map (\<lambda>w. wo_now w - wo_now (hd (map fst (steady_window (seen_of ps)))))
      (map fst (steady_window (seen_of ps)))) (map live_files (map fst (steady_window (seen_of ps)))) * 60"
    using b(4) by (auto simp: backlog_over_def Let_def split: if_splits)
  moreover have "constraint_of rej (a / n) (backlog_over (seen_of ps)) stall cpu = Compaction x" for stall cpu
    using constraint_compaction b backlog by simp
  ultimately show ?thesis using t b unfolding Let_def by (intro exI [of _ t] exI [of _ n] exI [of _ a] exI [of _ rej]) simp
qed simp_all

lemma lake_bottleneck:
  assumes "analyse_backlog (run_with rows) = Inr (Some b)" and "bk_files_per_min b = 1"
  shows "bottleneck (run_with rows) = Inr (Compaction 1)"
proof -
  have t: "totals_dict (run_with rows) = Inr lake_totals"
    by (simp add: totals_dict_def run_with_def py_or_def lake_totals_def dget_or_def)
  have "ru_metadata (run_with rows) = []" by (simp add: run_with_def)
  then show ?thesis
    unfolding bottleneck_def t by (simp add: lake_totals_def dget_or_def as_number_def assms py_or_def constraint_of_def falling_behind_def)
qed

lemma compaction_blamed_for_growth_witness:
  "\<exists>ps. bottleneck (run_with (map snd ps)) = Inr (Compaction 1) \<and> 4 \<le> length (seen_of ps)
     \<and> constraint_of 0 1 (backlog_over (seen_of ps)) (95 / 100) [(''generator'', 100)] = Compaction 1"
proof (rule lake_run_backlog)
  fix ps
  assume ps: "list_all (polled (\<lambda>_. ''down'') demo_xs) ps"
    and b: "analyse_backlog (run_with (map snd ps)) = Inr (Some \<lparr>bk_samples = 4, bk_discarded = 0, bk_first = 1, bk_last = 4,
      bk_files_per_min = 1, bk_mib_per_min = 1000 / 1048576, bk_max = 4\<rparr>)"
  have n: "bottleneck (run_with (map snd ps)) = Inr (Compaction 1)" by (rule lake_bottleneck [OF b]) simp
  have "ru_pipeline (run_with (map snd ps)) = map snd ps" by (simp add: run_with_def)
  from compaction_blamed_for_growth [OF n ps this] obtain t offered accepted rejected where
    t: "totals_dict (run_with (map snd ps)) = Inr t"
      "map (\<lambda>k. as_number (dget_or t k (PInt 0))) [''records_offered'', ''records_accepted'', ''records_rejected''] = map Inr [offered, accepted, rejected]"
      "4 \<le> length (seen_of ps)"
      "\<forall>stall cpu. constraint_of rejected (accepted / offered) (backlog_over (seen_of ps)) stall cpu = Compaction 1" by blast
  have "t = lake_totals" using t(1) by (simp add: totals_dict_def run_with_def py_or_def lake_totals_def dget_or_def)
  then have "offered = 1000" "accepted = 1000" "rejected = 0" using t(2) by (simp_all add: lake_totals_def dget_or_def as_number_def)
  then show ?thesis using n t(3,4) by (intro exI [of _ ps]) simp
qed

section \<open>The sustainable rate\<close>

definition held_prefix :: "pydict list \<Rightarrow> bool list \<Rightarrow> pydict list" where
  "held_prefix ss hs = map fst (takeWhile snd (zip ss hs))"

lemma sustainable_prefix:
  "emap level_holds ss = Inr hs \<Longrightarrow>
     sustainable ss best = Inr (if held_prefix ss hs = [] then best else Some (last (held_prefix ss hs)))"
proof (induction ss arbitrary: hs best)
  case (Cons s ss)
  then obtain h hs' where h: "level_holds s = Inr h" "emap level_holds ss = Inr hs'" "hs = h # hs'" by auto
  show ?case
  proof (cases h)
    case True
    have "sustainable (s # ss) best = sustainable ss (Some s)" using h(1) True by simp
    also have "\<dots> = Inr (if held_prefix ss hs' = [] then Some s else Some (last (held_prefix ss hs')))"
      by (rule Cons.IH [OF h(2)])
    finally show ?thesis by (simp only: h(3) True held_prefix_def) simp
  qed (simp add: h held_prefix_def)
qed (simp add: held_prefix_def)

text \<open>The sustainable rate is the last level of the longest unbroken run of good ones, and the backlog has
  no say in it. For a staircase of more than one level the report names the last level before the first
  one that accepted less than 99 of 100 offered records or rejected any, whatever the analysis of the
  backlog found; only when there was no backlog series at all is the rate marked as provisional.\<close>

theorem sustainable_ignores_backlog:
  assumes "steps_of r = Inr ss" and "1 < length ss" and "emap level_holds ss = Inr hs" and "peak_rate ss = Inr peak"
    and "analyse_backlog r = Inr bl"
  shows "ceiling_of r = Inr (Some
    \<lparr>ce_best = (if held_prefix ss hs = [] then None else Some (last (held_prefix ss hs))),
     ce_provisional = (held_prefix ss hs \<noteq> [] \<and> bl = None), ce_peak = peak\<rparr>)"
  using assms sustainable_prefix [OF assms(3), of None] by (simp add: ceiling_of_def)

lemma sustainable_ignores_backlog_witness:
  "\<exists>rows b c. analyse_backlog (run_with rows) = Inr (Some b) \<and> trend_of b = Growing
     \<and> ceiling_of (run_with rows) = Inr (Some c) \<and> ce_best c = Some (lake_level 10 500) \<and> \<not> ce_provisional c"
proof (rule lake_run_backlog)
  fix ps
  let ?b = "\<lparr>bk_samples = 4, bk_discarded = 0, bk_first = 1, bk_last = 4, bk_files_per_min = 1, bk_mib_per_min = 1000 / 1048576, bk_max = 4\<rparr>"
    and ?ss = "[lake_level 5 500, lake_level 10 500, lake_level 20 100, lake_level 40 500]" and ?r = "run_with (map snd ps)"
  assume b: "analyse_backlog ?r = Inr (Some ?b)"
  have l: "level_holds (lake_level t 500) = Inr True" "level_holds (lake_level t 100) = Inr False"
    "level_rate (lake_level t a) = Inr (of_int a / 90)" for t a
    by (simp_all add: level_holds_def level_ratio_def item_def lake_level_def as_number_def level_rate_def max_def)
  have "steps_of ?r = Inr ?ss" by (simp add: steps_of_def run_with_def py_or_def dget_or_def)
  moreover have "emap level_holds ?ss = Inr [True, True, False, True]" by (simp add: l)
  moreover have "peak_rate ?ss = Inr (500 / 90)" by (simp add: peak_rate_def l max_def)
  ultimately have "ceiling_of ?r = Inr (Some \<lparr>ce_best = Some (lake_level 10 500), ce_provisional = False, ce_peak = 500 / 90\<rparr>)"
    using sustainable_ignores_backlog [of ?r ?ss "[True, True, False, True]" "500 / 90" "Some ?b"] b by (simp add: held_prefix_def)
  then show ?thesis using b by (intro exI [of _ "map snd ps"] exI [of _ ?b]) (simp add: trend_of_def)
qed

section \<open>Numbers in the report read back\<close>

definition without_commas :: "string \<Rightarrow> string" where
  "without_commas s = filter (\<lambda>c. c \<noteq> CHR '','') s"

lemma without_commas_commas: "without_commas (commas_rev ds) = without_commas ds"
  unfolding without_commas_def by (induction ds rule: commas_rev.induct) simp_all

lemma digits_no_comma: "CHR '','' \<notin> set (show_nat n)"
proof -
  have "\<not> is_digit CHR '',''" by (simp add: is_digit_def)
  then show ?thesis using show_nat_digits [of n] by blast
qed

lemma commas_nat_read: "without_commas (commas_nat n) = show_nat n"
proof -
  have "without_commas (commas_nat n) = rev (without_commas (commas_rev (rev (show_nat n))))"
    by (simp only: commas_nat_def with_commas_def without_commas_def rev_filter)
  also have "\<dots> = without_commas (show_nat n)"
    by (simp only: without_commas_commas) (simp add: without_commas_def rev_filter)
  also have "\<dots> = show_nat n" using digits_no_comma [of n] by (auto simp: without_commas_def filter_id_conv)
  finally show ?thesis .
qed

text \<open>A count in the report reads back. Without its commas the text of an integer is its decimal text, so it
  reads as the same integer, and two integers never print alike.\<close>

theorem count_reads_back:
  "without_commas (fmt_int (PInt i)) = show_int i \<and> parse_int (without_commas (fmt_int (PInt i))) = Some i
   \<and> (fmt_int (PInt i) = fmt_int (PInt j) \<longrightarrow> i = j)"
proof -
  have "without_commas (fmt_int (PInt i)) = show_int i" for i
    using commas_nat_read by (simp add: fmt_int_def py_trunc_def commas_int_def show_int_def without_commas_def)
  then show ?thesis by (metis parse_int_show_int show_int_inject)
qed

lemma scale_bytes_unit:
  assumes "scale_bytes x us = (y, u)" and "us \<noteq> []" and "last us = ''TiB''" and "''TiB'' \<notin> set (butlast us)"
  shows "\<exists>k < length us. u = us ! k \<and> x = y * 1024 ^ k \<and> (Suc k < length us \<longrightarrow> \<bar>y\<bar> < 1024) \<and> (0 < k \<longrightarrow> 1 \<le> \<bar>y\<bar>)"
  using assms
proof (induction us arbitrary: x)
  case (Cons v us)
  show ?case
  proof (cases "\<bar>x\<bar> < 1024 \<or> v = ''TiB''")
    case True
    then have "y = x" "u = v" using Cons.prems(1) by auto
    moreover have "us \<noteq> [] \<Longrightarrow> \<bar>x\<bar> < 1024" using True Cons.prems(4) by auto
    ultimately show ?thesis by (intro exI [of _ 0]) auto
  next
    case False
    then have us: "us \<noteq> []" using Cons.prems(3) by auto
    have "scale_bytes (x / 1024) us = (y, u)" using False Cons.prems(1) by auto
    from Cons.IH [OF this us] obtain k where k: "k < length us" "u = us ! k" "x / 1024 = y * 1024 ^ k"
      "Suc k < length us \<longrightarrow> \<bar>y\<bar> < 1024" "0 < k \<longrightarrow> 1 \<le> \<bar>y\<bar>"
      using Cons.prems(3,4) us by auto
    have "1 \<le> \<bar>y\<bar>" using k(3,5) False by (cases "k = 0") (auto simp: abs_if split: if_splits)
    then show ?thesis using k by (intro exI [of _ "Suc k"]) auto
  qed
qed simp

text \<open>A size in the report is shown in its unit. The number shown times the power of 1024 of its unit is the
  size; it is at least one unless the unit is bytes, and below 1024 unless the unit is the largest.\<close>

theorem size_in_its_unit:
  assumes "number v = Some x"
  shows "\<exists>k y. k < length byte_units \<and> fmt_bytes v = fixed 2 y @ '' '' @ byte_units ! k \<and> x = y * 1024 ^ k
    \<and> (byte_units ! k \<noteq> ''TiB'' \<longrightarrow> \<bar>y\<bar> < 1024) \<and> (0 < k \<longrightarrow> 1 \<le> \<bar>y\<bar>)"
proof -
  obtain y u where s: "scale_bytes x byte_units = (y, u)" by fastforce
  have "\<exists>k < length byte_units. u = byte_units ! k \<and> x = y * 1024 ^ k \<and> (Suc k < length byte_units \<longrightarrow> \<bar>y\<bar> < 1024) \<and> (0 < k \<longrightarrow> 1 \<le> \<bar>y\<bar>)"
    by (rule scale_bytes_unit [OF s]) (simp_all add: byte_units_def)
  then obtain k where k: "k < length byte_units" "u = byte_units ! k" "x = y * 1024 ^ k"
    "Suc k < length byte_units \<longrightarrow> \<bar>y\<bar> < 1024" "0 < k \<longrightarrow> 1 \<le> \<bar>y\<bar>" by blast
  have "k = 4" if "\<not> Suc k < length byte_units" using that k(1) by (simp add: byte_units_def)
  then have "byte_units ! k \<noteq> ''TiB'' \<longrightarrow> \<bar>y\<bar> < 1024" using k(4) by (auto simp: byte_units_def)
  then show ?thesis using k assms s by (intro exI [of _ k] exI [of _ y]) (simp add: fmt_bytes_def)
qed

lemma size_in_its_unit_witness: "\<exists>k y. fmt_bytes (PInt 1536) = fixed 2 y @ '' '' @ byte_units ! k \<and> 1536 = y * 1024 ^ k"
  using size_in_its_unit [of "PInt 1536" 1536] by auto

end
