(* ===== verification/Dashboards.thy ===== *)
theory Dashboards
  imports TextOps
begin

text \<open>
  \<open>monitoring/grafana/build_dashboards.py\<close>: the seven dashboards as the JSON documents the script writes,
  from the panel builders to the calls that fill them, every text included. Texts are in UTF-8; the
  parameters of a builder come in the order of the code, with the defaults written out.
\<close>

section \<open>Panel builders\<close>

definition obj :: "(string \<times> pyval) list \<Rightarrow> pyval" where
  "obj kvs = PDict (map (\<lambda>(k, v). (KStr k, v)) kvs)"

definition data_source :: pyval where
  \<comment> \<open>\<open>DS\<close>\<close>
  "data_source = obj [(''type'', PStr ''prometheus''), (''uid'', PStr ''${DS_PROMETHEUS}'')]"

definition colours :: "(string \<times> string) list" where
  "colours =
     [(''offered'', ''#8899a6''), (''accepted'', ''#2f7d95''), (''rejected'', ''#b4553f''), (''p50'', ''#8fae9b''),
      (''p95'', ''#c39b4e''), (''p99'', ''#b4553f''), (''generator'', ''#7a8fa6''), (''collector'', ''#2f7d95''),
      (''compactor'', ''#8a6fa8''), (''neutral'', ''#6b7d8f''), (''good'', ''#4f8a6a''), (''warn'', ''#c39b4e''),
      (''bad'', ''#b4553f'')]"

definition colour :: "string \<Rightarrow> string" where
  \<comment> \<open>\<open>COLORS[name]\<close>; every name used is there\<close>
  "colour name = the (map_of colours name)"

definition target :: "string \<Rightarrow> string \<Rightarrow> string \<Rightarrow> pyval" where
  "target expr legend ref =
     obj [(''datasource'', data_source), (''expr'', PStr expr), (''legendFormat'', PStr legend), (''refId'', PStr ref),
          (''editorMode'', PStr ''code''), (''range'', PBool True)]"

definition overrides :: "(string \<times> string) list \<Rightarrow> pyval" where
  "overrides mapping =
     PList (map (\<lambda>(name, col). obj
       [(''matcher'', obj [(''id'', PStr ''byName''), (''options'', PStr name)]),
        (''properties'', PList [obj [(''id'', PStr ''color''),
           (''value'', obj [(''mode'', PStr ''fixed''), (''fixedColor'', PStr col)])]])]) mapping)"

definition grid_pos :: "int \<Rightarrow> int \<Rightarrow> int \<Rightarrow> int \<Rightarrow> pyval" where
  "grid_pos w h x y = obj [(''h'', PInt h), (''w'', PInt w), (''x'', PInt x), (''y'', PInt y)]"

definition letter :: "nat \<Rightarrow> string" where
  \<comment> \<open>\<open>chr(65 + i)\<close>\<close>
  "letter i = [char_of (65 + i)]"

definition targets_of :: "(string \<times> string) list \<Rightarrow> pyval list" where
  \<comment> \<open>\<open>[target(e, l, chr(65 + i)) for i, (e, l) in enumerate(exprs)]\<close>\<close>
  "targets_of exprs = map (\<lambda>(i, e, l). target e l (letter i)) (enumerate 0 exprs)"

definition timeseries ::
  "string \<Rightarrow> (string \<times> string) list \<Rightarrow> string \<Rightarrow> int \<Rightarrow> int \<Rightarrow> int \<Rightarrow> int \<Rightarrow> string
    \<Rightarrow> (string \<times> string) list \<Rightarrow> bool \<Rightarrow> int \<Rightarrow> pyval \<Rightarrow> pyval \<Rightarrow> pyval" where
  \<comment> \<open>the arguments in the order of the parameters, defaults written out\<close>
  "timeseries title exprs unt w h x y desc cols stack fill minimum axis_soft_max = obj
     [(''type'', PStr ''timeseries''), (''title'', PStr title), (''description'', PStr desc),
      (''datasource'', data_source), (''gridPos'', grid_pos w h x y), (''targets'', PList (targets_of exprs)),
      (''fieldConfig'', obj
        [(''defaults'', obj
           [(''unit'', PStr unt), (''min'', minimum),
            (''custom'', obj
              [(''drawStyle'', PStr ''line''), (''lineWidth'', PFloat (Fin (3 / 2))),
               (''fillOpacity'', PInt (if stack then fill else 6)), (''showPoints'', PStr ''never''),
               (''spanNulls'', PBool False),
               (''stacking'', obj [(''mode'', PStr (if stack then ''normal'' else ''none'')), (''group'', PStr ''A'')]),
               (''axisSoftMax'', axis_soft_max), (''gradientMode'', PStr ''opacity'')]),
            (''color'', obj [(''mode'', PStr ''palette-classic'')])]),
         (''overrides'', overrides cols)]),
      (''options'', obj
        [(''legend'', obj [(''displayMode'', PStr ''list''), (''placement'', PStr ''bottom''),
            (''calcs'', PList [PStr ''mean'', PStr ''max''])]),
         (''tooltip'', obj [(''mode'', PStr ''multi''), (''sort'', PStr ''desc'')])])]"

definition threshold :: "pyval \<Rightarrow> string \<Rightarrow> pyval" where
  "threshold v col = obj [(''color'', PStr col), (''value'', v)]"

definition stat ::
  "string \<Rightarrow> string \<Rightarrow> string \<Rightarrow> int \<Rightarrow> int \<Rightarrow> int \<Rightarrow> int \<Rightarrow> string
    \<Rightarrow> (pyval \<times> string) list \<Rightarrow> pyval \<Rightarrow> string \<Rightarrow> pyval" where
  "stat title expr unt w h x y desc thresholds decimals text_mode = obj
     [(''type'', PStr ''stat''), (''title'', PStr title), (''description'', PStr desc),
      (''datasource'', data_source), (''gridPos'', grid_pos w h x y), (''targets'', PList [target expr title ''A'']),
      (''fieldConfig'', obj
        [(''defaults'', obj
           [(''unit'', PStr unt), (''decimals'', decimals),
            (''thresholds'', obj [(''mode'', PStr ''absolute''),
               (''steps'', PList (threshold PNone (colour ''neutral'') # map (\<lambda>(v, col). threshold v col) thresholds))]),
            (''color'', obj [(''mode'', PStr ''thresholds'')])]),
         (''overrides'', PList [])]),
      (''options'', obj
        [(''colorMode'', PStr ''value''), (''graphMode'', PStr ''area''), (''textMode'', PStr text_mode),
         (''reduceOptions'', obj [(''calcs'', PList [PStr ''lastNonNull'']), (''fields'', PStr []), (''values'', PBool False)])])]"

definition text_panel :: "string \<Rightarrow> string \<Rightarrow> int \<Rightarrow> int \<Rightarrow> int \<Rightarrow> int \<Rightarrow> pyval" where
  "text_panel title content w h x y = obj
     [(''type'', PStr ''text''), (''title'', PStr title), (''gridPos'', grid_pos w h x y),
      (''options'', obj [(''mode'', PStr ''markdown''), (''content'', PStr content)])]"

definition row :: "string \<Rightarrow> int \<Rightarrow> pyval" where
  "row title y = obj
     [(''type'', PStr ''row''), (''title'', PStr title), (''gridPos'', grid_pos 24 1 0 y),
      (''collapsed'', PBool False), (''panels'', PList [])]"

definition dashboard :: "string \<Rightarrow> string \<Rightarrow> string \<Rightarrow> pyval list \<Rightarrow> string list \<Rightarrow> string \<Rightarrow> pyval" where
  "dashboard uid title description panels tags refresh = obj
     [(''uid'', PStr uid), (''title'', PStr title), (''description'', PStr description),
      (''tags'', PList (map PStr (''benchmark'' # tags))),
      (''timezone'', PStr ''utc''), (''editable'', PBool True), (''schemaVersion'', PInt 39), (''refresh'', PStr refresh),
      (''time'', obj [(''from'', PStr ''now-1h''), (''to'', PStr ''now'')]),
      (''templating'', obj [(''list'', PList [obj
        [(''name'', PStr ''DS_PROMETHEUS''), (''label'', PStr ''Datasource''), (''type'', PStr ''datasource''),
         (''query'', PStr ''prometheus''),
         (''current'', obj [(''text'', PStr ''Prometheus''), (''value'', PStr ''Prometheus'')]), (''hide'', PInt 0)]])]),
      (''panels'', PList panels),
      (''annotations'', obj [(''list'', PList [obj
        [(''name'', PStr ''Alerts''), (''enable'', PBool True), (''iconColor'', PStr (colour ''bad'')),
         (''datasource'', obj [(''type'', PStr ''datasource''), (''uid'', PStr ''grafana'')]),
         (''target'', obj [(''type'', PStr ''dashboard''), (''limit'', PInt 100), (''matchAny'', PBool True)])]])])]"

section \<open>The dashboards\<close>

definition tier_colours :: "(string \<times> string) list" where
  "tier_colours = [(''minor'', colour ''accepted''), (''major'', colour ''compactor'')]"

definition hm :: "string \<Rightarrow> string \<Rightarrow> string \<times> string" where
  "hm metric legend = (''bench_host_metric{metric=\"'' @ metric @ ''\"}'', legend)"

definition pipeline_panels :: "pyval list" where
  "pipeline_panels =
    [text_panel ''How to read this''
       (''**offered** is what the generator attempted. **accepted** is what the collector acked '' @ em_dash @
          '' and because the export RPC does not return until the batch is durable, accepted is the '' @
          ''only one of the two that means anything about capacity.'' @ [newline] @ [newline] @
          ''A rate counts as **sustainable** only if accepted tracks offered *and* the uncompacted '' @
          ''file backlog is flat. Either one alone will mislead you.'')
       24 4 0 0,
     row ''Rates'' 4,
     stat ''Accepted rec/s'' ''bench_generator_accepted_rps'' ''reqps'' 4 4 0 5
       ''Records acked by the collector in the last generator sample.''
       [] PNone ''auto'',
     stat ''Offered rec/s'' ''bench_generator_offered_rps'' ''reqps'' 4 4 4 5
       ''What the generator attempted. NOT throughput.''
       [] PNone ''auto'',
     stat ''Rejected rec/s'' ''bench_generator_rejected_rps'' ''reqps'' 4 4 8 5
       (''RESOURCE_EXHAUSTED '' @ em_dash @ '' explicit backpressure from the collector.'')
       [(PInt 1, colour ''bad'')] PNone ''auto'',
     stat ''Accepted / offered'' ''bench:accepted_over_offered'' ''percentunit'' 4 4 12 5
       ''Must be >= 0.99 for a level to count as sustainable.''
       [(PFloat (Fin (99 / 100)), colour ''good'')] (PInt 4) ''auto'',
     stat ''Visibility lag'' ''bench_watermark_lag_seconds'' ''s'' 4 4 16 5
       ''B3: now() - newest committed watermark. How stale the lake is.''
       [(PInt 60, colour ''warn''), (PInt 300, colour ''bad'')] PNone ''auto'',
     stat ''Backlog files'' ''bench_backlog_files'' ''short'' 4 4 20 5
       ''B2: live data files registered in the catalog.''
       [] PNone ''auto'',
     timeseries ''Offered vs accepted vs rejected''
       [(''bench_generator_offered_rps'', ''offered''),
        (''bench_generator_accepted_rps'', ''accepted''),
        (''bench_generator_rejected_rps'', ''rejected'')]
       ''reqps'' 24 8 0 9
       (''The single most important panel. A widening gap between offered and accepted is the '' @
          ''pipeline failing to keep up.'')
       [(''offered'', colour ''offered''), (''accepted'', colour ''accepted''), (''rejected'', colour ''rejected'')] False 8 (PInt 0) PNone,
     row (''Backlog '' @ em_dash @ '' three different quantities, never averaged'') 17,
     timeseries (''B2 '' @ em_dash @ '' uncompacted file backlog'')
       [(''bench_backlog_files'', ''live files''),
        (''bench_backlog_small_files'', ''below minor threshold'')]
       ''short'' 12 8 0 18
       (''What compaction drains. A rising trend in steady state means this rate is not '' @
          ''sustainable, regardless of the accept rate.'')
       [(''live files'', colour ''collector''), (''below minor threshold'', colour ''rejected'')] False 8 (PInt 0) PNone,
     timeseries ''B2 slope (files/min)''
       [(''bench:backlog_files_slope_per_min'', ''slope'')]
       ''short'' 12 8 12 18
       (''Positive = falling behind. This is the quantity the sustainability criterion is '' @ ''actually about.'')
       [(''slope'', colour ''warn'')] False 8 PNone PNone,
     timeseries (''B3 '' @ em_dash @ '' end-to-end visibility lag'')
       [(''bench_watermark_lag_seconds'', ''lag'')]
       ''s'' 12 7 0 26
       (''From the watermark table, which is committed in the same transaction as the file '' @ ''registration.'')
       [(''lag'', colour ''compactor'')] False 8 (PInt 0) PNone,
     text_panel (''B1 '' @ em_dash @ '' collector queue depth'')
       (''**Not available.** `writer.pending_batches` and `writer.pending_buckets` are registered '' @
          ''in the collector's `SimpleMeterRegistry`, which has no exporter, and `/health` '' @
          ''publishes only `batchesProcessed`.'' @ [newline] @ [newline] @
          ''Closing this needs a `PrometheusMeterRegistry` in the collector '' @ em_dash @
          '' see `IMPROVEMENTS.md`. Until then, `rejected rec/s` above is the only visible signal '' @
          ''that the in-memory queue is saturating, and by then it is already full.'')
       12 7 12 26,
     row ''Storage and catalog'' 33,
     timeseries ''S3 bytes under the test prefix''
       [(''bench_s3_bytes'', ''bytes'')]
       ''bytes'' 8 7 0 34
       []
       [(''bytes'', colour ''accepted'')] False 8 (PInt 0) PNone,
     timeseries ''Mean live file size''
       [(''bench:mean_live_file_bytes'', ''mean file size'')]
       ''bytes'' 8 7 8 34
       (''Set by the collector's min_bucket_size and max_delay_ms. This is what decides how much '' @
          ''work compaction has to do.'')
       [(''mean file size'', colour ''compactor'')] False 8 (PInt 0) PNone,
     timeseries ''Catalog rows and snapshots''
       [(''bench_backlog_rows'', ''rows in live files''),
        (''bench_catalog_snapshots'', ''snapshots'')]
       ''short'' 8 7 16 34
       []
       [] False 8 (PInt 0) PNone]"

definition d_pipeline :: pyval where
  "d_pipeline =
    dashboard ''bench-pipeline'' (''Pipeline '' @ em_dash @ '' end to end'')
      ''Generator -> collector -> S3/catalog -> compactor, on one screen.''
      pipeline_panels [''pipeline''] ''10s''"

definition generator_panels :: "pyval list" where
  "generator_panels =
    [row ''Throughput'' 0,
     stat ''Records offered'' ''bench_generator_records_offered_total'' ''short'' 4 4 0 1
       []
       [] PNone ''auto'',
     stat ''Records accepted'' ''bench_generator_records_accepted_total'' ''short'' 4 4 4 1
       []
       [] PNone ''auto'',
     stat ''RPCs sent'' ''sum(bench_generator_requests_total)'' ''short'' 4 4 8 1
       []
       [] PNone ''auto'',
     stat ''In flight'' ''bench_generator_inflight'' ''short'' 4 4 12 1
       (''Outstanding export RPCs. Pinned at max_inflight means the generator is the thing being '' @
          ''measured, not the pipeline.'')
       [] PNone ''auto'',
     stat ''Stalled'' ''rate(bench_generator_stalled_ms_total[1m])'' ''ms'' 4 4 16 1
       (''Milliseconds per second the pacer spent blocked on the inflight bound. Any sustained '' @
          ''value means the offered rate was not actually offered.'')
       [(PInt 100, colour ''warn''), (PInt 500, colour ''bad'')] PNone ''auto'',
     stat ''Bytes sent'' ''bench_generator_bytes_sent_total'' ''bytes'' 4 4 20 1
       []
       [] PNone ''auto'',
     timeseries ''Rates''
       [(''bench_generator_offered_rps'', ''offered''),
        (''bench_generator_accepted_rps'', ''accepted''),
        (''bench_generator_rejected_rps'', ''rejected'')]
       ''reqps'' 12 8 0 5
       []
       [(''offered'', colour ''offered''), (''accepted'', colour ''accepted''), (''rejected'', colour ''rejected'')] False 8 (PInt 0) PNone,
     timeseries ''In-flight and stalls''
       [(''bench_generator_inflight'', ''in flight''),
        (''rate(bench_generator_stalled_ms_total[1m])'', ''stalled ms/s'')]
       ''short'' 12 8 12 5
       (''The open loop's one honest limit. When in-flight saturates, the pacer cannot submit on '' @
          ''schedule and the deficit is recorded here rather than hidden by slowing down.'')
       [(''in flight'', colour ''collector''), (''stalled ms/s'', colour ''warn'')] False 8 (PInt 0) PNone,
     row ''Latency'' 13,
     timeseries ''Export RPC latency percentiles''
       [(''histogram_quantile(0.50, sum(rate(bench_generator_export_latency_seconds_bucket[1m])) '' @ ''by (le))'', ''p50''),
        (''histogram_quantile(0.95, sum(rate(bench_generator_export_latency_seconds_bucket[1m])) '' @ ''by (le))'', ''p95''),
        (''histogram_quantile(0.99, sum(rate(bench_generator_export_latency_seconds_bucket[1m])) '' @ ''by (le))'', ''p99'')]
       ''s'' 16 8 0 14
       (''Includes queue wait, the DuckDB COPY to Parquet and the catalog commit '' @ em_dash @
          '' the RPC does not ack until the batch is durable. This is persistence latency, not '' @ ''network time.'')
       [(''p50'', colour ''p50''), (''p95'', colour ''p95''), (''p99'', colour ''p99'')] False 8 (PInt 0) PNone,
     timeseries ''Mean latency''
       [(''rate(bench_generator_export_latency_seconds_sum[1m]) / '' @
          ''clamp_min(rate(bench_generator_export_latency_seconds_count[1m]), 0.001)'', ''mean'')]
       ''s'' 8 8 16 14
       []
       [(''mean'', colour ''neutral'')] False 8 (PInt 0) PNone,
     row ''Errors'' 22,
     timeseries ''Errors by gRPC status''
       [(''sum by (code) (rate(bench_generator_errors_total[1m]))'', ''{{code}}'')]
       ''reqps'' 12 8 0 23
       (''RESOURCE_EXHAUSTED is backpressure, not a bug '' @ em_dash @
          '' but it disqualifies the level. DEADLINE_EXCEEDED usually means a slow flush, and those '' @
          ''records may still have landed.'')
       [] True 8 (PInt 0) PNone,
     timeseries ''Error rate''
       [(''bench:error_rate'', ''error rate'')]
       ''percentunit'' 12 8 12 23
       []
       [(''error rate'', colour ''bad'')] False 8 (PInt 0) PNone]"

definition d_generator :: pyval where
  "d_generator =
    dashboard ''bench-generator'' ''Generator (SERVER 1)''
      ''Open-loop OTLP load generator: rates, latency, in-flight, errors.''
      generator_panels [''generator''] ''10s''"

definition collector_panels :: "pyval list" where
  "collector_panels =
    [text_panel ''Collector observability is limited by design of the build''
       (''The collector is constructed with a `SimpleMeterRegistry`. Its Micrometer meters '' @ em_dash @
          '' `export.records`, `export.latency`, `writer.data_phase_ms`, '' @
          ''`writer.post_ingest_phase_ms`, `writer.pending_batches` '' @ em_dash @
          '' exist in process memory and are **never exported anywhere**.'' @ [newline] @ [newline] @
          ''What is shown below is everything actually observable: the `/health` endpoint (status, '' @
          ''uptime, queue count, `batchesProcessed`), what the generator sees from the client side, '' @
          ''and the effect on the catalog. The single most useful diagnostic in the whole pipeline '' @ em_dash @
          '' `data_phase_ms` vs `post_ingest_phase_ms`, which answers *is the bottleneck DuckDB or '' @
          ''the catalog?* '' @ em_dash @ '' is not reachable. See `IMPROVEMENTS.md`.'')
       24 5 0 0,
     row ''Liveness'' 5,
     stat ''Collector'' ''bench_collector_up'' ''short'' 4 4 0 6
       []
       [(PInt 1, colour ''good'')] PNone ''value'',
     stat ''Uptime'' ''bench_collector_uptime_seconds'' ''s'' 4 4 4 6
       ''A reset means a restart. Restarts during a measured level invalidate it.''
       [] PNone ''auto'',
     stat ''Known queues'' ''bench_collector_known_queues'' ''short'' 4 4 8 6
       []
       [] PNone ''auto'',
     stat ''Batches processed'' ''bench_collector_batches_processed'' ''short'' 4 4 12 6
       ''The only throughput-ish counter /health exposes. Batches, not records.''
       [] PNone ''auto'',
     stat ''Batches/s'' ''rate(bench_collector_batches_processed[1m])'' ''short'' 4 4 16 6
       ''Derived. Multiply by the flush size to sanity-check against accepted rec/s.''
       [] PNone ''auto'',
     stat ''Scrape OK'' ''bench_scrape_ok{source=\"collector\"}'' ''short'' 4 4 20 6
       []
       [(PInt 1, colour ''good'')] PNone ''value'',
     timeseries ''Batches processed (rate)''
       [(''rate(bench_collector_batches_processed[1m])'', ''batches/s'')]
       ''short'' 12 8 0 10
       []
       [(''batches/s'', colour ''collector'')] False 8 (PInt 0) PNone,
     timeseries ''Client-observed accept rate and latency''
       [(''bench_generator_accepted_rps'', ''accepted rec/s''),
        (''histogram_quantile(0.99, sum(rate(bench_generator_export_latency_seconds_bucket[1m])) '' @ ''by (le)) * 1000'', ''p99 ms'')]
       ''short'' 12 8 12 10
       (''From the generator, because the collector does not publish its own. Latency here is the '' @
          ''collector's full write path.'')
       [(''accepted rec/s'', colour ''accepted''), (''p99 ms'', colour ''p99'')] False 8 PNone PNone,
     row ''Effect on the lake'' 18,
     timeseries ''Files and bytes written into the catalog''
       [(''bench_backlog_files'', ''live files''),
        (''rate(bench_backlog_bytes[1m])'', ''bytes/s added'')]
       ''short'' 12 8 0 19
       []
       [] False 8 (PInt 0) PNone,
     timeseries ''PostgreSQL catalog activity''
       [(''bench_pg_connections'', ''connections''),
        (''bench_pg_active_queries'', ''active queries''),
        (''rate(bench_pg_xact_commit_total[1m])'', ''commits/s'')]
       ''short'' 12 8 12 19
       (''Every flush ends in a catalog commit. If commits/s flattens while accepted rec/s keeps '' @
          ''climbing, the catalog is becoming the constraint.'')
       [] False 8 (PInt 0) PNone]"

definition d_collector :: pyval where
  "d_collector =
    dashboard ''bench-collector'' ''Collector (SERVER 2)''
      ''What can actually be observed of the OTLP collector, and what cannot.''
      collector_panels [''collector''] ''10s''"

definition compactor_panels :: "pyval list" where
  "compactor_panels =
    [text_panel (''Two JVMs, one catalog '' @ em_dash @ '' how to read this'')
       (''Since 2026-09-17 compaction is **split across two services** on SERVER 3: '' @
          ''`bench-compactor` owns the **minor** tier (files in [0, 12 MB), 1 s cadence, health '' @
          '':8080) and `bench-compactor-major` owns the **major** tier ([12 MB, 64 MB), 5 min '' @
          ''cadence, health :8090). Every per-tier metric here comes from the service that owns the '' @ ''tier.'' @
          [newline] @ [newline] @ ''**Health reports UP even when every cycle fails** '' @ em_dash @
          '' it is process liveness, not compaction success. *Failed cycles* and *time since last '' @
          ''success* are the real signals. Files **'' @ at_least @
          '' 64 MB sit above every band and nothing compacts them**; the band panels below make '' @
          ''that population visible.'' @ [newline] @ [newline] @
          ''Merge *durations* are still log lines (`LoggingMeterRegistry`), parsed into '' @
          ''`raw/compaction.jsonl` at collection time '' @ em_dash @ '' they appear in the generated report, not here.'')
       24 6 0 0,
     row ''Tier services'' 6,
     stat ''Minor tier'' ''bench_compactor_tier_up{tier=\"minor\"}'' ''short'' 4 4 0 7
       ''The [0, 12 MB) band. systemd bench-compactor, health :8080.''
       [(PInt 1, colour ''good'')] PNone ''value'',
     stat ''Minor uptime'' ''bench_compactor_tier_uptime_seconds{tier=\"minor\"}'' ''s'' 4 4 4 7
       []
       [] PNone ''auto'',
     stat ''Major tier'' ''bench_compactor_tier_up{tier=\"major\"}'' ''short'' 4 4 8 7
       ''The [12 MB, 64 MB) band. systemd bench-compactor-major, health :8090.''
       [(PInt 1, colour ''good'')] PNone ''value'',
     stat ''Major uptime'' ''bench_compactor_tier_uptime_seconds{tier=\"major\"}'' ''s'' 4 4 12 7
       []
       [] PNone ''auto'',
     stat ''Failed cycles'' ''sum(bench_compaction_tier_failed_cycles_total)'' ''short'' 4 4 16 7
       (''Both tiers, since each service's last restart. Health stays UP through these '' @ em_dash @
          '' this number is the success signal, not the UP stat.'')
       [(PInt 1, colour ''warn''), (PInt 10, colour ''bad'')] PNone ''auto'',
     stat ''Files merged'' ''sum(bench_compaction_tier_files_compacted_total)'' ''short'' 4 4 20 7
       (''Both tiers, since each service's last restart. Flat while small files accumulate means '' @
          ''compaction runs but finds nothing mergeable.'')
       [] PNone ''auto'',
     row ''Compaction activity by type'' 11,
     timeseries ''Cycles by type (cumulative)''
       [(''bench_compaction_tier_cycles_total{tier=\"minor\"}'', ''minor''),
        (''bench_compaction_tier_cycles_total{tier=\"major\"}'', ''major'')]
       ''short'' 12 8 0 12
       (''Counts reset when a tier's service restarts. Minor ticks every second and only runs '' @
          ''when its band has work; major runs every 5 minutes.'')
       tier_colours False 8 (PInt 0) PNone,
     timeseries ''Files merged per minute, by type''
       [(''rate(bench_compaction_tier_files_compacted_total{tier=\"minor\"}[10m]) * 60'', ''minor''),
        (''rate(bench_compaction_tier_files_compacted_total{tier=\"major\"}[10m]) * 60'', ''major'')]
       ''short'' 12 8 12 12
       (''The drain rate per tier. If the sum stays below the collector's file creation rate for '' @
          ''long, the backlog grows without bound.'')
       tier_colours False 8 (PInt 0) PNone,
     timeseries ''Time since last successful cycle''
       [(''bench_compaction_tier_last_success_age_seconds{tier=\"minor\"}'', ''minor''),
        (''bench_compaction_tier_last_success_age_seconds{tier=\"major\"}'', ''major'')]
       ''s'' 12 8 0 20
       (''The liveness signal health cannot give you. Minor should stay under ~2 min; major under '' @
          ''~10 min (its cadence is 5 min). A climbing line while the UP stat is green is exactly '' @
          ''the stale-credential failure mode.'')
       tier_colours False 8 (PInt 0) PNone,
     timeseries ''Failed cycles by type (cumulative)''
       [(''bench_compaction_tier_failed_cycles_total{tier=\"minor\"}'', ''minor''),
        (''bench_compaction_tier_failed_cycles_total{tier=\"major\"}'', ''major'')]
       ''short'' 12 8 12 20
       ''Any sustained slope here is an incident, whatever health says.''
       tier_colours False 8 (PInt 0) PNone,
     row (''File-size bands '' @ em_dash @ '' what compaction is fixing'') 28,
     timeseries ''Live files by band (catalog truth)''
       [(''bench_catalog_files_by_band{band=\"small\"}'', ''small [0'' @ en_dash @ ''12 MB) '' @ em_dash @ '' minor band''),
        (''bench_catalog_files_by_band{band=\"medium\"}'', ''medium [12'' @ en_dash @ ''64 MB) '' @ em_dash @ '' major band''),
        (''bench_catalog_files_by_band{band=\"large\"}'', ''large '' @ at_least @ '' 64 MB '' @ em_dash @ '' nothing compacts these'')]
       ''short'' 12 8 0 29
       (''Counted straight from ducklake_data_file, same bands the tiers use. The large series '' @
          ''only ever grows: major's own output lands there and no tier touches it again.'')
       [(''small [0'' @ en_dash @ ''12 MB) '' @ em_dash @ '' minor band'', colour ''accepted''), (''medium [12'' @ en_dash @ ''64 MB) '' @ em_dash @ '' major band'', colour ''warn''), (''large '' @ at_least @ '' 64 MB '' @ em_dash @ '' nothing compacts these'', colour ''bad'')] False 8 (PInt 0) PNone,
     timeseries ''Live bytes by band''
       [(''bench_catalog_bytes_by_band{band=\"small\"}'', ''small [0'' @ en_dash @ ''12 MB)''),
        (''bench_catalog_bytes_by_band{band=\"medium\"}'', ''medium [12'' @ en_dash @ ''64 MB)''),
        (''bench_catalog_bytes_by_band{band=\"large\"}'', ''large '' @ at_least @ '' 64 MB'')]
       ''bytes'' 12 8 12 29
       []
       [(''small [0'' @ en_dash @ ''12 MB)'', colour ''accepted''), (''medium [12'' @ en_dash @ ''64 MB)'', colour ''warn''), (''large '' @ at_least @ '' 64 MB'', colour ''bad'')] False 8 (PInt 0) PNone,
     timeseries ''Band inventory as each tier sees it''
       [(''bench_compactor_tier_band_files{tier=\"minor\"}'', ''minor''),
        (''bench_compactor_tier_band_files{tier=\"major\"}'', ''major'')]
       ''short'' 12 8 0 37
       (''Each service's own count of files inside its band, from /health. Should track the '' @
          ''catalog panels; divergence means a tier's view is stale.'')
       tier_colours False 8 (PInt 0) PNone,
     timeseries ''Mean live file size''
       [(''bench:mean_live_file_bytes'', ''mean'')]
       ''bytes'' 12 8 12 37
       (''Should trend up while compaction runs and there is a backlog to merge. Flat and small '' @
          ''means merges are not happening or not helping.'')
       [(''mean'', colour ''compactor'')] False 8 (PInt 0) PNone,
     row (''Housekeeping '' @ em_dash @ '' runs in the minor JVM only'') 45,
     timeseries ''Snapshots retained''
       [(''bench_catalog_snapshots'', ''snapshots'')]
       ''short'' 12 7 0 46
       (''expire_snapshots trims these to snapshot_retention (15 min). It runs in bench-compactor '' @
          ''only; the major service parks housekeeping at 30 days so the two never race on the '' @
          ''catalog. Unbounded growth = not running.'')
       [(''snapshots'', colour ''neutral'')] False 8 (PInt 0) PNone,
     timeseries ''S3 objects under the prefix''
       [(''bench_s3_objects'', ''objects'')]
       ''short'' 12 7 12 46
       (''Should fall after cleanup_old_files reclaims files superseded by a merge. Objects far '' @
          ''above live files = orphans awaiting cleanup.'')
       [(''objects'', colour ''accepted'')] False 8 (PInt 0) PNone]"

definition d_compactor :: pyval where
  "d_compactor =
    dashboard ''bench-compactor'' ''Compactor (SERVER 3)''
      (''Two-tier DuckLake compaction: per-tier activity, failure signals, file-size bands and '' @ ''housekeeping.'')
      compactor_panels [''compactor''] ''10s''"

definition infra_panels :: "pyval list" where
  "infra_panels =
    [text_panel ''Source and why there is no node_exporter here''
       (''CPU, memory, disk and network for **all three** hosts come from each machine's '' @
          ''`bench-agent`, republished by the pipeline exporter as '' @ ''`bench_host_metric{role=...,metric=...}`.'' @
          [newline] @ [newline] @
          ''There is deliberately no `node_exporter` on SERVER 2 or SERVER 3: that would require '' @
          ''opening port 9100 inbound on each, and the agent already collects the same data at **1 '' @ ''s** '' @
          em_dash @ '' finer than this 15 s scrape. The full-resolution series lands in '' @
          ''`results/<test-id>/raw/host-*.jsonl`, which is what the generated report actually reads.'' @ [newline] @
          [newline] @ ''All three are burstable **t3.large**. CPU credit exhaustion throttles the vCPU and is '' @
          ''indistinguishable from a software regression on these graphs '' @ em_dash @
          '' check `CPUCreditBalance` before concluding anything from a late-run slowdown.'')
       24 5 0 0,
     row ''CPU'' 5,
     timeseries ''CPU utilisation''
       [hm ''cpu_percent'' ''{{role}}'']
       ''percent'' 12 8 0 6
       []
       [(''generator'', colour ''generator''), (''collector'', colour ''collector''), (''compactor'', colour ''compactor'')] False 8 (PInt 0) (PInt 100),
     timeseries ''Watched process CPU''
       [(''bench_process_cpu_percent'', ''{{role}}'')]
       ''percent'' 12 8 12 6
       (''The JVM itself, separated from total host CPU '' @ em_dash @
          '' the gap is everything else on the box, including this monitoring.'')
       [] False 8 (PInt 0) PNone,
     row ''Memory'' 14,
     timeseries ''Memory used''
       [hm ''mem_used_bytes'' ''{{role}}'']
       ''bytes'' 8 8 0 15
       ''No swap on these hosts, so memory pressure becomes an OOM kill rather than a slowdown.''
       [] False 8 (PInt 0) PNone,
     timeseries ''Memory available''
       [hm ''mem_available_bytes'' ''{{role}}'']
       ''bytes'' 8 8 8 15
       []
       [] False 8 (PInt 0) PNone,
     timeseries ''Process RSS''
       [(''bench_process_rss_bytes'', ''{{role}}'')]
       ''bytes'' 8 8 16 15
       ''A slow monotonic rise here across a soak is the leak this test exists to catch.''
       [] False 8 (PInt 0) PNone,
     row ''Disk'' 23,
     timeseries ''Disk throughput''
       [hm ''disk_read_bytes_per_s'' ''read {{role}}'',
        hm ''disk_write_bytes_per_s'' ''write {{role}}'']
       ''Bps'' 12 8 0 24
       []
       [] False 8 (PInt 0) PNone,
     timeseries ''Root filesystem free''
       [hm ''root_free_bytes'' ''{{role}}'']
       ''bytes'' 12 8 12 24
       (''8 GiB root volumes. Filling one is a realistic failure mode for a long run, between '' @
          ''DuckDB spill, Parquet staging and 1 s JSONL.'')
       [] False 8 (PInt 0) PNone,
     row ''Network'' 32,
     timeseries ''Network throughput''
       [hm ''net_rx_bytes_per_s'' ''rx {{role}}'', hm ''net_tx_bytes_per_s'' ''tx {{role}}'']
       ''Bps'' 24 8 0 33
       []
       [] False 8 (PInt 0) PNone,
     row ''Agent liveness'' 41,
     timeseries ''Snapshot age''
       [(''bench_agent_snapshot_age_seconds'', ''{{role}}'')]
       ''s'' 12 7 0 42
       (''Seconds since each agent last wrote its state. A dead agent leaves a snapshot that '' @
          ''reads healthy forever; age is what distinguishes fresh from frozen. Over 90 s is '' @
          ''treated as a scrape failure.'')
       [(''generator'', colour ''generator''), (''collector'', colour ''collector''), (''compactor'', colour ''compactor'')] False 8 (PInt 0) PNone,
     timeseries ''Service restarts and OOM kills''
       [(''bench_service_restarts_total'', ''restarts {{role}}''),
        (''bench_oom_kills_total'', ''oom {{role}}'')]
       ''short'' 12 7 12 42
       (''Both are results, not diagnostics: a restart during a measured level invalidates that '' @ ''level.'')
       [(''restarts collector'', colour ''warn''), (''oom collector'', colour ''bad'')] False 8 (PInt 0) PNone]"

definition d_infra :: pyval where
  "d_infra =
    dashboard ''bench-infra'' ''Infrastructure (all servers)''
      (''CPU, memory, disk and network for all three hosts, from the host-local agents '' @ em_dash @
          '' no inbound monitoring ports required.'')
      infra_panels [''infra''] ''10s''"

definition errors_panels :: "pyval list" where
  "errors_panels =
    [row ''Component health'' 0,
     stat ''Collector up'' ''bench_collector_up'' ''short'' 6 4 0 1
       (''From the loopback health check run by bench-agent ON SERVER 2, pulled here over SSH. No '' @
          ''inbound port involved.'')
       [(PInt 1, colour ''good'')] PNone ''value'',
     stat ''Compactor up'' ''bench_compactor_up'' ''short'' 6 4 6 1
       ''Same, from bench-agent on SERVER 3.''
       [(PInt 1, colour ''good'')] PNone ''value'',
     stat ''Failing scrapes'' ''count(bench_scrape_ok == 0) or vector(0)'' ''short'' 6 4 12 1
       ''Each one is a blind spot in the measurements.''
       [(PInt 1, colour ''bad'')] PNone ''auto'',
     stat ''Error rate'' ''bench:error_rate'' ''percentunit'' 6 4 18 1
       []
       [(PFloat (Fin (1 / 1000)), colour ''warn''), (PFloat (Fin (1 / 100)), colour ''bad'')] (PInt 4) ''auto'',
     row ''Ingestion errors'' 5,
     timeseries ''Errors by gRPC status code''
       [(''sum by (code) (rate(bench_generator_errors_total[1m]))'', ''{{code}}'')]
       ''reqps'' 24 8 0 6
       (''RESOURCE_EXHAUSTED = the collector explicitly refusing work because pending write bytes '' @
          ''exceeded max_pending_write. UNAVAILABLE = the collector is gone. UNAUTHENTICATED = the '' @
          ''JWT secret does not match the deployed collector.'')
       [] True 8 (PInt 0) PNone,
     row ''Scrape health'' 14,
     timeseries ''Scrape success by source''
       [(''bench_scrape_ok'', ''{{source}}'')]
       ''short'' 12 7 0 15
       (''0 for collector or compactor almost always means the security group is dropping '' @
          ''8080/8081, not that the service is down.'')
       [] False 8 (PInt 0) PNone,
     timeseries ''Scrape duration''
       [(''bench_scrape_duration_seconds'', ''{{source}}'')]
       ''s'' 12 7 12 15
       (''The S3 listing is the expensive one; if it climbs, raise s3_interval before assuming '' @
          ''the pipeline slowed down.'')
       [] False 8 (PInt 0) PNone,
     row (''Dependency reachability '' @ em_dash @ '' measured FROM each host'') 22,
     timeseries ''S3 and RDS reachable''
       [(''bench_dependency_up'', ''{{role}} -> {{dependency}}'')]
       ''short'' 12 7 0 23
       (''Each host checks its own dependencies. S3 being reachable from the control node says '' @
          ''nothing about whether the collector can write; this is measured where it matters.'')
       [] False 8 (PInt 0) PNone,
     timeseries ''Dependency latency''
       [(''bench_dependency_latency_ms'', ''{{role}} -> {{dependency}}'')]
       ''ms'' 12 7 12 23
       (''RDS is a TCP connect (single-digit ms on this VPC); S3 is an HTTPS HEAD (~120 ms). A '' @
          ''sustained rise in either precedes write failures.'')
       [] False 8 (PInt 0) PNone,
     row ''Catalog'' 30,
     timeseries ''Rollbacks and deadlocks''
       [(''rate(bench_pg_xact_rollback_total[5m])'', ''rollbacks/s''),
        (''rate(bench_pg_deadlocks_total[5m])'', ''deadlocks/s'')]
       ''short'' 12 7 0 23
       (''Two writers share this catalog. Rollbacks here are the visible edge of '' @
          ''concurrent-writer conflicts between the collector and the compactor.'')
       [(''rollbacks/s'', colour ''warn''), (''deadlocks/s'', colour ''bad'')] False 8 (PInt 0) PNone,
     timeseries ''Longest running query''
       [(''bench_pg_longest_query_seconds'', ''seconds'')]
       ''s'' 12 7 12 23
       []
       [(''seconds'', colour ''warn'')] False 8 (PInt 0) PNone]"

definition d_errors :: pyval where
  "d_errors =
    dashboard ''bench-errors'' ''Errors and health''
      ''Everything that went wrong, and everywhere the measurements are blind.''
      errors_panels [''errors''] ''10s''"

definition storage_panels :: "pyval list" where
  "storage_panels =
    [row ''S3'' 0,
     stat ''Objects'' ''bench_s3_objects'' ''short'' 6 4 0 1
       []
       [] PNone ''auto'',
     stat ''Bytes'' ''bench_s3_bytes'' ''bytes'' 6 4 6 1
       []
       [] PNone ''auto'',
     stat ''Growth'' ''rate(bench_s3_bytes[5m])'' ''Bps'' 6 4 12 1
       []
       [] PNone ''auto'',
     stat ''Mean file size'' ''bench:mean_live_file_bytes'' ''bytes'' 6 4 18 1
       []
       [] PNone ''auto'',
     timeseries ''S3 data growth''
       [(''bench_s3_bytes'', ''bytes under prefix'')]
       ''bytes'' 12 8 0 5
       []
       [(''bytes under prefix'', colour ''accepted'')] False 8 (PInt 0) PNone,
     timeseries ''Objects vs live files''
       [(''bench_s3_objects'', ''S3 objects''),
        (''bench_backlog_files'', ''live files in catalog'')]
       ''short'' 12 8 12 5
       (''Objects well above live files means files superseded by a merge have not been reclaimed '' @
          ''yet. cleanup_old_files does that on the housekeeping timer.'')
       [(''S3 objects'', colour ''accepted''), (''live files in catalog'', colour ''collector'')] False 8 (PInt 0) PNone,
     row ''PostgreSQL catalog'' 13,
     stat ''DB size'' ''bench_pg_database_size_bytes'' ''bytes'' 6 4 0 14
       []
       [] PNone ''auto'',
     stat ''Connections'' ''bench_pg_connections'' ''short'' 6 4 6 14
       []
       [(PInt 40, colour ''warn''), (PInt 80, colour ''bad'')] PNone ''auto'',
     stat ''Snapshots'' ''bench_catalog_snapshots'' ''short'' 6 4 12 14
       []
       [] PNone ''auto'',
     stat ''Commits/s'' ''rate(bench_pg_xact_commit_total[1m])'' ''short'' 6 4 18 14
       []
       [] PNone ''auto'',
     timeseries ''Catalog database size''
       [(''bench_pg_database_size_bytes'', ''bytes'')]
       ''bytes'' 12 8 0 18
       (''Grows with every registered file and every snapshot. Unbounded growth with flat data '' @
          ''volume means snapshots are not being expired.'')
       [(''bytes'', colour ''compactor'')] False 8 (PInt 0) PNone,
     timeseries ''Transaction rate''
       [(''rate(bench_pg_xact_commit_total[1m])'', ''commits/s''),
        (''rate(bench_pg_xact_rollback_total[1m])'', ''rollbacks/s'')]
       ''short'' 12 8 12 18
       []
       [(''commits/s'', colour ''good''), (''rollbacks/s'', colour ''bad'')] False 8 (PInt 0) PNone,
     row ''Rows'' 26,
     timeseries ''Rows in live files''
       [(''bench_backlog_rows'', ''rows''),
        (''bench_watermark_committed_rows'', ''watermark rows'')]
       ''short'' 24 7 0 27
       (''These two should agree. Divergence means the watermark and the file registration, which '' @
          ''are supposed to commit in one transaction, did not.'')
       [] False 8 (PInt 0) PNone]"

definition d_storage :: pyval where
  "d_storage =
    dashboard ''bench-storage'' ''Storage and catalog''
      ''S3 growth, file sizes, and PostgreSQL catalog health.''
      storage_panels [''storage''] ''10s''"

definition dashboards :: "(string \<times> pyval) list" where
  \<comment> \<open>the files \<open>main\<close> writes\<close>
  "dashboards =
     [(''pipeline.json'', d_pipeline), (''generator.json'', d_generator), (''collector.json'', d_collector),
      (''compactor.json'', d_compactor), (''infrastructure.json'', d_infra), (''errors.json'', d_errors),
      (''storage.json'', d_storage)]"

end
