(* ===== verification/DashboardFacts.thy ===== *)
theory DashboardFacts
  imports Dashboards Exporter Metrics
begin

text \<open>
  What the dashboards of \<open>Dashboards\<close> show: where their panels stand on the grid, and whether there is
  a metric for every query. The series of the exporter are those a poll of \<open>Exporter\<close> sets, from snapshots of
  \<open>HostAgent\<close>; the generator's values are those \<open>Metrics\<close> counts, and four names are recording rules.
\<close>

section \<open>Where the panels are\<close>

definition value_at :: "pyval \<Rightarrow> string \<Rightarrow> pyval" where
  "value_at v k = (case v of PDict d \<Rightarrow> dget_or d k PNone | _ \<Rightarrow> PNone)"

definition items_at :: "pyval \<Rightarrow> string \<Rightarrow> pyval list" where
  "items_at v k = (case value_at v k of PList xs \<Rightarrow> xs | _ \<Rightarrow> [])"

definition text_at :: "pyval \<Rightarrow> string \<Rightarrow> string" where
  "text_at v k = (case value_at v k of PStr s \<Rightarrow> s | _ \<Rightarrow> [])"

definition int_at :: "pyval \<Rightarrow> string \<Rightarrow> int" where
  "int_at v k = (case value_at v k of PInt i \<Rightarrow> i | _ \<Rightarrow> 0)"

type_synonym place = "int \<times> int \<times> int \<times> int"

definition place_of :: "pyval \<Rightarrow> place" where
  \<comment> \<open>width, height, column, line\<close>
  "place_of p =
     (let g = value_at p ''gridPos'' in (int_at g ''w'', int_at g ''h'', int_at g ''x'', int_at g ''y''))"

definition placed :: "pyval list \<Rightarrow> (string \<times> place) list" where
  "placed ps = map (\<lambda>p. (text_at p ''title'', place_of p)) ps"

definition overlap :: "place \<Rightarrow> place \<Rightarrow> bool" where
  "overlap a b =
     (case (a, b) of ((w, h, x, y), (w', h', x', y')) \<Rightarrow> x < x' + w' \<and> x' < x + w \<and> y < y' + h' \<and> y' < y + h)"

fun overlapping :: "(string \<times> place) list \<Rightarrow> (string \<times> string) list" where
  "overlapping [] = []"
| "overlapping (p # ps) = map (\<lambda>q. (fst p, fst q)) (filter (\<lambda>q. overlap (snd p) (snd q)) ps) @ overlapping ps"

definition in_columns :: "place \<Rightarrow> bool" where
  \<comment> \<open>Grafana's grid has 24 columns\<close>
  "in_columns a = (case a of (w, h, x, y) \<Rightarrow> 0 < w \<and> 0 < h \<and> 0 \<le> x \<and> x + w \<le> 24 \<and> 0 \<le> y)"

lemma value_at_obj: "value_at (obj kvs) k = (case map_of kvs k of None \<Rightarrow> PNone | Some v \<Rightarrow> v)"
proof -
  have "dget (map (\<lambda>(k, v). (KStr k, v)) kvs) (k :: string) = map_of kvs k" by (induction kvs) auto
  then show ?thesis by (simp add: value_at_def obj_def dget_or_def)
qed

lemmas at_defs = items_at_def text_at_def int_at_def value_at_obj

lemma place_of_panels [simp]:
  "place_of (timeseries t es u w h x y d cs st f mi ax) = (w, h, x, y)"
  "place_of (stat t e u w h x y d th de tm) = (w, h, x, y)"
  "place_of (text_panel t c w h x y) = (w, h, x, y)"
  "place_of (row t y) = (24, 1, 0, y)"
  by (simp_all add: place_of_def timeseries_def stat_def text_panel_def row_def grid_pos_def at_defs)

lemma title_of_panels [simp]:
  "text_at (timeseries t es u w h x y d cs st f mi ax) ''title'' = t"
  "text_at (stat t e u w h x y d th de tm) ''title'' = t"
  "text_at (text_panel t c w h x y) ''title'' = t"
  "text_at (row t y) ''title'' = t"
  by (simp_all add: timeseries_def stat_def text_panel_def row_def at_defs)

lemma panels_of_dashboard [simp]: "items_at (dashboard uid t d ps tags r) ''panels'' = ps"
  by (simp add: dashboard_def at_defs)

lemma placed_simps [simp]: "placed [] = []" "placed (p # ps) = (text_at p ''title'', place_of p) # placed ps"
  by (simp_all add: placed_def)


lemma panels_apart:
  "overlapping (placed pipeline_panels) = []" "overlapping (placed generator_panels) = []" "overlapping (placed collector_panels) = []"
  "overlapping (placed compactor_panels) = []" "overlapping (placed infra_panels) = []" "overlapping (placed storage_panels) = []"
  by (simp_all add: pipeline_panels_def generator_panels_def collector_panels_def compactor_panels_def infra_panels_def
    storage_panels_def overlap_def)

lemma errors_overlap:
  "overlapping (placed errors_panels) =
     [(''S3 and RDS reachable'', ''Rollbacks and deadlocks''), (''Dependency latency'', ''Longest running query'')]"
  by (simp add: errors_panels_def overlap_def)

section \<open>What the panels ask for\<close>

definition separates :: "char \<Rightarrow> bool" where
  "separates c \<longleftrightarrow> c \<in> set '' (){}[],*/''"

definition matcher :: "string \<Rightarrow> string" where
  \<comment> \<open>what stands in braces after a name\<close>
  "matcher r = (case r of c # cs \<Rightarrow> if c = CHR ''{'' then takeWhile (\<lambda>c. c \<noteq> CHR ''}'') cs else [] | [] \<Rightarrow> [])"

function words_in :: "string \<Rightarrow> (string \<times> string) list" where
  "words_in [] = []"
| "words_in (c # cs) =
     (if separates c then words_in cs
      else let r = dropWhile (\<lambda>c. \<not> separates c) cs in (c # takeWhile (\<lambda>c. \<not> separates c) cs, matcher r) # words_in r)"
  by pat_completeness auto
termination
  by (relation "measure length") (auto simp: le_imp_less_Suc length_dropWhile_le)

definition queried :: "string \<Rightarrow> (string \<times> string) list" where
  \<comment> \<open>the metrics of an expression, all of which are the bench's\<close>
  "queried expr = filter (\<lambda>q. starts_with ''bench'' (fst q)) (words_in expr)"

definition exprs_of :: "pyval \<Rightarrow> string list" where
  "exprs_of p = map (\<lambda>t. text_at t ''expr'') (items_at p ''targets'')"

definition exposed :: "prom \<Rightarrow> (string \<times> rat) list" where
  \<comment> \<open>\<open>_PromMetrics\<close>: the name each metric is exposed by, summed over its labels, and the three series of the histogram\<close>
  "exposed p =
     [(''bench_generator_records_offered_total'', of_int (pr_offered p)), (''bench_generator_records_accepted_total'', of_int (pr_accepted p)),
      (''bench_generator_requests_total'', of_int (pr_success p + pr_failure p)),
      (''bench_generator_errors_total'', of_int (sum_list (map snd (pr_errors p)))),
      (''bench_generator_bytes_sent_total'', of_int (pr_bytes p)), (''bench_generator_stalled_ms_total'', pr_stalled p),
      (''bench_generator_inflight'', of_int (pr_inflight p)), (''bench_generator_offered_rps'', pr_offered_rps p),
      (''bench_generator_accepted_rps'', pr_accepted_rps p), (''bench_generator_rejected_rps'', pr_rejected_rps p),
      (''bench_generator_export_latency_seconds_bucket'', of_nat (length (pr_latencies p))),
      (''bench_generator_export_latency_seconds_sum'', sum_list (pr_latencies p)),
      (''bench_generator_export_latency_seconds_count'', of_nat (length (pr_latencies p)))]"

definition recording_rules :: "(string \<times> string) list" where
  \<comment> \<open>\<open>monitoring/prometheus/rules/pipeline.yml\<close>: the name of each rule and its expression\<close>
  "recording_rules =
     [(''bench:accepted_over_offered'', ''rate(bench_generator_records_accepted_total[1m])'' @ [newline] @
         ''  / clamp_min(rate(bench_generator_records_offered_total[1m]), 0.001)'' @ [newline]),
      (''bench:error_rate'', ''sum(rate(bench_generator_errors_total[1m]))'' @ [newline] @
         ''  / clamp_min(sum(rate(bench_generator_requests_total[1m])), 0.001)'' @ [newline]),
      (''bench:backlog_files_slope_per_min'', ''deriv(bench_backlog_files[10m]) * 60''),
      (''bench:mean_live_file_bytes'', ''bench_backlog_bytes / clamp_min(bench_backlog_files, 1)'')]"

definition matcher_text :: "string \<times> string \<Rightarrow> string" where
  "matcher_text kv = fst kv @ ''=\"'' @ snd kv @ ''\"''"

definition meets :: "series \<Rightarrow> string \<times> string \<Rightarrow> bool" where
  \<comment> \<open>a series has the name a query asks for, and a label that its condition demands\<close>
  "meets s q \<longleftrightarrow> fst s = fst q \<and> (snd q = [] \<or> snd q \<in> set (map matcher_text (snd s)))"

definition shown_by :: "gauges \<Rightarrow> string \<times> string \<Rightarrow> bool" where
  "shown_by g q \<longleftrightarrow> (\<exists>s. g s \<noteq> None \<and> meets s q)"

definition counted_by :: "prom \<Rightarrow> string \<times> string \<Rightarrow> bool" where
  \<comment> \<open>the generator's value has moved\<close>
  "counted_by p q \<longleftrightarrow> snd q = [] \<and> (case map_of (exposed p) (fst q) of None \<Rightarrow> False | Some x \<Rightarrow> x \<noteq> 0)"

definition measured :: "gauges \<Rightarrow> prom \<Rightarrow> string \<times> string \<Rightarrow> bool" where
  "measured g p q \<longleftrightarrow> shown_by g q \<or> counted_by p q"

definition ruled :: "gauges \<Rightarrow> prom \<Rightarrow> string \<times> string \<Rightarrow> bool" where
  \<comment> \<open>there is a recording rule of that name, and all it is computed from is measured\<close>
  "ruled g p q \<longleftrightarrow> snd q = []
     \<and> (case map_of recording_rules (fst q) of None \<Rightarrow> False | Some expr \<Rightarrow> list_all (measured g p) (queried expr))"

definition answered :: "gauges \<Rightarrow> prom \<Rightarrow> string \<times> string \<Rightarrow> bool" where
  "answered g p q \<longleftrightarrow> measured g p q \<or> ruled g p q"

lemma exprs_of_panels [simp]:
  "exprs_of (timeseries t es u w h x y d cs st f mi ax) = map fst es"
  "exprs_of (stat t e u w h x y d th de tm) = [e]"
  "exprs_of (text_panel t c w h x y) = []"
  "exprs_of (row t y) = []"
proof -
  have "map (\<lambda>(i, e, l). e) (enumerate n es) = map fst es" for n by (induction es arbitrary: n) auto
  then show "exprs_of (timeseries t es u w h x y d cs st f mi ax) = map fst es"
    by (simp add: exprs_of_def timeseries_def at_defs targets_of_def target_def comp_def case_prod_unfold)
qed (simp_all add: exprs_of_def stat_def text_panel_def row_def at_defs target_def)


definition queries_of :: "pyval list \<Rightarrow> (string \<times> string) list" where
  "queries_of ps = concat (map queried (concat (map exprs_of ps)))"

lemma pipeline_queries:
  "queries_of pipeline_panels =
     [(''bench_generator_accepted_rps'', []), (''bench_generator_offered_rps'', []), (''bench_generator_rejected_rps'', []),
      (''bench:accepted_over_offered'', []), (''bench_watermark_lag_seconds'', []), (''bench_backlog_files'', []),
      (''bench_generator_offered_rps'', []), (''bench_generator_accepted_rps'', []), (''bench_generator_rejected_rps'', []),
      (''bench_backlog_files'', []), (''bench_backlog_small_files'', []), (''bench:backlog_files_slope_per_min'', []),
      (''bench_watermark_lag_seconds'', []), (''bench_s3_bytes'', []), (''bench:mean_live_file_bytes'', []),
      (''bench_backlog_rows'', []), (''bench_catalog_snapshots'', [])]"
  unfolding pipeline_panels_def queries_of_def by (simp add: hm_def) code_simp

lemma generator_queries:
  "queries_of generator_panels =
     [(''bench_generator_records_offered_total'', []), (''bench_generator_records_accepted_total'', []),
      (''bench_generator_requests_total'', []), (''bench_generator_inflight'', []),
      (''bench_generator_stalled_ms_total'', []), (''bench_generator_bytes_sent_total'', []),
      (''bench_generator_offered_rps'', []), (''bench_generator_accepted_rps'', []), (''bench_generator_rejected_rps'', []),
      (''bench_generator_inflight'', []), (''bench_generator_stalled_ms_total'', []),
      (''bench_generator_export_latency_seconds_bucket'', []), (''bench_generator_export_latency_seconds_bucket'', []),
      (''bench_generator_export_latency_seconds_bucket'', []), (''bench_generator_export_latency_seconds_sum'', []),
      (''bench_generator_export_latency_seconds_count'', []), (''bench_generator_errors_total'', []),
      (''bench:error_rate'', [])]"
  unfolding generator_panels_def queries_of_def by (simp add: hm_def) code_simp

lemma collector_queries:
  "queries_of collector_panels =
     [(''bench_collector_up'', []), (''bench_collector_uptime_seconds'', []), (''bench_collector_known_queues'', []),
      (''bench_collector_batches_processed'', []), (''bench_collector_batches_processed'', []),
      (''bench_scrape_ok'', ''source=\"collector\"''), (''bench_collector_batches_processed'', []),
      (''bench_generator_accepted_rps'', []), (''bench_generator_export_latency_seconds_bucket'', []),
      (''bench_backlog_files'', []), (''bench_backlog_bytes'', []), (''bench_pg_connections'', []),
      (''bench_pg_active_queries'', []), (''bench_pg_xact_commit_total'', [])]"
  unfolding collector_panels_def queries_of_def by (simp add: hm_def) code_simp

lemma compactor_queries:
  "queries_of compactor_panels =
     [(''bench_compactor_tier_up'', ''tier=\"minor\"''), (''bench_compactor_tier_uptime_seconds'', ''tier=\"minor\"''),
      (''bench_compactor_tier_up'', ''tier=\"major\"''), (''bench_compactor_tier_uptime_seconds'', ''tier=\"major\"''),
      (''bench_compaction_tier_failed_cycles_total'', []), (''bench_compaction_tier_files_compacted_total'', []),
      (''bench_compaction_tier_cycles_total'', ''tier=\"minor\"''),
      (''bench_compaction_tier_cycles_total'', ''tier=\"major\"''),
      (''bench_compaction_tier_files_compacted_total'', ''tier=\"minor\"''),
      (''bench_compaction_tier_files_compacted_total'', ''tier=\"major\"''),
      (''bench_compaction_tier_last_success_age_seconds'', ''tier=\"minor\"''),
      (''bench_compaction_tier_last_success_age_seconds'', ''tier=\"major\"''),
      (''bench_compaction_tier_failed_cycles_total'', ''tier=\"minor\"''),
      (''bench_compaction_tier_failed_cycles_total'', ''tier=\"major\"''),
      (''bench_catalog_files_by_band'', ''band=\"small\"''), (''bench_catalog_files_by_band'', ''band=\"medium\"''),
      (''bench_catalog_files_by_band'', ''band=\"large\"''), (''bench_catalog_bytes_by_band'', ''band=\"small\"''),
      (''bench_catalog_bytes_by_band'', ''band=\"medium\"''), (''bench_catalog_bytes_by_band'', ''band=\"large\"''),
      (''bench_compactor_tier_band_files'', ''tier=\"minor\"''), (''bench_compactor_tier_band_files'', ''tier=\"major\"''),
      (''bench:mean_live_file_bytes'', []), (''bench_catalog_snapshots'', []), (''bench_s3_objects'', [])]"
  unfolding compactor_panels_def queries_of_def by (simp add: hm_def) code_simp

lemma infra_queries:
  "queries_of infra_panels =
     [(''bench_host_metric'', ''metric=\"cpu_percent\"''), (''bench_process_cpu_percent'', []),
      (''bench_host_metric'', ''metric=\"mem_used_bytes\"''), (''bench_host_metric'', ''metric=\"mem_available_bytes\"''),
      (''bench_process_rss_bytes'', []), (''bench_host_metric'', ''metric=\"disk_read_bytes_per_s\"''),
      (''bench_host_metric'', ''metric=\"disk_write_bytes_per_s\"''),
      (''bench_host_metric'', ''metric=\"root_free_bytes\"''), (''bench_host_metric'', ''metric=\"net_rx_bytes_per_s\"''),
      (''bench_host_metric'', ''metric=\"net_tx_bytes_per_s\"''), (''bench_agent_snapshot_age_seconds'', []),
      (''bench_service_restarts_total'', []), (''bench_oom_kills_total'', [])]"
  unfolding infra_panels_def queries_of_def by (simp add: hm_def) code_simp

lemma errors_queries:
  "queries_of errors_panels =
     [(''bench_collector_up'', []), (''bench_compactor_up'', []), (''bench_scrape_ok'', []), (''bench:error_rate'', []),
      (''bench_generator_errors_total'', []), (''bench_scrape_ok'', []), (''bench_scrape_duration_seconds'', []),
      (''bench_dependency_up'', []), (''bench_dependency_latency_ms'', []), (''bench_pg_xact_rollback_total'', []),
      (''bench_pg_deadlocks_total'', []), (''bench_pg_longest_query_seconds'', [])]"
  unfolding errors_panels_def queries_of_def by (simp add: hm_def) code_simp

lemma storage_queries:
  "queries_of storage_panels =
     [(''bench_s3_objects'', []), (''bench_s3_bytes'', []), (''bench_s3_bytes'', []), (''bench:mean_live_file_bytes'', []),
      (''bench_s3_bytes'', []), (''bench_s3_objects'', []), (''bench_backlog_files'', []),
      (''bench_pg_database_size_bytes'', []), (''bench_pg_connections'', []), (''bench_catalog_snapshots'', []),
      (''bench_pg_xact_commit_total'', []), (''bench_pg_database_size_bytes'', []), (''bench_pg_xact_commit_total'', []),
      (''bench_pg_xact_rollback_total'', []), (''bench_backlog_rows'', []), (''bench_watermark_committed_rows'', [])]"
  unfolding storage_panels_def queries_of_def by (simp add: hm_def) code_simp

section \<open>A poll with everything up\<close>

definition compactor_doc :: "string \<Rightarrow> pyval" where
  \<comment> \<open>what a service of the compactor answers on \<open>/health\<close>\<close>
  "compactor_doc tier =
     PDict [(KStr ''status'', PStr ''UP''), (KStr ''uptime'', PStr ''PT5M''),
       (KStr ''databases'', PDict [(KStr ''bench'', PDict
          [(KStr ''tiers'', PDict [(KStr tier, PDict [(KStr ''totalCompactions'', PInt 3), (KStr ''currentFiles'', PInt 8)])]),
           (KStr ''totalFilesCompacted'', PInt 40), (KStr ''totalFailedCycles'', PInt 0), (KStr ''currentTotalFiles'', PInt 9),
           (KStr ''lastSuccessTime'', PStr ''1970-01-01T00:15:00Z'')])])]"

definition collector_doc :: pyval where
  "collector_doc = PDict [(KStr ''status'', PStr ''HEALTHY''), (KStr ''uptimeSeconds'', PInt 60), (KStr ''batchesProcessed'', PInt 5),
     (KStr ''knownQueues'', PInt 1)]"

definition up_sample :: "pyval \<Rightarrow> sample" where
  \<comment> \<open>what the agent beside a service measures, the service answering that document\<close>
  "up_sample doc = sampled\<lparr>sm_process := Some \<lparr>wa_pid = 7, wa_cpu = 50, wa_rss = 4096, wa_threads = 9, wa_jvm = None\<rparr>, sm_oom := Some 0,
     sm_checks := \<lparr>de_health = check_health (\<lambda>_. Some doc) ''http://127.0.0.1:8081/health'' (1 / 100) (Status 200 ''{}''),
       de_s3 = check_s3 ''lake'' ''eu-west-1'' (1 / 50) (Status 403 []), de_rds = check_tcp ''db'' 5432 (1 / 500) None,
       de_unit = [(KStr ''configured'', PBool True), (KStr ''ok'', PBool True), (KStr ''restarts'', PInt 0)]\<rparr>\<rparr>"

definition all_up :: world where
  \<comment> \<open>the snapshots are those the agents write\<close>
  "all_up =
     \<lparr>wo_now = 1000, wo_iso = ''t'',
      wo_collector = Inr (PDict (health_snapshot ''collector'' ''h2'' 990 ''t'' (Some 5, Some 9) (up_sample collector_doc))),
      wo_compactor = Inr (PDict (health_snapshot ''compactor'' ''h3'' 995 ''t'' (Some 5, Some 9) (up_sample (compactor_doc ''minor'')))),
      wo_major = Inr (compactor_doc ''major''),
      wo_catalog = no_catalog\<lparr>ct_connect := None, ct_files := (\<lambda>_. [\<lparr>df_ended = False, df_size = 100, df_rows = 1\<rparr>])\<rparr>,
      wo_watermark = Inr [(990, 7)],
      wo_listing = (\<lambda>_. Inr \<lparr>pg_sizes = [10, 20], pg_truncated = False, pg_next = None\<rparr>), wo_took = (\<lambda>_. 1)\<rparr>"

definition some_calls :: "mcall list" where
  \<comment> \<open>two requests, of which one is refused and one is acknowledged, one still under way, and a sample\<close>
  "some_calls =
     [CInflight 1, COffered 10 500, CSuccess 10 (1 / 2), COffered 10 500, CStall (1 / 4), CFailure 10 (1 / 2) ''RESOURCE_EXHAUSTED'', CFlush 1 ''t'']"

definition up_series :: "series list" where
  "up_series =
     map plain [''bench_collector_up'', ''bench_collector_uptime_seconds'', ''bench_collector_batches_processed'', ''bench_collector_known_queues'',
       ''bench_compactor_up'', ''bench_backlog_files'', ''bench_backlog_bytes'', ''bench_backlog_rows'', ''bench_backlog_small_files'',
       ''bench_watermark_lag_seconds'', ''bench_watermark_committed_rows'', ''bench_catalog_snapshots'', ''bench_pg_connections'',
       ''bench_pg_active_queries'', ''bench_pg_longest_query_seconds'', ''bench_pg_database_size_bytes'', ''bench_pg_xact_commit_total'',
       ''bench_pg_xact_rollback_total'', ''bench_pg_deadlocks_total'', ''bench_s3_objects'', ''bench_s3_bytes'']
     @ map (\<lambda>n. of_role n ''collector'') [''bench_agent_snapshot_age_seconds'', ''bench_service_restarts_total'', ''bench_oom_kills_total'',
       ''bench_process_rss_bytes'', ''bench_process_cpu_percent'']
     @ map (\<lambda>n. (n, [(''role'', ''collector''), (''dependency'', ''s3'')])) [''bench_dependency_up'', ''bench_dependency_latency_ms'']
     @ map (host_series ''collector'') host_metrics
     @ concat (map (\<lambda>tier. map (\<lambda>n. (n, [(''tier'', tier)])) [''bench_compactor_tier_up'', ''bench_compactor_tier_uptime_seconds'']
         @ map (\<lambda>n. of_tier n ''bench'' tier) [''bench_compaction_tier_cycles_total'', ''bench_compaction_tier_failed_cycles_total'',
             ''bench_compaction_tier_files_compacted_total'', ''bench_compactor_tier_band_files'', ''bench_compaction_tier_last_success_age_seconds''])
         [''minor'', ''major''])
     @ concat (map (\<lambda>band. [(''bench_catalog_files_by_band'', [(''band'', band)]), (''bench_catalog_bytes_by_band'', [(''band'', band)])]) band_names)
     @ map (of_source ''bench_scrape_ok'') [''collector''] @ map (of_source ''bench_scrape_duration_seconds'') [''collector'']"

declare list_objects.simps [code]

lemma all_up_polled:
  obtains se where "poll_once (\<lambda>_. ''down'') demo_xs all_up new_exporter = Some se"
    and "list_all (\<lambda>s. ex_gauges (snd se) s \<noteq> None) up_series"
proof -
  have "map_option (\<lambda>se. list_all (\<lambda>s. ex_gauges (snd se) s \<noteq> None) up_series) (poll_once (\<lambda>_. ''down'') demo_xs all_up new_exporter) = Some True"
    by code_simp
  then show thesis using that by (auto simp: map_option_case split: option.splits)
qed

lemma some_calls_counted:
  obtains p where "m_prom (mrun (init_metrics ''t'' 1 True 0) some_calls) = Some p" and "list_all (\<lambda>(name, x). x \<noteq> 0) (exposed p)"
proof -
  have "map_option (\<lambda>p. list_all (\<lambda>(name, x). x \<noteq> 0) (exposed p)) (m_prom (mrun (init_metrics ''t'' 1 True 0) some_calls)) = Some True"
    by code_simp
  then show thesis using that by (auto simp: map_option_case split: option.splits)
qed

section \<open>Every query is answered\<close>

definition generator_names :: "string list" where
  "generator_names = map fst (exposed zero_prom)"

definition found :: "string \<times> string \<Rightarrow> bool" where
  "found q \<longleftrightarrow> list_ex (\<lambda>s. meets s q) up_series \<or> (snd q = [] \<and> List.member generator_names (fst q))"

lemma found_measured:
  assumes "list_all (\<lambda>s. g s \<noteq> None) up_series" and "list_all (\<lambda>(name, x). x \<noteq> 0) (exposed p)" and "found q"
  shows "measured g p q"
proof (cases "list_ex (\<lambda>s. meets s q) up_series")
  case True
  then obtain s where "s \<in> set up_series" "meets s q" by (auto simp: list_ex_iff)
  moreover from this have "g s \<noteq> None" using assms(1) by (auto simp: list_all_iff)
  ultimately have "shown_by g q" unfolding shown_by_def by blast
  then show ?thesis by (simp add: measured_def)
next
  case False
  then have q: "snd q = []" "fst q \<in> set (map fst (exposed p))"
    using assms(3) by (auto simp: found_def generator_names_def exposed_def)
  then obtain x where "map_of (exposed p) (fst q) = Some x" by (metis map_of_eq_None_iff not_None_eq set_map)
  moreover from this have "x \<noteq> 0" using assms(2) by (auto simp: list_all_iff dest!: map_of_SomeD)
  ultimately show ?thesis using q(1) by (simp add: measured_def counted_by_def)
qed

definition found_or_ruled :: "string \<times> string \<Rightarrow> bool" where
  "found_or_ruled q \<longleftrightarrow> found q
     \<or> (snd q = [] \<and> (case map_of recording_rules (fst q) of None \<Rightarrow> False | Some expr \<Rightarrow> list_all found (queried expr)))"

lemma found_too: "found q \<Longrightarrow> found_or_ruled q"
  by (simp add: found_or_ruled_def)

lemma found_answered:
  assumes "list_all (\<lambda>s. g s \<noteq> None) up_series" and "list_all (\<lambda>(name, x). x \<noteq> 0) (exposed p)" and "found_or_ruled q"
  shows "answered g p q"
proof (cases "found q")
  case True
  then show ?thesis using found_measured [OF assms(1,2)] by (simp add: answered_def)
next
  case False
  then obtain expr where e: "snd q = []" "map_of recording_rules (fst q) = Some expr" "list_all found (queried expr)"
    using assms(3) by (auto simp: found_or_ruled_def split: option.splits)
  have "list_all (measured g p) (queried expr)" using e(3) found_measured [OF assms(1,2)] by (rule list.pred_mono_strong)
  then show ?thesis using e(1,2) by (simp add: answered_def ruled_def)
qed

definition offers :: "(string \<times> string) list" where
  "offers =
     map (\<lambda>n. (n, [])) generator_names
     @ concat (map (\<lambda>s. (fst s, []) # map (\<lambda>kv. (fst s, matcher_text kv)) (snd s)) up_series)"

lemma offers_found: "list_all found offers"
  by (fastforce simp: offers_def list_all_iff found_def list_ex_iff meets_def)

lemmas series_shapes = plain_def of_role_def of_source_def of_tier_def host_series_def host_metrics_def band_names_def matcher_text_def

lemmas found_simps = offers_found [unfolded offers_def up_series_def generator_names_def exposed_def series_shapes, simplified]

lemma rules_found:
  "found_or_ruled (''bench:accepted_over_offered'', [])" "found_or_ruled (''bench:error_rate'', [])"
  "found_or_ruled (''bench:backlog_files_slope_per_min'', [])" "found_or_ruled (''bench:mean_live_file_bytes'', [])"
proof -
  have q: "map (\<lambda>(name, expr). (name, queried expr)) recording_rules =
     [(''bench:accepted_over_offered'', [(''bench_generator_records_accepted_total'', []), (''bench_generator_records_offered_total'', [])]),
      (''bench:error_rate'', [(''bench_generator_errors_total'', []), (''bench_generator_requests_total'', [])]),
      (''bench:backlog_files_slope_per_min'', [(''bench_backlog_files'', [])]),
      (''bench:mean_live_file_bytes'', [(''bench_backlog_bytes'', []), (''bench_backlog_files'', [])])]" by code_simp
  then show "found_or_ruled (''bench:accepted_over_offered'', [])" "found_or_ruled (''bench:error_rate'', [])"
    "found_or_ruled (''bench:backlog_files_slope_per_min'', [])" "found_or_ruled (''bench:mean_live_file_bytes'', [])"
    by (simp_all add: found_or_ruled_def recording_rules_def found_simps)
qed

lemma queries_found:
  "list_all found_or_ruled (queries_of pipeline_panels)" "list_all found_or_ruled (queries_of generator_panels)"
  "list_all found_or_ruled (queries_of collector_panels)" "list_all found_or_ruled (queries_of compactor_panels)"
  "list_all found_or_ruled (queries_of infra_panels)" "list_all found_or_ruled (queries_of errors_panels)"
  "list_all found_or_ruled (queries_of storage_panels)"
  by (simp_all only: pipeline_queries generator_queries collector_queries compactor_queries infra_queries errors_queries storage_queries
    list.pred_inject rules_found found_too found_simps simp_thms)

section \<open>The seven files\<close>

lemma on_dashboards:
  "map (\<lambda>(file, d). (file, f (items_at d ''panels''))) dashboards =
     [(''pipeline.json'', f pipeline_panels), (''generator.json'', f generator_panels), (''collector.json'', f collector_panels),
      (''compactor.json'', f compactor_panels), (''infrastructure.json'', f infra_panels), (''errors.json'', f errors_panels),
      (''storage.json'', f storage_panels)]"
  by (simp add: dashboards_def d_pipeline_def d_generator_def d_collector_def d_compactor_def d_infra_def d_errors_def d_storage_def)

lemma panels_in_columns:
  "list_all (\<lambda>p. in_columns (place_of p)) pipeline_panels" "list_all (\<lambda>p. in_columns (place_of p)) generator_panels"
  "list_all (\<lambda>p. in_columns (place_of p)) collector_panels" "list_all (\<lambda>p. in_columns (place_of p)) compactor_panels"
  "list_all (\<lambda>p. in_columns (place_of p)) infra_panels" "list_all (\<lambda>p. in_columns (place_of p)) errors_panels"
  "list_all (\<lambda>p. in_columns (place_of p)) storage_panels"
  by (simp_all add: pipeline_panels_def generator_panels_def collector_panels_def compactor_panels_def infra_panels_def
    errors_panels_def storage_panels_def in_columns_def)

text \<open>No panel covers another, except on one dashboard. On six of the seven dashboards no two panels share a
  cell of the grid; on the one for errors the two panels of the catalog's section stand where the two panels of
  the section before it stand. Every panel of all seven lies within the 24 columns.\<close>

theorem panels_overlap_on_errors_only:
  "map (\<lambda>(file, d). (file, overlapping (placed (items_at d ''panels'')))) dashboards =
     [(''pipeline.json'', []), (''generator.json'', []), (''collector.json'', []), (''compactor.json'', []),
      (''infrastructure.json'', []),
      (''errors.json'', [(''S3 and RDS reachable'', ''Rollbacks and deadlocks''), (''Dependency latency'', ''Longest running query'')]),
      (''storage.json'', [])]
   \<and> list_all (\<lambda>(file, d). list_all (\<lambda>p. in_columns (place_of p)) (items_at d ''panels'')) dashboards"
proof
  show "map (\<lambda>(file, d). (file, overlapping (placed (items_at d ''panels'')))) dashboards =
     [(''pipeline.json'', []), (''generator.json'', []), (''collector.json'', []), (''compactor.json'', []),
      (''infrastructure.json'', []),
      (''errors.json'', [(''S3 and RDS reachable'', ''Rollbacks and deadlocks''), (''Dependency latency'', ''Longest running query'')]),
      (''storage.json'', [])]"
    unfolding on_dashboards [of "\<lambda>ps. overlapping (placed ps)"] by (simp only: panels_apart errors_overlap)
  have "list_all (\<lambda>(file, ok). ok) (map (\<lambda>(file, d). (file, list_all (\<lambda>p. in_columns (place_of p)) (items_at d ''panels''))) dashboards)"
    unfolding on_dashboards [of "list_all (\<lambda>p. in_columns (place_of p))"] by (simp add: panels_in_columns)
  then show "list_all (\<lambda>(file, d). list_all (\<lambda>p. in_columns (place_of p)) (items_at d ''panels'')) dashboards"
    by (simp add: list_all_iff split_def)
qed

text \<open>C36: every query of the dashboards is answered. After one poll in which every source answers, the agents' snapshots being those the
  agents write, and for a generator with an acknowledged and a refused request, each metric a panel asks for is a series that the
  exporter has set, with a label that meets the condition in braces, a value of the generator's that has moved, or
  a recording rule whose expression asks only for such metrics.\<close>

theorem every_query_is_answered:
  "\<exists>se p. poll_once (\<lambda>_. ''down'') demo_xs all_up new_exporter = Some se
     \<and> m_prom (mrun (init_metrics ''t'' 1 True 0) some_calls) = Some p
     \<and> list_all (\<lambda>(file, d). list_all (answered (ex_gauges (snd se)) p) (queries_of (items_at d ''panels''))) dashboards"
proof -
  obtain se where se: "poll_once (\<lambda>_. ''down'') demo_xs all_up new_exporter = Some se" "list_all (\<lambda>s. ex_gauges (snd se) s \<noteq> None) up_series"
    by (rule all_up_polled)
  obtain p where p: "m_prom (mrun (init_metrics ''t'' 1 True 0) some_calls) = Some p" "list_all (\<lambda>(name, x). x \<noteq> 0) (exposed p)"
    by (rule some_calls_counted)
  have "list_all (\<lambda>(file, ok). ok) (map (\<lambda>(file, d). (file, list_all found_or_ruled (queries_of (items_at d ''panels'')))) dashboards)"
    unfolding on_dashboards [of "\<lambda>ps. list_all found_or_ruled (queries_of ps)"] by (simp add: queries_found)
  then have "list_all (\<lambda>(file, d). list_all (answered (ex_gauges (snd se)) p) (queries_of (items_at d ''panels''))) dashboards"
    using found_answered [OF se(2) p(2)] by (auto simp: list_all_iff)
  with se(1) p(1) show ?thesis by blast
qed

end
