(* ===== verification/ReportText.thy ===== *)
theory ReportText
  imports Report "HOL-Library.List_Lexorder" "HOL-Library.Char_ord"
begin

text \<open>
  The text of \<open>report.md\<close>: \<open>render\<close> of \<open>bench/report.py\<close>, section by section, as the list of lines it
  appends. The texts Python gives to floats, lists and dictionaries and the square root of \<open>pstdev\<close>
  are arguments; everything else is computed. The times of a line that raises are not modelled: a report
  is written whole or not at all.
\<close>

section \<open>Formats\<close>

record texts =
  tx_str :: "pyval \<Rightarrow> string"
  tx_commas :: "pyfloat \<Rightarrow> string"
  tx_root :: "rat \<Rightarrow> rat"

abbreviation str_of :: "texts \<Rightarrow> pyval \<Rightarrow> string" where
  "str_of tx v \<equiv> py_str (tx_str tx) v"

definition plain_fixed :: "nat \<Rightarrow> rat \<Rightarrow> string" where
  \<comment> \<open>\<open>f'{x:.nf}'\<close>\<close>
  "plain_fixed n x =
     (let u = nat \<bar>py_round (x * 10 ^ n)\<bar>
      in (if x < 0 then ''-'' else []) @ show_nat (u div 10 ^ n)
         @ (if n = 0 then [] else CHR ''.'' # pad_left n (show_nat (u mod 10 ^ n))))"

definition signed_fixed :: "nat \<Rightarrow> rat \<Rightarrow> string" where
  \<comment> \<open>\<open>f'{x:+.nf}'\<close>\<close>
  "signed_fixed n x = (if x < 0 then [] else ''+'') @ plain_fixed n x"

definition format_error :: "pyval \<Rightarrow> pyexn" where
  "format_error v = (case v of PStr s \<Rightarrow> ValueError | _ \<Rightarrow> TypeError)"

definition commas_of :: "texts \<Rightarrow> pyval \<Rightarrow> pyexn + string" where
  \<comment> \<open>\<open>f'{v:,}'\<close>\<close>
  "commas_of tx v =
     (case v of PInt i \<Rightarrow> Inr (commas_int i) | PBool b \<Rightarrow> Inr (if b then ''1'' else ''0'') | PFloat f \<Rightarrow> Inr (tx_commas tx f)
      | _ \<Rightarrow> Inl (format_error v))"

definition fixed_of :: "nat \<Rightarrow> pyval \<Rightarrow> pyexn + string" where
  \<comment> \<open>\<open>f'{v:,.nf}'\<close>\<close>
  "fixed_of n v = (case number v of None \<Rightarrow> Inl (format_error v) | Some x \<Rightarrow> Inr (fixed n x))"

definition value_of :: "pydict \<Rightarrow> string \<Rightarrow> pyexn + pyval" where
  \<comment> \<open>\<open>s[k]\<close>\<close>
  "value_of s k = (case dget s k of None \<Rightarrow> Inl KeyError | Some v \<Rightarrow> Inr v)"

abbreviation got :: "pydict \<Rightarrow> string \<Rightarrow> pyval" where
  "got d k \<equiv> dget_or d k PNone"

definition dict_at :: "pydict \<Rightarrow> string \<Rightarrow> pyexn + pydict" where
  \<comment> \<open>\<open>d.get(k) or {}\<close>\<close>
  "dict_at d k = as_dict (py_or (got d k) (PDict []))"

definition or_none :: "('a \<Rightarrow> rat) \<Rightarrow> 'a option \<Rightarrow> pyval" where
  \<comment> \<open>\<open>st.get(key)\<close> of statistics that may be empty\<close>
  "or_none f st = (case st of None \<Rightarrow> PNone | Some x \<Rightarrow> num (f x))"

definition joined_rows :: "(pyexn + 'a list) list \<Rightarrow> pyexn + 'a list" where
  \<comment> \<open>one part after the other\<close>
  "joined_rows parts = ebind (emap id parts) (\<lambda>xs. Inr (concat xs))"

definition greatest :: "pyval list \<Rightarrow> pyexn + pyval" where
  \<comment> \<open>\<open>max\<close> of numbers: the first of the greatest\<close>
  "greatest vs =
     ebind (emap as_number vs) (\<lambda>xs.
     case filter (\<lambda>p. fst p = Max (set xs)) (zip xs vs) of [] \<Rightarrow> Inl ValueError | p # _ \<Rightarrow> Inr (snd p))"

section \<open>Head and summary\<close>

definition transport_of :: "run \<Rightarrow> pyval" where
  "transport_of r = dget_or (ru_metadata r) ''transport'' (PStr ''direct'')"

definition head_lines :: "string \<Rightarrow> string list" where
  "head_lines name =
     [''# Test report '' @ em_dash @ '' `'' @ name @ ''`'', [],
      ''Generated by `bench/report.py` from the files in this directory. Every number below has a source file named next to it. '' @
      ''Anything whose source is absent reads `'' @ missing_text @ ''` rather than being estimated.'', []]"

definition transport_lines :: "texts \<Rightarrow> run \<Rightarrow> string list" where
  "transport_lines tx r =
     (if transport_of r = PStr ''direct'' then []
      else [''> ## '' @ warning_sign @ '' Throughput and latency in this report are NOT VALID'', ''> '',
            ''> This run was recorded over **`'' @ str_of tx (transport_of r) @ ''`**, not a direct connection.'']
           @ (let note = got (ru_metadata r) ''transport_note'' in if truthy note then [''> '' @ str_of tx note] else [])
           @ [''> '',
              ''> The measured path carries SSH encryption, an extra userspace hop and TCP-over-TCP, and a single `ssh` process '' @
              ''is single-threaded '' @ em_dash @ '' it becomes a bottleneck of its own well before the pipeline does.'',
              ''> '', ''> | | |'', ''> |---|---|'',
              ''> | Functional behaviour, correctness, compaction, fault response | **valid** |'',
              ''> | Offered / accepted / rejected rates | **not valid** |'',
              ''> | Latency percentiles | **not valid** |'',
              ''> | Backlog, catalog and S3 figures | valid '' @ em_dash @ '' they are read directly, not through the tunnel |'',
              ''> '',
              ''> Fix the security group and re-run before quoting any rate from this. See `NETWORK.md`.'', []])"

definition dash_if_none :: "texts \<Rightarrow> pyval \<Rightarrow> string" where
  "dash_if_none tx v = str_of tx (py_or v (PStr em_dash))"

definition or_missing :: "texts \<Rightarrow> pydict \<Rightarrow> string \<Rightarrow> string" where
  \<comment> \<open>\<open>d.get(k, MISSING)\<close>\<close>
  "or_missing tx d k = str_of tx (dget_or d k (PStr missing_text))"

definition summary_lines :: "texts \<Rightarrow> string \<Rightarrow> run \<Rightarrow> pyexn + string list" where
  "summary_lines tx name r =
     ebind (totals_dict r) (\<lambda>t. ebind (as_number (py_or (got t ''success_rate'') (PInt 0))) (\<lambda>rate.
     let verdict = got (ru_correctness r) ''verdict''; transport = transport_of r
     in Inr
       [''## Test summary'', [], ''| | |'', ''|---|---|'',
        ''| Test id | `'' @ name @ ''` |'',
        ''| Profile | `'' @ or_missing tx (ru_metadata r) ''profile'' @ ''` |'',
        ''| Description | '' @ dash_if_none tx (got (ru_metadata r) ''description'') @ '' |'',
        ''| Started (UTC) | '' @ or_missing tx (ru_manifest r) ''started_at_utc'' @ '' |'',
        ''| Ended (UTC) | '' @ or_missing tx (ru_manifest r) ''ended_at_utc'' @ '' |'',
        ''| Duration | '' @ fmt_num (got t ''duration_seconds'') 1 '' s'' @ '' |'',
        ''| Offered | '' @ fmt_int (got t ''records_offered'') @ '' records ('' @ fmt_num (got t ''offered_rps_mean'') 0 [] @ '' /s mean) |'',
        ''| **Accepted** | **'' @ fmt_int (got t ''records_accepted'') @ '' records ('' @ fmt_num (got t ''accepted_rps_mean'') 0 [] @
          '' /s mean)** |'',
        ''| Rejected | '' @ fmt_int (got t ''records_rejected'') @ '' records |'',
        ''| Success rate | '' @ fmt_num (num (rate * 100)) 2 '' %'' @ '' |'',
        ''| Error rate | '' @ fmt_num (num (100 - rate * 100)) 2 '' %'' @ '' |'',
        ''| Correctness | **'' @ str_of tx (py_or verdict (PStr missing_text)) @ ''**'' @
          (if verdict = PStr ''FAIL'' then ''  **Performance figures below are reported with this failure attached.**'' else []) @ '' |'',
        ''| Transport | `'' @ str_of tx transport @ ''`'' @
          (if transport \<noteq> PStr ''direct'' then ''  **'' @ em_dash @ '' rates and latency above are not valid measurements**'' else []) @ '' |'',
        ''| Environment hash | `'' @ or_missing tx (ru_environment r) ''env_hash'' @ ''` |'',
        ''| DazzleDuck commit | `'' @
          str_of tx (dig_or (PDict (ru_environment r)) [''dazzleduck'', ''git_commit''] (PStr missing_text)) @ ''` |'', [],
        ''> `offered` is what the generator attempted and is **not** throughput. Only `accepted`, sustained with a flat backlog, '' @
        ''is throughput. Source: `manifest.json`, `generator.json`.'', []]))"

section \<open>Throughput and latency\<close>

definition throughput_lines :: "texts \<Rightarrow> run \<Rightarrow> string list" where
  "throughput_lines tx r =
     [''## Throughput'', []]
     @ (case stats (series (ru_samples r) ''accepted_rps'') of
          None \<Rightarrow> [missing_text @ '' '' @ em_dash @ '' `generator.jsonl` has no samples.'']
        | Some st \<Rightarrow>
            let f = (\<lambda>x. fmt_num (num x) 0 []); steady = stats (series (steady_window (ru_samples r)) ''accepted_rps'')
            in [''| Metric | records/s |'', ''|---|---:|'', ''| Mean (whole run) | '' @ f (su_mean st) @ '' |'',
                ''| Mean (steady state, first 25% discarded) | '' @ fmt_num (or_none su_mean steady) 0 [] @ '' |'',
                ''| Median | '' @ f (su_median st) @ '' |'', ''| Minimum | '' @ f (su_min st) @ '' |'',
                ''| Peak (1 s) | '' @ f (su_max st) @ '' |'', ''| Std deviation | '' @ f (tx_root tx (su_variance st)) @ '' |'', [],
                ''Peak is a single one-second sample and is not a sustainable rate. Source: `generator.jsonl`.''])
     @ [[]]"

definition level_line :: "texts \<Rightarrow> pydict \<Rightarrow> pyexn + string list" where
  "level_line tx s =
     ebind (level_ratio s) (\<lambda>ratio. ebind (value_of s ''index'') (\<lambda>i.
     ebind (ebind (value_of s ''target_rps'') (fixed_of 0)) (\<lambda>rps.
     ebind (ebind (value_of s ''offered'') (commas_of tx)) (\<lambda>offered.
     ebind (ebind (value_of s ''accepted'') (commas_of tx)) (\<lambda>accepted.
     ebind (ebind (value_of s ''rejected'') (commas_of tx)) (\<lambda>rejected.
     ebind (ebind (value_of s ''stalled_ms'') (fixed_of 0)) (\<lambda>stalled.
     Inr [''| '' @ str_of tx i @ '' | '' @ rps @ '' | '' @ offered @ '' | '' @ accepted @ '' | '' @ rejected @ '' | '' @
       plain_fixed 4 ratio @ '' | '' @ stalled @ '' ms |'' ])))))))"

definition staircase_lines :: "texts \<Rightarrow> run \<Rightarrow> pyexn + string list" where
  "staircase_lines tx r =
     ebind (steps_of r) (\<lambda>ss.
     if length ss \<le> 1 then Inr []
     else joined_rows ([Inr [''### Staircase'', [],
         ''| Step | Target rps | Offered | Accepted | Rejected | Accepted/offered | Stalled |'', ''|---:|---:|---:|---:|---:|---:|---:|'']]
       @ map (level_line tx) ss
       @ [Inr [[], ''A level is **sustainable** only if accepted/offered >= 0.99, the backlog slope over its steady-state window is '' @
           ''not positive, there were no RESOURCE_EXHAUSTED rejections, and no restart or OOM occurred. Judging on the ratio alone '' @
           ''will call a level sustainable while the lake silently falls behind.'', []]]))"

definition latency_lines :: "run \<Rightarrow> pyexn + string list" where
  "latency_lines r =
     ebind (totals_dict r) (\<lambda>t.
     let f = (\<lambda>k. fmt_num (got t k) 1 [])
     in Inr ([''## Latency'', []]
       @ (if got t ''latency_p50_ms'' \<noteq> PNone
          then [''| Percentile | ms |'', ''|---|---:|'', ''| p50 | '' @ f ''latency_p50_ms'' @ '' |'', ''| p95 | '' @ f ''latency_p95_ms'' @ '' |'',
                ''| p99 | '' @ f ''latency_p99_ms'' @ '' |'', ''| min | '' @ f ''latency_min_ms'' @ '' |'', ''| max | '' @ f ''latency_max_ms'' @ '' |'',
                [], ''Measured around the whole export RPC. The collector completes the response from the batch-write future, so this '' @
                ''includes queue wait, the DuckDB COPY to Parquet, and the DuckLake catalog commit '' @ em_dash @ '' it is persistence latency, not '' @
                ''network time. Source: `generator.json`.'']
          else [missing_text @ '' '' @ em_dash @ '' no latency samples in `generator.json`.''])
       @ [[]]))"

section \<open>Hosts\<close>

definition own_hostname :: "run \<Rightarrow> pyexn + pyval" where
  \<comment> \<open>\<open>meta.get('host', {}).get('hostname', '')\<close>\<close>
  "own_hostname r = ebind (as_dict (dget_or (ru_metadata r) ''host'' (PDict []))) (\<lambda>h. Inr (dget_or h ''hostname'' (PStr [])))"

definition host_line :: "texts \<Rightarrow> pyval \<Rightarrow> string \<times> pydict list \<Rightarrow> pyexn + string list" where
  "host_line tx own h =
     (case h of (role, rows) \<Rightarrow>
        if rows = [] then Inr [''| '' @ em_dash @ '' | '' @ role @ '' | '' @ missing_text @ '' | | | | | 0 |'']
        else ebind (emap (\<lambda>p. as_number (dig_or (PDict p) [''memory'', ''mem_used_bytes''] (PInt 0))) rows) (\<lambda>ms.
             ebind (emap (\<lambda>p. as_number (py_or (dig_or (PDict p) [''process'', ''rss_bytes''] (PInt 0)) (PInt 0))) rows) (\<lambda>rs.
             let cpu = stats (series rows ''cpu_percent''); mem = stats ms; rss = stats rs;
                 host = dget_or (hd rows) ''hostname'' (if role = ''generator'' then own else PStr [])
             in Inr [''| `'' @ str_of tx host @ ''` | '' @ role @ '' | '' @ fmt_num (or_none su_mean cpu) 1 ''%'' @ '' | '' @
                  fmt_num (or_none su_max cpu) 1 ''%'' @ '' | '' @ fmt_bytes (or_none su_mean mem) @ '' | '' @
                  fmt_bytes (or_none su_max mem) @ '' | '' @ fmt_bytes (or_none su_max rss) @ '' | '' @ show_nat (length rows) @ '' |''])))"

definition worst_of :: "run \<Rightarrow> string \<Rightarrow> pyexn + pydict" where
  \<comment> \<open>\<open>{role: max((r.get(key) or 0) for r in rows) for role, rows in run.hosts.items() if rows}\<close>\<close>
  "worst_of r key =
     emap (\<lambda>(role, rows). ebind (greatest (map (\<lambda>p. py_or (got p key) (PInt 0)) rows)) (\<lambda>v. Inr (KStr role, v)))
       (filter (\<lambda>h. snd h \<noteq> []) (ru_hosts r))"

definition any_value :: "pydict \<Rightarrow> bool" where
  \<comment> \<open>\<open>any(d.values())\<close>\<close>
  "any_value d = list_ex (\<lambda>kv. truthy (snd kv)) d"

definition host_notes :: "texts \<Rightarrow> run \<Rightarrow> pyexn + string list" where
  "host_notes tx r =
     (if list_all (\<lambda>h. snd h = []) (ru_hosts r) then Inr [missing_text @ '' '' @ em_dash @ '' no host agent samples were collected.'']
      else ebind (worst_of r ''process_restarts'') (\<lambda>restarts. ebind (worst_of r ''oom_kills'') (\<lambda>ooms.
        Inr ([''1 s samples from `bench/host_agent.py`. Source: `raw/host-*.jsonl`.'']
          @ (if any_value restarts then [[], ''**Process restarts observed:** '' @ str_of tx (PDict restarts) @
              ''. A restart during a measured level invalidates that level.''] else [])
          @ (if any_value ooms then [[], ''**OOM kills observed:** '' @ str_of tx (PDict ooms) @ ''.''] else [])))))"

definition resource_lines :: "texts \<Rightarrow> run \<Rightarrow> pyexn + string list" where
  "resource_lines tx r =
     ebind (own_hostname r) (\<lambda>own.
     joined_rows ([Inr [''## Resource utilisation'', [],
         ''| Server | Role | CPU mean | CPU peak | Mem mean | Mem peak | Process RSS peak | Samples |'',
         ''|---|---|---:|---:|---:|---:|---:|---:|'']]
       @ map (host_line tx own) (ru_hosts r) @ [Inr [[]], host_notes tx r, Inr [[]]]))"

section \<open>Storage and backlog\<close>

definition quantity_line :: "string \<Rightarrow> (pyval \<Rightarrow> string) \<Rightarrow> pydict \<Rightarrow> pydict \<Rightarrow> string \<Rightarrow> string" where
  "quantity_line label fmt before after key =
     (case delta_row fmt before after key of
        [x, y, d] \<Rightarrow> ''| '' @ label @ '' | '' @ x @ '' | '' @ y @ '' | '' @ d @ '' |'' | _ \<Rightarrow> [])"

definition storage_table :: "pydict \<Rightarrow> pydict \<Rightarrow> pydict \<Rightarrow> pydict \<Rightarrow> string list" where
  "storage_table b a bs as =
     [''| Quantity | Before | After | Delta |'', ''|---|---:|---:|---:|'',
      quantity_line ''Live data files'' fmt_int b a ''live_files'', quantity_line ''Live bytes'' fmt_bytes b a ''live_bytes'',
      quantity_line ''Live rows'' fmt_int b a ''live_rows'', quantity_line ''Files below minor threshold'' fmt_int b a ''small_files'',
      quantity_line ''Snapshots'' fmt_int b a ''snapshots'', quantity_line ''Catalog DB size'' fmt_bytes b a ''catalog_db_bytes'',
      quantity_line ''S3 objects'' fmt_int bs as ''objects'', quantity_line ''S3 bytes'' fmt_bytes bs as ''bytes'', []]
     @ (if is_number (got a ''file_size_avg'') \<and> truthy (got a ''live_files'')
        then [''Mean live file size after the run: **'' @ fmt_bytes (got a ''file_size_avg'') @ ''** (min '' @
               fmt_bytes (got a ''file_size_min'') @ '', max '' @ fmt_bytes (got a ''file_size_max'') @ ''). File size is set by '' @
               ''the collector's `min_bucket_size` and `max_delay_ms`, and it is what determines how much work compaction has to do.'', []]
        else [])
     @ [''Source: `state-before.json`, `state-collected.json`.'']"

definition storage_lines :: "run \<Rightarrow> pyexn + string list" where
  "storage_lines r =
     ebind (dict_at (ru_before r) ''catalog'') (\<lambda>b. ebind (dict_at (ru_after r) ''catalog'') (\<lambda>a.
     if b = [] \<and> a = [] then Inr [''## Storage and catalog'', [], missing_text @ '' '' @ em_dash @ '' no catalog snapshots.'', []]
     else ebind (dict_at (ru_before r) ''s3'') (\<lambda>bs. ebind (dict_at (ru_after r) ''s3'') (\<lambda>as.
          Inr ([''## Storage and catalog'', []] @ storage_table b a bs as @ [[]])))))"

definition raw_files :: "run \<Rightarrow> pyval list" where
  \<comment> \<open>the numbers of files in the steady window as the samples have them\<close>
  "raw_files r =
     map (\<lambda>p. dig_or (PDict p) [''catalog'', ''backlog_files''] (PInt 0)) (steady_window (with_catalog (ru_pipeline r)))"

fun trend_name :: "trend \<Rightarrow> string" where
  "trend_name Flat = ''flat''"
| "trend_name Growing = ''GROWING''"
| "trend_name Draining = ''draining''"

definition backlog_text :: "texts \<Rightarrow> run \<Rightarrow> pyexn + string list" where
  \<comment> \<open>B2\<close>
  "backlog_text tx r =
     ebind (analyse_backlog r) (\<lambda>bl.
     case bl of
       None \<Rightarrow> Inr [''**B2 '' @ em_dash @ '' uncompacted file backlog.** '' @ missing_text @ '' '' @ em_dash @ '' fewer than 4 pipeline samples with catalog data.'']
     | Some b \<Rightarrow>
         ebind (greatest (raw_files r)) (\<lambda>peak.
         Inr ([''**B2 '' @ em_dash @ '' uncompacted file backlog.** '' @ str_of tx (hd (raw_files r)) @ '' files at the start of the steady-state '' @
               ''window, '' @ str_of tx (last (raw_files r)) @ '' at the end, peak '' @ str_of tx peak @ ''. Least-squares slope **'' @
               signed_fixed 2 (bk_files_per_min b) @ '' files/min** ('' @ signed_fixed 2 (bk_mib_per_min b) @ '' MiB/min) '' @ em_dash @ '' **'' @
               trend_name (trend_of b) @ ''**. '' @ show_nat (bk_samples b) @ '' samples, '' @ show_nat (bk_discarded b) @
               '' warm-up samples discarded.'']
           @ (if trend_of b = Growing
              then [[], ''> A positive backlog slope in steady state means compaction is not keeping up. Whatever the accept rate was, '' @
                    ''this level is **not sustainable**.'']
              else []))))"

definition lag_text :: "run \<Rightarrow> string list" where
  \<comment> \<open>B3\<close>
  "lag_text r =
     (case analyse_lag r of
        None \<Rightarrow> [''**B3 '' @ em_dash @ '' end-to-end visibility lag.** '' @ missing_text @ '' '' @ em_dash @ '' the watermark table produced no readings (no batch '' @
                ''committed, or the watermark scrape failed).'']
      | Some st \<Rightarrow>
          let f = (\<lambda>x. fmt_num (num x) 1 '' s'')
          in [''**B3 '' @ em_dash @ '' end-to-end visibility lag.** mean '' @ f (su_mean st) @ '', median '' @ f (su_median st) @ '', p95 '' @
              f (su_p95 st) @ '', max '' @ f (su_max st) @ '' over '' @ show_nat (su_n st) @ '' samples. Computed as '' @
              ''`now() - max(max_timestamp)` against the watermark table, which is committed in the same transaction as the file registration.''])"

definition backlog_lines :: "texts \<Rightarrow> run \<Rightarrow> pyexn + string list" where
  "backlog_lines tx r =
     joined_rows [Inr [''## Backlog'', [],
         ''Three different quantities. They are reported separately because averaging them together destroys the only useful '' @
         ''information in them.'', [],
         ''**B1 '' @ em_dash @ '' collector in-memory queue depth.** `NOT AVAILABLE`. The gauges (`writer.pending_batches`, '' @
         ''`writer.pending_buckets`) are registered in a `SimpleMeterRegistry` that is never exported, and `/health` exposes only '' @
         ''`batchesProcessed`. Closing this needs a Prometheus registry in the collector '' @ em_dash @ '' see IMPROVEMENTS.md.'', []],
       backlog_text tx r, Inr ([[]] @ lag_text r @ [[]])]"

section \<open>Compaction\<close>

definition health_counters :: "pydict \<Rightarrow> pyexn + pydict" where
  "health_counters state =
     as_dict (py_or (dig_or (PDict state) [''compactor_health'', ''databases'', ''bench''] (PDict [])) (PDict []))"

definition is_int :: "pyval \<Rightarrow> bool" where
  \<comment> \<open>\<open>isinstance(x, int)\<close>\<close>
  "is_int v = (case v of PInt i \<Rightarrow> True | PBool b \<Rightarrow> True | _ \<Rightarrow> False)"

definition counter_line :: "pydict \<Rightarrow> pydict \<Rightarrow> string \<times> string \<Rightarrow> string" where
  "counter_line before after lk =
     (let x = got before (snd lk); y = got after (snd lk)
      in ''| '' @ fst lk @ '' | '' @ fmt_int x @ '' | '' @ fmt_int y @ '' | '' @
         (case delta_of x y of Some d \<Rightarrow> if is_int x \<and> is_int y then fmt_int (num d) else missing_text | None \<Rightarrow> missing_text) @ '' |'')"

definition health_counter_names :: "(string \<times> string) list" where
  "health_counter_names =
     [(''Minor compactions'', ''totalMinorCompactions''), (''Major compactions'', ''totalMajorCompactions''),
      (''Files merged'', ''totalFilesCompacted''), (''Small files (current)'', ''currentSmallFiles''),
      (''Medium files (current)'', ''currentMediumFiles''), (''Total files (current)'', ''currentTotalFiles'')]"

definition merge_keys :: "texts \<Rightarrow> pydict list \<Rightarrow> string list" where
  \<comment> \<open>the keys of \<open>by_type\<close>, sorted\<close>
  "merge_keys tx rows =
     sort (remdups (map (merge_key (tx_str tx)) (filter (\<lambda>p. is_merge p \<and> is_number (got p ''mean_ms'')) rows)))"

definition merge_line :: "texts \<Rightarrow> pydict list \<Rightarrow> string \<Rightarrow> string list" where
  "merge_line tx rows key =
     (case stats (merge_times (tx_str tx) rows key) of
        None \<Rightarrow> []
      | Some st \<Rightarrow> [''| '' @ key @ '' | '' @ show_nat (su_n st) @ '' | '' @ fmt_num (num (su_mean st)) 1 [] @ '' | '' @
          fmt_num (num (su_max st)) 1 [] @ '' |''])"

definition merge_table :: "texts \<Rightarrow> pydict list \<Rightarrow> string list" where
  "merge_table tx rows =
     (let keys = merge_keys tx rows
      in if keys = [] then []
         else [''| type/step | samples | mean ms | max ms |'', ''|---|---:|---:|---:|''] @ concat (map (merge_line tx rows) keys)
            @ [[], ''Parsed out of the compactor log by `bench/parse_compactor_log.py`. The compactor uses a `LoggingMeterRegistry`, '' @
               ''so these timings exist only as log lines '' @ em_dash @ '' there is no scrape endpoint. Source: `raw/compaction.jsonl`.''])"

definition merge_lines :: "texts \<Rightarrow> pydict list \<Rightarrow> string list" where
  "merge_lines tx rows =
     (if list_ex is_merge rows
      then merge_table tx rows
        @ (if 0 < untimed rows
           then [[], ''> '' @ show_nat (untimed rows) @ '' compaction records carried no timestamp and could not be placed on a timeline.'']
           else [])
      else [])"

definition compaction_lines :: "texts \<Rightarrow> run \<Rightarrow> pyexn + string list" where
  "compaction_lines tx r =
     ebind (health_counters (ru_before r)) (\<lambda>cb. ebind (health_counters (ru_after r)) (\<lambda>ca.
     Inr ([''## Compaction'', []]
       @ (if cb \<noteq> [] \<or> ca \<noteq> []
          then [''| Counter | Before | After | Delta |'', ''|---|---:|---:|---:|''] @ map (counter_line cb ca) health_counter_names
             @ [[], ''Source: compactor `/health`, captured in `state-before.json` / `state-collected.json`.'']
          else [missing_text @ '' '' @ em_dash @ '' compactor `/health` was not reachable at snapshot time.''])
       @ [[]] @ merge_lines tx (ru_compaction r) @ [[]])))"

section \<open>Correctness and errors\<close>

definition window_text :: "pydict \<Rightarrow> pyexn + string" where
  \<comment> \<open>\<open>' .. '.join(c.get('window_utc', ['?', '?']))\<close>\<close>
  "window_text c =
     (case dget_or c ''window_utc'' (PList [PStr ''?'', PStr ''?'']) of
        PList vs \<Rightarrow> ebind (emap (\<lambda>v. case v of PStr s \<Rightarrow> Inr s | _ \<Rightarrow> Inl TypeError) vs) (\<lambda>xs. Inr (join_with '' .. '' xs))
      | PStr s \<Rightarrow> Inr (join_with '' .. '' (map (\<lambda>x. [x]) s))
      | PDict d \<Rightarrow> ebind (emap (\<lambda>kv. case fst kv of KStr s \<Rightarrow> Inr s | _ \<Rightarrow> Inl TypeError) d) (\<lambda>xs. Inr (join_with '' .. '' xs))
      | _ \<Rightarrow> Inl TypeError)"

fun key_text :: "pykey \<Rightarrow> string" where
  "key_text (KStr s) = s"
| "key_text (KInt i) = show_int i"

definition check_line :: "texts \<Rightarrow> pykey \<times> pyval \<Rightarrow> pyexn + string list" where
  "check_line tx kv =
     ebind (as_dict (snd kv)) (\<lambda>chk. ebind (check_state chk) (\<lambda>state.
     Inr [''| '' @ key_text (fst kv) @ '' | '' @ state @ '' | '' @ str_of tx (dget_or chk ''detail'' (PStr [])) @ '' |'']))"

definition correctness_lines :: "texts \<Rightarrow> run \<Rightarrow> pyexn + string list" where
  "correctness_lines tx r =
     (let c = ru_correctness r
      in if c = []
         then Inr [''## Correctness'', [], missing_text @ '' '' @ em_dash @ '' `correctness.json` absent. **A performance number without a correctness '' @
                   ''verdict is not a result.**'', []]
         else ebind (window_text c) (\<lambda>window. ebind (dict_at c ''checks'') (\<lambda>checks.
              joined_rows ([Inr [''## Correctness'', [], ''**VERDICT: '' @ or_missing tx c ''verdict'' @ ''**'', [],
                  ''Window `'' @ window @ ''` UTC.'', [], ''| Check | Result | Detail |'', ''|---|---|---|'']]
                @ map (check_line tx) checks
                @ [Inr [[], ''Offered '' @ fmt_int (got c ''offered'') @ '', accepted '' @ fmt_int (got c ''accepted'') @ '', rejected '' @
                    fmt_int (got c ''rejected'') @ '', landed '' @ fmt_int (got c ''landed'') @ ''.'', [],
                    ''`accepted - landed` is data loss and is a hard failure at any throughput. `offered - accepted` is rejection or '' @
                    ''RPC failure, which is expected under backpressure and is not loss. Source: `correctness.json`.'', []]]))))"

definition error_line :: "texts \<Rightarrow> pykey \<times> pyval \<Rightarrow> pyexn + string list" where
  "error_line tx kv = ebind (commas_of tx (snd kv)) (\<lambda>n. Inr [''| `'' @ key_text (fst kv) @ ''` | '' @ n @ '' |''])"

definition errors_sorted :: "pydict \<Rightarrow> pyexn + pydict" where
  \<comment> \<open>\<open>sorted(errs.items(), key=lambda kv: -kv[1])\<close>\<close>
  "errors_sorted errs =
     ebind (emap (\<lambda>kv. as_number (snd kv)) errs) (\<lambda>ns. Inr (map snd (sort_key (\<lambda>p. - fst p) (zip ns errs))))"

definition error_notes :: "texts \<Rightarrow> run \<Rightarrow> pydict \<Rightarrow> string list" where
  "error_notes tx r errs =
     (if dget errs ''RESOURCE_EXHAUSTED'' \<noteq> None
      then [''`RESOURCE_EXHAUSTED` is the collector's explicit backpressure signal: pending write bytes exceeded '' @
            ''`max_pending_write` and the queue raised `PendingWriteExceededException`. It carries a `RetryInfo` delay. This is the '' @
            ''pipeline correctly refusing work, not an error in the usual sense '' @ em_dash @ '' but any of it disqualifies the level as sustainable.'', []]
      else [])
     @ (if dget errs ''DEADLINE_EXCEEDED'' \<noteq> None
        then [''`DEADLINE_EXCEEDED` means the export RPC did not complete within '' @
              str_of tx (dig_or (PDict (ru_metadata r)) [''target'', ''rpc_timeout_seconds''] (PStr ''?'')) @ ''s. Because the RPC acks '' @
              ''on durability, this is a slow flush, and the records may still have landed '' @ em_dash @ '' check the correctness section before '' @
              ''calling it loss.'', []]
        else [])"

definition error_lines :: "texts \<Rightarrow> run \<Rightarrow> pyexn + string list" where
  "error_lines tx r =
     ebind (totals_dict r) (\<lambda>t. ebind (dict_at t ''errors_by_code'') (\<lambda>errs.
     if errs = [] then Inr [''## Errors'', [], ''No failed RPCs recorded.'', []]
     else ebind (errors_sorted errs) (\<lambda>kvs.
          joined_rows ([Inr [''## Errors'', [], ''| gRPC status | Count |'', ''|---|---:|'']] @ map (error_line tx) kvs
            @ [Inr [[]], Inr (error_notes tx r errs), Inr [[]]]))))"

definition log_lines :: "(string \<Rightarrow> string list option) \<Rightarrow> string \<Rightarrow> string list" where
  \<comment> \<open>the lines of \<open>logs/<role>.errors.log\<close>; \<open>None\<close> when it does not exist or is empty\<close>
  "log_lines logs role =
     (case logs role of
        None \<Rightarrow> []
      | Some ls \<Rightarrow> [''### '' @ role @ '' log '' @ em_dash @ '' '' @ show_nat (length ls) @ '' error/warning lines'', [], ''```'']
          @ map (take 200) (take 15 ls)
          @ (if 15 < length ls then [''... '' @ show_nat (length ls - 15) @ '' more in logs/'' @ role @ ''.errors.log''] else [])
          @ [''```'', []])"

section \<open>Environment\<close>

definition server_line :: "texts \<Rightarrow> pydict \<Rightarrow> string \<Rightarrow> pyexn + string list" where
  "server_line tx servers role =
     ebind (dict_at servers role) (\<lambda>s. ebind (dict_at s ''host'') (\<lambda>h. ebind (dict_at s ''instance'') (\<lambda>i. ebind (dict_at s ''disk'') (\<lambda>d.
     let q = (\<lambda>x k. str_of tx (dget_or x k (PStr ''?'')))
     in Inr [''| '' @ role @ '' | `'' @ q h ''hostname'' @ ''` | '' @ q i ''type'' @ '' | '' @ q h ''physical_cores'' @ ''/'' @
          q h ''logical_cores'' @ '' | '' @ fmt_bytes (got h ''ram_bytes'') @ '' | '' @ fmt_bytes (got d ''root_free_bytes'') @ '' | '' @
          (if truthy (got i ''burstable'') then ''yes'' else ''no'') @ '' |'']))))"

fun any_server :: "string \<Rightarrow> string \<Rightarrow> pydict \<Rightarrow> pyexn + bool" where
  \<comment> \<open>\<open>any((servers.get(r) or {}).get(part, {}).get(key) for r in servers)\<close>\<close>
  "any_server part key [] = Inr False"
| "any_server part key ((r, v) # rest) =
     ebind (as_dict (py_or v (PDict []))) (\<lambda>s. ebind (as_dict (dget_or s part (PDict []))) (\<lambda>d.
     if truthy (got d key) then Inr True else any_server part key rest))"

definition server_notes :: "pydict \<Rightarrow> pyexn + string list" where
  "server_notes servers =
     ebind (any_server ''instance'' ''burstable'' servers) (\<lambda>burst. ebind (any_server ''disk'' ''tmp_is_tmpfs'' servers) (\<lambda>tmpfs.
     Inr ((if burst then [''> All three are **burstable t3** instances. CPU credit exhaustion throttles the vCPU and looks exactly like '' @
             ''a software regression. A long soak on t3 will hit this; treat any unexplained late-run slowdown as a credit question first.'', []]
           else [])
       @ (if tmpfs then [''> `/tmp` is tmpfs (RAM) on these hosts, and there is no swap. DuckDB's `temp_directory` is therefore pointed '' @
             ''at `/var/tmp`; spilling to `/tmp` would convert a disk spill into an OOM kill.'', []]
          else []))))"

definition environment_lines :: "texts \<Rightarrow> run \<Rightarrow> pyexn + string list" where
  "environment_lines tx r =
     ebind (dict_at (ru_environment r) ''servers'') (\<lambda>servers.
     let q = (\<lambda>path. str_of tx (dig_or (PDict (ru_environment r)) path (PStr ''?'')))
     in joined_rows ([Inr [''## Environment'', []]]
       @ (if servers = [] then []
          else [Inr [''| Role | Host | Instance | vCPU (phys/logical) | RAM | Root free | Burstable |'', ''|---|---|---|---|---:|---:|---|'']]
             @ map (server_line tx servers) roles @ [Inr [[]], server_notes servers])
       @ [Inr [''Catalog: `'' @ q [''catalog'', ''kind''] @ ''` at `'' @ q [''catalog'', ''host''] @ ''/'' @ q [''catalog'', ''database''] @
           ''`. Storage: `s3://'' @ q [''storage'', ''bucket''] @ ''/'' @ q [''storage'', ''prefix''] @ ''/` in `'' @ q [''storage'', ''region''] @ ''`.'',
           [], ''Source: `environment.json`.'', []]]))"

section \<open>Charts and conclusion\<close>

function replaced :: "string \<Rightarrow> string \<Rightarrow> string \<Rightarrow> string" where
  \<comment> \<open>\<open>s.replace(old, new)\<close>, for an \<open>old\<close> that is not empty\<close>
  "replaced old new [] = []"
| "replaced old new (c # cs) =
     (if old \<noteq> [] \<and> starts_with old (c # cs) then new @ replaced old new (drop (length old) (c # cs)) else c # replaced old new cs)"
  by pat_completeness auto
termination
  by (relation "measure (\<lambda>(old, new, s). length s)") auto

definition chart_lines :: "(string \<times> string) list \<Rightarrow> string list" where
  "chart_lines charts =
     (if charts = [] then []
      else [''## Charts'', []]
        @ concat (map (\<lambda>(name, caption).
            let title = replaced ''-'' '' '' (replaced ''.png'' [] name)
            in [''### '' @ title, [], ''!['' @ title @ ''](charts/'' @ name @ '')'', [], caption, []]) charts))"

primrec constraint_reason :: "texts \<Rightarrow> run \<Rightarrow> constraint \<Rightarrow> pyexn + string" where
  \<comment> \<open>the second component of what \<open>bottleneck\<close> returns\<close>
  "constraint_reason tx r OtherTransport =
     Inr (''this run went over '' @ str_of tx (transport_of r) @ '', so the rate and latency data cannot identify a bottleneck '' @ em_dash @ '' the '' @
       ''transport is a plausible constraint of its own and cannot be separated from the pipeline's'')"
| "constraint_reason tx r NothingOffered = Inr ''the generator recorded no offered records''"
| "constraint_reason tx r (IngestionQueue n) =
     ebind (totals_dict r) (\<lambda>t. ebind (commas_of tx (dget_or t ''records_rejected'' (PInt 0))) (\<lambda>rejected.
     Inr (rejected @ '' records were rejected with RESOURCE_EXHAUSTED, which the collector raises only when pending write bytes '' @
       ''exceed max_pending_write '' @ em_dash @ '' the writer could not drain buckets as fast as they arrived'')))"
| "constraint_reason tx r (AcceptPath q) =
     Inr (''accepted/offered was '' @ plain_fixed 4 q @ ''; the shortfall is failed or unsent RPCs rather than explicit rejection '' @ em_dash @ '' see '' @
       ''the error breakdown'')"
| "constraint_reason tx r (Compaction x) =
     Inr (''accept kept up but the uncompacted file backlog grew '' @ plain_fixed 2 x @ '' files/min in steady state '' @ em_dash @ '' the compactor is '' @
       ''not draining as fast as the collector produces'')"
| "constraint_reason tx r (GeneratorBound share cpu) =
     Inr (''the pacer was blocked on the inflight bound '' @ plain_fixed 1 (share * 100) @ ''% of the run with generator CPU at '' @
       plain_fixed 0 cpu @ ''% '' @ em_dash @ '' this run measured the load generator, not the pipeline'')"
| "constraint_reason tx r (InflightBound share) =
     Inr (''the pacer stalled for '' @ plain_fixed 1 (share * 100) @ ''% of the run; raise max_inflight or add workers before treating '' @
       ''this as a pipeline limit'')"
| "constraint_reason tx r (Saturated rs) =
     Inr (''mean CPU above 85% with no rejection and flat backlog '' @ em_dash @ '' the level held, but there is no headroom above it'')"
| "constraint_reason tx r NotReached =
     Inr (''accepted tracked offered, no rejections, backlog flat and CPU below 85%: the offered rate was below the system's capacity, '' @
       ''so this run did not find the ceiling'')"

definition best_level_lines :: "texts \<Rightarrow> ceiling \<Rightarrow> pyexn + string list" where
  "best_level_lines tx c =
     (case ce_best c of
        None \<Rightarrow> Inr [''No level met the sustainability criteria.'']
      | Some s \<Rightarrow>
          ebind (ebind (value_of s ''target_rps'') (fixed_of 0)) (\<lambda>target. ebind (value_of s ''index'') (\<lambda>i. ebind (level_rate s) (\<lambda>rate.
          Inr ([''Highest level meeting accepted/offered >= 0.99 with zero rejections: **'' @ target @ '' records/s** (step '' @ str_of tx i @
                '', accepted '' @ fixed 0 rate @ ''/s).'']
            @ (if ce_provisional c
               then [[], ''> This is **provisional**: the backlog series was not available, so the flat-backlog half of the sustainability '' @
                     ''criterion could not be evaluated. It is the highest level that passed the accept-rate test only.'']
               else []))))))"

definition ceiling_lines :: "texts \<Rightarrow> run \<Rightarrow> pyexn + string list" where
  "ceiling_lines tx r =
     ebind (ceiling_of r) (\<lambda>c.
     case c of
       None \<Rightarrow> Inr []
     | Some x \<Rightarrow>
         joined_rows [Inr [''### Maximum sustainable rate'', []], best_level_lines tx x,
           Inr [[], ''Highest instantaneous accepted rate at any level: **'' @ fixed 0 (ce_peak x) @ '' records/s**. Reported separately '' @
             ''from the sustainable figure on purpose '' @ em_dash @ '' they are different claims and only the sustainable one describes what the '' @
             ''system can be run at.'', []]])"

definition unknown_text :: "pydict \<Rightarrow> unknown \<Rightarrow> string" where
  "unknown_text t u =
     (case u of
        NoCollectorMetrics \<Rightarrow> ''collector host metrics were not collected, so nothing can be said about CPU or memory headroom on SERVER 2''
      | NoBacklog \<Rightarrow> ''no backlog series, so sustainability could not be judged''
      | NoLag \<Rightarrow> ''no watermark readings, so end-to-end visibility lag is unknown''
      | SingleRate \<Rightarrow> ''a single rate was offered, so the throughput ceiling was not searched for''
      | ShortRun \<Rightarrow> ''the run was only '' @ fmt_num (got t ''duration_seconds'') 0 ''s'' @ '' long '' @ em_dash @ '' too short to contain several '' @
          ''compaction cycles, so backlog trend is indicative at best''
      | NoCorrectness \<Rightarrow> ''correctness was not validated'')"

definition unknown_lines :: "run \<Rightarrow> pyexn + string list" where
  "unknown_lines r =
     ebind (totals_dict r) (\<lambda>t. ebind (unknowns r) (\<lambda>us.
     Inr ([''### What this run does not establish'', []]
       @ (if us = [] then [''- Nothing material was left unmeasured for this profile.''] else map (\<lambda>u. ''- '' @ unknown_text t u) us) @ [[]])))"

definition conclusion_lines :: "texts \<Rightarrow> run \<Rightarrow> pyexn + string list" where
  "conclusion_lines tx r =
     ebind (bottleneck r) (\<lambda>c. ebind (constraint_reason tx r c) (\<lambda>why.
     joined_rows [Inr [''## Conclusion'', [], ''**Binding constraint: '' @ constraint_name c @ ''**'', [], why @ ''.'', []],
       ceiling_lines tx r, unknown_lines r]))"

definition foot_lines :: "string list \<Rightarrow> string list" where
  \<comment> \<open>the names in the run's directory\<close>
  "foot_lines names =
     [''---'', [], ''Files in this run directory: `'' @ join_with ''`, `'' (take 24 (sort names)) @ ''`'', []]"

section \<open>The report\<close>

record place =
  \<comment> \<open>what else \<open>render\<close> finds in the directory\<close>
  pl_name :: string
  pl_logs :: "string \<Rightarrow> string list option"
  pl_names :: "string list"

definition render :: "texts \<Rightarrow> place \<Rightarrow> run \<Rightarrow> (string \<times> string) list \<Rightarrow> pyexn + string list" where
  "render tx p r charts =
     joined_rows
       [Inr (head_lines (pl_name p)), Inr (transport_lines tx r), summary_lines tx (pl_name p) r, Inr (throughput_lines tx r),
        staircase_lines tx r, latency_lines r, resource_lines tx r, storage_lines r, backlog_lines tx r, compaction_lines tx r,
        correctness_lines tx r, error_lines tx r, Inr (log_lines (pl_logs p) ''collector'' @ log_lines (pl_logs p) ''compactor''),
        environment_lines tx r, Inr (chart_lines charts), conclusion_lines tx r, Inr (foot_lines (pl_names p))]"

definition report_text :: "texts \<Rightarrow> place \<Rightarrow> run \<Rightarrow> (string \<times> string) list \<Rightarrow> pyexn + string" where
  "report_text tx p r charts = ebind (render tx p r charts) (\<lambda>md. Inr (join_with [newline] md))"

section \<open>Joining parts\<close>

lemma joined_rows_Cons:
  "joined_rows (p # ps) = Inr xs \<longleftrightarrow> (\<exists>y ys. p = Inr y \<and> joined_rows ps = Inr ys \<and> xs = y @ ys)"
  by (auto simp: joined_rows_def)

lemma joined_rows_Nil [simp]: "joined_rows [] = Inr []"
  by (simp add: joined_rows_def)

end
