(* ===== verification/ReportTextFacts.thy ===== *)
theory ReportTextFacts
  imports ReportText
begin

text \<open>
  What a reader finds in \<open>report.md\<close>: which absent inputs it names, and which it does not; three figures that are
  printed as if they had been measured; and the verdict of the validation.
\<close>

section \<open>A section is part of the report\<close>

lemma joined_rows_part:
  assumes "joined_rows parts = Inr md" and "part \<in> set parts"
  shows "\<exists>ls. part = Inr ls \<and> set ls \<subseteq> set md"
  using assms
proof (induction parts arbitrary: md)
  case (Cons p ps)
  then obtain x xs where x: "p = Inr x" "emap id ps = Inr xs" "md = x @ concat xs" by (auto simp: joined_rows_def)
  show ?case
  proof (cases "part = p")
    case False
    then show ?thesis using Cons.IH [of "concat xs"] Cons.prems(2) x by (auto simp: joined_rows_def)
  qed (use x in auto)
qed simp

lemma section_in_report:
  assumes "render tx p r charts = Inr md"
  shows "set (throughput_lines tx r) \<subseteq> set md" "\<exists>ls. summary_lines tx (pl_name p) r = Inr ls \<and> set ls \<subseteq> set md"
    "\<exists>ls. latency_lines r = Inr ls \<and> set ls \<subseteq> set md" "\<exists>ls. resource_lines tx r = Inr ls \<and> set ls \<subseteq> set md"
    "\<exists>ls. storage_lines r = Inr ls \<and> set ls \<subseteq> set md" "\<exists>ls. backlog_lines tx r = Inr ls \<and> set ls \<subseteq> set md"
    "\<exists>ls. compaction_lines tx r = Inr ls \<and> set ls \<subseteq> set md" "\<exists>ls. correctness_lines tx r = Inr ls \<and> set ls \<subseteq> set md"
    "\<exists>ls. error_lines tx r = Inr ls \<and> set ls \<subseteq> set md" "\<exists>ls. conclusion_lines tx r = Inr ls \<and> set ls \<subseteq> set md"
    "\<exists>ls. environment_lines tx r = Inr ls \<and> set ls \<subseteq> set md"
proof -
  note part = joined_rows_part [OF assms [unfolded render_def]]
  have "\<exists>ls. (Inr (throughput_lines tx r) :: pyexn + string list) = Inr ls \<and> set ls \<subseteq> set md" by (rule part) simp
  then show "set (throughput_lines tx r) \<subseteq> set md" by simp
qed (rule joined_rows_part [OF assms [unfolded render_def]], simp)+


lemma summary_without_totals:
  assumes "ru_generator r = []" and "summary_lines tx name r = Inr ls"
  shows "''| Success rate | 0.00 % |'' \<in> set ls" and "''| Error rate | 100.00 % |'' \<in> set ls"
proof -
  have t: "totals_dict r = Inr []" using assms(1) by (simp add: totals_dict_def dget_or_def py_or_def)
  have "fixed 2 0 = ''0.00''" "fixed 2 100 = ''100.00''" by code_simp+
  then have "fmt_num (num 0) 2 '' %'' = ''0.00 %''" "fmt_num (num 100) 2 '' %'' = ''100.00 %''" by (simp_all add: fmt_num_def)
  then show "''| Success rate | 0.00 % |'' \<in> set ls" "''| Error rate | 100.00 % |'' \<in> set ls"
    using assms(2) by (auto simp: summary_lines_def t dget_or_def py_or_def as_number_def Let_def)
qed






definition no_files :: run where
  "no_files = read_run (\<lambda>_. None) (\<lambda>_. None) (\<lambda>_. None)"

definition bare_texts :: texts where
  "bare_texts = \<lparr>tx_str = (\<lambda>_. []), tx_commas = (\<lambda>_. []), tx_root = (\<lambda>x. x)\<rparr>"

definition bare_place :: place where
  "bare_place = \<lparr>pl_name = ''t1'', pl_logs = (\<lambda>_. None), pl_names = [''report.md'']\<rparr>"

lemma no_files_value:
  "no_files = \<lparr>ru_metadata = [], ru_generator = [], ru_manifest = [], ru_correctness = [], ru_environment = [], ru_before = [],
     ru_after = [], ru_samples = [], ru_pipeline = [], ru_compaction = [],
     ru_hosts = [(''generator'', []), (''collector'', []), (''compactor'', [])]\<rparr>"
  by code_simp

lemma no_files_measures:
  "totals_dict no_files = Inr []" "steps_of no_files = Inr []" "analyse_backlog no_files = Inr None" "ceiling_of no_files = Inr None"
  "bottleneck no_files = Inr NothingOffered" "health_counters (ru_before no_files) = Inr []" "health_counters (ru_after no_files) = Inr []"
  "dict_at (ru_environment no_files) ''servers'' = Inr []" "own_hostname no_files = Inr (PStr [])"
  "as_number (py_or PNone (PInt 0)) = Inr 0" "ru_correctness no_files = []"
  "dict_at [] ''errors_by_code'' = Inr []" "dict_at (ru_before no_files) ''catalog'' = Inr []" "dict_at (ru_after no_files) ''catalog'' = Inr []"
  by code_simp+

lemma no_files_unknowns: "\<exists>us. unknowns no_files = Inr us"
proof -
  have "case unknowns no_files of Inl e \<Rightarrow> False | Inr us \<Rightarrow> True" by code_simp
  then show ?thesis by (auto split: sum.splits)
qed

lemma joined_rows_all: "list_all (\<lambda>part. \<exists>ls. part = Inr ls) parts \<Longrightarrow> \<exists>md. joined_rows parts = Inr md"
proof (induction parts)
  case (Cons p ps)
  then obtain x md where "p = Inr x" "joined_rows ps = Inr md" by auto
  then show ?case by (cases "emap id ps") (auto simp: joined_rows_def)
qed (simp add: joined_rows_def)

lemma no_files_sections:
  "\<exists>ls. summary_lines tx name no_files = Inr ls" "\<exists>ls. staircase_lines tx no_files = Inr ls" "\<exists>ls. latency_lines no_files = Inr ls"
  "\<exists>ls. storage_lines no_files = Inr ls" "\<exists>ls. compaction_lines tx no_files = Inr ls" "\<exists>ls. error_lines tx no_files = Inr ls"
  "\<exists>ls. correctness_lines tx no_files = Inr ls" "\<exists>ls. backlog_text tx no_files = Inr ls"
  "\<exists>ls. unknown_lines no_files = Inr ls" "\<exists>ls. ceiling_lines tx no_files = Inr ls"
  using no_files_unknowns
  by (auto simp: summary_lines_def staircase_lines_def latency_lines_def storage_lines_def compaction_lines_def error_lines_def
      correctness_lines_def backlog_text_def unknown_lines_def ceiling_lines_def no_files_measures Let_def)

lemma no_files_hosts: "\<exists>ls. resource_lines tx no_files = Inr ls"
proof -
  have "host_notes tx no_files = Inr [missing_text @ ('' '' @ em_dash @ '' no host agent samples were collected.'')]"
    by (simp add: host_notes_def no_files_value)
  then show ?thesis
    by (auto simp: resource_lines_def no_files_measures intro!: joined_rows_all) (simp_all add: no_files_value host_line_def)
qed

lemma no_files_rendered: "\<exists>md. render tx p no_files charts = Inr md"
proof -
  have "\<exists>ls. backlog_lines tx no_files = Inr ls" unfolding backlog_lines_def by (intro joined_rows_all) (simp add: no_files_sections)
  moreover have "\<exists>ls. environment_lines tx no_files = Inr ls"
    by (auto simp: environment_lines_def no_files_measures Let_def intro!: joined_rows_all)
  moreover have "\<exists>ls. conclusion_lines tx no_files = Inr ls"
    by (auto simp: conclusion_lines_def no_files_measures no_files_sections intro!: joined_rows_all)
  ultimately show ?thesis unfolding render_def by (intro joined_rows_all) (simp add: no_files_sections no_files_hosts)
qed


text \<open>C37: without the generator's totals the report still states rates. A run whose \<open>generator.json\<close> is absent is
  reported with a success rate of 0.00 %, an error rate of 100.00 % and no failed requests, none of
  which was measured.\<close>

theorem unmeasured_rates_are_stated:
  assumes "ru_generator r = []" and "render tx p r charts = Inr md"
  shows "{''| Success rate | 0.00 % |'', ''| Error rate | 100.00 % |'', ''No failed RPCs recorded.''} \<subseteq> set md"
proof -
  note part = section_in_report [OF assms(2)]
  have "totals_dict r = Inr []" using assms(1) by (simp add: totals_dict_def dget_or_def py_or_def)
  then have "error_lines tx r = Inr [''## Errors'', [], ''No failed RPCs recorded.'', []]"
    by (simp add: error_lines_def dict_at_def dget_or_def py_or_def)
  then have "''No failed RPCs recorded.'' \<in> set md" using part(9) by auto
  moreover obtain ls where "summary_lines tx (pl_name p) r = Inr ls" "set ls \<subseteq> set md" using part(2) by blast
  ultimately show ?thesis using summary_without_totals [OF assms(1)] by blast
qed

lemma unmeasured_rates_are_stated_witness:
  "\<exists>md. render bare_texts bare_place no_files [] = Inr md \<and> ''| Error rate | 100.00 % |'' \<in> set md"
proof -
  obtain md where md: "render bare_texts bare_place no_files [] = Inr md" using no_files_rendered by blast
  have "ru_generator no_files = []" by code_simp
  from unmeasured_rates_are_stated [OF this md] md show ?thesis by blast
qed

end
