(* ===== verification/ValidateText.thy ===== *)
theory ValidateText
  imports Validate ReportTextFacts
begin

text \<open>
  The rest of \<open>bench/validate_correctness.py\<close>: the statements that attach the lake and cut the run out of it, the
  whole document that becomes \<open>correctness.json\<close> with its sentences, and the lines that are printed. What
  the clock and the failures of optional queries read is an argument.
\<close>

section \<open>Statements\<close>

definition quote :: char where
  "quote = CHR 0x27"

definition in_quotes :: "string \<Rightarrow> string" where
  "in_quotes s = [quote] @ s @ [quote]"

record lake_args =
  la_region :: string
  la_pg_host :: string
  la_pg_port :: string
  la_pg_database :: string
  la_pg_user :: string
  la_pg_password :: string
  la_catalog :: string
  la_schema :: string
  la_table :: string
  la_bucket :: string
  la_prefix :: string

definition extensions :: "string list" where
  "extensions = [''httpfs'', ''aws'', ''ducklake'', ''postgres'']"

definition attach_statements :: "lake_args \<Rightarrow> string list" where
  "attach_statements a =
     concat (map (\<lambda>ext. [''INSTALL '' @ ext, ''LOAD '' @ ext]) extensions)
     @ [''CREATE OR REPLACE SECRET s3_role (TYPE S3, PROVIDER credential_chain, REGION '' @ in_quotes (la_region a) @ '')'',
        ''ATTACH '' @ in_quotes (''ducklake:postgres:host='' @ la_pg_host a @ '' port='' @ la_pg_port a @ '' dbname='' @ la_pg_database a @
          '' user='' @ la_pg_user a @ '' password='' @ la_pg_password a) @ '' AS '' @ la_catalog a @ '' (DATA_PATH '' @
          in_quotes (''s3://'' @ la_bucket a @ ''/'' @ la_prefix a @ ''/'') @ '', DATA_INLINING_ROW_LIMIT 0)'']"

definition window_view :: "lake_args \<Rightarrow> string \<Rightarrow> string \<Rightarrow> string" where
  "window_view a run_start run_end = join_with [newline]
     [[], ''        CREATE OR REPLACE TEMP VIEW window_rows AS'', ''        SELECT'',
      ''            element_at(attributes, '' @ in_quotes ''bench.gen_id'' @ '')[1]                  AS gen_id,'',
      ''            TRY_CAST(element_at(attributes, '' @ in_quotes ''bench.seq'' @ '')[1] AS BIGINT) AS seq,'',
      ''            timestamp,'', ''            severity_text,'', ''            body'',
      ''        FROM '' @ la_catalog a @ ''.'' @ la_schema a @ ''.'' @ la_table a,
      ''        WHERE timestamp >= TIMESTAMP '' @ in_quotes run_start, ''          AND timestamp <= TIMESTAMP '' @ in_quotes run_end, ''    '']"

definition doubled :: "string \<Rightarrow> string" where
  \<comment> \<open>every quote written twice\<close>
  "doubled g = concat (map (\<lambda>c. if c = quote then [quote, quote] else [c]) g)"

definition sql_literal :: "string \<Rightarrow> string" where
  "sql_literal g = in_quotes (doubled g)"

definition run_view :: "string list \<Rightarrow> string" where
  "run_view gens =
     ''CREATE OR REPLACE TEMP VIEW run_rows AS SELECT * FROM window_rows WHERE '' @
     (if gens = [] then ''TRUE'' else ''gen_id IN ('' @ join_with '', '' (map sql_literal gens) @ '')'')"

section \<open>The document\<close>

abbreviation doc :: "(string \<times> pyval) list \<Rightarrow> pyval" where
  "doc kvs \<equiv> PDict (map (\<lambda>(k, v). (KStr k, v)) kvs)"

definition row_count_check :: "validation \<Rightarrow> pyval" where
  "row_count_check v =
     (let d = va_delta v
      in doc [(''pass'', PBool (d = 0)), (''landed'', PInt (va_landed v)), (''accepted'', PInt (va_accepted v)), (''delta'', PInt d),
           (''detail'', PStr (if d = 0 then ''exact match''
              else if d < 0 then show_int (- d) @ '' acked rows never landed '' @ em_dash @ '' DATA LOSS''
              else show_int d @ '' more rows landed than were acked for this run's generator(s) '' @ em_dash @ '' DUPLICATION''))])"

definition duplicates_check :: "validation \<Rightarrow> pyval" where
  "duplicates_check v =
     doc [(''pass'', PBool (va_dup_keys v = 0)), (''duplicate_keys'', PInt (va_dup_keys v)), (''excess_rows'', PInt (va_excess v)),
       (''detail'', PStr (if va_dup_keys v = 0 then ''no (gen_id, seq) appears twice''
          else show_int (va_dup_keys v) @ '' keys duplicated, '' @ show_int (va_excess v) @ '' excess rows''))]"

definition contiguity_check :: "validation \<Rightarrow> pyval" where
  "contiguity_check v =
     doc [(''pass'', PBool (va_contiguous v)),
       (''detail'', PStr (if va_contiguous v
          then ''every seq accounted for as landed, rejected or failed (unacked budget = offered - accepted)''
          else ''sequence numbers missing that rejections do not explain''))]"

definition watermark_check :: "string + int \<Rightarrow> validation \<Rightarrow> pyval" where
  \<comment> \<open>the first line of the failure, or the sum that was read\<close>
  "watermark_check wm v =
     (case wm of
        Inl err \<Rightarrow> doc [(''pass'', PNone), (''detail'', PStr (''not evaluated: '' @ take 150 err))]
      | Inr n \<Rightarrow> doc [(''pass'', PBool (n = va_window v)), (''watermark_rows'', PInt n), (''rows_in_window'', PInt (va_window v)),
          (''landed_this_run'', PInt (va_landed v)),
          (''detail'', PStr (if n = va_window v then ''watermark agrees with the table''
             else ''watermark says '' @ show_int n @ '', the window holds '' @ show_int (va_window v)))])"

definition baseline_check :: "string list \<Rightarrow> pyval" where
  "baseline_check diff =
     doc [(''pass'', PBool (diff = [])), (''differing_columns'', PList (map PStr diff)),
       (''detail'', PStr (if diff = [] then ''all column checksums unchanged'' else ''changed across the merge: '' @ join_with '', '' diff))]"

definition int_or_none :: "int option \<Rightarrow> pyval" where
  "int_or_none x = (case x of None \<Rightarrow> PNone | Some i \<Rightarrow> PInt i)"

definition entry_doc :: "gen_entry \<Rightarrow> pyval" where
  "entry_doc g =
     doc [(''gen_id'', case ge_id g of None \<Rightarrow> PNone | Some s \<Rightarrow> PStr s), (''expected_seq_min'', PInt (ge_min g)),
       (''expected_seq_max'', PInt (ge_max g)), (''expected_span'', PInt (ge_span g)), (''landed_rows'', PInt (ge_rows g)),
       (''distinct_seq'', PInt (ge_distinct g)), (''observed_seq_min'', int_or_none (ge_seen_min g)),
       (''observed_seq_max'', int_or_none (ge_seen_max g)), (''missing_seq_unaccounted_for'', PInt (ge_unaccounted g))]"

definition checksums_doc :: "string \<Rightarrow> string \<times> string \<Rightarrow> checksums option \<Rightarrow> pyval" where
  \<comment> \<open>the first line of the failure, and the least and greatest time as text\<close>
  "checksums_doc err stamps c =
     (case c of
        None \<Rightarrow> doc [(''error'', PStr (take 150 err))]
      | Some s \<Rightarrow> doc [(''rows'', PInt (cs_rows s)), (''gen_id'', PStr (show_int (cs_gen s))), (''seq'', PStr (show_int (cs_seq s))),
          (''body'', PStr (show_int (cs_body s))), (''severity_text'', PStr (show_int (cs_severity s))),
          (''timestamp_min'', PStr (fst stamps)), (''timestamp_max'', PStr (snd stamps))])"

record readings =
  \<comment> \<open>what else is read: the name of the test, the watermark, the texts of failures and times, the baseline\<close>
  rg_test :: pyval
  rg_watermark :: "string + int"
  rg_error :: string
  rg_times :: "string \<times> string"
  rg_window :: "string \<times> string"
  rg_base :: "checksums option option"

definition columns_changed :: "readings \<Rightarrow> validation \<Rightarrow> string list option" where
  "columns_changed g v = map_option (\<lambda>before. differing before (va_checksums v)) (rg_base g)"

definition check_list :: "readings \<Rightarrow> validation \<Rightarrow> (string \<times> pyval) list" where
  "check_list g v =
     [(''row_count'', row_count_check v), (''duplicates'', duplicates_check v), (''contiguity'', contiguity_check v),
      (''watermark'', watermark_check (rg_watermark g) v)]
     @ (case columns_changed g v of None \<Rightarrow> [] | Some diff \<Rightarrow> [(''checksums_stable'', baseline_check diff)])"

definition result_doc :: "readings \<Rightarrow> validation \<Rightarrow> pydict" where
  "result_doc g v =
     (let final = with_baseline (rg_base g) v
      in map (\<lambda>(k, x). (KStr k, x))
        [(''test_id'', rg_test g), (''offered'', PInt (va_offered v)), (''accepted'', PInt (va_accepted v)), (''rejected'', PInt (va_rejected v)),
         (''checks'', doc (check_list g v)), (''per_generator'', PList (map entry_doc (va_entries v))), (''landed'', PInt (va_landed v)),
         (''rows_in_window'', PInt (va_window v)), (''foreign_rows_in_window'', PInt (va_foreign v)),
         (''rows_missing_identity'', PInt (va_unidentified v)), (''checksums'', checksums_doc (rg_error g) (rg_times g) (va_checksums v)),
         (''verdict'', PStr (if verdict final then ''PASS'' else ''FAIL'')), (''failed_checks'', PList (map PStr (va_failed final))),
         (''window_utc'', PList [PStr (fst (rg_window g)), PStr (snd (rg_window g))])])"

section \<open>What is printed\<close>

definition left_aligned :: "nat \<Rightarrow> string \<Rightarrow> string" where
  \<comment> \<open>\<open>f'{s:<n}'\<close>\<close>
  "left_aligned n s = s @ replicate (n - length s) CHR '' ''"

definition printed_state :: "pyval \<Rightarrow> string" where
  "printed_state ok = (if ok = PBool True then ''PASS'' else if ok = PBool False then ''FAIL'' else ''SKIP'')"

definition printed_check :: "string \<times> pyval \<Rightarrow> string" where
  "printed_check c =
     (case snd c of
        PDict d \<Rightarrow> ''  '' @ printed_state (got d ''pass'') @ ''  '' @ left_aligned 18 (fst c) @ '' '' @
          (case got d ''detail'' of PStr s \<Rightarrow> s | _ \<Rightarrow> [])
      | _ \<Rightarrow> [])"

definition printed_entry :: "gen_entry \<Rightarrow> pyexn + string" where
  \<comment> \<open>a generator without a name has none to print the start of\<close>
  "printed_entry g =
     (case ge_id g of
        None \<Rightarrow> Inl TypeError
      | Some name \<Rightarrow> Inr (''  gen '' @ take 8 name @ ''  expected seq '' @ show_int (ge_min g) @ ''..'' @ show_int (ge_max g) @ '' ('' @
          commas_int (ge_span g) @ '')  landed '' @ commas_int (ge_rows g) @ ''  distinct '' @ commas_int (ge_distinct g) @
          (if ge_unaccounted g \<noteq> 0 then ''  UNACCOUNTED '' @ commas_int (ge_unaccounted g) else [])))"

definition printed_lines :: "readings \<Rightarrow> validation \<Rightarrow> pyexn + string list" where
  "printed_lines g v =
     ebind (emap printed_entry (va_entries v)) (\<lambda>entries.
     Inr ([''window            '' @ fst (rg_window g) @ '' .. '' @ snd (rg_window g) @ '' UTC'',
           ''offered           '' @ commas_int (va_offered v), ''accepted (acked)  '' @ commas_int (va_accepted v),
           ''rejected          '' @ commas_int (va_rejected v),
           ''landed in lake    '' @ commas_int (va_landed v) @ ''  (this run's generator(s))'']
       @ (if va_foreign v \<noteq> 0
          then [''other rows        '' @ commas_int (va_foreign v) @
                '' in the same time window from other generators '' @ em_dash @ '' excluded, not an error''] else [])
       @ (if va_unidentified v \<noteq> 0 then [''!! '' @ commas_int (va_unidentified v) @ '' rows lack bench.gen_id/bench.seq''] else [])
       @ [[]] @ map printed_check (check_list g v) @ [[]] @ entries
       @ [[], ''VERDICT '' @ (if verdict (with_baseline (rg_base g) v) then ''PASS'' else ''FAIL'')]))"

definition correctness_file :: "readings \<Rightarrow> validation \<Rightarrow> pyexn + pydict" where
  \<comment> \<open>\<open>--output\<close> is written after the printing\<close>
  "correctness_file g v = ebind (printed_lines g v) (\<lambda>_. Inr (result_doc g v))"

section \<open>Names survive the statement\<close>

fun read_literal :: "string \<Rightarrow> (string \<times> string) option" where
  \<comment> \<open>SQL's reading of the rest of a literal: its value and what follows\<close>
  "read_literal [] = None"
| "read_literal (c # cs) =
     (if c \<noteq> quote then map_option (\<lambda>(s, rest). (c # s, rest)) (read_literal cs)
      else case cs of
        d # ds \<Rightarrow> if d = quote then map_option (\<lambda>(s, rest). (quote # s, rest)) (read_literal ds) else Some ([], cs)
      | [] \<Rightarrow> Some ([], []))"

lemma doubled_simps [simp]: "doubled [] = []" "doubled (c # cs) = (if c = quote then [quote, quote] else [c]) @ doubled cs"
  by (simp_all add: doubled_def)

lemma read_doubled: "rest = [] \<or> hd rest \<noteq> quote \<Longrightarrow> read_literal (doubled g @ quote # rest) = Some (g, rest)"
  by (induction g) (auto split: list.split)

text \<open>C40: no name of a generator can break out of the statement. The literal written for a name, whatever characters it has,
  is read back by SQL as exactly that name, and the statement goes on after it.\<close>

theorem literal_reads_back:
  assumes "rest = [] \<or> hd rest \<noteq> quote"
  shows "sql_literal g @ rest = quote # doubled g @ quote # rest \<and> read_literal (tl (sql_literal g @ rest)) = Some (g, rest)"
  using read_doubled [OF assms] by (simp add: sql_literal_def in_quotes_def)

lemma literal_reads_back_witness:
  "read_literal (tl (sql_literal ([CHR ''a'', quote] @ '') OR (1=1'') @ '')'')) = Some ([CHR ''a'', quote] @ '') OR (1=1'', '')'')"
  using literal_reads_back [of "'')''"] by (simp add: quote_def)

section \<open>The verdict reaches the report\<close>

lemma result_doc_get:
  "result_doc g v \<noteq> []"
  "dget_or (result_doc g v) ''verdict'' d = PStr (if verdict (with_baseline (rg_base g) v) then ''PASS'' else ''FAIL'')"
  "dget_or (result_doc g v) ''window_utc'' d = PList [PStr (fst (rg_window g)), PStr (snd (rg_window g))]"
  "dget_or (result_doc g v) ''checks'' d = doc (check_list g v)"
  by (simp_all add: result_doc_def dget_or_def Let_def)

definition check_row :: "string \<Rightarrow> pyval \<Rightarrow> string" where
  \<comment> \<open>the row of the report for a check of the document\<close>
  "check_row name c =
     (case c of
        PDict d \<Rightarrow> ''| '' @ name @ '' | '' @ (if got d ''pass'' = PNone then ''skipped'' else if got d ''pass'' = PBool True then ''PASS'' else ''**FAIL**'') @
          '' | '' @ (case got d ''detail'' of PStr s \<Rightarrow> s | _ \<Rightarrow> []) @ '' |''
      | _ \<Rightarrow> [])"

lemma check_lines:
  "check_line tx (KStr ''row_count'', row_count_check v) = Inr [check_row ''row_count'' (row_count_check v)]"
  "check_line tx (KStr ''duplicates'', duplicates_check v) = Inr [check_row ''duplicates'' (duplicates_check v)]"
  "check_line tx (KStr ''contiguity'', contiguity_check v) = Inr [check_row ''contiguity'' (contiguity_check v)]"
  "check_line tx (KStr ''watermark'', watermark_check wm v) = Inr [check_row ''watermark'' (watermark_check wm v)]"
  "check_line tx (KStr ''checksums_stable'', baseline_check diff) = Inr [check_row ''checksums_stable'' (baseline_check diff)]"
  by (auto simp: check_line_def check_row_def row_count_check_def duplicates_check_def contiguity_check_def watermark_check_def baseline_check_def
      check_state_def dget_or_def Let_def split: sum.split)

lemma check_list_lines:
  assumes "(name, c) \<in> set (check_list g v)"
  shows "check_line tx (KStr name, c) = Inr [check_row name c]"
  using assms by (auto simp: check_list_def check_lines split: option.splits)

lemma joined_singletons: "joined_rows (map (\<lambda>x. Inr [f x]) xs @ ps) = ebind (joined_rows ps) (\<lambda>ys. Inr (map f xs @ ys))"
  by (induction xs) (auto simp: joined_rows_def ebind_def split: sum.splits)

lemma lost_row:
  "va_delta v < 0 \<Longrightarrow> check_row ''row_count'' (row_count_check v)
     = ''| row_count | **FAIL** | '' @ show_int (- va_delta v) @ '' acked rows never landed '' @ em_dash @ '' DATA LOSS |''"
  by (simp add: check_row_def row_count_check_def Let_def dget_or_def)

lemma correctness_shape:
  assumes "ru_correctness r \<noteq> []" and "window_text (ru_correctness r) = Inr w" and "dict_at (ru_correctness r) ''checks'' = Inr cs"
  shows "\<exists>top tail. correctness_lines tx r = joined_rows (Inr top # map (check_line tx) cs @ [Inr tail])
    \<and> ''**VERDICT: '' @ or_missing tx (ru_correctness r) ''verdict'' @ ''**'' \<in> set top"
proof -
  have shape: "correctness_lines tx r = joined_rows (Inr (''## Correctness'' # [] # (''**VERDICT: '' @ or_missing tx (ru_correctness r) ''verdict'' @ ''**'')
      # rest) # map (check_line tx) cs @ [Inr tail]) \<longrightarrow> ?thesis" for rest tail
    by (intro impI exI conjI) (assumption, simp)
  show ?thesis by (rule shape [THEN mp]) (simp only: correctness_lines_def Let_def assms if_False ebind_simps append.simps)
qed

text \<open>C21: what the gate found reaches the report. When the document of the gate is the run's \<open>correctness.json\<close>, the
  section on correctness is written, has the verdict of the gate and one row for each check with its result and
  its sentence; if rows are missing, one row says how many and that data was lost.\<close>

theorem validation_is_reported:
  assumes "ru_correctness r = result_doc g v"
  shows "\<exists>ls. correctness_lines tx r = Inr ls
    \<and> ''**VERDICT: '' @ (if verdict (with_baseline (rg_base g) v) then ''PASS'' else ''FAIL'') @ ''**'' \<in> set ls
    \<and> {check_row name c | name c. (name, c) \<in> set (check_list g v)} \<subseteq> set ls
    \<and> (va_delta v < 0 \<longrightarrow> ''| row_count | **FAIL** | '' @ show_int (- va_delta v) @ '' acked rows never landed '' @ em_dash @ '' DATA LOSS |'' \<in> set ls)"
proof -
  note d = result_doc_get
  have checks: "dict_at (result_doc g v) ''checks'' = Inr (map (\<lambda>(k, c). (KStr k, c)) (check_list g v))"
    by (simp add: dict_at_def d py_or_def check_list_def)
  have "map (check_line tx) (map (\<lambda>(k, c). (KStr k, c)) (check_list g v)) = map (\<lambda>(k, c). Inr [check_row k c]) (check_list g v)"
    by (auto simp: check_list_lines)
  then have rows: "map (check_line tx) (map (\<lambda>(k, c). (KStr k, c)) (check_list g v)) = map (\<lambda>x. Inr [check_row (fst x) (snd x)]) (check_list g v)"
    by (simp add: case_prod_beta')
  have window: "window_text (result_doc g v) = Inr (join_with '' .. '' [fst (rg_window g), snd (rg_window g)])" by (simp add: window_text_def d)
  have verdict: "or_missing tx (result_doc g v) ''verdict'' = (if verdict (with_baseline (rg_base g) v) then ''PASS'' else ''FAIL'')"
    by (simp add: or_missing_def d)
  obtain top tail where shape: "correctness_lines tx r = joined_rows (Inr top # map (check_line tx) (map (\<lambda>(k, c). (KStr k, c)) (check_list g v)) @ [Inr tail])"
    "''**VERDICT: '' @ or_missing tx (result_doc g v) ''verdict'' @ ''**'' \<in> set top"
    using correctness_shape [of r, unfolded assms, OF d(1) window checks] by blast
  define ls where "ls = top @ map (\<lambda>x. check_row (fst x) (snd x)) (check_list g v) @ tail"
  have one: "correctness_lines tx r = Inr ls"
    unfolding shape(1) rows ls_def by (simp add: joined_rows_Cons joined_singletons)
  have all: "{check_row name c | name c. (name, c) \<in> set (check_list g v)} \<subseteq> set ls"
  proof clarify
    fix name c assume "(name, c) \<in> set (check_list g v)"
    then have "check_row (fst (name, c)) (snd (name, c)) \<in> (\<lambda>x. check_row (fst x) (snd x)) ` set (check_list g v)" by (rule imageI)
    then show "check_row name c \<in> set ls" unfolding ls_def by simp
  qed
  have "(''row_count'', row_count_check v) \<in> set (check_list g v)" by (simp add: check_list_def)
  then have count: "check_row ''row_count'' (row_count_check v) \<in> set ls" using all by blast
  have "''**VERDICT: '' @ (if verdict (with_baseline (rg_base g) v) then ''PASS'' else ''FAIL'') @ ''**'' \<in> set ls"
    using shape(2) unfolding verdict ls_def set_append by (rule UnI1)
  moreover have "va_delta v < 0 \<longrightarrow> ''| row_count | **FAIL** | '' @ show_int (- va_delta v) @ '' acked rows never landed '' @ em_dash @ '' DATA LOSS |'' \<in> set ls"
    using count lost_row [of v] by metis
  ultimately show ?thesis using one all by blast
qed

definition demo_readings :: readings where
  "demo_readings =
     \<lparr>rg_test = PStr ''t1'', rg_watermark = Inl ''no such table'', rg_error = [], rg_times = ([], []), rg_window = (''a'', ''b''), rg_base = None\<rparr>"

lemma validation_is_reported_witness:
  "\<exists>v ls. validate (\<lambda>_. None) None 0 9 [''u''] (map (demo_row ''u'') [0, 1]) (demo_manifest 3 4 3) = Inr v
     \<and> correctness_lines bare_texts (no_files\<lparr>ru_correctness := result_doc demo_readings v\<rparr>) = Inr ls
     \<and> ''| row_count | **FAIL** | 1 acked rows never landed '' @ em_dash @ '' DATA LOSS |'' \<in> set ls"
proof (rule lossy_validation)
  fix v
  assume v: "validate (\<lambda>_. None) None 0 9 [''u''] (map (demo_row ''u'') [0, 1]) (demo_manifest 3 4 3) = Inr v"
    "va_landed v = 2" "va_accepted v = 3"
  have delta: "va_delta v = - 1" using v validate_delta [OF v(1)] by simp
  have one: "show_int 1 = ''1''" by code_simp
  obtain ls where ls: "correctness_lines bare_texts (no_files\<lparr>ru_correctness := result_doc demo_readings v\<rparr>) = Inr ls"
    "''| row_count | **FAIL** | '' @ show_int (- va_delta v) @ '' acked rows never landed '' @ em_dash @ '' DATA LOSS |'' \<in> set ls"
    using validation_is_reported [of "no_files\<lparr>ru_correctness := result_doc demo_readings v\<rparr>" demo_readings v bare_texts] delta by fastforce
  then have "''| row_count | **FAIL** | '' @ ''1'' @ '' acked rows never landed '' @ em_dash @ '' DATA LOSS |'' \<in> set ls" unfolding delta using one by simp
  with v(1) ls(1) show ?thesis by (intro exI [of _ v] exI [of _ ls]) simp
qed

end
