(* ===== verification/CustomerReport.thy ===== *)
theory CustomerReport
  imports Report ValidateText
begin

text \<open>
  \<open>bench/customer_report.py\<close>: the figures and claims the customer's report takes from all runs. Which
  runs are collected, the sums over them, the best verified rate, the staircase, the recovery and the
  compaction run, and which claims are then made; the text itself is in \<open>CustomerText\<close>. Numbers in
  the files are finite and exact, as in \<open>Report\<close>.
\<close>

section \<open>Collecting the runs\<close>

record crun =
  cr_id :: string
  cr_manifest :: pydict
  cr_totals :: pyval
  cr_steps :: pyval
  cr_correctness :: pydict
  cr_metadata :: pydict
  cr_fault :: "pydict list"
  cr_before :: pydict
  cr_after :: pydict

definition jsonl_rows :: "(string \<Rightarrow> pyexn + pydict) \<Rightarrow> string list option \<Rightarrow> pyexn + pydict list" where
  \<comment> \<open>unlike \<open>load_jsonl\<close> of \<open>bench/report.py\<close>, a line that is not JSON raises\<close>
  "jsonl_rows loads file =
     (case file of None \<Rightarrow> Inr [] | Some ls \<Rightarrow> emap loads (filter (\<lambda>l. l \<noteq> []) (map strip ls)))"

definition collect_run ::
  "(string \<Rightarrow> pyexn + pydict) \<Rightarrow> (string \<Rightarrow> pyval option) \<Rightarrow> (string \<Rightarrow> string list option) \<Rightarrow> string \<Rightarrow> pyexn + crun option" where
  \<comment> \<open>the documents and the files of lines of one directory\<close>
  "collect_run loads json file name =
     (let doc = (\<lambda>n. load_json (json n)); gen = doc ''generator.json''; late = doc ''state-collected.json''
      in if doc ''manifest.json'' = [] then Inr None
         else ebind (jsonl_rows loads (file ''fault.jsonl'')) (\<lambda>fault.
           Inr (Some \<lparr>cr_id = name, cr_manifest = doc ''manifest.json'', cr_totals = dget_or gen ''totals'' (PDict []),
             cr_steps = dget_or gen ''steps'' (PList []), cr_correctness = doc ''correctness.json'',
             cr_metadata = doc ''metadata.json'', cr_fault = fault, cr_before = doc ''state-before.json'',
             cr_after = (if late \<noteq> [] then late else doc ''state-after.json'')\<rparr>)))"

section \<open>Sums over the runs\<close>

fun esum :: "('a \<Rightarrow> pyexn + rat) \<Rightarrow> 'a list \<Rightarrow> pyexn + rat" where
  "esum f [] = Inr 0"
| "esum f (x # xs) = ebind (f x) (\<lambda>a. ebind (esum f xs) (\<lambda>b. Inr (a + b)))"

definition get_from :: "pyval \<Rightarrow> string \<Rightarrow> pyval \<Rightarrow> pyexn + pyval" where
  "get_from v k dflt = ebind (as_dict v) (\<lambda>d. Inr (dget_or d k dflt))"

definition check_number :: "crun \<Rightarrow> string \<Rightarrow> string \<Rightarrow> pyexn + rat" where
  \<comment> \<open>\<open>correctness.get('checks', {}).get(check, {}).get(key, 0) or 0\<close>\<close>
  "check_number r check key =
     ebind (get_from (dget_or (cr_correctness r) ''checks'' (PDict [])) check (PDict [])) (\<lambda>c.
     ebind (get_from c key (PInt 0)) (\<lambda>v. as_number (py_or v (PInt 0))))"

definition total_of :: "string \<Rightarrow> crun list \<Rightarrow> pyexn + rat" where
  "total_of key rs = esum (\<lambda>r. as_number (dget_or (cr_manifest r) key (PInt 0))) rs"

definition total_landed :: "crun list \<Rightarrow> pyexn + rat" where
  "total_landed rs =
     esum (\<lambda>r. as_number (dget_or (cr_correctness r) ''landed'' (PInt 0))) (filter (\<lambda>r. cr_correctness r \<noteq> []) rs)"

definition dup_rows :: "crun list \<Rightarrow> pyexn + rat" where
  "dup_rows rs = esum (\<lambda>r. check_number r ''duplicates'' ''excess_rows'') rs"

definition loss_rows :: "crun list \<Rightarrow> pyexn + rat" where
  "loss_rows rs = esum (\<lambda>r. ebind (check_number r ''row_count'' ''delta'') (\<lambda>d. Inr (max 0 (- d)))) rs"

section \<open>The runs the report tells of\<close>

definition passed :: "crun list \<Rightarrow> crun list" where
  "passed rs = filter (\<lambda>r. dget_or (cr_correctness r) ''verdict'' PNone = PStr ''PASS'') rs"

definition list_length :: "pyval \<Rightarrow> pyexn + nat" where
  \<comment> \<open>\<open>len(steps)\<close>\<close>
  "list_length v = (case v of PList xs \<Rightarrow> Inr (length xs) | PDict d \<Rightarrow> Inr (length d) | PStr s \<Rightarrow> Inr (length s) | _ \<Rightarrow> Inl TypeError)"

definition single_rate :: "crun \<Rightarrow> pyexn + bool" where
  \<comment> \<open>not \<open>not t or steps and len(steps) > 1\<close>\<close>
  "single_rate r =
     (if \<not> truthy (cr_totals r) then Inr False
      else if truthy (cr_steps r) then ebind (list_length (cr_steps r)) (\<lambda>n. Inr (n \<le> 1)) else Inr True)"

record best =
  be_rate :: rat
  be_run :: crun
  be_records :: rat

definition delivered :: "crun \<Rightarrow> pyexn + rat" where
  \<comment> \<open>accepted by offered, of the manifest\<close>
  "delivered r =
     (if truthy (dget_or (cr_manifest r) ''total_offered'' PNone)
      then ebind (item (cr_manifest r) ''total_accepted'') (\<lambda>a. ebind (item (cr_manifest r) ''total_offered'') (\<lambda>n. Inr (a / n)))
      else Inr 0)"

definition candidate :: "crun \<Rightarrow> pyexn + best option" where
  \<comment> \<open>a run of one rate that delivered at least 99 of 100 records\<close>
  "candidate r =
     ebind (single_rate r) (\<lambda>single.
     if \<not> single then Inr None
     else ebind (get_from (cr_totals r) ''accepted_rps_mean'' (PInt 0)) (\<lambda>rv.
          ebind (delivered r) (\<lambda>q.
          if 99 / 100 \<le> q
          then ebind (as_number rv) (\<lambda>rate. ebind (item (cr_manifest r) ''total_accepted'') (\<lambda>n.
               Inr (Some \<lparr>be_rate = rate, be_run = r, be_records = n\<rparr>)))
          else Inr None)))"

fun best_of :: "crun list \<Rightarrow> best option \<Rightarrow> pyexn + best option" where
  "best_of [] b = Inr b"
| "best_of (r # rs) b =
     ebind (candidate r) (\<lambda>c.
     best_of rs (case c of None \<Rightarrow> b
       | Some x \<Rightarrow> (case b of None \<Rightarrow> Some x | Some y \<Rightarrow> if be_rate y < be_rate x then Some x else Some y)))"

fun stair_of :: "crun list \<Rightarrow> crun option \<Rightarrow> pyexn + crun option" where
  "stair_of [] s = Inr s"
| "stair_of (r # rs) s =
     ebind (list_length (cr_steps r)) (\<lambda>n. stair_of rs (if 1 < n \<and> cr_correctness r \<noteq> [] then Some r else s))"

section \<open>The recovery run\<close>

record recovery =
  rc_run :: crun
  rc_signal :: pyval
  rc_detect :: "rat option"
  rc_outage :: "rat option"
  rc_self_healed :: pyval
  rc_failed :: pyval
  rc_verdict :: pyval

definition events_of :: "pydict list \<Rightarrow> pyexn + (string \<Rightarrow> pydict)" where
  \<comment> \<open>\<open>{e['event']: e for e in fault}\<close>, then \<open>ev.get(name, {})\<close>: the last of a name\<close>
  "events_of fault =
     (if list_all (\<lambda>e. dget e ''event'' \<noteq> None) fault
      then Inr (\<lambda>name. case filter (\<lambda>e. dget e ''event'' = Some (PStr name)) fault of [] \<Rightarrow> [] | es \<Rightarrow> last es)
      else Inl KeyError)"

definition between :: "pyval \<Rightarrow> pyval \<Rightarrow> pyexn + rat option" where
  \<comment> \<open>\<open>(b - a) if a and b else None\<close>\<close>
  "between a b =
     (if truthy a \<and> truthy b then ebind (as_number b) (\<lambda>y. ebind (as_number a) (\<lambda>x. Inr (Some (y - x)))) else Inr None)"

definition recovery_of :: "crun \<Rightarrow> pyexn + recovery" where
  "recovery_of r =
     ebind (events_of (cr_fault r)) (\<lambda>ev.
     let inj = dget_or (ev ''fault_injected'') ''at'' PNone; det = dget_or (ev ''down_detected'') ''at'' PNone;
         rec = dget_or (ev ''recovered'') ''at'' PNone
     in ebind (between inj det) (\<lambda>detect. ebind (between inj rec) (\<lambda>outage.
        Inr \<lparr>rc_run = r, rc_signal = dget_or (ev ''fault_injected'') ''signal'' (PStr ''SIGKILL''), rc_detect = detect,
             rc_outage = outage, rc_self_healed = dget_or (ev ''recovered'') ''self_healed'' PNone,
             rc_failed = dget_or (cr_manifest r) ''requests_failed'' (PInt 0),
             rc_verdict = dget_or (cr_correctness r) ''verdict'' PNone\<rparr>)))"

fun last_recovery :: "crun list \<Rightarrow> recovery option \<Rightarrow> pyexn + recovery option" where
  "last_recovery [] x = Inr x"
| "last_recovery (r # rs) x =
     (if infix_of ''recovery'' (cr_id r) \<and> cr_fault r \<noteq> [] then ebind (recovery_of r) (\<lambda>y. last_recovery rs (Some y))
      else last_recovery rs x)"

section \<open>The compaction story\<close>

record merged =
  mg_run :: crun
  mg_files :: rat
  mg_minor :: pyval
  mg_major :: pyval
  mg_files_after :: pyval

definition bench_counters :: "pydict \<Rightarrow> pyexn + pyval" where
  "bench_counters state =
     ebind (get_from (py_or (dget_or state ''compactor_health'' PNone) (PDict [])) ''databases'' (PDict [])) (\<lambda>dbs.
     get_from dbs ''bench'' PNone)"

definition merged_of :: "crun \<Rightarrow> pyexn + merged option" where
  "merged_of r =
     ebind (bench_counters (cr_before r)) (\<lambda>cb. ebind (bench_counters (cr_after r)) (\<lambda>ca.
     let ka = py_or (dget_or (cr_after r) ''catalog'' PNone) (PDict [])
     in if truthy cb \<and> truthy ca \<and> truthy ka
        then ebind (get_from ca ''totalFilesCompacted'' (PInt 0)) (\<lambda>y. ebind (get_from cb ''totalFilesCompacted'' (PInt 0)) (\<lambda>x.
             ebind (as_number y) (\<lambda>b. ebind (as_number x) (\<lambda>a.
             ebind (get_from ca ''totalMinorCompactions'' (PInt 0)) (\<lambda>mi. ebind (get_from ca ''totalMajorCompactions'' (PInt 0)) (\<lambda>ma.
             ebind (get_from ka ''live_files'' PNone) (\<lambda>n.
             Inr (Some \<lparr>mg_run = r, mg_files = b - a, mg_minor = mi, mg_major = ma, mg_files_after = n\<rparr>))))))))
        else Inr None))"

fun first_merged :: "crun list \<Rightarrow> pyexn + merged option" where
  "first_merged [] = Inr None"
| "first_merged (r # rs) = ebind (merged_of r) (\<lambda>c. if c \<noteq> None then Inr c else first_merged rs)"

definition compaction_of :: "crun list \<Rightarrow> pyexn + merged option" where
  \<comment> \<open>the largest run first\<close>
  "compaction_of rs =
     ebind (emap (\<lambda>r. as_number (dget_or (cr_manifest r) ''total_accepted'' (PInt 0))) rs) (\<lambda>ns.
     first_merged (map snd (sort_key (\<lambda>p. - fst p) (zip ns rs))))"

section \<open>The claims\<close>

definition outage_needed :: "recovery option \<Rightarrow> pyexn + unit" where
  \<comment> \<open>the headline of a recovery that passed formats the length of the outage\<close>
  "outage_needed rec =
     (case rec of None \<Rightarrow> Inr ()
      | Some x \<Rightarrow> guard_or (rc_verdict x = PStr ''PASS'' \<longrightarrow> rc_outage x \<noteq> None) TypeError)"

record claims =
  cl_runs :: nat
  cl_offered :: rat
  cl_accepted :: rat
  cl_landed :: rat
  cl_lost :: rat
  cl_duplicated :: rat
  cl_no_loss_on_kill :: bool
  cl_all_delivered_at :: "rat option"
  cl_lost_on_kill :: "rat option"
  cl_duplicated_on_kill :: "rat option"
  cl_relay_note :: bool
  cl_merged :: "rat option"

definition claims_of :: "crun list \<Rightarrow> pyexn + claims" where
  \<comment> \<open>section 1, section 4, and the table of section 5, whose two zeros are part of its text\<close>
  "claims_of rs =
     ebind (total_of ''total_offered'' rs) (\<lambda>offered. ebind (total_of ''total_accepted'' rs) (\<lambda>accepted.
     ebind (total_landed rs) (\<lambda>landed. ebind (dup_rows rs) (\<lambda>dup. ebind (loss_rows rs) (\<lambda>lost.
     ebind (best_of (passed rs) None) (\<lambda>best. ebind (stair_of rs None) (\<lambda>stair. ebind (last_recovery rs None) (\<lambda>rec.
     ebind (compaction_of rs) (\<lambda>comp. ebind (outage_needed rec) (\<lambda>_.
     Inr \<lparr>cl_runs = length rs, cl_offered = offered, cl_accepted = accepted, cl_landed = landed, cl_lost = lost,
          cl_duplicated = dup,
          cl_no_loss_on_kill = (case rec of None \<Rightarrow> False | Some x \<Rightarrow> rc_verdict x = PStr ''PASS''),
          cl_all_delivered_at = map_option be_rate best,
          cl_lost_on_kill = map_option (\<lambda>_. 0) rec, cl_duplicated_on_kill = map_option (\<lambda>_. 0) rec,
          cl_relay_note = list_ex (\<lambda>r. py_or (dget_or (cr_metadata r) ''transport'' PNone) (PStr ''direct'') \<noteq> PStr ''direct'') rs,
          cl_merged = map_option mg_files comp\<rparr>))))))))))"

section \<open>What the sums count\<close>

definition validated :: "crun \<Rightarrow> validation \<Rightarrow> bool" where
  \<comment> \<open>the run's correctness document is the one the gate writes of this validation, with or without a baseline\<close>
  "validated r v = (\<exists>g. cr_correctness r = result_doc g v)"

lemma check_number_doc:
  assumes "validated r v"
  shows "check_number r ''row_count'' ''delta'' = Inr (of_int (va_delta v))"
    and "check_number r ''duplicates'' ''excess_rows'' = Inr (of_int (va_excess v))"
proof -
  obtain g where "cr_correctness r = result_doc g v" using assms by (auto simp: validated_def)
  then have checks: "dget_or (cr_correctness r) ''checks'' (PDict []) = doc (check_list g v)" by (simp only: result_doc_get)
  have "get_from (doc (check_list g v)) ''row_count'' (PDict []) = Inr (row_count_check v)"
    "get_from (doc (check_list g v)) ''duplicates'' (PDict []) = Inr (duplicates_check v)"
    by (simp_all add: get_from_def dget_or_def check_list_def)
  moreover have "get_from (row_count_check v) ''delta'' (PInt 0) = Inr (PInt (va_delta v))"
    "get_from (duplicates_check v) ''excess_rows'' (PInt 0) = Inr (PInt (va_excess v))"
    by (simp_all add: get_from_def dget_or_def row_count_check_def duplicates_check_def Let_def)
  moreover have "as_number (py_or (PInt i) (PInt 0)) = Inr (of_int i)" for i by (simp add: as_number_def py_or_def)
  ultimately show "check_number r ''row_count'' ''delta'' = Inr (of_int (va_delta v))"
    "check_number r ''duplicates'' ''excess_rows'' = Inr (of_int (va_excess v))"
    by (simp_all add: check_number_def checks)
qed

lemma landed_doc:
  assumes "validated r v"
  shows "as_number (dget_or (cr_correctness r) ''landed'' (PInt 0)) = Inr (of_int (va_landed v))" and "cr_correctness r \<noteq> []"
  using assms by (auto simp: validated_def dget_or_def result_doc_def Let_def as_number_def)

lemma sums_of_validated:
  assumes "list_all2 validated rs vs"
  shows "loss_rows rs = Inr (\<Sum>v \<leftarrow> vs. of_int (max 0 (- va_delta v)))
    \<and> dup_rows rs = Inr (\<Sum>v \<leftarrow> vs. of_int (va_excess v)) \<and> total_landed rs = Inr (\<Sum>v \<leftarrow> vs. of_int (va_landed v))"
  using assms
proof (induction rule: list_all2_induct)
  case (Cons r rs v vs)
  note d = check_number_doc [OF Cons(1)] and l = landed_doc [OF Cons(1)]
  have m: "max 0 (- of_int (va_delta v)) = (of_int (max 0 (- va_delta v)) :: rat)" by (simp add: max_def)
  from Cons(3) show ?case by (simp add: loss_rows_def dup_rows_def total_landed_def d l m)
qed (simp_all add: loss_rows_def dup_rows_def total_landed_def)

text \<open>C19: the losses the customer is told are the losses the validation found. Over runs that were all
  validated, each with the document the gate wrote of it, the number of records reported lost is the sum, run by run, of the acknowledged records
  that the table falls short of, the number reported duplicated the sum of the excess rows, and the
  number reported as verified the sum of the rows that landed; a surplus in one run never makes up for
  a shortfall in another.\<close>

theorem losses_reported:
  assumes "list_all2 (\<lambda>r (x, v). validate cksum wm (fst x) (snd x) (gens x) table (cr_manifest r) = Inr v \<and> validated r v) rs xvs"
  shows "loss_rows rs = Inr (\<Sum>(x, v) \<leftarrow> xvs. of_int (max 0 (va_accepted v - va_landed v)))
    \<and> dup_rows rs = Inr (\<Sum>(x, v) \<leftarrow> xvs. of_int (va_excess v)) \<and> total_landed rs = Inr (\<Sum>(x, v) \<leftarrow> xvs. of_int (va_landed v))"
proof -
  have v: "list_all2 validated rs (map snd xvs)"
    using assms by (auto simp: list_all2_map2 split: prod.splits elim!: list_all2_mono)
  have "\<forall>(x, v) \<in> set xvs. va_delta v = va_landed v - va_accepted v"
    using assms by (induction rule: list_all2_induct) (auto dest: validate_delta)
  then have "(\<Sum>v \<leftarrow> map snd xvs. of_int (max 0 (- va_delta v)) :: rat) = (\<Sum>(x, v) \<leftarrow> xvs. of_int (max 0 (va_accepted v - va_landed v)))"
    by (induction xvs) auto
  with sums_of_validated [OF v] show ?thesis by (simp only:) (simp add: case_prod_beta' comp_def)
qed

section \<open>A recovery that lost records\<close>

lemma loss_nonneg: "esum (\<lambda>r. ebind (f r) (\<lambda>d. Inr (max 0 (- d)))) rs = Inr x \<Longrightarrow> 0 \<le> x"
  by (induction rs arbitrary: x) auto

lemma loss_at_least:
  assumes "loss_rows rs = Inr lost" and "r \<in> set rs" and "check_number r ''row_count'' ''delta'' = Inr d"
  shows "- d \<le> lost"
  using assms unfolding loss_rows_def
proof (induction rs arbitrary: lost)
  case (Cons q rs)
  then obtain e x where q: "check_number q ''row_count'' ''delta'' = Inr e"
    "esum (\<lambda>r. ebind (check_number r ''row_count'' ''delta'') (\<lambda>d. Inr (max 0 (- d)))) rs = Inr x" "lost = max 0 (- e) + x" by auto
  have "0 \<le> x" by (rule loss_nonneg [OF q(2)])
  then show ?case using Cons.IH [OF q(2) _ Cons.prems(3)] Cons.prems(2,3) q by (auto simp: max_def)
qed simp

lemma recovery_run: "recovery_of r = Inr y \<Longrightarrow> rc_run y = r \<and> rc_verdict y = dget_or (cr_correctness r) ''verdict'' PNone"
  by (auto simp: recovery_of_def Let_def)

lemma last_recovery_in:
  "last_recovery rs x = Inr (Some y) \<Longrightarrow> (\<exists>r \<in> set rs. recovery_of r = Inr y) \<or> x = Some y"
proof (induction rs arbitrary: x)
  case (Cons r rs)
  show ?case
  proof (cases "infix_of ''recovery'' (cr_id r) \<and> cr_fault r \<noteq> []")
    case True
    then obtain z where z: "recovery_of r = Inr z" "last_recovery rs (Some z) = Inr (Some y)" using Cons.prems by auto
    show ?thesis using Cons.IH [OF z(2)] z(1) by auto
  next
    case False
    then show ?thesis using Cons.prems Cons.IH [of x] by auto
  qed
qed simp

lemma failed_doc: "validated r v \<Longrightarrow> \<not> verdict v \<Longrightarrow> dget_or (cr_correctness r) ''verdict'' PNone = PStr ''FAIL''"
  using baseline_never_mends by (auto simp: validated_def result_doc_get(2))

text \<open>C35: a recovery test that lost records is reported as having lost none. Whenever the report tells of a
  recovery run, its table says that no acknowledged record was lost and none duplicated. If the
  validation of that run found fewer rows than were acknowledged, the same report counts at least one
  lost record in its total and leaves out the headline of the recovery, but the table stays.\<close>

theorem recovery_always_without_loss:
  assumes "claims_of rs = Inr c" and "last_recovery rs None = Inr (Some y)"
    and "validate cksum wm t0 t1 gens table m = Inr v" and "validated (rc_run y) v" and "va_landed v < va_accepted v"
  shows "cl_lost_on_kill c = Some 0 \<and> cl_duplicated_on_kill c = Some 0 \<and> 1 \<le> cl_lost c \<and> \<not> cl_no_loss_on_kill c"
proof -
  obtain lost where l: "loss_rows rs = Inr lost" and c: "cl_lost c = lost" "cl_lost_on_kill c = Some 0" "cl_duplicated_on_kill c = Some 0"
    "cl_no_loss_on_kill c \<longleftrightarrow> rc_verdict y = PStr ''PASS''"
    using assms(1,2) by (auto simp: claims_of_def)
  note d = validate_shortfall [OF assms(3,5)]
  obtain r where r: "r \<in> set rs" "recovery_of r = Inr y" using last_recovery_in [OF assms(2)] by auto
  note y = recovery_run [OF r(2)]
  have "- of_int (va_delta v) \<le> lost"
    by (rule loss_at_least [OF l r(1) check_number_doc(1)]) (use y assms(4) in simp)
  then have "of_int (va_accepted v - va_landed v) \<le> lost" using d(1) by simp
  moreover have "(of_int 1 :: rat) \<le> of_int (va_accepted v - va_landed v)" using assms(5) by (simp only: of_int_le_iff)
  moreover have "rc_verdict y = PStr ''FAIL''" using y failed_doc [OF assms(4) d(2)] by simp
  ultimately show ?thesis using c by simp
qed

section \<open>The best rate\<close>

lemma best_of_bound:
  assumes "best_of rs b = Inr (Some x)"
  shows "(b = Some x \<or> (\<exists>r \<in> set rs. candidate r = Inr (Some x)))
    \<and> (\<forall>r \<in> set rs. \<forall>y. candidate r = Inr (Some y) \<longrightarrow> be_rate y \<le> be_rate x) \<and> (\<forall>y. b = Some y \<longrightarrow> be_rate y \<le> be_rate x)"
  using assms
proof (induction rs arbitrary: b)
  case (Cons r rs)
  then obtain c where c: "candidate r = Inr c" by auto
  show ?case
  proof (cases c)
    case None
    then have "best_of rs b = Inr (Some x)" using Cons.prems c by simp
    from Cons.IH [OF this] show ?thesis using c None by auto
  next
    case (Some z)
    then have "best_of rs (case b of None \<Rightarrow> Some z | Some y \<Rightarrow> if be_rate y < be_rate z then Some z else Some y) = Inr (Some x)"
      using Cons.prems c by simp
    from Cons.IH [OF this] show ?thesis using c Some by (cases b) (auto split: if_splits)
  qed
qed simp

lemma candidate_facts:
  assumes "candidate r = Inr (Some x)"
  shows "be_run x = r" and "\<exists>q. delivered r = Inr q \<and> 99 / 100 \<le> q"
  using assms by (auto simp: candidate_def split: if_splits)

text \<open>The rate said to be sustained with all records delivered is the highest verified one, but of runs
  that delivered 99 of 100. It is the rate of a run of the report whose verdict is a pass and that
  accepted at least 99 of 100 offered records, and no such run has a higher rate.\<close>

theorem best_rate_is_highest:
  assumes "claims_of rs = Inr c" and "cl_all_delivered_at c = Some rate"
  shows "\<exists>x :: best. be_rate x = rate \<and> be_run x \<in> set rs \<and> dget_or (cr_correctness (be_run x)) ''verdict'' PNone = PStr ''PASS''
      \<and> (\<exists>q. delivered (be_run x) = Inr q \<and> 99 / 100 \<le> q)
      \<and> (\<forall>r \<in> set (passed rs). \<forall>y. candidate r = Inr (Some y) \<longrightarrow> be_rate y \<le> rate)"
proof -
  obtain x where x: "best_of (passed rs) None = Inr (Some x)" "be_rate x = rate" using assms by (auto simp: claims_of_def)
  note b = best_of_bound [OF x(1)]
  then obtain r where r: "r \<in> set (passed rs)" "candidate r = Inr (Some x)" by auto
  show ?thesis using candidate_facts [OF r(2)] r(1) b x(2) by (intro exI [of _ x]) (auto simp: passed_def)
qed

section \<open>A report of two runs\<close>

definition demo_run :: "string \<Rightarrow> pydict \<Rightarrow> pydict list \<Rightarrow> validation \<Rightarrow> crun" where
  "demo_run name m fault v =
     \<lparr>cr_id = name, cr_manifest = m, cr_totals = PDict [(KStr ''accepted_rps_mean'', PInt 50)], cr_steps = PList [],
      cr_correctness = result_doc demo_readings v, cr_metadata = [], cr_fault = fault, cr_before = [], cr_after = []\<rparr>"

definition kill_events :: "pydict list" where
  "kill_events =
     [[(KStr ''event'', PStr ''fault_injected''), (KStr ''at'', PInt 10)], [(KStr ''event'', PStr ''recovered''), (KStr ''at'', PInt 14)]]"

lemma demo_validated: "validated (demo_run name m fault v) v"
  by (auto simp: validated_def demo_run_def)

lemma demo_verdict: "dget_or (cr_correctness (demo_run name m fault v)) ''verdict'' PNone = PStr (if verdict v then ''PASS'' else ''FAIL'')"
  by (simp add: demo_run_def result_doc_get(2) demo_readings_def with_baseline_def)

lemma losses_reported_witness:
  "\<exists>v. loss_rows [demo_run ''r'' (demo_manifest 3 4 3) [] v] = Inr 1
     \<and> validate (\<lambda>_. None) None 0 9 [''u''] (map (demo_row ''u'') [0, 1]) (demo_manifest 3 4 3) = Inr v"
proof (rule lossy_validation)
  fix v
  assume v: "validate (\<lambda>_. None) None 0 9 [''u''] (map (demo_row ''u'') [0, 1]) (demo_manifest 3 4 3) = Inr v"
    "va_landed v = 2" "va_accepted v = 3"
  have "list_all2 (\<lambda>r (x, v). validate (\<lambda>_. None) None (fst x) (snd x) [''u''] (map (demo_row ''u'') [0, 1]) (cr_manifest r) = Inr v
      \<and> validated r v) [demo_run ''r'' (demo_manifest 3 4 3) [] v] [((0, 9), v)]"
    using v(1) demo_validated [of "''r''"] by (simp add: demo_run_def)
  from losses_reported [OF this] v show ?thesis by auto
qed

lemma demo_recovery:
  "last_recovery [demo_run ''recovery'' m kill_events v] None = Inr (Some
     \<lparr>rc_run = demo_run ''recovery'' m kill_events v, rc_signal = PStr ''SIGKILL'', rc_detect = None, rc_outage = Some 4,
      rc_self_healed = PNone, rc_failed = dget_or m ''requests_failed'' (PInt 0),
      rc_verdict = PStr (if verdict v then ''PASS'' else ''FAIL'')\<rparr>)"
proof -
  let ?r = "demo_run ''recovery'' m kill_events v"
  have f: "cr_fault ?r = kill_events" "cr_manifest ?r = m" "cr_id ?r = ''recovery''" by (simp_all add: demo_run_def)
  have verdict: "dget_or (cr_correctness ?r) ''verdict'' PNone = PStr (if verdict v then ''PASS'' else ''FAIL'')"
    by (rule demo_verdict)
  obtain ev where ev: "events_of kill_events = Inr ev"
    "ev ''fault_injected'' = [(KStr ''event'', PStr ''fault_injected''), (KStr ''at'', PInt 10)]" "ev ''down_detected'' = []"
    "ev ''recovered'' = [(KStr ''event'', PStr ''recovered''), (KStr ''at'', PInt 14)]"
    by (simp add: events_of_def kill_events_def)
  have "recovery_of ?r = Inr \<lparr>rc_run = ?r, rc_signal = PStr ''SIGKILL'', rc_detect = None, rc_outage = Some 4,
      rc_self_healed = PNone, rc_failed = dget_or m ''requests_failed'' (PInt 0),
      rc_verdict = PStr (if verdict v then ''PASS'' else ''FAIL'')\<rparr>"
    unfolding recovery_of_def f verdict by (simp add: ev between_def as_number_def)
  moreover have "kill_events \<noteq> []" by (simp add: kill_events_def)
  ultimately show ?thesis by (simp add: f)
qed

lemma demo_compaction: "compaction_of [demo_run name (demo_manifest h n a) fault v] = Inr None"
  by (simp add: compaction_of_def demo_manifest_def demo_run_def dget_or_def as_number_def merged_of_def bench_counters_def get_from_def
    py_or_def Let_def)

lemma demo_sums:
  "total_of ''total_offered'' [demo_run name (demo_manifest h n a) fault v] = Inr (of_int n)"
  "total_of ''total_accepted'' [demo_run name (demo_manifest h n a) fault v] = Inr (of_int a)"
  by (simp_all add: total_of_def demo_manifest_def demo_run_def dget_or_def as_number_def)

lemma demo_stair: "list_length (cr_steps (demo_run name m fault v)) = Inr 0"
  by (simp add: demo_run_def list_length_def)

lemma recovery_always_without_loss_witness:
  "\<exists>rs c. claims_of rs = Inr c \<and> cl_lost_on_kill c = Some 0 \<and> 1 \<le> cl_lost c"
proof (rule lossy_validation)
  fix v
  assume v: "validate (\<lambda>_. None) None 0 9 [''u''] (map (demo_row ''u'') [0, 1]) (demo_manifest 3 4 3) = Inr v"
    "va_landed v = 2" "va_accepted v = 3"
  let ?r = "demo_run ''recovery'' (demo_manifest 3 4 3) kill_events v"
  have lt: "va_landed v < va_accepted v" using v by simp
  note d = validate_shortfall [OF v(1) lt]
  note rec = demo_recovery [of "demo_manifest 3 4 3" v]
  have "list_all2 validated [?r] [v]" by (simp add: demo_validated)
  note sums = sums_of_validated [OF this]
  have "passed [?r] = []" using demo_verdict [of "''recovery''" "demo_manifest 3 4 3" kill_events v] d(2)
    by (simp add: passed_def)
  then obtain c where c: "claims_of [?r] = Inr c"
    using sums rec d(2) by (auto simp: claims_of_def demo_sums demo_stair demo_compaction outage_needed_def)
  have "validated (rc_run \<lparr>rc_run = ?r, rc_signal = PStr ''SIGKILL'', rc_detect = None, rc_outage = Some 4, rc_self_healed = PNone,
      rc_failed = dget_or (demo_manifest 3 4 3) ''requests_failed'' (PInt 0), rc_verdict = PStr (if verdict v then ''PASS'' else ''FAIL'')\<rparr>) v"
    by (simp add: demo_validated)
  from recovery_always_without_loss [OF c rec v(1) this lt] c show ?thesis by blast
qed

lemma best_rate_is_highest_witness:
  "\<exists>rs c. claims_of rs = Inr c \<and> cl_all_delivered_at c = Some 50 \<and> (\<exists>x :: best. be_rate x = 50 \<and> be_run x \<in> set rs)"
proof (rule clean_validation)
  fix v
  assume v: "validate (\<lambda>_. None) None 0 9 [''u''] (map (demo_row ''u'') [0, 1]) (demo_manifest 1 2 2) = Inr v" "verdict v"
  let ?r = "demo_run ''r'' (demo_manifest 1 2 2) [] v"
  have p: "passed [?r] = [?r]" using demo_verdict [of "''r''" "demo_manifest 1 2 2" "[]" v] v(2) by (simp add: passed_def)
  have b: "best_of [?r] None = Inr (Some \<lparr>be_rate = 50, be_run = ?r, be_records = 2\<rparr>)"
    by (simp add: candidate_def single_rate_def delivered_def item_def get_from_def demo_run_def demo_manifest_def as_number_def dget_or_def)
  have "list_all2 validated [?r] [v]" by (simp add: demo_validated)
  note sums = sums_of_validated [OF this]
  have l: "last_recovery [?r] None = Inr None" by (simp add: demo_run_def)
  obtain c where c: "claims_of [?r] = Inr c" "cl_all_delivered_at c = Some 50"
    using sums p b l by (auto simp: claims_of_def demo_sums demo_stair demo_compaction outage_needed_def)
  from best_rate_is_highest [OF c] c show ?thesis by blast
qed

end
