(* ===== verification/CompactorLog.thy ===== *)
theory CompactorLog
  imports IsoTime EnvText Metrics
begin

text \<open>
  \<open>bench/parse_compactor_log.py\<close>: the compactor's log read as records. The three regular expressions are
  written out as functions that find the match Python's engine finds (the leftmost, each run as long
  as possible); \<open>datetime.fromisoformat\<close> is that of Python 3.11 and later, on the texts the first
  expression lets through. Lines are ASCII.
\<close>

section \<open>The leading timestamp\<close>

definition fits :: "string \<Rightarrow> string \<Rightarrow> bool" where
  \<comment> \<open>\<open>d\<close> stands for a digit\<close>
  "fits shape s =
     (length shape \<le> length s \<and> list_all2 (\<lambda>t c. if t = CHR ''d'' then is_digit c else c = t) shape (take (length shape) s))"

definition zone_length :: "string \<Rightarrow> nat" where
  \<comment> \<open>\<open>(?:Z|[+-]\d{2}:?\d{2})?\<close>\<close>
  "zone_length s =
     (if starts_with ''Z'' s then 1
      else if fits ''+dd:dd'' s \<or> fits ''-dd:dd'' s then 6
      else if fits ''+dddd'' s \<or> fits ''-dddd'' s then 5
      else 0)"

definition ts_length :: "string \<Rightarrow> nat" where
  \<comment> \<open>how long the timestamp is that a line starts with, 0 without one\<close>
  "ts_length s =
     (let r = drop 19 s; ds = takeWhile is_digit (drop 1 r)
      in if fits ''dddd-dd-ddTdd:dd:dd'' s \<and> (starts_with ''.'' r \<or> starts_with '','' r) \<and> ds \<noteq> []
         then 20 + length ds + zone_length (drop (Suc (length ds)) r) else 0)"

definition micros :: "string \<Rightarrow> nat" where
  \<comment> \<open>a fraction of a second: digits after the sixth are cut off\<close>
  "micros ds = num_of_digits (map digit_val (take 6 (ds @ ''000000'')))"

definition offset_seconds :: "string \<Rightarrow> int option" where
  \<comment> \<open>the offset at the end, after \<open>Z\<close> and \<open>+hhmm\<close> have been rewritten; no offset means UTC\<close>
  "offset_seconds z =
     (if z = [] \<or> z = ''Z'' then Some 0
      else let ds = filter is_digit z; n = (\<lambda>t. int (num_of_digits (map digit_val t)));
               secs = n (take 2 ds) * 3600 + n (drop 2 ds) * 60
           in if secs < 86400 then Some (if hd z = CHR ''-'' then - secs else secs) else None)"

definition parse_ts :: "string \<Rightarrow> rat option" where
  \<comment> \<open>the group \<open>ts\<close>, empty when it did not take part\<close>
  "parse_ts raw =
     (let ds = takeWhile is_digit (drop 20 raw); z = drop (20 + length ds) raw
      in case (if raw = [] then None else strptime_iso (take 19 raw), offset_seconds z) of
           (Some t, Some shift) \<Rightarrow>
             if cv_second t \<le> 59 then Some (of_int (timegm t - shift) + of_nat (micros ds) / 1000000) else None
         | _ \<Rightarrow> None)"

section \<open>Finding a match\<close>

fun find_at :: "(string \<Rightarrow> 'a option) \<Rightarrow> string \<Rightarrow> 'a option" where
  \<comment> \<open>\<open>.*?\<close> before a pattern\<close>
  "find_at p [] = p []"
| "find_at p (c # cs) = (case p (c # cs) of Some x \<Rightarrow> Some x | None \<Rightarrow> find_at p cs)"

definition name_char :: "char \<Rightarrow> bool" where
  "name_char c = (c \<in> set ''abcdefghijklmnopqrstuvwxyz_.'')"

definition spaced :: "string \<Rightarrow> string option" where
  \<comment> \<open>\<open>\s+\<close>\<close>
  "spaced s = (case s of c # cs \<Rightarrow> if is_space c then Some (dropWhile is_space cs) else None | [] \<Rightarrow> None)"

definition meter_here :: "string \<Rightarrow> (string \<times> string \<times> string) option" where
  \<comment> \<open>name, tags and fields\<close>
  "meter_here s =
     (if \<not> starts_with ''ducklake.'' s then None
      else let name = takeWhile name_char (drop 9 s); r = dropWhile name_char (drop 9 s);
               tags = takeWhile (\<lambda>c. c \<noteq> CHR ''}'') (drop 1 r); after = dropWhile (\<lambda>c. c \<noteq> CHR ''}'') (drop 1 r)
           in if name \<noteq> [] \<and> starts_with ''{'' r \<and> after \<noteq> []
              then map_option (\<lambda>f. (''ducklake.'' @ name, tags, f)) (spaced (drop 1 after)) else None)"

definition event_of :: "string \<Rightarrow> (string \<times> string) option" where
  \<comment> \<open>the message and its database\<close>
  "event_of s =
     (let hit = filter (\<lambda>p. starts_with p s \<and> takeWhile not_space (drop (length p) s) \<noteq> [])
            [''Minor compaction completed for '', ''Major compaction completed for '', ''Housekeeping completed for '']
      in case hit of [] \<Rightarrow> None
         | p # _ \<Rightarrow> let db = takeWhile not_space (drop (length p) s) in Some (p @ db, db))"

definition event_here :: "string \<Rightarrow> (string \<times> string) option" where
  "event_here s =
     (if \<not> starts_with ''CompactionService'' s then None
      else case spaced (drop 17 s) of
          None \<Rightarrow> None
        | Some r \<Rightarrow> if starts_with ''-'' r then (case spaced (drop 1 r) of None \<Rightarrow> None | Some m \<Rightarrow> event_of m) else None)"

section \<open>Tags and fields\<close>

definition parse_tags :: "string \<Rightarrow> (string \<times> string) list" where
  "parse_tags raw =
     foldl (\<lambda>d part. if CHR ''='' \<in> set part
        then (let (k, v) = partition_at (CHR ''='') part in AList.update (strip k) (strip v) d) else d)
      [] (split_on (CHR '','') raw)"

definition num_char :: "char \<Rightarrow> bool" where
  "num_char c = (is_digit c \<or> c \<in> set ''.eE+-'')"

definition unit_of :: "string \<Rightarrow> string" where
  \<comment> \<open>\<open>(/s|s|ms)?\<close>\<close>
  "unit_of s = (if starts_with ''/s'' s then ''/s'' else if starts_with ''s'' s then ''s'' else if starts_with ''ms'' s then ''ms'' else [])"

definition field_here :: "string \<Rightarrow> ((string \<times> string \<times> string) \<times> string) option" where
  \<comment> \<open>key, number, unit, and what follows\<close>
  "field_here s =
     (let key = takeWhile is_word s; r = dropWhile is_word s; n = takeWhile num_char (drop 1 r);
          rest = dropWhile num_char (drop 1 r); u = unit_of rest
      in if key \<noteq> [] \<and> starts_with ''='' r \<and> n \<noteq> [] then Some ((key, n, u), drop (length u) rest) else None)"

lemma field_here_shorter: "field_here s = Some (x, rest) \<Longrightarrow> length rest < length s"
proof -
  assume "field_here s = Some (x, rest)"
  then have k: "takeWhile is_word s \<noteq> []" and r: "length rest \<le> length (dropWhile num_char (drop 1 (dropWhile is_word s)))"
    by (auto simp: field_here_def Let_def split: if_splits)
  have "length rest \<le> length (dropWhile is_word s)"
    using r length_dropWhile_le [of num_char "drop 1 (dropWhile is_word s)"] by simp
  moreover have "length s = length (takeWhile is_word s) + length (dropWhile is_word s)"
    by (metis length_append takeWhile_dropWhile_id)
  ultimately show ?thesis using k by (cases "takeWhile is_word s") auto
qed

function fields_of :: "string \<Rightarrow> (string \<times> string \<times> string) list" where
  \<comment> \<open>\<open>FIELD.finditer\<close>\<close>
  "fields_of [] = []"
| "fields_of (c # cs) = (case field_here (c # cs) of None \<Rightarrow> fields_of cs | Some (x, rest) \<Rightarrow> x # fields_of rest)"
  by pat_completeness auto
termination
  by (relation "measure length") (auto dest: field_here_shorter)

definition field_value :: "string \<times> string \<times> string \<Rightarrow> (string \<times> pyfloat) option" where
  \<comment> \<open>every duration in milliseconds\<close>
  "field_value kv =
     (case kv of (key, n, u) \<Rightarrow>
        map_option (\<lambda>f. if u = ''s'' then (key @ ''_ms'', fmul f (Fin 1000)) else if u = ''ms'' then (key @ ''_ms'', f)
          else if u = ''/s'' then (key @ ''_per_s'', f) else (key, f)) (parse_float n))"

definition parse_fields :: "string \<Rightarrow> (string \<times> pyfloat) list" where
  \<comment> \<open>in order; a later one of the same key replaces an earlier one\<close>
  "parse_fields raw = concat (map (\<lambda>kv. case field_value kv of None \<Rightarrow> [] | Some x \<Rightarrow> [x]) (fields_of raw))"

section \<open>Records\<close>

definition put :: "string \<Rightarrow> pyval \<Rightarrow> pydict \<Rightarrow> pydict" where
  "put k v d = AList.update (KStr k) v d"

definition text_or_none :: "string option \<Rightarrow> pyval" where
  "text_or_none x = (case x of None \<Rightarrow> PNone | Some s \<Rightarrow> PStr s)"

definition time_or_none :: "rat option \<Rightarrow> pyval" where
  "time_or_none x = (case x of None \<Rightarrow> PNone | Some t \<Rightarrow> num t)"

definition flag_untimed :: "pydict \<Rightarrow> pydict" where
  \<comment> \<open>\<open>if rec['ts'] is None\<close>\<close>
  "flag_untimed rec = (if dget rec ''ts'' = Some PNone then put ''no_timestamp'' (PBool True) rec else rec)"

definition meter_record :: "rat option \<Rightarrow> string \<times> string \<times> string \<Rightarrow> pydict" where
  "meter_record ts m =
     (case m of (name, tags, raw) \<Rightarrow>
        let t = map_of (parse_tags tags)
        in flag_untimed (foldl (\<lambda>d (k, f). put k (PFloat f) d)
             [(KStr ''kind'', PStr ''meter''), (KStr ''ts'', time_or_none ts), (KStr ''metric'', PStr name),
              (KStr ''database'', text_or_none (t ''database'')), (KStr ''type'', text_or_none (t ''type'')),
              (KStr ''step'', text_or_none (t ''step''))] (parse_fields raw)))"

definition event_type :: "string \<Rightarrow> string" where
  "event_type msg =
     (if starts_with ''Minor'' msg then ''minor'' else if starts_with ''Major'' msg then ''major'' else ''housekeeping'')"

definition event_record :: "rat option \<Rightarrow> string \<times> string \<Rightarrow> pydict" where
  "event_record ts e =
     (case e of (msg, db) \<Rightarrow>
        flag_untimed [(KStr ''kind'', PStr ''event''), (KStr ''ts'', time_or_none ts), (KStr ''event'', PStr msg),
          (KStr ''database'', PStr db), (KStr ''type'', PStr (event_type msg))])"

definition parse_line :: "string \<Rightarrow> pydict option" where
  "parse_line line =
     (let n = ts_length line; ts = parse_ts (take n line); rest = dropWhile is_space (drop n line)
      in case find_at meter_here rest of
           Some m \<Rightarrow> Some (meter_record ts m)
         | None \<Rightarrow> map_option (event_record ts) (find_at event_here rest))"

definition rstrip_newlines :: "string \<Rightarrow> string" where
  "rstrip_newlines l = rev (dropWhile (\<lambda>c. c = newline) (rev l))"

definition parse_log :: "string list \<Rightarrow> pydict list" where
  \<comment> \<open>the loop of \<open>main\<close> over the lines of the file\<close>
  "parse_log lines = concat (map (\<lambda>l. case parse_line (rstrip_newlines l) of None \<Rightarrow> [] | Some r \<Rightarrow> [r]) lines)"

definition untimed_records :: "pydict list \<Rightarrow> nat" where
  "untimed_records rs = length (filter (\<lambda>r. truthy (dget_or r ''no_timestamp'' PNone)) rs)"

definition event_counts :: "pydict list \<Rightarrow> (pyval \<times> nat) list" where
  \<comment> \<open>\<open>counts\<close>, for the summary\<close>
  "event_counts rs =
     foldl (\<lambda>c r. if dget r ''kind'' = Some (PStr ''event'')
        then (let k = dget_or r ''type'' PNone in AList.update k (Suc (case map_of c k of None \<Rightarrow> 0 | Some n \<Rightarrow> n)) c) else c)
      [] rs"

section \<open>Which records have no time\<close>

lemma dget_put: "dget (put k v d) k' = (if k' = k then Some v else dget d k')"
  by (simp add: put_def update_conv)

definition put_fields :: "(string \<times> pyfloat) list \<Rightarrow> pydict \<Rightarrow> pydict" where
  "put_fields fs d = foldl (\<lambda>d (k, f). put k (PFloat f) d) d fs"

lemma put_fields_values: "dget (put_fields fs d) k = dget d k \<or> (\<exists>f. dget (put_fields fs d) k = Some (PFloat f))"
proof (induction fs arbitrary: d)
  case (Cons x fs)
  obtain n f where x: "x = (n, f)" by (cases x)
  show ?case using Cons.IH [of "put n (PFloat f) d"] by (auto simp: x put_fields_def dget_put)
qed (simp add: put_fields_def)

lemma put_fields_other: "k \<notin> fst ` set fs \<Longrightarrow> dget (put_fields fs d) k = dget d k"
  by (induction fs arbitrary: d) (auto simp: put_fields_def dget_put)

lemma flag_untimed_iff:
  assumes "dget rec ''no_timestamp'' \<noteq> Some (PBool True)"
  shows "dget (flag_untimed rec) ''no_timestamp'' = Some (PBool True) \<longleftrightarrow> dget (flag_untimed rec) ''ts'' = Some PNone"
  using assms by (simp add: flag_untimed_def dget_put)

text \<open>A record without a time says so. In every record read from a line the flag \<open>no_timestamp\<close> is set exactly
  when the time is null, and the time is null exactly when the line starts with no timestamp that is a
  valid time, unless a meter has a field that is itself called \<open>ts\<close>.\<close>

theorem untimed_is_flagged:
  assumes "parse_line line = Some r"
  shows "(dget r ''no_timestamp'' = Some (PBool True) \<longleftrightarrow> dget r ''ts'' = Some PNone)
    \<and> (dget r ''ts'' = Some PNone \<longrightarrow> parse_ts (take (ts_length line) line) = None)
    \<and> (parse_ts (take (ts_length line) line) = None \<longrightarrow> dget r ''ts'' = Some PNone \<or> (\<exists>f. dget r ''ts'' = Some (PFloat f)))"
proof -
  let ?ts = "parse_ts (take (ts_length line) line)"
  let ?base = "\<lambda>m t. [(KStr ''kind'', PStr ''meter''), (KStr ''ts'', time_or_none ?ts), (KStr ''metric'', PStr m),
      (KStr ''database'', text_or_none (t ''database'')), (KStr ''type'', text_or_none (t ''type'')),
      (KStr ''step'', text_or_none (t ''step''))]"
  consider m tags raw where "r = flag_untimed (put_fields (parse_fields raw) (?base m (map_of (parse_tags tags))))"
    | e where "r = event_record ?ts e"
    using assms by (auto simp: parse_line_def Let_def meter_record_def put_fields_def split: option.splits)
  then show ?thesis
  proof cases
    case 1
    let ?rec = "put_fields (parse_fields raw) (?base m (map_of (parse_tags tags)))"
    have "dget ?rec ''no_timestamp'' \<noteq> Some (PBool True)"
      using put_fields_values [of "parse_fields raw" "?base m (map_of (parse_tags tags))" "''no_timestamp''"] by auto
    moreover have "dget ?rec ''ts'' = Some (time_or_none ?ts) \<or> (\<exists>f. dget ?rec ''ts'' = Some (PFloat f))"
      using put_fields_values [of "parse_fields raw" "?base m (map_of (parse_tags tags))" "''ts''"] by simp
    moreover have "dget r ''ts'' = dget ?rec ''ts''" unfolding 1 by (simp add: flag_untimed_def dget_put)
    ultimately show ?thesis
      using flag_untimed_iff [of ?rec] unfolding 1 by (auto simp: time_or_none_def split: option.splits)
  next
    case 2
    then show ?thesis
      by (cases e) (auto simp: event_record_def flag_untimed_def dget_put time_or_none_def split: option.splits)
  qed
qed

lemma untimed_is_flagged_witness:
  "\<exists>r. parse_line ''x CompactionService - Minor compaction completed for bench'' = Some r
     \<and> dget r ''no_timestamp'' = Some (PBool True)"
proof -
  let ?l = "''x CompactionService - Minor compaction completed for bench''"
  have "map_option (\<lambda>r. dget r ''ts'') (parse_line ?l) = Some (Some PNone)" by code_simp
  then obtain r where r: "parse_line ?l = Some r" "dget r ''ts'' = Some PNone" by auto
  with untimed_is_flagged [OF r(1)] show ?thesis by blast
qed

section \<open>Meter lines read back\<close>

definition three :: "nat \<Rightarrow> string" where
  "three n = [char_of (48 + n div 100), char_of (48 + n div 10 mod 10), char_of (48 + n mod 10)]"

fun joined :: "char \<Rightarrow> string list \<Rightarrow> string" where
  "joined c [] = []"
| "joined c [x] = x"
| "joined c (x # y # ys) = x @ c # joined c (y # ys)"

definition tag_text :: "string \<times> string \<Rightarrow> string" where
  "tag_text kv = fst kv @ CHR ''='' # snd kv"

definition field_text :: "string \<times> string \<times> string \<Rightarrow> string" where
  "field_text kv = (case kv of (k, n, u) \<Rightarrow> k @ CHR ''='' # n @ u)"

definition meter_line ::
  "civil \<Rightarrow> nat \<Rightarrow> string \<Rightarrow> string \<Rightarrow> (string \<times> string) list \<Rightarrow> (string \<times> string \<times> string) list \<Rightarrow> string" where
  \<comment> \<open>as the logging registry prints a meter: time with milliseconds, logger, name, tags, fields\<close>
  "meter_line t ms pre name tags fs =
     butlast (utc_text t) @ CHR ''.'' # three ms @ ''Z '' @ pre @ ''ducklake.'' @ name
       @ CHR ''{'' # joined (CHR '','') (map tag_text tags) @ ''} '' @ joined (CHR '' '') (map field_text fs)"

definition tag_ok :: "string \<times> string \<Rightarrow> bool" where
  "tag_ok kv = list_all (\<lambda>c. \<not> is_space c \<and> c \<notin> set '',=}'') (fst kv @ snd kv)"

definition field_ok :: "string \<times> string \<times> string \<Rightarrow> bool" where
  "field_ok kv =
     (case kv of (k, n, u) \<Rightarrow> k \<noteq> [] \<and> list_all is_word k \<and> n \<noteq> [] \<and> list_all num_char n \<and> u \<in> set [[], ''s'', ''ms'', ''/s''])"

lemma split_on_absent: "c \<notin> set x \<Longrightarrow> split_on c x = [x]"
  by (induction x) auto

lemma split_on_joined:
  assumes "\<forall>x \<in> set xs. c \<notin> set x" and "xs \<noteq> []"
  shows "split_on c (joined c xs) = xs"
  using assms by (induction c xs rule: joined.induct) (simp_all add: split_on_absent split_on_append)

lemma strip_plain: "list_all (\<lambda>c. \<not> is_space c) s \<Longrightarrow> strip s = s"
proof -
  assume plain: "list_all (\<lambda>c. \<not> is_space c) s"
  have "s \<noteq> [] \<Longrightarrow> \<not> is_space (hd s)" "s \<noteq> [] \<Longrightarrow> \<not> is_space (hd (rev s))"
    using plain hd_in_set [of s] hd_in_set [of "rev s"] by (auto simp: list_all_iff)
  then have "dropWhile is_space s = s" "dropWhile is_space (rev s) = rev s" by (auto simp: dropWhile_eq_self_iff)
  then show ?thesis by (simp add: strip_def)
qed

lemma tag_text_split:
  assumes "tag_ok kv"
  shows "CHR '','' \<notin> set (tag_text kv)" and "CHR ''}'' \<notin> set (tag_text kv)"
    and "CHR ''='' \<in> set (tag_text kv)" and "partition_at (CHR ''='') (tag_text kv) = kv"
    and "strip (fst kv) = fst kv" and "strip (snd kv) = snd kv"
proof -
  show "CHR '','' \<notin> set (tag_text kv)" "CHR ''}'' \<notin> set (tag_text kv)" "CHR ''='' \<in> set (tag_text kv)"
    using assms by (auto simp: tag_ok_def tag_text_def list_all_iff)
  have "\<forall>c \<in> set (fst kv). c \<noteq> CHR ''=''" using assms by (auto simp: tag_ok_def list_all_iff)
  then show "partition_at (CHR ''='') (tag_text kv) = kv"
    by (simp add: partition_at_def tag_text_def takeWhile_append2 dropWhile_append2)
  have "list_all (\<lambda>c. \<not> is_space c) (fst kv)" "list_all (\<lambda>c. \<not> is_space c) (snd kv)"
    using assms by (simp_all add: tag_ok_def list_all_iff)
  then show "strip (fst kv) = fst kv" "strip (snd kv) = snd kv" by (simp_all add: strip_plain)
qed

lemma parse_tags_joined:
  assumes "list_all tag_ok tags" and "tags \<noteq> []"
  shows "parse_tags (joined (CHR '','') (map tag_text tags)) = foldl (\<lambda>d (k, v). AList.update k v d) [] tags"
proof -
  have "split_on (CHR '','') (joined (CHR '','') (map tag_text tags)) = map tag_text tags"
    using assms by (intro split_on_joined) (auto simp: list_all_iff dest: tag_text_split(1))
  moreover have "foldl (\<lambda>d part. if CHR ''='' \<in> set part
        then (let (k, v) = partition_at (CHR ''='') part in AList.update (strip k) (strip v) d) else d) d (map tag_text tags)
      = foldl (\<lambda>d (k, v). AList.update k v d) d tags" for d
    using assms(1)
  proof (induction tags arbitrary: d)
    case (Cons kv tags)
    then have "tag_ok kv" by simp
    note f = tag_text_split [OF this]
    show ?case using Cons f(3-6) by (cases kv) simp
  qed simp
  ultimately show ?thesis by (simp add: parse_tags_def)
qed

lemma map_of_updates:
  "distinct (map fst tags) \<Longrightarrow> map_of (foldl (\<lambda>d (k, v). AList.update k v d) d tags) k = (case map_of tags k of None \<Rightarrow> map_of d k | Some v \<Rightarrow> Some v)"
proof (induction tags arbitrary: d)
  case (Cons kv tags)
  obtain a b where kv: "kv = (a, b)" by (cases kv)
  have "map_of tags a = None" using Cons.prems by (simp add: kv map_of_eq_None_iff)
  then show ?case using Cons.IH [of "AList.update a b d"] Cons.prems by (simp add: kv update_conv' split: option.split)
qed simp

lemma run_split: "list_all P xs \<Longrightarrow> \<not> P c \<Longrightarrow> takeWhile P (xs @ c # r) = xs \<and> dropWhile P (xs @ c # r) = c # r"
  by (auto simp: list_all_iff takeWhile_append2 dropWhile_append2)

lemma field_char_facts:
  "\<not> is_word (CHR ''='')" "\<not> num_char (CHR '' '')" "\<not> num_char (CHR ''s'')" "\<not> num_char (CHR ''m'')" "\<not> num_char (CHR ''/'')"
  "\<not> is_word (CHR '' '')"
  by (simp_all add: is_word_def num_char_def is_digit_def)

lemma unit_after:
  assumes "u \<in> set [[], ''s'', ''ms'', ''/s'']" and "r = [] \<or> hd r = CHR '' ''" and "list_all num_char n"
  shows "takeWhile num_char (n @ u @ r) = n \<and> dropWhile num_char (n @ u @ r) = u @ r \<and> unit_of (u @ r) = u"
proof -
  have "takeWhile num_char (n @ x) = n @ takeWhile num_char x \<and> dropWhile num_char (n @ x) = dropWhile num_char x" for x
    using assms(3) by (auto simp: list_all_iff takeWhile_append2 dropWhile_append2)
  moreover have "takeWhile num_char (u @ r) = [] \<and> dropWhile num_char (u @ r) = u @ r \<and> unit_of (u @ r) = u"
    using assms(1,2) field_char_facts by (cases r) (auto simp: unit_of_def starts_with_def)
  ultimately show ?thesis by simp
qed

lemma field_here_text:
  assumes "field_ok kv" and "r = [] \<or> hd r = CHR '' ''"
  shows "field_here (field_text kv @ r) = Some (kv, r)"
proof -
  obtain k n u where kv: "kv = (k, n, u)" by (cases kv)
  have ok: "k \<noteq> []" "list_all is_word k" "n \<noteq> []" "list_all num_char n" "u \<in> set [[], ''s'', ''ms'', ''/s'']"
    using assms(1) by (simp_all add: kv field_ok_def)
  note w = run_split [OF ok(2) field_char_facts(1), of "n @ u @ r"] and n = unit_after [OF ok(5) assms(2) ok(4)]
  show ?thesis using w n ok(1,3) by (simp add: field_here_def kv field_text_def starts_with_def Let_def)
qed

lemma fields_of_blank: "fields_of (CHR '' '' # s) = fields_of s"
proof -
  have "field_here (CHR '' '' # s) = None" using field_char_facts(6) by (simp add: field_here_def Let_def)
  then show ?thesis by simp
qed

lemma fields_of_hit: "field_here s = Some (x, r) \<Longrightarrow> fields_of s = x # fields_of r"
  by (cases s) (auto simp: field_here_def Let_def)

lemma fields_of_joined: "list_all field_ok fs \<Longrightarrow> fields_of (joined (CHR '' '') (map field_text fs)) = fs"
proof (induction fs rule: induct_list012)
  case (2 f)
  then show ?case using fields_of_hit [OF field_here_text [of f "[]"]] by simp
next
  case (3 f g fs)
  then have f: "field_ok f" and IH: "fields_of (joined (CHR '' '') (map field_text (g # fs))) = g # fs" by simp_all
  show ?case
    using fields_of_hit [OF field_here_text [OF f, of "CHR '' '' # joined (CHR '' '') (map field_text (g # fs))"]] IH
      fields_of_blank [of "joined (CHR '' '') (map field_text (g # fs))"]
    by (simp del: fields_of.simps)
qed simp

lemma two_chars:
  assumes "0 \<le> n" and "n < 100"
  obtains a b where "two n = [a, b]" and "is_digit a" and "is_digit b"
  using two_facts(1) [OF assms] that by (auto simp: two_def all_digits_def)

lemma three_facts:
  assumes "n < 1000"
  obtains a b c where "three n = [a, b, c]" and "is_digit a" and "is_digit b" and "is_digit c"
    and "num_of_digits (map digit_val (three n)) = n"
proof -
  have d: "n div 100 < 10" "n div 10 mod 10 < 10" "n mod 10 < 10" using assms by auto
  have "10 * (10 * (n div 100) + n div 10 mod 10) + n mod 10 = n"
    using div_mult2_eq [of n 10 10] by simp
  with digit_char [OF d(1)] digit_char [OF d(2)] digit_char [OF d(3)] show thesis
    by (intro that [OF three_def]) (simp_all add: three_def num_of_digits_def)
qed

definition head_text :: "civil \<Rightarrow> nat \<Rightarrow> string" where
  "head_text t ms = butlast (utc_text t) @ CHR ''.'' # three ms @ ''Z''"

lemma head_read:
  assumes "civil_ok t" and "1000 \<le> cv_year t" and "ms < 1000"
  shows "ts_length (head_text t ms @ CHR '' '' # r) = 24" and "length (head_text t ms) = 24"
    and "parse_ts (head_text t ms) = Some (of_int (timegm t) + of_nat ms / 1000)"
proof -
  obtain y m d h mi s where t: "t = \<lparr>cv_year = y, cv_month = m, cv_day = d, cv_hour = h, cv_minute = mi, cv_second = s\<rparr>"
    by (cases t)
  have dim: "days_in_month y m \<le> 31" by (simp add: days_in_month_def)
  have ok: "0 \<le> y div 100" "y div 100 < 100" "0 \<le> y mod 100" "y mod 100 < 100" "0 \<le> m" "m < 100" "0 \<le> d" "d < 100"
    "0 \<le> h" "h < 100" "0 \<le> mi" "mi < 100" "0 \<le> s" "s < 100" "s \<le> 59"
    using assms dim by (auto simp: t civil_ok_def valid_date_def)
  obtain y1 y2 where y12: "two (y div 100) = [y1, y2]" "is_digit y1" "is_digit y2" by (rule two_chars [OF ok(1,2)])
  obtain y3 y4 where y34: "two (y mod 100) = [y3, y4]" "is_digit y3" "is_digit y4" by (rule two_chars [OF ok(3,4)])
  obtain m1 m2 where mm: "two m = [m1, m2]" "is_digit m1" "is_digit m2" by (rule two_chars [OF ok(5,6)])
  obtain d1 d2 where dd: "two d = [d1, d2]" "is_digit d1" "is_digit d2" by (rule two_chars [OF ok(7,8)])
  obtain h1 h2 where hh: "two h = [h1, h2]" "is_digit h1" "is_digit h2" by (rule two_chars [OF ok(9,10)])
  obtain i1 i2 where ii: "two mi = [i1, i2]" "is_digit i1" "is_digit i2" by (rule two_chars [OF ok(11,12)])
  obtain s1 s2 where ss: "two s = [s1, s2]" "is_digit s1" "is_digit s2" by (rule two_chars [OF ok(13,14)])
  obtain a b c where abc: "three ms = [a, b, c]" "is_digit a" "is_digit b" "is_digit c" "num_of_digits (map digit_val (three ms)) = ms"
    by (rule three_facts [OF assms(3)])
  have base: "butlast (utc_text t) = [y1, y2, y3, y4, CHR ''-'', m1, m2, CHR ''-'', d1, d2, CHR ''T'', h1, h2, CHR '':'', i1, i2, CHR '':'', s1, s2]"
    by (simp add: utc_text_def t y12 y34 mm dd hh ii ss butlast_append)
  have Z: "\<not> is_digit (CHR ''Z'')" by (simp add: is_digit_def)
  have head: "head_text t ms = butlast (utc_text t) @ [CHR ''.'', a, b, c, CHR ''Z'']" by (simp add: head_text_def abc(1))
  have "fits ''dddd-dd-ddTdd:dd:dd'' (head_text t ms @ CHR '' '' # r)"
    unfolding head base by (simp add: fits_def y12 y34 mm dd hh ii ss)
  then show "ts_length (head_text t ms @ CHR '' '' # r) = 24"
    unfolding ts_length_def head base by (simp add: starts_with_def abc(2-4) Z zone_length_def)
  show "length (head_text t ms) = 24" unfolding head base by simp
  have parts: "take 19 (head_text t ms) = butlast (utc_text t)" "drop 20 (head_text t ms) = [a, b, c, CHR ''Z'']"
    "drop 23 (head_text t ms) = ''Z''" "head_text t ms \<noteq> []"
    unfolding head base by simp_all
  have digits: "takeWhile is_digit [a, b, c, CHR ''Z''] = [a, b, c]" by (simp add: abc(2-4) Z)
  have "micros [a, b, c] = ms * 1000"
    using abc(5) by (simp add: abc(1) micros_def num_of_digits_def digit_val_def)
  moreover have "cv_second t \<le> 59" using ok(15) by (simp add: t)
  ultimately show "parse_ts (head_text t ms) = Some (of_int (timegm t) + of_nat ms / 1000)"
    unfolding parse_ts_def parts(1,2) digits Let_def using parts(3,4) strptime_utc [OF assms(1,2)]
    by (simp add: offset_seconds_def)
qed

lemma find_at_skip:
  assumes "\<forall>i < length pre. p (drop i (pre @ s)) = None"
  shows "find_at p (pre @ s) = find_at p s"
  using assms
proof (induction pre)
  case (Cons c pre)
  have "p (c # pre @ s) = None" using Cons.prems by fastforce
  moreover have "\<forall>i < length pre. p (drop i (pre @ s)) = None" using Cons.prems by fastforce
  ultimately show ?case using Cons.IH by simp
qed simp

lemma infix_of_drop: "take (length q) (drop i s) = q \<Longrightarrow> i + length q \<le> length s \<Longrightarrow> infix_of q s"
proof (induction s arbitrary: i)
  case (Cons c s)
  then show ?case by (cases i) auto
qed simp

lemma no_earlier_start:
  assumes "\<not> infix_of q (pre @ butlast q)" and "i < length pre" and "q \<noteq> []"
  shows "\<not> starts_with q (drop i (pre @ q @ s))"
proof
  assume start: "starts_with q (drop i (pre @ q @ s))"
  have len: "i + length q \<le> length (pre @ butlast q)" using assms(2,3) by (cases q) auto
  have "pre @ q @ s = (pre @ butlast q) @ last q # s" using assms(3) by (metis append.assoc append_Cons append_Nil append_butlast_last_id)
  moreover have "take (length q) (drop i (xs @ r)) = take (length q) (drop i xs)" if "i + length q \<le> length xs" for xs r
    using that by simp
  ultimately have "take (length q) (drop i (pre @ q @ s)) = take (length q) (drop i (pre @ butlast q))" using len by metis
  then have "take (length q) (drop i (pre @ butlast q)) = q" using start by (simp only: starts_with_def)
  from infix_of_drop [OF this len] assms(1) show False by simp
qed

lemma no_earlier_meter:
  assumes "\<not> infix_of ''ducklake.'' (pre @ ''ducklake'')" and "i < length pre"
  shows "meter_here (drop i (pre @ ''ducklake.'' @ s)) = None"
  using no_earlier_start [of "''ducklake.''" pre i s] assms unfolding meter_here_def by (simp only: if_True) simp

lemma joined_chars: "x \<in> set (joined c xs) \<Longrightarrow> x = c \<or> (\<exists>y \<in> set xs. x \<in> set y)"
  by (induction c xs rule: joined.induct) auto

lemma meter_here_text:
  assumes "name \<noteq> []" and "list_all name_char name" and "list_all tag_ok tags" and "list_all field_ok fs" and "fs \<noteq> []"
  shows "meter_here (''ducklake.'' @ name @ CHR ''{'' # joined (CHR '','') (map tag_text tags) @ ''} '' @ joined (CHR '' '') (map field_text fs))
    = Some (''ducklake.'' @ name, joined (CHR '','') (map tag_text tags), joined (CHR '' '') (map field_text fs))"
proof -
  let ?tags = "joined (CHR '','') (map tag_text tags)" and ?fields = "joined (CHR '' '') (map field_text fs)"
  have brace: "\<not> name_char (CHR ''{'')" by (simp add: name_char_def)
  note n = run_split [OF assms(2) brace, of "?tags @ ''} '' @ ?fields"]
  have "CHR ''}'' \<notin> set ?tags"
    using assms(3) joined_chars [of "CHR ''}''" "CHR '',''" "map tag_text tags"] tag_text_split(2) by (auto simp: list_all_iff)
  then have "list_all (\<lambda>c. c \<noteq> CHR ''}'') ?tags" by (auto simp: list_all_iff)
  note tg = run_split [OF this, of "CHR ''}''" "CHR '' '' # ?fields"]
  have "?fields \<noteq> [] \<and> \<not> is_space (hd ?fields)"
  proof -
    obtain k m u fs' where fs: "fs = (k, m, u) # fs'" using assms(5) by (metis neq_Nil_conv prod_cases3)
    then have "k \<noteq> []" "is_word (hd k)" using assms(4) by (auto simp: field_ok_def neq_Nil_conv)
    moreover have "hd ?fields = hd k" "?fields \<noteq> []" using \<open>k \<noteq> []\<close> by (cases fs'; simp add: fs field_text_def)+
    moreover have "\<not> is_space c" if "is_word c" for c
    proof -
      have "list_all (\<lambda>c. \<not> is_space c) ''ABCDEFGHIJKLMNOPQRSTUVWXYZabcdefghijklmnopqrstuvwxyz0123456789_''" by code_simp
      then show ?thesis using that unfolding is_word_def list_all_iff by blast
    qed
    ultimately show ?thesis by simp
  qed
  then have "spaced (CHR '' '' # ?fields) = Some ?fields" by (simp add: spaced_def is_space_def dropWhile_eq_self_iff)
  then show ?thesis
    using n tg assms(1) by (simp add: meter_here_def starts_with_def Let_def)
qed

definition scaled :: "string \<times> string \<times> string \<Rightarrow> string \<times> pyfloat" where
  \<comment> \<open>a field under the name and in the unit of the record\<close>
  "scaled kv =
     (case kv of (k, n, u) \<Rightarrow>
        let f = the (parse_float n)
        in (k @ (if u \<in> {''s'', ''ms''} then ''_ms'' else if u = ''/s'' then ''_per_s'' else []),
            if u = ''s'' then fmul f (Fin 1000) else f))"

lemma parse_fields_joined:
  assumes "list_all field_ok fs" and "list_all (\<lambda>(k, n, u). parse_float n \<noteq> None) fs"
  shows "parse_fields (joined (CHR '' '') (map field_text fs)) = map scaled fs"
proof -
  have "field_value kv = Some (scaled kv)" if "field_ok kv" "case kv of (k, n, u) \<Rightarrow> parse_float n \<noteq> None" for kv
    using that by (cases kv) (auto simp: field_value_def scaled_def field_ok_def Let_def)
  then show ?thesis
    unfolding parse_fields_def fields_of_joined [OF assms(1)] using assms by (induction fs) auto
qed

lemma meter_line_parts:
  "meter_line t ms pre name tags fs = head_text t ms @ CHR '' '' # pre @ ''ducklake.'' @ name
     @ CHR ''{'' # joined (CHR '','') (map tag_text tags) @ ''} '' @ joined (CHR '' '') (map field_text fs)"
  by (simp add: meter_line_def head_text_def)

lemma meter_line_read:
  assumes "civil_ok t" and "1000 \<le> cv_year t" and "ms < 1000" and "\<not> infix_of ''ducklake.'' (pre @ ''ducklake'')"
    and "pre = [] \<or> \<not> is_space (hd pre)" and "name \<noteq> []" and "list_all name_char name" and "list_all tag_ok tags"
    and "list_all field_ok fs" and "fs \<noteq> []"
  shows "parse_line (meter_line t ms pre name tags fs) = Some (meter_record (Some (of_int (timegm t) + of_nat ms / 1000))
    (''ducklake.'' @ name, joined (CHR '','') (map tag_text tags), joined (CHR '' '') (map field_text fs)))"
proof -
  let ?m = "''ducklake.'' @ name @ CHR ''{'' # joined (CHR '','') (map tag_text tags) @ ''} '' @ joined (CHR '' '') (map field_text fs)"
  note h = head_read [OF assms(1-3)]
  have line: "meter_line t ms pre name tags fs = head_text t ms @ CHR '' '' # pre @ ?m" by (rule meter_line_parts)
  have n: "ts_length (meter_line t ms pre name tags fs) = 24" unfolding line by (rule h(1))
  have tk: "take 24 (meter_line t ms pre name tags fs) = head_text t ms" "drop 24 (meter_line t ms pre name tags fs) = CHR '' '' # pre @ ?m"
    unfolding line using h(2) by simp_all
  have "\<not> is_space (hd (pre @ ?m))" using assms(5) by (cases pre) (auto simp: is_space_def)
  then have rest: "dropWhile is_space (CHR '' '' # pre @ ?m) = pre @ ?m"
    by (simp add: dropWhile_eq_self_iff is_space_def)
  have "find_at meter_here (pre @ ?m) = find_at meter_here ?m"
    by (rule find_at_skip) (use no_earlier_meter [OF assms(4)] in blast)
  also have "\<dots> = Some (''ducklake.'' @ name, joined (CHR '','') (map tag_text tags), joined (CHR '' '') (map field_text fs))"
    using meter_here_text [OF assms(6-10)] by simp
  finally show ?thesis unfolding parse_line_def Let_def n tk rest h(3) by simp
qed

text \<open>C25: a meter the compactor logged reads back. A line with a valid time in milliseconds, any logger's name
  before the meter, tags and fields reads as a record with that instant in seconds, the meter's name, the
  database, type and step of the tags, and every field under its name: seconds and milliseconds both in
  milliseconds, rates as rates.\<close>

theorem meter_reads_back:
  assumes "civil_ok t" and "1000 \<le> cv_year t" and "ms < 1000" and "\<not> infix_of ''ducklake.'' (pre @ ''ducklake'')"
    and "pre = [] \<or> \<not> is_space (hd pre)" and "name \<noteq> []" and "list_all name_char name"
    and "list_all tag_ok tags" and "distinct (map fst tags)" and "tags \<noteq> []"
    and "list_all field_ok fs" and "fs \<noteq> []" and "list_all (\<lambda>(k, n, u). parse_float n \<noteq> None) fs"
  shows "parse_line (meter_line t ms pre name tags fs) = Some (put_fields (map scaled fs)
    [(KStr ''kind'', PStr ''meter''), (KStr ''ts'', num (of_int (timegm t) + of_nat ms / 1000)),
     (KStr ''metric'', PStr (''ducklake.'' @ name)), (KStr ''database'', text_or_none (map_of tags ''database'')),
     (KStr ''type'', text_or_none (map_of tags ''type'')), (KStr ''step'', text_or_none (map_of tags ''step''))])"
proof -
  let ?base = "[(KStr ''kind'', PStr ''meter''), (KStr ''ts'', num (of_int (timegm t) + of_nat ms / 1000)),
     (KStr ''metric'', PStr (''ducklake.'' @ name)), (KStr ''database'', text_or_none (map_of tags ''database'')),
     (KStr ''type'', text_or_none (map_of tags ''type'')), (KStr ''step'', text_or_none (map_of tags ''step''))]"
  have tags: "map_of (parse_tags (joined (CHR '','') (map tag_text tags))) k = map_of tags k" for k
    unfolding parse_tags_joined [OF assms(8,10)] map_of_updates [OF assms(9)] by (simp split: option.split)
  have "dget (put_fields (map scaled fs) ?base) ''ts'' \<noteq> Some PNone"
    using put_fields_values [of "map scaled fs" ?base "''ts''"] by auto
  then show ?thesis
    unfolding meter_line_read [OF assms(1-8,11,12)]
    by (simp add: meter_record_def tags parse_fields_joined [OF assms(11,13)] time_or_none_def put_fields_def flag_untimed_def)
qed

lemma meter_reads_back_witness:
  "\<exists>r. parse_line (meter_line \<lparr>cv_year = 2026, cv_month = 9, cv_day = 17, cv_hour = 6, cv_minute = 28, cv_second = 17\<rparr> 907
       ''INFO meters - '' ''compaction.duration'' [(''database'', ''bench''), (''step'', ''merge''), (''type'', ''minor'')]
       [(''mean'', ''0.0244'', ''s''), (''max'', ''24.4'', ''ms'')]) = Some r
     \<and> dget r ''type'' = Some (PStr ''minor'') \<and> dget r ''mean_ms'' = dget r ''max_ms''"
proof -
  let ?t = "\<lparr>cv_year = 2026, cv_month = 9, cv_day = 17, cv_hour = 6, cv_minute = 28, cv_second = 17\<rparr>"
    and ?tags = "[(''database'', ''bench''), (''step'', ''merge''), (''type'', ''minor'')]"
    and ?fs = "[(''mean'', ''0.0244'', ''s''), (''max'', ''24.4'', ''ms'')]"
  have p: "parse_float ''0.0244'' = Some (Fin (61 / 2500))" "parse_float ''24.4'' = Some (Fin (122 / 5))" by code_simp+
  have "civil_ok ?t" by (simp add: civil_ok_def valid_date_def days_in_month_def)
  moreover have "\<not> infix_of ''ducklake.'' (''INFO meters - '' @ ''ducklake'')" by simp
  moreover have "list_all name_char ''compaction.duration''" "list_all tag_ok ?tags" "list_all field_ok ?fs" by code_simp+
  moreover have "''INFO meters - '' = [] \<or> \<not> is_space (hd ''INFO meters - '')" by code_simp
  ultimately show ?thesis
    using meter_reads_back [of ?t 907 "''INFO meters - ''" "''compaction.duration''" ?tags ?fs]
    by (simp add: p put_fields_def dget_put scaled_def text_or_none_def)
qed

end
