(* ===== verification/TrackA.thy ===== *)
theory TrackA
  imports Stats TextOps
begin

text \<open>
  \<open>bench/track_a.py\<close>: the protocol of the engine benchmark. What a measured function, a cache drop or a
  query takes is an argument; modelled are the statistics and the repetitions, the verified cold cache
  and its label, the rows the tests write, the ranges of rows they insert and the trimming of the data
  sets to the disk. The statements, the files and the whole rows are in \<open>TrackRuns\<close>.
\<close>

section \<open>Protocol\<close>

record timing =
  ti_runs :: nat
  ti_min :: rat
  ti_max :: rat
  ti_mean :: rat
  ti_median :: rat

definition stats_of :: "rat list \<Rightarrow> pyexn + timing" where
  "stats_of samples =
     (if samples = [] then Inl IndexError
      else let s = sort samples; r = round_to 4
           in Inr \<lparr>ti_runs = length s, ti_min = r (hd s), ti_max = r (last s), ti_mean = r (fmean s), ti_median = r (median_of s)\<rparr>)"

fun run_times :: "nat \<Rightarrow> ('w \<Rightarrow> 'a \<times> 'w) \<Rightarrow> 'w \<Rightarrow> 'a list \<times> 'w" where
  \<comment> \<open>\<open>[fn() for _ in range(n)]\<close>, the state of the machine threaded through\<close>
  "run_times 0 fn w = ([], w)"
| "run_times (Suc n) fn w = (let (x, w1) = fn w; (xs, w2) = run_times n fn w1 in (x # xs, w2))"

definition repeat :: "('w \<Rightarrow> rat \<times> 'w) \<Rightarrow> nat \<Rightarrow> nat \<Rightarrow> 'w \<Rightarrow> (pyexn + timing) \<times> 'w" where
  "repeat fn warmup runs w =
     (let (discarded, w1) = run_times warmup fn w; (xs, w2) = run_times runs fn w1 in (stats_of xs, w2))"

section \<open>The cold cache\<close>

fun cached_line :: "string list \<Rightarrow> pyexn + int" where
  \<comment> \<open>the loop over \<open>/proc/meminfo\<close>\<close>
  "cached_line [] = Inr 0"
| "cached_line (l # ls) =
     (if starts_with ''Cached:'' l then ebind (int_field (words_of l) 1) (\<lambda>n. Inr (n * 1024)) else cached_line ls)"

definition page_cache_bytes :: "string list option \<Rightarrow> pyexn + int" where
  \<comment> \<open>the lines of the file, \<open>None\<close> when it cannot be read\<close>
  "page_cache_bytes file = (case file of None \<Rightarrow> Inr 0 | Some ls \<Rightarrow> cached_line ls)"

datatype cache_label = Cold | WarmUnknown | Warm

definition cold_cache :: "string list option \<Rightarrow> int option \<Rightarrow> string list option \<Rightarrow> pyexn + cache_label" where
  \<comment> \<open>\<open>/proc/meminfo\<close> before, the exit code of \<open>sudo\<close> (\<open>None\<close> when it could not be run), and after\<close>
  "cold_cache before rc after =
     ebind (page_cache_bytes before) (\<lambda>b.
     if rc \<noteq> Some 0 then Inr WarmUnknown
     else ebind (page_cache_bytes after) (\<lambda>a.
       Inr (if 50 * 2 ^ 20 < b - a \<or> a < 100 * 2 ^ 20 then Cold else WarmUnknown)))"

section \<open>TEST 1\<close>

record dataset =
  ds_path :: string
  ds_rows :: int
  ds_bytes :: int

datatype status = Tested | NotTested string

record read_row =
  rr_rows :: int
  rr_query :: string
  rr_cache :: cache_label
  rr_per_second :: int
  rr_status :: status

fun last_label :: "cache_label \<Rightarrow> (cache_label \<times> rat) list \<Rightarrow> cache_label" where
  \<comment> \<open>\<open>one.cache_label\<close> after the runs: each run overwrites it\<close>
  "last_label old [] = old"
| "last_label old (x # xs) = last_label (fst x) xs"

definition read_row_of :: "dataset \<Rightarrow> string \<Rightarrow> bool \<Rightarrow> (cache_label \<times> rat) list \<Rightarrow> pyexn + read_row" where
  \<comment> \<open>data set, query, cold or warm, and what each measured run gave: its label and its seconds\<close>
  "read_row_of ds q cold runs =
     ebind (stats_of (map snd runs)) (\<lambda>st.
     if ti_median st = 0 then Inl ZeroDivisionError
     else Inr \<lparr>rr_rows = ds_rows ds, rr_query = q, rr_cache = (if cold then last_label Warm runs else Warm),
               rr_per_second = py_round (of_int (ds_rows ds) / ti_median st), rr_status = Tested\<rparr>)"

definition read_queries :: "string list" where
  "read_queries = [''count'', ''agg5'']"

definition too_large :: "int \<Rightarrow> read_row" where
  "too_large rows =
     \<lparr>rr_rows = rows, rr_query = [], rr_cache = Warm, rr_per_second = 0,
      rr_status = NotTested ''dataset does not fit on an 8 GiB root volume''\<rparr>"

definition test1 :: "(dataset \<Rightarrow> string \<Rightarrow> bool \<Rightarrow> (cache_label \<times> rat) list) \<Rightarrow> dataset list \<Rightarrow> pyexn + read_row list" where
  "test1 timed datasets =
     ebind (emap (\<lambda>(ds, q, cold). read_row_of ds q cold (timed ds q cold))
       (concat (map (\<lambda>ds. concat (map (\<lambda>q. [(ds, q, True), (ds, q, False)]) read_queries)) datasets))) (\<lambda>rows.
     Inr (rows @ map too_large [100000000, 500000000]))"

section \<open>TEST 5\<close>

record scaling_row =
  sc_threads :: int
  sc_speedup :: "rat option"
  sc_efficiency :: "rat option"
  sc_status :: status

definition scaling_of :: "rat \<Rightarrow> int \<Rightarrow> timing \<Rightarrow> pyexn + scaling_row" where
  "scaling_of base threads st =
     (if ti_median st = 0 then Inl ZeroDivisionError
      else let speedup = (if base \<noteq> 0 then base / ti_median st else 1)
           in Inr \<lparr>sc_threads = threads, sc_speedup = Some (round_to 3 speedup),
                   sc_efficiency = Some (round_to 3 (speedup / of_int threads)), sc_status = Tested\<rparr>)"

definition test5 :: "timing \<Rightarrow> timing \<Rightarrow> pyexn + scaling_row list" where
  \<comment> \<open>with one thread and with two\<close>
  "test5 one two =
     ebind (scaling_of (ti_median one) 1 one) (\<lambda>a. ebind (scaling_of (ti_median one) 2 two) (\<lambda>b.
     Inr ([a, b] @ map (\<lambda>n. \<lparr>sc_threads = n, sc_speedup = None, sc_efficiency = None, sc_status = NotTested ''host has 2 logical cores''\<rparr>)
       [4, 8, 16])))"

section \<open>TEST 7 and the lakes of TEST 10 to 12\<close>

function batch_offsets :: "int \<Rightarrow> int \<Rightarrow> (int \<times> int) list" where
  \<comment> \<open>offset and limit of each \<open>LIMIT per_batch OFFSET done\<close>\<close>
  "batch_offsets per_batch dn =
     (if dn < 100000 \<and> 0 < per_batch then (dn, per_batch) # batch_offsets per_batch (dn + per_batch) else [])"
  by pat_completeness auto
termination
  by (relation "measure (\<lambda>(per_batch, dn). nat (100000 - dn))") auto

declare batch_offsets.simps [simp del]

definition lake_ranges :: "nat \<Rightarrow> int \<Rightarrow> (int \<times> int) list" where
  \<comment> \<open>\<open>range(lo, hi)\<close> of each file\<close>
  "lake_ranges files per_file = map (\<lambda>i. (int i * per_file, (int i + 1) * per_file)) [0 ..< files]"

section \<open>TEST 8\<close>

fun slowest :: "(string \<times> rat) list \<Rightarrow> string option \<times> rat \<Rightarrow> string option \<times> rat" where
  "slowest [] best = best"
| "slowest ((name, median) # qs) best = slowest qs (if snd best < median then (Some name, median) else best)"

section \<open>TEST 14\<close>

datatype spill_run = Done rat int | Failed "rat option"
  \<comment> \<open>seconds and spilled bytes; or the failure, with the seconds if the query itself was over by then\<close>

record spill_row =
  sp_limit :: string
  sp_completed :: bool
  sp_seconds :: "rat option"
  sp_bytes :: "int option"
  sp_slowdown :: "rat option"

definition failed_row :: "string \<Rightarrow> spill_row" where
  "failed_row limit = \<lparr>sp_limit = limit, sp_completed = False, sp_seconds = None, sp_bytes = None, sp_slowdown = None\<rparr>"

definition baseline_after :: "string \<Rightarrow> rat option \<Rightarrow> rat option \<Rightarrow> rat option" where
  \<comment> \<open>\<open>if limit == '4GB': baseline = secs\<close>, reached when the query ended\<close>
  "baseline_after limit secs baseline = (if limit = ''4GB'' \<and> secs \<noteq> None then secs else baseline)"

definition slowdown :: "rat \<Rightarrow> rat option \<Rightarrow> rat option" where
  "slowdown secs baseline = (case baseline of None \<Rightarrow> None | Some b \<Rightarrow> if b = 0 then None else Some (round_to 2 (secs / b)))"

fun spill_rows :: "rat option \<Rightarrow> (string \<times> spill_run) list \<Rightarrow> spill_row list" where
  \<comment> \<open>\<open>baseline\<close>, and each memory limit with what became of its query\<close>
  "spill_rows baseline [] = []"
| "spill_rows baseline ((limit, Failed secs) # rs) = failed_row limit # spill_rows (baseline_after limit secs baseline) rs"
| "spill_rows baseline ((limit, Done secs bytes) # rs) =
     (let base = baseline_after limit (Some secs) baseline
      in \<lparr>sp_limit = limit, sp_completed = True, sp_seconds = Some (round_to 2 secs), sp_bytes = Some bytes,
          sp_slowdown = slowdown secs base\<rparr> # spill_rows base rs)"

definition spill_limits :: "string list" where
  "spill_limits = [''512MB'', ''1GB'', ''4GB'']"

definition test14 :: "(string \<Rightarrow> spill_run) \<Rightarrow> spill_row list" where
  "test14 outcome = spill_rows None (map (\<lambda>l. (l, outcome l)) spill_limits)"

section \<open>Trimming to the disk\<close>

definition trimmed :: "rat \<Rightarrow> int list \<Rightarrow> int list" where
  \<comment> \<open>the free space in GiB, and \<open>args.rows\<close>, which is not empty\<close>
  "trimmed free rows =
     (if free < of_int (Max (set rows)) * 130 / 2 ^ 30 * 3
      then filter (\<lambda>r. of_int r * 130 * 3 / 2 ^ 30 < free) rows else rows)"

definition big_dataset :: "int list \<Rightarrow> pyexn + int" where
  \<comment> \<open>\<open>datasets[-1]\<close>\<close>
  "big_dataset rows = (if rows = [] then Inl IndexError else Inr (last rows))"

definition tested_rows :: "bool \<Rightarrow> rat \<Rightarrow> int list \<Rightarrow> pyexn + int list" where
  \<comment> \<open>which sizes are measured: \<open>--quick\<close>, the free space, the sizes asked for\<close>
  "tested_rows quick free rows =
     (let kept = trimmed free (if quick then [1000000] else rows) in ebind (big_dataset kept) (\<lambda>_. Inr kept))"

section \<open>Result files\<close>

definition setdefault :: "string \<Rightarrow> pyval \<Rightarrow> pydict \<Rightarrow> pydict" where
  "setdefault k v d = (if dget d k = None then d @ [(KStr k, v)] else d)"

definition out_row :: "string \<Rightarrow> string \<Rightarrow> pydict \<Rightarrow> pydict" where
  \<comment> \<open>\<open>Out.write\<close>: hash of the environment, and the time\<close>
  "out_row env_hash now row =
     setdefault ''recorded_at'' (PStr now) (setdefault ''track'' (PStr ''A'') (setdefault ''env_hash'' (PStr env_hash) row))"

definition report_row :: "pydict \<Rightarrow> pydict" where
  "report_row row = filter (\<lambda>kv. fst kv \<notin> KStr ` set [''env_hash'', ''track'', ''recorded_at'', ''dataset_hash'']) row"

section \<open>What the rows mean\<close>

lemma round_to_one: "round_to n 1 = 1"
proof -
  have "py_round (10 ^ n) = 10 ^ n" using py_round_of_int [of "10 ^ n"] by simp
  then show ?thesis by (simp add: round_to_def)
qed

lemma last_label_last: "last_label old (us @ [x]) = fst x"
  by (induction us arbitrary: old) simp_all

lemma stats_of_last: "stats_of (map snd (us @ [x])) = Inr st \<Longrightarrow> ti_runs st = length us + 1 \<and> ti_min st \<le> ti_max st"
proof -
  assume st: "stats_of (map snd (us @ [x])) = Inr st"
  let ?s = "sort (map snd (us @ [x]))"
  have ne: "?s \<noteq> []" by (metis length_0_conv length_sort length_map append_is_Nil_conv not_Cons_self2)
  have "hd ?s \<le> last ?s" using sorted_nth_bounds(2) [OF ne sorted_sort, of 0] ne by (simp add: hd_conv_nth)
  then have "round_to 4 (hd ?s) \<le> round_to 4 (last ?s)" by (intro round_to_mono)
  then show ?thesis using st by (auto simp: stats_of_def Let_def)
qed

text \<open>A read is labelled by its last cache drop alone. Whatever the verification said before the other measured
  runs, a read asked for cold is labelled cold exactly when the cache drop before its last run was
  confirmed, and its statistics are over all of its runs.\<close>

theorem cold_label_is_the_last:
  assumes "read_row_of ds q True (us @ [(label, secs)]) = Inr row"
  shows "rr_cache row = label \<and> (\<exists>st. stats_of (map snd us @ [secs]) = Inr st \<and> ti_runs st = length us + 1
    \<and> rr_per_second row = py_round (of_int (ds_rows ds) / ti_median st))"
  using assms stats_of_last [of us "(label, secs)"] by (auto simp: read_row_of_def last_label_last split: if_splits)

lemma cold_label_is_the_last_witness:
  "\<exists>row. read_row_of \<lparr>ds_path = ''p'', ds_rows = 1000, ds_bytes = 1\<rparr> ''count'' True
      (map (\<lambda>s. (WarmUnknown, s)) [1, 1, 1, 1] @ [(Cold, 1)]) = Inr row \<and> rr_cache row = Cold"
proof -
  have m: "ti_median st \<noteq> 0" if "stats_of [1, 1, 1, 1, 1] = Inr st" for st
    using that by (auto simp: stats_of_def median_of_def round_to_def py_round_def Let_def)
  obtain st where "stats_of [1, 1, 1, 1, 1] = Inr st" by (simp add: stats_of_def Let_def)
  then obtain row where row: "read_row_of \<lparr>ds_path = ''p'', ds_rows = 1000, ds_bytes = 1\<rparr> ''count'' True
      (map (\<lambda>s. (WarmUnknown, s)) [1, 1, 1, 1] @ [(Cold, 1)]) = Inr row"
    using m by (simp add: read_row_of_def)
  from cold_label_is_the_last [OF row] row show ?thesis by blast
qed

text \<open>The slowdown under memory pressure is never measured. \<open>TEST 14\<close> compares each limit with the run at 4 GB, but
  runs that one last: whatever the queries take, the rows for 512 MB and 1 GB have no slowdown, and the
  row for 4 GB compares the run with itself.\<close>

theorem spill_slowdown_never_measured:
  "map sp_limit (test14 outcome) = [''512MB'', ''1GB'', ''4GB''] \<and> sp_slowdown (test14 outcome ! 0) = None
    \<and> sp_slowdown (test14 outcome ! 1) = None \<and> sp_slowdown (test14 outcome ! 2) \<in> {None, Some 1}"
  by (cases "outcome ''512MB''"; cases "outcome ''1GB''"; cases "outcome ''4GB''")
    (simp_all add: test14_def spill_limits_def Let_def round_to_one failed_row_def slowdown_def baseline_after_def)

lemma batches_tile: "0 < p \<Longrightarrow> a \<le> 100000 \<Longrightarrow> \<exists>n. tiles a (batch_offsets p a) n \<and> 100000 \<le> n \<and> n < 100000 + p"
proof (induction p a rule: batch_offsets.induct)
  case (1 p a)
  show ?case
  proof (cases "a < 100000")
    case True
    then have step: "batch_offsets p a = (a, p) # batch_offsets p (a + p)" using 1(2) by (subst batch_offsets.simps) simp
    show ?thesis
    proof (cases "a + p \<le> 100000")
      case le: True
      obtain n where "tiles (a + p) (batch_offsets p (a + p)) n" "100000 \<le> n" "n < 100000 + p" using 1 True le by auto
      then show ?thesis using step 1(2) by auto
    next
      case False
      then have "batch_offsets p (a + p) = []" by (subst batch_offsets.simps) simp
      then show ?thesis using step 1(2) True False by auto
    qed
  next
    case False
    then have "batch_offsets p a = []" by (subst batch_offsets.simps) simp
    then show ?thesis using False 1(2,3) by auto
  qed
qed

definition counted :: "int \<times> int \<Rightarrow> int \<times> int" where
  \<comment> \<open>a range as its start and length\<close>
  "counted r = (fst r, snd r - fst r)"

lemma lake_tiles: "0 \<le> per \<Longrightarrow> tiles 0 (map counted (lake_ranges files per)) (int files * per)"
proof (induction files)
  case (Suc n)
  then show ?case using tiles_snoc [of 0 "map counted (lake_ranges n per)" "int n * per" per]
    by (simp add: lake_ranges_def counted_def comp_def algebra_simps)
qed (simp add: lake_ranges_def)

text \<open>The batched inserts and the lakes get every row once. The ranges the batched inserts of \<open>TEST 7\<close> read follow
  each other without gap or overlap from row 0 to the first multiple of the batch that reaches 100000,
  and the ranges of a lake's files cover exactly the rows from 0 to files times rows per file.\<close>

theorem inserted_once:
  assumes "0 < p" and "0 \<le> per"
  shows "(\<exists>n. tiles 0 (batch_offsets p 0) n \<and> 100000 \<le> n \<and> n < 100000 + p) \<and> tiles 0 (map counted (lake_ranges files per)) (int files * per)"
  using batches_tile [OF assms(1), of 0] lake_tiles [OF assms(2)] by simp

lemma inserted_once_witness:
  "(\<exists>n. tiles 0 (batch_offsets 10000 0) n \<and> 100000 \<le> n \<and> n < 110000) \<and> tiles 0 (map counted (lake_ranges 50 20000)) 1000000"
  using inserted_once [of 10000 20000 50] by simp

lemma test1_sizes:
  assumes "test1 timed datasets = Inr rows" and "row \<in> set rows"
  shows "rr_rows row \<in> ds_rows ` set datasets \<union> {100000000, 500000000}"
proof -
  let ?cs = "concat (map (\<lambda>ds. concat (map (\<lambda>q. [(ds, q, True), (ds, q, False)]) read_queries)) datasets)"
  obtain rs where rs: "emap (\<lambda>(ds, q, cold). read_row_of ds q cold (timed ds q cold)) ?cs = Inr rs"
    "rows = rs @ map too_large [100000000, 500000000]" using assms(1) by (auto simp: test1_def)
  consider "row \<in> set rs" | "row \<in> set (map too_large [100000000, 500000000])" using assms(2) rs(2) by auto
  then show ?thesis
  proof cases
    case 1
    obtain x where "x \<in> set ?cs" "(case x of (ds, q, cold) \<Rightarrow> read_row_of ds q cold (timed ds q cold)) = Inr row"
      using emap_set [OF rs(1) 1] by blast
    then show ?thesis by (auto simp: read_row_of_def Let_def split: if_splits)
  qed (auto simp: too_large_def)
qed

text \<open>A size that is trimmed to the disk leaves no trace. If the free space makes the run drop a size that was
  asked for, no row of \<open>TEST 1\<close> mentions it, not even as not tested, unless it is one of the two sizes
  that are never tested.\<close>

theorem trimmed_size_vanishes:
  assumes "tested_rows False free sizes = Inr kept" and "map ds_rows datasets = kept" and "test1 timed datasets = Inr rows"
    and "n \<in> set sizes" and "n \<notin> set kept" and "n \<notin> {100000000, 500000000}"
  shows "n \<notin> rr_rows ` set rows \<and> free \<le> of_int n * 130 * 3 / 2 ^ 30"
proof -
  have k: "kept = trimmed free sizes" using assms(1) by (auto simp: tested_rows_def Let_def)
  then have "free \<le> of_int n * 130 * 3 / 2 ^ 30" using assms(4,5) by (auto simp: trimmed_def split: if_splits)
  moreover have "n \<notin> rr_rows ` set rows"
  proof
    assume "n \<in> rr_rows ` set rows"
    then obtain row where "row \<in> set rows" "n = rr_rows row" by auto
    with test1_sizes [OF assms(3)] assms(5,6) show False unfolding assms(2) [symmetric] by auto
  qed
  ultimately show ?thesis by blast
qed

end
