(* ===== verification/PublishReport.thy ===== *)
theory PublishReport
  imports Report
begin

text \<open>
  \<open>bench/publish_report.py\<close>: what the plain-language summary of a run says. The rows of the tables, the
  verdict and the sizing of the generator are modelled, with the run's files as \<open>Report\<close> loads them;
  the documents themselves are in \<open>PublishText\<close>.
\<close>

section \<open>Tables\<close>

definition mem_share :: "pydict \<Rightarrow> pyexn + rat list" where
  \<comment> \<open>one row of the host's samples\<close>
  "mem_share r =
     ebind (as_dict (py_or (dget_or r ''memory'' PNone) (PDict []))) (\<lambda>m.
     let t = dget_or m ''mem_total_bytes'' PNone
     in if truthy t then ebind (as_number (dget_or m ''mem_used_bytes'' PNone)) (\<lambda>used. ebind (as_number t) (\<lambda>n. Inr [100 * used / n]))
        else Inr [])"

definition mem_pct_series :: "pydict list \<Rightarrow> pyexn + rat list" where
  "mem_pct_series rows = ebind (emap mem_share rows) (\<lambda>xs. Inr (concat xs))"

definition host_row :: "run \<Rightarrow> string \<Rightarrow> pyexn + (summary \<times> summary) option" where
  \<comment> \<open>CPU and memory; \<open>None\<close> for \<open>no data\<close>\<close>
  "host_row r role =
     (let rows = (case map_of (ru_hosts r) role of None \<Rightarrow> [] | Some xs \<Rightarrow> xs); cpu = stats (series rows ''cpu_percent'')
      in ebind (mem_pct_series rows) (\<lambda>ms.
         Inr (case (cpu, stats ms) of (Some c, Some m) \<Rightarrow> Some (c, m) | _ \<Rightarrow> None)))"

definition step_ratio :: "pydict \<Rightarrow> pyexn + rat" where
  \<comment> \<open>\<open>s['accepted'] / s['offered'] if s.get('offered') else 0\<close>\<close>
  "step_ratio s =
     (if truthy (dget_or s ''offered'' PNone) then ebind (item s ''accepted'') (\<lambda>a. ebind (item s ''offered'') (\<lambda>n. Inr (a / n)))
      else Inr 0)"

definition publish_steps :: "run \<Rightarrow> pyexn + pydict list" where
  \<comment> \<open>\<open>run.generator.get('steps', [])\<close>\<close>
  "publish_steps r = (case dget_or (ru_generator r) ''steps'' (PList []) of PList vs \<Rightarrow> emap as_dict vs | _ \<Rightarrow> Inl TypeError)"

section \<open>The verdict\<close>

definition publish_totals :: "run \<Rightarrow> pyexn + pydict" where
  "publish_totals r = as_dict (dget_or (ru_generator r) ''totals'' (PDict []))"

definition all_clean :: "run \<Rightarrow> pyexn + bool" where
  \<comment> \<open>\<open>Every step passed cleanly: zero rejected, zero lost\<close>\<close>
  "all_clean r =
     ebind (publish_totals r) (\<lambda>t. let n = (\<lambda>k. as_number (dget_or t k (PInt 0))) in
     ebind (n ''records_offered'') (\<lambda>offered. ebind (n ''records_accepted'') (\<lambda>accepted. ebind (n ''records_rejected'') (\<lambda>rejected.
     Inr (rejected = 0 \<and> offered = accepted \<and> 0 < offered)))))"

definition max_step :: "run \<Rightarrow> pyexn + rat" where
  "max_step r = ebind (publish_steps r) (\<lambda>ss. ebind (emap (\<lambda>s. item s ''target_rps'') ss) (\<lambda>ts. Inr (if ts = [] then 0 else Max (set ts))))"

section \<open>How many generators\<close>

definition safe_rate :: "rat \<Rightarrow> rat" where
  "safe_rate m = (if m \<noteq> 0 then m else 25000)"

definition hosts_needed :: "int \<Rightarrow> rat \<Rightarrow> int" where
  \<comment> \<open>\<open>int(max(1, -(-t // safe_rate)))\<close>\<close>
  "hosts_needed t m = max 1 (- \<lfloor>- of_int t / safe_rate m\<rfloor>)"

definition sizing_targets :: "int list" where
  "sizing_targets = [30000, 50000, 75000, 100000, 150000, 200000]"

definition sizing_table :: "rat \<Rightarrow> (int \<times> int) list" where
  "sizing_table m = map (\<lambda>t. (t, hosts_needed t m)) sizing_targets"

section \<open>What they mean\<close>

text \<open>The sizing is the least number of generators that is enough. For a positive rate per generator (25000
  when no step was run) the hosts of every line of the table together reach the target, and one host
  fewer does not.\<close>

theorem hosts_are_least:
  assumes "0 \<le> m" and "(t, n) \<in> set (sizing_table m)"
  shows "of_int t \<le> of_int n * safe_rate m \<and> of_int (n - 1) * safe_rate m < of_int t \<and> 1 \<le> n"
proof -
  have pos: "0 < safe_rate m" using assms(1) by (simp add: safe_rate_def)
  have t: "0 < t" "n = hosts_needed t m" using assms(2) by (auto simp: sizing_table_def sizing_targets_def)
  define k where "k = - \<lfloor>- of_int t / safe_rate m\<rfloor>"
  have k: "of_int t / safe_rate m \<le> of_int k" "of_int k - 1 < of_int t / safe_rate m"
    using floor_correct [of "- of_int t / safe_rate m"] unfolding k_def by (simp_all) linarith+
  have "0 < of_int t / safe_rate m" using pos t(1) by simp
  then have "1 \<le> k" using k(1) by linarith
  then have n: "n = k" unfolding t(2) hosts_needed_def k_def [symmetric] by simp
  show ?thesis using k pos \<open>1 \<le> k\<close> unfolding n by (simp add: field_simps)
qed

lemma hosts_are_least_witness:
  "(75000, 4) \<in> set (sizing_table 20000) \<and> (75000 :: rat) \<le> 4 * safe_rate 20000 \<and> 3 * safe_rate 20000 < (75000 :: rat)"
proof -
  have "\<lfloor>- (75000 :: rat) / 20000\<rfloor> = - 4" by (simp add: floor_eq_iff)
  then have m: "(75000, 4) \<in> set (sizing_table 20000)"
    by (simp add: sizing_table_def sizing_targets_def hosts_needed_def safe_rate_def)
  from hosts_are_least [OF _ this] m show ?thesis by simp
qed

text \<open>The summary says that nothing was lost without looking. Whether it says that every step passed cleanly, with
  none rejected and none lost, depends on the generator's own totals alone; it stays the same whatever
  the validation of the run found, also when the validation failed or never ran.\<close>

theorem clean_without_validation:
  "all_clean (r\<lparr>ru_correctness := c\<rparr>) = all_clean r
   \<and> (all_clean r = Inr True \<longrightarrow>
      (\<exists>t n. publish_totals r = Inr t \<and> 0 < n \<and> map (\<lambda>k. as_number (dget_or t k (PInt 0)))
          [''records_offered'', ''records_accepted'', ''records_rejected''] = map Inr [n, n, 0]))"
  by (auto simp: all_clean_def publish_totals_def Let_def)

end
