(* ===== verification/ReportCharts.thy ===== *)
theory ReportCharts
  imports ReportText
begin

text \<open>
  The charts of the report: \<open>make_charts\<close> of \<open>bench/report.py\<close>. A chart is what the script hands to
  matplotlib, curve by curve; matplotlib itself, the line widths and the layout of \<open>finish\<close> are outside.
  Last come \<open>main\<close>, which puts the charts it made into the report, and the facts about the curves.
\<close>

section \<open>Curves and charts\<close>

record curve =
  cv_label :: string
  cv_colour :: string
  cv_times :: "pyval list"
  cv_values :: "pyval list"

datatype axis_scale = Linear | SymLog rat | Between rat rat

record chart =
  ch_name :: string
  ch_caption :: string
  ch_title :: string
  ch_axis :: string
  ch_scale :: axis_scale
  ch_size :: "rat \<times> rat"
  ch_legend :: bool
  ch_curves :: "curve list"

definition c_offered :: string where "c_offered = ''#8899a6''"
definition c_accepted :: string where "c_accepted = ''#2f7d95''"
definition c_rejected :: string where "c_rejected = ''#b4553f''"
definition c_generator :: string where "c_generator = ''#7a8fa6''"
definition c_compactor :: string where "c_compactor = ''#8a6fa8''"

definition role_colour :: "string \<Rightarrow> string" where
  "role_colour role = (if role = ''generator'' then c_generator else if role = ''collector'' then c_accepted else c_compactor)"

definition timed :: "pydict list \<Rightarrow> pydict list" where
  "timed rows = filter (\<lambda>p. is_number (got p ''ts'')) rows"

definition time_curve :: "string \<Rightarrow> string \<Rightarrow> pydict list \<Rightarrow> pyval list \<Rightarrow> curve" where
  \<comment> \<open>\<open>ax.plot(times(rows), ys, color=colour, label=label)\<close>\<close>
  "time_curve label colour rows ys =
     \<lparr>cv_label = label, cv_colour = colour, cv_times = map (\<lambda>p. got p ''ts'') (timed rows), cv_values = ys\<rparr>"

definition series_curve :: "string \<Rightarrow> string \<Rightarrow> pydict list \<Rightarrow> string \<Rightarrow> curve" where
  "series_curve label colour rows key = time_curve label colour rows (map num (series rows key))"

definition column_of :: "string list \<Rightarrow> pydict list \<Rightarrow> pyval list" where
  "column_of path rows = map (\<lambda>p. dig_or (PDict p) path PNone) rows"

definition or_nan :: "pyval list \<Rightarrow> pyval list" where
  "or_nan vs = map (\<lambda>v. if v \<noteq> PNone then v else PFloat NaN) vs"

section \<open>The generator's charts\<close>

definition throughput_chart :: "pydict list \<Rightarrow> chart" where
  "throughput_chart gs =
     \<lparr>ch_name = ''throughput.png'',
      ch_caption = ''Offered is what the generator attempted; accepted is what the collector acked. '' @
        ''A gap between them is the pipeline refusing or failing work.'',
      ch_title = ''Offered vs delivered throughput'', ch_axis = ''records / s'', ch_scale = Linear, ch_size = (10, 36 / 10), ch_legend = True,
      ch_curves = [series_curve ''offered'' c_offered gs ''offered_rps'', series_curve ''accepted'' c_accepted gs ''accepted_rps'']
        @ (if list_ex (\<lambda>x. x \<noteq> 0) (series gs ''rejected_rps'') then [series_curve ''rejected'' c_rejected gs ''rejected_rps''] else [])\<rparr>"

definition latency_chart :: "pydict list \<Rightarrow> chart" where
  "latency_chart gs =
     \<lparr>ch_name = ''latency.png'',
      ch_caption = ''The export RPC does not ack until the batch is durable, so this is '' @
        ''end-to-end persistence latency, not network round trip.'',
      ch_title = ''Export RPC latency (includes Parquet write and catalog commit)'', ch_axis = ''ms'', ch_scale = SymLog 10,
      ch_size = (10, 36 / 10), ch_legend = True,
      ch_curves = [series_curve ''p50'' ''#8fae9b'' gs ''latency_p50_ms'', series_curve ''p95'' ''#c39b4e'' gs ''latency_p95_ms'',
        series_curve ''p99'' ''#b4553f'' gs ''latency_p99_ms'']\<rparr>"

definition failure_rates :: "pydict list \<Rightarrow> rat list" where
  "failure_rates gs =
     map (\<lambda>(f, s). if s \<noteq> 0 then 100 * f / s else 0) (zip (series gs ''requests_failed'') (series gs ''requests_sent''))"

definition errors_chart :: "pydict list \<Rightarrow> chart" where
  "errors_chart gs =
     \<lparr>ch_name = ''errors.png'', ch_caption = ''Failed export RPCs as a share of RPCs sent.'', ch_title = ''Error rate'',
      ch_axis = ''% of RPCs'', ch_scale = Linear, ch_size = (10, 3), ch_legend = False,
      ch_curves = [time_curve [] c_rejected gs (map num (failure_rates gs))]\<rparr>"

definition generator_charts :: "run \<Rightarrow> chart list" where
  "generator_charts r =
     (let gs = timed (ru_samples r) in if gs = [] then [] else [throughput_chart gs, latency_chart gs])"

definition error_charts :: "run \<Rightarrow> chart list" where
  "error_charts r =
     (let gs = timed (ru_samples r)
      in if gs \<noteq> [] \<and> list_ex (\<lambda>x. x \<noteq> 0) (series gs ''requests_failed'') then [errors_chart gs] else [])"

section \<open>The pipeline's charts\<close>

definition backlog_chart :: "pydict list \<Rightarrow> chart" where
  "backlog_chart pl =
     \<lparr>ch_name = ''backlog.png'',
      ch_caption = ''What compaction drains. A rising trend over the second half of a level means that rate is not sustainable.'',
      ch_title = (''B2 '' @ em_dash @ '' uncompacted file backlog in the catalog''), ch_axis = ''files'', ch_scale = Linear, ch_size = (10, 36 / 10),
      ch_legend = True,
      ch_curves = [time_curve ''live files'' c_accepted pl (or_nan (column_of [''catalog'', ''backlog_files''] pl)),
        time_curve ''below minor threshold'' c_rejected pl (or_nan (column_of [''catalog'', ''small_files''] pl))]\<rparr>"

definition lag_chart :: "pydict list \<Rightarrow> chart" where
  "lag_chart pl =
     \<lparr>ch_name = ''lag.png'',
      ch_caption = ''How stale a query against the lake is. Measured from the watermark row committed with each file registration.'',
      ch_title = (''B3 '' @ em_dash @ '' end-to-end visibility lag (now - newest committed watermark)''), ch_axis = ''seconds'', ch_scale = Linear,
      ch_size = (10, 32 / 10), ch_legend = False,
      ch_curves = [time_curve [] c_compactor pl (or_nan (column_of [''watermark'', ''lag_seconds''] pl))]\<rparr>"

definition scaled :: "rat \<Rightarrow> pyval \<Rightarrow> pyexn + pyval" where
  \<comment> \<open>\<open>(v or 0) / unit\<close>\<close>
  "scaled unit v = ebind (as_number (py_or v (PInt 0))) (\<lambda>x. Inr (num (x / unit)))"

definition s3_chart :: "pydict list \<Rightarrow> pyexn + chart" where
  "s3_chart pl =
     ebind (emap (scaled 1048576) (column_of [''s3'', ''bytes''] pl)) (\<lambda>ys. Inr
     \<lparr>ch_name = ''s3-growth.png'',
      ch_caption = ''Total bytes under the test prefix, including files not yet cleaned up after a merge.'',
      ch_title = ''S3 data growth under the test prefix'', ch_axis = ''MiB'', ch_scale = Linear, ch_size = (10, 32 / 10),
      ch_legend = False, ch_curves = [time_curve [] c_accepted pl ys]\<rparr>)"

definition bench_counter :: "string \<Rightarrow> pydict list \<Rightarrow> pyval list" where
  "bench_counter name pl = column_of [''compactor'', ''databases'', ''bench'', name] pl"

definition compaction_chart :: "pydict list \<Rightarrow> chart" where
  "compaction_chart pl =
     \<lparr>ch_name = ''compaction.png'', ch_caption = ''Cumulative counters from the compactor's /health endpoint.'',
      ch_title = ''Compaction activity'', ch_axis = ''cumulative'', ch_scale = Linear, ch_size = (10, 32 / 10), ch_legend = True,
      ch_curves = [time_curve ''minor compactions'' c_compactor pl (or_nan (bench_counter ''totalMinorCompactions'' pl)),
        time_curve ''files merged'' c_accepted pl (or_nan (bench_counter ''totalFilesCompacted'' pl))]\<rparr>"

definition some_given :: "pyval list \<Rightarrow> bool" where
  \<comment> \<open>\<open>any(v is not None for v in vs)\<close>\<close>
  "some_given vs = list_ex (\<lambda>v. v \<noteq> PNone) vs"

definition pipeline_charts :: "run \<Rightarrow> pyexn + chart list" where
  "pipeline_charts r =
     (let pl = timed (ru_pipeline r)
      in joined_rows
           [Inr (if some_given (column_of [''catalog'', ''backlog_files''] pl) then [backlog_chart pl] else []),
            Inr (if some_given (column_of [''watermark'', ''lag_seconds''] pl) then [lag_chart pl] else []),
            (if list_ex truthy (column_of [''s3'', ''bytes''] pl) then ebind (s3_chart pl) (\<lambda>c. Inr [c]) else Inr []),
            Inr (if some_given (bench_counter ''totalMinorCompactions'' pl) then [compaction_chart pl] else [])])"

section \<open>The hosts' charts\<close>

definition host_rows :: "run \<Rightarrow> (string \<times> pydict list) list" where
  "host_rows r = map (\<lambda>(role, rows). (role, timed rows)) (ru_hosts r)"

definition role_curves :: "(pydict \<Rightarrow> pyexn + pyval) \<Rightarrow> string \<times> pydict list \<Rightarrow> pyexn + curve list" where
  "role_curves extract h =
     (case h of (role, rows) \<Rightarrow>
        if rows = [] then Inr []
        else ebind (emap extract rows) (\<lambda>ys. Inr (if list_ex truthy ys then [time_curve role (role_colour role) rows ys] else [])))"

definition host_chart :: "run \<Rightarrow> (pydict \<Rightarrow> pyexn + pyval) \<Rightarrow> chart \<Rightarrow> pyexn + chart list" where
  \<comment> \<open>the chart without curves is what is drawn around them; a chart that got none is closed\<close>
  "host_chart r extract frame =
     ebind (joined_rows (map (role_curves extract) (host_rows r))) (\<lambda>cs. Inr (if cs = [] then [] else [frame\<lparr>ch_curves := cs\<rparr>]))"

definition host_frame :: "string \<Rightarrow> string \<Rightarrow> string \<Rightarrow> string \<Rightarrow> axis_scale \<Rightarrow> rat \<Rightarrow> chart" where
  "host_frame name caption title axis scale height =
     \<lparr>ch_name = name, ch_caption = caption, ch_title = title, ch_axis = axis, ch_scale = scale, ch_size = (10, height),
      ch_legend = True, ch_curves = []\<rparr>"

definition sampled_frame :: "string \<Rightarrow> string \<Rightarrow> string \<Rightarrow> axis_scale \<Rightarrow> chart" where
  "sampled_frame name title axis scale = host_frame name (title @ '', 1 s samples from each host agent.'') title axis scale (34 / 10)"

definition memory_used :: "pydict \<Rightarrow> pyexn + pyval" where
  "memory_used p = ebind (as_number (dig_or (PDict p) [''memory'', ''mem_used_bytes''] (PInt 0))) (\<lambda>x. Inr (num (x / 1073741824)))"

definition process_rss :: "pydict \<Rightarrow> pyexn + pyval" where
  "process_rss p = scaled 1073741824 (dig_or (PDict p) [''process'', ''rss_bytes''] (PInt 0))"

definition disk_writes :: "pydict \<Rightarrow> pyexn + pyval" where
  "disk_writes p =
     ebind (dict_at p ''disk_io'') (\<lambda>io.
     ebind (emap (\<lambda>kv. ebind (as_dict (snd kv)) (\<lambda>d. as_number (py_or (got d ''write_bytes_per_s'') (PInt 0)))) io) (\<lambda>ws.
     Inr (num (sum_list ws / 1048576))))"

definition root_free :: "pydict \<Rightarrow> pyexn + pyval" where
  "root_free p = scaled 1073741824 (dig_or (PDict p) [''disk_space'', ''/'', ''free_bytes''] PNone)"

definition host_charts :: "run \<Rightarrow> pyexn + chart list" where
  "host_charts r =
     (if list_all (\<lambda>h. snd h = []) (host_rows r) then Inr []
      else joined_rows
        [host_chart r (\<lambda>p. Inr (got p ''cpu_percent'')) (sampled_frame ''cpu.png'' ''CPU utilisation'' ''%'' (Between 0 105)),
         host_chart r memory_used (sampled_frame ''memory.png'' ''Memory used'' ''GiB'' Linear),
         host_chart r process_rss (sampled_frame ''rss.png'' ''Watched process RSS'' ''GiB'' Linear),
         host_chart r disk_writes (host_frame ''disk.png'' ''Aggregate write bytes per second per host.'' ''Disk write throughput'' ''MiB/s''
           Linear (34 / 10)),
         host_chart r root_free (host_frame ''disk-free.png''
           (''These are 8 GiB root volumes; running one out of space is a '' @ ''plausible failure mode, so it is tracked.'')
           ''Root filesystem free space'' ''GiB free'' Linear (32 / 10))])"

section \<open>The levels of a staircase\<close>

definition per_second :: "string \<Rightarrow> pydict \<Rightarrow> pyexn + rat" where
  \<comment> \<open>\<open>s[k] / max(1e-9, s['duration_seconds'])\<close>\<close>
  "per_second k s = ebind (item s k) (\<lambda>n. ebind (item s ''duration_seconds'') (\<lambda>d. Inr (n / max (1 / 10 ^ 9) d)))"

record bar_chart =
  bc_labels :: "string list"
  bc_offered :: "(rat \<times> rat) list"
  bc_accepted :: "(rat \<times> rat) list"
  bc_width :: rat

definition bars :: "pydict list \<Rightarrow> pyexn + bar_chart" where
  "bars ss =
     ebind (emap (\<lambda>s. value_of s ''target_rps'') ss) (\<lambda>x. ebind (emap (per_second ''offered'') ss) (\<lambda>offered.
     ebind (emap (per_second ''accepted'') ss) (\<lambda>accepted. ebind (emap as_number x) (\<lambda>targets.
     let width = 38 / 100; idx = map of_nat [0..<length x]
     in Inr \<lparr>bc_labels = map (\<lambda>v. commas_int (py_trunc v)) targets, bc_offered = zip (map (\<lambda>i. i - width / 2) idx) offered,
             bc_accepted = zip (map (\<lambda>i. i + width / 2) idx) accepted, bc_width = width\<rparr>))))"

definition staircase_bars :: "run \<Rightarrow> pyexn + bar_chart option" where
  "staircase_bars r =
     ebind (steps_of r) (\<lambda>ss. if 1 < length ss then ebind (bars ss) (\<lambda>b. Inr (Some b)) else Inr None)"

section \<open>All charts, and \<open>main\<close>\<close>

definition line_charts :: "run \<Rightarrow> pyexn + chart list" where
  "line_charts r = joined_rows [Inr (generator_charts r), pipeline_charts r, host_charts r, Inr (error_charts r)]"

definition make_charts :: "run \<Rightarrow> pyexn + (string \<times> string) list" where
  "make_charts r =
     ebind (line_charts r) (\<lambda>cs. ebind (staircase_bars r) (\<lambda>b. Inr (map (\<lambda>c. (ch_name c, ch_caption c)) cs
       @ (if b = None then []
          else [(''staircase.png'', ''Per level, averaged over the level. A level only counts as sustainable if accepted tracks offered '' @
                  ''AND backlog is flat.'')]))))"

definition charts_of :: "bool \<Rightarrow> bool \<Rightarrow> run \<Rightarrow> pyexn + (string \<times> string) list" where
  \<comment> \<open>whether matplotlib can be imported, and \<open>--no-charts\<close>\<close>
  "charts_of plots no_charts r = (if no_charts \<or> \<not> plots then Inr [] else make_charts r)"

definition report_main :: "texts \<Rightarrow> place \<Rightarrow> bool \<Rightarrow> bool \<Rightarrow> run \<Rightarrow> pyexn + string" where
  "report_main tx p plots no_charts r = ebind (charts_of plots no_charts r) (report_text tx p r)"

end
