(* ===== verification/ChartFacts.thy ===== *)
theory ChartFacts
  imports ReportCharts "HOL-Library.Sublist"
begin

text \<open>
  What is drawn in the report: every curve has one value for each time, for the samples the
  generator's own metrics write and for whatever the pollers and the hosts wrote, and no chart is saved over another.
\<close>

section \<open>Curves have as many values as times\<close>

definition fits :: "curve \<Rightarrow> bool" where
  "fits v \<longleftrightarrow> length (cv_times v) = length (cv_values v)"

definition all_fit :: "chart \<Rightarrow> bool" where
  "all_fit c \<longleftrightarrow> list_all fits (ch_curves c)"

definition has_numbers :: "string list \<Rightarrow> pydict \<Rightarrow> bool" where
  "has_numbers keys p \<longleftrightarrow> list_all (\<lambda>k. is_number (got p k)) keys"

definition drawn_keys :: "string list" where
  "drawn_keys =
     [''ts'', ''offered_rps'', ''accepted_rps'', ''rejected_rps'', ''latency_p50_ms'', ''latency_p95_ms'', ''latency_p99_ms'',
      ''requests_sent'', ''requests_failed'']"

lemma timed_timed [simp]: "timed (timed rows) = timed rows"
  by (simp add: timed_def)

lemma series_length: "list_all (\<lambda>p. is_number (got p key)) rows \<Longrightarrow> length (series rows key) = length rows"
  by (induction rows) (auto simp: series_def is_number_def)

lemma joined_rows_all_of:
  "joined_rows parts = Inr xs \<Longrightarrow> (\<And>ys. Inr ys \<in> set parts \<Longrightarrow> list_all P ys) \<Longrightarrow> list_all P xs"
proof (induction parts arbitrary: xs)
  case (Cons p ps)
  then obtain y ys where y: "p = Inr y" "emap id ps = Inr ys" "xs = y @ concat ys" by (auto simp: joined_rows_def)
  have "list_all P (concat ys)" using Cons.IH [of "concat ys"] Cons.prems(2) y by (auto simp: joined_rows_def)
  with Cons.prems(2) [of y] y show ?case by simp
qed (simp add: joined_rows_def)

lemma time_curve_fits: "length ys = length (timed rows) \<Longrightarrow> fits (time_curve label colour rows ys)"
  by (simp add: fits_def time_curve_def)

lemma generator_charts_fit:
  assumes "list_all (has_numbers drawn_keys) (ru_samples r)"
  shows "list_all all_fit (generator_charts r)" "list_all all_fit (error_charts r)"
proof -
  have "list_all (has_numbers drawn_keys) (timed (ru_samples r))" using assms by (auto simp: timed_def list_all_iff)
  then have "list_all (\<lambda>p. is_number (got p k)) (timed (ru_samples r))" if "k \<in> set drawn_keys" for k
    using that by (auto simp: has_numbers_def list_all_iff)
  then have len: "length (series (timed (ru_samples r)) k) = length (timed (ru_samples r))" if "k \<in> set drawn_keys" for k
    using that series_length by blast
  then have f: "fits (series_curve l c (timed (ru_samples r)) k)" if "k \<in> set drawn_keys" for l c k
    using that by (simp add: series_curve_def time_curve_fits)
  show "list_all all_fit (generator_charts r)"
    by (simp add: generator_charts_def Let_def all_fit_def throughput_chart_def latency_chart_def f drawn_keys_def)
  show "list_all all_fit (error_charts r)"
    by (simp add: error_charts_def Let_def all_fit_def errors_chart_def time_curve_fits failure_rates_def len drawn_keys_def)
qed

lemma Inr_eq_ebind: "Inr y = ebind m f \<longleftrightarrow> (\<exists>x. m = Inr x \<and> f x = Inr y)"
  by (cases m) auto

lemma pipeline_chart_fits:
  "all_fit (backlog_chart (timed pl))" "all_fit (lag_chart (timed pl))" "all_fit (compaction_chart (timed pl))"
  "s3_chart (timed pl) = Inr c \<Longrightarrow> all_fit c"
  by (auto simp: all_fit_def backlog_chart_def lag_chart_def compaction_chart_def s3_chart_def or_nan_def column_of_def bench_counter_def
      dest!: emap_length intro!: time_curve_fits)

lemma pipeline_charts_fit: "pipeline_charts r = Inr cs \<Longrightarrow> list_all all_fit cs"
  unfolding pipeline_charts_def Let_def
  by (erule joined_rows_all_of) (auto simp: Inr_eq_ebind pipeline_chart_fits split: if_splits)

lemma role_curves_fit: "role_curves extract h = Inr cs \<Longrightarrow> h \<in> set (host_rows r) \<Longrightarrow> list_all fits cs"
  by (auto simp: role_curves_def host_rows_def dest!: emap_length intro!: time_curve_fits split: if_splits)

lemma host_chart_fits:
  assumes "host_chart r extract frame = Inr cs"
  shows "list_all all_fit cs"
proof -
  obtain vs where vs: "joined_rows (map (role_curves extract) (host_rows r)) = Inr vs" "cs = (if vs = [] then [] else [frame\<lparr>ch_curves := vs\<rparr>])"
    using assms by (auto simp: host_chart_def)
  have "list_all fits vs"
    by (rule joined_rows_all_of [OF vs(1)]) (metis (no_types, lifting) imageE list.set_map role_curves_fit)
  then show ?thesis by (simp add: vs(2) all_fit_def)
qed

lemma host_charts_fit: "host_charts r = Inr cs \<Longrightarrow> list_all all_fit cs"
  unfolding host_charts_def by (auto elim!: joined_rows_all_of dest: host_chart_fits [OF sym] split: if_splits)

lemma own_sample_has_numbers: "has_numbers drawn_keys (window_sample m ts stamp)"
  by (simp add: has_numbers_def drawn_keys_def window_sample_def Let_def dget_or_def is_number_def)

definition host_sample :: pydict where
  "host_sample = [(KStr ''ts'', PInt 5), (KStr ''cpu_percent'', num 40)]"

definition one_sample :: pydict where
  "one_sample = window_sample (record_failure 100 (1 / 10) ''UNAVAILABLE'' (init_metrics ''t1'' 1 False 4)) 5 ''2026-01-01T00:00:05Z''"

definition small_run :: run where
  "small_run =
     \<lparr>ru_metadata = [], ru_generator = [], ru_manifest = [], ru_correctness = [], ru_environment = [], ru_before = [],
      ru_after = [], ru_samples = [one_sample], ru_pipeline = [], ru_compaction = [],
      ru_hosts = [(''collector'', [host_sample])]\<rparr>"

definition cpu_chart :: chart where
  "cpu_chart = (sampled_frame ''cpu.png'' ''CPU utilisation'' ''%'' (Between 0 105))
      \<lparr>ch_curves := [time_curve ''collector'' (role_colour ''collector'') [host_sample] [num 40]]\<rparr>"

lemma small_run_charts:
  "line_charts small_run = Inr [throughput_chart [one_sample], latency_chart [one_sample], cpu_chart, errors_chart [one_sample]]"
proof -
  have rows: "host_rows small_run = [(''collector'', [host_sample])]" by code_simp
  have "memory_used host_sample = Inr (num 0)" "process_rss host_sample = Inr (num 0)" "disk_writes host_sample = Inr (num 0)"
    "root_free host_sample = Inr (num 0)" "got host_sample ''cpu_percent'' = num 40"
    by code_simp+
  then have hosts: "host_charts small_run = Inr [cpu_chart]"
    by (simp add: host_charts_def host_chart_def role_curves_def rows joined_rows_def cpu_chart_def)
  have one: "timed [one_sample] = [one_sample]" "series [one_sample] ''requests_failed'' = [1]" by code_simp+
  have "pipeline_charts small_run = Inr []"
    by (simp add: pipeline_charts_def small_run_def timed_def column_of_def some_given_def bench_counter_def joined_rows_def)
  moreover have "generator_charts small_run = [throughput_chart [one_sample], latency_chart [one_sample]]"
    "error_charts small_run = [errors_chart [one_sample]]"
    using one by (simp_all add: generator_charts_def error_charts_def small_run_def Let_def)
  ultimately show ?thesis by (simp add: line_charts_def hosts joined_rows_def)
qed

lemma small_run_names:
  "map ch_name [throughput_chart [one_sample], latency_chart [one_sample], cpu_chart, errors_chart [one_sample]]
     = [''throughput.png'', ''latency.png'', ''cpu.png'', ''errors.png'']"
  by (simp add: throughput_chart_def latency_chart_def cpu_chart_def errors_chart_def sampled_frame_def host_frame_def)

text \<open>C38: every curve drawn fits its times. When the samples are those the generator's metrics write, each curve of each chart
  has exactly one value for every point in time, whatever the pollers and the host agents wrote; matplotlib refuses anything else.\<close>

theorem curves_fit_times:
  assumes "\<forall>p\<in>set (ru_samples r). \<exists>m ts stamp. p = window_sample m ts stamp" and "line_charts r = Inr cs"
  shows "\<forall>c\<in>set cs. \<forall>v\<in>set (ch_curves c). length (cv_times v) = length (cv_values v)"
proof -
  have "list_all (has_numbers drawn_keys) (ru_samples r)" using assms(1) own_sample_has_numbers by (fastforce simp: list_all_iff)
  note g = generator_charts_fit [OF this]
  have "list_all all_fit cs"
    by (rule joined_rows_all_of [OF assms(2) [unfolded line_charts_def]]) (auto dest: pipeline_charts_fit [OF sym] host_charts_fit [OF sym] simp: g)
  then show ?thesis by (auto simp: list_all_iff all_fit_def fits_def)
qed

lemma curves_fit_times_witness:
  "\<exists>cs. line_charts small_run = Inr cs \<and> map ch_name cs = [''throughput.png'', ''latency.png'', ''cpu.png'', ''errors.png'']
     \<and> (\<forall>c\<in>set cs. \<forall>v\<in>set (ch_curves c). length (cv_times v) = length (cv_values v))"
proof -
  obtain cs where cs: "line_charts small_run = Inr cs" "map ch_name cs = [''throughput.png'', ''latency.png'', ''cpu.png'', ''errors.png'']"
    by (rule that [OF small_run_charts small_run_names])
  have "\<forall>p\<in>set (ru_samples small_run). \<exists>m ts stamp. p = window_sample m ts stamp"
    by (auto simp: small_run_def one_sample_def)
  from cs curves_fit_times [OF this cs(1)] show ?thesis by (intro exI [of _ cs] conjI)
qed

section \<open>No chart is saved over another\<close>

definition chart_files :: "string list" where
  "chart_files =
     [''throughput.png'', ''latency.png'', ''backlog.png'', ''lag.png'', ''s3-growth.png'', ''compaction.png'', ''cpu.png'', ''memory.png'',
      ''rss.png'', ''disk.png'', ''disk-free.png'', ''errors.png'']"

lemma host_chart_names: "host_chart r extract frame = Inr cs \<Longrightarrow> map ch_name cs = [] \<or> map ch_name cs = [ch_name frame]"
  by (auto simp: host_chart_def split: if_splits)

lemma subseq_distinct_set: "subseq xs ys \<Longrightarrow> distinct ys \<Longrightarrow> distinct xs \<and> set xs \<subseteq> set ys"
  by (induction rule: list_emb.induct) auto

lemma joined_names:
  "joined_rows parts = Inr cs \<Longrightarrow> list_all2 (\<lambda>part n. \<forall>cs. part = Inr cs \<longrightarrow> map ch_name cs = [] \<or> map ch_name cs = [n]) parts names
     \<Longrightarrow> subseq (map ch_name cs) names"
proof (induction parts arbitrary: names cs)
  case (Cons p ps)
  then obtain n ns y ys where parts: "names = n # ns" "p = Inr y" "joined_rows ps = Inr ys" "cs = y @ ys"
    by (auto simp: joined_rows_Cons list_all2_Cons1)
  have "map ch_name y = [] \<or> map ch_name y = [n]" using Cons.prems(2) parts by simp
  moreover have "subseq (map ch_name ys) ns" using Cons.IH [OF parts(3)] Cons.prems(2) parts(1) by simp
  ultimately show ?case by (auto simp: parts)
qed simp

lemma host_charts_names:
  assumes "host_charts r = Inr cs"
  shows "subseq (map ch_name cs) [''cpu.png'', ''memory.png'', ''rss.png'', ''disk.png'', ''disk-free.png'']"
proof (cases "list_all (\<lambda>h. snd h = []) (host_rows r)")
  case False
  then show ?thesis
    using assms unfolding host_charts_def if_not_P [OF False]
    by (elim joined_names) (auto dest!: host_chart_names simp: sampled_frame_def host_frame_def)
qed (use assms in \<open>simp add: host_charts_def\<close>)

lemma pipeline_charts_names:
  "pipeline_charts r = Inr cs \<Longrightarrow> subseq (map ch_name cs) [''backlog.png'', ''lag.png'', ''s3-growth.png'', ''compaction.png'']"
  unfolding pipeline_charts_def Let_def
  by (elim joined_names) (auto simp: backlog_chart_def lag_chart_def s3_chart_def compaction_chart_def)

text \<open>No chart is saved over another. The charts listed in the report have distinct file names, all of them among the thirteen
  the script knows.\<close>

theorem charts_have_files_of_their_own:
  assumes "make_charts r = Inr charts"
  shows "distinct (map fst charts) \<and> set (map fst charts) \<subseteq> set (chart_files @ [''staircase.png''])"
proof -
  obtain cs and b :: "bar_chart option" where cs: "line_charts r = Inr cs"
    and b: "map fst charts = map ch_name cs @ (if b = None then [] else [''staircase.png''])"
    using assms by (force simp: make_charts_def comp_def)
  obtain pl hs where parts: "pipeline_charts r = Inr pl" "host_charts r = Inr hs" "cs = generator_charts r @ pl @ hs @ error_charts r"
    using cs by (auto simp: line_charts_def joined_rows_Cons)
  have "subseq (map ch_name (generator_charts r)) [''throughput.png'', ''latency.png'']" "subseq (map ch_name (error_charts r)) [''errors.png'']"
    by (simp_all add: generator_charts_def error_charts_def Let_def throughput_chart_def latency_chart_def errors_chart_def)
  moreover have files: "chart_files = [''throughput.png'', ''latency.png''] @ [''backlog.png'', ''lag.png'', ''s3-growth.png'', ''compaction.png'']
      @ [''cpu.png'', ''memory.png'', ''rss.png'', ''disk.png'', ''disk-free.png''] @ [''errors.png'']"
    by (simp add: chart_files_def)
  ultimately have "subseq (map ch_name cs) chart_files"
    using pipeline_charts_names [OF parts(1)] host_charts_names [OF parts(2)]
    unfolding parts(3) map_append files by (intro list_emb_append_mono)
  then have "subseq (map fst charts) (chart_files @ [''staircase.png''])" unfolding b by (auto intro: list_emb_append_mono)
  moreover have "distinct (chart_files @ [''staircase.png''])" by (simp add: chart_files_def)
  ultimately show ?thesis using subseq_distinct_set by blast
qed

lemma charts_have_files_of_their_own_witness:
  "\<exists>charts. make_charts small_run = Inr charts \<and> map fst charts = [''throughput.png'', ''latency.png'', ''cpu.png'', ''errors.png''] \<and> distinct (map fst charts)"
proof -
  have "staircase_bars small_run = Inr None" by (simp add: staircase_bars_def steps_of_def small_run_def py_or_def)
  then obtain charts where charts: "make_charts small_run = Inr charts" "map fst charts = [''throughput.png'', ''latency.png'', ''cpu.png'', ''errors.png'']"
    using small_run_names by (simp add: make_charts_def small_run_charts)
  from charts charts_have_files_of_their_own [OF charts(1)] show ?thesis by (intro exI [of _ charts]) simp
qed

end
