(* ===== verification/CustomerText.thy ===== *)
theory CustomerText
  imports CustomerReport ReportText
begin

text \<open>
  The text of \<open>PERFORMANCE_REPORT.md\<close>: \<open>build\<close> of \<open>bench/customer_report.py\<close>, section by section, from the
  figures of \<open>CustomerReport\<close>, and the charts it copies. The time of writing and the texts
  Python gives to floats, lists and dictionaries are arguments.
\<close>

section \<open>Signs and numbers\<close>

definition box_line :: string where "box_line = [CHR 0xE2, CHR 0x94, CHR 0x80]"
definition box_corner :: string where "box_corner = [CHR 0xE2, CHR 0x94, CHR 0x98]"
definition right_triangle :: string where "right_triangle = [CHR 0xE2, CHR 0x96, CHR 0xB6]"
definition up_triangle :: string where "up_triangle = [CHR 0xE2, CHR 0x96, CHR 0xB2]"
definition middle_dot :: string where "middle_dot = [CHR 0xC2, CHR 0xB7]"
definition times_sign :: string where "times_sign = [CHR 0xC3, CHR 0x97]"

definition whole :: "rat \<Rightarrow> string" where
  \<comment> \<open>\<open>fmt\<close>: \<open>format(int(round(n)), ',')\<close>\<close>
  "whole x = commas_int (py_round x)"

definition whole_of :: "pyval \<Rightarrow> pyexn + string" where
  "whole_of v = ebind (as_number v) (\<lambda>x. Inr (whole x))"

section \<open>The figures\<close>

record story =
  so_runs :: "crun list"
  so_offered :: rat
  so_accepted :: rat
  so_landed :: rat
  so_duplicated :: rat
  so_lost :: rat
  so_best :: "best option"
  so_stair :: "crun option"
  so_recovery :: "recovery option"
  so_merged :: "merged option"

definition story_of :: "crun list \<Rightarrow> pyexn + story" where
  \<comment> \<open>\<open>build\<close> up to the first line of the report\<close>
  "story_of rs =
     ebind (total_of ''total_offered'' rs) (\<lambda>offered. ebind (total_of ''total_accepted'' rs) (\<lambda>accepted.
     ebind (total_landed rs) (\<lambda>landed. ebind (dup_rows rs) (\<lambda>dup. ebind (loss_rows rs) (\<lambda>lost.
     ebind (best_of (passed rs) None) (\<lambda>best. ebind (stair_of rs None) (\<lambda>stair. ebind (last_recovery rs None) (\<lambda>rec.
     ebind (compaction_of rs) (\<lambda>comp.
     Inr \<lparr>so_runs = rs, so_offered = offered, so_accepted = accepted, so_landed = landed, so_duplicated = dup, so_lost = lost,
          so_best = best, so_stair = stair, so_recovery = rec, so_merged = comp\<rparr>)))))))))"

definition relayed :: "crun list \<Rightarrow> bool" where
  \<comment> \<open>\<open>transport_caveat\<close>\<close>
  "relayed rs = list_ex (\<lambda>r. py_or (dget_or (cr_metadata r) ''transport'' PNone) (PStr ''direct'') \<noteq> PStr ''direct'') rs"

definition catalog_after :: "merged \<Rightarrow> string \<Rightarrow> pyexn + pyval" where
  "catalog_after c key = get_from (py_or (dget_or (cr_after (mg_run c)) ''catalog'' PNone) (PDict [])) key (PInt 0)"

definition for_some :: "'a option \<Rightarrow> ('a \<Rightarrow> pyexn + string list) \<Rightarrow> pyexn + string list" where
  \<comment> \<open>\<open>if x:\<close>\<close>
  "for_some x f = (case x of None \<Rightarrow> Inr [] | Some y \<Rightarrow> f y)"

section \<open>Executive summary\<close>

definition title_lines :: "string \<Rightarrow> string list" where
  "title_lines now =
     [''# DazzleDuck Telemetry Pipeline '' @ em_dash @ '' Performance & Reliability Report'', [],
      ''*Prepared '' @ now @ '' '' @ middle_dot @ '' every figure in this report was measured on the test environment described in the appendix; nothing is estimated.*'',
      [], ''---'', [], ''## 1. Executive summary'', [],
      ''The DazzleDuck telemetry pipeline was deployed across three servers (load generator '' @ arrow_right @ '' OTLP collector '' @ arrow_right @ '' DuckLake compactor) '' @
      ''with PostgreSQL as the transactional catalog and Amazon S3 as the data store, then tested for functional correctness, data '' @
      ''integrity, sustained ingestion, fault recovery and storage efficiency.'', [],
      ''**Headline results:**'', []]"

definition records_line :: "story \<Rightarrow> string" where
  "records_line st =
     ''- **'' @ whole (so_landed st) @ '' records ingested across '' @ show_nat (length (so_runs st)) @ '' test runs '' @ em_dash @ '' with '' @
     whole (so_lost st) @ '' records lost and '' @ whole (so_duplicated st) @ '' duplicated.** Every record the pipeline acknowledged was '' @
     ''independently verified present in the data lake, by unique per-record identity, after every run.''"

definition kill_lines :: "texts \<Rightarrow> recovery \<Rightarrow> pyexn + string list" where
  "kill_lines tx x =
     (if rc_verdict x = PStr ''PASS''
      then (case rc_outage x of
              None \<Rightarrow> Inl TypeError
            | Some s \<Rightarrow> Inr [''- **Zero data loss through a hard process kill.** The collector was terminated with '' @ str_of tx (rc_signal x) @
                '' mid-write under load; the outage lasted '' @ plain_fixed 0 s @ '' seconds end to end, the service restarted automatically, '' @
                ''and not a single acknowledged record was lost or duplicated.''])
      else Inr [])"

definition sustained_lines :: "best \<Rightarrow> pyexn + string list" where
  "sustained_lines b =
     Inr [''- **Sustained ingestion verified at '' @ whole (be_rate b) @ '' records/second with 100% delivery** ('' @ whole (be_records b) @
          '' records in one run, every one verified in the lake).'']"

definition storage_claim :: "texts \<Rightarrow> merged \<Rightarrow> pyexn + string list" where
  "storage_claim tx c =
     ebind (catalog_after c ''live_rows'') (\<lambda>v. ebind (whole_of v) (\<lambda>rows.
     Inr [''- **Storage self-maintains.** Background compaction merged '' @ whole (mg_files c) @ '' small files during testing; the lake '' @
          ''ended at '' @ str_of tx (mg_files_after c) @ '' optimally-sized files holding '' @ rows @ '' rows.'']))"

definition summary_section :: "texts \<Rightarrow> string \<Rightarrow> story \<Rightarrow> pyexn + string list" where
  "summary_section tx now st =
     joined_rows
       [Inr (title_lines now), Inr [records_line st], for_some (so_recovery st) (kill_lines tx), for_some (so_best st) sustained_lines,
        for_some (so_merged st) (storage_claim tx),
        Inr [''- **Security enforced by default:** all eight authentication and routing contract tests passed against the live service '' @ em_dash @ '' '' @
             ''unauthenticated, forged and mis-routed requests are all rejected.'', []]]"

definition why_lines :: "string list" where
  "why_lines =
     [''## 2. Why these results matter'', [],
      ''The pipeline's core guarantee is **acknowledge-on-durability**: the client does not get a success response until the data is '' @
      ''written to storage *and* committed to the catalog. Most collectors acknowledge on receipt and can silently lose buffered data on '' @
      ''a crash. This one cannot '' @ em_dash @ '' and the hard-kill test proves it, not just the design document.'', [],
      ''For a customer this means: **if the pipeline said \"accepted\", the record is queryable and it will survive a server failure.**'', []]"

section \<open>What was tested\<close>

definition contracts_row :: string where
  "contracts_row = ''| Functional contracts (8) | authentication, request routing, durability of the ack | **all pass** |''"

definition smoke_lines :: "crun list \<Rightarrow> string list" where
  "smoke_lines rs =
     (if list_ex (\<lambda>r. infix_of ''smoke'' (cr_id r) \<and> truthy (cr_totals r)) (passed rs)
      then [''| Smoke, end to end | every stage from ingestion to query-back | **pass** '' @ em_dash @ '' records sent, stored, compacted and read back |'']
      else [])"

definition load_row :: "best \<Rightarrow> pyexn + string list" where
  "load_row b =
     Inr [''| Sustained load | fixed-rate ingestion with full reconciliation | **pass** '' @ em_dash @ '' '' @ whole (be_rate b) @
          '' rec/s, 100% delivered, 0 lost |'']"

definition recovery_row :: "texts \<Rightarrow> recovery \<Rightarrow> pyexn + string list" where
  "recovery_row tx x =
     Inr [''| Fault recovery ('' @ str_of tx (rc_signal x) @ '') | kill the collector mid-write under load | **'' @
          (if rc_verdict x = PStr ''PASS'' then (''pass '' @ em_dash @ '' no loss, no duplicates'') else str_of tx (rc_verdict x)) @ ''** |'']"

definition storage_row :: "merged \<Rightarrow> pyexn + string list" where
  "storage_row c =
     Inr [''| Storage maintenance | background compaction under live ingestion | **pass** '' @ em_dash @ '' '' @ whole (mg_files c) @
          '' files merged while ingesting |'']"

definition tested_section :: "texts \<Rightarrow> story \<Rightarrow> pyexn + string list" where
  "tested_section tx st =
     joined_rows
       [Inr [''## 3. What was tested'', [], ''```'', (''  Load generator '' @ box_line @ box_line @ ''gRPC'' @ box_line @ box_line @ right_triangle @ '' Collector '' @ box_line @ box_line @ right_triangle @ '' Parquet on S3''),
             ''  (Server 1)               (Server 2)    + PostgreSQL catalog'',
             (''                                              '' @ up_triangle),
             (''                           Compactor '' @ box_line @ box_line @ box_line @ box_line @ box_line @ box_line @ box_line @ box_line @ box_line @ box_corner),
             ''                           (Server 3)  merges small files continuously'', ''```'', [],
             ''| Test | Purpose | Result |'', ''|---|---|---|'', contracts_row],
        Inr (smoke_lines (so_runs st)), for_some (so_best st) load_row, for_some (so_recovery st) (recovery_row tx),
        for_some (so_merged st) storage_row,
        Inr [''| Monitoring | health, resources, backlog, alerting on all 3 servers | **operational**, zero extra open ports |'', []]]"

section \<open>Integrity and recovery\<close>

definition integrity_lines :: "story \<Rightarrow> string list" where
  "integrity_lines st =
     [(''## 4. Data integrity '' @ em_dash @ '' the numbers''), [],
      ''Every generated record carries a unique identity (generator ID + sequence number). After each run, every row in the lake is '' @
      ''reconciled against what the generator sent and what the collector acknowledged:'', [],
      ''| Measure | Value |'', ''|---|---:|'',
      ''| Records offered (all runs) | '' @ whole (so_offered st) @ '' |'', ''| Records acknowledged | '' @ whole (so_accepted st) @ '' |'',
      ''| Records verified in the lake | '' @ whole (so_landed st) @ '' |'',
      ''| **Acknowledged but lost** | **'' @ whole (so_lost st) @ ''** |'', ''| **Duplicated** | **'' @ whole (so_duplicated st) @ ''** |'', [],
      ''Offered minus acknowledged is work the pipeline *refused or could not take* (for example while the collector was deliberately '' @
      ''killed) '' @ em_dash @ '' refused work is visible to the client immediately and is not data loss.'', []]"

definition no_loss_rows :: "string list" where
  "no_loss_rows = [''| Acknowledged records lost | **0** |'', ''| Records duplicated on recovery | **0** |'']"

definition recovery_section :: "texts \<Rightarrow> recovery \<Rightarrow> pyexn + string list" where
  "recovery_section tx x =
     ebind (whole_of (rc_failed x)) (\<lambda>failed.
     Inr ([''## 5. Fault recovery'', [],
           ''With ingestion running, the collector process was killed with `'' @ str_of tx (rc_signal x) @
           ''` '' @ em_dash @ '' no warning, no graceful shutdown, the hardest failure a process can have.'', [], ''| Measure | Value |'', ''|---|---:|'']
       @ (case rc_detect x of None \<Rightarrow> [] | Some s \<Rightarrow> [''| Failure detected after | '' @ plain_fixed 1 s @ '' s |''])
       @ (case rc_outage x of None \<Rightarrow> [] | Some s \<Rightarrow> [''| Total outage (kill '' @ arrow_right @ '' serving again) | '' @ plain_fixed 1 s @ '' s |''])
       @ [''| Restarted by | '' @ (if truthy (rc_self_healed x) then ''supervisor, automatically'' else ''operator'') @ '' |'',
          ''| Requests failed during the outage | '' @ failed @ '' (all visibly, to the client) |'']
       @ no_loss_rows
       @ [[], ''The failed requests are the *correct* behaviour: clients saw an immediate, retryable error instead of a silent black hole. '' @
          ''Everything the pipeline had already acknowledged survived the kill.'', []]))"

section \<open>Throughput\<close>

definition persistence_lines :: "best \<Rightarrow> pyexn + string list" where
  "persistence_lines b =
     ebind (as_dict (cr_totals (be_run b))) (\<lambda>t.
     let p50 = got t ''latency_p50_ms'' in
     if \<not> truthy p50 then Inr []
     else ebind (as_number p50) (\<lambda>x. ebind (as_number (got t ''latency_p99_ms'')) (\<lambda>y.
          Inr [''- End-to-end latency at that rate: p50 **'' @ plain_fixed 1 (x / 1000) @ '' s**, p99 **'' @ plain_fixed 1 (y / 1000) @
               '' s**. This is *persistence* latency '' @ em_dash @ '' the clock stops only when the data is durably stored and committed, not when it '' @
               ''reaches a buffer.''])))"

definition rate_lines :: "best \<Rightarrow> pyexn + string list" where
  "rate_lines b =
     joined_rows
       [Inr [''- Verified sustained rate: **'' @ whole (be_rate b) @ '' records/second** with 100% delivery over '' @ whole (be_records b) @
             '' records.''],
        persistence_lines b,
        Inr [''- Latency is dominated by the collector's configurable batching window (5 s in this test). Larger batches mean fewer, '' @
             ''better-sized storage files; a lower window trades storage efficiency for freshness. This is a tuning dial, not a defect.'']]"

definition stair_row :: "pydict \<Rightarrow> pyexn + string list" where
  "stair_row s =
     ebind (level_rate s) (\<lambda>rate. ebind (level_ratio s) (\<lambda>ratio.
     ebind (item s ''target_rps'') (\<lambda>target. ebind (item s ''rejected'') (\<lambda>rejected.
     Inr [''| '' @ whole target @ '' | '' @ whole rate @ '' | '' @ plain_fixed 3 ratio @ '' | '' @ whole rejected @ '' |'']))))"

definition stair_steps :: "crun \<Rightarrow> pyexn + pydict list" where
  "stair_steps r = (case cr_steps r of PList vs \<Rightarrow> emap as_dict vs | _ \<Rightarrow> Inl TypeError)"

definition stair_lines :: "crun \<Rightarrow> pyexn + string list" where
  "stair_lines r =
     ebind (stair_steps r) (\<lambda>ss.
     joined_rows (Inr [[], ''Staircase (increasing target rate, 10 minutes per level):'', [],
       ''| Target rec/s | Delivered rec/s | Delivery ratio | Refused |'', ''|---:|---:|---:|---:|''] # map stair_row ss))"

definition throughput_section :: "story \<Rightarrow> pyexn + string list" where
  "throughput_section st =
     joined_rows
       [Inr [''## 6. Throughput and latency'', []], for_some (so_best st) rate_lines, for_some (so_stair st) stair_lines, Inr [[]],
        Inr (if relayed (so_runs st)
          then [''> **A note on the ceiling.** During this test window, traffic between the generator and the collector traversed an '' @
                ''encrypted SSH relay (a temporary network configuration). The rates above are therefore **verified floors** '' @ em_dash @ '' the '' @
                ''pipeline demonstrably sustained them '' @ em_dash @ '' but the *maximum* capacity measurement is scheduled for after a one-line '' @
                ''network change (direct routing on the ingestion port). Data-integrity and recovery results are unaffected by the relay.'']
          else []),
        Inr [[]]]"

section \<open>Storage, operations and evidence\<close>

definition efficiency_section :: "texts \<Rightarrow> merged \<Rightarrow> pyexn + string list" where
  "efficiency_section tx c =
     ebind (whole_of (mg_minor c)) (\<lambda>minor. ebind (whole_of (mg_major c)) (\<lambda>major.
     ebind (ebind (catalog_after c ''live_rows'') whole_of) (\<lambda>rows. ebind (ebind (catalog_after c ''live_bytes'') as_number) (\<lambda>nbytes.
     Inr [''## 7. Storage efficiency'', [],
          ''Telemetry ingestion naturally produces many small files; unmanaged, they degrade query performance over time. The '' @
          ''pipeline's compactor runs continuously in the background:'', [], ''| Measure | Value |'', ''|---|---:|'',
          ''| Small files merged during testing | '' @ whole (mg_files c) @ '' |'',
          ''| Compaction cycles (minor / major) | '' @ minor @ '' / '' @ major @ '' |'',
          ''| Live files at end of testing | '' @ str_of tx (mg_files_after c) @ '' |'',
          ''| Data held | '' @ rows @ '' rows, '' @ plain_fixed 0 (nbytes / 2 ^ 20) @ '' MiB |'', [],
          ''Row counts and per-column checksums are re-verified across merges: compaction changes file layout, never data.'', []]))))"

definition operations_lines :: "string list" where
  "operations_lines =
     [''## 8. Operations and monitoring'', [],
      ''- Health, resource and backlog monitoring runs on **every server**, with dashboards (Grafana) and eight automated alerts '' @ em_dash @ '' '' @
      ''including 'ingestion refused', 'backlog growing' and 'data staleness'.'',
      ''- Monitoring required **no additional network exposure**: health checks run locally on each machine and are aggregated over the '' @
      ''existing management channel. Only one port is open between servers '' @ em_dash @ '' the ingestion port itself.'',
      ''- The fault test doubled as a monitoring test: the kill was detected in under a second and the restart was recorded automatically.'', [],
      ''## 9. Configuration under test, and next steps'', [], ''| | |'', ''|---|---|'',
      (''| Servers | 3 '' @ times_sign @ '' AWS t3.large (2 vCPU, 8 GiB) |''), ''| Storage | Amazon S3 (Parquet) |'',
      ''| Catalog | PostgreSQL (RDS), transactional commits |'', ''| Batching | 16 MiB or 5 s, whichever first |'',
      ''| Compaction | minor 1 min / major 10 min |'', [],
      ''**Planned next:** direct-route the ingestion port (one firewall rule) and re-run the capacity staircase and multi-hour soak to '' @
      ''publish maximum sustainable throughput on production-class hardware.'', []]"

definition evidence_row :: "texts \<Rightarrow> crun \<Rightarrow> pyexn + string list" where
  "evidence_row tx r =
     (if \<not> truthy (dget_or (cr_manifest r) ''total_offered'' PNone) then Inr []
      else ebind (item (cr_manifest r) ''total_offered'') (\<lambda>offered. ebind (item (cr_manifest r) ''total_accepted'') (\<lambda>accepted.
           Inr [''| `'' @ cr_id r @ ''` | '' @ whole offered @ '' | '' @ whole accepted @ '' | '' @
                str_of tx (dget_or (cr_correctness r) ''verdict'' (PStr ''pending'')) @ '' |''])))"

definition evidence_section :: "texts \<Rightarrow> crun list \<Rightarrow> pyexn + string list" where
  "evidence_section tx rs =
     joined_rows ([Inr [''---'', [], (''## Appendix '' @ em_dash @ '' evidence''), [], ''| Run | Records | Delivered | Verdict |'', ''|---|---:|---:|---|'']]
       @ map (evidence_row tx) rs
       @ [Inr [[], ''Full raw data '' @ em_dash @ '' per-second samples, host metrics from all three servers, service logs, reconciliation queries and '' @
               ''charts '' @ em_dash @ '' is preserved per run under `results/<run-id>/` alongside this report.'', []]])"

section \<open>The report\<close>

definition report_lines :: "texts \<Rightarrow> string \<Rightarrow> story \<Rightarrow> pyexn + string list" where
  "report_lines tx now st =
     joined_rows
       [summary_section tx now st, Inr why_lines, tested_section tx st, Inr (integrity_lines st), for_some (so_recovery st) (recovery_section tx),
        throughput_section st, for_some (so_merged st) (efficiency_section tx), Inr operations_lines, evidence_section tx (so_runs st)]"

definition customer_lines :: "texts \<Rightarrow> string \<Rightarrow> crun list \<Rightarrow> pyexn + string list" where
  "customer_lines tx now rs = ebind (story_of rs) (report_lines tx now)"

definition customer_text :: "texts \<Rightarrow> string \<Rightarrow> crun list \<Rightarrow> pyexn + string" where
  "customer_text tx now rs = ebind (customer_lines tx now rs) (\<lambda>ls. Inr (join_with [newline] ls @ [newline]))"

definition chart_picks :: "story \<Rightarrow> (string \<times> string list) list" where
  "chart_picks st =
     (case so_best st of None \<Rightarrow> []
      | Some b \<Rightarrow> [(cr_id (be_run b), [''throughput.png'', ''latency.png'', ''compaction.png'', ''cpu.png''])])
     @ (case so_recovery st of None \<Rightarrow> [] | Some x \<Rightarrow> [(cr_id (rc_run x), [''throughput.png'', ''errors.png''])])"

definition chart_copies :: "(string \<Rightarrow> string \<Rightarrow> bool) \<Rightarrow> story \<Rightarrow> (string \<times> string \<times> string) list" where
  \<comment> \<open>the run, the chart and the name of its copy; whether a run has a chart is an argument\<close>
  "chart_copies exists st =
     concat (map (\<lambda>(run, names). map (\<lambda>n. (run, n, last (split_on CHR ''-'' run) @ ''-'' @ n)) (filter (exists run) names)) (chart_picks st))"

end
