(* ===== verification/CustomerTextFacts.thy ===== *)
theory CustomerTextFacts
  imports CustomerText ReportTextFacts
begin

text \<open>
  What \<open>PERFORMANCE_REPORT.md\<close> says refines the claims of \<open>CustomerReport\<close>: the lines that tell a result are
  those the claims call for, in order. Some lines rest on no file and are there in every report.
\<close>

section \<open>The lines the claims call for\<close>










definition stated :: "string list \<Rightarrow> string list \<Rightarrow> bool" where
  \<comment> \<open>line by line, each begins as announced\<close>
  "stated ps ls = list_all2 starts_with ps ls"

section \<open>Which lines are claims\<close>

lemma starts_with_simps [simp]:
  "starts_with [] s" "\<not> starts_with (c # p) []" "starts_with (c # p) (d # s) \<longleftrightarrow> c = d \<and> starts_with p s"
  "starts_with (xs @ p) (xs @ s) \<longleftrightarrow> starts_with p s"
  by (auto simp: starts_with_def)

lemma starts_with_itself [simp]: "starts_with p (p @ s)" "starts_with p p"
  by (simp_all add: starts_with_def)


lemma stated_simps [simp]: "stated [] []" "stated (p # ps) (l # ls) \<longleftrightarrow> starts_with p l \<and> stated ps ls"
  by (simp_all add: stated_def)








section \<open>The sections\<close>















section \<open>The text states the claims\<close>


section \<open>Lines that rest on nothing\<close>

lemma section_in_customer_report:
  assumes "report_lines tx now st = Inr ls"
  shows "\<exists>xs. tested_section tx st = Inr xs \<and> set xs \<subseteq> set ls" and "set operations_lines \<subseteq> set ls"
  using joined_rows_part [OF assms [unfolded report_lines_def]] by force+

text \<open>Whatever the runs were, also when there were none, the report says that the contract tests
  pass and that the kill was detected in under a second.\<close>

theorem claims_without_evidence:
  assumes "customer_lines tx now rs = Inr ls"
  shows "contracts_row \<in> set ls
    \<and> ''- The fault test doubled as a monitoring test: the kill was detected in under a second and the restart was recorded automatically.'' \<in> set ls"
proof -
  obtain st where st: "report_lines tx now st = Inr ls" using assms by (auto simp: customer_lines_def)
  note part = section_in_customer_report [OF st]
  obtain xs where xs: "tested_section tx st = Inr xs" "set xs \<subseteq> set ls" using part(1) by blast
  have "contracts_row \<in> set xs" using joined_rows_part [OF xs(1) [unfolded tested_section_def]] by force
  with xs(2) part(2) show ?thesis by (auto simp: operations_lines_def)
qed

section \<open>A report of a recovery that lost a record\<close>



end
