(* ===== verification/PublishText.thy ===== *)
theory PublishText
  imports PublishReport ReportTextFacts
begin

text \<open>
  The texts of \<open>SUMMARY.md\<close> and \<open>DETAILED.md\<close>: \<open>main\<close> of \<open>bench/publish_report.py\<close> and what it calls, line by line.
  The text of \<open>report.md\<close>, which charts exist and the texts Python gives to floats, lists and dictionaries are arguments.
\<close>

section \<open>Rows\<close>

definition host_text :: "run \<Rightarrow> string \<Rightarrow> string \<Rightarrow> pyexn + string" where
  "host_text r role label =
     ebind (host_row r role) (\<lambda>x. Inr (case x of
       None \<Rightarrow> ''| '' @ label @ '' | no data | no data |''
     | Some (cpu, mem) \<Rightarrow>
         ''| '' @ label @ '' | '' @ plain_fixed 0 (su_min cpu) @ ''% / **'' @ plain_fixed 1 (su_mean cpu) @ ''%** / '' @
         plain_fixed 0 (su_max cpu) @ ''% | '' @ plain_fixed 1 (su_min mem) @ ''% / '' @ plain_fixed 1 (su_mean mem) @ ''% / **'' @
         plain_fixed 1 (su_max mem) @ ''%** |''))"

definition server_part :: "run \<Rightarrow> string \<Rightarrow> string \<Rightarrow> pyexn + pydict" where
  \<comment> \<open>\<open>dig(env, 'servers', role, part, default={})\<close>, of which keys are read\<close>
  "server_part r role part = as_dict (dig_or (PDict (ru_environment r)) [''servers'', role, part] (PDict []))"

definition ram_gb :: "pydict \<Rightarrow> pyexn + rat" where
  "ram_gb host = ebind (as_number (dget_or host ''ram_bytes'' (PInt 0))) (\<lambda>x. Inr (x / 1024 ^ 3))"

definition hw_row :: "texts \<Rightarrow> run \<Rightarrow> string \<Rightarrow> string \<Rightarrow> pyexn + string" where
  "hw_row tx r role label =
     ebind (server_part r role ''host'') (\<lambda>h. ebind (server_part r role ''instance'') (\<lambda>inst. ebind (ram_gb h) (\<lambda>gb.
     Inr (''| '' @ label @ '' | '' @ str_of tx (dget_or inst ''type'' (PStr ''unknown'')) @ '' | '' @
       str_of tx (dget_or h ''logical_cores'' (PStr ''?'')) @ '' vCPU | '' @ plain_fixed 1 gb @ '' GB |''))))"

definition step_row :: "texts \<Rightarrow> pydict \<Rightarrow> pyexn + string" where
  "step_row tx s =
     ebind (step_ratio s) (\<lambda>ratio. ebind (ebind (value_of s ''target_rps'') (fixed_of 0)) (\<lambda>target.
     ebind (ebind (value_of s ''offered'') (commas_of tx)) (\<lambda>offered. ebind (ebind (value_of s ''accepted'') (commas_of tx)) (\<lambda>accepted.
     ebind (ebind (value_of s ''rejected'') (commas_of tx)) (\<lambda>rejected.
     Inr (''| '' @ target @ '' | '' @ offered @ '' | '' @ accepted @ '' | '' @ rejected @ '' | '' @ plain_fixed 4 ratio @ '' |''))))))"

definition step_rows :: "texts \<Rightarrow> run \<Rightarrow> pyexn + string list" where
  "step_rows tx r = ebind (publish_steps r) (emap (step_row tx))"

definition server_labels :: "(string \<times> string) list" where
  "server_labels =
     [(''generator'', ''Server 1 (generator)''), (''collector'', ''Server 2 (collector)''), (''compactor'', ''Server 3 (compactor)'')]"

section \<open>Sizing\<close>

definition sizing_rows :: "rat \<Rightarrow> string list" where
  "sizing_rows m = map (\<lambda>(t, n). ''| '' @ commas_int t @ '' | '' @ show_int n @ '' |'') (sizing_table m)"

definition burst_note :: "texts \<Rightarrow> pydict \<Rightarrow> string list" where
  "burst_note tx inst =
     (if truthy (dget_or inst ''burstable'' (PBool False))
      then [[], ''**Note:** the current generator instance (`'' @ str_of tx (dget_or inst ''type'' (PStr ''unknown'')) @
            ''`) is *burstable* (T-series) -- fine at low average CPU (this run averaged well under half a core), but sustained high-rate '' @
            ''generation over a long test can exhaust CPU credits and throttle mid-run. For any per-host rate pushed meaningfully above '' @
            ''what's proven here, use a non-burstable equivalent (e.g. `m5.large`) instead.'', []]
      else [[]])"

definition scaling_guidance :: "texts \<Rightarrow> run \<Rightarrow> rat \<Rightarrow> pyexn + string list" where
  "scaling_guidance tx r m =
     ebind (server_part r ''generator'' ''instance'') (\<lambda>inst. ebind (server_part r ''generator'' ''host'') (\<lambda>host. ebind (ram_gb host) (\<lambda>gb.
     let rate = fixed 0 (safe_rate m)
     in Inr ([(''## How big a generator VM do we need for 30k '' @ arrow_right @ '' 200k rec/s?''), [],
          ''The generator is Python `threading`-based, so it's bound by the GIL: a single'',
          ''process can't use more than about one core's worth of Python execution no'',
          ''matter how many vCPUs the box has. A bigger single VM does **not**'',
          ''proportionally increase throughput. The proven, low-risk path is horizontal:'',
          ''run multiple generator hosts of **today's exact spec** ('' @ str_of tx (dget_or inst ''type'' (PStr ''unknown'')) @ '', '' @
            str_of tx (dget_or host ''logical_cores'' (PStr ''?'')),
          ''vCPU, '' @ plain_fixed 1 gb @ '' GB) in parallel, each generating up to the rate proven'',
          ''clean in this run (**'' @ rate @ '' rec/s**), and aggregate their output.'', [],
          ''| Target aggregate rate | Generator hosts needed ('' @ rate @ '' rec/s each) |'', ''|---|---|'']
        @ sizing_rows m @ burst_note tx inst
        @ [''This sizing covers the **generator only**. It says nothing about whether the'',
           ''collector or compactor can sustain that aggregate rate -- that is the actual'',
           ''open question a multi-host campaign would answer, since both have shown'',
           ''large unused headroom at every rate tested so far.'', []]))))"

section \<open>The two documents\<close>

definition verdict_text :: "bool \<Rightarrow> string" where
  "verdict_text clean =
     (if clean then (''**Every step passed cleanly** '' @ em_dash @ '' zero rejected, zero lost.'')
      else (''**Not all steps passed cleanly** '' @ em_dash @ '' see the per-step table below.''))"

definition published_charts :: "(string \<Rightarrow> bool) \<Rightarrow> string list" where
  \<comment> \<open>the charts the run has\<close>
  "published_charts exists =
     filter exists [''cpu.png'', ''memory.png'', ''rss.png'', ''throughput.png'', ''latency.png'', ''backlog.png'', ''staircase.png'']"

definition chart_links :: "string list \<Rightarrow> string list" where
  "chart_links copied =
     (if copied = [] then [''_(no charts collected for this run)_'']
      else tl (concat (map (\<lambda>n. [[], ''!['' @ n @ ''](images/'' @ n @ '')'']) copied)))"

definition summary_lines_of :: "texts \<Rightarrow> string \<Rightarrow> string list \<Rightarrow> run \<Rightarrow> pyexn + string list" where
  "summary_lines_of tx name copied r =
     ebind (publish_totals r) (\<lambda>t. ebind (emap (\<lambda>(role, label). hw_row tx r role label) server_labels) (\<lambda>hw.
     ebind (emap (\<lambda>(role, label). host_text r role label) server_labels) (\<lambda>hosts. ebind (max_step r) (\<lambda>top. ebind (all_clean r) (\<lambda>clean.
     ebind (step_rows tx r) (\<lambda>rows. ebind (scaling_guidance tx r top) (\<lambda>guidance.
     let count = (\<lambda>k. fmt_int (dget_or t k (PInt 0))); f = (\<lambda>k. fmt_num (got t k) 1 [])
     in Inr ([(''# Test Report '' @ em_dash @ '' '') @ name, [], ''## Bottom line'', verdict_text clean @ '' Highest rate tested: **'' @ fixed 0 top @ '' rec/s**.'', [],
          ''- Offered: '' @ count ''records_offered'' @ '' records'', ''- Accepted: '' @ count ''records_accepted'' @ '' records'',
          ''- Rejected: '' @ count ''records_rejected'' @ '' records'',
          ''- Mean latency p50/p95/p99 (ms): '' @ f ''latency_p50_ms'' @ '' / '' @ f ''latency_p95_ms'' @ '' / '' @ f ''latency_p99_ms'', [],
          ''## Hardware'', [], ''| Server | Instance type | CPU | RAM |'', ''|---|---|---|---|'']
        @ hw
        @ [[], ''## Real CPU / RAM usage during this run'', [], ''| Server | CPU (min / avg / max) | Memory used % (min / avg / max) |'',
           ''|---|---|---|'']
        @ hosts @ [[]] @ chart_links copied
        @ [[], ''## Per-step results'', [], ''| Target rec/s | Offered | Accepted | Rejected | Ratio |'', ''|---|---|---|---|---|'']
        @ (if rows = [] then [[]] else rows) @ [[]] @ guidance
        @ [[], ''---'', ''*Generated automatically by `bench/publish_report.py` from `results/'' @ name @ ''/` '' @ (em_dash @ '' not hand-edited. Full '') @
           ''harness-native report: `results/'' @ name @ ''/report.md`.*'', []]))))))))"

definition published_summary :: "texts \<Rightarrow> string \<Rightarrow> string list \<Rightarrow> run \<Rightarrow> pyexn + string" where
  "published_summary tx name copied r = ebind (summary_lines_of tx name copied r) (\<lambda>ls. Inr (join_with [newline] ls))"

definition published_detail :: "string \<Rightarrow> string option \<Rightarrow> string" where
  \<comment> \<open>\<open>DETAILED.md\<close>, around \<open>report.md\<close> if there is one\<close>
  "published_detail name report =
     join_with [newline]
       [(''# Detailed Report '' @ em_dash @ '' '') @ name, [], ''See `SUMMARY.md` for the plain-language version. This is the harness's own'',
        ''generated report (`results/'' @ name @ ''/report.md`), reproduced here for the'', ''permanent record.'', [], ''---'', [],
        (case report of None \<Rightarrow> [] | Some s \<Rightarrow> s), []]"

section \<open>What the summary does not look at\<close>

text \<open>The whole summary is written without looking at the validation. Whatever \<open>correctness.json\<close> holds, also a
  failed verdict with lost records, the same text is written, and its bottom line says that nothing was lost
  exactly when the generator's own counters balance.\<close>

theorem summary_ignores_validation:
  "published_summary tx name copied (r\<lparr>ru_correctness := c\<rparr>) = published_summary tx name copied r
   \<and> (\<forall>ls. summary_lines_of tx name copied r = Inr ls \<longrightarrow>
      (\<exists>clean top. all_clean r = Inr clean \<and> ls ! 3 = verdict_text clean @ '' Highest rate tested: **'' @ fixed 0 top @ '' rec/s**.''))"
proof
  have "summary_lines_of tx name copied (r\<lparr>ru_correctness := c\<rparr>) = summary_lines_of tx name copied r"
    by (simp add: summary_lines_of_def publish_totals_def hw_row_def server_part_def host_text_def host_row_def max_step_def publish_steps_def
        all_clean_def step_rows_def scaling_guidance_def Let_def)
  then show "published_summary tx name copied (r\<lparr>ru_correctness := c\<rparr>) = published_summary tx name copied r"
    by (simp add: published_summary_def)
  show "\<forall>ls. summary_lines_of tx name copied r = Inr ls \<longrightarrow>
      (\<exists>clean top. all_clean r = Inr clean \<and> ls ! 3 = verdict_text clean @ '' Highest rate tested: **'' @ fixed 0 top @ '' rec/s**.'')"
    by (auto simp: summary_lines_of_def Let_def nth_append)
qed

lemma no_files_published: "\<exists>ls. summary_lines_of bare_texts name [] no_files = Inr ls"
proof -
  have parts: "publish_totals no_files = Inr []" "publish_steps no_files = Inr []" "all_clean no_files = Inr False" "max_step no_files = Inr 0"
    "server_part no_files role part = Inr []" "host_text no_files role label = Inr (''| '' @ label @ '' | no data | no data |'')" for role part label
    by (simp_all add: publish_totals_def publish_steps_def all_clean_def max_step_def server_part_def host_text_def host_row_def mem_pct_series_def
        no_files_value dget_or_def as_number_def dig_or_def stats_def series_def Let_def split: option.split)
  then show ?thesis
    by (simp add: summary_lines_of_def parts hw_row_def ram_gb_def dget_or_def as_number_def server_labels_def step_rows_def scaling_guidance_def Let_def)
qed

lemma summary_ignores_validation_witness:
  "\<exists>ls. summary_lines_of bare_texts ''t1'' [] no_files = Inr ls
     \<and> published_summary bare_texts ''t1'' [] (no_files\<lparr>ru_correctness := []\<rparr>) = published_summary bare_texts ''t1'' [] no_files
     \<and> (\<exists>clean top. all_clean no_files = Inr clean \<and> ls ! 3 = verdict_text clean @ '' Highest rate tested: **'' @ fixed 0 top @ '' rec/s**.'')"
proof -
  obtain ls where ls: "summary_lines_of bare_texts ''t1'' [] no_files = Inr ls" using no_files_published by blast
  with summary_ignores_validation [of bare_texts "''t1''" "[]" "[]" no_files] show ?thesis by blast
qed

end
