(* ===== verification/TrackRuns.thy ===== *)
theory TrackRuns
  imports TrackA ReportText
begin

text \<open>
  The tests of \<open>bench/track_a.py\<close> as they run: every statement they send, every file they touch and every row
  they write, in order. The engine, the clock and the disk are one parameter; a statement that raises
  ends the run unless the test catches it, and the rows written before it stay.
\<close>

section \<open>A run against an engine\<close>

datatype failure = Engine string | Python pyexn

datatype file_op = RemoveTree string | MakeDirs string | RemoveFile string | ClearPath string

record 'w engine =
  en_sql :: "nat \<Rightarrow> string \<Rightarrow> 'w \<Rightarrow> (string + pyval list list) \<times> 'w"
    \<comment> \<open>a connection and a statement: the rows, or the text of the exception\<close>
  en_connect :: "'w \<Rightarrow> nat \<times> 'w"
  en_close :: "nat \<Rightarrow> 'w \<Rightarrow> 'w"
  en_clock :: "'w \<Rightarrow> rat"
  en_utc :: "'w \<Rightarrow> string"
  en_file :: "file_op \<Rightarrow> 'w \<Rightarrow> 'w"
  en_size :: "string \<Rightarrow> 'w \<Rightarrow> int"
  en_count :: "string \<Rightarrow> 'w \<Rightarrow> int"
    \<comment> \<open>the files below a directory\<close>
  en_digest :: "string \<Rightarrow> 'w \<Rightarrow> string"
  en_free :: "'w \<Rightarrow> int"
  en_drop :: "'w \<Rightarrow> (pyexn + cache_label) \<times> 'w"
    \<comment> \<open>\<open>cold_cache\<close>, with what the machine does in between\<close>
  en_jobs :: "nat \<Rightarrow> string \<Rightarrow> 'w \<Rightarrow> (string + rat list) \<times> 'w"
    \<comment> \<open>the seconds of as many jobs, run by a pool of as many threads\<close>
  en_root :: "rat \<Rightarrow> rat"
  en_message :: "pyexn \<Rightarrow> string"
  en_hash :: string

record 'w bench =
  bn_world :: 'w
  bn_rows :: "(string \<times> pydict) list"

type_synonym ('w, 'a) act = "'w bench \<Rightarrow> (failure + 'a) \<times> 'w bench"

definition aret :: "'a \<Rightarrow> ('w, 'a) act" where
  "aret x s = (Inr x, s)"

definition araise :: "pyexn \<Rightarrow> ('w, 'a) act" where
  "araise e s = (Inl (Python e), s)"

definition abind :: "('w, 'a) act \<Rightarrow> ('a \<Rightarrow> ('w, 'b) act) \<Rightarrow> ('w, 'b) act" where
  "abind m f s = (case m s of (Inl e, s1) \<Rightarrow> (Inl e, s1) | (Inr x, s1) \<Rightarrow> f x s1)"

abbreviation athen :: "('w, 'a) act \<Rightarrow> ('w, 'b) act \<Rightarrow> ('w, 'b) act" where
  "athen m n \<equiv> abind m (\<lambda>_. n)"

fun each :: "('a \<Rightarrow> ('w, 'b) act) \<Rightarrow> 'a list \<Rightarrow> ('w, 'b list) act" where
  \<comment> \<open>a loop, with what each round gave\<close>
  "each f [] = aret []"
| "each f (x # xs) = abind (f x) (\<lambda>y. abind (each f xs) (\<lambda>ys. aret (y # ys)))"

fun steps :: "('w, 'a) act list \<Rightarrow> ('w, unit) act" where
  \<comment> \<open>one statement after the other\<close>
  "steps [] = aret ()"
| "steps (m # ms) = athen m (steps ms)"

definition attempt :: "('w, 'a) act \<Rightarrow> ('w, failure + 'a) act" where
  \<comment> \<open>\<open>try\<close>: what was raised becomes a value\<close>
  "attempt m s = (case m s of (r, s1) \<Rightarrow> (Inr r, s1))"

definition from_world :: "('w \<Rightarrow> 'a) \<Rightarrow> ('w, 'a) act" where
  "from_world f s = (Inr (f (bn_world s)), s)"

definition in_world :: "('w \<Rightarrow> 'w) \<Rightarrow> ('w, unit) act" where
  "in_world f s = (Inr (), s\<lparr>bn_world := f (bn_world s)\<rparr>)"

definition lift_sum :: "pyexn + 'a \<Rightarrow> ('w, 'a) act" where
  "lift_sum r = (case r of Inl e \<Rightarrow> araise e | Inr x \<Rightarrow> aret x)"

section \<open>The plumbing\<close>

record duck =
  dk_id :: nat
  dk_threads :: int
  dk_memory :: string

definition sql :: "'w engine \<Rightarrow> duck \<Rightarrow> string \<Rightarrow> ('w, pyval list list) act" where
  "sql en d q s =
     (case en_sql en (dk_id d) q (bn_world s) of
        (Inl msg, w) \<Rightarrow> (Inl (Engine msg), s\<lparr>bn_world := w\<rparr>) | (Inr rows, w) \<Rightarrow> (Inr rows, s\<lparr>bn_world := w\<rparr>))"

definition sqls :: "'w engine \<Rightarrow> duck \<Rightarrow> string list \<Rightarrow> ('w, unit) act" where
  "sqls en d qs = steps (map (sql en d) qs)"

definition files :: "'w engine \<Rightarrow> file_op \<Rightarrow> ('w, unit) act" where
  "files en c = in_world (en_file en c)"

definition connected :: "'w engine \<Rightarrow> ('w, nat) act" where
  "connected en s = (case en_connect en (bn_world s) of (i, w) \<Rightarrow> (Inr i, s\<lparr>bn_world := w\<rparr>))"

definition quoted :: "string \<Rightarrow> string" where
  "quoted s = [CHR 0x27] @ s @ [CHR 0x27]"

definition open_duck :: "'w engine \<Rightarrow> int \<Rightarrow> string \<Rightarrow> string \<Rightarrow> ('w, duck) act" where
  \<comment> \<open>\<open>Duck(threads, memory_limit, temp_dir)\<close>\<close>
  "open_duck en threads memory temp =
     abind (connected en) (\<lambda>i.
     let d = \<lparr>dk_id = i, dk_threads = threads, dk_memory = memory\<rparr>
     in athen (sqls en d [''SET threads = '' @ show_int threads, ''SET memory_limit = '' @ quoted memory,
                 ''SET temp_directory = '' @ quoted temp, ''SET preserve_insertion_order = false'']) (aret d))"

definition close_duck :: "'w engine \<Rightarrow> duck \<Rightarrow> ('w, unit) act" where
  "close_duck en d = in_world (en_close en (dk_id d))"

definition elapsed :: "'w engine \<Rightarrow> ('w, 'a) act \<Rightarrow> ('w, rat) act" where
  \<comment> \<open>\<open>t0 = perf_counter(); ...; perf_counter() - t0\<close>\<close>
  "elapsed en m = abind (from_world (en_clock en)) (\<lambda>t0. athen m (abind (from_world (en_clock en)) (\<lambda>t1. aret (t1 - t0))))"

definition timed_sql :: "'w engine \<Rightarrow> duck \<Rightarrow> string \<Rightarrow> ('w, rat) act" where
  \<comment> \<open>\<open>duck.time(q)\<close>\<close>
  "timed_sql en d q = elapsed en (sql en d q)"

definition row_of :: "(string \<times> pyval) list \<Rightarrow> pydict" where
  "row_of kvs = map (\<lambda>(k, v). (KStr k, v)) kvs"

definition write_row :: "'w engine \<Rightarrow> string \<Rightarrow> (string \<times> pyval) list \<Rightarrow> ('w, unit) act" where
  \<comment> \<open>\<open>out.write(rel, row)\<close>\<close>
  "write_row en rel kvs s =
     (Inr (), s\<lparr>bn_rows := bn_rows s @ [(rel, out_row (en_hash en) (en_utc en (bn_world s)) (row_of kvs))]\<rparr>)"

definition stats_row :: "'w engine \<Rightarrow> rat list \<Rightarrow> timing \<Rightarrow> (string \<times> pyval) list" where
  \<comment> \<open>the dictionary of \<open>stats_of\<close>\<close>
  "stats_row en xs st =
     [(''runs'', PInt (int (ti_runs st))), (''min_s'', num (ti_min st)), (''max_s'', num (ti_max st)), (''mean_s'', num (ti_mean st)),
      (''median_s'', num (ti_median st)),
      (''stddev_s'', num (round_to 4 (if 1 < length xs then en_root en (variance_of xs) else 0)))]"

definition measured :: "'w engine \<Rightarrow> ('w, rat) act \<Rightarrow> nat \<Rightarrow> nat \<Rightarrow> ('w, rat \<times> (string \<times> pyval) list) act" where
  \<comment> \<open>\<open>repeat(fn, warmup, runs)\<close>: the median, and all of the statistics\<close>
  "measured en fn warmup runs =
     athen (each (\<lambda>_. fn) [0 ..< warmup]) (abind (each (\<lambda>_. fn) [0 ..< runs]) (\<lambda>xs.
     abind (lift_sum (stats_of xs)) (\<lambda>st. aret (ti_median st, stats_row en xs st))))"

definition ratio :: "rat \<Rightarrow> rat \<Rightarrow> ('w, rat) act" where
  "ratio x y = (if y = 0 then araise ZeroDivisionError else aret (x / y))"

definition whole_rate :: "int \<Rightarrow> rat \<Rightarrow> ('w, pyval) act" where
  \<comment> \<open>\<open>round(rows / seconds)\<close>\<close>
  "whole_rate n secs = abind (ratio (of_int n) secs) (\<lambda>x. aret (PInt (py_round x)))"

definition join_path :: "string \<Rightarrow> string \<Rightarrow> string" where
  \<comment> \<open>\<open>os.path.join\<close> with a name\<close>
  "join_path d name = (if d = [] \<or> last d = CHR ''/'' then d @ name else d @ ''/'' @ name)"

abbreviation rounded :: "nat \<Rightarrow> rat \<Rightarrow> pyval" where
  "rounded n x \<equiv> num (round_to n x)"

definition OK :: pyval where "OK = PStr ''OK''"
definition not_tested :: pyval where "not_tested = PStr ''NOT TESTED''"

section \<open>Statements\<close>

definition read_parquet :: "string \<Rightarrow> string" where
  "read_parquet path = ''read_parquet('' @ quoted path @ '')''"

definition dataset_sql :: "int \<Rightarrow> string" where
  "dataset_sql rows = join_with [newline]
     [[], ''SELECT'',
      ''    (TIMESTAMP '2026-01-01' + INTERVAL (i % 86400) SECOND'',
      ''        + INTERVAL ((i * 37) % 1000) MILLISECOND)          AS ts,'',
      ''    'tenant-' || (i % 8)                                   AS tenant,'',
      ''    'service-' || (i % 25)                                 AS service,'',
      ''    CASE (i % 100) WHEN 0 THEN 'FATAL' WHEN 1 THEN '' @ quoted ''ERROR'',
      ''         WHEN 2 THEN 'ERROR' ELSE'',
      ''         CASE WHEN (i % 10) < 2 THEN 'WARN' ELSE 'INFO' END END AS level,'',
      ''    200 + CASE WHEN (i % 50) = 0 THEN 300 WHEN (i % 25) = 0 THEN 204 ELSE 0 END AS status,'',
      ''    (i * 2654435761) % 4096                                AS duration_ms,'',
      ''    (hash(i) % 100000) / 100.0                             AS value,'',
      ''    md5(CAST(i AS VARCHAR)) || md5(CAST(i * 31 AS VARCHAR)) AS body'',
      ''FROM range('' @ show_int rows @ '') t(i)'', []]"

definition agg5 :: "string \<Rightarrow> string" where
  "agg5 src = join_with [newline]
     [[], ''SELECT service, level,'', ''       count(*)            AS n,'', ''       avg(duration_ms)    AS avg_ms,'',
      ''       max(value)          AS max_v,'', ''       min(ts)             AS first_ts'', ''FROM '' @ src @ '' GROUP BY 1, 2'', []]"

definition queries :: "string \<Rightarrow> (string \<times> string) list" where
  \<comment> \<open>\<open>QUERIES\<close>, on a table\<close>
  "queries t =
     [(''q1_full_scan'', ''SELECT count(*), sum(duration_ms) FROM '' @ t),
      (''q2_time_filter'', ''SELECT count(*) FROM '' @ t @ '' WHERE ts >= TIMESTAMP '' @ quoted ''2026-01-01 12:00:00''),
      (''q3_group_service'', ''SELECT service, count(*), avg(duration_ms) FROM '' @ t @ '' GROUP BY 1''),
      (''q4_time_bucket'', ''SELECT date_trunc('minute', ts), count(*) FROM '' @ t @ '' GROUP BY 1''),
      (''q5_multi_dim'', ''SELECT tenant, service, status, count(*), avg(value) FROM '' @ t @ '' GROUP BY 1,2,3''),
      (''q6_join_dim'', join_with [newline]
         [[], ''        WITH dim AS (SELECT DISTINCT service, 'team-' || (hash(service) % 5) AS team FROM '' @ t @ '')'',
          ''        SELECT dim.team, count(*) FROM '' @ t @ '' JOIN dim USING (service) GROUP BY 1''])]"

definition query_named :: "string \<Rightarrow> string \<Rightarrow> string" where
  "query_named name t = (case map_of (queries t) name of None \<Rightarrow> [] | Some q \<Rightarrow> q)"

definition spill_query :: string where
  "spill_query = ''SELECT coalesce(sum(size), 0) AS temporary_storage_bytes FROM duckdb_temporary_files() ''"

definition load_table :: "string \<Rightarrow> string \<Rightarrow> string" where
  "load_table name path = ''CREATE OR REPLACE TABLE '' @ name @ '' AS SELECT * FROM '' @ read_parquet path"

section \<open>Data sets\<close>

record built = dataset +
  ds_hash :: string
  ds_seconds :: rat

definition build_dataset :: "'w engine \<Rightarrow> duck \<Rightarrow> int \<Rightarrow> string \<Rightarrow> ('w, built) act" where
  "build_dataset en d rows path =
     abind (elapsed en (sql en d (''COPY ('' @ dataset_sql rows @ '') TO '' @ quoted path @ '' (FORMAT PARQUET, COMPRESSION SNAPPY)''))) (\<lambda>secs.
     abind (from_world (en_size en path)) (\<lambda>n. abind (from_world (en_digest en path)) (\<lambda>digest.
     aret \<lparr>ds_path = path, ds_rows = rows, ds_bytes = n, ds_hash = take 16 digest, ds_seconds = round_to 2 secs\<rparr>)))"

section \<open>TEST 1 to 5: Parquet\<close>

definition read_once :: "'w engine \<Rightarrow> duck \<Rightarrow> string \<Rightarrow> bool \<Rightarrow> ('w, cache_label option \<times> rat) act" where
  \<comment> \<open>\<open>one()\<close>: the label it sets, and the seconds\<close>
  "read_once en d q cold =
     abind (if cold then abind (\<lambda>s. case en_drop en (bn_world s) of (r, w) \<Rightarrow> lift_sum r (s\<lparr>bn_world := w\<rparr>)) (\<lambda>l. aret (Some l)) else aret None) (\<lambda>label.
     abind (timed_sql en d q) (\<lambda>secs. aret (label, secs)))"

definition label_text :: "cache_label \<Rightarrow> string" where
  "label_text l = (case l of Cold \<Rightarrow> ''cold'' | WarmUnknown \<Rightarrow> ''warm-unknown'' | Warm \<Rightarrow> ''warm'')"

definition read_test :: "'w engine \<Rightarrow> duck \<Rightarrow> built \<times> (string \<times> string) \<times> bool \<Rightarrow> ('w, unit) act" where
  "read_test en d x =
     (case x of (ds, (name, q), cold) \<Rightarrow>
        athen (each (\<lambda>_. read_once en d q cold) [0 ..< if cold then 0 else 1]) (abind (each (\<lambda>_. read_once en d q cold) [0 ..< 5]) (\<lambda>rs.
        abind (lift_sum (stats_of (map snd rs))) (\<lambda>st.
        abind (whole_rate (ds_rows ds) (ti_median st)) (\<lambda>rate.
        abind (ratio (of_int (ds_bytes ds) / 2 ^ 30) (ti_median st)) (\<lambda>gb.
        write_row en ''parquet/read_throughput.jsonl''
          ([(''test_name'', PStr ''TEST1''), (''query'', PStr name),
            (''cache'', PStr (label_text (last_label Warm (map (\<lambda>r. (case fst r of None \<Rightarrow> Warm | Some l \<Rightarrow> l, snd r)) rs)))),
            (''dataset'', PStr (ds_path ds)), (''dataset_hash'', PStr (ds_hash ds)), (''rows'', PInt (ds_rows ds)),
            (''input_gb'', num (of_int (ds_bytes ds) / 2 ^ 30)), (''rows_per_second'', rate), (''gb_per_second'', rounded 3 gb),
            (''threads'', PInt (dk_threads d)), (''memory_limit'', PStr (dk_memory d)), (''status'', OK)]
           @ stats_row en (map snd rs) st)))))))"

definition skipped :: "'w engine \<Rightarrow> string \<Rightarrow> string \<Rightarrow> (string \<times> pyval) list \<Rightarrow> string \<Rightarrow> ('w, unit) act" where
  \<comment> \<open>a row that says what was not tested, and why\<close>
  "skipped en rel test what why =
     write_row en rel ([(''test_name'', PStr test)] @ what @ [(''status'', not_tested), (''error'', PStr why)])"

definition test1_rows :: "'w engine \<Rightarrow> duck \<Rightarrow> built list \<Rightarrow> ('w, unit) act" where
  "test1_rows en d datasets =
     steps (map (read_test en d)
         (concat (map (\<lambda>ds. concat (map (\<lambda>q. [(ds, q, True), (ds, q, False)])
           [(''count'', ''SELECT count(*) FROM '' @ read_parquet (ds_path ds)), (''agg5'', agg5 (read_parquet (ds_path ds)))])) datasets))
       @ map (\<lambda>n. skipped en ''parquet/read_throughput.jsonl'' ''TEST1'' [(''rows'', PInt n)] ''dataset does not fit on an 8 GiB root volume'')
           [100000000, 500000000])"

definition fragment_size :: "int \<Rightarrow> int \<Rightarrow> int" where
  \<comment> \<open>\<open>per\<close>\<close>
  "fragment_size rows n = max 1 (rows div n)"

datatype sql_expr = RowNumber | IntDiv sql_expr int

fun shown_expr :: "sql_expr \<Rightarrow> string" where
  "shown_expr RowNumber = ''(row_number() OVER ())''"
| "shown_expr (IntDiv e k) = shown_expr e @ '' // '' @ show_int k"

fun expr_value :: "sql_expr \<Rightarrow> int \<Rightarrow> int" where
  \<comment> \<open>in a row of the table, counted from 0: \<open>row_number()\<close> counts from 1, and \<open>//\<close> drops the remainder\<close>
  "expr_value RowNumber i = i + 1"
| "expr_value (IntDiv e k) i = expr_value e i div k"

definition part_of :: "int \<Rightarrow> int \<Rightarrow> sql_expr" where
  \<comment> \<open>\<open>part\<close>: in which partition a row of the table is written\<close>
  "part_of rows n = IntDiv RowNumber (fragment_size rows n)"

definition layout_sql :: "string \<Rightarrow> sql_expr \<Rightarrow> string" where
  "layout_sql dir e =
     ''COPY (SELECT *, '' @ shown_expr e @ '' AS part FROM frag_src) TO '' @ quoted dir @ '' (FORMAT PARQUET, PARTITION_BY part)''"

definition fragment_layout :: "'w engine \<Rightarrow> duck \<Rightarrow> built \<Rightarrow> string \<Rightarrow> int \<Rightarrow> ('w, unit) act" where
  "fragment_layout en d ds work n =
     (let dir = join_path work (''frag_'' @ show_int n)
      in athen (files en (RemoveTree dir)) (athen (files en (MakeDirs dir))
         (abind (elapsed en (sql en d (layout_sql dir (part_of (ds_rows ds) n)))) (\<lambda>written.
         abind (from_world (en_count en dir)) (\<lambda>actual.
         abind (measured en (timed_sql en d (agg5 (read_parquet (dir @ ''/**/*.parquet'')))) 1 5) (\<lambda>(median, st).
         abind (whole_rate (ds_rows ds) median) (\<lambda>rate.
         athen (write_row en ''parquet/fragmentation.jsonl''
           ([(''test_name'', PStr ''TEST2''), (''layout'', PStr (show_int n @ ''_files'')), (''actual_files'', PInt actual),
             (''dataset_hash'', PStr (ds_hash ds)), (''rows'', PInt (ds_rows ds)), (''write_seconds'', rounded 2 written),
             (''rows_per_second'', rate), (''threads'', PInt (dk_threads d)), (''status'', OK)] @ st))
         (files en (RemoveTree dir)))))))))"

definition test2_rows :: "'w engine \<Rightarrow> duck \<Rightarrow> built \<Rightarrow> string \<Rightarrow> ('w, unit) act" where
  "test2_rows en d ds work =
     athen (sql en d (load_table ''frag_src'' (ds_path ds)))
     (athen (steps (map (fragment_layout en d ds work) [1, 10, 100, 1000]))
     (athen (skipped en ''parquet/fragmentation.jsonl'' ''TEST2'' [(''layout'', PStr ''10000_files'')]
        ''time budget on 2 vCPU; 1000 files already characterises the trend'')
     (sqls en d [''DROP TABLE frag_src''])))"

definition row_group :: "'w engine \<Rightarrow> duck \<Rightarrow> built \<Rightarrow> string \<Rightarrow> int \<Rightarrow> ('w, unit) act" where
  "row_group en d ds work rg =
     (let p = join_path work (''rg_'' @ show_int rg @ ''.parquet'')
      in abind (elapsed en (sql en d (''COPY rg_src TO '' @ quoted p @ '' (FORMAT PARQUET, ROW_GROUP_SIZE '' @ show_int rg @ '')''))) (\<lambda>written.
         abind (measured en (timed_sql en d (agg5 (read_parquet p))) 1 5) (\<lambda>(median, st).
         abind (from_world (en_size en p)) (\<lambda>n.
         athen (write_row en ''parquet/row_groups.jsonl''
           ([(''test_name'', PStr ''TEST3''), (''row_group_size'', PInt rg), (''rows'', PInt (ds_rows ds)), (''dataset_hash'', PStr (ds_hash ds)),
             (''write_seconds'', rounded 2 written), (''output_bytes'', PInt n), (''read_median_s'', num median), (''status'', OK)] @ st))
         (files en (RemoveFile p))))))"

definition test3_rows :: "'w engine \<Rightarrow> duck \<Rightarrow> built \<Rightarrow> string \<Rightarrow> ('w, unit) act" where
  "test3_rows en d ds work =
     athen (sql en d (load_table ''rg_src'' (ds_path ds)))
     (athen (steps (map (row_group en d ds work) [32000, 128000, 512000, 1000000])) (sqls en d [''DROP TABLE rg_src'']))"

definition codec_row :: "'w engine \<Rightarrow> duck \<Rightarrow> built \<Rightarrow> string \<Rightarrow> string \<Rightarrow> ('w, unit) act" where
  "codec_row en d ds work codec =
     (let p = join_path work (''cx_'' @ codec @ ''.parquet'')
      in abind (elapsed en (sql en d (''COPY cx_src TO '' @ quoted p @ '' (FORMAT PARQUET, COMPRESSION '' @ codec @ '')''))) (\<lambda>written.
         abind (from_world (en_size en p)) (\<lambda>n.
         abind (measured en (timed_sql en d (agg5 (read_parquet p))) 1 5) (\<lambda>(median, st).
         athen (write_row en ''parquet/compression.jsonl''
           ([(''test_name'', PStr ''TEST4''), (''compression'', PStr codec), (''zstd_level'', if codec = ''ZSTD'' then PInt 3 else PNone),
             (''rows'', PInt (ds_rows ds)), (''dataset_hash'', PStr (ds_hash ds)), (''write_seconds'', rounded 2 written),
             (''output_bytes'', PInt n), (''ratio_vs_uncompressed'', PNone), (''pipeline_uses'', PStr ''snappy (collector default)''),
             (''status'', OK)] @ st))
         (files en (RemoveFile p))))))"

definition test4_rows :: "'w engine \<Rightarrow> duck \<Rightarrow> built \<Rightarrow> string \<Rightarrow> ('w, unit) act" where
  "test4_rows en d ds work =
     athen (sql en d (load_table ''cx_src'' (ds_path ds)))
     (athen (steps (map (codec_row en d ds work) [''SNAPPY'', ''ZSTD'', ''UNCOMPRESSED''])) (sqls en d [''DROP TABLE cx_src'']))"

definition thread_row :: "'w engine \<Rightarrow> built \<Rightarrow> string \<Rightarrow> rat option \<Rightarrow> int \<Rightarrow> ('w, rat) act" where
  \<comment> \<open>\<open>base\<close> before, the number of threads, and \<open>base\<close> after\<close>
  "thread_row en ds temp base threads =
     abind (open_duck en threads ''4GB'' temp) (\<lambda>d.
     abind (measured en (timed_sql en d (agg5 (read_parquet (ds_path ds)))) 1 5) (\<lambda>(median, st).
     athen (close_duck en d)
     (let base1 = (case base of None \<Rightarrow> median | Some b \<Rightarrow> b)
      in abind (if base1 \<noteq> 0 then ratio base1 median else aret 1) (\<lambda>speedup.
         abind (whole_rate (ds_rows ds) median) (\<lambda>rate.
         athen (write_row en ''parquet/thread_scaling.jsonl''
           ([(''test_name'', PStr ''TEST5''), (''threads'', PInt threads), (''rows'', PInt (ds_rows ds)), (''dataset_hash'', PStr (ds_hash ds)),
             (''rows_per_second'', rate), (''speedup_vs_1'', rounded 3 speedup), (''efficiency'', rounded 3 (speedup / of_int threads)),
             (''status'', OK)] @ st))
         (aret base1))))))"

definition test5_rows :: "'w engine \<Rightarrow> built \<Rightarrow> string \<Rightarrow> ('w, unit) act" where
  "test5_rows en ds temp =
     abind (thread_row en ds temp None 1) (\<lambda>base. athen (thread_row en ds temp (Some base) 2)
     (steps (map (\<lambda>n. skipped en ''parquet/thread_scaling.jsonl'' ''TEST5'' [(''threads'', PInt n)] ''host has 2 logical cores'') [4, 8, 16])))"

section \<open>TEST 6 and 7: ingestion\<close>

definition bulk_source :: "'w engine \<Rightarrow> duck \<Rightarrow> built \<Rightarrow> string \<times> string \<times> int \<Rightarrow> ('w, unit) act" where
  \<comment> \<open>the name of the source, how it is read and the rows it is said to have\<close>
  "bulk_source en d ds x =
     (case x of (src, q, rows) \<Rightarrow>
        abind (measured en (athen (sql en d ''DROP TABLE IF EXISTS bulk_t'') (timed_sql en d (''CREATE TABLE bulk_t AS SELECT * FROM '' @ q))) 1 3)
          (\<lambda>(median, st).
        abind (timed_sql en d ''SELECT count(*) FROM bulk_t'') (\<lambda>counted.
        abind (whole_rate rows median) (\<lambda>rate.
        write_row en ''ingestion/bulk.jsonl''
          ([(''test_name'', PStr ''TEST6''), (''source'', PStr src), (''rows'', PInt rows), (''dataset_hash'', PStr (ds_hash ds)),
            (''rows_per_second'', rate), (''verify_count_seconds'', rounded 3 counted), (''status'', OK)] @ st)))))"

definition bulk_sources :: "built \<Rightarrow> string \<Rightarrow> (string \<times> string \<times> int) list" where
  "bulk_sources ds csv =
     [(''parquet'', read_parquet (ds_path ds), ds_rows ds), (''csv'', ''read_csv_auto('' @ quoted csv @ '')'', 1000000)]"

definition test6_rows :: "'w engine \<Rightarrow> duck \<Rightarrow> built \<Rightarrow> string \<Rightarrow> ('w, unit) act" where
  "test6_rows en d ds work =
     (let csv = join_path work ''bulk.csv''
      in athen (sql en d (''COPY (SELECT * FROM '' @ read_parquet (ds_path ds) @ '' LIMIT 1000000) TO '' @ quoted csv @ '' (FORMAT CSV, HEADER)''))
         (athen (steps (map (bulk_source en d ds) (bulk_sources ds csv)))
         (athen (sql en d ''DROP TABLE IF EXISTS bulk_t'') (files en (RemoveFile csv)))))"

definition strategy_row :: "'w engine \<Rightarrow> string \<Rightarrow> int \<Rightarrow> (string \<times> pyval) list \<Rightarrow> rat \<Rightarrow> ('w, unit) act" where
  "strategy_row en name rows note secs =
     abind (whole_rate rows secs) (\<lambda>rate.
     write_row en ''ingestion/strategies.jsonl''
       ([(''test_name'', PStr ''TEST7''), (''strategy'', PStr name), (''rows'', PInt rows)] @ note
        @ [(''rows_per_second'', rate), (''duration_seconds'', rounded 2 secs), (''status'', OK)]))"

definition fresh_table :: "'w engine \<Rightarrow> duck \<Rightarrow> ('w, unit) act" where
  "fresh_table en d = sqls en d [''DROP TABLE IF EXISTS t7'', ''CREATE TABLE t7 AS SELECT * FROM src7 LIMIT 0'']"

definition single_inserts :: "'w engine \<Rightarrow> duck \<Rightarrow> ('w, unit) act" where
  \<comment> \<open>one statement for each row that was fetched\<close>
  "single_inserts en d =
     athen (fresh_table en d) (abind (sql en d ''SELECT * FROM src7 LIMIT 10000'') (\<lambda>rows.
     abind (elapsed en (steps (map (\<lambda>_. sql en d ''INSERT INTO t7 VALUES (?,?,?,?,?,?,?,?)'') rows))) (\<lambda>secs.
     strategy_row en ''single_row_insert'' 10000 [(''note'', PStr ''bounded worst-case sample, not extrapolated'')] secs)))"

definition batch_insert :: "int \<times> int \<Rightarrow> string" where
  "batch_insert b = ''INSERT INTO t7 SELECT * FROM src7 LIMIT '' @ show_int (snd b) @ '' OFFSET '' @ show_int (fst b)"

definition batched_inserts :: "'w engine \<Rightarrow> duck \<Rightarrow> string \<times> int \<Rightarrow> ('w, unit) act" where
  "batched_inserts en d x =
     (case x of (name, per_batch) \<Rightarrow>
        athen (fresh_table en d) (abind (elapsed en (sqls en d (map batch_insert (batch_offsets per_batch 0)))) (\<lambda>secs.
        strategy_row en name (per_batch * int (length (batch_offsets per_batch 0))) [] secs)))"

definition one_statement :: "'w engine \<Rightarrow> duck \<Rightarrow> string \<times> string \<Rightarrow> ('w, unit) act" where
  "one_statement en d x =
     (case x of (name, stmt) \<Rightarrow>
        athen (fresh_table en d) (abind (timed_sql en d stmt) (\<lambda>secs. strategy_row en name 1000000 [] secs)))"

definition test7_rows :: "'w engine \<Rightarrow> duck \<Rightarrow> built \<Rightarrow> ('w, unit) act" where
  "test7_rows en d ds =
     athen (sql en d (load_table ''src7'' (ds_path ds) @ '' LIMIT 1000000''))
     (athen (steps ([single_inserts en d] @ map (batched_inserts en d) [(''batch_insert_1k'', 1000), (''batch_insert_10k'', 10000)]
        @ map (one_statement en d) [(''insert_select'', ''INSERT INTO t7 SELECT * FROM src7''),
            (''ctas'', ''CREATE OR REPLACE TABLE t7b AS SELECT * FROM src7'')]))
     (sqls en d [''DROP TABLE IF EXISTS t7'', ''DROP TABLE IF EXISTS t7b'', ''DROP TABLE IF EXISTS src7'']))"

section \<open>TEST 8 and 9: queries\<close>

definition query_row :: "'w engine \<Rightarrow> duck \<Rightarrow> built \<Rightarrow> string \<times> string \<Rightarrow> ('w, string \<times> rat) act" where
  "query_row en d ds x =
     (case x of (name, q) \<Rightarrow>
        abind (measured en (timed_sql en d q) 1 5) (\<lambda>(median, st).
        abind (whole_rate (ds_rows ds) median) (\<lambda>rate.
        athen (write_row en ''queries/queries.jsonl''
          ([(''test_name'', PStr ''TEST8''), (''query'', PStr name), (''rows'', PInt (ds_rows ds)), (''dataset_hash'', PStr (ds_hash ds)),
            (''rows_per_second'', rate), (''threads'', PInt (dk_threads d)), (''status'', OK)] @ st))
        (aret (name, median)))))"

definition profile_query :: "'w engine \<Rightarrow> duck \<Rightarrow> string \<Rightarrow> string \<times> string \<Rightarrow> ('w, unit) act" where
  "profile_query en d dir x =
     (case x of (name, q) \<Rightarrow>
        sqls en d [''PRAGMA enable_profiling = '' @ quoted ''json'',
          ''PRAGMA profiling_output = '' @ quoted (join_path dir (name @ ''.json'')), q, ''PRAGMA disable_profiling''])"

definition test8_9_rows :: "'w engine \<Rightarrow> duck \<Rightarrow> built \<Rightarrow> string \<Rightarrow> ('w, unit) act" where
  "test8_9_rows en d ds dir =
     athen (sql en d (load_table ''q_t'' (ds_path ds))) (athen (files en (MakeDirs dir))
     (abind (each (query_row en d ds) (queries ''q_t'')) (\<lambda>medians.
     athen (steps (map (profile_query en d dir) (queries ''q_t'')))
     (athen (write_row en ''queries/queries.jsonl''
        [(''test_name'', PStr ''TEST9''), (''status'', OK), (''profiles'', PStr dir),
         (''slowest_query'', case fst (slowest medians (None, 0)) of None \<Rightarrow> PNone | Some name \<Rightarrow> PStr name),
         (''note'', PStr ''per-operator timings in profiles/*.json'')])
     (sqls en d [''DROP TABLE q_t''])))))"

section \<open>TEST 10 to 12: compaction\<close>

definition lake_insert :: "string \<Rightarrow> int \<Rightarrow> int \<times> int \<Rightarrow> string" where
  \<comment> \<open>the rows of one file\<close>
  "lake_insert name per_file r =
     ''INSERT INTO '' @ name @ ''.main.ev ''
     @ replaced (''range('' @ show_int per_file @ '')'') (''range('' @ show_int (fst r) @ '', '' @ show_int (snd r) @ '')'') (dataset_sql per_file)"

definition make_lake :: "'w engine \<Rightarrow> duck \<Rightarrow> string \<Rightarrow> string \<Rightarrow> nat \<Rightarrow> int \<Rightarrow> ('w, unit) act" where
  "make_lake en d work name n per_file =
     (let cat = join_path work (name @ ''.ducklake''); data = join_path work (name @ ''_data'')
      in athen (steps (map (\<lambda>p. files en (ClearPath p)) [cat, cat @ ''.wal'', data]))
         (athen (files en (MakeDirs data))
         (sqls en d
           ([''INSTALL ducklake; LOAD ducklake'',
             ''ATTACH '' @ quoted (''ducklake:'' @ cat) @ '' AS '' @ name @ '' (DATA_PATH '' @ quoted data @ '', DATA_INLINING_ROW_LIMIT 0)'',
             ''CREATE TABLE '' @ name @ ''.main.ev AS '' @ dataset_sql per_file @ '' LIMIT 0'']
            @ map (lake_insert name per_file) (lake_ranges n per_file)))))"

definition three_numbers :: "pyval list list \<Rightarrow> ('w, int \<times> int \<times> int) act" where
  \<comment> \<open>\<open>fetchone()\<close> of three sums\<close>
  "three_numbers rows = (case rows of [PInt a, PInt b, PInt c] # _ \<Rightarrow> aret (a, b, c) | _ \<Rightarrow> araise TypeError)"

definition lake_files :: "'w engine \<Rightarrow> duck \<Rightarrow> string \<Rightarrow> ('w, int \<times> int \<times> int) act" where
  \<comment> \<open>live files, their bytes and rows\<close>
  "lake_files en d name =
     abind (sql en d (''SELECT count(*), COALESCE(sum(file_size_bytes),0), COALESCE(sum(record_count),0) FROM \"__ducklake_metadata_'' @ name @
       ''\".ducklake_data_file WHERE end_snapshot IS NULL'')) three_numbers"

record merge =
  mr_before :: "int \<times> int \<times> int"
  mr_seconds :: rat
  mr_after :: "int \<times> int \<times> int"

definition merge_lake :: "'w engine \<Rightarrow> string \<Rightarrow> string \<Rightarrow> string \<Rightarrow> nat \<Rightarrow> int \<Rightarrow> int \<Rightarrow> (merge \<Rightarrow> ('w, unit) act) \<Rightarrow> ('w, unit) act" where
  \<comment> \<open>a lake of its own is made, merged, reported and detached\<close>
  "merge_lake en temp work name n per_file max_size report =
     abind (open_duck en 2 ''4GB'' temp) (\<lambda>d. athen (make_lake en d work name n per_file)
     (abind (lake_files en d name) (\<lambda>before.
     abind (elapsed en (sql en d (''CALL ducklake_merge_adjacent_files('' @ quoted name @ '', max_file_size => '' @ show_int max_size @ '')''))) (\<lambda>secs.
     abind (lake_files en d name) (\<lambda>after.
     athen (report \<lparr>mr_before = before, mr_seconds = secs, mr_after = after\<rparr>)
     (athen (sql en d (''DETACH '' @ name)) (close_duck en d)))))))"

definition isolated_row :: "'w engine \<Rightarrow> merge \<Rightarrow> ('w, unit) act" where
  "isolated_row en g =
     (case (mr_before g, mr_after g) of ((n, nbytes, rows), (n1, _, _)) \<Rightarrow>
        abind (whole_rate rows (mr_seconds g)) (\<lambda>rate. abind (ratio (of_int nbytes / 2 ^ 30) (mr_seconds g)) (\<lambda>gb.
        write_row en ''compaction/isolated.jsonl''
          [(''test_name'', PStr ''TEST10''), (''files_before'', PInt n), (''files_after'', PInt n1), (''input_bytes'', PInt nbytes),
           (''input_rows'', PInt rows), (''merge_seconds'', rounded 3 (mr_seconds g)), (''compaction_rows_per_sec'', rate),
           (''compaction_gb_per_sec'', rounded 4 gb), (''status'', OK)])))"

definition minor_row :: "'w engine \<Rightarrow> int \<Rightarrow> merge \<Rightarrow> ('w, unit) act" where
  "minor_row en nfiles g =
     (case (mr_before g, mr_after g) of ((n, nbytes, rows), (n1, _, _)) \<Rightarrow>
        abind (whole_rate rows (mr_seconds g)) (\<lambda>rate.
        write_row en ''compaction/minor.jsonl''
          [(''test_name'', PStr ''TEST11''), (''file_count'', PInt nfiles), (''files_before'', PInt n), (''files_after'', PInt n1),
           (''input_rows'', PInt rows), (''input_bytes'', PInt nbytes), (''merge_seconds'', rounded 3 (mr_seconds g)), (''rows_per_second'', rate),
           (''status'', OK)]))"

definition major_row :: "'w engine \<Rightarrow> int \<Rightarrow> merge \<Rightarrow> ('w, unit) act" where
  "major_row en free g =
     (case (mr_before g, mr_after g) of ((n, nbytes, rows), (n1, _, _)) \<Rightarrow>
        abind (ratio (of_int nbytes / 2 ^ 30) (mr_seconds g)) (\<lambda>gb.
        write_row en ''compaction/major.jsonl''
          [(''test_name'', PStr ''TEST12''), (''tier'', PStr ''1GB''), (''files_before'', PInt n), (''files_after'', PInt n1),
           (''input_bytes'', PInt nbytes), (''input_rows'', PInt rows), (''merge_seconds'', rounded 2 (mr_seconds g)),
           (''gb_per_second'', rounded 4 gb), (''free_space_before'', PInt free), (''status'', OK)]))"

definition minor_merge :: "'w engine \<Rightarrow> string \<Rightarrow> string \<Rightarrow> nat \<Rightarrow> ('w, unit) act" where
  "minor_merge en temp work n = merge_lake en temp work (''lk11_'' @ show_nat n) n 5000 8388608 (minor_row en (int n))"

definition major_merge :: "'w engine \<Rightarrow> string \<Rightarrow> string \<Rightarrow> int \<Rightarrow> ('w, unit) act" where
  "major_merge en temp work free =
     (if 3 * 2 ^ 30 < free then merge_lake en temp work ''lk12'' 20 400000 268435456 (major_row en free) else aret ())"

definition test10_12_rows :: "'w engine \<Rightarrow> string \<Rightarrow> string \<Rightarrow> ('w, unit) act" where
  "test10_12_rows en temp work =
     athen (merge_lake en temp work ''lk10'' 50 20000 67108864 (isolated_row en))
     (athen (steps (map (minor_merge en temp work) [100, 1000]
        @ map (\<lambda>n. skipped en ''compaction/minor.jsonl'' ''TEST11'' [(''file_count'', PInt n)]
            ''time and inode budget on this host; trend covered to 1000'') [10000, 100000]))
     (abind (from_world (en_free en)) (\<lambda>free. athen (major_merge en temp work free)
     (steps (map (\<lambda>tier. skipped en ''compaction/major.jsonl'' ''TEST12'' [(''tier'', PStr tier)]
        (''free disk is '' @ plain_fixed 1 (of_int free / 2 ^ 30) @ '' GiB; a major merge needs headroom for new files before old ones are cleaned''))
        [''100GB'', ''500GB'', ''1TB''])))))"

section \<open>TEST 13 to 15: memory and concurrency\<close>

definition first_value :: "pyval list list \<Rightarrow> pyval" where
  \<comment> \<open>\<open>spill[0] if spill else None\<close>\<close>
  "first_value rows = (case rows of (v # _) # _ \<Rightarrow> v | _ \<Rightarrow> PNone)"

definition error_text :: "'w engine \<Rightarrow> failure \<Rightarrow> string" where
  "error_text en e = take 200 (case e of Engine msg \<Rightarrow> msg | Python x \<Rightarrow> en_message en x)"

definition memory_row :: "'w engine \<Rightarrow> built \<Rightarrow> string \<Rightarrow> string \<Rightarrow> ('w, unit) act" where
  "memory_row en ds temp limit =
     abind (open_duck en 2 limit temp) (\<lambda>d.
     abind (attempt
       (abind (measured en (timed_sql en d (query_named ''q5_multi_dim'' (read_parquet (ds_path ds)))) 1 3) (\<lambda>(median, st).
        abind (sql en d spill_query) (\<lambda>spill.
        write_row en ''memory/scaling.jsonl''
          ([(''test_name'', PStr ''TEST13''), (''memory_limit'', PStr limit), (''rows'', PInt (ds_rows ds)),
            (''spill_bytes'', first_value spill), (''outcome'', OK)] @ st))))) (\<lambda>r.
     athen (case r of Inr _ \<Rightarrow> aret ()
            | Inl e \<Rightarrow> write_row en ''memory/scaling.jsonl''
                [(''test_name'', PStr ''TEST13''), (''memory_limit'', PStr limit), (''outcome'', PStr ''error''), (''error'', PStr (error_text en e)),
                 (''status'', PStr ''FAILED'')])
     (close_duck en d)))"

definition out_of_core :: "built \<Rightarrow> string" where
  "out_of_core ds =
     ''SELECT tenant, service, body, count(*) FROM '' @ read_parquet (ds_path ds) @ '' GROUP BY 1,2,3 ORDER BY 4 DESC''"

definition spill_failed :: "'w engine \<Rightarrow> string \<Rightarrow> failure \<Rightarrow> ('w, unit) act" where
  "spill_failed en limit e =
     write_row en ''memory/spill.jsonl''
       [(''test_name'', PStr ''TEST14''), (''memory_limit'', PStr limit), (''completed'', PBool False), (''error'', PStr (error_text en e)),
        (''status'', PStr ''FAILED''), (''note'', PStr ''an OOM is a result, per the spec'')]"

definition spill_done :: "'w engine \<Rightarrow> duck \<Rightarrow> string \<Rightarrow> rat \<Rightarrow> rat option \<Rightarrow> ('w, unit) act" where
  "spill_done en d limit secs baseline =
     abind (sql en d spill_query) (\<lambda>spill.
     write_row en ''memory/spill.jsonl''
       [(''test_name'', PStr ''TEST14''), (''memory_limit'', PStr limit), (''completed'', PBool True), (''duration_seconds'', rounded 2 secs),
        (''spill_bytes'', first_value spill), (''slowdown_vs_4GB'', case slowdown secs baseline of None \<Rightarrow> PNone | Some x \<Rightarrow> num x),
        (''status'', OK)])"

fun spill_tests :: "'w engine \<Rightarrow> built \<Rightarrow> string \<Rightarrow> rat option \<Rightarrow> string list \<Rightarrow> ('w, unit) act" where
  "spill_tests en ds temp baseline [] = aret ()"
| "spill_tests en ds temp baseline (limit # limits) =
     abind (open_duck en 2 limit temp) (\<lambda>d.
     abind (attempt (timed_sql en d (out_of_core ds))) (\<lambda>r.
     case r of
       Inl e \<Rightarrow> athen (spill_failed en limit e) (athen (close_duck en d) (spill_tests en ds temp baseline limits))
     | Inr secs \<Rightarrow>
         let base = baseline_after limit (Some secs) baseline
         in abind (attempt (spill_done en d limit secs base)) (\<lambda>written.
            athen (case written of Inr _ \<Rightarrow> aret () | Inl e \<Rightarrow> spill_failed en limit e)
            (athen (close_duck en d) (spill_tests en ds temp base limits)))))"

definition test13_14_rows :: "'w engine \<Rightarrow> built \<Rightarrow> string \<Rightarrow> ('w, unit) act" where
  "test13_14_rows en ds temp =
     athen (steps (map (memory_row en ds temp) [''1GB'', ''2GB'', ''4GB''])) (spill_tests en ds temp None spill_limits)"

definition jobs :: "'w engine \<Rightarrow> nat \<Rightarrow> string \<Rightarrow> ('w, rat list) act" where
  "jobs en n q s =
     (case en_jobs en n q (bn_world s) of
        (Inl msg, w) \<Rightarrow> (Inl (Engine msg), s\<lparr>bn_world := w\<rparr>) | (Inr xs, w) \<Rightarrow> (Inr xs, s\<lparr>bn_world := w\<rparr>))"

definition jobs_row :: "'w engine \<Rightarrow> built \<Rightarrow> nat \<Rightarrow> ('w, unit) act" where
  "jobs_row en ds n =
     abind (from_world (en_clock en)) (\<lambda>t0. abind (jobs en n (agg5 (read_parquet (ds_path ds)))) (\<lambda>per_job.
     abind (from_world (en_clock en)) (\<lambda>t1. abind (whole_rate (int n * ds_rows ds) (t1 - t0)) (\<lambda>rate.
     write_row en ''concurrency/jobs.jsonl''
       [(''test_name'', PStr ''TEST15''), (''concurrent_jobs'', PInt (int n)), (''wall_seconds'', rounded 2 (t1 - t0)),
        (''per_job_seconds'', PList (map (rounded 2) per_job)), (''total_rows_per_second'', rate), (''status'', OK)]))))"

definition test15_rows :: "'w engine \<Rightarrow> built \<Rightarrow> ('w, unit) act" where
  "test15_rows en ds =
     athen (steps (map (jobs_row en ds) [1, 2, 4]))
       (skipped en ''concurrency/jobs.jsonl'' ''TEST15'' [(''concurrent_jobs'', PInt 8)] ''8 jobs on 2 cores measures the scheduler, not the engine'')"

section \<open>The whole run\<close>

definition all_tests :: "'w engine \<Rightarrow> duck \<Rightarrow> built list \<Rightarrow> string \<Rightarrow> string \<Rightarrow> string \<Rightarrow> ('w, unit) act" where
  "all_tests en d datasets out work temp =
     (if datasets = [] then araise IndexError
      else let big = last datasets; small = hd datasets
           in steps [test1_rows en d datasets, test2_rows en d small work, test3_rows en d small work, test4_rows en d small work,
                test5_rows en big temp, test6_rows en d big work, test7_rows en d small, test8_9_rows en d big (join_path out ''profiles''),
                close_duck en d, test10_12_rows en temp work, test13_14_rows en big temp, test15_rows en big])"

definition benchmark :: "'w engine \<Rightarrow> string \<Rightarrow> string \<Rightarrow> int list \<Rightarrow> ('w, built list) act" where
  \<comment> \<open>\<open>main\<close> from the directories on: the sizes are those that were kept, and what is left on the disk goes whatever happened\<close>
  "benchmark en out work sizes =
     (let temp = join_path work ''duckdb-tmp''
      in athen (steps (map (\<lambda>p. files en (MakeDirs p)) [out, work, temp]))
         (abind (open_duck en 2 ''4GB'' temp) (\<lambda>d.
          abind (attempt (abind (each (\<lambda>n. build_dataset en d n (join_path work (''ds_'' @ show_int n @ ''.parquet''))) sizes) (\<lambda>datasets.
            athen (all_tests en d datasets out work temp) (aret datasets)))) (\<lambda>r.
          athen (athen (close_duck en d) (files en (RemoveTree work)))
          (case r of Inl (Python e) \<Rightarrow> araise e | Inl (Engine msg) \<Rightarrow> (\<lambda>s. (Inl (Engine msg), s)) | Inr datasets \<Rightarrow> aret datasets)))))"

section \<open>The report\<close>

definition result_files :: "string list" where
  "result_files =
     [''parquet/read_throughput.jsonl'', ''parquet/fragmentation.jsonl'', ''parquet/row_groups.jsonl'', ''parquet/compression.jsonl'',
      ''parquet/thread_scaling.jsonl'', ''ingestion/bulk.jsonl'', ''ingestion/strategies.jsonl'', ''queries/queries.jsonl'',
      ''compaction/isolated.jsonl'', ''compaction/minor.jsonl'', ''compaction/major.jsonl'', ''memory/scaling.jsonl'', ''memory/spill.jsonl'',
      ''concurrency/jobs.jsonl'']"

definition dataset_line :: "(string \<Rightarrow> string) \<Rightarrow> built \<Rightarrow> string" where
  \<comment> \<open>the name of the file is an argument\<close>
  "dataset_line base ds =
     ''- dataset `'' @ base (ds_path ds) @ ''`: '' @ commas_int (ds_rows ds) @ '' rows, '' @ plain_fixed 0 (of_int (ds_bytes ds) / 2 ^ 20) @
     '' MiB, sha256 `'' @ ds_hash ds @ ''`''"

definition result_section :: "(pydict \<Rightarrow> string) \<Rightarrow> (string \<Rightarrow> pydict list option) \<Rightarrow> string \<Rightarrow> string list" where
  \<comment> \<open>the rows that are in the file now; JSON is an argument\<close>
  "result_section dumps on_disk rel =
     (case on_disk rel of None \<Rightarrow> []
      | Some rows \<Rightarrow> [''## '' @ rel, [], ''```''] @ map (\<lambda>r. dumps (report_row r)) rows @ [''```'', []])"

record host_env =
  he_name :: string
  he_cpus :: string
  he_ram :: rat
  he_free :: rat
  he_duckdb :: string

definition track_a_lines ::
  "(pydict \<Rightarrow> string) \<Rightarrow> (string \<Rightarrow> string) \<Rightarrow> (string \<Rightarrow> pydict list option) \<Rightarrow> host_env \<Rightarrow> built list \<Rightarrow> rat \<Rightarrow> string \<Rightarrow> string list" where
  "track_a_lines dumps base on_disk env datasets wall now =
     [(''# Track A '' @ em_dash @ '' DuckDB engine benchmark''), [],
      ''DuckDB **'' @ he_duckdb env @ ''**, standalone, no DazzleDuck code in the path. These numbers are the CEILING for this hardware; none of '' @
      ''them is pipeline capacity. Track B (results/*/report.md) is the product measurement.'', [],
      ''Host: '' @ he_name env @ '' '' @ em_dash @ '' '' @ he_cpus env @ '' vCPU, '' @ plain_fixed 1 (he_ram env) @ '' GiB RAM, '' @
      plain_fixed 1 (he_free env) @ '' GiB free. Wall time '' @ plain_fixed 0 wall @ ''s. Generated '' @ now @ ''.'', [],
      ''Protocol: 1 warm-up discarded + measured repeats; medians quoted, full distributions in the JSONL. `NOT TESTED` rows are '' @
      ''deliberate and carry the reason '' @ em_dash @ '' nothing is estimated.'', []]
     @ map (dataset_line base) datasets @ [[]] @ concat (map (result_section dumps on_disk) result_files)"

end
