(* ===== verification/TrackRunFacts.thy ===== *)
theory TrackRunFacts
  imports TrackRuns
begin

text \<open>
  What holds of the rows of the engine benchmark for every engine, clock and disk: a run only appends, each
  row says which test it is from and what became of it, and the layouts of \<open>TEST 2\<close> have a partition more than their name says.
\<close>

section \<open>Acts that only append good rows\<close>

named_theorems writes_intro

definition writes :: "(string \<times> pydict \<Rightarrow> bool) \<Rightarrow> ('w, 'a) act \<Rightarrow> bool" where
  "writes P m \<longleftrightarrow> (\<forall>s. \<exists>rows. bn_rows (snd (m s)) = bn_rows s @ rows \<and> list_all P rows)"

lemma writes_ret [writes_intro]: "writes P (aret x)"
  by (simp add: writes_def aret_def)

lemma writes_raise [writes_intro]: "writes P (araise e)"
  by (simp add: writes_def araise_def)

lemma writes_bind [writes_intro]:
  assumes "writes P m" and "\<And>x. writes P (f x)"
  shows "writes P (abind m f)"
  unfolding writes_def
proof
  fix s
  obtain r s1 where m: "m s = (r, s1)" by (cases "m s")
  obtain rows where rows: "bn_rows s1 = bn_rows s @ rows" "list_all P rows" using assms(1) m by (auto simp: writes_def dest: spec [of _ s])
  show "\<exists>rows. bn_rows (snd (abind m f s)) = bn_rows s @ rows \<and> list_all P rows"
  proof (cases r)
    case (Inr x)
    obtain more where "bn_rows (snd (f x s1)) = bn_rows s1 @ more" "list_all P more" using assms(2) by (auto simp: writes_def)
    then show ?thesis using rows m Inr by (intro exI [of _ "rows @ more"]) (simp add: abind_def)
  qed (use rows m in \<open>auto simp: abind_def\<close>)
qed

lemma writes_each [writes_intro]: "(\<And>x. writes P (f x)) \<Longrightarrow> writes P (each f xs)"
  by (induction xs) (auto intro!: writes_intro)

lemma writes_steps: "list_all (writes P) ms \<Longrightarrow> writes P (steps ms)"
  by (induction ms) (auto intro!: writes_intro)

lemma writes_attempt [writes_intro]: "writes P m \<Longrightarrow> writes P (attempt m)"
  by (simp add: writes_def attempt_def case_prod_beta)

lemma writes_world [writes_intro]: "writes P (from_world f)" "writes P (in_world g)"
  by (simp_all add: writes_def from_world_def in_world_def)

lemma writes_engine [writes_intro]: "writes P (sql en d q)" "writes P (connected en)" "writes P (jobs en n q)"
  by (simp_all add: writes_def sql_def connected_def jobs_def split: prod.split sum.split)

lemma writes_prod [writes_intro]: "(\<And>a b. writes P (f a b)) \<Longrightarrow> writes P (case_prod f x)"
  by (cases x) simp

lemma writes_cases [writes_intro]:
  "(b \<Longrightarrow> writes P m) \<Longrightarrow> (\<not> b \<Longrightarrow> writes P n) \<Longrightarrow> writes P (if b then m else n)"
  "(\<And>e. writes P (f e)) \<Longrightarrow> (\<And>y. writes P (g y)) \<Longrightarrow> writes P (case x of Inl e \<Rightarrow> f e | Inr y \<Rightarrow> g y)"
  by (simp_all split: sum.split)

lemma writes_lift [writes_intro]: "writes P (lift_sum r)"
  by (cases r) (simp_all add: lift_sum_def writes_intro)

lemma writes_plumbing [writes_intro]: "writes P (files en c)" "writes P (close_duck en d)" "writes P (ratio x y)"
  by (simp_all add: files_def close_duck_def ratio_def writes_intro)

lemma writes_sqls [writes_intro]: "writes P (sqls en d qs)"
  unfolding sqls_def by (rule writes_steps) (simp add: list_all_iff writes_intro)

lemma writes_open [writes_intro]: "writes P (open_duck en threads memory temp)"
  unfolding open_duck_def Let_def by (intro writes_intro)

lemma writes_elapsed [writes_intro]: "writes P m \<Longrightarrow> writes P (elapsed en m)"
  unfolding elapsed_def by (intro writes_intro)

lemma writes_timed [writes_intro]: "writes P (timed_sql en d q)"
  unfolding timed_sql_def by (intro writes_intro)

lemma writes_rate [writes_intro]: "writes P (whole_rate n secs)"
  unfolding whole_rate_def by (intro writes_intro)

lemma writes_measured:
  assumes "writes P fn" and "\<And>median xs st. writes P (f median (stats_row en xs st))"
  shows "writes P (abind (measured en fn warmup runs) (case_prod f))"
proof -
  have assoc: "abind (measured en fn warmup runs) (case_prod f) =
      athen (each (\<lambda>_. fn) [0 ..< warmup]) (abind (each (\<lambda>_. fn) [0 ..< runs]) (\<lambda>xs.
      abind (lift_sum (stats_of xs)) (\<lambda>st. f (ti_median st) (stats_row en xs st))))"
    by (rule ext) (simp add: measured_def abind_def aret_def lift_sum_def araise_def split: prod.split sum.split)
  show ?thesis unfolding assoc by (intro writes_intro assms)
qed

section \<open>What a row says\<close>

definition test_names :: "string list" where
  "test_names =
     [''TEST1'', ''TEST2'', ''TEST3'', ''TEST4'', ''TEST5'', ''TEST6'', ''TEST7'', ''TEST8'', ''TEST9'', ''TEST10'', ''TEST11'', ''TEST12'', ''TEST13'',
      ''TEST14'', ''TEST15'']"

definition accounted :: "string \<Rightarrow> pyval \<Rightarrow> pydict \<Rightarrow> bool" where
  \<comment> \<open>the test, the status and the row\<close>
  "accounted test status row \<longleftrightarrow>
     status \<in> {OK, PStr ''FAILED''} \<or> (status = not_tested \<and> (\<exists>why. got row ''error'' = PStr why \<and> why \<noteq> []))
     \<or> (status = PNone \<and> test = ''TEST13'' \<and> got row ''outcome'' = OK)"

definition row_ok :: "string \<Rightarrow> string \<times> pydict \<Rightarrow> bool" where
  "row_ok hash x \<longleftrightarrow>
     fst x \<in> set result_files \<and> got (snd x) ''track'' = PStr ''A'' \<and> got (snd x) ''env_hash'' = PStr hash
     \<and> (\<exists>test\<in>set test_names. got (snd x) ''test_name'' = PStr test \<and> accounted test (got (snd x) ''status'') (snd x))
     \<and> (got (snd x) ''test_name'' = PStr ''TEST14'' \<and> got (snd x) ''memory_limit'' \<noteq> PStr ''4GB''
          \<longrightarrow> got (snd x) ''slowdown_vs_4GB'' = PNone)"

lemma writes_row:
  assumes "\<And>now. P (rel, out_row (en_hash en) now (row_of kvs))"
  shows "writes P (write_row en rel kvs)"
  using assms by (simp add: writes_def write_row_def)

lemma out_row_get:
  "got (out_row hash now row) k =
     (case dget row k of Some v \<Rightarrow> v | None \<Rightarrow> if k = ''env_hash'' then PStr hash else if k = ''track'' then PStr ''A''
      else if k = ''recorded_at'' then PStr now else PNone)"
proof -
  have one: "dget (setdefault a v d) k = (case dget d k of Some x \<Rightarrow> Some x | None \<Rightarrow> if k = a then Some v else None)" for a v d
    by (auto simp: setdefault_def map_add_def split: option.split)
  show ?thesis by (simp add: dget_or_def out_row_def one split: option.split)
qed

lemma stats_row_get: "map_of (row_of (stats_row en xs st)) (KStr ''status'') = None"
  by (simp add: stats_row_def row_of_def)

lemma row_of_simps [simp]: "row_of [] = []" "row_of ((k, v) # kvs) = (KStr k, v) # row_of kvs" "row_of (xs @ ys) = row_of xs @ row_of ys"
  by (simp_all add: row_of_def)

lemmas row_simps = row_ok_def accounted_def out_row_get result_files_def test_names_def OK_def not_tested_def

lemma fragment_layout_writes [writes_intro]: "writes (row_ok (en_hash en)) (fragment_layout en d ds work n)"
  unfolding fragment_layout_def Let_def by (intro writes_measured writes_intro writes_row) (simp_all add: row_simps stats_row_def)

lemma row_group_writes [writes_intro]: "writes (row_ok (en_hash en)) (row_group en d ds work rg)"
  unfolding row_group_def Let_def by (intro writes_measured writes_intro writes_row) (simp_all add: row_simps stats_row_def)

lemma codec_row_writes [writes_intro]: "writes (row_ok (en_hash en)) (codec_row en d ds work codec)"
  unfolding codec_row_def Let_def by (intro writes_measured writes_intro writes_row) (simp_all add: row_simps stats_row_def)

lemma thread_row_writes [writes_intro]: "writes (row_ok (en_hash en)) (thread_row en ds temp base threads)"
  unfolding thread_row_def Let_def by (intro writes_measured writes_intro writes_row) (simp_all add: row_simps stats_row_def)

lemma bulk_source_writes [writes_intro]: "writes (row_ok (en_hash en)) (bulk_source en d ds x)"
  unfolding bulk_source_def Let_def by (intro writes_measured writes_intro writes_row) (simp_all add: row_simps stats_row_def)

lemma query_row_writes [writes_intro]: "writes (row_ok (en_hash en)) (query_row en d ds x)"
  unfolding query_row_def Let_def by (intro writes_measured writes_intro writes_row) (simp_all add: row_simps stats_row_def)

lemma read_once_writes [writes_intro]: "writes P (read_once en d q cold)"
proof -
  have "writes P (\<lambda>s. case en_drop en (bn_world s) of (r, w) \<Rightarrow> lift_sum r (s\<lparr>bn_world := w\<rparr>))"
    by (auto simp: writes_def lift_sum_def aret_def araise_def split: prod.split sum.split)
  then show ?thesis unfolding read_once_def by (intro writes_intro)
qed

lemma read_test_writes [writes_intro]: "writes (row_ok (en_hash en)) (read_test en d x)"
  unfolding read_test_def by (intro writes_intro writes_row) (simp_all add: row_simps stats_row_def)

lemma skipped_row_ok:
  assumes "rel \<in> set result_files" and "test \<in> set test_names" and "test \<noteq> ''TEST14''" and "why \<noteq> []"
    and "list_all (\<lambda>kv. fst kv \<notin> {''test_name'', ''status'', ''error'', ''track'', ''env_hash''}) what"
  shows "writes (row_ok (en_hash en)) (skipped en rel test what why)"
proof -
  have "map_of (row_of what) (KStr k) = None" if "k \<in> {''test_name'', ''status'', ''error'', ''track'', ''env_hash''}" for k
    using assms(5) that by (induction what) (auto simp: row_of_def)
  then show ?thesis
    unfolding skipped_def using assms(1-4)
    by (intro writes_row) (simp add: row_ok_def accounted_def out_row_get not_tested_def map_add_def)
qed

lemma minor_row_writes [writes_intro]: "writes (row_ok (en_hash en)) (minor_row en n g)"
  unfolding minor_row_def Let_def by (intro writes_measured writes_intro writes_row) (simp_all add: row_simps stats_row_def)

lemma isolated_row_writes [writes_intro]: "writes (row_ok (en_hash en)) (isolated_row en g)"
  unfolding isolated_row_def Let_def by (intro writes_measured writes_intro writes_row) (simp_all add: row_simps stats_row_def)

lemma major_row_writes [writes_intro]: "writes (row_ok (en_hash en)) (major_row en free g)"
  unfolding major_row_def Let_def by (intro writes_measured writes_intro writes_row) (simp_all add: row_simps stats_row_def)

lemma spill_failed_writes [writes_intro]: "writes (row_ok (en_hash en)) (spill_failed en limit e)"
  unfolding spill_failed_def Let_def by (intro writes_measured writes_intro writes_row) (simp_all add: row_simps stats_row_def)

lemma memory_row_writes [writes_intro]: "writes (row_ok (en_hash en)) (memory_row en ds temp limit)"
  unfolding memory_row_def Let_def by (intro writes_measured writes_intro writes_row) (simp_all add: row_simps stats_row_def)

lemma jobs_row_writes [writes_intro]: "writes (row_ok (en_hash en)) (jobs_row en ds n)"
  unfolding jobs_row_def Let_def by (intro writes_measured writes_intro writes_row) (simp_all add: row_simps stats_row_def)

lemma strategy_row_writes:
  "note = [] \<or> note = [(''note'', v)] \<Longrightarrow> writes (row_ok (en_hash en)) (strategy_row en name rows note secs)"
  unfolding strategy_row_def by (intro writes_intro writes_row) (auto simp: row_simps)

lemma spill_done_writes:
  assumes "baseline = None \<or> limit = ''4GB''"
  shows "writes (row_ok (en_hash en)) (spill_done en d limit secs baseline)"
  using assms unfolding spill_done_def by (intro writes_intro writes_row) (auto simp: row_simps slowdown_def)

section \<open>The tests and the whole run\<close>

lemma build_writes [writes_intro]: "writes P (build_dataset en d rows path)"
  unfolding build_dataset_def by (intro writes_intro)

lemma test1_writes: "writes (row_ok (en_hash en)) (test1_rows en d datasets)"
  unfolding test1_rows_def
  by (rule writes_steps) (auto simp: list_all_iff result_files_def test_names_def intro!: read_test_writes skipped_row_ok)

lemma test2_writes: "writes (row_ok (en_hash en)) (test2_rows en d ds work)"
  unfolding test2_rows_def
  by (intro writes_intro writes_steps skipped_row_ok) (auto simp: list_all_iff result_files_def test_names_def intro: fragment_layout_writes)

lemma test3_writes: "writes (row_ok (en_hash en)) (test3_rows en d ds work)"
  unfolding test3_rows_def by (intro writes_intro writes_steps) (auto simp: list_all_iff intro: row_group_writes)

lemma test4_writes: "writes (row_ok (en_hash en)) (test4_rows en d ds work)"
  unfolding test4_rows_def by (intro writes_intro writes_steps) (auto simp: list_all_iff intro: codec_row_writes)

lemma test5_writes: "writes (row_ok (en_hash en)) (test5_rows en ds temp)"
  unfolding test5_rows_def
  by (intro writes_intro writes_steps) (auto simp: list_all_iff result_files_def test_names_def intro!: skipped_row_ok)

lemma test6_writes: "writes (row_ok (en_hash en)) (test6_rows en d ds work)"
  unfolding test6_rows_def Let_def by (intro writes_intro writes_steps) (auto simp: list_all_iff intro: bulk_source_writes)

lemma single_inserts_writes: "writes (row_ok (en_hash en)) (single_inserts en d)"
  unfolding single_inserts_def fresh_table_def
  by (intro writes_intro writes_steps strategy_row_writes) (auto simp: list_all_iff intro: writes_engine)

lemma inserts_write: "writes (row_ok (en_hash en)) (batched_inserts en d x)" "writes (row_ok (en_hash en)) (one_statement en d y)"
  unfolding batched_inserts_def one_statement_def fresh_table_def by (intro writes_intro strategy_row_writes; simp)+

lemma test7_writes: "writes (row_ok (en_hash en)) (test7_rows en d ds)"
  unfolding test7_rows_def by (intro writes_intro writes_steps) (auto simp: list_all_iff single_inserts_writes inserts_write)

lemma test8_9_writes: "writes (row_ok (en_hash en)) (test8_9_rows en d ds dir)"
proof -
  have "writes (row_ok (en_hash en)) (profile_query en d dir x)" for x unfolding profile_query_def by (intro writes_intro)
  then show ?thesis
    unfolding test8_9_rows_def
    by (intro writes_intro writes_steps writes_row) (auto simp: list_all_iff row_simps)
qed

lemma merge_lake_writes:
  "(\<And>g. writes (row_ok (en_hash en)) (report g)) \<Longrightarrow> writes (row_ok (en_hash en)) (merge_lake en temp work name n per_file max_size report)"
proof -
  assume report: "\<And>g. writes (row_ok (en_hash en)) (report g)"
  have "writes (row_ok (en_hash en)) (three_numbers rows)" for rows :: "pyval list list"
    by (auto simp: three_numbers_def intro: writes_intro split: list.split pyval.split)
  then have "writes (row_ok (en_hash en)) (lake_files en d name)" for d unfolding lake_files_def by (intro writes_intro)
  moreover have "writes (row_ok (en_hash en)) (make_lake en d work name n per_file)" for d
    unfolding make_lake_def Let_def by (intro writes_intro writes_steps) (auto simp: list_all_iff intro: writes_plumbing)
  ultimately show ?thesis unfolding merge_lake_def by (intro writes_intro report)
qed

lemma test10_12_writes: "writes (row_ok (en_hash en)) (test10_12_rows en temp work)"
  unfolding test10_12_rows_def minor_merge_def major_merge_def
  by (intro writes_intro writes_steps merge_lake_writes)
     (auto simp: list_all_iff result_files_def test_names_def intro!: merge_lake_writes skipped_row_ok minor_row_writes)

lemma spill_tests_writes:
  "baseline = None \<Longrightarrow> ''4GB'' \<notin> set (butlast limits) \<Longrightarrow> writes (row_ok (en_hash en)) (spill_tests en ds temp baseline limits)"
proof (induction limits arbitrary: baseline)
  case (Cons limit limits)
  have rest: "writes (row_ok (en_hash en)) (spill_tests en ds temp None limits)" using Cons.IH [of None] Cons.prems(2) by (cases limits) auto
  have base: "baseline_after limit (Some secs) baseline = None \<or> limit = ''4GB''" for secs
    using Cons.prems(1) by (simp add: baseline_after_def)
  have later: "writes (row_ok (en_hash en)) (spill_tests en ds temp (baseline_after limit (Some secs) baseline) limits)" for secs
    using rest Cons.prems by (cases limits) (auto simp: baseline_after_def writes_ret)
  show ?case
    unfolding spill_tests.simps Let_def
    by (intro writes_intro spill_done_writes base later) (use rest Cons.prems(1) in simp)
qed (simp add: writes_ret)

lemma test13_14_writes: "writes (row_ok (en_hash en)) (test13_14_rows en ds temp)"
  unfolding test13_14_rows_def
  by (intro writes_intro writes_steps spill_tests_writes) (auto simp: list_all_iff spill_limits_def intro: memory_row_writes)

lemma test15_writes: "writes (row_ok (en_hash en)) (test15_rows en ds)"
  unfolding test15_rows_def
  by (intro writes_intro writes_steps skipped_row_ok) (auto simp: list_all_iff result_files_def test_names_def intro: jobs_row_writes)

lemma all_tests_write: "writes (row_ok (en_hash en)) (all_tests en d datasets out work temp)"
  unfolding all_tests_def Let_def
  by (intro writes_intro writes_steps)
     (simp add: test1_writes test2_writes test3_writes test4_writes test5_writes test6_writes test7_writes test8_9_writes writes_plumbing
        test10_12_writes test13_14_writes test15_writes)

text \<open>C23: every row of the benchmark accounts for itself. Whatever the engine answers or raises, and however far the run gets, it only
  appends rows, each to one of the fourteen files the report reads. Each carries the track, the hash of the environment and
  the name of its test; it is OK, failed, or not tested with the reason, except that a measured row of \<open>TEST13\<close> has an outcome and no status; and no
  row of \<open>TEST14\<close> below 4 GB has a slowdown.\<close>

theorem rows_are_accounted:
  "\<exists>rows. bn_rows (snd (benchmark en out work sizes s)) = bn_rows s @ rows \<and> list_all (row_ok (en_hash en)) rows"
proof -
  have stop: "writes P (\<lambda>s. (Inl (Engine msg), s))" for P :: "string \<times> pydict \<Rightarrow> bool" and msg by (simp add: writes_def)
  have raised: "writes P (case e of Engine msg \<Rightarrow> (\<lambda>s. (Inl (Engine msg), s)) | Python x \<Rightarrow> araise x)" for P :: "string \<times> pydict \<Rightarrow> bool" and e
    by (cases e) (simp_all add: stop writes_raise)
  have "writes (row_ok (en_hash en)) (benchmark en out work sizes)"
    unfolding benchmark_def Let_def
    by (intro writes_intro writes_steps all_tests_write raised) (auto simp: list_all_iff intro: writes_plumbing)
  then show ?thesis by (simp add: writes_def)
qed

section \<open>The layouts of TEST 2\<close>

definition parts_written :: "sql_expr \<Rightarrow> int \<Rightarrow> int set" where
  \<comment> \<open>the partitions a table of so many rows is written to\<close>
  "parts_written e rows = expr_value e ` {0 ..< rows}"

lemma parts_written_divided: "parts_written (IntDiv RowNumber k) rows = (\<lambda>i. i div k) ` {1 .. rows}"
proof -
  have "{1 .. rows} = (\<lambda>i. i + 1) ` {0 ..< rows}" by (auto simp: image_iff intro!: bexI [of _ "_ - 1"])
  moreover have "parts_written (IntDiv RowNumber k) rows = (\<lambda>i. i div k) ` (\<lambda>i. i + 1) ` {0 ..< rows}"
    unfolding parts_written_def image_image by (intro image_cong) simp_all
  ultimately show ?thesis by (simp only:)
qed

lemma quotients_from_one:
  assumes "0 < n" and "2 \<le> (k :: int)"
  shows "(\<lambda>i. i div k) ` {1 .. n * k} = {0 .. n}"
proof
  show "(\<lambda>i. i div k) ` {1 .. n * k} \<subseteq> {0 .. n}"
    using assms zdiv_mono1 [of _ "n * k" k] by (auto simp: pos_imp_zdiv_nonneg_iff)
  show "{0 .. n} \<subseteq> (\<lambda>i. i div k) ` {1 .. n * k}"
  proof
    fix p assume p: "p \<in> {0 .. n}"
    show "p \<in> (\<lambda>i. i div k) ` {1 .. n * k}"
    proof (cases "p = 0")
      case True
      have "1 \<le> n * k" using assms by (smt (verit) mult_le_cancel_right1)
      then show ?thesis using True assms(2) by (auto intro!: image_eqI [of _ _ 1])
    next
      case False
      have "p * k \<in> {1 .. n * k}" using False p assms(2) by (auto simp: mult_right_mono intro!: mult_pos_pos [THEN zless_imp_add1_zle, of p k, simplified])
      then show ?thesis using assms(2) by (auto intro!: image_eqI [of _ _ "p * k"])
    qed
  qed
qed

lemma layout_refused:
  assumes "\<And>w. fst (en_sql en (dk_id d) (layout_sql (join_path work (''frag_'' @ show_int n)) (part_of (ds_rows ds) n)) w) = Inl msg"
  shows "fst (fragment_layout en d ds work n s) = Inl (Engine msg)"
proof -
  have "fst (sql en d (layout_sql (join_path work (''frag_'' @ show_int n)) (part_of (ds_rows ds) n)) s') = Inl (Engine msg)" for s'
    using assms [of "bn_world s'"] by (auto simp: sql_def split: prod.split)
  then have "fst (elapsed en (sql en d (layout_sql (join_path work (''frag_'' @ show_int n)) (part_of (ds_rows ds) n))) s') = Inl (Engine msg)" for s'
    by (auto simp: elapsed_def abind_def from_world_def split: prod.split sum.split) (metis fst_conv sum.distinct(1) sum.inject(1))+
  then show ?thesis by (auto simp: fragment_layout_def Let_def abind_def files_def in_world_def split: prod.split sum.split) (metis fst_conv sum.distinct(1) sum.inject(1))+
qed

text \<open>C39: a layout of \<open>TEST 2\<close> has a partition more than it is named for. When the number of files divides the rows, so that each
  would get at least two, the partitions that the statement's expression puts the rows in are one more than that, because
  rows are numbered from 1: the layout \<open>1_files\<close> is written to two. The layout is made by that statement: if
  the engine refuses it, the layout ends with the engine's message.\<close>

theorem one_partition_more:
  assumes "0 < n" and "n dvd ds_rows ds" and "2 * n \<le> ds_rows ds"
  shows "parts_written (part_of (ds_rows ds) n) (ds_rows ds) = {0 .. n}
    \<and> card (parts_written (part_of (ds_rows ds) n) (ds_rows ds)) = nat (n + 1)
    \<and> (\<forall>en msg. (\<forall>w. fst (en_sql en (dk_id d) (layout_sql (join_path work (''frag_'' @ show_int n)) (part_of (ds_rows ds) n)) w) = Inl msg)
         \<longrightarrow> fst (fragment_layout en d ds work n s) = Inl (Engine msg))"
proof -
  obtain k where k: "ds_rows ds = n * k" using assms(2) by blast
  have k2: "2 \<le> k" using assms k by (simp add: mult.commute)
  then have "fragment_size (n * k) n = k" using assms(1) by (simp add: fragment_size_def)
  then have "parts_written (part_of (ds_rows ds) n) (ds_rows ds) = {0 .. n}"
    using quotients_from_one [OF assms(1) k2] by (simp add: part_of_def parts_written_divided k)
  moreover have "fst (fragment_layout en d ds work n s) = Inl (Engine msg)"
    if "\<forall>w. fst (en_sql en (dk_id d) (layout_sql (join_path work (''frag_'' @ show_int n)) (part_of (ds_rows ds) n)) w) = Inl msg" for en msg
    by (rule layout_refused, rule spec, rule that)
  ultimately show ?thesis by simp
qed

text \<open>The witness: a million rows in one file, on an engine that refuses that statement and no other.\<close>

definition full_disk :: "unit engine" where
  "full_disk =
     \<lparr>en_sql = (\<lambda>_ q w. (if starts_with ''COPY (SELECT *, (row_number() OVER ()) // 1000000 AS part'' q then Inl ''disk full'' else Inr [], w)),
      en_connect = Pair 0, en_close = (\<lambda>_ w. w), en_clock = (\<lambda>_. 0), en_utc = (\<lambda>_. []), en_file = (\<lambda>_ w. w), en_size = (\<lambda>_ _. 0),
      en_count = (\<lambda>_ _. 2), en_digest = (\<lambda>_ _. []), en_free = (\<lambda>_. 0), en_drop = Pair (Inr Cold), en_jobs = (\<lambda>_ _. Pair (Inr [])),
      en_root = (\<lambda>x. x), en_message = (\<lambda>_. []), en_hash = []\<rparr>"

lemma full_disk_sql:
  "starts_with ''COPY (SELECT *, (row_number() OVER ()) // 1000000 AS part'' q \<Longrightarrow> fst (en_sql full_disk i q w) = Inl ''disk full''"
  by (simp add: full_disk_def)

lemma shown_million: "shown_expr (part_of 1000000 1) = ''(row_number() OVER ()) // 1000000''"
proof -
  have "char_of (49 :: nat) = CHR ''1'' \<and> char_of (48 :: nat) = CHR ''0''" by code_simp
  then have "show_int 1000000 = ''1000000''" by (simp add: show_int_def show_nat.simps)
  then show ?thesis by (simp add: part_of_def fragment_size_def)
qed

lemma one_partition_more_witness:
  "\<exists>d ds. ds_rows ds = 1000000 \<and> parts_written (part_of 1000000 1) 1000000 = {0 .. 1}
     \<and> fst (fragment_layout full_disk d ds ''work'' 1 \<lparr>bn_world = (), bn_rows = []\<rparr>) = Inl (Engine ''disk full'')"
proof -
  let ?d = "\<lparr>dk_id = 0, dk_threads = 2, dk_memory = ''4GB''\<rparr>"
  define ds :: built where "ds = \<lparr>ds_path = [], ds_rows = 1000000, ds_bytes = 0, ds_hash = [], ds_seconds = 0\<rparr>"
  then have ds: "ds_rows ds = 1000000" by simp
  have "starts_with ''COPY (SELECT *, (row_number() OVER ()) // 1000000 AS part'' (layout_sql (join_path ''work'' (''frag_'' @ show_int 1)) (part_of 1000000 1))"
    unfolding layout_sql_def shown_million by (simp add: starts_with_def)
  then have "\<forall>w. fst (en_sql full_disk (dk_id ?d) (layout_sql (join_path ''work'' (''frag_'' @ show_int 1)) (part_of (ds_rows ds) 1)) w) = Inl ''disk full''"
    unfolding ds by (intro allI full_disk_sql)
  note refused = this
  have "0 < (1 :: int)" "1 dvd ds_rows ds" "2 * 1 \<le> ds_rows ds" by (simp_all add: ds)
  note all = one_partition_more [OF this, of ?d "''work''" "\<lparr>bn_world = (), bn_rows = []\<rparr>"]
  have "fst (fragment_layout full_disk ?d ds ''work'' 1 \<lparr>bn_world = (), bn_rows = []\<rparr>) = Inl (Engine ''disk full'')"
    using all refused by blast
  moreover have "parts_written (part_of 1000000 1) 1000000 = {0 .. 1}" using all unfolding ds by blast
  ultimately show ?thesis using ds by blast
qed

end
