(* ===== verification/CommandLines.thy ===== *)
theory CommandLines
  imports Exporter ReportText
begin

text \<open>
  The command lines. \<open>argparse\<close> is the part of it the programs use: options with a type, a choice or none, each with a
  default that may come from the environment, and options that are required or collect their values. An
  argument is an option's name with its value.
\<close>

section \<open>Options\<close>

datatype option_type = Text | Whole | Real | Mode "string list" | Given | Repeated

datatype default_value = Needed | Fixed pyval | FromEnv string default_value | IntFromEnv string int
  \<comment> \<open>\<open>e(name, default)\<close> and \<open>int(e(name, default))\<close>\<close>

type_synonym options = "(string \<times> option_type \<times> default_value) list"

fun default_of :: "(string \<Rightarrow> string option) \<Rightarrow> default_value \<Rightarrow> pyexn + pyval" where
  "default_of env Needed = Inr PNone"
| "default_of env (Fixed v) = Inr v"
| "default_of env (FromEnv name d) = (case env name of Some s \<Rightarrow> Inr (PStr s) | None \<Rightarrow> default_of env d)"
| "default_of env (IntFromEnv name i) =
     (case env name of Some s \<Rightarrow> ebind (to_int s) (\<lambda>n. Inr (PInt n)) | None \<Rightarrow> Inr (PInt i))"

fun typed :: "option_type \<Rightarrow> string \<Rightarrow> pyval option" where
  \<comment> \<open>what \<open>argparse\<close> makes of a value; \<open>None\<close> when it refuses\<close>
  "typed Text s = Some (PStr s)"
| "typed Whole s = map_option PInt (parse_int s)"
| "typed Real s = map_option PFloat (parse_float s)"
| "typed (Mode ms) s = (if s \<in> set ms then Some (PStr s) else None)"
| "typed Given s = Some (PBool True)"
| "typed Repeated s = Some (PStr s)"

definition defaults_of :: "options \<Rightarrow> (string \<Rightarrow> string option) \<Rightarrow> pyexn + pydict" where
  "defaults_of os env = emap (\<lambda>(name, _, d). ebind (default_of env d) (\<lambda>v. Inr (KStr name, v))) os"

definition stored :: "option_type \<Rightarrow> pyval \<Rightarrow> pyval \<Rightarrow> pyval" where
  \<comment> \<open>\<open>action='append'\<close> adds to what is there, the others replace it\<close>
  "stored ty old v = (if ty = Repeated then (case old of PList vs \<Rightarrow> PList (vs @ [v]) | _ \<Rightarrow> PList [v]) else v)"

fun parsed :: "options \<Rightarrow> (string \<times> string) list \<Rightarrow> pydict \<Rightarrow> pydict option" where
  \<comment> \<open>the arguments, each with its value, over the defaults\<close>
  "parsed os [] d = Some d"
| "parsed os ((name, s) # args) d =
     (case map_of os name of
        None \<Rightarrow> None
      | Some (ty, _) \<Rightarrow> (case typed ty s of None \<Rightarrow> None | Some v \<Rightarrow> parsed os args (sput name (stored ty (got d name) v) d)))"

definition required_names :: "options \<Rightarrow> string list" where
  "required_names os = map fst (filter (\<lambda>(_, _, d). d = Needed) os)"

definition command_line :: "options \<Rightarrow> (string \<Rightarrow> string option) \<Rightarrow> (string \<times> string) list \<Rightarrow> pyexn + pydict option" where
  \<comment> \<open>the environment is read before the arguments; a required one that is missing is refused\<close>
  "command_line os env args =
     ebind (defaults_of os env) (\<lambda>d. Inr (if set (required_names os) \<subseteq> fst ` set args then parsed os args d else None))"

definition exporter_options :: options where
  "exporter_options =
     [(''port'', Whole, IntFromEnv ''PIPELINE_EXPORTER_PORT'' 9101), (''interval'', Real, Fixed (num 10)),
      (''watermark_interval'', Real, Fixed (num 60)), (''s3_interval'', Real, Fixed (num 60)), (''http_timeout'', Real, Fixed (num 5)),
      (''jsonl'', Text, Fixed PNone), (''once'', Given, Fixed (PBool False)),
      (''health_mode'', Mode [''ssh'', ''http''], FromEnv ''BENCH_HEALTH_MODE'' (Fixed (PStr ''ssh''))),
      (''ssh_user'', Text, FromEnv ''SSH_USER'' (Fixed (PStr ''ec2-user''))), (''ssh_key'', Text, FromEnv ''SSH_KEY'' (Fixed (PStr []))),
      (''agent_state_path'', Text, FromEnv ''AGENT_STATE_PATH'' (Fixed (PStr ''/opt/analytics-bench/agent/state/health.json''))),
      (''max_state_age'', Real, Fixed (num 90)),
      (''collector_ssh_host'', Text, FromEnv ''COLLECTOR_SSH_HOST'' (FromEnv ''COLLECTOR_HOST'' (Fixed (PStr [])))),
      (''compactor_ssh_host'', Text, FromEnv ''COMPACTOR_SSH_HOST'' (FromEnv ''COMPACTOR_HOST'' (Fixed (PStr [])))),
      (''collector_host'', Text, FromEnv ''COLLECTOR_HOST'' (Fixed (PStr ''127.0.0.1''))),
      (''collector_health_port'', Whole, IntFromEnv ''COLLECTOR_HEALTH_PORT'' 8081),
      (''compactor_host'', Text, FromEnv ''COMPACTOR_HOST'' (Fixed (PStr ''127.0.0.1''))),
      (''compactor_health_port'', Whole, IntFromEnv ''COMPACTOR_HEALTH_PORT'' 8080),
      (''compactor_major_health_port'', Whole, IntFromEnv ''COMPACTOR_MAJOR_HEALTH_PORT'' 8090),
      (''pg_host'', Text, FromEnv ''PG_HOST'' (Fixed (PStr []))), (''pg_port'', Whole, IntFromEnv ''PG_PORT'' 5432),
      (''pg_database'', Text, FromEnv ''PG_DATABASE'' (Fixed (PStr ''bench_catalog''))),
      (''pg_user'', Text, FromEnv ''PG_USER'' (Fixed (PStr ''analytics''))), (''pg_password'', Text, FromEnv ''PG_PASSWORD'' (Fixed (PStr []))),
      (''s3_bucket'', Text, FromEnv ''S3_BUCKET'' (Fixed (PStr []))), (''s3_prefix'', Text, FromEnv ''S3_PREFIX'' (Fixed (PStr ''bench''))),
      (''aws_region'', Text, FromEnv ''AWS_REGION'' (Fixed (PStr ''us-west-2''))),
      (''catalog'', Text, FromEnv ''DUCKLAKE_CATALOG'' (Fixed (PStr ''bench''))), (''schema'', Text, FromEnv ''DUCKLAKE_SCHEMA'' (Fixed (PStr ''main''))),
      (''watermark_table'', Text, FromEnv ''DUCKLAKE_WATERMARK_TABLE'' (Fixed (PStr ''ai_txn_watermark''))),
      (''watermark_ts_column'', Text, FromEnv ''DUCKLAKE_WATERMARK_TS_COLUMN'' (Fixed (PStr ''max_time''))),
      (''small_file_threshold'', Whole, Fixed (PInt (8 * 1024 * 1024))),
      (''band_minor_max'', Whole, IntFromEnv ''BAND_MINOR_MAX_BYTES'' (12 * 1024 * 1024)),
      (''band_major_max'', Whole, IntFromEnv ''BAND_MAJOR_MAX_BYTES'' (64 * 1024 * 1024)), (''log_level'', Text, Fixed (PStr ''INFO''))]"

definition gate_options :: options where
  \<comment> \<open>of \<open>bench/validate_correctness.py\<close>\<close>
  "gate_options =
     [(''manifest'', Text, Needed), (''output'', Text, Fixed PNone), (''baseline'', Text, Fixed PNone),
      (''pg_host'', Text, FromEnv ''PG_HOST'' (Fixed (PStr []))), (''pg_port'', Text, FromEnv ''PG_PORT'' (Fixed (PStr ''5432''))),
      (''pg_database'', Text, FromEnv ''PG_DATABASE'' (Fixed (PStr ''bench_catalog''))),
      (''pg_user'', Text, FromEnv ''PG_USER'' (Fixed (PStr ''analytics''))), (''pg_password'', Text, FromEnv ''PG_PASSWORD'' (Fixed (PStr []))),
      (''s3_bucket'', Text, FromEnv ''S3_BUCKET'' (Fixed (PStr []))), (''s3_prefix'', Text, FromEnv ''S3_PREFIX'' (Fixed (PStr ''bench''))),
      (''aws_region'', Text, FromEnv ''AWS_REGION'' (Fixed (PStr ''us-west-2''))),
      (''catalog'', Text, FromEnv ''DUCKLAKE_CATALOG'' (Fixed (PStr ''bench''))), (''schema'', Text, FromEnv ''DUCKLAKE_SCHEMA'' (Fixed (PStr ''main''))),
      (''table'', Text, FromEnv ''DUCKLAKE_LOGS_TABLE'' (Fixed (PStr ''logs''))),
      (''watermark_table'', Text, FromEnv ''DUCKLAKE_WATERMARK_TABLE'' (Fixed (PStr ''ingest_watermark''))),
      (''pad_seconds'', Real, Fixed (num 120))]"

definition agent_options :: options where
  "agent_options =
     [(''output'', Text, Needed), (''interval'', Real, Fixed (num 1)), (''role'', Text, FromEnv ''BENCH_ROLE'' (Fixed (PStr []))),
      (''process_pattern'', Text, Fixed (PStr [])), (''jvm'', Given, Fixed (PBool False)),
      (''watch_path'', Repeated, Fixed (PList [])), (''once'', Given, Fixed (PBool False)),
      (''state'', Text, Fixed (PStr [])), (''print_state'', Given, Fixed (PBool False)), (''health_url'', Text, Fixed (PStr [])),
      (''systemd_unit'', Text, Fixed (PStr [])), (''s3_bucket'', Text, FromEnv ''S3_BUCKET'' (Fixed (PStr []))),
      (''aws_region'', Text, FromEnv ''AWS_REGION'' (Fixed (PStr ''us-west-2''))), (''rds_host'', Text, FromEnv ''PG_HOST'' (Fixed (PStr []))),
      (''rds_port'', Whole, IntFromEnv ''PG_PORT'' 5432), (''check_interval'', Real, Fixed (num 15))]"

definition watched_paths :: "pydict \<Rightarrow> pyval" where
  "watched_paths o1 = py_or (got o1 ''watch_path'') (PList [PStr ''/''])"

section \<open>Defaults\<close>

lemma exporter_default_bands:
  assumes "command_line exporter_options (\<lambda>_. None) [] = Inr (Some d)"
  shows "got d ''band_minor_max'' = PInt 12582912 \<and> got d ''band_major_max'' = PInt 67108864 \<and> got d ''health_mode'' = PStr ''ssh''"
  using assms by (auto simp: command_line_def required_names_def defaults_of_def exporter_options_def dget_or_def)

lemma unreadable_port: "command_line exporter_options [''PIPELINE_EXPORTER_PORT'' \<mapsto> ''metrics''] args = Inl ValueError"
proof -
  have "to_int ''metrics'' = Inl ValueError" by code_simp
  then show ?thesis by (simp add: command_line_def defaults_of_def exporter_options_def)
qed

lemma needs_output: "command_line agent_options (\<lambda>_. None) [(''role'', ''collector'')] = Inr None"
  by (simp add: command_line_def required_names_def defaults_of_def agent_options_def)

end
