(* ===== verification/Daemons.thy ===== *)
theory Daemons
  imports CommandLines ValidateText
begin

text \<open>
  The two programs that run beside a test as processes: the settings and loop of
  \<open>monitoring/exporters/pipeline_exporter.py\<close>, how it reaches the other machines and the lake, and the loop of
  \<open>bench/host_agent.py\<close> with the files it writes, as a list of effects on the disk.
\<close>

section \<open>Settings\<close>

definition exporter_settings :: "pydict \<Rightarrow> pyexn + settings_x" where
  \<comment> \<open>what the scrapes read of the options\<close>
  "exporter_settings o1 =
     ebind (item o1 ''max_state_age'') (\<lambda>age. ebind (item o1 ''compactor_major_health_port'') (\<lambda>port.
     ebind (item o1 ''watermark_interval'') (\<lambda>lag. ebind (item o1 ''s3_interval'') (\<lambda>s3. ebind (item o1 ''small_file_threshold'') (\<lambda>small.
     ebind (item o1 ''band_minor_max'') (\<lambda>minor. ebind (item o1 ''band_major_max'') (\<lambda>major.
     Inr \<lparr>xs_ssh = (got o1 ''health_mode'' = PStr ''ssh''), xs_max_age = age, xs_major_port = \<lfloor>port\<rfloor>, xs_lag_interval = lag, xs_s3_interval = s3,
          xs_small = \<lfloor>small\<rfloor>, xs_minor_max = \<lfloor>minor\<rfloor>, xs_major_max = \<lfloor>major\<rfloor>\<rparr>)))))))"

section \<open>How the exporter reaches the others\<close>

definition ssh_command :: "(string \<Rightarrow> string) \<Rightarrow> string \<Rightarrow> string \<Rightarrow> string \<Rightarrow> string \<Rightarrow> string list" where
  \<comment> \<open>\<open>os.path.expanduser\<close>, the key, the user, the host and the remote command\<close>
  "ssh_command expand key user host remote =
     [''ssh'', ''-n'', ''-o'', ''BatchMode=yes'', ''-o'', ''ConnectTimeout=5'', ''-o'', ''StrictHostKeyChecking=accept-new'',
      ''-o'', ''ControlMaster=auto'', ''-o'', ''ControlPath=/tmp/bench-ssh-'' @ host @ ''.sock'', ''-o'', ''ControlPersist=300'']
     @ (if key = [] then [] else [''-i'', expand key]) @ [user @ ''@'' @ host, remote]"

definition state_command :: "string \<Rightarrow> string" where
  "state_command path = ''cat '' @ path"

definition major_command :: "rat \<Rightarrow> int \<Rightarrow> string" where
  "major_command timeout port =
     ''curl -sf -m '' @ show_int (py_trunc timeout) @ '' http://127.0.0.1:'' @ show_int port @ ''/health''"

definition catalog_address :: "lake_args \<Rightarrow> string" where
  \<comment> \<open>what the scrapes of the catalog connect to\<close>
  "catalog_address a =
     ''host='' @ la_pg_host a @ '' port='' @ la_pg_port a @ '' dbname='' @ la_pg_database a @ '' user='' @ la_pg_user a @
     '' password='' @ la_pg_password a @ '' connect_timeout=5''"

definition health_address :: "string \<Rightarrow> int \<Rightarrow> string" where
  "health_address host port = ''http://'' @ host @ '':'' @ show_int port @ ''/health''"

fun run_statements :: "('w \<Rightarrow> string \<Rightarrow> failure option \<times> 'w) \<Rightarrow> string list \<Rightarrow> 'w \<Rightarrow> (failure + unit) \<times> 'w" where
  "run_statements exec [] w = (Inr (), w)"
| "run_statements exec (q # qs) w = (case exec w q of (Some e, w1) \<Rightarrow> (Inl e, w1) | (None, w1) \<Rightarrow> run_statements exec qs w1)"

definition duck_conn :: "('w \<Rightarrow> string \<Rightarrow> failure option \<times> 'w) \<Rightarrow> bool \<Rightarrow> lake_args \<Rightarrow> bool \<Rightarrow> 'w \<Rightarrow> (failure + unit) \<times> bool \<times> 'w" where
  \<comment> \<open>whether \<open>duckdb\<close> is installed and whether a connection is kept; one is kept once it is attached\<close>
  "duck_conn exec installed a kept w =
     (if kept then (Inr (), True, w)
      else if \<not> installed then (Inl (External ''duckdb not installed''), False, w)
      else case run_statements exec (attach_statements a) w of (Inl e, w1) \<Rightarrow> (Inl e, False, w1) | (Inr x, w1) \<Rightarrow> (Inr x, True, w1))"

section \<open>The exporter's loop\<close>

fun exporter_loop :: "(failure \<Rightarrow> string) \<Rightarrow> settings_x \<Rightarrow> bool \<Rightarrow> world list \<Rightarrow> exporter \<Rightarrow> (pydict list \<times> exporter) option" where
  \<comment> \<open>the samples until it is stopped, with \<open>--once\<close> the first; \<open>None\<close> when a poll never ends\<close>
  "exporter_loop text_of xs once [] ex = Some ([], ex)"
| "exporter_loop text_of xs once (w # ws) ex =
     (case poll_once text_of xs w ex of
        None \<Rightarrow> None
      | Some (s, ex1) \<Rightarrow>
          if once then Some ([s], ex1) else map_option (\<lambda>(ss, ex2). (s # ss, ex2)) (exporter_loop text_of xs once ws ex1))"

definition exporter_ticks :: "rat \<Rightarrow> rat \<Rightarrow> rat list \<Rightarrow> rat list" where
  \<comment> \<open>when each poll begins: the interval, the start, how long each poll takes\<close>
  "exporter_ticks itv now works = agent_ticks itv now now works"

section \<open>The agent's files\<close>

datatype effect = MakeDirectory string | OpenEmpty string | AddTo string string | Rename string string

type_synonym disk_files = "string \<Rightarrow> string option"

fun happen :: "effect \<Rightarrow> disk_files \<Rightarrow> disk_files" where
  "happen (MakeDirectory d) fs = fs"
| "happen (OpenEmpty p) fs = fs(p \<mapsto> [])"
| "happen (AddTo p s) fs = fs(p \<mapsto> (case fs p of None \<Rightarrow> s | Some t \<Rightarrow> t @ s))"
| "happen (Rename p q) fs = (if p = q then fs else (fs(q := fs p))(p := None))"

definition dir_name :: "string \<Rightarrow> string" where
  \<comment> \<open>\<open>os.path.dirname(p) or '.'\<close>\<close>
  "dir_name p =
     (let h = rev (dropWhile (\<lambda>c. c \<noteq> CHR ''/'') (rev p));
          d = (if list_all (\<lambda>c. c = CHR ''/'') h then h else rev (dropWhile (\<lambda>c. c = CHR ''/'') (rev h)))
      in if d = [] then ''.'' else d)"

definition write_atomic :: "string \<Rightarrow> string list \<Rightarrow> effect list" where
  \<comment> \<open>the path, and the pieces in which the document is written\<close>
  "write_atomic path pieces =
     [MakeDirectory (dir_name path), OpenEmpty (path @ ''.tmp'')] @ map (AddTo (path @ ''.tmp'')) pieces @ [Rename (path @ ''.tmp'') path]"

definition disk_free :: "(int \<times> int) option \<Rightarrow> int option \<times> int option" where
  \<comment> \<open>\<open>statvfs\<close>, if it answers\<close>
  "disk_free st = (case st of None \<Rightarrow> (None, None) | Some (free, whole_disk) \<Rightarrow> (Some free, Some whole_disk))"

record agent_files =
  af_output :: string
  af_state :: string

definition state_effects :: "agent_files \<Rightarrow> string list \<Rightarrow> effect list" where
  \<comment> \<open>\<open>if self.args.state\<close>\<close>
  "state_effects af pieces = (if af_state af = [] then [] else write_atomic (af_state af) pieces)"

definition round_effects :: "agent_files \<Rightarrow> string \<times> string list \<Rightarrow> effect list" where
  \<comment> \<open>the line of a sample and the pieces of its snapshot\<close>
  "round_effects af x = [AddTo (af_output af) (fst x @ [newline])] @ state_effects af (snd x)"

definition agent_effects :: "agent_files \<Rightarrow> bool \<Rightarrow> (string \<times> string list) list \<Rightarrow> effect list" where
  \<comment> \<open>with \<open>--once\<close> the snapshot comes first; the samples are those after the first, which is discarded\<close>
  "agent_effects af once xs =
     MakeDirectory (dir_name (af_output af)) #
     (if once then (case xs of [] \<Rightarrow> [] | x # _ \<Rightarrow> state_effects af (snd x) @ [AddTo (af_output af) (fst x @ [newline])])
      else concat (map (round_effects af) xs))"

definition agent_samples :: "settings \<Rightarrow> bool \<Rightarrow> reading list \<Rightarrow> agent \<Rightarrow> pyexn + sample list" where
  \<comment> \<open>what \<open>run\<close> emits of the samples it takes\<close>
  "agent_samples se once rds a = ebind (take_samples se (if once then take 2 rds else rds) a) (\<lambda>(ss, _). Inr (drop 1 ss))"

section \<open>A reader never sees half a snapshot\<close>

lemma tmp_differs: "p @ ''.tmp'' \<noteq> p" by simp

lemma happen_elsewhere:
  "p \<noteq> q \<Longrightarrow> happen (OpenEmpty p) fs q = fs q" "p \<noteq> q \<Longrightarrow> happen (AddTo p s) fs q = fs q"
  "p \<noteq> q \<Longrightarrow> p' \<noteq> q \<Longrightarrow> happen (Rename p p') fs q = fs q"
  by simp_all

definition disks :: "effect list \<Rightarrow> disk_files \<Rightarrow> disk_files list" where
  \<comment> \<open>the disk before, between and after the effects\<close>
  "disks es fs = map (\<lambda>n. fold happen (take n es) fs) [0 ..< Suc (length es)]"

lemma disks_Cons: "disks (e # es) fs = fs # disks es (happen e fs)"
  by (simp add: disks_def upt_conv_Cons map_Suc_upt [symmetric] comp_def del: upt_Suc)

lemma disks_Nil: "disks [] fs = [fs]"
  by (simp add: disks_def)

lemma disks_append: "set (disks (es @ fs1) d) = set (disks es d) \<union> set (disks fs1 (fold happen es d))"
proof (induction es arbitrary: d)
  case Nil
  have "d \<in> set (disks fs1 d)" by (cases fs1) (simp_all add: disks_Nil disks_Cons)
  then show ?case by (auto simp: disks_Nil)
qed (simp add: disks_Cons)

lemma pieces_added:
  "fs p = Some t \<Longrightarrow> fold happen (map (AddTo p) pieces) fs = fs(p \<mapsto> t @ concat pieces)"
  by (induction pieces arbitrary: fs t) (simp_all add: fun_upd_idem)

lemma pieces_elsewhere: "p \<noteq> q \<Longrightarrow> d \<in> set (disks (map (AddTo p) pieces) fs) \<Longrightarrow> d q = fs q"
  by (induction pieces arbitrary: fs) (auto simp: disks_Nil disks_Cons)

lemma write_atomic_end: "fold happen (write_atomic path pieces) fs path = Some (concat pieces)"
  by (simp add: write_atomic_def pieces_added)

lemma write_atomic_between:
  assumes "d \<in> set (disks (write_atomic path pieces) fs)"
  shows "d path = fs path \<or> d path = Some (concat pieces)"
proof -
  let ?tmp = "path @ ''.tmp''"
  have "d path = fs path \<or> d = fold happen (write_atomic path pieces) fs"
    using assms pieces_elsewhere [of ?tmp path d pieces "fs(?tmp \<mapsto> [])"]
    by (auto simp: write_atomic_def disks_append disks_Cons disks_Nil pieces_added)
  then show ?thesis using write_atomic_end by metis
qed

definition whole_snapshots :: "agent_files \<Rightarrow> (string \<times> string list) list \<Rightarrow> disk_files \<Rightarrow> disk_files \<Rightarrow> bool" where
  \<comment> \<open>the state file is the one from before the run or a complete snapshot of it\<close>
  "whole_snapshots af xs fs d \<longleftrightarrow> d (af_state af) = fs (af_state af) \<or> d (af_state af) \<in> (\<lambda>x. Some (concat (snd x))) ` set xs"

lemma state_effects_between:
  "d \<in> set (disks (state_effects af pieces) fs) \<Longrightarrow> d (af_state af) = fs (af_state af) \<or> d (af_state af) = Some (concat pieces)"
  unfolding state_effects_def by (cases "af_state af = []") (auto simp: disks_Nil dest: write_atomic_between)

lemma last_disk: "fold happen es fs \<in> set (disks es fs)"
  by (induction es arbitrary: fs) (simp_all add: disks_Nil disks_Cons)

lemma rounds_between:
  assumes "af_output af \<noteq> af_state af" and "d \<in> set (disks (concat (map (round_effects af) xs)) fs)"
  shows "whole_snapshots af xs fs d"
  using assms(2)
proof (induction xs arbitrary: fs)
  case (Cons x xs)
  let ?e = "round_effects af x"
  have first: "c (af_state af) = fs (af_state af) \<or> c (af_state af) = Some (concat (snd x))" if "c \<in> set (disks ?e fs)" for c
    using that assms(1) state_effects_between [of c af "snd x" "happen (AddTo (af_output af) (fst x @ [newline])) fs"]
    by (auto simp: round_effects_def disks_Cons)
  consider "d \<in> set (disks ?e fs)" | "d \<in> set (disks (concat (map (round_effects af) xs)) (fold happen ?e fs))"
    using Cons.prems by (auto simp: disks_append)
  then show ?case
  proof cases
    case 2
    then show ?thesis using Cons.IH [OF 2] first [OF last_disk] by (auto simp: whole_snapshots_def)
  qed (use first in \<open>auto simp: whole_snapshots_def\<close>)
qed (simp add: whole_snapshots_def disks_Nil)

text \<open>C22: the exporter never reads half a snapshot. At every moment of the agent's run, with \<open>--once\<close> or in the loop, and in whatever
  pieces a document is written, the state file is what it was before or one complete snapshot, as long as
  the samples do not go into the same file.\<close>

theorem snapshot_never_partial:
  assumes "af_output af \<noteq> af_state af" and "d \<in> set (disks (agent_effects af once xs) fs)"
  shows "whole_snapshots af xs fs d"
proof (cases once)
  case False
  then have "d = fs \<or> d \<in> set (disks (concat (map (round_effects af) xs)) fs)" using assms(2) by (auto simp: agent_effects_def disks_Cons)
  then show ?thesis using rounds_between [OF assms(1)] by (auto simp: whole_snapshots_def)
next
  case True
  show ?thesis
  proof (cases xs)
    case Nil
    then show ?thesis using assms(2) True by (auto simp: agent_effects_def disks_Cons disks_Nil whole_snapshots_def)
  next
    case (Cons x ys)
    let ?s = "state_effects af (snd x)"
    have "d = fs \<or> d \<in> set (disks ?s fs) \<or> d = happen (AddTo (af_output af) (fst x @ [newline])) (fold happen ?s fs)"
      using assms(2) True Cons by (auto simp: agent_effects_def disks_Cons disks_append disks_Nil intro: last_disk)
    then have "d (af_state af) = fs (af_state af) \<or> (\<exists>c\<in>set (disks ?s fs). d (af_state af) = c (af_state af))"
      using assms(1) last_disk [of ?s fs] by (auto simp: happen_elsewhere)
    then have "d (af_state af) = fs (af_state af) \<or> d (af_state af) = Some (concat (snd x))"
    proof
      assume "\<exists>c\<in>set (disks ?s fs). d (af_state af) = c (af_state af)"
      then obtain c where "c \<in> set (disks ?s fs)" and "d (af_state af) = c (af_state af)" by blast
      then show ?thesis using state_effects_between [of c af "snd x" fs] by simp
    qed simp
    then show ?thesis using Cons by (auto simp: whole_snapshots_def)
  qed
qed

lemma snapshot_never_partial_witness:
  "whole_snapshots \<lparr>af_output = ''out'', af_state = ''s''\<rparr> [(''l'', [''a'', ''b''])] Map.empty
     (fold happen (agent_effects \<lparr>af_output = ''out'', af_state = ''s''\<rparr> False [(''l'', [''a'', ''b''])]) Map.empty)"
  by (rule snapshot_never_partial [OF _ last_disk]) simp

section \<open>The loop\<close>

lemma directories: "dir_name ''out/state/health.json'' = ''out/state''" "dir_name ''/s'' = ''/''" "dir_name ''s'' = ''.''"
  by code_simp+

lemma once_polls_once: "exporter_loop text_of xs True (w # ws) ex = map_option (\<lambda>(s, ex1). ([s], ex1)) (poll_once text_of xs w ex)"
  by (simp split: option.split)

end
