(* ===== verification/GenSummary.thy ===== *)
theory GenSummary
  imports GenMain CommandLines ValidateText
begin

text \<open>
  What of \<open>generator/src/main.py\<close> and \<open>metrics.py\<close> a user sees first and last: the options, the pace of the sampler and
  the printed summary.
\<close>

section \<open>Options\<close>

definition generator_options :: options where
  "generator_options =
     [(''config'', Text, Fixed (PStr ''config/generator.yaml'')), (''profile'', Text, FromEnv ''DEFAULT_PROFILE'' (Fixed (PStr ''smoke''))),
      (''test_id'', Text, Fixed PNone), (''results_dir'', Text, Fixed PNone), (''rps'', Real, Fixed PNone), (''duration_seconds'', Real, Fixed PNone),
      (''workers'', Whole, Fixed PNone), (''channels'', Whole, Fixed PNone), (''batch_size'', Whole, Fixed PNone),
      (''max_inflight'', Whole, Fixed PNone), (''retry_mode'', Mode [''none'', ''polite''], Fixed PNone), (''dry_run'', Given, Fixed (PBool False)),
      (''log_level'', Text, Fixed (PStr ''INFO''))]"

definition text_or_none :: "pyval \<Rightarrow> string option" where
  "text_or_none v = (case v of PStr s \<Rightarrow> Some s | _ \<Rightarrow> None)"

definition args_of :: "pydict \<Rightarrow> args" where
  "args_of o1 =
     \<lparr>ar_profile = (case text_or_none (got o1 ''profile'') of None \<Rightarrow> [] | Some s \<Rightarrow> s), ar_test_id = text_or_none (got o1 ''test_id''),
      ar_results = text_or_none (got o1 ''results_dir''), ar_rps = got o1 ''rps'', ar_duration = got o1 ''duration_seconds'',
      ar_workers = got o1 ''workers'', ar_channels = got o1 ''channels'', ar_batch = got o1 ''batch_size'',
      ar_inflight = got o1 ''max_inflight'', ar_retry = got o1 ''retry_mode'', ar_dry = truthy (got o1 ''dry_run'')\<rparr>"

section \<open>The sampler\<close>

fun sampler_ticks :: "rat \<Rightarrow> rat \<Rightarrow> rat \<Rightarrow> rat \<Rightarrow> rat list \<Rightarrow> rat list" where
  \<comment> \<open>when samples are taken: the interval, when the run stops, the clock, \<open>next_tick\<close>, how long each sample takes; the wait ends
    without a sample when the run stops\<close>
  "sampler_ticks itv stop now next [] = []"
| "sampler_ticks itv stop now next (work # rest) =
     (let next' = next + itv
      in if stop \<le> now \<or> (now < next' \<and> stop \<le> next') then []
         else max now next' # sampler_ticks itv stop (max now next' + work) next' rest)"

section \<open>The summary\<close>

definition right_aligned :: "nat \<Rightarrow> string \<Rightarrow> string" where
  \<comment> \<open>\<open>f'{s:>n}'\<close>\<close>
  "right_aligned n s = replicate (n - length s) CHR '' '' @ s"

definition counts_repr :: "(string \<times> int) list \<Rightarrow> string" where
  \<comment> \<open>the names of the codes have no quotes\<close>
  "counts_repr cs = ''{'' @ join_with '', '' (map (\<lambda>(k, n). in_quotes k @ '': '' @ show_int n) cs) @ ''}''"

definition step_summary :: "step_result \<Rightarrow> string" where
  "step_summary r =
     ''  '' @ right_aligned 4 (show_int (sr_index r)) @ ''   '' @ right_aligned 10 (fixed 0 (sr_target r)) @ '' '' @
     right_aligned 10 (commas_int (sr_offered r)) @ '' '' @ right_aligned 10 (commas_int (sr_accepted r)) @ '' '' @
     right_aligned 10 (commas_int (sr_rejected r)) @ ''   '' @ plain_fixed 4 (accepted_ratio r)"

definition summary_text :: "string \<Rightarrow> string \<Rightarrow> run_totals \<Rightarrow> step_result list \<Rightarrow> string list" where
  "summary_text test_id run_dir s steps =
     (let t = rt_totals s
      in [[], ''  test id        '' @ test_id, ''  results        '' @ run_dir, ''  duration       '' @ plain_fixed 1 (rt_duration s) @ ''s'',
          ''  offered        '' @ commas_int (records_offered t) @ '' records ('' @ fixed 0 (rt_offered_mean s) @ ''/s mean)'',
          ''  accepted       '' @ commas_int (records_accepted t) @ '' records ('' @ fixed 0 (rt_accepted_mean s) @ ''/s mean)'',
          ''  rejected       '' @ commas_int (records_rejected t) @ '' records'',
          ''  requests       '' @ commas_int (requests_sent t) @ '' ('' @ commas_int (requests_failed t) @ '' failed, '' @
            plain_fixed 2 (rt_success_rate s * 100) @ ''% ok)'',
          ''  latency ms     p50='' @ plain_fixed 1 (rt_p50 s) @ '' p95='' @ plain_fixed 1 (rt_p95 s) @ '' p99='' @ plain_fixed 1 (rt_p99 s) @
            '' max='' @ plain_fixed 1 (rt_max s),
          ''  stalled        '' @ plain_fixed 0 (stalled_ms t) @ '' ms on the inflight bound'']
         @ (if errors_by_code t = [] then [] else [''  errors         '' @ counts_repr (errors_by_code t)])
         @ (if 1 < length steps
            then [[], ''  step   target_rps    offered   accepted   rejected   ratio''] @ map step_summary steps else [])
         @ [[]])"

section \<open>Properties\<close>

lemma typed_not_none: "typed ty s = Some v \<Longrightarrow> v \<noteq> PNone"
  by (cases "(ty, s)" rule: typed.cases) (auto split: if_splits)

lemma unset_option: "x \<notin> fst ` set args \<Longrightarrow> parsed os args d = Some d' \<Longrightarrow> got d' x = got d x"
proof (induction os args d rule: parsed.induct)
  case (2 os name s args d)
  then show ?case by (auto simp: sput_def dget_or_def update_conv' split: option.splits prod.splits)
qed simp

lemma defaults_got:
  "defaults_of os env = Inr d \<Longrightarrow> map_of os x = Some (ty, Fixed v) \<Longrightarrow> got d x = v"
  by (induction os arbitrary: d) (auto simp: defaults_of_def ebind_def dget_or_def split: sum.splits if_splits)

text \<open>The profile decides what the command line does not: an option that is not among the arguments, whatever the environment
  says, leaves the workload of the profile as it is.\<close>

lemma profile_decides:
  assumes "command_line generator_options env args = Inr (Some d)"
    and "(opt, key) \<in> {(''rps'', ''target_rps''), (''duration_seconds'', ''duration_seconds''), (''workers'', ''workers''),
       (''channels'', ''channels''), (''batch_size'', ''batch_size''), (''max_inflight'', ''max_inflight''), (''retry_mode'', ''retry_mode'')}"
    and "opt \<notin> fst ` set args"
  shows "dget (overrides_of (args_of d)) key = Some PNone"
proof -
  obtain d0 where d0: "defaults_of generator_options env = Inr d0" "parsed generator_options args d0 = Some d"
    using assms(1) by (auto simp: command_line_def ebind_def split: sum.splits if_splits)
  have "got d opt = got d0 opt" by (rule unset_option [OF assms(3) d0(2)])
  also have "\<exists>ty. map_of generator_options opt = Some (ty, Fixed PNone)"
    using assms(2) by (auto simp: generator_options_def)
  then have "got d0 opt = PNone" using defaults_got [OF d0(1)] by blast
  finally show ?thesis using assms(2) by (auto simp: overrides_of_def args_of_def)
qed

lemma sampler_steady:
  assumes "\<forall>w \<in> set works. 0 \<le> w \<and> w \<le> itv" and "now \<le> next + itv" and "next + of_nat (length works) * itv < stop" and "0 < itv"
  shows "sampler_ticks itv stop now next works = map (\<lambda>k. next + of_nat k * itv) [1 ..< Suc (length works)]"
  using assms(1-3)
proof (induction works arbitrary: now "next")
  case (Cons w works)
  have "0 \<le> of_nat (length works) * itv" using assms(4) by simp
  then have "next + itv < stop" using Cons.prems(3) by (simp add: algebra_simps)
  then have "sampler_ticks itv stop now next (w # works) = (next + itv) # sampler_ticks itv stop (next + itv + w) (next + itv) works"
    using Cons.prems(2) by (simp add: Let_def)
  also have "\<dots> = (next + itv) # map (\<lambda>k. next + itv + of_nat k * itv) [1 ..< Suc (length works)]"
    using Cons.IH [of "next + itv + w" "next + itv"] Cons.prems by (simp add: algebra_simps)
  also have "\<dots> = map (\<lambda>k. next + of_nat k * itv) [1 ..< Suc (length (w # works))]"
    by (simp add: upt_conv_Cons map_Suc_upt [symmetric] algebra_simps comp_def del: upt_Suc)
  finally show ?case .
qed simp

lemma final_summary:
  "summary_text ''t1'' ''results/t1'' (snapshot 2 (init_metrics ''t1'' 1 False 0)) [] =
     [[], ''  test id        t1'', ''  results        results/t1'', ''  duration       2.0s'', ''  offered        0 records (0/s mean)'',
      ''  accepted       0 records (0/s mean)'', ''  rejected       0 records'', ''  requests       0 (0 failed, 0.00% ok)'',
      ''  latency ms     p50=0.0 p95=0.0 p99=0.0 max=0.0'', ''  stalled        0 ms on the inflight bound'', []]"
  by code_simp

end
