(* ===== verification/Spec2Isabelle.thy ===== *)
theory Spec2Isabelle
  imports EndToEnd CfgTool SqlExec ReportFacts DashboardFacts CustomerReport CompactorLog TrackA PublishReport ReportTextFacts ChartFacts CustomerTextFacts PublishText TrackRunFacts Daemons GenSummary
begin

text \<open>
  A verification library for the load test bench of the analytics pipeline: a generator that
  offers log records to a collector at a set rate, the gate that checks afterwards what landed in
  the lake, and the scripts that watch the machines meanwhile.

  \<^bold>\<open>The program and the theories.\<close> The generator (\<open>generator/src\<close>) is one process.
  \<open>config.py\<close> turns a YAML document, the environment and the command line into a configuration
  (theories \<open>EnvText\<close>, \<open>Config\<close>). \<open>payload.py\<close> and \<open>payload_ai_txn.py\<close> build a pool of request
  templates and stamp numbers into them before sending (\<open>Rng\<close>, \<open>Payload\<close>, \<open>AiTxn\<close>).
  \<open>otlp_client.py\<close> mints tokens and classifies the answers to requests (\<open>Otlp\<close>). \<open>metrics.py\<close> counts
  (\<open>Metrics\<close>). \<open>loadgen.py\<close> is a pacer thread, a bounded queue and worker threads (\<open>LoadGen\<close>, its
  invariants in \<open>LoadGenFacts\<close>, its properties in \<open>LoadGenProps\<close>). \<open>main.py\<close> puts them together
  and writes the run's manifest (\<open>GenMain\<close>; its options, printed summary and the sampler's times in \<open>GenSummary\<close>). \<open>bench/validate_correctness.py\<close> reads the manifest and
  the table (\<open>Validate\<close>, its statements, document and printed lines in \<open>ValidateText\<close>). \<open>EndToEnd\<close> composes engine, manifest and gate. \<open>scripts/lib/cfg.py\<close>
  (\<open>CfgTool\<close>) and \<open>scripts/lib/duckdb_exec.py\<close> (\<open>SqlExec\<close>) serve the shell scripts;
  \<open>bench/host_agent.py\<close> samples a machine (\<open>ProcFs\<close> the parsers, \<open>HostAgent\<close> the agent).
  \<open>monitoring/exporters/pipeline_exporter.py\<close> polls agents, services, catalog, watermark and store and
  sets the gauges (\<open>Exporter\<close>, with both readers of times in \<open>IsoTime\<close>); \<open>Daemons\<close> has the loops of these
  two, how they reach others and the files they write, \<open>CommandLines\<close> the options; \<open>bench/parse_compactor_log.py\<close>
  makes records of the compactor's log (\<open>CompactorLog\<close>). From these files \<open>bench/report.py\<close> writes the
  report of a run (\<open>Stats\<close>, the figures in \<open>Report\<close>, the text in \<open>ReportText\<close>, the curves of the charts in
  \<open>ReportCharts\<close>; properties in \<open>ReportFacts\<close>, \<open>ReportTextFacts\<close>, \<open>ChartFacts\<close>), \<open>bench/publish_report.py\<close> a
  summary (\<open>PublishReport\<close>, its text in \<open>PublishText\<close>) and \<open>bench/customer_report.py\<close> the report over all runs
  (\<open>CustomerReport\<close>, its text in \<open>CustomerText\<close>, their agreement in \<open>CustomerTextFacts\<close>).
  \<open>bench/track_a.py\<close> measures the database engine alone (\<open>TrackA\<close> the protocol, \<open>TrackRuns\<close> the fifteen tests as
  acts against an engine, \<open>TrackRunFacts\<close> what holds for every engine). \<open>monitoring/grafana/build_dashboards.py\<close>
  writes the dashboards over all the metrics (\<open>Dashboards\<close>, its properties in \<open>DashboardFacts\<close>).

  \<^bold>\<open>How the code is read.\<close> \<open>Prelude\<close> holds the error monad, Python's rounding and division and the
  lemmas they share; \<open>PyVal\<close> the dynamic values of Python with truth, conversions and dictionaries;
  \<open>TextOps\<close> its string methods. A function that can raise returns \<open>pyexn + 'a\<close> and every raise is a
  branch. Python integers are \<open>int\<close>; a Protobuf \<open>int64\<close> field has its range check written out. Finite
  floats are exact rationals, with infinities and NaN as constructors where the code can meet them;
  rounding is modelled where the code calls \<open>round\<close> and nowhere else. Objects are records, methods
  are functions from state to state. Threads are a step relation given as executable functions: an
  action names who moves, and one step is one access to shared state, so a read and a write of the
  same variable are two steps. \<open>GenMain\<close> keeps the order of effects on the world as a list.
  In the reports the numbers read from files are finite and exact, texts are ASCII and the signs beyond it
  are written as their bytes; the variance stands for the standard deviation, or its root is an argument. A
  report is the list of its lines, or the exception that keeps it from being written. An act of the engine
  benchmark maps the state of the machine and the rows so far to a result or failure and the new state. \<open>datetime.fromisoformat\<close> is that of
  Python 3.11 and later. The exporter's clock stands still within one poll, but each
  of its statements on the catalog's files sees the table as it is by then. The agent's log is a path, which is the same as the handle it keeps
  unless the log has the name of the snapshot's temporary file; the engine's stamping never meets a number beyond \<open>int64\<close>, which
  \<open>Payload\<close> refuses.

  \<^bold>\<open>What the lemmas show.\<close> Configuration: what a loaded configuration guarantees, precedence of the
  layers, the capacity warnings. Payload: every template is well formed and stamping gives exactly the next
  numbers. Metrics: the books balance after any history, samples add up to totals. Engine: under
  every interleaving no batch is lost or sent with another's numbers, queue and requests in
  flight are bounded, steps tile the numbers, every step ends. Program: exit codes, dry run, plan. Gate:
  what the verdict means, that it depends on the multiset of rows of this run only. End to end: the
  manifest is what the engine did, and when a run passes. Scripts: paths and keys, splitting and
  redaction of SQL, the watched process, restarts, rates, pace. Exporter: each source has a result or a
  recorded failure, what the gauges of a host hold, the bands partition the files their statement saw, only declared series are set.
  Dashboards: every query is answered after a poll with everything up, and where panels overlap. Files: a reader of the agent's snapshot never
  sees half of one, and what the gate writes is what the report shows. Log parser: a line
  written as the compactor writes it is read back. Reports: the backlog figures are those of the
  catalogs that were polled, what a named constraint rests on and what has no say in it, that losses found by the gate are summed
  over the runs, that the customer's text tells line by line what the claims call for, which absent inputs a report
  names, that curves fit their times, and where a report says more than was measured. Engine benchmark:
  every row accounts for itself whatever the engine does.

  \<^bold>\<open>Interfaces.\<close> \<open>EndToEnd\<close> states what the program needs of an engine as the locale \<open>engine_driver\<close>,
  and interprets it with the engine of \<open>LoadGen\<close> played along a trace of actions. The files between the
  programs are interfaces too: \<open>ReportFacts\<close> feeds the exporter's samples to the report,
  \<open>CustomerReport\<close> the whole document of the gate, \<open>DashboardFacts\<close> the agents' snapshots to the exporter and its series to the dashboards.

  \<^bold>\<open>Bounds and fuel.\<close> No definition has fuel. The one loop that can wait for ever, the engine's, is
  a step relation; \<open>every_step_ends\<close> gives the number of turns and the time that are enough. A trace
  that stops short of the end of a step is the error branch of the driver.

  \<^bold>\<open>Parameters.\<close> Code that is not in the repository is an argument: the YAML and JSON libraries, the
  core random generator, \<open>ByteSize\<close>, token signing, the gRPC stub and its error details, the
  database and its \<open>hash\<close>, the texts Python gives to floats and lists, clocks, and what commands and files of the host contain.

  \<^bold>\<open>Not modelled.\<close> The command lines of the reports and of the scripts' helpers, logging, signal delivery, HTTP and sockets,
  writing of files except the agent's; how matplotlib draws a curve; what the database does with the statements of the engine
  benchmark, and the pool of threads of its last test. The shell scripts, SQL files and deployment files are not Python.
\<close>

end
